(* ===== verification/Rust_Prelude.thy ===== *)
theory Rust_Prelude
  imports Main "HOL-Library.Word"
begin

unbundle bit_operations_syntax

text \<open>
  What every component shares: machine integers, Rust's \<open>Result\<close> together with the
  possibility of a panic, slicing and indexing that panic out of range, the big- and
  little-endian byte codecs of the integer types, \<open>format!\<close>'s hexadecimal
  conversions, and the state passing used by code that talks to a device.
\<close>

section \<open>Machine integers and bytes\<close>

type_synonym u8 = "8 word"
type_synonym u16 = "16 word"
type_synonym u32 = "32 word"
type_synonym u64 = "64 word"
type_synonym bytes = "8 word list"

named_theorems wire_simps "the defining equations that evaluate encoders and decoders"
named_theorems no_panic "functions that never panic"
named_theorems codec_intros "round trips of the wire codecs, as introduction rules"

section \<open>Results, early returns and panics\<close>

text \<open>
  A Rust call either returns \<open>Ok\<close>, returns \<open>Err\<close> or panics (an index out of
  range, a failed \<open>expect\<close>). The three outcomes are \<open>Inr x\<close>, \<open>Inl (Fail e)\<close> and
  \<open>Inl Panic\<close>; \<open>and_then\<close> is the \<open>?\<close> operator, which returns early on the first two.
\<close>

datatype 'e fault = Fail 'e | Panic

type_synonym ('e, 'a) res = "'e fault + 'a"

definition and_then :: "('e, 'a) res \<Rightarrow> ('a \<Rightarrow> ('e, 'b) res) \<Rightarrow> ('e, 'b) res" where
  "and_then m f = (case m of Inl e \<Rightarrow> Inl e | Inr x \<Rightarrow> f x)"

definition or_else :: "('e, 'a) res \<Rightarrow> ('e \<Rightarrow> ('f, 'a) res) \<Rightarrow> ('f, 'a) res" where
  "or_else m f =
     (case m of Inl (Fail e) \<Rightarrow> f e | Inl Panic \<Rightarrow> Inl Panic | Inr x \<Rightarrow> Inr x)"

definition map_err :: "('e \<Rightarrow> 'f) \<Rightarrow> ('e, 'a) res \<Rightarrow> ('f, 'a) res" where
  "map_err g m =
     (case m of Inl (Fail e) \<Rightarrow> Inl (Fail (g e)) | Inl Panic \<Rightarrow> Inl Panic | Inr x \<Rightarrow> Inr x)"

lemma and_then_Inl [simp]: "and_then (Inl e) f = Inl e"
  by (simp add: and_then_def)

lemma and_then_Inr [simp]: "and_then (Inr x) f = f x"
  by (simp add: and_then_def)

lemma and_then_eq_Inr:
  "and_then m f = Inr y \<longleftrightarrow> (\<exists>x. m = Inr x \<and> f x = Inr y)"
  by (cases m) auto

lemma and_then_eq_Inl:
  "and_then m f = Inl e \<longleftrightarrow> m = Inl e \<or> (\<exists>x. m = Inr x \<and> f x = Inl e)"
  by (cases m) auto

lemma and_then_assoc: "and_then (and_then m f) g = and_then m (\<lambda>x. and_then (f x) g)"
  by (cases m) auto

lemma and_then_no_panic [no_panic]:
  "m \<noteq> Inl Panic \<Longrightarrow> (\<And>x. m = Inr x \<Longrightarrow> f x \<noteq> Inl Panic) \<Longrightarrow> and_then m f \<noteq> Inl Panic"
  by (cases m) auto

lemma or_else_simps [simp]:
  "or_else (Inr x) f = Inr x"
  "or_else (Inl (Fail e)) f = f e"
  "or_else (Inl Panic) f = Inl Panic"
  by (simp_all add: or_else_def)

lemma map_err_simps [simp]:
  "map_err g (Inr x) = Inr x"
  "map_err g (Inl (Fail e)) = Inl (Fail (g e))"
  "map_err g (Inl Panic) = Inl Panic"
  by (simp_all add: map_err_def)

lemma map_err_eq_Inr [simp]: "map_err g m = Inr x \<longleftrightarrow> m = Inr x"
  by (cases m) (auto simp: map_err_def split: fault.splits)

lemma map_err_eq_Panic [simp]: "map_err g m = Inl Panic \<longleftrightarrow> m = Inl Panic"
  by (cases m) (auto simp: map_err_def split: fault.splits)

lemma or_else_no_panic [no_panic]:
  "m \<noteq> Inl Panic \<Longrightarrow> (\<And>e. m = Inl (Fail e) \<Longrightarrow> f e \<noteq> Inl Panic) \<Longrightarrow> or_else m f \<noteq> Inl Panic"
  by (cases m) (auto simp: or_else_def split: fault.splits)

section \<open>Slices and indexing\<close>

definition rs_index :: "'a list \<Rightarrow> nat \<Rightarrow> ('e, 'a) res" where
  "rs_index xs i = (if i < length xs then Inr (xs ! i) else Inl Panic)"

definition rs_slice :: "'a list \<Rightarrow> nat \<Rightarrow> nat \<Rightarrow> ('e, 'a list) res" where
  "rs_slice xs a b =
     (if a \<le> b \<and> b \<le> length xs then Inr (take (b - a) (drop a xs)) else Inl Panic)"

lemma rs_index_in [simp]: "i < length xs \<Longrightarrow> rs_index xs i = Inr (xs ! i)"
  by (simp add: rs_index_def)

lemma rs_index_out: "length xs \<le> i \<Longrightarrow> rs_index xs i = Inl Panic"
  by (simp add: rs_index_def)

lemma rs_slice_in [simp]:
  "a \<le> b \<Longrightarrow> b \<le> length xs \<Longrightarrow> rs_slice xs a b = Inr (take (b - a) (drop a xs))"
  by (simp add: rs_slice_def)

lemma rs_slice_eq_Inr:
  "rs_slice xs a b = Inr ys \<longleftrightarrow> a \<le> b \<and> b \<le> length xs \<and> ys = take (b - a) (drop a xs)"
  by (auto simp: rs_slice_def)

lemma rs_index_eq_Inr: "rs_index xs i = Inr x \<longleftrightarrow> i < length xs \<and> x = xs ! i"
  by (auto simp: rs_index_def)

lemma rs_slice_append [simp]:
  "rs_slice (pre @ xs @ post) (length pre) (length pre + length xs) = Inr xs"
  by (simp add: rs_slice_def)

section \<open>Little- and big-endian integers\<close>

fun le_bytes :: "nat \<Rightarrow> 'a::len word \<Rightarrow> bytes" where
  "le_bytes 0 w = []"
| "le_bytes (Suc n) w = ucast w # le_bytes n (drop_bit 8 w)"

fun of_le :: "bytes \<Rightarrow> 'a::len word" where
  "of_le [] = 0"
| "of_le (b # bs) = ucast b OR push_bit 8 (of_le bs)"

definition be_bytes :: "nat \<Rightarrow> 'a::len word \<Rightarrow> bytes" where
  "be_bytes n w = rev (le_bytes n w)"

definition of_be :: "bytes \<Rightarrow> 'a::len word" where
  "of_be bs = of_le (rev bs)"

lemma length_le_bytes [simp]: "length (le_bytes n w) = n"
  by (induction n arbitrary: w) auto

lemma length_be_bytes [simp]: "length (be_bytes n w) = n"
  by (simp add: be_bytes_def)

lemma of_le_le_bytes: "of_le (le_bytes n (w :: 'a::len word)) = take_bit (8 * n) w"
proof (induction n arbitrary: w)
  case 0
  then show ?case by simp
next
  case (Suc n)
  have "ucast (ucast w :: u8) OR push_bit 8 (take_bit (8 * n) (drop_bit 8 w)) =
        take_bit (8 * Suc n) w"
    by (rule bit_word_eqI) (auto simp: bit_simps not_le not_less)
  then show ?case by (simp add: Suc.IH)
qed

lemma of_le_le_bytes_full [simp]:
  "LENGTH('a) \<le> 8 * n \<Longrightarrow> of_le (le_bytes n (w :: 'a::len word)) = w"
  by (simp add: of_le_le_bytes take_bit_word_eq_self)

lemma of_be_be_bytes_full [simp]:
  "LENGTH('a) \<le> 8 * n \<Longrightarrow> of_be (be_bytes n (w :: 'a::len word)) = w"
  by (simp add: of_be_def be_bytes_def)

lemma bit_of_le:
  "bit (of_le bs :: 'a::len word) i \<longleftrightarrow> i < LENGTH('a) \<and> i div 8 < length bs \<and> bit (bs ! (i div 8)) (i mod 8)"
proof (induction bs arbitrary: i)
  case Nil
  then show ?case by simp
next
  case (Cons b bs)
  show ?case
  proof (cases "i < 8")
    case True
    then show ?thesis by (auto simp: bit_simps)
  next
    case False
    then obtain k where k: "i = k + 8" by (metis add.commute le_Suc_ex not_less)
    have b: "\<not> bit b (k + 8)" by (simp add: bit_word.rep_eq)
    have d: "(k + 8) div 8 = Suc (k div 8)" by simp
    show ?thesis unfolding k by (auto simp: bit_simps Cons.IH b d)
  qed
qed

lemma le_bytes_of_le:
  "8 * length bs \<le> LENGTH('a) \<Longrightarrow> le_bytes (length bs) (of_le bs :: 'a::len word) = bs"
proof (induction bs)
  case Nil
  then show ?case by simp
next
  case (Cons b bs)
  have *: "drop_bit 8 (ucast b OR push_bit 8 (of_le bs) :: 'a word) = of_le bs"
  proof (rule bit_word_eqI)
    fix i assume "i < LENGTH('a)"
    have "\<not> bit b (8 + i)" by (simp add: bit_word.rep_eq)
    moreover have "bit (of_le bs :: 'a word) i \<Longrightarrow> 8 + i < LENGTH('a)"
      using Cons.prems by (auto simp: bit_of_le)
    ultimately show "bit (drop_bit 8 (ucast b OR push_bit 8 (of_le bs) :: 'a word)) i = bit (of_le bs :: 'a word) i"
      by (auto simp: bit_simps)
  qed
  have "ucast (ucast b OR push_bit 8 (of_le bs) :: 'a word) = b"
    using Cons.prems by (intro bit_word_eqI) (auto simp: bit_simps)
  with * Cons show ?case by simp
qed

lemma be_bytes_of_be:
  "8 * length bs \<le> LENGTH('a) \<Longrightarrow> be_bytes (length bs) (of_be bs :: 'a::len word) = bs"
  using le_bytes_of_le [of "rev bs", where 'a = 'a] by (simp add: be_bytes_def of_be_def)

lemma le_bytes_unfold [wire_simps]:
  "le_bytes 1 w = [ucast w]"
  "le_bytes 2 w = [ucast w, ucast (drop_bit 8 w)]"
  "le_bytes 4 w = [ucast w, ucast (drop_bit 8 w), ucast (drop_bit 16 w), ucast (drop_bit 24 w)]"
  by (simp_all add: eval_nat_numeral drop_bit_drop_bit)

lemma be_bytes_unfold [wire_simps]:
  "be_bytes 1 w = [ucast w]"
  "be_bytes 2 w = [ucast (drop_bit 8 w), ucast w]"
  "be_bytes 4 w = [ucast (drop_bit 24 w), ucast (drop_bit 16 w), ucast (drop_bit 8 w), ucast w]"
  by (simp_all add: be_bytes_def le_bytes_unfold)

text \<open>The length prefixes of the wire formats: \<open>len() as u16\<close> and \<open>len() as u32\<close> truncate.\<close>

lemma unat_of_nat_u16 [simp]: "n < 65536 \<Longrightarrow> unat (of_nat n :: u16) = n"
  by (simp add: unat_of_nat take_bit_nat_eq_self)

lemma unat_of_nat_u32 [simp]: "n < 4294967296 \<Longrightarrow> unat (of_nat n :: u32) = n"
  by (simp add: unat_of_nat take_bit_nat_eq_self)

lemma unat_u16_bound: "unat (w :: u16) < 65536"
  using unsigned_less [of w, where ?'a = nat] by simp

lemma unat_u32_bound: "unat (w :: u32) < 4294967296"
  using unsigned_less [of w, where ?'a = nat] by simp

lemma unat_u8_bound: "unat (w :: u8) < 256"
  using unsigned_less [of w, where ?'a = nat] by simp

text \<open>\<open>checked_add\<close> on a 64-bit \<open>usize\<close>.\<close>

definition checked_add_usize :: "nat \<Rightarrow> nat \<Rightarrow> nat option" where
  "checked_add_usize a b = (if a + b < 2 ^ 64 then Some (a + b) else None)"

section \<open>Formatting\<close>

definition hex_digit :: "nat \<Rightarrow> char" where
  "hex_digit d = (if d < 16 then ''0123456789abcdef'' ! d else CHR ''?'')"

fun hex_fixed :: "nat \<Rightarrow> nat \<Rightarrow> string" where
  "hex_fixed 0 n = []"
| "hex_fixed (Suc k) n = hex_fixed k (n div 16) @ [hex_digit (n mod 16)]"

text \<open>\<open>{:08x}\<close>, \<open>{:04x}\<close> and \<open>{:02x}\<close> of a 32-, 16- and 8-bit value have a fixed number of digits.\<close>

definition fmt_08x :: "u32 \<Rightarrow> string" where
  "fmt_08x w = hex_fixed 8 (unat w)"

definition fmt_04x :: "u16 \<Rightarrow> string" where
  "fmt_04x w = hex_fixed 4 (unat w)"

definition fmt_02x :: "u8 \<Rightarrow> string" where
  "fmt_02x w = hex_fixed 2 (unat w)"

fun fmt_dec :: "nat \<Rightarrow> string" where
  "fmt_dec n =
     (if n < 10 then [hex_digit n] else fmt_dec (n div 10) @ [hex_digit (n mod 10)])"

declare fmt_dec.simps [simp del]

definition fmt_bool :: "bool \<Rightarrow> string" where
  "fmt_bool b = (if b then ''true'' else ''false'')"

section \<open>State passing\<close>

text \<open>
  Code that talks to a device is a function of the device's state. \<open>st_then\<close> is the
  \<open>?\<close> operator, \<open>st_res\<close> lifts a computation that does not touch the device,
  \<open>st_catch\<close> runs a closure and keeps its \<open>Result\<close> as a value, and \<open>st_ignore\<close> is
  \<open>let _ = ...\<close>, which drops an error. A panic unwinds through all of them.
\<close>

type_synonym ('s, 'e, 'a) st = "'s \<Rightarrow> ('e, 'a) res \<times> 's"

definition st_res :: "('e, 'a) res \<Rightarrow> ('s, 'e, 'a) st" where
  "st_res r s = (r, s)"

definition st_then :: "('s, 'e, 'a) st \<Rightarrow> ('a \<Rightarrow> ('s, 'e, 'b) st) \<Rightarrow> ('s, 'e, 'b) st" where
  "st_then m f s = (case m s of (Inl e, s') \<Rightarrow> (Inl e, s') | (Inr x, s') \<Rightarrow> f x s')"

definition st_catch :: "('s, 'e, 'a) st \<Rightarrow> ('s, 'e, ('e, 'a) res) st" where
  "st_catch m s =
     (case m s of (Inl Panic, s') \<Rightarrow> (Inl Panic, s') | (r, s') \<Rightarrow> (Inr r, s'))"

definition st_ignore :: "('s, 'e, 'a) st \<Rightarrow> ('s, 'e, unit) st" where
  "st_ignore m s =
     (case m s of (Inl Panic, s') \<Rightarrow> (Inl Panic, s') | (_, s') \<Rightarrow> (Inr (), s'))"

lemma st_res_apply [simp]: "st_res r s = (r, s)"
  by (simp add: st_res_def)

lemma st_then_Inl [simp]: "m s = (Inl e, s') \<Longrightarrow> st_then m f s = (Inl e, s')"
  by (simp add: st_then_def)

lemma st_then_Inr [simp]: "m s = (Inr x, s') \<Longrightarrow> st_then m f s = f x s'"
  by (simp add: st_then_def)

lemma st_then_res [simp]:
  "st_then (st_res (Inr x)) f s = f x s"
  "st_then (st_res (Inl e)) f s = (Inl e, s)"
  by simp_all

lemma st_then_eq_Inr:
  "st_then m f s = (Inr y, t) \<longleftrightarrow> (\<exists>x s'. m s = (Inr x, s') \<and> f x s' = (Inr y, t))"
  by (auto simp: st_then_def split: prod.splits sum.splits)

lemma st_then_eq_Inl:
  "st_then m f s = (Inl e, t) \<longleftrightarrow>
     m s = (Inl e, t) \<or> (\<exists>x s'. m s = (Inr x, s') \<and> f x s' = (Inl e, t))"
  by (auto simp: st_then_def split: prod.splits sum.splits)

lemma st_then_no_panic [no_panic]:
  assumes "fst (m s) \<noteq> Inl Panic"
    and "\<And>x s'. m s = (Inr x, s') \<Longrightarrow> fst (f x s') \<noteq> Inl Panic"
  shows "fst (st_then m f s) \<noteq> Inl Panic"
  using assms by (auto simp: st_then_def split: prod.splits sum.splits)

lemma st_res_no_panic [no_panic]: "r \<noteq> Inl Panic \<Longrightarrow> fst (st_res r s) \<noteq> Inl Panic"
  by simp

end
