(* ===== verification/Tpm_Errors.thy ===== *)
theory Tpm_Errors
  imports Rust_Prelude
begin

text \<open>
  The error type of the TPM crate (\<open>crates/azure-tpm/src/error.rs\<close>), \<open>std::io::Error\<close>
  as far as the crate uses it (a kind with a message, or a boxed \<open>TpmError\<close>), and the
  command codes the errors mention (\<open>types.rs\<close>).
\<close>

datatype tpm_command_code =
    CreatePrimary | Load | Quote | RsaDecrypt | Sign | FlushContext | Unseal
  | VerifySignature | ReadPublic | PcrRead | PolicyPCR | Certify | StartAuthSession
  | PolicyGetDigest | NvReadPublic | NvRead | NvWrite | NvDefineSpace | NvUndefineSpace
  | NvExtend | NvCertify | EvictControl

fun command_code_u32 :: "tpm_command_code \<Rightarrow> u32" where
  "command_code_u32 CreatePrimary = 0x00000131"
| "command_code_u32 Load = 0x00000157"
| "command_code_u32 Quote = 0x00000158"
| "command_code_u32 RsaDecrypt = 0x00000159"
| "command_code_u32 Sign = 0x0000015D"
| "command_code_u32 FlushContext = 0x00000165"
| "command_code_u32 Unseal = 0x0000015E"
| "command_code_u32 VerifySignature = 0x00000177"
| "command_code_u32 ReadPublic = 0x00000173"
| "command_code_u32 PcrRead = 0x0000017E"
| "command_code_u32 PolicyPCR = 0x0000017F"
| "command_code_u32 Certify = 0x00000148"
| "command_code_u32 StartAuthSession = 0x00000176"
| "command_code_u32 PolicyGetDigest = 0x00000189"
| "command_code_u32 NvReadPublic = 0x00000169"
| "command_code_u32 NvRead = 0x0000014E"
| "command_code_u32 NvWrite = 0x00000137"
| "command_code_u32 NvDefineSpace = 0x0000012A"
| "command_code_u32 NvUndefineSpace = 0x00000122"
| "command_code_u32 NvExtend = 0x00000136"
| "command_code_u32 NvCertify = 0x00000184"
| "command_code_u32 EvictControl = 0x00000120"

text \<open>The derived \<open>Debug\<close> of the command code prints the variant's name.\<close>

fun command_code_debug :: "tpm_command_code \<Rightarrow> string" where
  "command_code_debug CreatePrimary = ''CreatePrimary''"
| "command_code_debug Load = ''Load''"
| "command_code_debug Quote = ''Quote''"
| "command_code_debug RsaDecrypt = ''RsaDecrypt''"
| "command_code_debug Sign = ''Sign''"
| "command_code_debug FlushContext = ''FlushContext''"
| "command_code_debug Unseal = ''Unseal''"
| "command_code_debug VerifySignature = ''VerifySignature''"
| "command_code_debug ReadPublic = ''ReadPublic''"
| "command_code_debug PcrRead = ''PcrRead''"
| "command_code_debug PolicyPCR = ''PolicyPCR''"
| "command_code_debug Certify = ''Certify''"
| "command_code_debug StartAuthSession = ''StartAuthSession''"
| "command_code_debug PolicyGetDigest = ''PolicyGetDigest''"
| "command_code_debug NvReadPublic = ''NvReadPublic''"
| "command_code_debug NvRead = ''NvRead''"
| "command_code_debug NvWrite = ''NvWrite''"
| "command_code_debug NvDefineSpace = ''NvDefineSpace''"
| "command_code_debug NvUndefineSpace = ''NvUndefineSpace''"
| "command_code_debug NvExtend = ''NvExtend''"
| "command_code_debug NvCertify = ''NvCertify''"
| "command_code_debug EvictControl = ''EvictControl''"

lemma command_code_u32_inject [simp]:
  "command_code_u32 a = command_code_u32 b \<longleftrightarrow> a = b"
  by (cases a; cases b; simp)

text \<open>\<open>OsKind\<close> stands for the kinds the operating system's errors have and the crate never names.\<close>

datatype io_kind =
    UnexpectedEof | InvalidData | InvalidInput | NotFound | PermissionDenied | OtherKind
  | OsKind nat

datatype tpm_error =
    Tpm_Rc u32 string "tpm_command_code option"
  | Unmarshal string
  | Validation string
  | Tpm_Io io_error
and io_error =
    Io_Msg io_kind string
  | Io_Tpm tpm_error

type_synonym 'a io_res = "(io_error, 'a) res"

abbreviation io_fail :: "io_kind \<Rightarrow> string \<Rightarrow> 'a io_res" where
  "io_fail k msg \<equiv> Inl (Fail (Io_Msg k msg))"

text \<open>\<open>io::Error::other\<close> gives the kind \<open>Other\<close>.\<close>

fun io_error_kind :: "io_error \<Rightarrow> io_kind" where
  "io_error_kind (Io_Msg k _) = k"
| "io_error_kind (Io_Tpm _) = OtherKind"

fun tpm_error_display :: "tpm_error \<Rightarrow> string" and io_error_display :: "io_error \<Rightarrow> string" where
  "tpm_error_display (Tpm_Rc rc d (Some cmd)) =
     ''TPM error 0x'' @ fmt_08x rc @ '' (command='' @ command_code_debug cmd @ ''/0x'' @
     fmt_08x (command_code_u32 cmd) @ ''): '' @ d"
| "tpm_error_display (Tpm_Rc rc d None) = ''TPM error 0x'' @ fmt_08x rc @ '': '' @ d"
| "tpm_error_display (Unmarshal context) = ''TPM unmarshal error: '' @ context"
| "tpm_error_display (Validation message) = ''TPM validation error: '' @ message"
| "tpm_error_display (Tpm_Io err) = ''TPM I/O error: '' @ io_error_display err"
| "io_error_display (Io_Msg _ msg) = msg"
| "io_error_display (Io_Tpm err) = tpm_error_display err"

definition tpm_error_from_io :: "io_error \<Rightarrow> tpm_error" where
  "tpm_error_from_io err = Tpm_Io err"

fun io_error_from_tpm :: "tpm_error \<Rightarrow> io_error" where
  "io_error_from_tpm (Tpm_Io io_err) = io_err"
| "io_error_from_tpm (Tpm_Rc rc d cmd) = Io_Tpm (Tpm_Rc rc d cmd)"
| "io_error_from_tpm (Unmarshal context) =
     Io_Msg InvalidData (tpm_error_display (Unmarshal context))"
| "io_error_from_tpm (Validation message) =
     Io_Msg InvalidInput (tpm_error_display (Validation message))"

fun tpm_rc_code :: "tpm_error \<Rightarrow> u32 option" where
  "tpm_rc_code (Tpm_Rc rc _ _) = Some rc"
| "tpm_rc_code _ = None"

text \<open>\<open>helpers.rs: tpm_rc_from_io_error\<close> looks for a boxed \<open>TpmError\<close> inside the I/O error.\<close>

fun tpm_rc_from_io_error :: "io_error \<Rightarrow> u32 option" where
  "tpm_rc_from_io_error (Io_Tpm te) = tpm_rc_code te"
| "tpm_rc_from_io_error (Io_Msg _ _) = None"

text \<open>Converting an I/O error to a \<open>TpmError\<close> and back loses nothing.\<close>

lemma io_error_from_tpm_from_io [simp]: "io_error_from_tpm (tpm_error_from_io e) = e"
  by (simp add: tpm_error_from_io_def)

lemma tpm_rc_from_io_error_from_tpm:
  "(\<And>e. te \<noteq> Tpm_Io e) \<Longrightarrow> tpm_rc_from_io_error (io_error_from_tpm te) = tpm_rc_code te"
  by (cases te) auto

end
