(* ===== verification/Tpm_Constants.thy ===== *)
theory Tpm_Constants
  imports Tpm_Errors
begin

text \<open>
  The constants, enumerations, attribute bit fields and message headers of
  \<open>crates/azure-tpm/src/types.rs\<close>.
\<close>

section \<open>Constants\<close>

definition TPM_ST_NO_SESSIONS :: u16 where "TPM_ST_NO_SESSIONS = 0x8001"
definition TPM_ST_SESSIONS :: u16 where "TPM_ST_SESSIONS = 0x8002"
definition TPM_RS_PW :: u32 where "TPM_RS_PW = 0x40000009"
definition ALG_SHA1 :: u16 where "ALG_SHA1 = 0x0004"
definition ALG_SHA256 :: u16 where "ALG_SHA256 = 0x000B"
definition ALG_SHA384 :: u16 where "ALG_SHA384 = 0x000C"
definition ALG_RSAES :: u16 where "ALG_RSAES = 0x0015"
definition ALG_OAEP :: u16 where "ALG_OAEP = 0x0017"
definition ALG_ECC :: u16 where "ALG_ECC = 0x0023"
definition TPM_ECC_NIST_P256 :: u16 where "TPM_ECC_NIST_P256 = 0x0003"

lemmas tpm_constant_defs = TPM_ST_NO_SESSIONS_def TPM_ST_SESSIONS_def TPM_RS_PW_def
  ALG_SHA1_def ALG_SHA256_def ALG_SHA384_def ALG_RSAES_def ALG_OAEP_def ALG_ECC_def
  TPM_ECC_NIST_P256_def

declare tpm_constant_defs [wire_simps]

section \<open>Hierarchies, algorithms\<close>

datatype hierarchy = Hierarchy_Null | Hierarchy_Owner | Hierarchy_Endorsement

fun hierarchy_handle :: "hierarchy \<Rightarrow> u32" where
  "hierarchy_handle Hierarchy_Owner = 0x40000001"
| "hierarchy_handle Hierarchy_Null = 0x40000007"
| "hierarchy_handle Hierarchy_Endorsement = 0x4000000B"

datatype pcr_algorithm = Pcr_Sha1 | Pcr_Sha256 | Pcr_Sha384

fun pcr_to_alg_id :: "pcr_algorithm \<Rightarrow> u16" where
  "pcr_to_alg_id Pcr_Sha1 = ALG_SHA1"
| "pcr_to_alg_id Pcr_Sha256 = ALG_SHA256"
| "pcr_to_alg_id Pcr_Sha384 = ALG_SHA384"

fun pcr_digest_len :: "pcr_algorithm \<Rightarrow> nat" where
  "pcr_digest_len Pcr_Sha1 = 20"
| "pcr_digest_len Pcr_Sha256 = 32"
| "pcr_digest_len Pcr_Sha384 = 48"

definition pcr_from_alg_id :: "u16 \<Rightarrow> pcr_algorithm option" where
  "pcr_from_alg_id i =
     (if i = ALG_SHA1 then Some Pcr_Sha1
      else if i = ALG_SHA256 then Some Pcr_Sha256
      else if i = ALG_SHA384 then Some Pcr_Sha384
      else None)"

fun pcr_algorithm_display :: "pcr_algorithm \<Rightarrow> string" where
  "pcr_algorithm_display Pcr_Sha1 = ''sha1''"
| "pcr_algorithm_display Pcr_Sha256 = ''sha256''"
| "pcr_algorithm_display Pcr_Sha384 = ''sha384''"

definition ascii_lower :: "char \<Rightarrow> char" where
  "ascii_lower c =
     (let n = (of_char c :: nat) in if 65 \<le> n \<and> n \<le> 90 then char_of (n + 32) else c)"

definition pcr_algorithm_from_str :: "string \<Rightarrow> (string, pcr_algorithm) res" where
  "pcr_algorithm_from_str s =
     (let l = map ascii_lower s in
      if l = ''sha1'' then Inr Pcr_Sha1
      else if l = ''sha256'' then Inr Pcr_Sha256
      else if l = ''sha384'' then Inr Pcr_Sha384
      else Inl (Fail (''unsupported PCR algorithm: '' @ s)))"

lemma pcr_from_to_alg_id [simp]: "pcr_from_alg_id (pcr_to_alg_id a) = Some a"
  by (cases a) (simp_all add: pcr_from_alg_id_def tpm_constant_defs)

lemma pcr_from_alg_id_Some: "pcr_from_alg_id i = Some a \<longleftrightarrow> i = pcr_to_alg_id a"
  by (cases a) (auto simp: pcr_from_alg_id_def tpm_constant_defs)

lemma pcr_algorithm_from_str_display:
  "pcr_algorithm_from_str (pcr_algorithm_display a) = Inr a"
  by (cases a) (simp_all add: pcr_algorithm_from_str_def ascii_lower_def)

lemma pcr_digest_len_pos [simp]: "0 < pcr_digest_len a"
  by (cases a) auto

text \<open>\<open>TpmAlgId\<close> is a \<open>repr(u16)\<close> enumeration.\<close>

datatype tpm_alg_id = Alg_Rsa | Alg_Sha256 | Alg_Null | Alg_RsaSsa | Alg_Ecdsa | Alg_Ecc

fun alg_id_u16 :: "tpm_alg_id \<Rightarrow> u16" where
  "alg_id_u16 Alg_Rsa = 0x0001"
| "alg_id_u16 Alg_Sha256 = 0x000b"
| "alg_id_u16 Alg_Null = 0x0010"
| "alg_id_u16 Alg_RsaSsa = 0x0014"
| "alg_id_u16 Alg_Ecdsa = 0x0018"
| "alg_id_u16 Alg_Ecc = 0x0023"

section \<open>Attribute bit fields\<close>

text \<open>
  A \<open>#[bitfield(u32)]\<close> struct lists its fields from bit 0 upwards, one bit for a
  \<open>bool\<close> and the given width otherwise. The layouts below are the source's field
  lists; \<open>None\<close> is a reserved field. \<open>with_field\<close> is the generated \<open>with_...\<close> setter.
\<close>

fun field_offset :: "'f \<Rightarrow> ('f option \<times> nat) list \<Rightarrow> nat" where
  "field_offset f [] = 0"
| "field_offset f ((g, w) # fs) = (if g = Some f then 0 else w + field_offset f fs)"

definition with_field :: "('f option \<times> nat) list \<Rightarrow> 'f \<Rightarrow> bool \<Rightarrow> u32 \<Rightarrow> u32" where
  "with_field layout f b w =
     (if b then set_bit (field_offset f layout) w else unset_bit (field_offset f layout) w)"

datatype tpma_nv_field =
    Nv_ppwrite | Nv_ownerwrite | Nv_authwrite | Nv_policywrite
  | Nt_counter | Nt_bits | Nt_extend
  | Nv_policy_delete | Nv_writelocked | Nv_writeall | Nv_writedefine | Nv_write_stclear
  | Nv_globallock | Nv_ppread | Nv_ownerread | Nv_authread | Nv_policyread
  | Nv_no_da | Nv_orderly | Nv_clear_stclear | Nv_readlocked | Nv_written
  | Nv_platformcreate | Nv_read_stclear

definition tpma_nv_layout :: "(tpma_nv_field option \<times> nat) list" where
  "tpma_nv_layout =
     [(Some Nv_ppwrite, 1), (Some Nv_ownerwrite, 1), (Some Nv_authwrite, 1), (Some Nv_policywrite, 1),
      (Some Nt_counter, 1), (Some Nt_bits, 1), (Some Nt_extend, 1), (None, 1), (None, 2),
      (Some Nv_policy_delete, 1), (Some Nv_writelocked, 1), (Some Nv_writeall, 1),
      (Some Nv_writedefine, 1), (Some Nv_write_stclear, 1), (Some Nv_globallock, 1),
      (Some Nv_ppread, 1), (Some Nv_ownerread, 1), (Some Nv_authread, 1), (Some Nv_policyread, 1),
      (None, 5), (Some Nv_no_da, 1), (Some Nv_orderly, 1), (Some Nv_clear_stclear, 1),
      (Some Nv_readlocked, 1), (Some Nv_written, 1), (Some Nv_platformcreate, 1),
      (Some Nv_read_stclear, 1)]"

datatype tpma_object_field =
    Fixed_tpm | St_clear | Fixed_parent | Sensitive_data_origin | User_with_auth
  | Admin_with_policy | No_da | Encrypted_duplication | Restricted | Decrypt | Sign_encrypt

definition tpma_object_layout :: "(tpma_object_field option \<times> nat) list" where
  "tpma_object_layout =
     [(None, 1), (Some Fixed_tpm, 1), (Some St_clear, 1), (None, 1), (Some Fixed_parent, 1),
      (Some Sensitive_data_origin, 1), (Some User_with_auth, 1), (Some Admin_with_policy, 1),
      (None, 2), (Some No_da, 1), (Some Encrypted_duplication, 1), (None, 4),
      (Some Restricted, 1), (Some Decrypt, 1), (Some Sign_encrypt, 1), (None, 13)]"

abbreviation nv_with :: "tpma_nv_field \<Rightarrow> u32 \<Rightarrow> u32" where
  "nv_with f w \<equiv> with_field tpma_nv_layout f True w"

abbreviation object_with :: "tpma_object_field \<Rightarrow> u32 \<Rightarrow> u32" where
  "object_with f w \<equiv> with_field tpma_object_layout f True w"

text \<open>Both layouts fill the 32 bits exactly.\<close>

lemma layouts_are_32_bits:
  "sum_list (map snd tpma_nv_layout) = 32" "sum_list (map snd tpma_object_layout) = 32"
  by (simp_all add: tpma_nv_layout_def tpma_object_layout_def)

text \<open>The constants \<open>TPMA_NV_...\<close> of the source agree with the bit field.\<close>

lemma nv_offsets:
  "field_offset Nv_ownerwrite tpma_nv_layout = 1"
  "field_offset Nv_authwrite tpma_nv_layout = 2"
  "field_offset Nv_ownerread tpma_nv_layout = 17"
  "field_offset Nv_authread tpma_nv_layout = 18"
  "field_offset Nt_extend tpma_nv_layout = 6"
  "field_offset Nv_no_da tpma_nv_layout = 25"
  "field_offset Nv_clear_stclear tpma_nv_layout = 27"
  "field_offset Nv_written tpma_nv_layout = 29"
  "field_offset Nv_platformcreate tpma_nv_layout = 30"
  by (simp_all add: tpma_nv_layout_def)

lemma object_offsets:
  "field_offset Fixed_tpm tpma_object_layout = 1"
  "field_offset Fixed_parent tpma_object_layout = 4"
  "field_offset Sensitive_data_origin tpma_object_layout = 5"
  "field_offset User_with_auth tpma_object_layout = 6"
  "field_offset No_da tpma_object_layout = 10"
  "field_offset Restricted tpma_object_layout = 16"
  "field_offset Decrypt tpma_object_layout = 17"
  "field_offset Sign_encrypt tpma_object_layout = 18"
  by (simp_all add: tpma_object_layout_def)

section \<open>Integers at an index\<close>

text \<open>\<open>u16::from_be_bytes([d[i], d[i + 1]])\<close> and its kin, which panic out of range.\<close>

definition be_u16_at :: "bytes \<Rightarrow> nat \<Rightarrow> ('e, u16) res" where
  "be_u16_at d i = and_then (rs_slice d i (i + 2)) (\<lambda>b. Inr (of_be b))"

definition be_u32_at :: "bytes \<Rightarrow> nat \<Rightarrow> ('e, u32) res" where
  "be_u32_at d i = and_then (rs_slice d i (i + 4)) (\<lambda>b. Inr (of_be b))"

definition le_u16_at :: "bytes \<Rightarrow> nat \<Rightarrow> ('e, u16) res" where
  "le_u16_at d i = and_then (rs_slice d i (i + 2)) (\<lambda>b. Inr (of_le b))"

definition le_u32_at :: "bytes \<Rightarrow> nat \<Rightarrow> ('e, u32) res" where
  "le_u32_at d i = and_then (rs_slice d i (i + 4)) (\<lambda>b. Inr (of_le b))"

lemma be_u16_at_in [simp]: "i + 2 \<le> length d \<Longrightarrow> be_u16_at d i = Inr (of_be (take 2 (drop i d)))"
  by (simp add: be_u16_at_def)

lemma be_u32_at_in [simp]: "i + 4 \<le> length d \<Longrightarrow> be_u32_at d i = Inr (of_be (take 4 (drop i d)))"
  by (simp add: be_u32_at_def)

lemma le_u16_at_in [simp]: "i + 2 \<le> length d \<Longrightarrow> le_u16_at d i = Inr (of_le (take 2 (drop i d)))"
  by (simp add: le_u16_at_def)

lemma le_u32_at_in [simp]: "i + 4 \<le> length d \<Longrightarrow> le_u32_at d i = Inr (of_le (take 4 (drop i d)))"
  by (simp add: le_u32_at_def)

section \<open>Message headers\<close>

record tpm_command_header =
  ch_tag :: u16
  ch_size :: u32
  ch_command_code :: tpm_command_code

definition header_no_sessions :: "tpm_command_code \<Rightarrow> tpm_command_header" where
  "header_no_sessions cc =
     \<lparr>ch_tag = TPM_ST_NO_SESSIONS, ch_size = 0, ch_command_code = cc\<rparr>"

definition header_sessions :: "tpm_command_code \<Rightarrow> tpm_command_header" where
  "header_sessions cc =
     \<lparr>ch_tag = TPM_ST_SESSIONS, ch_size = 0, ch_command_code = cc\<rparr>"

definition header_with_size :: "tpm_command_header \<Rightarrow> u32 \<Rightarrow> tpm_command_header" where
  "header_with_size h sz = h\<lparr>ch_size := sz\<rparr>"

definition command_header_marshal :: "tpm_command_header \<Rightarrow> bytes" where
  "command_header_marshal h =
     be_bytes 2 (ch_tag h) @ be_bytes 4 (ch_size h) @
     be_bytes 4 (command_code_u32 (ch_command_code h))"

record tpm_response_header =
  rh_tag :: u16
  rh_size :: u32
  rh_return_code :: u32

definition response_header_parse :: "bytes \<Rightarrow> (tpm_response_header \<times> nat) io_res" where
  "response_header_parse bs =
     (if length bs < 10 then io_fail UnexpectedEof ''TPM response header truncated''
      else
        and_then (be_u16_at bs 0) (\<lambda>tag.
        and_then (be_u32_at bs 2) (\<lambda>sz.
        if length bs < unat sz
        then io_fail InvalidData ''TPM response size larger than buffer''
        else
          and_then (be_u32_at bs 6) (\<lambda>return_code.
          Inr (\<lparr>rh_tag = tag, rh_size = sz, rh_return_code = return_code\<rparr>, 10)))))"

definition has_sessions :: "tpm_response_header \<Rightarrow> bool" where
  "has_sessions h \<longleftrightarrow> rh_tag h = TPM_ST_SESSIONS"

lemma length_command_header_marshal [simp]: "length (command_header_marshal h) = 10"
  by (simp add: command_header_marshal_def)

lemma response_header_parse_no_panic [no_panic]: "response_header_parse bs \<noteq> Inl Panic"
  by (simp add: response_header_parse_def)

lemma response_header_parse_Inr:
  "response_header_parse bs = Inr (h, c) \<Longrightarrow> c = 10 \<and> 10 \<le> length bs \<and> unat (rh_size h) \<le> length bs"
  by (auto simp: response_header_parse_def split: if_splits)

text \<open>A response buffer with the given header is parsed back to that header.\<close>

lemma response_header_parse_marshal:
  assumes "unat sz \<le> 10 + length body"
  shows "response_header_parse (be_bytes 2 tag @ be_bytes 4 sz @ be_bytes 4 code @ body) =
         Inr (\<lparr>rh_tag = tag, rh_size = sz, rh_return_code = code\<rparr>, 10)"
  using assms by (simp add: response_header_parse_def)

end
