(* ===== verification/Rust_Text.thy ===== *)
theory Rust_Text
  imports Rust_Prelude
begin

text \<open>
  The text functions of Rust's standard library that the parsers use: UTF-8 validation
  (\<open>str::from_utf8\<close>) and its lossy variant, \<open>lines\<close>, \<open>trim\<close> and \<open>trim_end_matches\<close>. A
  \<open>str\<close> is the list of its characters, each given by its UTF-8 bytes.
\<close>

type_synonym rs_str = "bytes list"

definition str_bytes :: "rs_str \<Rightarrow> bytes" where
  "str_bytes s = concat s"

section \<open>UTF-8\<close>

text \<open>
  The first character of a non-empty buffer: valid with its width, an invalid sequence
  with the length of its longest valid prefix, or a sequence cut off by the end.
\<close>

datatype utf8_step = Utf8_Valid nat | Utf8_Invalid nat | Utf8_Incomplete nat

definition continuation_byte :: "u8 \<Rightarrow> bool" where
  "continuation_byte b \<longleftrightarrow> 0x80 \<le> b \<and> b \<le> 0xBF"

fun expect_continuations :: "nat \<Rightarrow> nat \<Rightarrow> bytes \<Rightarrow> utf8_step" where
  "expect_continuations seen 0 bs = Utf8_Valid seen"
| "expect_continuations seen (Suc n) [] = Utf8_Incomplete seen"
| "expect_continuations seen (Suc n) (b # bs) =
     (if continuation_byte b then expect_continuations (seen + 1) n bs else Utf8_Invalid seen)"

definition second_byte_ok :: "u8 \<Rightarrow> u8 \<Rightarrow> bool" where
  "second_byte_ok a b \<longleftrightarrow>
     (if a = 0xE0 then 0xA0 \<le> b \<and> b \<le> 0xBF
      else if a = 0xED then 0x80 \<le> b \<and> b \<le> 0x9F
      else if a = 0xF0 then 0x90 \<le> b \<and> b \<le> 0xBF
      else if a = 0xF4 then 0x80 \<le> b \<and> b \<le> 0x8F
      else continuation_byte b)"

definition utf8_width :: "u8 \<Rightarrow> nat" where
  "utf8_width a =
     (if a < 0x80 then 1 else if 0xC2 \<le> a \<and> a \<le> 0xDF then 2
      else if 0xE0 \<le> a \<and> a \<le> 0xEF then 3 else if 0xF0 \<le> a \<and> a \<le> 0xF4 then 4 else 0)"

fun utf8_first :: "bytes \<Rightarrow> utf8_step" where
  "utf8_first [] = Utf8_Incomplete 0"
| "utf8_first (a # bs) =
     (let w = utf8_width a in
      if w = 0 then Utf8_Invalid 1
      else if w = 1 then Utf8_Valid 1
      else
        case bs of
          [] \<Rightarrow> Utf8_Incomplete 1
        | b # bs' \<Rightarrow>
            if second_byte_ok a b then expect_continuations 2 (w - 2) bs' else Utf8_Invalid 1)"

fun step_length :: "utf8_step \<Rightarrow> nat" where
  "step_length (Utf8_Valid n) = n"
| "step_length (Utf8_Invalid n) = n"
| "step_length (Utf8_Incomplete n) = n"

lemma expect_continuations_length:
  "step_length (expect_continuations seen n bs) \<ge> seen"
  by (induction seen n bs rule: expect_continuations.induct) auto

lemma utf8_first_positive: "bs \<noteq> [] \<Longrightarrow> 0 < step_length (utf8_first bs)"
  using expect_continuations_length
  by (cases bs)
    (auto simp: Let_def split: list.split intro: order.strict_trans2 [of 0 2])

text \<open>\<open>str::from_utf8\<close>: the characters, or where the input stops being valid and why.\<close>

function from_utf8 :: "nat \<Rightarrow> bytes \<Rightarrow> (nat \<times> nat option) + rs_str" where
  "from_utf8 at bs =
     (if bs = [] then Inr []
      else
        case utf8_first bs of
          Utf8_Valid n \<Rightarrow>
            (case from_utf8 (at + n) (drop n bs) of
               Inl e \<Rightarrow> Inl e
             | Inr cs \<Rightarrow> Inr (take n bs # cs))
        | Utf8_Invalid n \<Rightarrow> Inl (at, Some n)
        | Utf8_Incomplete n \<Rightarrow> Inl (at, None))"
  by pat_completeness auto
termination
proof (relation "measure (\<lambda>(at, bs). length bs)")
  fix at bs n
  assume "bs \<noteq> []" "utf8_first bs = Utf8_Valid n"
  then show "((at + n, drop n bs), (at, bs)) \<in> measure (\<lambda>(at, bs). length bs)"
    using utf8_first_positive [of bs] by auto
qed simp

declare from_utf8.simps [simp del]

text \<open>The \<open>Display\<close> of \<open>Utf8Error\<close>.\<close>

fun utf8_error_display :: "nat \<times> nat option \<Rightarrow> string" where
  "utf8_error_display (at, Some n) =
     ''invalid utf-8 sequence of '' @ fmt_dec n @ '' bytes from index '' @ fmt_dec at"
| "utf8_error_display (at, None) = ''incomplete utf-8 byte sequence from index '' @ fmt_dec at"

text \<open>\<open>String::from_utf8_lossy\<close> puts U+FFFD for each invalid sequence.\<close>

definition replacement_character :: bytes where
  "replacement_character = [0xEF, 0xBF, 0xBD]"

function from_utf8_lossy :: "bytes \<Rightarrow> rs_str" where
  "from_utf8_lossy bs =
     (if bs = [] then []
      else
        let step = utf8_first bs; n = step_length step in
        (case step of Utf8_Valid _ \<Rightarrow> take n bs | _ \<Rightarrow> replacement_character) #
        from_utf8_lossy (drop n bs))"
  by pat_completeness auto
termination
proof (relation "measure length")
  fix bs :: bytes and x xa
  assume "bs \<noteq> []" "x = utf8_first bs" "xa = step_length x"
  then show "(drop xa bs, bs) \<in> measure length"
    using utf8_first_positive [of bs] by auto
qed simp

declare from_utf8_lossy.simps [simp del]

lemma from_utf8_bytes: "from_utf8 at bs = Inr cs \<Longrightarrow> str_bytes cs = bs"
proof (induction at bs arbitrary: cs rule: from_utf8.induct)
  case (1 at bs)
  show ?case
  proof (cases "bs = []")
    case True
    with "1.prems" show ?thesis by (simp add: from_utf8.simps [of at "[]"] str_bytes_def)
  next
    case False
    with "1.prems" obtain n cs' where n: "utf8_first bs = Utf8_Valid n"
      and r: "from_utf8 (at + n) (drop n bs) = Inr cs'" and c: "cs = take n bs # cs'"
      by (simp add: from_utf8.simps [of at bs] split: utf8_step.splits sum.splits)
    from "1.IH" [OF False n r] c show ?thesis by (simp add: str_bytes_def)
  qed
qed

text \<open>Lossy decoding keeps valid input.\<close>

lemma from_utf8_lossy_valid: "from_utf8 at bs = Inr cs \<Longrightarrow> from_utf8_lossy bs = cs"
proof (induction at bs arbitrary: cs rule: from_utf8.induct)
  case (1 at bs)
  show ?case
  proof (cases "bs = []")
    case True
    with "1.prems" show ?thesis by (simp add: from_utf8.simps [of at "[]"] from_utf8_lossy.simps)
  next
    case False
    with "1.prems" obtain n cs' where n: "utf8_first bs = Utf8_Valid n"
      and r: "from_utf8 (at + n) (drop n bs) = Inr cs'" and c: "cs = take n bs # cs'"
      by (simp add: from_utf8.simps [of at bs] split: utf8_step.splits sum.splits)
    from "1.IH" [OF False n r] False n c show ?thesis
      by (simp add: from_utf8_lossy.simps [of bs])
  qed
qed

section \<open>Lines and trimming\<close>

text \<open>\<open>char::is_whitespace\<close>, the Unicode property \<open>White_Space\<close>.\<close>

definition is_whitespace :: "bytes \<Rightarrow> bool" where
  "is_whitespace ch \<longleftrightarrow>
     ch \<in> set ([[0x09], [0x0A], [0x0B], [0x0C], [0x0D], [0x20], [0xC2, 0x85], [0xC2, 0xA0],
       [0xE1, 0x9A, 0x80], [0xE2, 0x80, 0xA8], [0xE2, 0x80, 0xA9], [0xE2, 0x80, 0xAF],
       [0xE2, 0x81, 0x9F], [0xE3, 0x80, 0x80]] @
       map (\<lambda>k. [0xE2, 0x80, 0x80 + of_nat k]) [0..<11])"

definition trim_end_matches :: "(bytes \<Rightarrow> bool) \<Rightarrow> rs_str \<Rightarrow> rs_str" where
  "trim_end_matches p s = rev (dropWhile p (rev s))"

definition str_trim :: "rs_str \<Rightarrow> rs_str" where
  "str_trim s = trim_end_matches is_whitespace (dropWhile is_whitespace s)"

text \<open>\<open>str::lines\<close>: split after each newline; a line loses its newline and one carriage return before it.\<close>

definition strip_cr :: "rs_str \<Rightarrow> rs_str" where
  "strip_cr s = (if s \<noteq> [] \<and> last s = [0x0D] then butlast s else s)"

fun str_lines_from :: "rs_str \<Rightarrow> rs_str \<Rightarrow> rs_str list" where
  "str_lines_from acc [] = (if acc = [] then [] else [acc])"
| "str_lines_from acc (c # cs) =
     (if c = [0x0A] then strip_cr acc # str_lines_from [] cs else str_lines_from (acc @ [c]) cs)"

definition str_lines :: "rs_str \<Rightarrow> rs_str list" where
  "str_lines s = str_lines_from [] s"

definition ascii_bytes :: "string \<Rightarrow> bytes" where
  "ascii_bytes s = map of_char s"

definition ascii_str :: "string \<Rightarrow> rs_str" where
  "ascii_str s = map (\<lambda>c. [of_char c]) s"

lemma str_bytes_ascii_str: "str_bytes (ascii_str k) = ascii_bytes k"
  by (induction k) (simp_all add: str_bytes_def ascii_str_def ascii_bytes_def)

lemma from_utf8_ascii:
  "b < 0x80 \<Longrightarrow>
     from_utf8 at (b # bs) = (case from_utf8 (at + 1) bs of Inl e \<Rightarrow> Inl e | Inr cs \<Rightarrow> Inr ([b] # cs))"
  by (simp add: from_utf8.simps [of at "b # bs"] utf8_width_def split: sum.split)

lemma from_utf8_ascii_list: "list_all (\<lambda>b. b < 0x80) bs \<Longrightarrow> \<exists>cs. from_utf8 at bs = Inr cs"
proof (induction bs arbitrary: at)
  case Nil
  then show ?case by (simp add: from_utf8.simps)
next
  case (Cons b bs)
  then obtain cs where "from_utf8 (at + 1) bs = Inr cs" by fastforce
  with Cons.prems show ?case by (simp add: from_utf8_ascii)
qed

end
