(* ===== verification/Maa_Endpoint.thy ===== *)
theory Maa_Endpoint
  imports Tpm_Constants Rust_Text
begin

text \<open>
  \<open>crates/azure-guest-attestation-sdk/src/endpoint.rs\<close>: the attestation service of a
  region, with \<open>resolve_maa_url\<close> of \<open>guest_attest/provider.rs\<close>. A \<open>String\<close> that is built and
  sent is its UTF-8 bytes as a \<open>string\<close>; a region name that is normalized is the list of
  its characters. Lower-casing a character outside ASCII is the parameter \<open>lower\<close>, the
  Unicode table of \<open>char::to_lowercase\<close>.
\<close>

definition DEFAULT_COMMERCIAL_BASE_URL :: string where
  "DEFAULT_COMMERCIAL_BASE_URL = ''https://sharedeus.eus.attest.azure.net''"

definition DEFAULT_USGOV_BASE_URL :: string where
  "DEFAULT_USGOV_BASE_URL = ''https://sharedugv.ugv.attest.azure.us''"

definition COMMERCIAL_ENDPOINTS :: "(string \<times> string) list" where
  "COMMERCIAL_ENDPOINTS =
     [(''australiacentral'', ''https://sharedcau.cau.attest.azure.net''),
      (''australiacentral2'', ''https://sharedcau2.cau2.attest.azure.net''),
      (''australiaeast'', ''https://sharedeau.eau.attest.azure.net''),
      (''australiasoutheast'', ''https://sharedsau.sau.attest.azure.net''),
      (''austriaeast'', ''https://sharedate.ate.attest.azure.net''),
      (''brazilsouth'', ''https://sharedsbr.sbr.attest.azure.net''),
      (''brazilsoutheast'', ''https://sharedsebr.sebr.attest.azure.net''),
      (''canadacentral'', ''https://sharedcac.cac.attest.azure.net''),
      (''canadaeast'', ''https://sharedcae.cae.attest.azure.net''),
      (''centralindia'', ''https://sharedcin.cin.attest.azure.net''),
      (''centralus'', ''https://sharedcus.cus.attest.azure.net''),
      (''centraluseuap'', ''https://sharedcuse.cuse.attest.azure.net''),
      (''chilecentral'', ''https://sharedclc.clc.attest.azure.net''),
      (''eastasia'', ''https://sharedeasia.easia.attest.azure.net''),
      (''eastus'', ''https://sharedeus.eus.attest.azure.net''),
      (''eastus2'', ''https://sharedeus2.eus2.attest.azure.net''),
      (''eastus2euap'', ''https://sharedeus2e.eus2e.attest.azure.net''),
      (''francecentral'', ''https://sharedfrc.frc.attest.azure.net''),
      (''francesouth'', ''https://sharedfrs.frs.attest.azure.net''),
      (''germanynorth'', ''https://sharedden.den.attest.azure.net''),
      (''germanywestcentral'', ''https://shareddewc.dewc.attest.azure.net''),
      (''israelcentral'', ''https://sharedilc.ilc.attest.azure.net''),
      (''italynorth'', ''https://shareditn.itn.attest.azure.net''),
      (''japaneast'', ''https://sharedjpe.jpe.attest.azure.net''),
      (''japanwest'', ''https://sharedjpw.jpw.attest.azure.net''),
      (''jioindiacentral'', ''https://sharedjinc.jinc.attest.azure.net''),
      (''jioindiawest'', ''https://sharedjinw.jinw.attest.azure.net''),
      (''koreacentral'', ''https://sharedkrc.krc.attest.azure.net''),
      (''koreasouth'', ''https://sharedkrs.krs.attest.azure.net''),
      (''malaysiasouth'', ''https://sharedmys.mys.attest.azure.net''),
      (''mexicocentral'', ''https://sharedmxc.mxc.attest.azure.net''),
      (''newzealandnorth'', ''https://sharednzn.nzn.attest.azure.net''),
      (''northcentralus'', ''https://sharedncus.ncus.attest.azure.net''),
      (''northeurope'', ''https://sharedneu.neu.attest.azure.net''),
      (''norwayeast'', ''https://sharednoe.noe.attest.azure.net''),
      (''norwaywest'', ''https://sharednow.now.attest.azure.net''),
      (''polandcentral'', ''https://sharedplc.plc.attest.azure.net''),
      (''southafricanorth'', ''https://sharedsan.san.attest.azure.net''),
      (''southafricawest'', ''https://sharedsaw.saw.attest.azure.net''),
      (''southcentralus'', ''https://sharedscus.scus.attest.azure.net''),
      (''southindia'', ''https://sharedsin.sin.attest.azure.net''),
      (''southeastasia'', ''https://sharedsasia.sasia.attest.azure.net''),
      (''spaincentral'', ''https://sharedesc.esc.attest.azure.net''),
      (''swedencentral'', ''https://sharedsec.sec.attest.azure.net''),
      (''swedensouth'', ''https://sharedses.ses.attest.azure.net''),
      (''switzerlandnorth'', ''https://sharedswn.swn.attest.azure.net''),
      (''switzerlandwest'', ''https://sharedsww.sww.attest.azure.net''),
      (''taiwannorth'', ''https://sharedtwn.twn.attest.azure.net''),
      (''taiwannorthwest'', ''https://sharedtwnw.twnw.attest.azure.net''),
      (''uaecentral'', ''https://shareduaec.uaec.attest.azure.net''),
      (''uaenorth'', ''https://shareduaen.uaen.attest.azure.net''),
      (''uksouth'', ''https://shareduks.uks.attest.azure.net''),
      (''ukwest'', ''https://sharedukw.ukw.attest.azure.net''),
      (''westcentralus'', ''https://sharedwcus.wcus.attest.azure.net''),
      (''westeurope'', ''https://sharedweu.weu.attest.azure.net''),
      (''westindia'', ''https://sharedwin.win.attest.azure.net''),
      (''westus'', ''https://sharedwus.wus.attest.azure.net''),
      (''westus2'', ''https://sharedwus2.wus2.attest.azure.net''),
      (''westus3'', ''https://sharedwus3.wus3.attest.azure.net'')]"

definition USGOV_ENDPOINTS :: "(string \<times> string) list" where
  "USGOV_ENDPOINTS =
     [(''usgovvirginia'', ''https://sharedugv.ugv.attest.azure.us''),
      (''usgovarizona'', ''https://shareduga.uga.attest.azure.us''),
      (''usgovtexas'', ''https://shareduga.uga.attest.azure.us'')]"

section \<open>Regions\<close>

definition char_lowercase :: "(bytes \<Rightarrow> rs_str) \<Rightarrow> bytes \<Rightarrow> rs_str" where
  "char_lowercase lower ch =
     (case ch of
        [b] \<Rightarrow> if 0x41 \<le> b \<and> b \<le> 0x5A then [[b + 0x20]] else [[b]]
      | _ \<Rightarrow> lower ch)"

definition normalize_region :: "(bytes \<Rightarrow> rs_str) \<Rightarrow> rs_str \<Rightarrow> rs_str" where
  "normalize_region lower region =
     concat (map (char_lowercase lower) (filter (\<lambda>c. \<not> is_whitespace c) region))"

definition lookup_normalized :: "rs_str \<Rightarrow> string option" where
  "lookup_normalized key =
     map_option snd (find (\<lambda>(k, _). ascii_bytes k = str_bytes key) (COMMERCIAL_ENDPOINTS @ USGOV_ENDPOINTS))"

definition maa_base_url_for_region :: "(bytes \<Rightarrow> rs_str) \<Rightarrow> rs_str \<Rightarrow> string option" where
  "maa_base_url_for_region lower region = lookup_normalized (normalize_region lower region)"

definition has_prefix :: "'a list \<Rightarrow> 'a list \<Rightarrow> bool" where
  "has_prefix s p \<longleftrightarrow> take (length p) s = p"

definition maa_base_url_for_region_or_default :: "(bytes \<Rightarrow> rs_str) \<Rightarrow> rs_str \<Rightarrow> string" where
  "maa_base_url_for_region_or_default lower region =
     (let key = normalize_region lower region in
      case lookup_normalized key of
        Some url \<Rightarrow> url
      | None \<Rightarrow>
          if has_prefix (str_bytes key) (ascii_bytes ''usgov'') then DEFAULT_USGOV_BASE_URL
          else DEFAULT_COMMERCIAL_BASE_URL)"

section \<open>Request addresses\<close>

fun str_contains :: "'a list \<Rightarrow> 'a list \<Rightarrow> bool" where
  "str_contains [] p \<longleftrightarrow> p = []"
| "str_contains (c # cs) p \<longleftrightarrow> has_prefix (c # cs) p \<or> str_contains cs p"

definition trim_end_slashes :: "string \<Rightarrow> string" where
  "trim_end_slashes s = rev (dropWhile (\<lambda>c. c = CHR ''/'') (rev s))"

definition GUEST_ATTEST_PATH :: string where "GUEST_ATTEST_PATH = ''/attest/AzureGuest''"
definition GUEST_ATTEST_API_VERSION :: string where "GUEST_ATTEST_API_VERSION = ''2020-10-01''"
definition TEE_SNP_PATH :: string where "TEE_SNP_PATH = ''/attest/SevSnpVm''"
definition TEE_TDX_PATH :: string where "TEE_TDX_PATH = ''/attest/TdxVm''"
definition TEE_ATTEST_API_VERSION :: string where "TEE_ATTEST_API_VERSION = ''2023-04-01-preview''"

definition resolve_maa_url :: "string \<Rightarrow> string \<Rightarrow> string \<Rightarrow> string" where
  "resolve_maa_url base path api_version =
     (if str_contains base ''/attest/'' then base
      else trim_end_slashes base @ path @ ''?api-version='' @ api_version)"

section \<open>Facts\<close>

lemma str_contains_iff: "str_contains s p \<longleftrightarrow> (\<exists>pre post. s = pre @ p @ post)"
proof (induction s)
  case Nil
  then show ?case by auto
next
  case (Cons c cs)
  have "has_prefix (c # cs) p \<longleftrightarrow> (\<exists>post. c # cs = p @ post)"
    unfolding has_prefix_def by (metis append_eq_conv_conj append_take_drop_id)
  moreover have "(\<exists>pre post. c # cs = pre @ p @ post) \<longleftrightarrow>
      (\<exists>post. c # cs = p @ post) \<or> (\<exists>pre post. cs = pre @ p @ post)"
    by (metis append_Cons append_Nil list.inject neq_Nil_conv)
  ultimately show ?case using Cons.IH by simp
qed

text \<open>Every address of the tables is https and in the attestation domain of its cloud.\<close>

definition well_formed_base :: "string \<Rightarrow> string \<Rightarrow> bool" where
  "well_formed_base domain url \<longleftrightarrow>
     has_prefix url ''https://shared'' \<and> has_prefix (rev url) (rev domain) \<and>
     \<not> str_contains url ''/attest/'' \<and> trim_end_slashes url = url"

lemma table_addresses:
  "list_all (\<lambda>(k, url). well_formed_base ''.attest.azure.net'' url) COMMERCIAL_ENDPOINTS"
  "list_all (\<lambda>(k, url). well_formed_base ''.attest.azure.us'' url) USGOV_ENDPOINTS"
  "well_formed_base ''.attest.azure.net'' DEFAULT_COMMERCIAL_BASE_URL"
  "well_formed_base ''.attest.azure.us'' DEFAULT_USGOV_BASE_URL"
  by code_simp+

lemma table_keys_distinct: "distinct (map fst (COMMERCIAL_ENDPOINTS @ USGOV_ENDPOINTS))"
  by code_simp

lemma find_is_map_of: "map_option snd (find (\<lambda>(k, _). k = x) xs) = map_of xs x"
  by (induction xs) auto

definition ascii :: "string \<Rightarrow> bool" where
  "ascii s \<longleftrightarrow> list_all (\<lambda>c. (of_char c :: nat) < 128) s"

definition ascii_key :: "string \<Rightarrow> string" where
  "ascii_key s = map ascii_lower (filter (\<lambda>c. (of_char c :: nat) \<notin> {9..13} \<union> {32}) s)"

lemma unat_of_char [simp]: "unat (of_char c :: u8) = of_char c"
proof -
  have "unat (of_nat (of_char c) :: u8) = of_char c"
    using nat_of_char_less_256 [of c] by (simp only: unat_of_nat) simp
  then show ?thesis unfolding of_nat_of_char .
qed

lemma ascii_bytes_inject: "ascii_bytes s = ascii_bytes t \<longleftrightarrow> s = t"
proof
  assume "ascii_bytes s = ascii_bytes t"
  then have "map unat (ascii_bytes s) = map unat (ascii_bytes t)" by simp
  then have "map (of_char :: char \<Rightarrow> nat) s = map of_char t"
    by (simp add: ascii_bytes_def comp_def)
  moreover have "inj (of_char :: char \<Rightarrow> nat)" by (auto simp: inj_def)
  ultimately show "s = t" by (simp add: inj_map_eq_map)
qed simp

lemma ascii_whitespace:
  "is_whitespace [of_char c] \<longleftrightarrow> (of_char c :: nat) \<in> {9..13} \<union> {32}"
proof -
  have "is_whitespace [of_char c] \<longleftrightarrow> (of_char c :: u8) \<in> {0x09, 0x0A, 0x0B, 0x0C, 0x0D, 0x20}"
    by (auto simp: is_whitespace_def)
  also have "\<dots> \<longleftrightarrow> (of_char c :: nat) \<in> {9, 10, 11, 12, 13, 32}"
    unfolding unat_of_char [symmetric] by (auto simp: word_unat_eq_iff)
  also have "\<dots> \<longleftrightarrow> (of_char c :: nat) \<in> {9..13} \<union> {32}" by auto
  finally show ?thesis .
qed

lemma normalize_ascii:
  assumes "ascii s"
  shows "normalize_region lower (ascii_str s) = ascii_str (ascii_key s)"
proof -
  have low: "char_lowercase lower [of_char c] = [[of_char (ascii_lower c)]]" for c
  proof -
    have "0x41 \<le> (of_char c :: u8) \<longleftrightarrow> 65 \<le> (of_char c :: nat)"
      "(of_char c :: u8) \<le> 0x5A \<longleftrightarrow> (of_char c :: nat) \<le> 90"
      by (simp_all add: word_le_nat_alt)
    moreover have "(of_char (char_of (n + 32) :: char) :: u8) = of_char c + 0x20"
      if "of_char c = n" "n \<le> 90" for n :: nat
    proof (rule word_unat_eq_iff [THEN iffD2])
      have "unat (of_char c + 0x20 :: u8) = of_char c + 32"
        using that by (simp add: unat_word_ariths)
      then show "unat (of_char (char_of (n + 32) :: char) :: u8) = unat (of_char c + 0x20 :: u8)"
        using that by simp
    qed
    ultimately show ?thesis by (simp add: char_lowercase_def ascii_lower_def Let_def)
  qed
  show ?thesis
    by (induction s) (auto simp: normalize_region_def ascii_str_def ascii_key_def low ascii_whitespace)
qed

lemma lookup_ascii: "lookup_normalized (ascii_str k) = map_of (COMMERCIAL_ENDPOINTS @ USGOV_ENDPOINTS) k"
  by (simp add: lookup_normalized_def str_bytes_ascii_str ascii_bytes_inject find_is_map_of del: map_of_append)

lemma has_prefix_ascii: "has_prefix (ascii_bytes s) (ascii_bytes p) \<longleftrightarrow> has_prefix s p"
  by (simp add: has_prefix_def ascii_bytes_inject flip: ascii_bytes_def take_map) (simp add: ascii_bytes_def take_map ascii_bytes_inject [unfolded ascii_bytes_def])

lemma table_address:
  "map_of (COMMERCIAL_ENDPOINTS @ USGOV_ENDPOINTS) k = Some url \<Longrightarrow>
     well_formed_base ''.attest.azure.net'' url \<or> well_formed_base ''.attest.azure.us'' url"
  using table_addresses(1,2) by (fastforce simp: list_all_iff dest: map_of_SomeD simp del: map_of_append)

lemma resolve_base: "well_formed_base domain url \<Longrightarrow> resolve_maa_url url path v = url @ path @ ''?api-version='' @ v"
  by (simp add: well_formed_base_def resolve_maa_url_def)

lemma resolve_resolved: "str_contains s ''/attest/'' \<Longrightarrow> resolve_maa_url s path v = s"
  by (simp add: resolve_maa_url_def)

text \<open>
  The service chosen for an ASCII region name is the entry of the tables under the
  name without its spaces in lower case, or the default of its cloud; it is always an
  https address of a shared service in the domain of one of the two clouds, and the
  request address appends the attestation path to it exactly once.
\<close>

theorem maa_addresses:
  assumes "ascii s"
  shows "maa_base_url_for_region lower (ascii_str s) =
      map_of (COMMERCIAL_ENDPOINTS @ USGOV_ENDPOINTS) (ascii_key s) \<and>
    (let url = maa_base_url_for_region_or_default lower (ascii_str s);
         target = resolve_maa_url url GUEST_ATTEST_PATH GUEST_ATTEST_API_VERSION
     in url = (case map_of (COMMERCIAL_ENDPOINTS @ USGOV_ENDPOINTS) (ascii_key s) of
                 Some u \<Rightarrow> u
               | None \<Rightarrow> if has_prefix (ascii_key s) ''usgov'' then ''https://sharedugv.ugv.attest.azure.us''
                        else ''https://sharedeus.eus.attest.azure.net'') \<and>
        (well_formed_base ''.attest.azure.net'' url \<or> well_formed_base ''.attest.azure.us'' url) \<and>
        target = url @ ''/attest/AzureGuest?api-version=2020-10-01'' \<and>
        resolve_maa_url target TEE_SNP_PATH TEE_ATTEST_API_VERSION = target)"
proof -
  let ?T = "COMMERCIAL_ENDPOINTS @ USGOV_ENDPOINTS" and ?k = "ascii_key s"
  let ?url = "maa_base_url_for_region_or_default lower (ascii_str s)"
  let ?target = "resolve_maa_url ?url GUEST_ATTEST_PATH GUEST_ATTEST_API_VERSION"
  note defaults = DEFAULT_USGOV_BASE_URL_def DEFAULT_COMMERCIAL_BASE_URL_def
  have url: "?url = (case map_of ?T ?k of Some u \<Rightarrow> u
      | None \<Rightarrow> if has_prefix ?k ''usgov'' then ''https://sharedugv.ugv.attest.azure.us''
               else ''https://sharedeus.eus.attest.azure.net'')"
    by (simp add: maa_base_url_for_region_or_default_def normalize_ascii [OF assms] lookup_ascii Let_def
        str_bytes_ascii_str has_prefix_ascii defaults split: option.split del: map_of_append)
  have wf: "well_formed_base ''.attest.azure.net'' ?url \<or> well_formed_base ''.attest.azure.us'' ?url"
    using table_address [of ?k] table_addresses(3,4) unfolding url defaults
    by (cases "map_of ?T ?k") (simp_all del: map_of_append)
  then have target: "?target = ?url @ ''/attest/AzureGuest?api-version=2020-10-01''"
    by (auto simp: resolve_base GUEST_ATTEST_PATH_def GUEST_ATTEST_API_VERSION_def)
  have again: "str_contains ?target ''/attest/''"
    unfolding str_contains_iff target by (intro exI [of _ ?url] exI [of _ "''AzureGuest?api-version=2020-10-01''"]) simp
  show ?thesis
    unfolding Let_def
    by (intro conjI url wf target resolve_resolved [OF again])
      (simp add: maa_base_url_for_region_def normalize_ascii [OF assms] lookup_ascii del: map_of_append)
qed

theorem maa_addresses_witness:
  "ascii ''East US'' \<and>
   maa_base_url_for_region (\<lambda>c. [c]) (ascii_str ''East US'') = Some ''https://sharedeus.eus.attest.azure.net''"
proof -
  have a: "ascii ''East US''" by code_simp
  have "map_of (COMMERCIAL_ENDPOINTS @ USGOV_ENDPOINTS) (ascii_key ''East US'') = Some ''https://sharedeus.eus.attest.azure.net''"
    by code_simp
  with maa_addresses [OF a, of "\<lambda>c. [c]"] a show ?thesis by simp
qed

end
