(* ===== verification/Tpm_Wire.thy ===== *)
theory Tpm_Wire
  imports Tpm_Constants
begin

text \<open>
  The traits \<open>TpmMarshal\<close> and \<open>TpmUnmarshal\<close> of \<open>crates/azure-tpm/src/types.rs\<close> as
  interfaces, their instances for the integer types and the sized buffers, and the
  PCR selection and digest lists.

  \<open>marshal(&self, buf)\<close> only appends to the buffer: a model encoder returns the bytes
  it appends. \<open>unmarshal(data, cursor)\<close> reads at a cursor and advances it: a model
  decoder takes the cursor and returns the value with the new cursor. Buffers are at
  most \<open>isize::MAX\<close> bytes long, so the cursor additions of the source do not overflow a
  64-bit \<open>usize\<close> and cursors are natural numbers.
\<close>

type_synonym 'a reader = "bytes \<Rightarrow> nat \<Rightarrow> ('a \<times> nat) io_res"

section \<open>The interfaces\<close>

text \<open>A reader never panics and never leaves the buffer it was given.\<close>

locale total_reader =
  fixes unmarshal :: "'a reader"
  assumes reader_no_panic: "c \<le> length d \<Longrightarrow> unmarshal d c \<noteq> Inl Panic"
    and reader_bounds: "c \<le> length d \<Longrightarrow> unmarshal d c = Inr (x, c') \<Longrightarrow> c \<le> c' \<and> c' \<le> length d"

text \<open>\<open>occurs_at d c w\<close>: the bytes \<open>w\<close> stand in the buffer \<open>d\<close> at position \<open>c\<close>.\<close>

definition occurs_at :: "bytes \<Rightarrow> nat \<Rightarrow> bytes \<Rightarrow> bool" where
  "occurs_at d c w \<longleftrightarrow> c + length w \<le> length d \<and> take (length w) (drop c d) = w"

lemma occurs_at_iff: "occurs_at d c w \<longleftrightarrow> (\<exists>pre post. d = pre @ w @ post \<and> length pre = c)"
proof
  assume o: "occurs_at d c w"
  then have "d = take c d @ w @ drop (c + length w) d"
    by (metis occurs_at_def append_take_drop_id drop_drop add.commute)
  with o show "\<exists>pre post. d = pre @ w @ post \<and> length pre = c"
    by (intro exI [of _ "take c d"] exI [of _ "drop (c + length w) d"])
       (simp add: occurs_at_def)
qed (auto simp: occurs_at_def)

lemma occurs_at_here [simp]: "occurs_at (pre @ w @ post) (length pre) w"
  by (auto simp: occurs_at_iff)

lemma occurs_at_whole [simp]: "occurs_at w 0 w"
  by (simp add: occurs_at_def)

lemma occurs_at_front [simp]: "occurs_at (w @ post) 0 w"
  by (simp add: occurs_at_def)

lemma occurs_at_append [simp]:
  "occurs_at d c (v @ w) \<longleftrightarrow> occurs_at d c v \<and> occurs_at d (c + length v) w"
proof
  assume "occurs_at d c (v @ w)"
  then obtain pre post where "d = pre @ (v @ w) @ post" "length pre = c"
    by (auto simp: occurs_at_iff)
  then show "occurs_at d c v \<and> occurs_at d (c + length v) w"
    using occurs_at_here [of pre v "w @ post"] occurs_at_here [of "pre @ v" w post] by simp
next
  assume "occurs_at d c v \<and> occurs_at d (c + length v) w"
  then have v: "take (length v) (drop c d) = v"
    and w: "take (length w) (drop (c + length v) d) = w" "c + length v + length w \<le> length d"
    by (auto simp: occurs_at_def)
  have "take (length v + length w) (drop c d) =
        take (length v) (drop c d) @ take (length w) (drop (length v) (drop c d))"
    by (rule take_add)
  also have "\<dots> = v @ w" using v w by (simp add: add.commute)
  finally show "occurs_at d c (v @ w)" using w by (simp add: occurs_at_def)
qed

lemma occurs_at_Nil [simp]: "occurs_at d c [] \<longleftrightarrow> c \<le> length d"
  by (simp add: occurs_at_def)

lemma occurs_at_bounds: "occurs_at d c w \<Longrightarrow> c + length w \<le> length d"
  by (simp add: occurs_at_def)

lemma occurs_at_take: "occurs_at d c w \<Longrightarrow> take (length w) (drop c d) = w"
  by (simp add: occurs_at_def)

text \<open>A codec's decoder reads back what its encoder wrote, wherever it stands in the buffer.\<close>

locale wire_codec =
  fixes marshal :: "'a \<Rightarrow> bytes"
    and unmarshal :: "'a reader"
    and valid :: "'a \<Rightarrow> bool"
  assumes codec: "occurs_at d c (marshal x) \<Longrightarrow> valid x \<Longrightarrow>
    unmarshal d c = Inr (x, c + length (marshal x))"

text \<open>\<open>for _ in 0..count { v.push(T::unmarshal(d, c)?) }\<close>\<close>

fun read_n :: "'a reader \<Rightarrow> nat \<Rightarrow> 'a list reader" where
  "read_n rd 0 d c = Inr ([], c)"
| "read_n rd (Suc n) d c =
     and_then (rd d c) (\<lambda>(x, c).
     and_then (read_n rd n d c) (\<lambda>(xs, c).
     Inr (x # xs, c)))"

lemma read_n_length: "read_n rd n d c = Inr (xs, c') \<Longrightarrow> length xs = n"
  by (induction n arbitrary: c xs c') (auto simp: and_then_eq_Inr)

context total_reader begin

lemma read_n_total:
  "c \<le> length d \<Longrightarrow>
     read_n unmarshal n d c \<noteq> Inl Panic \<and>
     (\<forall>xs c'. read_n unmarshal n d c = Inr (xs, c') \<longrightarrow> c \<le> c' \<and> c' \<le> length d)"
proof (induction n arbitrary: c)
  case 0
  then show ?case by simp
next
  case (Suc n)
  show ?case
  proof (cases "unmarshal d c")
    case (Inl e)
    with reader_no_panic [OF Suc.prems] show ?thesis by auto
  next
    case (Inr r)
    obtain x c1 where r: "r = (x, c1)" by (cases r)
    with Inr reader_bounds [OF Suc.prems] have b: "c \<le> c1" "c1 \<le> length d" by auto
    from Suc.IH [OF b(2)] b Inr r show ?thesis
      by (fastforce simp: and_then_eq_Inr and_then_eq_Inl)
  qed
qed

lemma total_reader_read_n: "total_reader (read_n unmarshal n)"
  using read_n_total by unfold_locales blast+

end

text \<open>
  Readers compose: a sequence of total readers is total. A structure's decoder is shown
  total by these rules alone.
\<close>

named_theorems total_intros "rules that compose total readers"

lemma total_reader_return [total_intros]: "total_reader (\<lambda>d c. Inr (x, c))"
  by unfold_locales auto

lemma total_reader_fail [total_intros]: "total_reader (\<lambda>d c. io_fail k msg)"
  by unfold_locales auto

lemma total_reader_bind [total_intros]:
  assumes "total_reader m" and "\<And>x. total_reader (f x)"
  shows "total_reader (\<lambda>d c. and_then (m d c) (\<lambda>(x, c). f x d c))"
proof
  fix d :: bytes and c
  assume c: "c \<le> length d"
  show "and_then (m d c) (\<lambda>(x, c). f x d c) \<noteq> Inl Panic"
    using total_reader.reader_no_panic [OF assms(1) c] total_reader.reader_bounds [OF assms(1) c]
      total_reader.reader_no_panic [OF assms(2)]
    by (auto simp: and_then_eq_Inl)
  fix y c'
  assume "and_then (m d c) (\<lambda>(x, c). f x d c) = Inr (y, c')"
  then obtain x c1 where "m d c = Inr (x, c1)" "f x d c1 = Inr (y, c')"
    by (auto simp: and_then_eq_Inr)
  then show "c \<le> c' \<and> c' \<le> length d"
    using total_reader.reader_bounds [OF assms(1) c] total_reader.reader_bounds [OF assms(2)]
    by (meson order_trans)
qed

lemma total_reader_if [total_intros]:
  "total_reader f \<Longrightarrow> total_reader g \<Longrightarrow> total_reader (\<lambda>d c. if P then f d c else g d c)"
  by (cases P) simp_all

text \<open>The guarded slice \<open>if c + n > d.len() { Err } ... d[c..c + n]\<close> that advances the cursor by \<open>n\<close>.\<close>

lemma total_reader_slice [total_intros]:
  "total_reader (\<lambda>d c. if length d < c + n then io_fail k msg
     else and_then (rs_slice d c (c + n)) (\<lambda>b. Inr (f b, c + n)))"
  by unfold_locales (auto simp: and_then_eq_Inr rs_slice_eq_Inr split: if_splits)

context wire_codec begin

lemma codec_front: "valid x \<Longrightarrow> unmarshal (marshal x @ post) 0 = Inr (x, length (marshal x))"
  using codec [of "marshal x @ post" 0 x] by simp

lemma codec_alone: "valid x \<Longrightarrow> unmarshal (marshal x) 0 = Inr (x, length (marshal x))"
  using codec_front [of x "[]"] by simp

text \<open>Encodings of valid values are prefix-free: the decoder finds the end of the value by itself.\<close>

lemma codec_prefix_free:
  assumes "valid x" "valid y" "marshal x @ r = marshal y @ s"
  shows "x = y \<and> r = s"
proof -
  have "unmarshal (marshal x @ r) 0 = unmarshal (marshal y @ s) 0"
    by (simp only: assms(3))
  then have "x = y" using assms(1,2) by (simp add: codec_front)
  with assms(3) show ?thesis by simp
qed

lemma codec_inj: "valid x \<Longrightarrow> valid y \<Longrightarrow> marshal x = marshal y \<Longrightarrow> x = y"
  using codec_prefix_free [of x y "[]" "[]"] by simp

lemma read_n_codec:
  "occurs_at d c (concat (map marshal xs)) \<Longrightarrow> \<forall>x\<in>set xs. valid x \<Longrightarrow> n = length xs \<Longrightarrow>
     read_n unmarshal n d c = Inr (xs, c + length (concat (map marshal xs)))"
  by (induction xs arbitrary: c n) (auto simp: codec)

end

section \<open>Integers\<close>

definition u8_marshal :: "u8 \<Rightarrow> bytes" where
  "u8_marshal v = [v]"

definition u16_marshal :: "u16 \<Rightarrow> bytes" where
  "u16_marshal v = be_bytes 2 v"

definition u32_marshal :: "u32 \<Rightarrow> bytes" where
  "u32_marshal v = be_bytes 4 v"

definition u8_unmarshal :: "u8 reader" where
  "u8_unmarshal d c =
     (if length d < c + 1 then io_fail UnexpectedEof ''u8''
      else and_then (rs_index d c) (\<lambda>v. Inr (v, c + 1)))"

definition u16_unmarshal :: "u16 reader" where
  "u16_unmarshal d c =
     (if length d < c + 2 then io_fail UnexpectedEof ''u16''
      else and_then (be_u16_at d c) (\<lambda>v. Inr (v, c + 2)))"

definition u32_unmarshal :: "u32 reader" where
  "u32_unmarshal d c =
     (if length d < c + 4 then io_fail UnexpectedEof ''u32''
      else and_then (be_u32_at d c) (\<lambda>v. Inr (v, c + 4)))"

lemma length_int_marshal [simp]:
  "length (u8_marshal a) = 1" "length (u16_marshal b) = 2" "length (u32_marshal w) = 4"
  by (simp_all add: u8_marshal_def u16_marshal_def u32_marshal_def)

interpretation u8_reader: total_reader u8_unmarshal
  by unfold_locales (auto simp: u8_unmarshal_def split: if_splits)

interpretation u16_reader: total_reader u16_unmarshal
  by unfold_locales (auto simp: u16_unmarshal_def split: if_splits)

interpretation u32_reader: total_reader u32_unmarshal
  by unfold_locales (auto simp: u32_unmarshal_def split: if_splits)

interpretation u8_codec: wire_codec u8_marshal u8_unmarshal "\<lambda>_. True"
  by unfold_locales (auto simp: u8_unmarshal_def u8_marshal_def occurs_at_iff)

interpretation u16_codec: wire_codec u16_marshal u16_unmarshal "\<lambda>_. True"
  by unfold_locales (auto simp: u16_unmarshal_def u16_marshal_def occurs_at_iff)

interpretation u32_codec: wire_codec u32_marshal u32_unmarshal "\<lambda>_. True"
  by unfold_locales (auto simp: u32_unmarshal_def u32_marshal_def occurs_at_iff)

lemmas int_codecs [simp] = u8_codec.codec [OF _ TrueI] u16_codec.codec [OF _ TrueI]
  u32_codec.codec [OF _ TrueI]

text \<open>
  The block every sized buffer has in common: a 16-bit length, a bounds check that
  names the buffer, the slice.
\<close>

definition sized_slice :: "string \<Rightarrow> bytes reader" where
  "sized_slice what d c =
     and_then (u16_unmarshal d c) (\<lambda>(sz, c).
     if length d < c + unat sz then io_fail UnexpectedEof what
     else and_then (rs_slice d c (c + unat sz)) (\<lambda>v. Inr (v, c + unat sz)))"

definition sized_marshal :: "bytes \<Rightarrow> bytes" where
  "sized_marshal v = u16_marshal (of_nat (length v)) @ v"

text \<open>\<open>fits_u16\<close>: the length is not truncated by \<open>as u16\<close>.\<close>

definition fits_u16 :: "bytes \<Rightarrow> bool" where
  "fits_u16 v \<longleftrightarrow> length v < 65536"

lemma length_sized_marshal [simp]: "length (sized_marshal v) = 2 + length v"
  by (simp add: sized_marshal_def)

declare u8_reader.total_reader_axioms [total_intros] u16_reader.total_reader_axioms [total_intros]
  u32_reader.total_reader_axioms [total_intros]

lemma total_sized_slice [total_intros]: "total_reader (sized_slice what)"
  unfolding sized_slice_def [abs_def] by (intro total_intros)

lemma sized_slice_codec: "wire_codec sized_marshal (sized_slice what) fits_u16"
proof
  fix x d c
  assume "fits_u16 x" and o: "occurs_at d c (sized_marshal x)"
  then have "c + 2 + length x \<le> length d" "take (length x) (drop (c + 2) d) = x"
    and "unat (of_nat (length x) :: u16) = length x"
    using occurs_at_bounds [OF o]
    by (auto simp: sized_marshal_def fits_u16_def dest: occurs_at_take)
  with o show "sized_slice what d c = Inr (x, c + length (sized_marshal x))"
    by (auto simp: sized_slice_def sized_marshal_def)
qed

end
