(* ===== verification/Tpm_Structs.thy ===== *)
theory Tpm_Structs
  imports Tpm_Wire
begin

text \<open>
  The TPM structures of \<open>crates/azure-tpm/src/types.rs\<close> with their encoders and
  decoders: sized buffers and their lazily cached encoding, PCR selections and digest
  lists. \<open>Tpm_Public\<close> and \<open>Tpm_Signatures\<close> continue with the composite structures.
\<close>

section \<open>Sized buffers\<close>

text \<open>\<open>Tpm2bBytes\<close>, \<open>Tpm2bAttest\<close> and \<open>Tpm2bMaxNvBuffer\<close> wrap a byte vector.\<close>

type_synonym tpm2b_bytes = bytes

definition tpm2b_bytes_marshal :: "tpm2b_bytes \<Rightarrow> bytes" where
  "tpm2b_bytes_marshal v = sized_marshal v"

definition tpm2b_bytes_unmarshal :: "tpm2b_bytes reader" where
  "tpm2b_bytes_unmarshal d c = sized_slice ''2b bytes'' d c"

definition tpm2b_attest_marshal :: "bytes \<Rightarrow> bytes" where
  "tpm2b_attest_marshal v = sized_marshal v"

definition tpm2b_attest_unmarshal :: "bytes reader" where
  "tpm2b_attest_unmarshal d c = sized_slice ''attest'' d c"

definition tpm2b_max_nv_buffer_marshal :: "bytes \<Rightarrow> bytes" where
  "tpm2b_max_nv_buffer_marshal v = sized_marshal v"

definition tpm2b_max_nv_buffer_unmarshal :: "bytes reader" where
  "tpm2b_max_nv_buffer_unmarshal d c = sized_slice ''nvbuf'' d c"

lemmas tpm2b_defs = tpm2b_bytes_marshal_def tpm2b_bytes_unmarshal_def
  tpm2b_attest_marshal_def tpm2b_attest_unmarshal_def
  tpm2b_max_nv_buffer_marshal_def tpm2b_max_nv_buffer_unmarshal_def

interpretation tpm2b_reader: total_reader tpm2b_bytes_unmarshal
  using total_sized_slice unfolding tpm2b_bytes_unmarshal_def [abs_def] .

interpretation attest_reader: total_reader tpm2b_attest_unmarshal
  using total_sized_slice unfolding tpm2b_attest_unmarshal_def [abs_def] .

interpretation nv_buffer_reader: total_reader tpm2b_max_nv_buffer_unmarshal
  using total_sized_slice unfolding tpm2b_max_nv_buffer_unmarshal_def [abs_def] .

interpretation tpm2b_codec: wire_codec tpm2b_bytes_marshal tpm2b_bytes_unmarshal fits_u16
  using sized_slice_codec unfolding tpm2b_defs [abs_def] .

interpretation attest_codec: wire_codec tpm2b_attest_marshal tpm2b_attest_unmarshal fits_u16
  using sized_slice_codec unfolding tpm2b_defs [abs_def] .

interpretation nv_buffer_codec:
  wire_codec tpm2b_max_nv_buffer_marshal tpm2b_max_nv_buffer_unmarshal fits_u16
  using sized_slice_codec unfolding tpm2b_defs [abs_def] .

declare tpm2b_reader.total_reader_axioms [total_intros]
  attest_reader.total_reader_axioms [total_intros]
  nv_buffer_reader.total_reader_axioms [total_intros]

declare tpm2b_codec.codec [simp] attest_codec.codec [simp] nv_buffer_codec.codec [simp]

lemma length_tpm2b_marshal [simp]:
  "length (tpm2b_bytes_marshal v) = 2 + length v"
  "length (tpm2b_attest_marshal v) = 2 + length v"
  "length (tpm2b_max_nv_buffer_marshal v) = 2 + length v"
  by (simp_all add: tpm2b_defs)

subsection \<open>\<open>Tpm2b<T>\<close> and its cached encoding\<close>

text \<open>
  \<open>Tpm2b<T>\<close> keeps the length-prefixed encoding of \<open>inner\<close> in a \<open>OnceLock\<close> the first
  time \<open>bytes()\<close> runs; a clone starts with an empty cell. \<open>tpm2b_encode\<close> is the
  encoding without the cache, which the rest of the model uses; \<open>tpm2b_bytes_correct\<close>
  justifies that.
\<close>

record 'a tpm2b =
  inner :: 'a
  cached :: "bytes option"

definition tpm2b_new :: "'a \<Rightarrow> 'a tpm2b" where
  "tpm2b_new x = \<lparr>inner = x, cached = None\<rparr>"

definition tpm2b_clone :: "'a tpm2b \<Rightarrow> 'a tpm2b" where
  "tpm2b_clone t = \<lparr>inner = inner t, cached = None\<rparr>"

definition tpm2b_encode :: "('a \<Rightarrow> bytes) \<Rightarrow> 'a \<Rightarrow> bytes" where
  "tpm2b_encode marshal x =
     (let tmp = marshal x in u16_marshal (of_nat (length tmp)) @ tmp)"

definition tpm2b_cached_bytes :: "('a \<Rightarrow> bytes) \<Rightarrow> 'a tpm2b \<Rightarrow> bytes \<times> 'a tpm2b" where
  "tpm2b_cached_bytes marshal t =
     (case cached t of
        Some b \<Rightarrow> (b, t)
      | None \<Rightarrow> (let full = tpm2b_encode marshal (inner t) in (full, t\<lparr>cached := Some full\<rparr>)))"

definition cache_coherent :: "('a \<Rightarrow> bytes) \<Rightarrow> 'a tpm2b \<Rightarrow> bool" where
  "cache_coherent marshal t \<longleftrightarrow>
     (\<forall>b. cached t = Some b \<longrightarrow> b = tpm2b_encode marshal (inner t))"

lemma tpm2b_encode_sized: "tpm2b_encode m x = sized_marshal (m x)"
  by (simp add: tpm2b_encode_def sized_marshal_def Let_def)

lemma cache_coherent_new [simp]: "cache_coherent m (tpm2b_new x)"
  by (simp add: cache_coherent_def tpm2b_new_def)

lemma cache_coherent_clone [simp]: "cache_coherent m (tpm2b_clone t)"
  by (simp add: cache_coherent_def tpm2b_clone_def)

lemma tpm2b_bytes_correct:
  "cache_coherent m t \<Longrightarrow> tpm2b_cached_bytes m t = (b, t') \<Longrightarrow>
     b = tpm2b_encode m (inner t) \<and> inner t' = inner t \<and> cache_coherent m t'"
  by (auto simp: tpm2b_cached_bytes_def cache_coherent_def Let_def split: option.splits)

section \<open>PCR selections\<close>

record pcr_selection =
  ps_hash_alg :: u16
  ps_size_of_select :: u8
  ps_select :: bytes

text \<open>\<open>select\<close> is a \<open>[u8; 3]\<close>: three bytes, always.\<close>

type_synonym pcr_selection_list = "pcr_selection list"

definition bitmap_add :: "bytes \<Rightarrow> u32 \<Rightarrow> bytes" where
  "bitmap_add bitmap p =
     (let byte = unat (p div 8); b = unat (p mod 8)
      in bitmap[byte := (bitmap ! byte) OR push_bit b 1])"

definition from_pcrs_with_alg :: "u32 list \<Rightarrow> u16 \<Rightarrow> pcr_selection_list" where
  "from_pcrs_with_alg pcrs hash_alg =
     (if pcrs = [] then []
      else [\<lparr>ps_hash_alg = hash_alg, ps_size_of_select = 3,
             ps_select = foldl (\<lambda>bm p. if p \<le> 23 then bitmap_add bm p else bm) [0, 0, 0] pcrs\<rparr>])"

definition from_pcrs :: "u32 list \<Rightarrow> pcr_selection_list" where
  "from_pcrs pcrs = from_pcrs_with_alg pcrs ALG_SHA256"

text \<open>The slice \<open>select[..size_of_select]\<close> panics for a size above 3.\<close>

definition pcr_selection_marshal :: "pcr_selection \<Rightarrow> bytes io_res" where
  "pcr_selection_marshal s =
     and_then (rs_slice (ps_select s) 0 (unat (ps_size_of_select s))) (\<lambda>sel.
     Inr (u16_marshal (ps_hash_alg s) @ u8_marshal (ps_size_of_select s) @ sel))"

fun marshal_each :: "('a \<Rightarrow> bytes io_res) \<Rightarrow> 'a list \<Rightarrow> bytes io_res" where
  "marshal_each m [] = Inr []"
| "marshal_each m (x # xs) =
     and_then (m x) (\<lambda>b. and_then (marshal_each m xs) (\<lambda>bs. Inr (b @ bs)))"

definition pcr_selection_list_marshal :: "pcr_selection_list \<Rightarrow> bytes io_res" where
  "pcr_selection_list_marshal l =
     and_then (marshal_each pcr_selection_marshal l) (\<lambda>bs.
     Inr (u32_marshal (of_nat (length l)) @ bs))"

definition pcr_selection_unmarshal :: "pcr_selection reader" where
  "pcr_selection_unmarshal d c =
     and_then (u16_unmarshal d c) (\<lambda>(hash_alg, c).
     and_then (u8_unmarshal d c) (\<lambda>(sz, c).
     if 3 < unat sz then io_fail InvalidData ''pcr select size>3''
     else if length d < c + unat sz then io_fail UnexpectedEof ''pcr select bytes''
     else
       and_then (rs_slice d c (c + unat sz)) (\<lambda>b.
       Inr (\<lparr>ps_hash_alg = hash_alg, ps_size_of_select = sz,
             ps_select = b @ replicate (3 - unat sz) 0\<rparr>, c + unat sz))))"

text \<open>
  The code allocates room for \<open>count\<close> selections before it reads the first. Memory is not modelled: an allocation that
  fails there aborts the process, whatever follows.
\<close>

definition pcr_selection_list_unmarshal :: "pcr_selection_list reader" where
  "pcr_selection_list_unmarshal d c =
     and_then (u32_unmarshal d c) (\<lambda>(count, c).
     read_n pcr_selection_unmarshal (unat count) d c)"

text \<open>What a non-panicking encoder writes, and which selections survive the wire.\<close>

definition pcr_selection_wire :: "pcr_selection \<Rightarrow> bytes" where
  "pcr_selection_wire s =
     u16_marshal (ps_hash_alg s) @ u8_marshal (ps_size_of_select s) @
     take (unat (ps_size_of_select s)) (ps_select s)"

definition pcr_selection_valid :: "pcr_selection \<Rightarrow> bool" where
  "pcr_selection_valid s \<longleftrightarrow>
     unat (ps_size_of_select s) \<le> 3 \<and> length (ps_select s) = 3 \<and>
     drop (unat (ps_size_of_select s)) (ps_select s) =
       replicate (3 - unat (ps_size_of_select s)) 0"

definition pcr_selection_list_wire :: "pcr_selection_list \<Rightarrow> bytes" where
  "pcr_selection_list_wire l =
     u32_marshal (of_nat (length l)) @ concat (map pcr_selection_wire l)"

definition pcr_selection_list_valid :: "pcr_selection_list \<Rightarrow> bool" where
  "pcr_selection_list_valid l \<longleftrightarrow>
     length l < 4294967296 \<and> (\<forall>s\<in>set l. pcr_selection_valid s)"

lemma pcr_selection_marshal_wire:
  "unat (ps_size_of_select s) \<le> length (ps_select s) \<Longrightarrow>
     pcr_selection_marshal s = Inr (pcr_selection_wire s)"
  by (simp add: pcr_selection_marshal_def pcr_selection_wire_def)

lemma marshal_each_wire:
  "\<forall>x\<in>set xs. m x = Inr (w x) \<Longrightarrow> marshal_each m xs = Inr (concat (map w xs))"
  by (induction xs) auto

lemma pcr_selection_list_marshal_valid [simp]:
  "pcr_selection_list_valid l \<Longrightarrow> pcr_selection_list_marshal l = Inr (pcr_selection_list_wire l)"
  by (simp add: pcr_selection_list_marshal_def pcr_selection_list_wire_def
      pcr_selection_list_valid_def pcr_selection_valid_def pcr_selection_marshal_wire
      marshal_each_wire [where w = pcr_selection_wire])

interpretation pcr_selection_reader: total_reader pcr_selection_unmarshal
  unfolding pcr_selection_unmarshal_def [abs_def] by (intro total_intros)

interpretation pcr_selection_codec:
  wire_codec pcr_selection_wire pcr_selection_unmarshal pcr_selection_valid
proof
  fix s d c
  assume v: "pcr_selection_valid s" and o: "occurs_at d c (pcr_selection_wire s)"
  let ?n = "unat (ps_size_of_select s)"
  have "occurs_at d (c + 3) (take ?n (ps_select s))"
    using o by (simp add: pcr_selection_wire_def eval_nat_numeral)
  moreover have "length (take ?n (ps_select s)) = ?n"
    using v by (simp add: pcr_selection_valid_def)
  ultimately have "c + 3 + ?n \<le> length d" "take ?n (drop (c + 3) d) = take ?n (ps_select s)"
    using occurs_at_bounds occurs_at_take by fastforce+
  moreover have "take ?n (ps_select s) @ replicate (3 - ?n) 0 = ps_select s"
    using v append_take_drop_id [of ?n "ps_select s"] by (simp add: pcr_selection_valid_def)
  ultimately show "pcr_selection_unmarshal d c = Inr (s, c + length (pcr_selection_wire s))"
    using o v
    by (auto simp: pcr_selection_unmarshal_def pcr_selection_wire_def pcr_selection_valid_def
        eval_nat_numeral)
qed

interpretation pcr_selection_list_reader: total_reader pcr_selection_list_unmarshal
  unfolding pcr_selection_list_unmarshal_def [abs_def]
  by (intro total_intros pcr_selection_reader.total_reader_read_n)

interpretation pcr_selection_list_codec:
  wire_codec pcr_selection_list_wire pcr_selection_list_unmarshal pcr_selection_list_valid
  by unfold_locales
    (auto simp: pcr_selection_list_unmarshal_def pcr_selection_list_wire_def
       pcr_selection_list_valid_def pcr_selection_codec.read_n_codec)

declare pcr_selection_list_codec.codec [simp]
  pcr_selection_list_reader.total_reader_axioms [total_intros]

section \<open>Digest lists\<close>

definition digest_list_unmarshal :: "bytes list reader" where
  "digest_list_unmarshal d c =
     and_then (u32_unmarshal d c) (\<lambda>(count, c).
     read_n (sized_slice ''digest'') (unat count) d c)"

interpretation digest_list_reader: total_reader digest_list_unmarshal
  unfolding digest_list_unmarshal_def [abs_def]
  by (intro total_intros total_reader.total_reader_read_n)

declare digest_list_reader.total_reader_axioms [total_intros]

text \<open>The source has no encoder for digest lists; \<open>digest_list_wire\<close> is the TPM's \<open>TPML_DIGEST\<close> layout.\<close>

definition digest_list_wire :: "bytes list \<Rightarrow> bytes" where
  "digest_list_wire l = u32_marshal (of_nat (length l)) @ concat (map sized_marshal l)"

definition digest_list_valid :: "bytes list \<Rightarrow> bool" where
  "digest_list_valid l \<longleftrightarrow> length l < 4294967296 \<and> (\<forall>v\<in>set l. fits_u16 v)"

interpretation digest_list_codec:
  wire_codec digest_list_wire digest_list_unmarshal digest_list_valid
  by unfold_locales
    (auto simp: digest_list_unmarshal_def digest_list_wire_def digest_list_valid_def
       wire_codec.read_n_codec [OF sized_slice_codec])

declare digest_list_codec.codec [simp]

end
