(* ===== verification/Tpm_Public.thy ===== *)
theory Tpm_Public
  imports Tpm_Structs
begin

text \<open>
  Public areas of \<open>crates/azure-tpm/src/types.rs\<close>: \<open>TPMT_PUBLIC\<close> for RSA keys with its
  decoder, \<open>TPMT_PUBLIC\<close> for ECC keys (encoder only, as in the source), and the key
  templates.
\<close>

section \<open>RSA public areas\<close>

datatype rsa_scheme = RsaScheme_Null | RsaScheme_Rsassa u16 | RsaScheme_Other u16 bytes

fun rsa_scheme_marshal :: "rsa_scheme \<Rightarrow> bytes" where
  "rsa_scheme_marshal RsaScheme_Null = u16_marshal 0x0010"
| "rsa_scheme_marshal (RsaScheme_Rsassa hash) = u16_marshal 0x0014 @ u16_marshal hash"
| "rsa_scheme_marshal (RsaScheme_Other i rest) = u16_marshal i @ rest"

record sym_def_object =
  sd_alg :: u16
  sd_key_bits :: u16
  sd_mode :: u16

definition sym_def_marshal :: "sym_def_object \<Rightarrow> bytes" where
  "sym_def_marshal s =
     u16_marshal (sd_alg s) @
     (if sd_alg s \<noteq> 0x0010 then u16_marshal (sd_key_bits s) @ u16_marshal (sd_mode s) else [])"

definition sym_def_unmarshal :: "sym_def_object reader" where
  "sym_def_unmarshal d c =
     and_then (u16_unmarshal d c) (\<lambda>(alg, c).
     if alg = 0x0010 then Inr (\<lparr>sd_alg = alg, sd_key_bits = 0, sd_mode = 0\<rparr>, c)
     else
       and_then (u16_unmarshal d c) (\<lambda>(key_bits, c).
       and_then (u16_unmarshal d c) (\<lambda>(mode, c).
       Inr (\<lparr>sd_alg = alg, sd_key_bits = key_bits, sd_mode = mode\<rparr>, c))))"

definition sym_def_valid :: "sym_def_object \<Rightarrow> bool" where
  "sym_def_valid s \<longleftrightarrow> (sd_alg s = 0x0010 \<longrightarrow> sd_key_bits s = 0 \<and> sd_mode s = 0)"

interpretation sym_def_reader: total_reader sym_def_unmarshal
  unfolding sym_def_unmarshal_def [abs_def] by (intro total_intros)

interpretation sym_def_codec: wire_codec sym_def_marshal sym_def_unmarshal sym_def_valid
  by unfold_locales (auto simp: sym_def_marshal_def sym_def_unmarshal_def sym_def_valid_def)

declare sym_def_codec.codec [simp] sym_def_reader.total_reader_axioms [total_intros]

record tpmt_public =
  tp_type_alg :: u16
  tp_name_alg :: u16
  tp_object_attributes :: u32
  tp_auth_policy :: tpm2b_bytes
  tp_symmetric :: sym_def_object
  tp_scheme :: rsa_scheme
  tp_key_bits :: u16
  tp_exponent :: u32
  tp_unique :: tpm2b_bytes

definition tpmt_public_marshal :: "tpmt_public \<Rightarrow> bytes" where
  "tpmt_public_marshal p =
     u16_marshal (tp_type_alg p) @
     u16_marshal (tp_name_alg p) @
     u32_marshal (tp_object_attributes p) @
     tpm2b_bytes_marshal (tp_auth_policy p) @
     sym_def_marshal (tp_symmetric p) @
     rsa_scheme_marshal (tp_scheme p) @
     u16_marshal (tp_key_bits p) @
     u32_marshal (tp_exponent p) @
     tpm2b_bytes_marshal (tp_unique p)"

definition rsa_scheme_unmarshal :: "rsa_scheme reader" where
  "rsa_scheme_unmarshal d c =
     and_then (u16_unmarshal d c) (\<lambda>(scheme_id, c).
     if scheme_id = 0x0010 then Inr (RsaScheme_Null, c)
     else if scheme_id = 0x0014 then
       and_then (u16_unmarshal d c) (\<lambda>(hash, c). Inr (RsaScheme_Rsassa hash, c))
     else Inr (RsaScheme_Other scheme_id [], c))"

definition tpmt_public_unmarshal :: "tpmt_public reader" where
  "tpmt_public_unmarshal d c =
     and_then (u16_unmarshal d c) (\<lambda>(type_alg, c).
     and_then (u16_unmarshal d c) (\<lambda>(name_alg, c).
     and_then (u32_unmarshal d c) (\<lambda>(object_attributes, c).
     and_then (tpm2b_bytes_unmarshal d c) (\<lambda>(auth_policy, c).
     and_then (sym_def_unmarshal d c) (\<lambda>(symmetric, c).
     and_then (rsa_scheme_unmarshal d c) (\<lambda>(scheme, c).
     and_then (u16_unmarshal d c) (\<lambda>(key_bits, c).
     and_then (u32_unmarshal d c) (\<lambda>(exponent, c).
     and_then (tpm2b_bytes_unmarshal d c) (\<lambda>(unique, c).
     Inr (\<lparr>tp_type_alg = type_alg, tp_name_alg = name_alg,
           tp_object_attributes = object_attributes, tp_auth_policy = auth_policy,
           tp_symmetric = symmetric, tp_scheme = scheme, tp_key_bits = key_bits,
           tp_exponent = exponent, tp_unique = unique\<rparr>, c))))))))))"

fun rsa_scheme_valid :: "rsa_scheme \<Rightarrow> bool" where
  "rsa_scheme_valid (RsaScheme_Other i rest) \<longleftrightarrow> i \<noteq> 0x0010 \<and> i \<noteq> 0x0014 \<and> rest = []"
| "rsa_scheme_valid _ \<longleftrightarrow> True"

definition tpmt_public_valid :: "tpmt_public \<Rightarrow> bool" where
  "tpmt_public_valid p \<longleftrightarrow>
     fits_u16 (tp_auth_policy p) \<and> sym_def_valid (tp_symmetric p) \<and>
     rsa_scheme_valid (tp_scheme p) \<and> fits_u16 (tp_unique p)"

interpretation rsa_scheme_reader: total_reader rsa_scheme_unmarshal
  unfolding rsa_scheme_unmarshal_def [abs_def] by (intro total_intros)

interpretation rsa_scheme_codec: wire_codec rsa_scheme_marshal rsa_scheme_unmarshal rsa_scheme_valid
proof
  fix s d c
  assume "rsa_scheme_valid s" "occurs_at d c (rsa_scheme_marshal s)"
  then show "rsa_scheme_unmarshal d c = Inr (s, c + length (rsa_scheme_marshal s))"
    by (cases s) (auto simp: rsa_scheme_unmarshal_def)
qed

declare rsa_scheme_codec.codec [simp] rsa_scheme_reader.total_reader_axioms [total_intros]

interpretation tpmt_public_reader: total_reader tpmt_public_unmarshal
  unfolding tpmt_public_unmarshal_def [abs_def] by (intro total_intros)

interpretation tpmt_public_codec:
  wire_codec tpmt_public_marshal tpmt_public_unmarshal tpmt_public_valid
  by unfold_locales
    (auto simp: tpmt_public_marshal_def tpmt_public_unmarshal_def tpmt_public_valid_def
       add.assoc)

declare tpmt_public_codec.codec [simp] tpmt_public_reader.total_reader_axioms [total_intros]

definition rsa_unique_modulus :: "tpmt_public \<Rightarrow> bytes option" where
  "rsa_unique_modulus p = (if tp_type_alg p = 0x0001 then Some (tp_unique p) else None)"

text \<open>
  \<open>Tpm2bPublic\<close> is \<open>Tpm2b<TpmtPublic>\<close>. Its decoder checks the declared size against the
  buffer, decodes the inner area without that limit, and moves the cursor by the
  declared size, whatever the inner decoder consumed.
\<close>

definition tpm2b_public_marshal :: "tpmt_public \<Rightarrow> bytes" where
  "tpm2b_public_marshal p = tpm2b_encode tpmt_public_marshal p"

definition tpm2b_public_unmarshal :: "tpmt_public reader" where
  "tpm2b_public_unmarshal d c =
     and_then (u16_unmarshal d c) (\<lambda>(sz, c).
     if length d < c + unat sz then io_fail UnexpectedEof ''public size''
     else
       and_then (tpmt_public_unmarshal d c) (\<lambda>(p, _).
       Inr (p, c + unat sz)))"

definition tpm2b_public_valid :: "tpmt_public \<Rightarrow> bool" where
  "tpm2b_public_valid p \<longleftrightarrow> tpmt_public_valid p \<and> fits_u16 (tpmt_public_marshal p)"

lemma total_tpm2b_public_body:
  "total_reader (\<lambda>d c. if length d < c + n then io_fail k msg
     else and_then (tpmt_public_unmarshal d c) (\<lambda>(p, _). Inr (p, c + n)))"
  by unfold_locales
    (auto simp: and_then_eq_Inr and_then_eq_Inl tpmt_public_reader.reader_no_panic
       split: if_splits)

interpretation tpm2b_public_reader: total_reader tpm2b_public_unmarshal
  unfolding tpm2b_public_unmarshal_def [abs_def]
  by (intro total_intros total_tpm2b_public_body)

interpretation tpm2b_public_codec:
  wire_codec tpm2b_public_marshal tpm2b_public_unmarshal tpm2b_public_valid
proof
  fix p d c
  assume v: "tpm2b_public_valid p" and o: "occurs_at d c (tpm2b_public_marshal p)"
  have "c + (2 + length (tpmt_public_marshal p)) \<le> length d"
    using occurs_at_bounds [OF o] by (simp add: tpm2b_public_marshal_def tpm2b_encode_sized)
  moreover have "unat (of_nat (length (tpmt_public_marshal p)) :: u16) = length (tpmt_public_marshal p)"
    using v by (simp add: tpm2b_public_valid_def fits_u16_def)
  ultimately show "tpm2b_public_unmarshal d c = Inr (p, c + length (tpm2b_public_marshal p))"
    using o v
    by (auto simp: tpm2b_public_unmarshal_def tpm2b_public_marshal_def tpm2b_encode_sized
        sized_marshal_def tpm2b_public_valid_def)
qed

declare tpm2b_public_codec.codec [simp] tpm2b_public_reader.total_reader_axioms [total_intros]

section \<open>Sensitive areas\<close>

record tpms_sensitive_create =
  sc_user_auth :: tpm2b_bytes
  sc_data :: tpm2b_bytes

definition tpms_sensitive_create_marshal :: "tpms_sensitive_create \<Rightarrow> bytes" where
  "tpms_sensitive_create_marshal s =
     tpm2b_bytes_marshal (sc_user_auth s) @ tpm2b_bytes_marshal (sc_data s)"

definition tpm2b_sensitive_create_marshal :: "tpms_sensitive_create \<Rightarrow> bytes" where
  "tpm2b_sensitive_create_marshal s = tpm2b_encode tpms_sensitive_create_marshal s"

definition empty_sensitive_create :: tpms_sensitive_create where
  "empty_sensitive_create = \<lparr>sc_user_auth = [], sc_data = []\<rparr>"

section \<open>ECC public areas\<close>

record tpms_ecc_point =
  ep_x :: bytes
  ep_y :: bytes

definition ecc_point_marshal :: "tpms_ecc_point \<Rightarrow> bytes" where
  "ecc_point_marshal p =
     u16_marshal (of_nat (length (ep_x p))) @ ep_x p @
     u16_marshal (of_nat (length (ep_y p))) @ ep_y p"

definition ecc_point_unmarshal :: "tpms_ecc_point reader" where
  "ecc_point_unmarshal d c =
     and_then (sized_slice ''ecc point x'' d c) (\<lambda>(x, c).
     and_then (sized_slice ''ecc point y'' d c) (\<lambda>(y, c).
     Inr (\<lparr>ep_x = x, ep_y = y\<rparr>, c)))"

definition ecc_point_valid :: "tpms_ecc_point \<Rightarrow> bool" where
  "ecc_point_valid p \<longleftrightarrow> fits_u16 (ep_x p) \<and> fits_u16 (ep_y p)"

interpretation ecc_point_reader: total_reader ecc_point_unmarshal
  unfolding ecc_point_unmarshal_def [abs_def] by (intro total_intros)

lemma ecc_point_marshal_sized:
  "ecc_point_marshal p = sized_marshal (ep_x p) @ sized_marshal (ep_y p)"
  by (simp add: ecc_point_marshal_def sized_marshal_def)

lemmas sized_slice_at [simp] = wire_codec.codec [OF sized_slice_codec]

interpretation ecc_point_codec: wire_codec ecc_point_marshal ecc_point_unmarshal ecc_point_valid
  by unfold_locales
    (auto simp: ecc_point_marshal_sized ecc_point_unmarshal_def ecc_point_valid_def)

declare ecc_point_codec.codec [simp] ecc_point_reader.total_reader_axioms [total_intros]

datatype ecc_scheme = EccScheme_Null | EccScheme_Ecdsa u16

fun ecc_scheme_marshal :: "ecc_scheme \<Rightarrow> bytes" where
  "ecc_scheme_marshal EccScheme_Null = u16_marshal 0x0010"
| "ecc_scheme_marshal (EccScheme_Ecdsa hash) = u16_marshal 0x0018 @ u16_marshal hash"

record tpmt_public_ecc =
  te_type_alg :: u16
  te_name_alg :: u16
  te_object_attributes :: u32
  te_auth_policy :: tpm2b_bytes
  te_symmetric :: sym_def_object
  te_scheme :: ecc_scheme
  te_curve_id :: u16
  te_kdf_scheme :: u16
  te_unique :: tpms_ecc_point

definition tpmt_public_ecc_marshal :: "tpmt_public_ecc \<Rightarrow> bytes" where
  "tpmt_public_ecc_marshal p =
     u16_marshal (te_type_alg p) @
     u16_marshal (te_name_alg p) @
     u32_marshal (te_object_attributes p) @
     tpm2b_bytes_marshal (te_auth_policy p) @
     sym_def_marshal (te_symmetric p) @
     ecc_scheme_marshal (te_scheme p) @
     u16_marshal (te_curve_id p) @
     u16_marshal (te_kdf_scheme p) @
     ecc_point_marshal (te_unique p)"

definition tpm2b_public_ecc_marshal :: "tpmt_public_ecc \<Rightarrow> bytes" where
  "tpm2b_public_ecc_marshal p = tpm2b_encode tpmt_public_ecc_marshal p"

section \<open>Key templates\<close>

definition sym_null :: sym_def_object where
  "sym_null = \<lparr>sd_alg = alg_id_u16 Alg_Null, sd_key_bits = 0, sd_mode = 0\<rparr>"

definition empty_public_unique :: tpm2b_bytes where
  "empty_public_unique = []"

definition rsa_unrestricted_sign_decrypt_public_with_policy :: "bytes \<Rightarrow> tpmt_public" where
  "rsa_unrestricted_sign_decrypt_public_with_policy policy =
     (let object_attributes =
        object_with Decrypt (object_with No_da (object_with Sensitive_data_origin
          (object_with Fixed_parent (object_with Fixed_tpm 0))))
      in \<lparr>tp_type_alg = alg_id_u16 Alg_Rsa, tp_name_alg = alg_id_u16 Alg_Sha256,
          tp_object_attributes = object_attributes, tp_auth_policy = policy,
          tp_symmetric = sym_null, tp_scheme = RsaScheme_Null, tp_key_bits = 2048,
          tp_exponent = 0, tp_unique = empty_public_unique\<rparr>)"

definition rsa_unrestricted_sign_decrypt_public :: tpmt_public where
  "rsa_unrestricted_sign_decrypt_public = rsa_unrestricted_sign_decrypt_public_with_policy []"

definition rsa_restricted_signing_public :: tpmt_public where
  "rsa_restricted_signing_public =
     (let object_attributes =
        object_with Sign_encrypt (object_with Restricted (object_with No_da
          (object_with User_with_auth (object_with Sensitive_data_origin
            (object_with Fixed_parent (object_with Fixed_tpm 0))))))
      in \<lparr>tp_type_alg = alg_id_u16 Alg_Rsa, tp_name_alg = alg_id_u16 Alg_Sha256,
          tp_object_attributes = object_attributes, tp_auth_policy = [],
          tp_symmetric = sym_null, tp_scheme = RsaScheme_Rsassa 0x000b, tp_key_bits = 2048,
          tp_exponent = 0, tp_unique = replicate 256 0\<rparr>)"

definition ecc_unrestricted_signing_public_with_policy :: "bytes \<Rightarrow> tpmt_public_ecc" where
  "ecc_unrestricted_signing_public_with_policy policy =
     (let object_attributes =
        object_with Sign_encrypt (object_with No_da (object_with User_with_auth
          (object_with Sensitive_data_origin (object_with Fixed_parent
            (object_with Fixed_tpm 0)))))
      in \<lparr>te_type_alg = ALG_ECC, te_name_alg = ALG_SHA256,
          te_object_attributes = object_attributes, te_auth_policy = policy,
          te_symmetric = sym_null, te_scheme = EccScheme_Ecdsa ALG_SHA256,
          te_curve_id = TPM_ECC_NIST_P256, te_kdf_scheme = alg_id_u16 Alg_Null,
          te_unique = \<lparr>ep_x = replicate 32 0, ep_y = replicate 32 0\<rparr>\<rparr>)"

definition ecc_unrestricted_signing_public :: tpmt_public_ecc where
  "ecc_unrestricted_signing_public = ecc_unrestricted_signing_public_with_policy []"

lemma template_attributes:
  "tp_object_attributes (rsa_unrestricted_sign_decrypt_public_with_policy policy) = 0x00020432"
  "tp_object_attributes rsa_restricted_signing_public = 0x00050472"
  "te_object_attributes (ecc_unrestricted_signing_public_with_policy policy) = 0x00040472"
  by (simp_all add: rsa_unrestricted_sign_decrypt_public_with_policy_def
      rsa_restricted_signing_public_def ecc_unrestricted_signing_public_with_policy_def
      with_field_def object_offsets set_bit_eq_or)

lemma templates_valid:
  "fits_u16 policy \<Longrightarrow> tpmt_public_valid (rsa_unrestricted_sign_decrypt_public_with_policy policy)"
  "tpmt_public_valid rsa_restricted_signing_public"
  by (simp_all add: tpmt_public_valid_def rsa_unrestricted_sign_decrypt_public_with_policy_def
      rsa_restricted_signing_public_def sym_def_valid_def sym_null_def fits_u16_def
      empty_public_unique_def)

section \<open>An ECC area read by the RSA decoder\<close>

text \<open>
  The responses of \<open>TPM2_CreatePrimary\<close> and \<open>TPM2_ReadPublic\<close> are decoded with the RSA
  layout whatever the key type. For an ECDSA key the hash of the scheme lands in
  \<open>key_bits\<close>, curve and KDF scheme in \<open>exponent\<close>, the x coordinate in \<open>unique\<close>, and
  nothing holds the y coordinate.
\<close>

lemma u32_unmarshal_bytes:
  "occurs_at d c w \<Longrightarrow> length w = 4 \<Longrightarrow> u32_unmarshal d c = Inr (of_be w, c + 4)"
  using occurs_at_bounds [of d c w] occurs_at_take [of d c w] by (simp add: u32_unmarshal_def)

definition ecc_as_rsa :: "tpmt_public_ecc \<Rightarrow> u16 \<Rightarrow> tpmt_public" where
  "ecc_as_rsa p hash =
     \<lparr>tp_type_alg = te_type_alg p, tp_name_alg = te_name_alg p,
      tp_object_attributes = te_object_attributes p, tp_auth_policy = te_auth_policy p,
      tp_symmetric = te_symmetric p, tp_scheme = RsaScheme_Other 0x0018 [], tp_key_bits = hash,
      tp_exponent = of_be (u16_marshal (te_curve_id p) @ u16_marshal (te_kdf_scheme p)),
      tp_unique = ep_x (te_unique p)\<rparr>"

lemma ecc_marshal_split:
  assumes "te_scheme p = EccScheme_Ecdsa hash"
  shows "tpmt_public_ecc_marshal p =
         tpmt_public_marshal (ecc_as_rsa p hash) @ sized_marshal (ep_y (te_unique p))"
proof -
  have "u32_marshal (of_be (u16_marshal (te_curve_id p) @ u16_marshal (te_kdf_scheme p))) =
        u16_marshal (te_curve_id p) @ u16_marshal (te_kdf_scheme p)"
    using be_bytes_of_be [of "u16_marshal (te_curve_id p) @ u16_marshal (te_kdf_scheme p)", where 'a = 32]
    by (simp add: u32_marshal_def)
  with assms show ?thesis
    by (simp add: tpmt_public_ecc_marshal_def tpmt_public_marshal_def ecc_as_rsa_def
        ecc_point_marshal_sized tpm2b_defs)
qed

lemma ecc_as_rsa_valid:
  "fits_u16 (te_auth_policy p) \<Longrightarrow> sym_def_valid (te_symmetric p) \<Longrightarrow> fits_u16 (ep_x (te_unique p)) \<Longrightarrow>
     tpmt_public_valid (ecc_as_rsa p hash)"
  by (simp add: tpmt_public_valid_def ecc_as_rsa_def)

end
