(* ===== verification/Tpm_Signatures.thy ===== *)
theory Tpm_Signatures
  imports Tpm_Public
begin

text \<open>
  Signature and decryption schemes, signatures, tickets, NV public areas and the parser
  of quote attestations, from \<open>crates/azure-tpm/src/types.rs\<close>.
\<close>

section \<open>Schemes\<close>

datatype tpmt_sig_scheme = SigScheme_Null | SigScheme_Rsassa u16

fun sig_scheme_marshal :: "tpmt_sig_scheme \<Rightarrow> bytes" where
  "sig_scheme_marshal SigScheme_Null = u16_marshal 0x0010"
| "sig_scheme_marshal (SigScheme_Rsassa hash) = u16_marshal 0x0014 @ u16_marshal hash"

datatype tpmt_rsa_decrypt_scheme = Rsaes | Oaep u16

fun rsa_decrypt_scheme_marshal :: "tpmt_rsa_decrypt_scheme \<Rightarrow> bytes" where
  "rsa_decrypt_scheme_marshal Rsaes = u16_marshal ALG_RSAES"
| "rsa_decrypt_scheme_marshal (Oaep hash_alg) = u16_marshal ALG_OAEP @ u16_marshal hash_alg"

section \<open>Signatures\<close>

record tpms_signature_ecdsa =
  es_hash_alg :: u16
  es_signature_r :: bytes
  es_signature_s :: bytes

definition ecdsa_marshal :: "tpms_signature_ecdsa \<Rightarrow> bytes" where
  "ecdsa_marshal e =
     u16_marshal (es_hash_alg e) @
     u16_marshal (of_nat (length (es_signature_r e))) @ es_signature_r e @
     u16_marshal (of_nat (length (es_signature_s e))) @ es_signature_s e"

definition ecdsa_unmarshal :: "tpms_signature_ecdsa reader" where
  "ecdsa_unmarshal d c =
     and_then (u16_unmarshal d c) (\<lambda>(hash_alg, c).
     and_then (sized_slice ''ecdsa r'' d c) (\<lambda>(r, c).
     and_then (sized_slice ''ecdsa s'' d c) (\<lambda>(s, c).
     Inr (\<lparr>es_hash_alg = hash_alg, es_signature_r = r, es_signature_s = s\<rparr>, c))))"

definition ecdsa_valid :: "tpms_signature_ecdsa \<Rightarrow> bool" where
  "ecdsa_valid e \<longleftrightarrow> fits_u16 (es_signature_r e) \<and> fits_u16 (es_signature_s e)"

lemma ecdsa_marshal_sized:
  "ecdsa_marshal e =
     u16_marshal (es_hash_alg e) @ sized_marshal (es_signature_r e) @ sized_marshal (es_signature_s e)"
  by (simp add: ecdsa_marshal_def sized_marshal_def)

interpretation ecdsa_reader: total_reader ecdsa_unmarshal
  unfolding ecdsa_unmarshal_def [abs_def] by (intro total_intros)

interpretation ecdsa_codec: wire_codec ecdsa_marshal ecdsa_unmarshal ecdsa_valid
  by unfold_locales
    (auto simp: ecdsa_marshal_sized ecdsa_unmarshal_def ecdsa_valid_def add.assoc)

declare ecdsa_codec.codec [simp] ecdsa_reader.total_reader_axioms [total_intros]

datatype tpmt_signature =
    Sig_Rsassa u16 bytes
  | Sig_Ecdsa tpms_signature_ecdsa
  | Sig_Null
  | Sig_OtherRaw bytes

text \<open>\<open>d[*c..].to_vec()\<close> and \<open>*c = d.len()\<close>: the fallback takes the rest of the buffer.\<close>

definition rest_unmarshal :: "bytes reader" where
  "rest_unmarshal d c = and_then (rs_slice d c (length d)) (\<lambda>b. Inr (b, length d))"

definition signature_unmarshal :: "tpmt_signature reader" where
  "signature_unmarshal d c =
     (if length d < c + 2 then io_fail UnexpectedEof ''sig scheme''
      else
        and_then (u16_unmarshal d c) (\<lambda>(scheme, c).
        if scheme = 0x0014 then
          and_then (u16_unmarshal d c) (\<lambda>(hash_alg, c).
          and_then (sized_slice ''sig rsassa'' d c) (\<lambda>(sig, c).
          Inr (Sig_Rsassa hash_alg sig, c)))
        else if scheme = 0x0018 then
          and_then (ecdsa_unmarshal d c) (\<lambda>(ecdsa, c). Inr (Sig_Ecdsa ecdsa, c))
        else if scheme = 0x0010 then Inr (Sig_Null, c)
        else and_then (rest_unmarshal d c) (\<lambda>(rest, c). Inr (Sig_OtherRaw rest, c))))"

fun signature_marshal :: "tpmt_signature \<Rightarrow> bytes" where
  "signature_marshal (Sig_Rsassa hash_alg sig) =
     u16_marshal 0x0014 @ u16_marshal hash_alg @ u16_marshal (of_nat (length sig)) @ sig"
| "signature_marshal (Sig_Ecdsa ecdsa) = u16_marshal 0x0018 @ ecdsa_marshal ecdsa"
| "signature_marshal Sig_Null = u16_marshal 0x0010"
| "signature_marshal (Sig_OtherRaw raw) = raw"

fun signature_valid :: "tpmt_signature \<Rightarrow> bool" where
  "signature_valid (Sig_Rsassa hash_alg sig) \<longleftrightarrow> fits_u16 sig"
| "signature_valid (Sig_Ecdsa ecdsa) \<longleftrightarrow> ecdsa_valid ecdsa"
| "signature_valid Sig_Null \<longleftrightarrow> True"
| "signature_valid (Sig_OtherRaw raw) \<longleftrightarrow> False"

lemma total_rest [total_intros]: "total_reader rest_unmarshal"
  by unfold_locales (auto simp: rest_unmarshal_def)

lemma total_scheme_guard [total_intros]:
  "total_reader f \<Longrightarrow> total_reader (\<lambda>d c. if length d < c + n then io_fail k msg else f d c)"
  by unfold_locales
    (auto simp: total_reader.reader_no_panic dest!: total_reader.reader_bounds [rotated 2]
       split: if_splits)

interpretation signature_reader: total_reader signature_unmarshal
  unfolding signature_unmarshal_def [abs_def] by (intro total_intros)

interpretation signature_codec: wire_codec signature_marshal signature_unmarshal signature_valid
proof
  fix s d c
  assume v: "signature_valid s" and o: "occurs_at d c (signature_marshal s)"
  have "c + 2 \<le> length d" using v occurs_at_bounds [OF o] by (cases s) auto
  with v o show "signature_unmarshal d c = Inr (s, c + length (signature_marshal s))"
    by (cases s) (auto simp: signature_unmarshal_def sized_marshal_def [symmetric] add.assoc)
qed

declare signature_codec.codec [simp] signature_reader.total_reader_axioms [total_intros]

section \<open>Tickets\<close>

record tpmt_tk_hashcheck =
  hk_tag :: u16
  hk_hierarchy :: u32
  hk_digest :: tpm2b_bytes

definition hashcheck_marshal :: "tpmt_tk_hashcheck \<Rightarrow> bytes" where
  "hashcheck_marshal t =
     u16_marshal (hk_tag t) @ u32_marshal (hk_hierarchy t) @ tpm2b_bytes_marshal (hk_digest t)"

definition hashcheck_null_ticket :: tpmt_tk_hashcheck where
  "hashcheck_null_ticket = \<lparr>hk_tag = 0x8024, hk_hierarchy = 0x40000007, hk_digest = []\<rparr>"

record tpmt_tk_verified =
  vk_tag :: u16
  vk_hierarchy :: u32
  vk_digest :: tpm2b_bytes

definition tk_verified_unmarshal :: "tpmt_tk_verified reader" where
  "tk_verified_unmarshal d c =
     and_then (u16_unmarshal d c) (\<lambda>(tag, c).
     and_then (u32_unmarshal d c) (\<lambda>(hierarchy, c).
     and_then (tpm2b_bytes_unmarshal d c) (\<lambda>(digest, c).
     Inr (\<lparr>vk_tag = tag, vk_hierarchy = hierarchy, vk_digest = digest\<rparr>, c))))"

lemma total_tk_verified [total_intros]: "total_reader tk_verified_unmarshal"
  unfolding tk_verified_unmarshal_def [abs_def] by (intro total_intros)

section \<open>NV public areas\<close>

record nv_public =
  np_nv_index :: u32
  np_name_alg :: u16
  np_attributes :: u32
  np_auth_policy :: bytes
  np_data_size :: u16

text \<open>The encoder clears \<open>nv_written\<close> (bit 29) and \<open>nv_platformcreate\<close> (bit 30).\<close>

definition nv_mask_attributes :: "u32 \<Rightarrow> u32" where
  "nv_mask_attributes a = (a AND NOT (push_bit 30 1)) AND NOT (push_bit 29 1)"

definition nv_public_inner :: "nv_public \<Rightarrow> bytes" where
  "nv_public_inner p =
     u32_marshal (np_nv_index p) @
     u16_marshal (np_name_alg p) @
     u32_marshal (nv_mask_attributes (np_attributes p)) @
     u16_marshal (of_nat (length (np_auth_policy p))) @ np_auth_policy p @
     u16_marshal (np_data_size p)"

definition nv_public_marshal :: "nv_public \<Rightarrow> bytes" where
  "nv_public_marshal p =
     u16_marshal (of_nat (length (nv_public_inner p))) @ nv_public_inner p"

definition new_extend_index :: "u32 \<Rightarrow> u16 \<Rightarrow> nv_public" where
  "new_extend_index nv_index data_size =
     (let attrs = nv_with Nt_extend (nv_with Nv_clear_stclear (nv_with Nv_no_da
        (nv_with Nv_authread (nv_with Nv_ownerwrite 0))))
      in \<lparr>np_nv_index = nv_index, np_name_alg = ALG_SHA256, np_attributes = attrs,
          np_auth_policy = [], np_data_size = data_size\<rparr>)"

definition new_ordinary_index :: "u32 \<Rightarrow> u16 \<Rightarrow> nv_public" where
  "new_ordinary_index nv_index data_size =
     (let attrs = nv_with Nv_no_da (nv_with Nv_authwrite (nv_with Nv_authread
        (nv_with Nv_ownerread (nv_with Nv_ownerwrite 0))))
      in \<lparr>np_nv_index = nv_index, np_name_alg = ALG_SHA256, np_attributes = attrs,
          np_auth_policy = [], np_data_size = data_size\<rparr>)"

definition is_extend_type :: "nv_public \<Rightarrow> bool" where
  "is_extend_type p \<longleftrightarrow> (let nt = drop_bit 4 (np_attributes p) AND 0xF in nt = 0x4)"

record nv_read_public_response_parameters =
  nr_public :: nv_public
  nr_name :: tpm2b_bytes

definition nv_public_fields_unmarshal :: "nv_public reader" where
  "nv_public_fields_unmarshal d c =
     (if length d < c + 12 then io_fail UnexpectedEof ''nvPublic header''
      else
        and_then (u32_unmarshal d c) (\<lambda>(nv_index, c).
        and_then (u16_unmarshal d c) (\<lambda>(name_alg, c).
        and_then (u32_unmarshal d c) (\<lambda>(attributes, c).
        and_then (sized_slice ''authPolicy'' d c) (\<lambda>(auth_policy, c).
        and_then (u16_unmarshal d c) (\<lambda>(data_size, c).
        Inr (\<lparr>np_nv_index = nv_index, np_name_alg = name_alg, np_attributes = attributes,
              np_auth_policy = auth_policy, np_data_size = data_size\<rparr>, c)))))))"

definition nv_public_block_unmarshal :: "nv_public reader" where
  "nv_public_block_unmarshal d c =
     and_then (u16_unmarshal d c) (\<lambda>(nv_pub_size, c).
     if length d < c + unat nv_pub_size then io_fail UnexpectedEof ''nvPublic truncated''
     else
       and_then (nv_public_fields_unmarshal d c) (\<lambda>(p, _).
       Inr (p, c + unat nv_pub_size)))"

definition nv_name_unmarshal :: "tpm2b_bytes reader" where
  "nv_name_unmarshal d c =
     (if c + 2 \<le> length d then tpm2b_bytes_unmarshal d c else Inr ([], c))"

definition nv_read_public_parameters_unmarshal :: "nv_read_public_response_parameters reader" where
  "nv_read_public_parameters_unmarshal d c =
     and_then (nv_public_block_unmarshal d c) (\<lambda>(p, c).
     and_then (nv_name_unmarshal d c) (\<lambda>(name, c).
     Inr (\<lparr>nr_public = p, nr_name = name\<rparr>, c)))"

lemma total_nv_fields [total_intros]: "total_reader nv_public_fields_unmarshal"
  unfolding nv_public_fields_unmarshal_def [abs_def] by (intro total_intros)

lemma total_nv_block_body:
  "total_reader (\<lambda>d c. if length d < c + n then io_fail k msg
     else and_then (nv_public_fields_unmarshal d c) (\<lambda>(p, _). Inr (p, c + n)))"
  using total_reader.reader_no_panic [OF total_nv_fields]
  by unfold_locales (auto simp: and_then_eq_Inr and_then_eq_Inl split: if_splits)

lemma total_nv_name [total_intros]: "total_reader nv_name_unmarshal"
  by unfold_locales
    (auto simp: nv_name_unmarshal_def tpm2b_reader.reader_no_panic
       dest: tpm2b_reader.reader_bounds [rotated] split: if_splits)

lemma total_nv_read_public_parameters [total_intros]:
  "total_reader nv_read_public_parameters_unmarshal"
  unfolding nv_read_public_parameters_unmarshal_def [abs_def] nv_public_block_unmarshal_def [abs_def]
  by (intro total_intros total_nv_block_body)

lemma bit_nv_mask [simp]:
  "bit (nv_mask_attributes a) n \<longleftrightarrow> bit a n \<and> n \<noteq> 29 \<and> n \<noteq> 30"
proof -
  have "nv_mask_attributes a = unset_bit 29 (unset_bit 30 a)"
    by (simp only: nv_mask_attributes_def unset_bit_eq_and_not)
  then show ?thesis by (auto simp: bit_unset_bit_iff)
qed

lemma nv_mask_idem [simp]: "nv_mask_attributes (nv_mask_attributes a) = nv_mask_attributes a"
  by (rule bit_word_eqI) auto

text \<open>What the TPM sees of an NV public area: the masked attributes.\<close>

definition nv_public_masked :: "nv_public \<Rightarrow> nv_public" where
  "nv_public_masked p = p\<lparr>np_attributes := nv_mask_attributes (np_attributes p)\<rparr>"

lemma length_nv_public_inner [simp]: "length (nv_public_inner p) = 14 + length (np_auth_policy p)"
  by (simp add: nv_public_inner_def)

lemma nv_fields_of_inner:
  assumes "fits_u16 (np_auth_policy p)" "occurs_at d c (nv_public_inner p)"
  shows "nv_public_fields_unmarshal d c = Inr (nv_public_masked p, c + length (nv_public_inner p))"
proof -
  have "c + 12 \<le> length d" using occurs_at_bounds [OF assms(2)] by simp
  moreover have "occurs_at d c
      (u32_marshal (np_nv_index p) @ u16_marshal (np_name_alg p) @
       u32_marshal (nv_mask_attributes (np_attributes p)) @
       sized_marshal (np_auth_policy p) @ u16_marshal (np_data_size p))"
    using assms(2) by (simp add: nv_public_inner_def sized_marshal_def add.assoc)
  ultimately show ?thesis using assms(1)
    by (auto simp: nv_public_fields_unmarshal_def nv_public_masked_def add.assoc)
qed

lemma nv_block_of_marshal:
  assumes "length (np_auth_policy p) < 65522" "occurs_at d c (nv_public_marshal p)"
  shows "nv_public_block_unmarshal d c = Inr (nv_public_masked p, c + length (nv_public_marshal p))"
proof -
  have f: "fits_u16 (np_auth_policy p)" using assms(1) by (simp add: fits_u16_def)
  have o: "occurs_at d c (u16_marshal (of_nat (length (nv_public_inner p))))"
    "occurs_at d (c + 2) (nv_public_inner p)"
    using assms(2) by (simp_all add: nv_public_marshal_def)
  have "unat (of_nat (length (nv_public_inner p)) :: u16) = length (nv_public_inner p)"
    using assms(1) by (subst unat_of_nat_u16) auto
  with o occurs_at_bounds [OF o(2)] nv_fields_of_inner [OF f o(2)] u16_codec.codec [OF o(1) TrueI]
  show ?thesis by (simp add: nv_public_block_unmarshal_def nv_public_marshal_def)
qed

section \<open>Quote attestations\<close>

record parsed_quote_attest =
  qa_pcr_selections :: "pcr_selection list"
  qa_pcr_digest :: bytes
  qa_extra_data :: bytes

text \<open>A field that is skipped: \<open>if c + n > len { Err } c += n\<close>.\<close>

definition skip_bytes :: "nat \<Rightarrow> string \<Rightarrow> unit reader" where
  "skip_bytes n what d c =
     (if length d < c + n then io_fail UnexpectedEof what else Inr ((), c + n))"

definition parse_quote_attestation :: "bytes \<Rightarrow> parsed_quote_attest io_res" where
  "parse_quote_attestation attest_body =
     (if length attest_body < 20 then io_fail UnexpectedEof ''attest too small''
      else
        and_then (u32_unmarshal attest_body 0) (\<lambda>(magic, c).
        and_then (u16_unmarshal attest_body c) (\<lambda>(atype, c).
        if atype \<noteq> 0x8018
        then io_fail InvalidData (''unexpected attest type '' @ fmt_04x atype)
        else
          and_then (u16_unmarshal attest_body c) (\<lambda>(qsz, c).
          and_then (skip_bytes (unat qsz) ''qualifiedSigner'' attest_body c) (\<lambda>(_, c).
          and_then (sized_slice ''extraData'' attest_body c) (\<lambda>(extra, c).
          and_then (skip_bytes 17 ''clockInfo'' attest_body c) (\<lambda>(_, c).
          and_then (skip_bytes 8 ''firmwareVersion'' attest_body c) (\<lambda>(_, c).
          and_then (pcr_selection_list_unmarshal attest_body c) (\<lambda>(pcr_sel_list, c).
          and_then (tpm2b_bytes_unmarshal attest_body c) (\<lambda>(pcr_digest, c).
          Inr \<lparr>qa_pcr_selections = pcr_sel_list, qa_pcr_digest = pcr_digest,
               qa_extra_data = extra\<rparr>))))))))))"

end
