(* ===== verification/Tpm_Requests.thy ===== *)
theory Tpm_Requests
  imports Tpm_Signatures
begin

text \<open>
  The command structures of \<open>crates/azure-tpm/src/types.rs\<close>. Each is a header, a handle
  area and a parameter area; the handle structs only serve \<open>to_array\<close>, which lists their
  fields in order, so a command keeps that list. \<open>..._marshal\<close> is the parameters'
  \<open>TpmMarshal\<close> instance and \<open>..._new\<close> the constructor. Encoders that contain a PCR
  selection list can panic and return a result.
\<close>

record 'p tpm_command =
  cmd_header :: tpm_command_header
  cmd_handles :: "u32 list"
  cmd_parameters :: 'p

definition command_no_sessions :: "tpm_command_code \<Rightarrow> u32 list \<Rightarrow> 'p \<Rightarrow> 'p tpm_command" where
  "command_no_sessions cc hs p =
     \<lparr>cmd_header = header_no_sessions cc, cmd_handles = hs, cmd_parameters = p\<rparr>"

definition command_sessions :: "tpm_command_code \<Rightarrow> u32 list \<Rightarrow> 'p \<Rightarrow> 'p tpm_command" where
  "command_sessions cc hs p =
     \<lparr>cmd_header = header_sessions cc, cmd_handles = hs, cmd_parameters = p\<rparr>"

named_theorems request_defs "definitions of the command constructors"

declare command_no_sessions_def [request_defs] command_sessions_def [request_defs]

section \<open>Keys\<close>

record create_primary_parameters =
  cpp_in_sensitive :: tpms_sensitive_create
  cpp_in_public :: tpmt_public
  cpp_outside_info :: tpm2b_bytes
  cpp_creation_pcr :: pcr_selection_list

definition create_primary_marshal :: "create_primary_parameters \<Rightarrow> bytes io_res" where
  "create_primary_marshal p =
     and_then (pcr_selection_list_marshal (cpp_creation_pcr p)) (\<lambda>pcrs.
     Inr (tpm2b_sensitive_create_marshal (cpp_in_sensitive p) @
          tpm2b_public_marshal (cpp_in_public p) @
          tpm2b_bytes_marshal (cpp_outside_info p) @
          pcrs))"

definition create_primary_new ::
    "hierarchy \<Rightarrow> create_primary_parameters \<Rightarrow> create_primary_parameters tpm_command" where
  "create_primary_new h p = command_sessions CreatePrimary [hierarchy_handle h] p"

record load_parameters =
  lp_in_private :: tpm2b_bytes
  lp_in_public :: tpmt_public

definition load_marshal :: "load_parameters \<Rightarrow> bytes" where
  "load_marshal p =
     tpm2b_bytes_marshal (lp_in_private p) @ tpm2b_public_marshal (lp_in_public p)"

definition load_new :: "u32 \<Rightarrow> load_parameters \<Rightarrow> load_parameters tpm_command" where
  "load_new parent_handle p = command_sessions Load [parent_handle] p"

definition read_public_new :: "u32 \<Rightarrow> unit tpm_command" where
  "read_public_new object_handle = command_no_sessions ReadPublic [object_handle] ()"

definition flush_context_new :: "u32 \<Rightarrow> unit tpm_command" where
  "flush_context_new flush_handle = command_no_sessions FlushContext [flush_handle] ()"

text \<open>The parameters of \<open>EvictControl\<close> are the persistent handle.\<close>

definition evict_control_marshal :: "u32 \<Rightarrow> bytes" where
  "evict_control_marshal persistent_handle = u32_marshal persistent_handle"

definition evict_control_new :: "u32 \<Rightarrow> u32 \<Rightarrow> u32 \<Rightarrow> u32 tpm_command" where
  "evict_control_new auth_handle object_handle persistent_handle =
     command_sessions EvictControl [auth_handle, object_handle] persistent_handle"

text \<open>The parameter structs of commands without parameters append nothing.\<close>

definition no_parameters_marshal :: "unit \<Rightarrow> bytes" where
  "no_parameters_marshal p = []"

section \<open>Attestation and signatures\<close>

record quote_parameters =
  qp_qualifying_data :: tpm2b_bytes
  qp_scheme :: tpmt_sig_scheme
  qp_pcr_selection :: pcr_selection_list

definition quote_marshal :: "quote_parameters \<Rightarrow> bytes io_res" where
  "quote_marshal p =
     and_then (pcr_selection_list_marshal (qp_pcr_selection p)) (\<lambda>pcrs.
     Inr (tpm2b_bytes_marshal (qp_qualifying_data p) @ sig_scheme_marshal (qp_scheme p) @ pcrs))"

definition quote_new :: "u32 \<Rightarrow> quote_parameters \<Rightarrow> quote_parameters tpm_command" where
  "quote_new sign_handle p = command_sessions Quote [sign_handle] p"

record certify_parameters =
  ctp_qualifying_data :: tpm2b_bytes
  ctp_scheme :: tpmt_sig_scheme

definition certify_marshal :: "certify_parameters \<Rightarrow> bytes" where
  "certify_marshal p =
     tpm2b_bytes_marshal (ctp_qualifying_data p) @ sig_scheme_marshal (ctp_scheme p)"

definition certify_new ::
    "u32 \<Rightarrow> u32 \<Rightarrow> certify_parameters \<Rightarrow> certify_parameters tpm_command" where
  "certify_new object_handle sign_handle p =
     command_sessions Certify [object_handle, sign_handle] p"

record sign_parameters =
  sp_digest :: tpm2b_bytes
  sp_scheme :: tpmt_sig_scheme
  sp_validation :: tpmt_tk_hashcheck

definition sign_marshal :: "sign_parameters \<Rightarrow> bytes" where
  "sign_marshal p =
     tpm2b_bytes_marshal (sp_digest p) @ sig_scheme_marshal (sp_scheme p) @
     hashcheck_marshal (sp_validation p)"

definition sign_new :: "u32 \<Rightarrow> sign_parameters \<Rightarrow> sign_parameters tpm_command" where
  "sign_new key_handle p = command_sessions Sign [key_handle] p"

record verify_signature_parameters =
  vp_digest :: tpm2b_bytes
  vp_signature :: tpmt_signature

definition verify_signature_marshal :: "verify_signature_parameters \<Rightarrow> bytes" where
  "verify_signature_marshal p =
     tpm2b_bytes_marshal (vp_digest p) @ signature_marshal (vp_signature p)"

definition verify_signature_new ::
    "u32 \<Rightarrow> verify_signature_parameters \<Rightarrow> verify_signature_parameters tpm_command" where
  "verify_signature_new key_handle p = command_no_sessions VerifySignature [key_handle] p"

section \<open>Sessions and policies\<close>

record start_auth_session_parameters =
  sap_nonce_caller :: tpm2b_bytes
  sap_encrypted_salt :: tpm2b_bytes
  sap_session_type :: u8
  sap_symmetric :: sym_def_object
  sap_auth_hash :: u16

definition start_auth_session_marshal :: "start_auth_session_parameters \<Rightarrow> bytes" where
  "start_auth_session_marshal p =
     tpm2b_bytes_marshal (sap_nonce_caller p) @
     tpm2b_bytes_marshal (sap_encrypted_salt p) @
     [sap_session_type p] @
     sym_def_marshal (sap_symmetric p) @
     u16_marshal (sap_auth_hash p)"

definition start_auth_session_new ::
    "u32 \<Rightarrow> u32 \<Rightarrow> start_auth_session_parameters \<Rightarrow> start_auth_session_parameters tpm_command" where
  "start_auth_session_new tpm_key bnd p =
     command_no_sessions StartAuthSession [tpm_key, bnd] p"

record policy_pcr_parameters =
  pp_pcr_digest :: tpm2b_bytes
  pp_pcr_selection :: pcr_selection_list

definition policy_pcr_marshal :: "policy_pcr_parameters \<Rightarrow> bytes io_res" where
  "policy_pcr_marshal p =
     and_then (pcr_selection_list_marshal (pp_pcr_selection p)) (\<lambda>pcrs.
     Inr (tpm2b_bytes_marshal (pp_pcr_digest p) @ pcrs))"

definition policy_pcr_new :: "u32 \<Rightarrow> policy_pcr_parameters \<Rightarrow> policy_pcr_parameters tpm_command" where
  "policy_pcr_new session_handle p = command_no_sessions PolicyPCR [session_handle] p"

definition policy_get_digest_new :: "u32 \<Rightarrow> unit tpm_command" where
  "policy_get_digest_new session_handle = command_no_sessions PolicyGetDigest [session_handle] ()"

section \<open>Decryption, unsealing, PCR reads\<close>

record rsa_decrypt_parameters =
  rdp_cipher_text :: bytes
  rdp_scheme :: tpmt_rsa_decrypt_scheme
  rdp_label :: bytes

definition rsa_decrypt_marshal :: "rsa_decrypt_parameters \<Rightarrow> bytes" where
  "rsa_decrypt_marshal p =
     u16_marshal (of_nat (length (rdp_cipher_text p))) @ rdp_cipher_text p @
     rsa_decrypt_scheme_marshal (rdp_scheme p) @
     u16_marshal (of_nat (length (rdp_label p))) @ rdp_label p"

definition rsa_decrypt_new :: "u32 \<Rightarrow> rsa_decrypt_parameters \<Rightarrow> rsa_decrypt_parameters tpm_command" where
  "rsa_decrypt_new key_handle p = command_sessions RsaDecrypt [key_handle] p"

definition unseal_new :: "u32 \<Rightarrow> unit tpm_command" where
  "unseal_new item_handle = command_sessions Unseal [item_handle] ()"

text \<open>The parameters of \<open>PcrRead\<close> are the selection list.\<close>

definition pcr_read_marshal :: "pcr_selection_list \<Rightarrow> bytes io_res" where
  "pcr_read_marshal pcr_select = pcr_selection_list_marshal pcr_select"

definition pcr_read_new :: "pcr_selection_list \<Rightarrow> pcr_selection_list tpm_command" where
  "pcr_read_new pcr_select = command_no_sessions PcrRead [] pcr_select"

section \<open>NV storage\<close>

definition nv_read_public_marshal :: "u32 \<Rightarrow> bytes" where
  "nv_read_public_marshal nv_index = u32_marshal nv_index"

definition nv_read_public_new :: "u32 \<Rightarrow> u32 tpm_command" where
  "nv_read_public_new nv_index = command_no_sessions NvReadPublic [] nv_index"

record nv_read_parameters =
  nrp_size :: u16
  nrp_offset :: u16

definition nv_read_marshal :: "nv_read_parameters \<Rightarrow> bytes" where
  "nv_read_marshal p = u16_marshal (nrp_size p) @ u16_marshal (nrp_offset p)"

definition nv_read_new :: "u32 \<Rightarrow> u32 \<Rightarrow> nv_read_parameters \<Rightarrow> nv_read_parameters tpm_command" where
  "nv_read_new auth_handle nv_index p = command_sessions NvRead [auth_handle, nv_index] p"

record nv_write_parameters =
  nwp_data :: bytes
  nwp_offset :: u16

definition nv_write_marshal :: "nv_write_parameters \<Rightarrow> bytes" where
  "nv_write_marshal p = tpm2b_max_nv_buffer_marshal (nwp_data p) @ u16_marshal (nwp_offset p)"

definition nv_write_new :: "u32 \<Rightarrow> u32 \<Rightarrow> nv_write_parameters \<Rightarrow> nv_write_parameters tpm_command" where
  "nv_write_new auth_handle nv_index p = command_sessions NvWrite [auth_handle, nv_index] p"

record nv_define_space_parameters =
  ndp_auth :: tpm2b_bytes
  ndp_public_info :: nv_public

definition nv_define_space_marshal :: "nv_define_space_parameters \<Rightarrow> bytes" where
  "nv_define_space_marshal p =
     tpm2b_bytes_marshal (ndp_auth p) @ nv_public_marshal (ndp_public_info p)"

definition nv_define_space_new ::
    "u32 \<Rightarrow> nv_define_space_parameters \<Rightarrow> nv_define_space_parameters tpm_command" where
  "nv_define_space_new auth_handle p = command_sessions NvDefineSpace [auth_handle] p"

definition nv_undefine_space_new :: "u32 \<Rightarrow> u32 \<Rightarrow> unit tpm_command" where
  "nv_undefine_space_new auth_handle nv_index =
     command_sessions NvUndefineSpace [auth_handle, nv_index] ()"

definition nv_extend_marshal :: "bytes \<Rightarrow> bytes" where
  "nv_extend_marshal data = tpm2b_max_nv_buffer_marshal data"

definition nv_extend_new :: "u32 \<Rightarrow> u32 \<Rightarrow> bytes \<Rightarrow> bytes tpm_command" where
  "nv_extend_new auth_handle nv_index data =
     command_sessions NvExtend [auth_handle, nv_index] data"

record nv_certify_parameters =
  ncp_qualifying_data :: tpm2b_bytes
  ncp_in_scheme :: tpmt_sig_scheme
  ncp_size :: u16
  ncp_offset :: u16

definition nv_certify_marshal :: "nv_certify_parameters \<Rightarrow> bytes" where
  "nv_certify_marshal p =
     tpm2b_bytes_marshal (ncp_qualifying_data p) @ sig_scheme_marshal (ncp_in_scheme p) @
     u16_marshal (ncp_size p) @ u16_marshal (ncp_offset p)"

definition nv_certify_new ::
    "u32 \<Rightarrow> u32 \<Rightarrow> u32 \<Rightarrow> bytes \<Rightarrow> u16 \<Rightarrow> u16 \<Rightarrow> nv_certify_parameters tpm_command" where
  "nv_certify_new sign_handle auth_handle nv_index qualifying_data sz offset =
     command_sessions NvCertify [sign_handle, auth_handle, nv_index]
       \<lparr>ncp_qualifying_data = qualifying_data, ncp_in_scheme = SigScheme_Rsassa ALG_SHA256,
        ncp_size = sz, ncp_offset = offset\<rparr>"

declare create_primary_new_def [request_defs] load_new_def [request_defs]
  read_public_new_def [request_defs] flush_context_new_def [request_defs]
  evict_control_new_def [request_defs] quote_new_def [request_defs] certify_new_def [request_defs]
  sign_new_def [request_defs] verify_signature_new_def [request_defs]
  start_auth_session_new_def [request_defs] policy_pcr_new_def [request_defs]
  policy_get_digest_new_def [request_defs] rsa_decrypt_new_def [request_defs]
  unseal_new_def [request_defs] pcr_read_new_def [request_defs]
  nv_read_public_new_def [request_defs] nv_read_new_def [request_defs]
  nv_write_new_def [request_defs] nv_define_space_new_def [request_defs]
  nv_undefine_space_new_def [request_defs] nv_extend_new_def [request_defs]
  nv_certify_new_def [request_defs]

section \<open>PCR selections of commands never panic\<close>

lemma length_bitmap_add [simp]: "length (bitmap_add bm p) = length bm"
  by (simp add: bitmap_add_def Let_def)

lemma length_foldl_bitmap [simp]:
  "length (foldl (\<lambda>bm p. if p \<le> 23 then bitmap_add bm p else bm) bm ps) = length bm"
  by (induction ps arbitrary: bm) auto

lemma from_pcrs_with_alg_valid [simp]: "pcr_selection_list_valid (from_pcrs_with_alg pcrs alg)"
  by (simp add: from_pcrs_with_alg_def pcr_selection_list_valid_def pcr_selection_valid_def)

lemma from_pcrs_valid [simp]: "pcr_selection_list_valid (from_pcrs pcrs)"
  by (simp add: from_pcrs_def)

text \<open>The bits of the bitmap are the requested PCRs, and no others.\<close>

definition bitmap_has :: "bytes \<Rightarrow> nat \<Rightarrow> bool" where
  "bitmap_has bm i \<longleftrightarrow> i div 8 < length bm \<and> bit (bm ! (i div 8)) (i mod 8)"

lemma bitmap_has_add:
  assumes "p \<le> 23" "length bm = 3"
  shows "bitmap_has (bitmap_add bm p) i \<longleftrightarrow> bitmap_has bm i \<or> i = unat p"
proof -
  have p: "unat p \<le> 23" using assms(1) by (simp add: word_le_nat_alt)
  then have b: "unat (p div 8) = unat p div 8" "unat (p mod 8) = unat p mod 8" "unat p div 8 < 3"
    by (auto simp: unat_div_distrib unat_mod_distrib)
  show ?thesis
  proof (cases "i div 8 = unat p div 8")
    case True
    have "bit (push_bit (unat p mod 8) 1 :: u8) (i mod 8) \<longleftrightarrow> i mod 8 = unat p mod 8"
      by (auto simp: bit_simps)
    moreover have "i mod 8 = unat p mod 8 \<longleftrightarrow> i = unat p"
      using True by (metis div_mult_mod_eq)
    ultimately show ?thesis
      using True assms(2) b by (auto simp: bitmap_has_def bitmap_add_def Let_def bit_or_iff)
  next
    case False
    then have "i \<noteq> unat p" by auto
    with False assms(2) b show ?thesis
      by (auto simp: bitmap_has_def bitmap_add_def Let_def nth_list_update)
  qed
qed

lemma bitmap_has_foldl:
  "length bm = 3 \<Longrightarrow>
     bitmap_has (foldl (\<lambda>bm p. if p \<le> 23 then bitmap_add bm p else bm) bm ps) i \<longleftrightarrow>
     bitmap_has bm i \<or> (\<exists>p\<in>set ps. p \<le> 23 \<and> i = unat p)"
  by (induction ps arbitrary: bm) (auto simp: bitmap_has_add)

lemma bitmap_has_zero [simp]: "\<not> bitmap_has [0, 0, 0] i"
  by (auto simp: bitmap_has_def nth_Cons split: nat.splits)

end
