(* ===== verification/Tpm_Responses.thy ===== *)
theory Tpm_Responses
  imports Tpm_Requests
begin

text \<open>
  The response parsers \<open>...Response::from_bytes\<close> of \<open>crates/azure-tpm/src/types.rs\<close>.
  Eleven of them share one block of code, which reads the parameter size of a session
  response, checks it against the buffer, decodes the parameters and compares what was
  consumed with the announced size: \<open>checked_parameters\<close>. Five check the size only,
  \<open>NvCertify\<close> checks it and then decodes, \<open>Sign\<close> skips it, \<open>VerifySignature\<close> has none,
  and \<open>CreatePrimary\<close> always reads one.
\<close>

record 'p tpm_response =
  resp_header :: tpm_response_header
  resp_parameters :: 'p

record 'p tpm_handle_response = "'p tpm_response" +
  resp_handle :: u32

definition error_response :: "string \<Rightarrow> tpm_response_header \<Rightarrow> 'a io_res" where
  "error_response name h =
     io_fail OtherKind (name @ '' returned error 0x'' @ fmt_08x (rh_return_code h))"

text \<open>\<open>let mut param_start = cursor; let mut param_size = None; if header.has_sessions() { ... }\<close>\<close>

definition parameter_area ::
    "string \<Rightarrow> tpm_response_header \<Rightarrow> bytes \<Rightarrow> nat \<Rightarrow> (nat \<times> nat option) io_res" where
  "parameter_area name h bs cursor =
     (if has_sessions h then
        and_then (u32_unmarshal bs cursor) (\<lambda>(sz, cursor).
        if length bs < cursor + unat sz
        then io_fail UnexpectedEof (name @ '' response parameter size exceeds buffer'')
        else Inr (cursor, Some (unat sz)))
      else Inr (cursor, None))"

definition checked_parameters ::
    "string \<Rightarrow> 'p reader \<Rightarrow> tpm_response_header \<Rightarrow> bytes \<Rightarrow> nat \<Rightarrow> 'p io_res" where
  "checked_parameters name rd h bs cursor =
     and_then (parameter_area name h bs cursor) (\<lambda>(param_start, param_size).
     and_then (rd bs param_start) (\<lambda>(parameters, param_cursor).
     case param_size of
       None \<Rightarrow> Inr parameters
     | Some sz \<Rightarrow>
         if param_cursor - param_start \<noteq> sz
         then io_fail InvalidData (name @ '' response parameter size mismatch'')
         else Inr parameters))"

definition checked_response :: "string \<Rightarrow> 'p reader \<Rightarrow> bytes \<Rightarrow> 'p tpm_response io_res" where
  "checked_response name rd bs =
     and_then (response_header_parse bs) (\<lambda>(header, cursor).
     if rh_return_code header \<noteq> 0 then error_response name header
     else
       and_then (checked_parameters name rd header bs cursor) (\<lambda>parameters.
       Inr \<lparr>resp_header = header, resp_parameters = parameters\<rparr>))"

definition checked_handle_response ::
    "string \<Rightarrow> string \<Rightarrow> 'p reader \<Rightarrow> bytes \<Rightarrow> 'p tpm_handle_response io_res" where
  "checked_handle_response name what rd bs =
     and_then (response_header_parse bs) (\<lambda>(header, cursor).
     if rh_return_code header \<noteq> 0 then error_response name header
     else if length bs < cursor + 4
     then io_fail UnexpectedEof (name @ '' response missing '' @ what @ '' handle'')
     else
       and_then (be_u32_at bs cursor) (\<lambda>handle.
       and_then (checked_parameters name rd header bs (cursor + 4)) (\<lambda>parameters.
       Inr \<lparr>resp_header = header, resp_parameters = parameters, resp_handle = handle\<rparr>)))"

text \<open>The responses without parameters check the announced size and stop.\<close>

definition empty_response :: "string \<Rightarrow> bytes \<Rightarrow> unit tpm_response io_res" where
  "empty_response name bs =
     and_then (response_header_parse bs) (\<lambda>(header, cursor).
     if rh_return_code header \<noteq> 0 then error_response name header
     else
       and_then (parameter_area name header bs cursor) (\<lambda>_.
       Inr \<lparr>resp_header = header, resp_parameters = ()\<rparr>))"

section \<open>The parsers\<close>

definition load_response_from_bytes :: "bytes \<Rightarrow> tpm2b_bytes tpm_handle_response io_res" where
  "load_response_from_bytes = checked_handle_response ''Load'' ''object'' tpm2b_bytes_unmarshal"

definition attest_and_signature_unmarshal :: "(bytes \<times> tpmt_signature) reader" where
  "attest_and_signature_unmarshal d c =
     and_then (tpm2b_attest_unmarshal d c) (\<lambda>(attest, c).
     and_then (signature_unmarshal d c) (\<lambda>(signature, c).
     Inr ((attest, signature), c)))"

definition quote_response_from_bytes :: "bytes \<Rightarrow> (bytes \<times> tpmt_signature) tpm_response io_res" where
  "quote_response_from_bytes = checked_response ''Quote'' attest_and_signature_unmarshal"

definition certify_response_from_bytes :: "bytes \<Rightarrow> (bytes \<times> tpmt_signature) tpm_response io_res" where
  "certify_response_from_bytes = checked_response ''Certify'' attest_and_signature_unmarshal"

definition start_auth_session_response_from_bytes ::
    "bytes \<Rightarrow> tpm2b_bytes tpm_handle_response io_res" where
  "start_auth_session_response_from_bytes =
     checked_handle_response ''StartAuthSession'' ''session'' tpm2b_bytes_unmarshal"

definition policy_get_digest_response_from_bytes :: "bytes \<Rightarrow> tpm2b_bytes tpm_response io_res" where
  "policy_get_digest_response_from_bytes = checked_response ''PolicyGetDigest'' tpm2b_bytes_unmarshal"

definition evict_control_response_from_bytes :: "bytes \<Rightarrow> unit tpm_response io_res" where
  "evict_control_response_from_bytes = empty_response ''EvictControl''"

definition rsa_decrypt_response_from_bytes :: "bytes \<Rightarrow> tpm2b_bytes tpm_response io_res" where
  "rsa_decrypt_response_from_bytes = checked_response ''RsaDecrypt'' tpm2b_bytes_unmarshal"

definition unseal_response_from_bytes :: "bytes \<Rightarrow> tpm2b_bytes tpm_response io_res" where
  "unseal_response_from_bytes = checked_response ''Unseal'' tpm2b_bytes_unmarshal"

record read_public_response_parameters =
  rp_out_public :: tpmt_public
  rp_name :: tpm2b_bytes
  rp_qualified_name :: tpm2b_bytes

definition read_public_parameters_unmarshal :: "read_public_response_parameters reader" where
  "read_public_parameters_unmarshal d c =
     and_then (tpm2b_public_unmarshal d c) (\<lambda>(out_public, c).
     and_then (tpm2b_bytes_unmarshal d c) (\<lambda>(name, c).
     and_then (tpm2b_bytes_unmarshal d c) (\<lambda>(qualified_name, c).
     Inr (\<lparr>rp_out_public = out_public, rp_name = name, rp_qualified_name = qualified_name\<rparr>, c))))"

definition read_public_response_from_bytes ::
    "bytes \<Rightarrow> read_public_response_parameters tpm_response io_res" where
  "read_public_response_from_bytes = checked_response ''ReadPublic'' read_public_parameters_unmarshal"

definition nv_read_public_response_from_bytes ::
    "bytes \<Rightarrow> nv_read_public_response_parameters tpm_response io_res" where
  "nv_read_public_response_from_bytes =
     checked_response ''NvReadPublic'' nv_read_public_parameters_unmarshal"

definition nv_read_response_from_bytes :: "bytes \<Rightarrow> bytes tpm_response io_res" where
  "nv_read_response_from_bytes = checked_response ''NvRead'' tpm2b_max_nv_buffer_unmarshal"

definition nv_write_response_from_bytes :: "bytes \<Rightarrow> unit tpm_response io_res" where
  "nv_write_response_from_bytes = empty_response ''NvWrite''"

definition nv_define_space_response_from_bytes :: "bytes \<Rightarrow> unit tpm_response io_res" where
  "nv_define_space_response_from_bytes = empty_response ''NvDefineSpace''"

definition nv_undefine_space_response_from_bytes :: "bytes \<Rightarrow> unit tpm_response io_res" where
  "nv_undefine_space_response_from_bytes = empty_response ''NvUndefineSpace''"

definition nv_extend_response_from_bytes :: "bytes \<Rightarrow> unit tpm_response io_res" where
  "nv_extend_response_from_bytes = empty_response ''NvExtend''"

definition nv_certify_parameters_unmarshal :: "(bytes \<times> tpmt_signature) reader" where
  "nv_certify_parameters_unmarshal d c =
     and_then (sized_slice ''NvCertify attest truncated'' d c) (\<lambda>(certify_info, c).
     and_then (signature_unmarshal d c) (\<lambda>(signature, c).
     Inr ((certify_info, signature), c)))"

definition nv_certify_response_from_bytes ::
    "bytes \<Rightarrow> (bytes \<times> tpmt_signature) tpm_response io_res" where
  "nv_certify_response_from_bytes bs =
     and_then (response_header_parse bs) (\<lambda>(header, cursor).
     if rh_return_code header \<noteq> 0 then error_response ''NvCertify'' header
     else
       and_then (parameter_area ''NvCertify'' header bs cursor) (\<lambda>(cursor, _).
       and_then (nv_certify_parameters_unmarshal bs cursor) (\<lambda>(parameters, _).
       Inr \<lparr>resp_header = header, resp_parameters = parameters\<rparr>)))"

record pcr_read_response_parameters =
  prp_update_counter :: u32
  prp_selections :: "pcr_selection list"
  prp_digests :: "bytes list"

definition pcr_read_parameters_unmarshal :: "pcr_read_response_parameters reader" where
  "pcr_read_parameters_unmarshal d c =
     and_then (u32_unmarshal d c) (\<lambda>(update_counter, c).
     and_then (pcr_selection_list_unmarshal d c) (\<lambda>(sel_list, c).
     and_then (digest_list_unmarshal d c) (\<lambda>(digests, c).
     Inr (\<lparr>prp_update_counter = update_counter, prp_selections = sel_list,
           prp_digests = digests\<rparr>, c))))"

definition pcr_read_response_from_bytes :: "bytes \<Rightarrow> pcr_read_response_parameters tpm_response io_res" where
  "pcr_read_response_from_bytes = checked_response ''PcrRead'' pcr_read_parameters_unmarshal"

text \<open>\<open>Sign\<close> reads the parameter size of a session response and ignores it.\<close>

definition sign_response_from_bytes :: "bytes \<Rightarrow> tpmt_signature tpm_response io_res" where
  "sign_response_from_bytes bs =
     and_then (response_header_parse bs) (\<lambda>(header, cursor).
     if rh_return_code header \<noteq> 0 then error_response ''Sign'' header
     else
       and_then
         (if has_sessions header
          then and_then (u32_unmarshal bs cursor) (\<lambda>(_, cursor). Inr cursor)
          else Inr cursor) (\<lambda>cursor.
       and_then (signature_unmarshal bs cursor) (\<lambda>(signature, _).
       Inr \<lparr>resp_header = header, resp_parameters = signature\<rparr>)))"

definition verify_signature_response_from_bytes :: "bytes \<Rightarrow> tpmt_tk_verified tpm_response io_res" where
  "verify_signature_response_from_bytes bs =
     and_then (response_header_parse bs) (\<lambda>(header, cursor).
     if rh_return_code header \<noteq> 0 then error_response ''VerifySignature'' header
     else
       and_then (tk_verified_unmarshal bs cursor) (\<lambda>(validation, _).
       Inr \<lparr>resp_header = header, resp_parameters = validation\<rparr>))"

record create_primary_response_parameters =
  cpr_out_public :: tpmt_public
  cpr_creation_data :: tpm2b_bytes
  cpr_creation_hash :: tpm2b_bytes
  cpr_creation_ticket :: bytes
  cpr_name :: tpm2b_bytes
  cpr_qualified_name :: tpm2b_bytes

text \<open>The creation ticket is kept as raw bytes: tag, hierarchy, sized digest.\<close>

definition creation_ticket_unmarshal :: "bytes reader" where
  "creation_ticket_unmarshal d c =
     (if length d < c + 2 + 4 then io_fail UnexpectedEof ''ticket header''
      else
        and_then (tpm2b_bytes_unmarshal d (c + (2 + 4))) (\<lambda>(digest, c').
        and_then (rs_slice d c (c + 2 + 4 + 2 + length digest)) (\<lambda>ticket.
        Inr (ticket, c'))))"

definition create_primary_parameters_unmarshal :: "create_primary_response_parameters reader" where
  "create_primary_parameters_unmarshal d c =
     and_then (u32_unmarshal d c) (\<lambda>(_, c).
     and_then (tpm2b_public_unmarshal d c) (\<lambda>(out_public, c).
     and_then (tpm2b_bytes_unmarshal d c) (\<lambda>(creation_data, c).
     and_then (tpm2b_bytes_unmarshal d c) (\<lambda>(creation_hash, c).
     and_then (creation_ticket_unmarshal d c) (\<lambda>(creation_ticket, c).
     and_then (tpm2b_bytes_unmarshal d c) (\<lambda>(name, c).
     and_then (tpm2b_bytes_unmarshal d c) (\<lambda>(qualified_name, c).
     Inr (\<lparr>cpr_out_public = out_public, cpr_creation_data = creation_data,
           cpr_creation_hash = creation_hash, cpr_creation_ticket = creation_ticket,
           cpr_name = name, cpr_qualified_name = qualified_name\<rparr>, c))))))))"

definition create_primary_response_from_bytes ::
    "bytes \<Rightarrow> create_primary_response_parameters tpm_handle_response io_res" where
  "create_primary_response_from_bytes bs =
     and_then (response_header_parse bs) (\<lambda>(header, cursor).
     if rh_return_code header \<noteq> 0 then error_response ''CreatePrimary'' header
     else if length bs < cursor + 4
     then io_fail UnexpectedEof ''CreatePrimary response missing object handle''
     else
       and_then (be_u32_at bs cursor) (\<lambda>object_handle.
       and_then (create_primary_parameters_unmarshal bs (cursor + 4)) (\<lambda>(parameters, _).
       Inr \<lparr>resp_header = header, resp_parameters = parameters, resp_handle = object_handle\<rparr>)))"

section \<open>No parser panics\<close>

lemma parameter_area_no_panic [no_panic]: "c \<le> length bs \<Longrightarrow> parameter_area name h bs c \<noteq> Inl Panic"
  by (auto simp: parameter_area_def and_then_eq_Inl u32_reader.reader_no_panic)

lemma parameter_area_bounds:
  "c \<le> length bs \<Longrightarrow> parameter_area name h bs c = Inr (start, psize) \<Longrightarrow>
     c \<le> start \<and> start \<le> length bs \<and> (\<forall>n. psize = Some n \<longrightarrow> start + n \<le> length bs)"
  by (auto simp: parameter_area_def and_then_eq_Inr dest!: u32_reader.reader_bounds [rotated]
      split: if_splits)

lemma checked_parameters_no_panic [no_panic]:
  assumes "total_reader rd" "c \<le> length bs"
  shows "checked_parameters name rd h bs c \<noteq> Inl Panic"
  unfolding checked_parameters_def
proof (rule and_then_no_panic)
  show "parameter_area name h bs c \<noteq> Inl Panic" by (rule parameter_area_no_panic [OF assms(2)])
  fix x assume "parameter_area name h bs c = Inr x"
  then have "fst x \<le> length bs" using parameter_area_bounds [OF assms(2)] by (cases x) auto
  then have "rd bs (fst x) \<noteq> Inl Panic" by (rule total_reader.reader_no_panic [OF assms(1)])
  then show "(case x of (param_start, param_size) \<Rightarrow>
      and_then (rd bs param_start) (\<lambda>(parameters, param_cursor).
      case param_size of None \<Rightarrow> Inr parameters
      | Some sz \<Rightarrow> if param_cursor - param_start \<noteq> sz
          then io_fail InvalidData (name @ '' response parameter size mismatch'')
          else Inr parameters)) \<noteq> Inl Panic"
    by (auto simp: and_then_eq_Inl split: prod.splits option.splits)
qed

lemma checked_response_no_panic [no_panic]:
  "total_reader rd \<Longrightarrow> checked_response name rd bs \<noteq> Inl Panic"
  using response_header_parse_no_panic response_header_parse_Inr [of bs]
  by (auto simp: checked_response_def error_response_def and_then_eq_Inl checked_parameters_no_panic)

lemma checked_handle_response_no_panic [no_panic]:
  "total_reader rd \<Longrightarrow> checked_handle_response name what rd bs \<noteq> Inl Panic"
  using response_header_parse_no_panic response_header_parse_Inr [of bs]
  by (auto simp: checked_handle_response_def error_response_def and_then_eq_Inl
      checked_parameters_no_panic)

lemma empty_response_no_panic [no_panic]: "empty_response name bs \<noteq> Inl Panic"
  using response_header_parse_no_panic response_header_parse_Inr [of bs]
  by (auto simp: empty_response_def error_response_def and_then_eq_Inl parameter_area_no_panic)

lemma total_attest_and_signature [total_intros]: "total_reader attest_and_signature_unmarshal"
  unfolding attest_and_signature_unmarshal_def [abs_def] by (intro total_intros)

lemma total_read_public_parameters [total_intros]: "total_reader read_public_parameters_unmarshal"
  unfolding read_public_parameters_unmarshal_def [abs_def] by (intro total_intros)

lemma total_nv_certify_parameters [total_intros]: "total_reader nv_certify_parameters_unmarshal"
  unfolding nv_certify_parameters_unmarshal_def [abs_def] by (intro total_intros)

lemma total_pcr_read_parameters [total_intros]: "total_reader pcr_read_parameters_unmarshal"
  unfolding pcr_read_parameters_unmarshal_def [abs_def] by (intro total_intros)

lemma sized_slice_consumes:
  "sized_slice what d c = Inr (v, c') \<Longrightarrow> c' = c + 2 + length v \<and> c' \<le> length d"
  by (auto simp: sized_slice_def u16_unmarshal_def and_then_eq_Inr rs_slice_eq_Inr split: if_splits)

lemma total_creation_ticket [total_intros]: "total_reader creation_ticket_unmarshal"
proof
  fix d :: bytes and c :: nat
  show "creation_ticket_unmarshal d c \<noteq> Inl Panic"
    using total_reader.reader_no_panic [OF total_sized_slice, of "c + (2 + 4)" d "''2b bytes''"]
    by (auto simp: creation_ticket_unmarshal_def and_then_eq_Inl rs_slice_def
        tpm2b_bytes_unmarshal_def dest!: sized_slice_consumes)
next
  fix d :: bytes and c x c'
  assume "creation_ticket_unmarshal d c = Inr (x, c')"
  then show "c \<le> c' \<and> c' \<le> length d"
    by (auto simp: creation_ticket_unmarshal_def and_then_eq_Inr tpm2b_bytes_unmarshal_def
        dest!: sized_slice_consumes split: if_splits)
qed

lemma total_create_primary_parameters [total_intros]:
  "total_reader create_primary_parameters_unmarshal"
  unfolding create_primary_parameters_unmarshal_def [abs_def] by (intro total_intros)

lemma nv_certify_response_no_panic [no_panic]: "nv_certify_response_from_bytes bs \<noteq> Inl Panic"
  using response_header_parse_no_panic [of bs] response_header_parse_Inr [of bs]
    total_reader.reader_no_panic [OF total_nv_certify_parameters]
  by (auto simp: nv_certify_response_from_bytes_def error_response_def and_then_eq_Inl
      parameter_area_no_panic dest!: parameter_area_bounds [rotated])

lemma sign_response_no_panic [no_panic]: "sign_response_from_bytes bs \<noteq> Inl Panic"
  using response_header_parse_no_panic [of bs] response_header_parse_Inr [of bs]
  by (auto simp: sign_response_from_bytes_def error_response_def and_then_eq_Inl and_then_eq_Inr
      u32_reader.reader_no_panic signature_reader.reader_no_panic
      dest!: u32_reader.reader_bounds [rotated] split: if_splits)

lemma verify_signature_response_no_panic [no_panic]:
  "verify_signature_response_from_bytes bs \<noteq> Inl Panic"
  using response_header_parse_no_panic [of bs] response_header_parse_Inr [of bs]
    total_reader.reader_no_panic [OF total_tk_verified]
  by (auto simp: verify_signature_response_from_bytes_def error_response_def and_then_eq_Inl)

lemma create_primary_response_no_panic [no_panic]:
  "create_primary_response_from_bytes bs \<noteq> Inl Panic"
  using response_header_parse_no_panic [of bs] response_header_parse_Inr [of bs]
    total_reader.reader_no_panic [OF total_create_primary_parameters]
  by (auto simp: create_primary_response_from_bytes_def error_response_def and_then_eq_Inl)

lemmas response_defs = load_response_from_bytes_def quote_response_from_bytes_def
  certify_response_from_bytes_def start_auth_session_response_from_bytes_def
  policy_get_digest_response_from_bytes_def evict_control_response_from_bytes_def
  rsa_decrypt_response_from_bytes_def unseal_response_from_bytes_def
  read_public_response_from_bytes_def nv_read_public_response_from_bytes_def
  nv_read_response_from_bytes_def nv_write_response_from_bytes_def
  nv_define_space_response_from_bytes_def nv_undefine_space_response_from_bytes_def
  nv_extend_response_from_bytes_def pcr_read_response_from_bytes_def

lemma named_responses_no_panic [no_panic]:
  "load_response_from_bytes bs \<noteq> Inl Panic"
  "quote_response_from_bytes bs \<noteq> Inl Panic"
  "certify_response_from_bytes bs \<noteq> Inl Panic"
  "start_auth_session_response_from_bytes bs \<noteq> Inl Panic"
  "policy_get_digest_response_from_bytes bs \<noteq> Inl Panic"
  "evict_control_response_from_bytes bs \<noteq> Inl Panic"
  "rsa_decrypt_response_from_bytes bs \<noteq> Inl Panic"
  "unseal_response_from_bytes bs \<noteq> Inl Panic"
  "read_public_response_from_bytes bs \<noteq> Inl Panic"
  "nv_read_public_response_from_bytes bs \<noteq> Inl Panic"
  "nv_read_response_from_bytes bs \<noteq> Inl Panic"
  "nv_write_response_from_bytes bs \<noteq> Inl Panic"
  "nv_define_space_response_from_bytes bs \<noteq> Inl Panic"
  "nv_undefine_space_response_from_bytes bs \<noteq> Inl Panic"
  "nv_extend_response_from_bytes bs \<noteq> Inl Panic"
  "pcr_read_response_from_bytes bs \<noteq> Inl Panic"
  unfolding response_defs by (intro no_panic total_intros)+

section \<open>What a well-formed response yields\<close>

text \<open>
  The TPM's session response: header with tag \<open>TPM_ST_SESSIONS\<close>, size and code, the
  handle area, the parameter size, the parameters, the authorization area.
\<close>

definition session_response :: "u32 \<Rightarrow> bytes \<Rightarrow> u32 \<Rightarrow> bytes \<Rightarrow> bytes \<Rightarrow> bytes" where
  "session_response code handle_area psize params auth =
     u16_marshal TPM_ST_SESSIONS @
     u32_marshal (of_nat (14 + length handle_area + length params + length auth)) @
     u32_marshal code @ handle_area @ u32_marshal psize @ params @ auth"

definition session_header :: "u32 \<Rightarrow> bytes \<Rightarrow> bytes \<Rightarrow> bytes \<Rightarrow> tpm_response_header" where
  "session_header code handle_area params auth =
     \<lparr>rh_tag = TPM_ST_SESSIONS,
      rh_size = of_nat (14 + length handle_area + length params + length auth),
      rh_return_code = code\<rparr>"

lemma header_of_session_response:
  assumes "14 + length handle_area + length params + length auth < 4294967296"
  shows "response_header_parse (session_response code handle_area psize params auth) =
         Inr (session_header code handle_area params auth, 10)"
proof -
  let ?n = "14 + length handle_area + length params + length auth"
  have "unat (of_nat ?n :: u32) \<le> 10 + length (handle_area @ u32_marshal psize @ params @ auth)"
    using assms by (subst unat_of_nat_u32) auto
  from response_header_parse_marshal [OF this, of TPM_ST_SESSIONS code] show ?thesis
    unfolding session_response_def session_header_def u16_marshal_def u32_marshal_def
    by (simp only: append_assoc)
qed

lemma session_header_simps [simp]:
  "has_sessions (session_header code handle_area params auth)"
  "rh_return_code (session_header code handle_area params auth) = code"
  by (simp_all add: session_header_def has_sessions_def)

lemma session_response_layout:
  "occurs_at (session_response code handle_area psize params auth) 10 handle_area"
  "occurs_at (session_response code handle_area psize params auth) (10 + length handle_area) (u32_marshal psize)"
  "occurs_at (session_response code handle_area psize params auth) (14 + length handle_area) params"
  "length (session_response code handle_area psize params auth) =
     14 + length handle_area + length params + length auth"
  using occurs_at_whole [of "session_response code handle_area psize params auth"]
  by (simp_all add: session_response_def eval_nat_numeral)

lemma parameter_area_session:
  "unat psize \<le> length params + length auth \<Longrightarrow>
   parameter_area name (session_header code handle_area params auth)
     (session_response code handle_area psize params auth) (10 + length handle_area) =
   Inr (14 + length handle_area, Some (unat psize))"
  using session_response_layout(2) [of code handle_area psize params auth]
    session_response_layout(4) [of code handle_area psize params auth]
  by (auto simp: parameter_area_def)

context wire_codec begin

text \<open>The announced parameter size decides: equal to what the decoder consumes, or an error.\<close>

lemma checked_parameters_session:
  assumes "valid x" "unat psize \<le> length (marshal x) + length auth"
  shows "checked_parameters name unmarshal (session_header code handle_area (marshal x) auth)
      (session_response code handle_area psize (marshal x) auth) (10 + length handle_area) =
    (if unat psize = length (marshal x) then Inr x
     else io_fail InvalidData (name @ '' response parameter size mismatch''))"
  using codec [OF session_response_layout(3) [of code handle_area psize "marshal x" auth] assms(1)]
  by (auto simp: checked_parameters_def parameter_area_session [OF assms(2)])

lemma checked_response_session:
  assumes "valid x" "14 + length (marshal x) + length auth < 4294967296"
    and "unat psize \<le> length (marshal x) + length auth"
  shows "checked_response name unmarshal (session_response 0 [] psize (marshal x) auth) =
    (if unat psize = length (marshal x)
     then Inr \<lparr>resp_header = session_header 0 [] (marshal x) auth, resp_parameters = x\<rparr>
     else io_fail InvalidData (name @ '' response parameter size mismatch''))"
  using assms(2) checked_parameters_session [OF assms(1,3), of name 0 "[]"]
  by (simp add: checked_response_def header_of_session_response)

lemma checked_handle_response_session:
  assumes "valid x" "18 + length (marshal x) + length auth < 4294967296"
    and "unat psize \<le> length (marshal x) + length auth"
  shows "checked_handle_response name what unmarshal
      (session_response 0 (u32_marshal h) psize (marshal x) auth) =
    (if unat psize = length (marshal x)
     then Inr \<lparr>resp_header = session_header 0 (u32_marshal h) (marshal x) auth,
               resp_parameters = x, resp_handle = h\<rparr>
     else io_fail InvalidData (name @ '' response parameter size mismatch''))"
proof -
  let ?bs = "session_response 0 (u32_marshal h) psize (marshal x) auth"
  have "occurs_at ?bs 10 (u32_marshal h)" by (rule session_response_layout(1))
  then have "(be_u32_at ?bs 10 :: u32 io_res) = Inr h"
    by (simp add: occurs_at_def u32_marshal_def)
  then show ?thesis
    using assms(2) checked_parameters_session [OF assms(1,3), of name 0 "u32_marshal h"]
    by (simp add: checked_handle_response_def header_of_session_response session_response_layout(4))
qed

end

definition attest_and_signature_marshal :: "bytes \<times> tpmt_signature \<Rightarrow> bytes" where
  "attest_and_signature_marshal = (\<lambda>(a, s). tpm2b_attest_marshal a @ signature_marshal s)"

definition attest_and_signature_valid :: "bytes \<times> tpmt_signature \<Rightarrow> bool" where
  "attest_and_signature_valid = (\<lambda>(a, s). fits_u16 a \<and> signature_valid s)"

interpretation attest_signature_codec:
  wire_codec attest_and_signature_marshal attest_and_signature_unmarshal attest_and_signature_valid
  by unfold_locales
    (auto simp: attest_and_signature_marshal_def attest_and_signature_unmarshal_def
       attest_and_signature_valid_def)

definition pcr_read_parameters_wire :: "pcr_read_response_parameters \<Rightarrow> bytes" where
  "pcr_read_parameters_wire p =
     u32_marshal (prp_update_counter p) @ pcr_selection_list_wire (prp_selections p) @
     digest_list_wire (prp_digests p)"

definition pcr_read_parameters_valid :: "pcr_read_response_parameters \<Rightarrow> bool" where
  "pcr_read_parameters_valid p \<longleftrightarrow>
     pcr_selection_list_valid (prp_selections p) \<and> digest_list_valid (prp_digests p)"

interpretation pcr_read_codec:
  wire_codec pcr_read_parameters_wire pcr_read_parameters_unmarshal pcr_read_parameters_valid
  by unfold_locales
    (auto simp: pcr_read_parameters_wire_def pcr_read_parameters_unmarshal_def
       pcr_read_parameters_valid_def)

text \<open>A non-zero return code is reported, whatever the rest of the response.\<close>

lemma checked_response_error:
  assumes "code \<noteq> 0" "14 + length params + length auth < 4294967296"
  shows "checked_response name rd (session_response code [] psize params auth) =
         io_fail OtherKind (name @ '' returned error 0x'' @ fmt_08x code)"
  using assms by (simp add: checked_response_def error_response_def header_of_session_response)

end
