(* ===== verification/Tpm_Helpers.thy ===== *)
theory Tpm_Helpers
  imports Tpm_Responses
begin

text \<open>
  \<open>crates/azure-tpm/src/helpers.rs\<close>: assembling command buffers, checking a response's
  return code, decoding it for humans.
\<close>

section \<open>Building commands\<close>

definition build_header_no_sessions :: "tpm_command_code \<Rightarrow> bytes" where
  "build_header_no_sessions code =
     be_bytes 2 TPM_ST_NO_SESSIONS @ [0, 0, 0, 0] @ be_bytes 4 (command_code_u32 code)"

definition build_header_sessions :: "tpm_command_code \<Rightarrow> bytes" where
  "build_header_sessions code =
     be_bytes 2 TPM_ST_SESSIONS @ [0, 0, 0, 0] @ be_bytes 4 (command_code_u32 code)"

text \<open>\<open>out[2..6].copy_from_slice(&len.to_be_bytes())\<close>: panics on a buffer below six bytes.\<close>

definition finalize_size :: "bytes \<Rightarrow> bytes io_res" where
  "finalize_size out =
     (if length out < 6 then Inl Panic
      else Inr (take 2 out @ be_bytes 4 (of_nat (length out) :: u32) @ drop 6 out))"

definition handle_area :: "u32 list \<Rightarrow> bytes" where
  "handle_area handles = concat (map u32_marshal handles)"

definition build_command_no_sessions :: "tpm_command_code \<Rightarrow> u32 list \<Rightarrow> bytes \<Rightarrow> bytes io_res" where
  "build_command_no_sessions code handles params =
     finalize_size (build_header_no_sessions code @ handle_area handles @ params)"

text \<open>
  \<open>auth_area_size.checked_add(4 + 2 + 1 + 2 + auth.len() as u32).expect(...)\<close>, once per
  session; the inner sum is plain 32-bit arithmetic.
\<close>

fun auth_area_size :: "u32 \<Rightarrow> bytes list \<Rightarrow> u32 io_res" where
  "auth_area_size acc [] = Inr acc"
| "auth_area_size acc (auth # auths) =
     (let entry = 4 + 2 + 1 + 2 + (of_nat (length auth) :: u32)
      in if unat acc + unat entry < 2 ^ 32 then auth_area_size (acc + entry) auths else Inl Panic)"

definition pw_session :: "bytes \<Rightarrow> bytes" where
  "pw_session auth =
     be_bytes 4 TPM_RS_PW @ be_bytes 2 (0 :: u16) @ [0] @
     be_bytes 2 (of_nat (length auth) :: u16) @ auth"

definition build_command_pw_sessions ::
    "tpm_command_code \<Rightarrow> u32 list \<Rightarrow> bytes list \<Rightarrow> bytes \<Rightarrow> bytes io_res" where
  "build_command_pw_sessions code handles session_auths params =
     and_then (auth_area_size 0 session_auths) (\<lambda>n.
     finalize_size
       (build_header_sessions code @ handle_area handles @ be_bytes 4 n @
        concat (map pw_session session_auths) @ params))"

record session_entry =
  se_handle :: u32
  se_auth :: bytes
  se_attrs :: u8

definition custom_session :: "session_entry \<Rightarrow> bytes" where
  "custom_session s =
     be_bytes 4 (se_handle s) @ be_bytes 2 (0 :: u16) @ [se_attrs s] @
     be_bytes 2 (of_nat (length (se_auth s)) :: u16) @ se_auth s"

definition build_command_custom_sessions ::
    "tpm_command_code \<Rightarrow> u32 list \<Rightarrow> session_entry list \<Rightarrow> bytes \<Rightarrow> bytes io_res" where
  "build_command_custom_sessions code handles sessions params =
     and_then (auth_area_size 0 (map se_auth sessions)) (\<lambda>n.
     finalize_size
       (build_header_sessions code @ handle_area handles @ be_bytes 4 n @
        concat (map custom_session sessions) @ params))"

section \<open>Return codes\<close>

definition decode_fmt1_name :: "u32 \<Rightarrow> string" where
  "decode_fmt1_name base =
     (if base = 0x01 then ''ASYMMETRIC'' else if base = 0x02 then ''ATTRIBUTES''
      else if base = 0x03 then ''HASH'' else if base = 0x04 then ''VALUE''
      else if base = 0x05 then ''HIERARCHY'' else if base = 0x07 then ''KEY_SIZE''
      else if base = 0x08 then ''MGF'' else if base = 0x09 then ''MODE''
      else if base = 0x0A then ''TYPE'' else if base = 0x0B then ''HANDLE''
      else if base = 0x0C then ''KDF'' else if base = 0x0D then ''RANGE''
      else if base = 0x0E then ''AUTH_FAIL'' else if base = 0x0F then ''NONCE''
      else if base = 0x10 then ''PP'' else if base = 0x12 then ''SCHEME''
      else if base = 0x15 then ''SIZE'' else if base = 0x16 then ''SYMMETRIC''
      else if base = 0x17 then ''CURVE'' else if base = 0x18 then ''KEY''
      else ''UNKNOWN_FMT1_BASE'')"

definition decode_fmt0_name :: "u32 \<Rightarrow> string" where
  "decode_fmt0_name low7 =
     (if low7 = 0x01 then ''INITIALIZE'' else if low7 = 0x03 then ''SEQUENCE''
      else if low7 = 0x09 then ''HMAC'' else if low7 = 0x0B then ''DISABLED''
      else if low7 = 0x12 then ''COMMAND_SIZE'' else if low7 = 0x14 then ''COMMAND_CODE''
      else if low7 = 0x15 then ''AUTH_SIZE'' else if low7 = 0x16 then ''AUTH_CONTEXT''
      else if low7 = 0x20 then ''NV_RANGE'' else if low7 = 0x22 then ''NV_SIZE''
      else if low7 = 0x24 then ''NV_LOCKED'' else if low7 = 0x25 then ''NV_AUTHORIZATION''
      else if low7 = 0x26 then ''NV_UNINITIALIZED'' else if low7 = 0x28 then ''NV_SPACE''
      else if low7 = 0x2C then ''NV_DEFINED''
      else ''UNKNOWN_FMT0_BASE'')"

definition decode_target :: "u32 \<Rightarrow> string" where
  "decode_target rc =
     (let is_format1 = (rc AND 0x80) \<noteq> 0;
          is_session = (rc AND 0x800) \<noteq> 0;
          is_handle = (rc AND 0x100) \<noteq> 0;
          is_parameter = is_format1 \<and> \<not> is_session \<and> \<not> is_handle
      in if is_parameter then ''PARAM''
         else if is_handle then ''HANDLE''
         else if is_session then ''SESSION''
         else ''BASE'')"

definition decode_tpm_rc :: "u32 \<Rightarrow> string" where
  "decode_tpm_rc rc =
     (if rc = 0 then ''SUCCESS''
      else
        let is_format1 = (rc AND 0x80) \<noteq> 0;
            index = (if is_format1 then unat (drop_bit 8 rc AND 0x7) else 0);
            base = rc AND 0x3F;
            is_warning = (rc AND 0x900) = 0x900
        in if is_format1 then
             ''FMT1 base='' @ decode_fmt1_name base @ ''(0x'' @ hex_fixed 2 (unat base) @
             '') target='' @ decode_target rc @ '' index='' @ fmt_dec index @
             '' warning='' @ fmt_bool is_warning
           else
             ''FMT0 base='' @ decode_fmt0_name (rc AND 0x7F) @
             ''(0x'' @ hex_fixed 2 (unat (rc AND 0x7F)) @ '')'')"

definition parse_tpm_rc_with_cmd :: "bytes \<Rightarrow> tpm_command_code \<Rightarrow> unit io_res" where
  "parse_tpm_rc_with_cmd resp cmd =
     (if length resp < 10 then io_fail UnexpectedEof ''TPM response too short''
      else
        and_then (be_u32_at resp 2) (\<lambda>declared.
        if unat declared \<noteq> length resp
        then io_fail InvalidData
          (''response length mismatch (declared '' @ fmt_dec (unat declared) @ '' actual '' @
           fmt_dec (length resp) @ '')'')
        else
          and_then (be_u32_at resp 6) (\<lambda>rc.
          if rc \<noteq> 0 then Inl (Fail (Io_Tpm (Tpm_Rc rc (decode_tpm_rc rc) (Some cmd))))
          else Inr ())))"

definition hex_fmt :: "bytes \<Rightarrow> string" where
  "hex_fmt bs = concat (map fmt_02x bs)"

section \<open>The frame of a built command\<close>

definition command_frame :: "u16 \<Rightarrow> tpm_command_code \<Rightarrow> bytes \<Rightarrow> bytes" where
  "command_frame tag code body =
     u16_marshal tag @ u32_marshal (of_nat (10 + length body)) @
     u32_marshal (command_code_u32 code) @ body"

lemma length_command_frame [simp]: "length (command_frame tag code body) = 10 + length body"
  by (simp add: command_frame_def)

lemma length_handle_area [simp]: "length (handle_area hs) = 4 * length hs"
  by (induction hs) (auto simp: handle_area_def)

lemma finalize_header_no_sessions:
  "finalize_size (build_header_no_sessions code @ body) =
     Inr (command_frame TPM_ST_NO_SESSIONS code body)"
  by (simp add: finalize_size_def build_header_no_sessions_def command_frame_def
      u16_marshal_def u32_marshal_def)

lemma finalize_header_sessions:
  "finalize_size (build_header_sessions code @ body) =
     Inr (command_frame TPM_ST_SESSIONS code body)"
  by (simp add: finalize_size_def build_header_sessions_def command_frame_def
      u16_marshal_def u32_marshal_def)

lemma build_command_no_sessions_frame:
  "build_command_no_sessions code hs params =
     Inr (command_frame TPM_ST_NO_SESSIONS code (handle_area hs @ params))"
  by (simp add: build_command_no_sessions_def finalize_header_no_sessions)

text \<open>The frame agrees with the header each command structure carries, once its size is set.\<close>

lemma command_frame_header:
  "command_frame tag code body =
     command_header_marshal \<lparr>ch_tag = tag, ch_size = of_nat (10 + length body), ch_command_code = code\<rparr> @ body"
  by (simp add: command_frame_def command_header_marshal_def u16_marshal_def u32_marshal_def)

section \<open>The authorization area\<close>

definition auth_bytes :: "bytes list \<Rightarrow> nat" where
  "auth_bytes auths = sum_list (map (\<lambda>a. 9 + length a) auths)"

lemma auth_area_size_total:
  "unat acc + auth_bytes auths < 2 ^ 32 \<Longrightarrow>
     auth_area_size acc auths = Inr (acc + of_nat (auth_bytes auths))"
proof (induction auths arbitrary: acc)
  case Nil
  then show ?case by (simp add: auth_bytes_def)
next
  case (Cons a auths)
  let ?entry = "4 + 2 + 1 + 2 + (of_nat (length a) :: u32)"
  have e: "?entry = of_nat (9 + length a)" by simp
  have b: "unat acc + (9 + length a) + auth_bytes auths < 2 ^ 32"
    using Cons.prems by (simp add: auth_bytes_def)
  then have ue: "unat ?entry = 9 + length a"
    unfolding e by (subst unat_of_nat_u32) auto
  then have ua: "unat (acc + ?entry) = unat acc + (9 + length a)"
    using b by (subst unat_add_lem [THEN iffD1]) auto
  have "auth_area_size (acc + ?entry) auths = Inr (acc + ?entry + of_nat (auth_bytes auths))"
    by (rule Cons.IH) (use b ua in simp)
  moreover have "unat acc + unat ?entry < 2 ^ 32" using b ue by simp
  ultimately show ?case by (simp add: Let_def auth_bytes_def algebra_simps)
qed

lemma length_pw_sessions: "length (concat (map pw_session auths)) = auth_bytes auths"
  by (induction auths) (auto simp: pw_session_def auth_bytes_def)

lemma length_custom_sessions:
  "length (concat (map custom_session ss)) = auth_bytes (map se_auth ss)"
  by (induction ss) (auto simp: custom_session_def auth_bytes_def)

definition auth_area :: "session_entry list \<Rightarrow> bytes" where
  "auth_area ss =
     u32_marshal (of_nat (auth_bytes (map se_auth ss))) @ concat (map custom_session ss)"

definition pw_entry :: "bytes \<Rightarrow> session_entry" where
  "pw_entry auth = \<lparr>se_handle = TPM_RS_PW, se_auth = auth, se_attrs = 0\<rparr>"

lemma pw_session_custom: "pw_session auth = custom_session (pw_entry auth)"
  by (simp add: pw_session_def custom_session_def pw_entry_def)

lemma build_command_custom_sessions_frame:
  "auth_bytes (map se_auth ss) < 2 ^ 32 \<Longrightarrow>
     build_command_custom_sessions code hs ss params =
       Inr (command_frame TPM_ST_SESSIONS code (handle_area hs @ auth_area ss @ params))"
  using finalize_header_sessions [of code
      "handle_area hs @ be_bytes 4 (of_nat (auth_bytes (map se_auth ss)) :: u32) @
       concat (map custom_session ss) @ params"]
  by (simp add: build_command_custom_sessions_def auth_area_size_total auth_area_def
      u32_marshal_def)

lemma build_command_pw_sessions_frame:
  assumes "auth_bytes auths < 2 ^ 32"
  shows "build_command_pw_sessions code hs auths params =
    Inr (command_frame TPM_ST_SESSIONS code (handle_area hs @ auth_area (map pw_entry auths) @ params))"
proof -
  have m: "map se_auth (map pw_entry auths) = auths" by (simp add: pw_entry_def comp_def)
  have c: "map custom_session (map pw_entry auths) = map pw_session auths"
    by (simp add: pw_session_custom)
  show ?thesis
    using assms finalize_header_sessions [of code
        "handle_area hs @ be_bytes 4 (of_nat (auth_bytes auths) :: u32) @
         concat (map pw_session auths) @ params"]
    unfolding auth_area_def m c
    by (simp add: build_command_pw_sessions_def auth_area_size_total u32_marshal_def)
qed

text \<open>
  The TPM's reading of the authorization area: a handle, a sized nonce, the attributes,
  a sized authorization value. The encoder of the source writes an empty nonce.
\<close>

definition session_unmarshal :: "session_entry reader" where
  "session_unmarshal d c =
     and_then (u32_unmarshal d c) (\<lambda>(handle, c).
     and_then (sized_slice ''nonce'' d c) (\<lambda>(nonce, c).
     and_then (u8_unmarshal d c) (\<lambda>(attrs, c).
     and_then (sized_slice ''auth'' d c) (\<lambda>(auth, c).
     Inr (\<lparr>se_handle = handle, se_auth = auth, se_attrs = attrs\<rparr>, c)))))"

definition session_valid :: "session_entry \<Rightarrow> bool" where
  "session_valid s \<longleftrightarrow> fits_u16 (se_auth s)"

lemma custom_session_marshal:
  "custom_session s =
     u32_marshal (se_handle s) @ sized_marshal [] @ u8_marshal (se_attrs s) @ sized_marshal (se_auth s)"
  by (simp add: custom_session_def sized_marshal_def u32_marshal_def u16_marshal_def u8_marshal_def)

lemma fits_u16_Nil [simp]: "fits_u16 []"
  by (simp add: fits_u16_def)

interpretation session_codec: wire_codec custom_session session_unmarshal session_valid
  by unfold_locales
    (auto simp: custom_session_marshal session_unmarshal_def session_valid_def add.assoc
      simp del: append.simps)

section \<open>Facts on return codes\<close>

lemma parse_tpm_rc_no_panic [no_panic]: "parse_tpm_rc_with_cmd resp cmd \<noteq> Inl Panic"
  by (simp add: parse_tpm_rc_with_cmd_def)

lemma parse_tpm_rc_Inr:
  "parse_tpm_rc_with_cmd resp cmd = Inr u \<longleftrightarrow>
     10 \<le> length resp \<and> unat (of_be (take 4 (drop 2 resp)) :: u32) = length resp \<and>
     (of_be (take 4 (drop 6 resp)) :: u32) = 0"
  by (auto simp: parse_tpm_rc_with_cmd_def)

text \<open>Every format-1 code is a parameter, handle or session code: the fallback \<open>BASE\<close> is dead.\<close>

lemma decode_target_never_base:
  "(rc AND 0x80) \<noteq> 0 \<Longrightarrow> decode_target rc \<in> {''PARAM'', ''HANDLE'', ''SESSION''}"
  by (auto simp: decode_target_def Let_def)

end
