(* ===== verification/Tpm_Device.thy ===== *)
theory Tpm_Device
  imports Tpm_Helpers
begin

text \<open>
  \<open>crates/azure-tpm/src/device.rs\<close>: the \<open>RawTpm\<close> interface, \<open>Tpm::transmit\<close> with its
  checks, and the Linux and Windows drivers on top of operating system calls that are
  parameters of the model. The device's state is an arbitrary type: a transport takes
  the command and the state and returns the response with the new state.
\<close>

type_synonym 's transport = "bytes \<Rightarrow> 's \<Rightarrow> bytes io_res \<times> 's"

section \<open>The interface \<open>RawTpm\<close>\<close>

locale panic_free_transport =
  fixes transmit_raw :: "bytes \<Rightarrow> 's \<Rightarrow> bytes io_res \<times> 's"
  assumes transport_no_panic: "fst (transmit_raw cmd s) \<noteq> Inl Panic"

text \<open>A framed transport returns only whole responses: a header, and the size it announces.\<close>

definition well_framed :: "bytes \<Rightarrow> bool" where
  "well_framed b \<longleftrightarrow> 10 \<le> length b \<and> unat (of_be (take 4 (drop 2 b)) :: u32) = length b"

locale framed_transport = panic_free_transport +
  assumes transport_framed: "transmit_raw cmd s = (Inr r, s') \<Longrightarrow> well_framed r"

context framed_transport begin

text \<open>On a framed transport the response check can only fail with the TPM's own code.\<close>

lemma response_check:
  assumes "transmit_raw cmd s = (Inr r, s')"
  shows "parse_tpm_rc_with_cmd r cc =
    (let code = (of_be (take 4 (drop 6 r)) :: u32)
     in if code = 0 then Inr ()
        else Inl (Fail (Io_Tpm (Tpm_Rc code (decode_tpm_rc code) (Some cc)))))"
  using transport_framed [OF assms] by (simp add: parse_tpm_rc_with_cmd_def well_framed_def Let_def)

end

section \<open>The Linux driver\<close>

text \<open>
  The device file behind the mutex: whether the mutex is poisoned, \<open>write_all\<close>, and
  \<open>read\<close> into a buffer of at most \<open>n\<close> bytes. An empty read is the end of the file.
\<close>

record 's tpm_file =
  tf_poisoned :: "'s \<Rightarrow> bool"
  tf_write_all :: "bytes \<Rightarrow> 's \<Rightarrow> (io_error + unit) \<times> 's"
  tf_read :: "nat \<Rightarrow> 's \<Rightarrow> (io_error + bytes) \<times> 's"

text \<open>
  \<open>Read::read_exact\<close>: reads until the buffer is full, or fails at the end of the file. The library repeats a read that
  fails with \<open>Interrupted\<close>; \<open>rd\<close> is the read together with these repetitions, so it has only the other errors.
\<close>

function read_exact :: "(nat \<Rightarrow> 's \<Rightarrow> (io_error + bytes) \<times> 's) \<Rightarrow> nat \<Rightarrow> 's \<Rightarrow> bytes io_res \<times> 's" where
  "read_exact rd n s =
     (if n = 0 then (Inr [], s)
      else
        case rd n s of
          (Inl e, s') \<Rightarrow> (Inl (Fail e), s')
        | (Inr got, s') \<Rightarrow>
            if got = [] then (io_fail UnexpectedEof ''failed to fill whole buffer'', s')
            else
              case read_exact rd (n - length (take n got)) s' of
                (Inl f, s'') \<Rightarrow> (Inl f, s'')
              | (Inr rest, s'') \<Rightarrow> (Inr (take n got @ rest), s''))"
  by pat_completeness auto
termination
  by (relation "measure (\<lambda>(rd, n, s). n)") auto

declare read_exact.simps [simp del]

definition MAX_TPM_RESPONSE_SIZE :: nat where
  "MAX_TPM_RESPONSE_SIZE = 64 * 1024"

definition unix_transmit :: "'s tpm_file \<Rightarrow> 's transport" where
  "unix_transmit f cmd s =
     (if tf_poisoned f s then (io_fail OtherKind ''TPM mutex poisoned'', s)
      else
        case tf_write_all f cmd s of
          (Inl e, s') \<Rightarrow> (Inl (Fail e), s')
        | (Inr _, s') \<Rightarrow>
            (case read_exact (tf_read f) 10 s' of
               (Inl e, s'') \<Rightarrow> (Inl e, s'')
             | (Inr header, s'') \<Rightarrow>
                 st_then (st_res (be_u32_at header 2)) (\<lambda>size32.
                 let sz = unat size32 in
                 if sz < 10
                 then st_res (io_fail InvalidData ''Invalid TPM response length'')
                 else if MAX_TPM_RESPONSE_SIZE < sz
                 then st_res (io_fail InvalidData
                   (''TPM response size '' @ fmt_dec sz @ '' exceeds maximum '' @
                    fmt_dec MAX_TPM_RESPONSE_SIZE))
                 else
                   (let remaining = sz - 10 in
                    if 0 < remaining
                    then st_then (read_exact (tf_read f) remaining) (\<lambda>rest. st_res (Inr (header @ rest)))
                    else st_res (Inr header))) s''))"

lemma read_exact_length: "read_exact rd n s = (Inr b, s') \<Longrightarrow> length b = n"
proof (induction rd n s arbitrary: b s' rule: read_exact.induct)
  case (1 rd n s)
  show ?case
  proof (cases "n = 0")
    case True
    with "1.prems" show ?thesis by (simp add: read_exact.simps [of rd 0 s])
  next
    case False
    with "1.prems" obtain got s1 rest where g: "rd n s = (Inr got, s1)" "got \<noteq> []"
      "read_exact rd (n - length (take n got)) s1 = (Inr rest, s')" "b = take n got @ rest"
      by (auto simp: read_exact.simps [of rd n s] split: prod.splits sum.splits if_splits)
    with "1.IH" [OF False g(1) [symmetric] refl g(2)]
    have "length rest = n - length (take n got)" by blast
    with g(4) show ?thesis by simp
  qed
qed

lemma read_exact_no_panic: "fst (read_exact rd n s) \<noteq> Inl Panic"
proof (induction rd n s rule: read_exact.induct)
  case (1 rd n s)
  show ?case
  proof (cases "n = 0")
    case True
    then show ?thesis by (simp add: read_exact.simps [of rd 0 s])
  next
    case False
    note IH = "1.IH" [OF False]
    show ?thesis
      using IH False
      by (fastforce simp: read_exact.simps [of rd n s] split: prod.splits sum.splits if_splits)
  qed
qed

lemma read_exact_not_Panic [simp]: "read_exact rd n s \<noteq> (Inl Panic, s')"
  using read_exact_no_panic [of rd n s] by auto

lemma be_u32_at_eq_Inl [simp]: "be_u32_at d i = Inl e \<longleftrightarrow> e = Panic \<and> length d < i + 4"
  by (auto simp: be_u32_at_def rs_slice_def)

lemma be_u32_at_eq_Inr [simp]:
  "be_u32_at d i = Inr v \<longleftrightarrow> i + 4 \<le> length d \<and> v = of_be (take 4 (drop i d))"
  by (auto simp: be_u32_at_def rs_slice_def)

section \<open>The Windows driver\<close>

text \<open>
  \<open>Tbsip_Submit_Command\<close> is an operating system call: given the command it returns a
  status, the contents of the 8192-byte buffer and the reported length.
\<close>

record 's tbs_context =
  tbs_poisoned :: "'s \<Rightarrow> bool"
  tbs_submit :: "bytes \<Rightarrow> 's \<Rightarrow> (u32 \<times> bytes \<times> u32) \<times> 's"

definition windows_transmit :: "'s tbs_context \<Rightarrow> 's transport" where
  "windows_transmit w cmd s =
     (if 4294967295 < length cmd then (io_fail InvalidInput ''Command too large'', s)
      else if tbs_poisoned w s then (io_fail OtherKind ''TPM mutex poisoned'', s)
      else
        case tbs_submit w cmd s of
          ((rc, out, out_len), s') \<Rightarrow>
            if rc \<noteq> 0
            then (io_fail OtherKind (''Tbsip_Submit_Command failed: 0x'' @ fmt_08x rc), s')
            else
              (let buf = take (unat out_len) (take 8192 out) in
               if length buf < 10 then (io_fail InvalidData ''Response too short'', s')
               else
                 st_then (st_res (be_u32_at buf 2)) (\<lambda>declared.
                 if unat declared \<noteq> length buf
                 then st_res (io_fail InvalidData
                   (''Response length mismatch: declared '' @ fmt_dec (unat declared) @
                    '' actual '' @ fmt_dec (length buf)))
                 else st_res (Inr buf)) s'))"

section \<open>\<open>Tpm\<close>\<close>

datatype 's tpm_inner =
    Inner_Unix "'s tpm_file"
  | Inner_Windows "'s tbs_context"
  | Inner_Reference "'s transport"

definition MAX_COMMAND_SIZE :: nat where
  "MAX_COMMAND_SIZE = 64 * 1024"

fun inner_transmit :: "'s tpm_inner \<Rightarrow> 's transport" where
  "inner_transmit (Inner_Unix u) cmd s = unix_transmit u cmd s"
| "inner_transmit (Inner_Windows w) cmd s = windows_transmit w cmd s"
| "inner_transmit (Inner_Reference r) cmd s = r cmd s"

definition tpm_transmit :: "'s tpm_inner \<Rightarrow> 's transport" where
  "tpm_transmit dev cmd s =
     (if length cmd < 10
      then (io_fail InvalidInput ''Command too short (need at least 10-byte header)'', s)
      else
        st_then (st_res (be_u32_at cmd 2)) (\<lambda>declared.
        if unat declared \<noteq> length cmd
        then st_res (io_fail InvalidInput
          (''Command header declares '' @ fmt_dec (unat declared) @ '' bytes but buffer is '' @
           fmt_dec (length cmd) @ '' bytes''))
        else if MAX_COMMAND_SIZE < length cmd
        then st_res (io_fail InvalidInput
          (''Command size '' @ fmt_dec (length cmd) @ '' exceeds maximum '' @
           fmt_dec MAX_COMMAND_SIZE))
        else inner_transmit dev cmd) s)"

fun is_reference :: "'s tpm_inner \<Rightarrow> bool" where
  "is_reference (Inner_Reference _) = True"
| "is_reference _ = False"

section \<open>The drivers keep the interface's laws\<close>

text \<open>Any file: \<open>read_exact\<close> fills its buffer or fails, so the response has the announced size.\<close>

interpretation unix: framed_transport "unix_transmit f" for f :: "'s tpm_file"
proof
  fix cmd and s :: 's
  show "fst (unix_transmit f cmd s) \<noteq> Inl Panic"
    by (auto simp: unix_transmit_def st_then_def Let_def dest: read_exact_length
        split: prod.splits sum.splits if_splits)
next
  fix cmd r and s s' :: 's
  assume "unix_transmit f cmd s = (Inr r, s')"
  then obtain s1 header s2 where h: "read_exact (tf_read f) 10 s1 = (Inr header, s2)"
    and sz: "10 \<le> unat (of_be (take 4 (drop 2 header)) :: u32)"
    and r: "(\<exists>rest. read_exact (tf_read f) (unat (of_be (take 4 (drop 2 header)) :: u32) - 10) s2
               = (Inr rest, s') \<and> r = header @ rest)
            \<or> unat (of_be (take 4 (drop 2 header)) :: u32) = 10 \<and> r = header"
    using read_exact_length [of "tf_read f" 10]
    by (fastforce simp: unix_transmit_def st_then_def Let_def split: prod.splits sum.splits if_splits)
  have "length header = 10" using h by (rule read_exact_length)
  with sz r show "well_framed r"
    by (auto simp: well_framed_def dest: read_exact_length)
qed

interpretation windows: framed_transport "windows_transmit w" for w :: "'s tbs_context"
proof
  fix cmd and s :: 's
  show "fst (windows_transmit w cmd s) \<noteq> Inl Panic"
    by (auto simp: windows_transmit_def st_then_def Let_def split: prod.splits sum.splits if_splits)
next
  fix cmd r and s s' :: 's
  assume "windows_transmit w cmd s = (Inr r, s')"
  then show "well_framed r"
    by (auto simp: windows_transmit_def st_then_def Let_def well_framed_def
        split: prod.splits sum.splits if_splits)
qed

text \<open>\<open>tpm_transmit\<close> forwards a command exactly when it is well framed and not too long.\<close>

lemma tpm_transmit_cases:
  "tpm_transmit dev cmd s =
     (if well_framed cmd \<and> length cmd \<le> MAX_COMMAND_SIZE then inner_transmit dev cmd s
      else (Inl (Fail (Io_Msg InvalidInput
              (if length cmd < 10 then ''Command too short (need at least 10-byte header)''
               else if unat (of_be (take 4 (drop 2 cmd)) :: u32) \<noteq> length cmd
               then ''Command header declares '' @ fmt_dec (unat (of_be (take 4 (drop 2 cmd)) :: u32)) @
                    '' bytes but buffer is '' @ fmt_dec (length cmd) @ '' bytes''
               else ''Command size '' @ fmt_dec (length cmd) @ '' exceeds maximum '' @
                    fmt_dec MAX_COMMAND_SIZE))), s))"
  by (auto simp: tpm_transmit_def well_framed_def)

lemma hardware_framed:
  assumes "\<not> is_reference dev"
  shows "framed_transport (tpm_transmit dev)"
proof -
  have f: "framed_transport (inner_transmit dev)"
    using assms unix.framed_transport_axioms windows.framed_transport_axioms
    by (cases dev) (auto simp: fun_eq_iff [symmetric] inner_transmit.simps [abs_def])
  show ?thesis
  proof
    fix cmd s
    show "fst (tpm_transmit dev cmd s) \<noteq> Inl Panic"
      using panic_free_transport.transport_no_panic
        [OF framed_transport.axioms(1) [OF f]]
      by (simp add: tpm_transmit_cases)
  next
    fix cmd r s s'
    assume "tpm_transmit dev cmd s = (Inr r, s')"
    then show "well_framed r"
      using framed_transport.transport_framed [OF f]
      by (auto simp: tpm_transmit_cases split: if_splits)
  qed
qed

section \<open>Built commands are accepted\<close>

lemma well_framed_command_frame:
  "10 + length body < 2 ^ 32 \<Longrightarrow> well_framed (command_frame tag code body)"
  by (simp add: well_framed_def command_frame_def u16_marshal_def u32_marshal_def unat_of_nat
      take_bit_nat_eq_self del: of_nat_add)

end
