(* ===== verification/Tpm_Commands.thy ===== *)
theory Tpm_Commands
  imports Tpm_Device
begin

text \<open>
  \<open>crates/azure-tpm/src/commands.rs\<close>: the \<open>TpmCommandExt\<close> operations over any
  \<open>RawTpm\<close>. An operation takes the transport \<open>tr\<close> and the device's state; those that
  start sessions also take the system's random number generator \<open>rnd\<close>, and those that
  hash PCR values the hash function \<open>sha\<close> of the cryptographic library.
\<close>

definition TPM_SE_POLICY :: u8 where "TPM_SE_POLICY = 0x01"
definition TPM_SE_TRIAL :: u8 where "TPM_SE_TRIAL = 0x03"

record created_primary =
  cp_handle :: u32
  cp_public :: bytes

record loaded_object =
  lo_handle :: u32
  lo_name :: bytes

type_synonym 's random = "nat \<Rightarrow> 's \<Rightarrow> bytes io_res \<times> 's"

section \<open>What every operation does\<close>

text \<open>
  \<open>let resp = self.transmit_raw(&cmd)?; parse_tpm_rc_with_cmd(&resp, cc)?;\<close> on a built
  command (building can panic), and then a computation on the response.
\<close>

definition exchange :: "'s transport \<Rightarrow> tpm_command_code \<Rightarrow> bytes io_res \<Rightarrow> ('s, io_error, bytes) st" where
  "exchange tr cc built =
     st_then (st_res built) (\<lambda>cmd.
     st_then (tr cmd) (\<lambda>resp.
     st_then (st_res (parse_tpm_rc_with_cmd resp cc)) (\<lambda>_.
     st_res (Inr resp))))"

definition run_command ::
    "'s transport \<Rightarrow> tpm_command_code \<Rightarrow> bytes io_res \<Rightarrow> (bytes \<Rightarrow> 'a io_res) \<Rightarrow> ('s, io_error, 'a) st" where
  "run_command tr cc built f = st_then (exchange tr cc built) (\<lambda>resp. st_res (f resp))"

text \<open>\<open>if resp.len() < 14 { return Err(...) }\<close>\<close>

definition require_14 :: "string \<Rightarrow> bytes \<Rightarrow> (bytes \<Rightarrow> 'a io_res) \<Rightarrow> 'a io_res" where
  "require_14 msg resp f = (if length resp < 14 then io_fail UnexpectedEof msg else f resp)"

definition tpm_read_public :: "'s transport \<Rightarrow> u32 \<Rightarrow> ('s, io_error, bytes) st" where
  "tpm_read_public tr object_handle =
     (let cmd_body = read_public_new object_handle;
          cmd = build_command_no_sessions ReadPublic (cmd_handles cmd_body)
                  (no_parameters_marshal (cmd_parameters cmd_body))
      in run_command tr ReadPublic cmd (\<lambda>resp.
         require_14 ''ReadPublic short response'' resp (\<lambda>resp.
         and_then (read_public_response_from_bytes resp) (\<lambda>parsed.
         Inr (tpm2b_public_marshal (rp_out_public (resp_parameters parsed)))))))"

section \<open>NV storage\<close>

definition tpm_nv_read_public :: "'s transport \<Rightarrow> u32 \<Rightarrow> ('s, io_error, nv_public) st" where
  "tpm_nv_read_public tr nv_index =
     (let cmd_body = nv_read_public_new nv_index;
          cmd = build_command_no_sessions NvReadPublic (cmd_handles cmd_body)
                  (nv_read_public_marshal (cmd_parameters cmd_body))
      in run_command tr NvReadPublic cmd (\<lambda>resp.
         require_14 ''NvReadPublic short response'' resp (\<lambda>resp.
         and_then (nv_read_public_response_from_bytes resp) (\<lambda>parsed.
         Inr (nr_public (resp_parameters parsed))))))"

text \<open>The errors \<open>find_nv_index\<close> takes for the index being absent.\<close>

definition nv_absent_rc :: "u32 \<Rightarrow> bool" where
  "nv_absent_rc rc \<longleftrightarrow>
     (let base = rc AND 0x3F;
          is_fmt1 = (rc AND 0x80) \<noteq> 0;
          is_handle = (rc AND 0x100) \<noteq> 0
      in is_fmt1 \<and> is_handle \<and> base = 0x0B)"

definition nv_absent_error :: "io_error \<Rightarrow> bool" where
  "nv_absent_error e \<longleftrightarrow>
     (case tpm_rc_from_io_error e of Some rc \<Rightarrow> nv_absent_rc rc | None \<Rightarrow> False)
     \<or> io_error_kind e = NotFound"

definition tpm_find_nv_index :: "'s transport \<Rightarrow> u32 \<Rightarrow> ('s, io_error, nv_public option) st" where
  "tpm_find_nv_index tr nv_index =
     st_then (st_catch (tpm_nv_read_public tr nv_index)) (\<lambda>r.
     st_res
       (case r of
          Inr p \<Rightarrow> Inr (Some p)
        | Inl (Fail e) \<Rightarrow> if nv_absent_error e then Inr None else Inl (Fail e)
        | Inl Panic \<Rightarrow> Inl Panic))"

definition nv_read_chunk :: "'s transport \<Rightarrow> u32 \<Rightarrow> u16 \<Rightarrow> u16 \<Rightarrow> ('s, io_error, bytes) st" where
  "nv_read_chunk tr nv_index sz offset =
     (let cmd_body = nv_read_new (hierarchy_handle Hierarchy_Owner) nv_index
                       \<lparr>nrp_size = sz, nrp_offset = offset\<rparr>;
          cmd = build_command_pw_sessions NvRead (cmd_handles cmd_body) [[]]
                  (nv_read_marshal (cmd_parameters cmd_body))
      in run_command tr NvRead cmd (\<lambda>resp.
         and_then (nv_read_response_from_bytes resp) (\<lambda>parsed. Inr (resp_parameters parsed))))"

definition nv_write_chunk :: "'s transport \<Rightarrow> u32 \<Rightarrow> bytes \<Rightarrow> u16 \<Rightarrow> ('s, io_error, unit) st" where
  "nv_write_chunk tr nv_index chunk offset =
     (if 65535 < length chunk then st_res (io_fail InvalidInput ''chunk too large'')
      else
        let cmd_body = nv_write_new (hierarchy_handle Hierarchy_Owner) nv_index
                         \<lparr>nwp_data = chunk, nwp_offset = offset\<rparr>;
            cmd = build_command_pw_sessions NvWrite (cmd_handles cmd_body) [[]]
                    (nv_write_marshal (cmd_parameters cmd_body))
        in run_command tr NvWrite cmd (\<lambda>resp.
           and_then (nv_write_response_from_bytes resp) (\<lambda>_. Inr ())))"

lemma u16_add_chunk:
  "unat (offset :: u16) + n < 65536 \<Longrightarrow> unat (offset + of_nat n) = unat offset + n"
  by (subst unat_add_lem [THEN iffD1]) auto

text \<open>The loop of \<open>read_nv_index\<close>: chunks of at most 1024 bytes at a 16-bit offset.\<close>

function nv_read_loop :: "'s transport \<Rightarrow> u32 \<Rightarrow> nat \<Rightarrow> bytes \<Rightarrow> u16 \<Rightarrow> ('s, io_error, bytes) st" where
  "nv_read_loop tr nv_index total_size data offset s =
     (if unat offset < total_size then
        let remaining = total_size - unat offset;
            chunk = min remaining 1024
        in case nv_read_chunk tr nv_index (of_nat chunk) offset s of
             (Inl e, s') \<Rightarrow> (Inl e, s')
           | (Inr resp, s') \<Rightarrow>
               if unat offset + chunk < 65536
               then nv_read_loop tr nv_index total_size (data @ resp) (offset + of_nat chunk) s'
               else (io_fail OtherKind ''offset overflow'', s')
      else (Inr data, s))"
  by pat_completeness auto
termination
  by (relation "measure (\<lambda>(tr, i, total_size, data, offset, s). total_size - unat offset)")
    (auto simp: u16_add_chunk)

declare nv_read_loop.simps [simp del]

definition tpm_read_nv_index :: "'s transport \<Rightarrow> u32 \<Rightarrow> ('s, io_error, bytes) st" where
  "tpm_read_nv_index tr nv_index =
     st_then (tpm_nv_read_public tr nv_index) (\<lambda>pub_info.
     nv_read_loop tr nv_index (unat (np_data_size pub_info)) [] 0)"

function nv_write_loop :: "'s transport \<Rightarrow> u32 \<Rightarrow> bytes \<Rightarrow> u16 \<Rightarrow> ('s, io_error, unit) st" where
  "nv_write_loop tr nv_index data offset s =
     (if unat offset < length data then
        let remaining = length data - unat offset;
            chunk = min remaining 1024
        in case st_then (st_res (rs_slice data (unat offset) (unat offset + chunk)))
                  (\<lambda>part. nv_write_chunk tr nv_index part offset) s of
             (Inl e, s') \<Rightarrow> (Inl e, s')
           | (Inr _, s') \<Rightarrow>
               if unat offset + chunk < 65536
               then nv_write_loop tr nv_index data (offset + of_nat chunk) s'
               else (io_fail OtherKind ''offset overflow'', s')
      else (Inr (), s))"
  by pat_completeness auto
termination
  by (relation "measure (\<lambda>(tr, i, data, offset, s). length data - unat offset)")
    (auto simp: u16_add_chunk)

declare nv_write_loop.simps [simp del]

definition tpm_write_nv_index :: "'s transport \<Rightarrow> u32 \<Rightarrow> bytes \<Rightarrow> ('s, io_error, unit) st" where
  "tpm_write_nv_index tr nv_index data =
     st_then (tpm_nv_read_public tr nv_index) (\<lambda>pub_info.
     if unat (np_data_size pub_info) < length data
     then st_res (io_fail InvalidInput ''data larger than NV index size'')
     else nv_write_loop tr nv_index data 0)"

definition tpm_nv_define_space :: "'s transport \<Rightarrow> nv_public \<Rightarrow> bytes \<Rightarrow> ('s, io_error, unit) st" where
  "tpm_nv_define_space tr public auth_value =
     (if 65535 < length auth_value then st_res (io_fail InvalidInput ''auth value too large'')
      else
        let cmd_body = nv_define_space_new (hierarchy_handle Hierarchy_Owner)
                         \<lparr>ndp_auth = auth_value, ndp_public_info = public\<rparr>;
            cmd = build_command_pw_sessions NvDefineSpace (cmd_handles cmd_body) [[]]
                    (nv_define_space_marshal (cmd_parameters cmd_body))
        in run_command tr NvDefineSpace cmd (\<lambda>resp.
           and_then (nv_define_space_response_from_bytes resp) (\<lambda>_. Inr ())))"

definition tpm_nv_undefine_space :: "'s transport \<Rightarrow> u32 \<Rightarrow> ('s, io_error, unit) st" where
  "tpm_nv_undefine_space tr nv_index =
     (let cmd_body = nv_undefine_space_new (hierarchy_handle Hierarchy_Owner) nv_index;
          cmd = build_command_pw_sessions NvUndefineSpace (cmd_handles cmd_body) [[]]
                  (no_parameters_marshal (cmd_parameters cmd_body))
      in run_command tr NvUndefineSpace cmd (\<lambda>resp.
         and_then (nv_undefine_space_response_from_bytes resp) (\<lambda>_. Inr ())))"

definition tpm_nv_extend :: "'s transport \<Rightarrow> u32 \<Rightarrow> bytes \<Rightarrow> ('s, io_error, unit) st" where
  "tpm_nv_extend tr nv_index data =
     (if data = [] then st_res (io_fail InvalidInput ''NvExtend data cannot be empty'')
      else if 1024 < length data
      then st_res (io_fail InvalidInput ''NvExtend data too large (max 1024 bytes)'')
      else
        let cmd_body = nv_extend_new (hierarchy_handle Hierarchy_Owner) nv_index data;
            cmd = build_command_pw_sessions NvExtend (cmd_handles cmd_body) [[]]
                    (nv_extend_marshal (cmd_parameters cmd_body))
        in run_command tr NvExtend cmd (\<lambda>resp.
           and_then (nv_extend_response_from_bytes resp) (\<lambda>_. Inr ())))"

definition tpm_nv_certify ::
    "'s transport \<Rightarrow> u32 \<Rightarrow> u32 \<Rightarrow> bytes \<Rightarrow> u16 \<Rightarrow> u16 \<Rightarrow> ('s, io_error, bytes \<times> bytes) st" where
  "tpm_nv_certify tr nv_index signing_key_handle qualifying_data sz offset =
     (if 64 < length qualifying_data
      then st_res (io_fail InvalidInput ''qualifying_data too large (max 64 bytes)'')
      else
        let cmd_body = nv_certify_new signing_key_handle nv_index nv_index qualifying_data sz offset;
            cmd = build_command_pw_sessions NvCertify (cmd_handles cmd_body) [[], []]
                    (nv_certify_marshal (cmd_parameters cmd_body))
        in run_command tr NvCertify cmd (\<lambda>resp.
           and_then (nv_certify_response_from_bytes resp) (\<lambda>parsed.
           Inr (fst (resp_parameters parsed), signature_marshal (snd (resp_parameters parsed))))))"

section \<open>Keys\<close>

definition tpm_create_primary ::
    "'s transport \<Rightarrow> hierarchy \<Rightarrow> tpmt_public \<Rightarrow> u32 list \<Rightarrow> ('s, io_error, created_primary) st" where
  "tpm_create_primary tr h public_template pcrs =
     (let parameters = \<lparr>cpp_in_sensitive = empty_sensitive_create, cpp_in_public = public_template,
                        cpp_outside_info = [], cpp_creation_pcr = from_pcrs pcrs\<rparr>;
          cmd_body = create_primary_new h parameters;
          cmd = and_then (create_primary_marshal (cmd_parameters cmd_body)) (\<lambda>params.
                build_command_pw_sessions CreatePrimary (cmd_handles cmd_body) [[]] params)
      in run_command tr CreatePrimary cmd (\<lambda>resp.
         require_14 ''CreatePrimary short response'' resp (\<lambda>resp.
         and_then (create_primary_response_from_bytes resp) (\<lambda>parsed.
         Inr \<lparr>cp_handle = resp_handle parsed,
              cp_public = tpm2b_public_marshal (cpr_out_public (resp_parameters parsed))\<rparr>))))"

text \<open>
  The ECC variant writes its template by hand and reads the answer with the parser of
  the RSA variant.
\<close>

definition tpm_create_primary_ecc ::
    "'s transport \<Rightarrow> hierarchy \<Rightarrow> tpmt_public_ecc \<Rightarrow> ('s, io_error, created_primary) st" where
  "tpm_create_primary_ecc tr h public_template =
     (let cmd = and_then (pcr_selection_list_marshal (from_pcrs [])) (\<lambda>creation_pcr.
                build_command_pw_sessions CreatePrimary [hierarchy_handle h] [[]]
                  (tpm2b_sensitive_create_marshal empty_sensitive_create @
                   tpm2b_public_ecc_marshal public_template @
                   tpm2b_bytes_marshal [] @
                   creation_pcr))
      in run_command tr CreatePrimary cmd (\<lambda>resp.
         and_then (create_primary_response_from_bytes resp) (\<lambda>parsed.
         Inr \<lparr>cp_handle = resp_handle parsed,
              cp_public = tpm2b_public_marshal (cpr_out_public (resp_parameters parsed))\<rparr>)))"

definition tpm_load ::
    "'s transport \<Rightarrow> u32 \<Rightarrow> bytes \<Rightarrow> bytes \<Rightarrow> bytes \<Rightarrow> ('s, io_error, loaded_object) st" where
  "tpm_load tr parent_handle parent_auth in_private_blob in_public_blob =
     st_then (st_res (tpm2b_bytes_unmarshal in_private_blob 0)) (\<lambda>(in_private, priv_cursor).
     if priv_cursor \<noteq> length in_private_blob
     then st_res (io_fail InvalidInput ''TPM2B_PRIVATE blob has trailing bytes'')
     else
       st_then (st_res (tpm2b_public_unmarshal in_public_blob 0)) (\<lambda>(in_public, pub_cursor).
       if pub_cursor \<noteq> length in_public_blob
       then st_res (io_fail InvalidInput ''TPM2B_PUBLIC blob has trailing bytes'')
       else
         let cmd_body = load_new parent_handle \<lparr>lp_in_private = in_private, lp_in_public = in_public\<rparr>;
             cmd = build_command_pw_sessions Load (cmd_handles cmd_body) [parent_auth]
                     (load_marshal (cmd_parameters cmd_body))
         in run_command tr Load cmd (\<lambda>resp.
            require_14 ''Load short response'' resp (\<lambda>resp.
            and_then (load_response_from_bytes resp) (\<lambda>parsed.
            Inr \<lparr>lo_handle = resp_handle parsed, lo_name = resp_parameters parsed\<rparr>)))))"

definition tpm_flush_context :: "'s transport \<Rightarrow> u32 \<Rightarrow> ('s, io_error, unit) st" where
  "tpm_flush_context tr handle =
     (let cmd_body = flush_context_new handle;
          cmd = build_command_no_sessions FlushContext (cmd_handles cmd_body)
                  (no_parameters_marshal (cmd_parameters cmd_body))
      in run_command tr FlushContext cmd (\<lambda>_. Inr ()))"

definition tpm_evict_control :: "'s transport \<Rightarrow> u32 \<Rightarrow> u32 \<Rightarrow> ('s, io_error, unit) st" where
  "tpm_evict_control tr persistent_handle transient_handle =
     (let cmd_body = evict_control_new (hierarchy_handle Hierarchy_Owner) transient_handle
                       persistent_handle;
          cmd = build_command_pw_sessions EvictControl (cmd_handles cmd_body) [[]]
                  (evict_control_marshal (cmd_parameters cmd_body))
      in run_command tr EvictControl cmd (\<lambda>resp.
         and_then (evict_control_response_from_bytes resp) (\<lambda>_. Inr ())))"

section \<open>Quotes, certificates, signatures\<close>

fun rsassa_signature :: "string \<Rightarrow> tpmt_signature \<Rightarrow> bytes io_res" where
  "rsassa_signature what (Sig_Rsassa _ sig) = Inr sig"
| "rsassa_signature what _ = io_fail InvalidData (''invalid signature for '' @ what)"

definition tpm_quote_with_key ::
    "'s transport \<Rightarrow> u32 \<Rightarrow> u32 list \<Rightarrow> ('s, io_error, bytes \<times> bytes) st" where
  "tpm_quote_with_key tr key_handle pcrs =
     (if \<exists>p\<in>set pcrs. 23 < p
      then st_res (io_fail InvalidInput ''PCR index out of range (0-23)'')
      else
        let parameters = \<lparr>qp_qualifying_data = [], qp_scheme = SigScheme_Rsassa ALG_SHA256,
                          qp_pcr_selection = from_pcrs pcrs\<rparr>;
            cmd_body = quote_new key_handle parameters;
            cmd = and_then (quote_marshal (cmd_parameters cmd_body)) (\<lambda>params.
                  build_command_pw_sessions Quote (cmd_handles cmd_body) [[]] params)
        in run_command tr Quote cmd (\<lambda>resp.
           and_then (quote_response_from_bytes resp) (\<lambda>parsed.
           and_then (rsassa_signature ''TPM2_Quote'' (snd (resp_parameters parsed))) (\<lambda>signature.
           Inr (fst (resp_parameters parsed), signature)))))"

definition tpm_certify_with_key ::
    "'s transport \<Rightarrow> u32 \<Rightarrow> u32 \<Rightarrow> ('s, io_error, bytes \<times> bytes) st" where
  "tpm_certify_with_key tr object_handle sign_handle =
     (let parameters = \<lparr>ctp_qualifying_data = [], ctp_scheme = SigScheme_Null\<rparr>;
          cmd_body = certify_new object_handle sign_handle parameters;
          cmd = build_command_pw_sessions Certify (cmd_handles cmd_body) [[], []]
                  (certify_marshal (cmd_parameters cmd_body))
      in run_command tr Certify cmd (\<lambda>resp.
         require_14 ''Certify short response'' resp (\<lambda>resp.
         and_then (certify_response_from_bytes resp) (\<lambda>parsed.
         and_then (rsassa_signature ''TPM2_Certify'' (snd (resp_parameters parsed))) (\<lambda>signature.
         Inr (fst (resp_parameters parsed), signature))))))"

definition tpm_sign :: "'s transport \<Rightarrow> u32 \<Rightarrow> bytes \<Rightarrow> ('s, io_error, tpmt_signature) st" where
  "tpm_sign tr key_handle digest =
     (let parameters = \<lparr>sp_digest = digest, sp_scheme = SigScheme_Null,
                        sp_validation = hashcheck_null_ticket\<rparr>;
          cmd_body = sign_new key_handle parameters;
          cmd = build_command_pw_sessions Sign (cmd_handles cmd_body) [[]]
                  (sign_marshal (cmd_parameters cmd_body))
      in run_command tr Sign cmd (\<lambda>resp.
         and_then (sign_response_from_bytes resp) (\<lambda>parsed. Inr (resp_parameters parsed))))"

definition tpm_verify_signature ::
    "'s transport \<Rightarrow> u32 \<Rightarrow> bytes \<Rightarrow> tpmt_signature \<Rightarrow> ('s, io_error, unit) st" where
  "tpm_verify_signature tr key_handle digest signature =
     (let parameters = \<lparr>vp_digest = digest, vp_signature = signature\<rparr>;
          cmd_body = verify_signature_new key_handle parameters;
          cmd = build_command_no_sessions VerifySignature (cmd_handles cmd_body)
                  (verify_signature_marshal (cmd_parameters cmd_body))
      in run_command tr VerifySignature cmd (\<lambda>resp.
         and_then (verify_signature_response_from_bytes resp) (\<lambda>_. Inr ())))"

definition tpm_unseal :: "'s transport \<Rightarrow> u32 \<Rightarrow> bytes \<Rightarrow> ('s, io_error, bytes) st" where
  "tpm_unseal tr item_handle auth_value =
     (let cmd_body = unseal_new item_handle;
          cmd = build_command_pw_sessions Unseal (cmd_handles cmd_body) [auth_value]
                  (no_parameters_marshal (cmd_parameters cmd_body))
      in run_command tr Unseal cmd (\<lambda>resp.
         require_14 ''Unseal short response'' resp (\<lambda>resp.
         and_then (unseal_response_from_bytes resp) (\<lambda>parsed. Inr (resp_parameters parsed)))))"

section \<open>PCR reads\<close>

text \<open>The first loop: range check, then each index once, in input order (\<open>seen.insert\<close>).\<close>

fun unique_pcrs :: "u32 list \<Rightarrow> u32 list \<Rightarrow> u32 list io_res" where
  "unique_pcrs acc [] = Inr acc"
| "unique_pcrs acc (p # ps) =
     (if 23 < p
      then io_fail InvalidInput (''PCR index '' @ fmt_dec (unat p) @ '' out of range (0-23)'')
      else unique_pcrs (if p \<in> set acc then acc else acc @ [p]) ps)"

text \<open>The bits set in the first \<open>size_of_select\<close> bytes, in ascending order.\<close>

definition selected_bits :: "bytes \<Rightarrow> nat \<Rightarrow> u32 list" where
  "selected_bits sel byte =
     map (\<lambda>b. of_nat (byte * 8 + b)) (filter (\<lambda>b. bit (sel ! byte) b) [0..<8])"

fun selection_indices :: "pcr_selection \<Rightarrow> u32 list io_res" where
  "selection_indices s =
     (if unat (ps_size_of_select s) \<le> length (ps_select s)
      then Inr (concat (map (selected_bits (ps_select s)) [0..<unat (ps_size_of_select s)]))
      else Inl Panic)"

fun returned_indices :: "pcr_selection list \<Rightarrow> u32 list io_res" where
  "returned_indices [] = Inr []"
| "returned_indices (s # ss) =
     and_then (selection_indices s) (\<lambda>is. and_then (returned_indices ss) (\<lambda>js. Inr (is @ js)))"

text \<open>
  The inner loop: a digest is accepted when its index is still wanted. The set
  \<open>remaining\<close> is the \<open>BTreeSet\<close>, kept as its ascending list.
\<close>

fun accept_digests ::
    "pcr_algorithm \<Rightarrow> (u32 \<times> bytes) list \<Rightarrow> u32 list \<Rightarrow> (u32 \<rightharpoonup> bytes) \<Rightarrow> bool \<Rightarrow>
     (u32 list \<times> (u32 \<rightharpoonup> bytes) \<times> bool) io_res" where
  "accept_digests alg [] remaining collected progress = Inr (remaining, collected, progress)"
| "accept_digests alg ((idx, digest) # rest) remaining collected progress =
     (if idx \<in> set remaining then
        if length digest \<noteq> pcr_digest_len alg
        then io_fail InvalidData
          (''PCR '' @ fmt_dec (unat idx) @ '' returned digest size '' @ fmt_dec (length digest) @
           '' but expected '' @ fmt_dec (pcr_digest_len alg) @ '' for '' @ pcr_algorithm_display alg)
        else accept_digests alg rest (removeAll idx remaining) (collected(idx \<mapsto> digest)) True
      else accept_digests alg rest remaining collected progress)"

definition pcr_read_round ::
    "'s transport \<Rightarrow> pcr_algorithm \<Rightarrow> u32 list \<Rightarrow> (u32 \<rightharpoonup> bytes) \<Rightarrow>
     ('s, io_error, u32 list \<times> (u32 \<rightharpoonup> bytes)) st" where
  "pcr_read_round tr alg remaining collected =
     (let cmd_body = pcr_read_new (from_pcrs_with_alg remaining (pcr_to_alg_id alg));
          cmd = and_then (pcr_read_marshal (cmd_parameters cmd_body)) (\<lambda>params.
                build_command_no_sessions PcrRead (cmd_handles cmd_body) params)
      in run_command tr PcrRead cmd (\<lambda>resp.
         require_14 ''PCR_Read response too short'' resp (\<lambda>resp.
         and_then (pcr_read_response_from_bytes resp) (\<lambda>parsed.
         and_then (returned_indices (prp_selections (resp_parameters parsed))) (\<lambda>indices.
         let digests = prp_digests (resp_parameters parsed) in
         if length indices \<noteq> length digests then io_fail InvalidData ''digest count mismatch''
         else
           and_then (accept_digests alg (zip indices digests) remaining collected False)
             (\<lambda>(remaining, collected, progress).
           if progress then Inr (remaining, collected)
           else io_fail OtherKind
             ''PCR_Read did not return any of the remaining requested PCRs''))))))"

lemma accept_digests_remaining:
  "accept_digests alg ps remaining collected progress = Inr (remaining', collected', progress') \<Longrightarrow>
     set remaining' \<subseteq> set remaining \<and> length remaining' \<le> length remaining \<and>
     (progress' \<longrightarrow> progress \<or> length remaining' < length remaining)"
proof (induction alg ps remaining collected progress rule: accept_digests.induct)
  case (2 alg idx digest rest remaining collected progress)
  show ?case
  proof (cases "idx \<in> set remaining")
    case True
    then have less: "length (removeAll idx remaining) < length remaining"
      by (rule length_removeAll_less)
    from "2.prems" True have size: "length digest = pcr_digest_len alg"
      by (simp split: if_splits)
    with "2.prems" True have "accept_digests alg rest (removeAll idx remaining)
        (collected(idx \<mapsto> digest)) True = Inr (remaining', collected', progress')"
      by simp
    from "2.IH"(1) [OF True _ this] size
    have "set remaining' \<subseteq> set (removeAll idx remaining) \<and>
        length remaining' \<le> length (removeAll idx remaining)" by blast
    with less show ?thesis by auto
  qed (use 2 in auto)
qed auto

lemma pcr_read_round_progress:
  "pcr_read_round tr alg remaining collected s = (Inr (remaining', collected'), s') \<Longrightarrow>
     length remaining' < length remaining"
  by (auto simp: pcr_read_round_def run_command_def require_14_def st_then_eq_Inr and_then_eq_Inr
      Let_def split: if_splits dest: accept_digests_remaining)

function pcr_read_loop ::
    "'s transport \<Rightarrow> pcr_algorithm \<Rightarrow> u32 list \<Rightarrow> (u32 \<rightharpoonup> bytes) \<Rightarrow> ('s, io_error, u32 \<rightharpoonup> bytes) st" where
  "pcr_read_loop tr alg remaining collected s =
     (if remaining = [] then (Inr collected, s)
      else
        case pcr_read_round tr alg remaining collected s of
          (Inl e, s') \<Rightarrow> (Inl e, s')
        | (Inr (remaining', collected'), s') \<Rightarrow> pcr_read_loop tr alg remaining' collected' s')"
  by pat_completeness auto
termination
  by (relation "measure (\<lambda>(tr, alg, remaining, collected, s). length remaining)")
    (auto dest: pcr_read_round_progress [OF sym])

declare pcr_read_loop.simps [simp del]

fun pcr_output :: "(u32 \<rightharpoonup> bytes) \<Rightarrow> u32 list \<Rightarrow> (u32 \<times> bytes) list io_res" where
  "pcr_output collected [] = Inr []"
| "pcr_output collected (p # ps) =
     (case collected p of
        Some d \<Rightarrow> and_then (pcr_output collected ps) (\<lambda>out. Inr ((p, d) # out))
      | None \<Rightarrow> io_fail NotFound
          (''PCR '' @ fmt_dec (unat p) @ '' unexpectedly missing after reads''))"

definition tpm_read_pcrs_for_alg ::
    "'s transport \<Rightarrow> pcr_algorithm \<Rightarrow> u32 list \<Rightarrow> ('s, io_error, (u32 \<times> bytes) list) st" where
  "tpm_read_pcrs_for_alg tr alg pcrs =
     (if pcrs = [] then st_res (Inr [])
      else
        st_then (st_res (unique_pcrs [] pcrs)) (\<lambda>ordered_unique.
        st_then (pcr_read_loop tr alg (sort ordered_unique) Map.empty) (\<lambda>collected.
        st_res (pcr_output collected pcrs))))"

definition tpm_read_pcrs_sha256 ::
    "'s transport \<Rightarrow> u32 list \<Rightarrow> ('s, io_error, (u32 \<times> bytes) list) st" where
  "tpm_read_pcrs_sha256 tr pcrs = tpm_read_pcrs_for_alg tr Pcr_Sha256 pcrs"

fun build_pcr_bitmap_from :: "bytes \<Rightarrow> u32 list \<Rightarrow> bytes io_res" where
  "build_pcr_bitmap_from bitmap [] = Inr bitmap"
| "build_pcr_bitmap_from bitmap (p # ps) =
     (if 23 < p
      then io_fail InvalidInput (''PCR index '' @ fmt_dec (unat p) @ '' out of range (0-23)'')
      else build_pcr_bitmap_from (bitmap_add bitmap p) ps)"

definition build_pcr_bitmap :: "u32 list \<Rightarrow> bytes io_res" where
  "build_pcr_bitmap pcrs = build_pcr_bitmap_from [0, 0, 0] pcrs"

section \<open>Sessions\<close>

definition tpm_start_auth_session ::
    "'s random \<Rightarrow> 's transport \<Rightarrow> u8 \<Rightarrow> u16 \<Rightarrow> ('s, io_error, u32) st" where
  "tpm_start_auth_session rnd tr session_type auth_hash_alg =
     st_then (rnd 16) (\<lambda>nonce.
     let parameters = \<lparr>sap_nonce_caller = nonce, sap_encrypted_salt = [],
                       sap_session_type = session_type,
                       sap_symmetric = \<lparr>sd_alg = alg_id_u16 Alg_Null, sd_key_bits = 0, sd_mode = 0\<rparr>,
                       sap_auth_hash = auth_hash_alg\<rparr>;
         cmd_body = start_auth_session_new (hierarchy_handle Hierarchy_Null)
                      (hierarchy_handle Hierarchy_Null) parameters;
         cmd = build_command_no_sessions StartAuthSession (cmd_handles cmd_body)
                 (start_auth_session_marshal (cmd_parameters cmd_body))
     in run_command tr StartAuthSession cmd (\<lambda>resp.
        require_14 ''StartAuthSession short response'' resp (\<lambda>resp.
        and_then (start_auth_session_response_from_bytes resp) (\<lambda>parsed.
        Inr (resp_handle parsed)))))"

definition sha256_concat :: "(bytes \<Rightarrow> bytes) \<Rightarrow> bytes list \<Rightarrow> bytes" where
  "sha256_concat sha parts = sha (concat parts)"

definition tpm_policy_pcr ::
    "(bytes \<Rightarrow> bytes) \<Rightarrow> 's transport \<Rightarrow> u32 \<Rightarrow> u32 list \<Rightarrow> ('s, io_error, unit) st" where
  "tpm_policy_pcr sha tr session_handle pcrs =
     (if pcrs = [] then st_res (Inr ())
      else
        st_then (tpm_read_pcrs_sha256 tr pcrs) (\<lambda>values.
        let digest = sha256_concat sha (map snd values);
            policy_cmd = policy_pcr_new session_handle
                           \<lparr>pp_pcr_digest = digest, pp_pcr_selection = from_pcrs pcrs\<rparr>;
            buf = and_then (policy_pcr_marshal (cmd_parameters policy_cmd)) (\<lambda>params.
                  build_command_no_sessions PolicyPCR (cmd_handles policy_cmd) params)
        in run_command tr PolicyPCR buf (\<lambda>_. Inr ())))"

text \<open>
  The policy-session operations run a closure and flush the session whatever it
  returned, ignoring the flush's own result; a panic would unwind past the flush.
\<close>

definition with_flushed_session ::
    "'s transport \<Rightarrow> u32 \<Rightarrow> ('s, io_error, 'a) st \<Rightarrow> ('s, io_error, 'a) st" where
  "with_flushed_session tr session_handle body =
     st_then (st_catch body) (\<lambda>result.
     st_then (st_ignore (tpm_flush_context tr session_handle)) (\<lambda>_.
     st_res result))"

text \<open>The closure of \<open>compute_pcr_policy_digest\<close>.\<close>

definition policy_digest_in_session ::
    "(bytes \<Rightarrow> bytes) \<Rightarrow> 's transport \<Rightarrow> u32 list \<Rightarrow> u32 \<Rightarrow> ('s, io_error, bytes) st" where
  "policy_digest_in_session sha tr pcrs session_handle =
     st_then (tpm_policy_pcr sha tr session_handle pcrs) (\<lambda>_.
     let pgd_cmd = policy_get_digest_new session_handle;
         pgd = build_command_no_sessions PolicyGetDigest (cmd_handles pgd_cmd)
                 (no_parameters_marshal (cmd_parameters pgd_cmd))
     in run_command tr PolicyGetDigest pgd (\<lambda>resp.
        require_14 ''PolicyGetDigest short response'' resp (\<lambda>resp.
        and_then (policy_get_digest_response_from_bytes resp) (\<lambda>parsed.
        Inr (resp_parameters parsed)))))"

definition tpm_compute_pcr_policy_digest ::
    "'s random \<Rightarrow> (bytes \<Rightarrow> bytes) \<Rightarrow> 's transport \<Rightarrow> u32 list \<Rightarrow> ('s, io_error, bytes) st" where
  "tpm_compute_pcr_policy_digest rnd sha tr pcrs =
     st_then (tpm_start_auth_session rnd tr TPM_SE_TRIAL (alg_id_u16 Alg_Sha256)) (\<lambda>session_handle.
     with_flushed_session tr session_handle
       (policy_digest_in_session sha tr pcrs session_handle))"

text \<open>A 257-byte ciphertext with a leading zero loses that byte.\<close>

definition trim_ciphertext :: "bytes \<Rightarrow> bytes" where
  "trim_ciphertext c = (if length c = 257 \<and> c ! 0 = 0x00 then drop 1 c else c)"

text \<open>The closure of \<open>rsa_decrypt\<close>.\<close>

definition rsa_decrypt_in_session ::
    "(bytes \<Rightarrow> bytes) \<Rightarrow> 's transport \<Rightarrow> u32 list \<Rightarrow> rsa_decrypt_parameters tpm_command \<Rightarrow> u32 \<Rightarrow>
     ('s, io_error, bytes) st" where
  "rsa_decrypt_in_session sha tr pcrs cmd_body session_handle =
     st_then (tpm_policy_pcr sha tr session_handle pcrs) (\<lambda>_.
     st_then (st_res (build_command_custom_sessions RsaDecrypt (cmd_handles cmd_body)
       [\<lparr>se_handle = session_handle, se_auth = [], se_attrs = 0\<rparr>]
       (rsa_decrypt_marshal (cmd_parameters cmd_body)))) tr)"

definition tpm_rsa_decrypt ::
    "'s random \<Rightarrow> (bytes \<Rightarrow> bytes) \<Rightarrow> 's transport \<Rightarrow> u32 \<Rightarrow> u32 list \<Rightarrow> bytes \<Rightarrow>
     tpmt_rsa_decrypt_scheme \<Rightarrow> ('s, io_error, bytes) st" where
  "tpm_rsa_decrypt rnd sha tr key_handle pcrs ciphertext scheme =
     (let ciphertext = trim_ciphertext ciphertext in
      if 512 < length ciphertext
      then st_res (io_fail InvalidInput ''ciphertext too large (>512 bytes)'')
      else
        let base_parameters = \<lparr>rdp_cipher_text = ciphertext, rdp_scheme = scheme, rdp_label = []\<rparr>;
            cmd_body = rsa_decrypt_new key_handle base_parameters
        in st_then
             (if pcrs = [] then
                st_then (st_res (build_command_pw_sessions RsaDecrypt (cmd_handles cmd_body) [[]]
                  (rsa_decrypt_marshal (cmd_parameters cmd_body)))) tr
              else
                st_then (tpm_start_auth_session rnd tr TPM_SE_POLICY (alg_id_u16 Alg_Sha256))
                  (\<lambda>session_handle.
                with_flushed_session tr session_handle
                  (rsa_decrypt_in_session sha tr pcrs cmd_body session_handle)))
             (\<lambda>resp.
           st_then (st_res (parse_tpm_rc_with_cmd resp RsaDecrypt)) (\<lambda>_.
           st_res
             (and_then (rsa_decrypt_response_from_bytes resp) (\<lambda>parsed.
              Inr (resp_parameters parsed))))))"

end
