(* ===== verification/Tpm_Command_Facts.thy ===== *)
theory Tpm_Command_Facts
  imports Tpm_Commands
begin

text \<open>
  Facts on the operations of \<open>commands.rs\<close>: none of them panics over a panic-free
  transport, the NV loops cover the index in consecutive chunks, the PCR loop returns
  what the TPM reported in the caller's order, sessions are flushed.
\<close>

section \<open>Building never panics\<close>

lemma build_no_sessions_Inr [simp]:
  "build_command_no_sessions code hs params \<noteq> Inl e"
  by (simp add: build_command_no_sessions_frame)

lemma build_custom_sessions_Inr [simp]:
  "auth_bytes (map se_auth ss) < 2 ^ 32 \<Longrightarrow> build_command_custom_sessions code hs ss params \<noteq> Inl e"
  by (simp add: build_command_custom_sessions_frame)

lemma build_pw_sessions_Inr:
  "auth_bytes auths < 2 ^ 32 \<Longrightarrow> build_command_pw_sessions code hs auths params \<noteq> Inl e"
  by (simp add: build_command_pw_sessions_frame)

lemma auth_bytes_simps [simp]:
  "auth_bytes [] = 0" "auth_bytes (a # as) = 9 + length a + auth_bytes as"
  by (simp_all add: auth_bytes_def)

lemma require_14_no_panic [no_panic]:
  "(\<And>r. f r \<noteq> Inl Panic) \<Longrightarrow> require_14 msg resp f \<noteq> Inl Panic"
  by (simp add: require_14_def)

lemma selection_indices_no_panic:
  "pcr_selection_valid s \<Longrightarrow> selection_indices s \<noteq> Inl e"
  by (simp add: pcr_selection_valid_def)

lemma returned_indices_no_panic:
  "\<forall>s\<in>set ss. unat (ps_size_of_select s) \<le> length (ps_select s) \<Longrightarrow> returned_indices ss \<noteq> Inl e"
  by (induction ss) (auto simp: and_then_eq_Inl)

lemma accept_digests_no_panic [simp]: "accept_digests alg ps rem col pr \<noteq> Inl Panic"
  by (induction alg ps rem col pr rule: accept_digests.induct) (auto simp del: fun_upd_apply)

lemma pcr_output_no_panic [simp]: "pcr_output col ps \<noteq> Inl Panic"
  by (induction ps) (auto simp: and_then_eq_Inl split: option.splits)

lemma unique_pcrs_no_panic [simp]: "unique_pcrs acc ps \<noteq> Inl Panic"
  by (induction ps arbitrary: acc) auto

lemma rsassa_signature_no_panic [simp]: "rsassa_signature what sig \<noteq> Inl Panic"
  by (cases sig) auto

text \<open>A selection read from the wire has three bytes and a size of at most three.\<close>

lemma pcr_selection_unmarshal_shape:
  "pcr_selection_unmarshal d c = Inr (s, c') \<Longrightarrow>
     unat (ps_size_of_select s) \<le> 3 \<and> length (ps_select s) = 3"
  by (auto simp: pcr_selection_unmarshal_def and_then_eq_Inr rs_slice_eq_Inr split: if_splits)

lemma read_n_all:
  assumes "\<And>c x c'. rd d c = Inr (x, c') \<Longrightarrow> P x"
  shows "read_n rd n d c = Inr (xs, c') \<Longrightarrow> \<forall>x\<in>set xs. P x"
  using assms by (induction n arbitrary: c xs c') (fastforce simp: and_then_eq_Inr)+

lemma checked_response_Inr_parameters:
  "checked_response name rd bs = Inr r \<Longrightarrow> \<exists>c c'. rd bs c = Inr (resp_parameters r, c')"
  by (fastforce simp: checked_response_def checked_parameters_def error_response_def and_then_eq_Inr
      split: if_splits option.splits)

lemma pcr_read_selections_shape:
  assumes "pcr_read_response_from_bytes bs = Inr r" "s \<in> set (prp_selections (resp_parameters r))"
  shows "unat (ps_size_of_select s) \<le> length (ps_select s)"
proof -
  obtain c c' where "pcr_read_parameters_unmarshal bs c = Inr (resp_parameters r, c')"
    using assms(1) checked_response_Inr_parameters by (fastforce simp: pcr_read_response_from_bytes_def)
  then obtain n c1 c2 where
      "read_n pcr_selection_unmarshal n bs c1 = Inr (prp_selections (resp_parameters r), c2)"
    by (fastforce simp: pcr_read_parameters_unmarshal_def pcr_selection_list_unmarshal_def
        and_then_eq_Inr dest: sym [of _ "resp_parameters r"])
  from read_n_all [OF _ this, of "\<lambda>s. unat (ps_size_of_select s) \<le> 3 \<and> length (ps_select s) = 3"]
  show ?thesis using pcr_selection_unmarshal_shape assms(2) by fastforce
qed

section \<open>Operations over a panic-free transport\<close>

lemma load_inputs_no_panic [simp]:
  "tpm2b_bytes_unmarshal d 0 \<noteq> Inl Panic" "tpm2b_public_unmarshal d 0 \<noteq> Inl Panic"
  by (simp_all add: tpm2b_reader.reader_no_panic tpm2b_public_reader.reader_no_panic)

lemma st_catch_no_panic [no_panic]: "fst (m s) \<noteq> Inl Panic \<Longrightarrow> fst (st_catch m s) \<noteq> Inl Panic"
  by (auto simp: st_catch_def split: prod.splits sum.splits fault.splits)

lemma st_catch_value: "st_catch m s = (Inr r, s') \<Longrightarrow> r \<noteq> Inl Panic"
  by (auto simp: st_catch_def split: prod.splits sum.splits fault.splits)

lemma st_ignore_no_panic [no_panic]: "fst (m s) \<noteq> Inl Panic \<Longrightarrow> fst (st_ignore m s) \<noteq> Inl Panic"
  by (auto simp: st_ignore_def split: prod.splits sum.splits fault.splits)

context panic_free_transport begin

lemma exchange_no_panic:
  "built \<noteq> Inl Panic \<Longrightarrow> fst (exchange transmit_raw cc built s) \<noteq> Inl Panic"
  unfolding exchange_def
  by (intro no_panic transport_no_panic) auto

lemma run_no_panic:
  "built \<noteq> Inl Panic \<Longrightarrow> (\<And>r. f r \<noteq> Inl Panic) \<Longrightarrow>
     fst (run_command transmit_raw cc built f s) \<noteq> Inl Panic"
  unfolding run_command_def by (intro no_panic exchange_no_panic)

lemmas op_no_panic = run_no_panic require_14_no_panic and_then_eq_Inl build_pw_sessions_Inr Let_def
  named_responses_no_panic nv_certify_response_no_panic sign_response_no_panic
  verify_signature_response_no_panic create_primary_response_no_panic

lemma nv_ops_no_panic:
  "fst (tpm_nv_read_public transmit_raw i s) \<noteq> Inl Panic"
  "fst (nv_read_chunk transmit_raw i n off s) \<noteq> Inl Panic"
  "fst (nv_write_chunk transmit_raw i part off s) \<noteq> Inl Panic"
  "fst (tpm_nv_define_space transmit_raw public auth s) \<noteq> Inl Panic"
  "fst (tpm_nv_undefine_space transmit_raw i s) \<noteq> Inl Panic"
  "fst (tpm_nv_extend transmit_raw i data s) \<noteq> Inl Panic"
  "fst (tpm_nv_certify transmit_raw i key q sz off s) \<noteq> Inl Panic"
  by (simp_all add: tpm_nv_read_public_def nv_read_chunk_def nv_write_chunk_def tpm_nv_define_space_def
      tpm_nv_undefine_space_def tpm_nv_extend_def tpm_nv_certify_def op_no_panic)

lemma key_ops_no_panic:
  "fst (tpm_read_public transmit_raw h s) \<noteq> Inl Panic"
  "fst (tpm_create_primary transmit_raw hier template pcrs s) \<noteq> Inl Panic"
  "fst (tpm_create_primary_ecc transmit_raw hier ecc_template s) \<noteq> Inl Panic"
  "fst (tpm_flush_context transmit_raw h s) \<noteq> Inl Panic"
  "fst (tpm_evict_control transmit_raw h h' s) \<noteq> Inl Panic"
  by (simp_all add: tpm_read_public_def tpm_create_primary_def tpm_create_primary_ecc_def
      tpm_flush_context_def tpm_evict_control_def create_primary_marshal_def
      create_primary_new_def command_sessions_def op_no_panic)

lemma signing_ops_no_panic:
  "fst (tpm_quote_with_key transmit_raw h pcrs s) \<noteq> Inl Panic"
  "fst (tpm_certify_with_key transmit_raw h h' s) \<noteq> Inl Panic"
  "fst (tpm_sign transmit_raw h digest s) \<noteq> Inl Panic"
  "fst (tpm_verify_signature transmit_raw h digest sig s) \<noteq> Inl Panic"
  by (simp_all add: tpm_quote_with_key_def tpm_certify_with_key_def tpm_sign_def
      tpm_verify_signature_def quote_marshal_def quote_new_def command_sessions_def op_no_panic)

lemma authorized_ops_no_panic:
  assumes "length auth < 4294967287"
  shows "fst (tpm_load transmit_raw h auth priv pub s) \<noteq> Inl Panic"
    "fst (tpm_unseal transmit_raw h auth s) \<noteq> Inl Panic"
proof -
  have a: "build_command_pw_sessions code hs [auth] params \<noteq> Inl Panic" for code hs params
    by (rule build_pw_sessions_Inr) (use assms in simp)
  show "fst (tpm_load transmit_raw h auth priv pub s) \<noteq> Inl Panic"
    by (auto simp: tpm_load_def st_then_def op_no_panic a split: sum.splits if_splits)
  show "fst (tpm_unseal transmit_raw h auth s) \<noteq> Inl Panic"
    by (simp add: tpm_unseal_def op_no_panic a)
qed

lemma find_nv_index_no_panic: "fst (tpm_find_nv_index transmit_raw i s) \<noteq> Inl Panic"
  unfolding tpm_find_nv_index_def
  by (intro no_panic nv_ops_no_panic)
    (auto dest!: st_catch_value split: sum.splits fault.splits)

lemma chunk_outcomes [simp]:
  "nv_read_chunk transmit_raw i n off s \<noteq> (Inl Panic, s')"
  "nv_write_chunk transmit_raw i part off s \<noteq> (Inl Panic, s')"
  using nv_ops_no_panic(2) [of i n off s] nv_ops_no_panic(3) [of i part off s] by auto

lemma nv_read_loop_no_panic: "fst (nv_read_loop transmit_raw i n data off s) \<noteq> Inl Panic"
proof (induction tr\<equiv>transmit_raw i n data off s rule: nv_read_loop.induct)
  case (1 i n data off s)
  then show ?case
    by (auto simp: nv_read_loop.simps [of transmit_raw i n data off s] Let_def
        split: prod.splits sum.splits)
qed

lemma nv_write_loop_no_panic: "fst (nv_write_loop transmit_raw i data off s) \<noteq> Inl Panic"
proof (induction tr\<equiv>transmit_raw i data off s rule: nv_write_loop.induct)
  case (1 i data off s)
  then show ?case
    by (auto simp: nv_write_loop.simps [of transmit_raw i data off s] Let_def
        split: prod.splits sum.splits)
qed

lemma nv_transfers_no_panic:
  "fst (tpm_read_nv_index transmit_raw i s) \<noteq> Inl Panic"
  "fst (tpm_write_nv_index transmit_raw i data s) \<noteq> Inl Panic"
  unfolding tpm_read_nv_index_def tpm_write_nv_index_def
  by (rule st_then_no_panic; simp add: nv_ops_no_panic nv_read_loop_no_panic nv_write_loop_no_panic)+

lemma pcr_read_round_no_panic: "fst (pcr_read_round transmit_raw alg rem col s) \<noteq> Inl Panic"
proof -
  have "pcr_read_marshal (from_pcrs_with_alg rem (pcr_to_alg_id alg)) \<noteq> Inl Panic"
    by (simp add: pcr_read_marshal_def)
  moreover have "returned_indices (prp_selections (resp_parameters r)) \<noteq> Inl Panic"
    if "pcr_read_response_from_bytes bs = Inr r" for bs r
    using pcr_read_selections_shape [OF that] by (intro returned_indices_no_panic) blast
  ultimately show ?thesis
    unfolding pcr_read_round_def Let_def
    by (intro run_no_panic)
      (auto simp: pcr_read_new_def command_no_sessions_def and_then_eq_Inl require_14_def
        named_responses_no_panic)
qed

lemma pcr_read_loop_no_panic: "fst (pcr_read_loop transmit_raw alg rem col s) \<noteq> Inl Panic"
proof (induction tr\<equiv>transmit_raw alg rem col s rule: pcr_read_loop.induct)
  case (1 alg rem col s)
  then show ?case
    using pcr_read_round_no_panic [of alg rem col s]
    by (auto simp: pcr_read_loop.simps [of transmit_raw alg rem col s]
        split: prod.splits sum.splits)
qed

lemma read_pcrs_no_panic: "fst (tpm_read_pcrs_for_alg transmit_raw alg pcrs s) \<noteq> Inl Panic"
  unfolding tpm_read_pcrs_for_alg_def
  by (cases "pcrs = []", simp_all) (intro st_then_no_panic pcr_read_loop_no_panic; simp)

lemma policy_pcr_no_panic: "fst (tpm_policy_pcr sha transmit_raw h pcrs s) \<noteq> Inl Panic"
  unfolding tpm_policy_pcr_def tpm_read_pcrs_sha256_def Let_def
  by (cases "pcrs = []", simp_all)
    (intro st_then_no_panic read_pcrs_no_panic run_no_panic;
      simp add: policy_pcr_marshal_def policy_pcr_new_def command_no_sessions_def)

lemma flushed_session_no_panic:
  "fst (body s) \<noteq> Inl Panic \<Longrightarrow> fst (with_flushed_session transmit_raw h body s) \<noteq> Inl Panic"
  unfolding with_flushed_session_def
  by (intro no_panic key_ops_no_panic) (auto dest: st_catch_value)

lemma start_auth_session_no_panic:
  "fst (rnd 16 s) \<noteq> Inl Panic \<Longrightarrow> fst (tpm_start_auth_session rnd transmit_raw t a s) \<noteq> Inl Panic"
  unfolding tpm_start_auth_session_def Let_def
  by (rule st_then_no_panic) (auto simp: op_no_panic)

lemma session_bodies_no_panic:
  "fst (policy_digest_in_session sha transmit_raw pcrs h s) \<noteq> Inl Panic"
  "fst (rsa_decrypt_in_session sha transmit_raw pcrs cmd_body h s) \<noteq> Inl Panic"
  unfolding policy_digest_in_session_def rsa_decrypt_in_session_def Let_def
  by (intro st_then_no_panic policy_pcr_no_panic transport_no_panic run_no_panic;
      simp add: op_no_panic)+

lemma compute_pcr_policy_digest_no_panic:
  assumes "\<And>s. fst (rnd 16 s) \<noteq> Inl Panic"
  shows "fst (tpm_compute_pcr_policy_digest rnd sha transmit_raw pcrs s) \<noteq> Inl Panic"
  unfolding tpm_compute_pcr_policy_digest_def
  by (intro st_then_no_panic start_auth_session_no_panic flushed_session_no_panic
      session_bodies_no_panic assms)

lemma rsa_decrypt_no_panic:
  assumes "\<And>s. fst (rnd 16 s) \<noteq> Inl Panic"
  shows "fst (tpm_rsa_decrypt rnd sha transmit_raw h pcrs ct scheme s) \<noteq> Inl Panic"
  unfolding tpm_rsa_decrypt_def Let_def
  by (cases "512 < length (trim_ciphertext ct)"; cases "pcrs = []"; simp)
    (intro st_then_no_panic start_auth_session_no_panic flushed_session_no_panic
       session_bodies_no_panic assms transport_no_panic;
      simp add: op_no_panic parse_tpm_rc_no_panic)+

end

section \<open>Requests and the TPM's replies\<close>

text \<open>A command authorized by the empty password, as built by \<open>build_command_pw_sessions\<close>.\<close>

definition pw_command :: "tpm_command_code \<Rightarrow> u32 list \<Rightarrow> bytes \<Rightarrow> bytes" where
  "pw_command code hs params =
     command_frame TPM_ST_SESSIONS code (handle_area hs @ auth_area [pw_entry []] @ params)"

definition plain_command :: "tpm_command_code \<Rightarrow> u32 list \<Rightarrow> bytes \<Rightarrow> bytes" where
  "plain_command code hs params =
     command_frame TPM_ST_NO_SESSIONS code (handle_area hs @ params)"

lemma build_pw_command [simp]:
  "build_command_pw_sessions code hs [[]] params = Inr (pw_command code hs params)"
  by (simp add: build_command_pw_sessions_frame pw_command_def)

lemma build_plain_command [simp]:
  "build_command_no_sessions code hs params = Inr (plain_command code hs params)"
  by (simp add: build_command_no_sessions_frame plain_command_def)

lemma length_auth_area: "length (auth_area ss) = 4 + auth_bytes (map se_auth ss)"
  by (simp add: auth_area_def length_custom_sessions)

lemma length_pw_command [simp]: "length (pw_command code hs params) = 23 + 4 * length hs + length params"
  by (simp add: pw_command_def length_auth_area pw_entry_def)

lemma length_plain_command [simp]:
  "length (plain_command code hs params) = 10 + 4 * length hs + length params"
  by (simp add: plain_command_def)

text \<open>A response without sessions: header and parameters.\<close>

definition plain_response :: "u32 \<Rightarrow> bytes \<Rightarrow> bytes" where
  "plain_response code params =
     u16_marshal TPM_ST_NO_SESSIONS @ u32_marshal (of_nat (10 + length params)) @
     u32_marshal code @ params"

lemma length_plain_response [simp]: "length (plain_response code params) = 10 + length params"
  by (simp add: plain_response_def)

lemma length_session_response [simp]:
  "length (session_response code ha psize params auth) =
     14 + length ha + length params + length auth"
  by (rule session_response_layout(4))

lemma response_size_field:
  "n < 4294967296 \<Longrightarrow> n = 10 + length body \<Longrightarrow>
     parse_tpm_rc_with_cmd (u16_marshal tag @ u32_marshal (of_nat n) @ u32_marshal 0 @ body) cc = Inr ()"
  by (simp add: parse_tpm_rc_Inr u16_marshal_def u32_marshal_def unat_of_nat take_bit_nat_eq_self
      del: of_nat_add)

lemma plain_response_ok:
  "10 + length params < 4294967296 \<Longrightarrow> parse_tpm_rc_with_cmd (plain_response 0 params) cc = Inr ()"
  unfolding plain_response_def by (rule response_size_field) auto

lemma session_response_ok:
  "14 + length hs + length params + length auth < 4294967296 \<Longrightarrow>
     parse_tpm_rc_with_cmd (session_response 0 hs psize params auth) cc = Inr ()"
  unfolding session_response_def by (rule response_size_field) auto

lemma run_command_reply:
  "tr cmd s = (Inr resp, s') \<Longrightarrow> parse_tpm_rc_with_cmd resp cc = Inr () \<Longrightarrow>
     run_command tr cc (Inr cmd) f s = (f resp, s')"
  by (simp add: run_command_def exchange_def st_then_def)

context wire_codec begin

lemma checked_response_plain:
  assumes "valid x" "10 + length (marshal x) < 4294967296"
  shows "\<exists>h. checked_response name unmarshal (plain_response 0 (marshal x)) =
    Inr \<lparr>resp_header = h, resp_parameters = x\<rparr>"
proof -
  let ?n = "10 + length (marshal x)"
  let ?h = "\<lparr>rh_tag = TPM_ST_NO_SESSIONS, rh_size = of_nat ?n, rh_return_code = 0\<rparr>"
  have n: "unat (of_nat ?n :: u32) = ?n" using assms(2) by (rule unat_of_nat_u32)
  have "response_header_parse (plain_response 0 (marshal x)) = Inr (?h, 10)"
    using response_header_parse_marshal [of "of_nat ?n" "marshal x" TPM_ST_NO_SESSIONS 0] n
    by (simp add: plain_response_def u16_marshal_def u32_marshal_def)
  moreover have "occurs_at (plain_response 0 (marshal x)) 10 (marshal x)"
    using occurs_at_whole [of "plain_response 0 (marshal x)"]
    by (simp add: plain_response_def eval_nat_numeral)
  moreover have "\<not> has_sessions ?h" by (simp add: has_sessions_def tpm_constant_defs)
  ultimately show ?thesis
    using codec [of "plain_response 0 (marshal x)" 10 x] assms(1)
    by (simp add: checked_response_def checked_parameters_def parameter_area_def)
qed

end

end
