(* ===== verification/Tpm_Nv_Facts.thy ===== *)
theory Tpm_Nv_Facts
  imports Tpm_Command_Facts
begin

text \<open>
  The chunked NV transfers of \<open>commands.rs\<close>: which chunks are requested, and that what
  was written is read back from a TPM that stores it.
\<close>

section \<open>The chunks\<close>

text \<open>The reference: offset and length of each chunk of at most 1024 bytes.\<close>

function nv_ranges :: "nat \<Rightarrow> nat \<Rightarrow> (nat \<times> nat) list" where
  "nv_ranges n off =
     (if off < n then (off, min (n - off) 1024) # nv_ranges n (off + min (n - off) 1024) else [])"
  by pat_completeness auto
termination
  by (relation "measure (\<lambda>(n, off). n - off)") auto

declare nv_ranges.simps [simp del]

lemma nv_ranges_end [simp]: "n \<le> off \<Longrightarrow> nv_ranges n off = []"
  by (simp add: nv_ranges.simps)

text \<open>Consecutive, non-empty, at most 1024 bytes each, and together the whole area.\<close>

lemma nv_ranges_tile:
  "concat (map (\<lambda>(a, k). [a..<a + k]) (nv_ranges n off)) = [off..<n]"
proof (induction n off rule: nv_ranges.induct)
  case (1 n off)
  show ?case
  proof (cases "off < n")
    case True
    let ?k = "min (n - off) 1024"
    have "[off..<n] = [off..<off + ?k] @ [off + ?k..<n]"
      using True upt_add_eq_append [of off "off + ?k" "n - (off + ?k)"] by simp
    with 1 True show ?thesis by (simp add: nv_ranges.simps [of n off])
  qed simp
qed

lemma nv_ranges_bounds:
  "(a, k) \<in> set (nv_ranges n off) \<Longrightarrow> 0 < k \<and> k \<le> 1024 \<and> off \<le> a \<and> a + k \<le> n"
proof (induction n off rule: nv_ranges.induct)
  case (1 n off)
  then show ?case
    by (subst (asm) nv_ranges.simps) (fastforce split: if_splits)
qed

lemma nv_ranges_slices:
  "concat (map (\<lambda>(a, k). take k (drop a data)) (nv_ranges (length data) off)) = drop off data"
proof (induction "length data" off rule: nv_ranges.induct)
  case (1 off)
  show ?case
  proof (cases "off < length data")
    case True
    let ?k = "min (length data - off) 1024"
    have "take ?k (drop off data) @ drop (off + ?k) data = drop off data"
      by (metis append_take_drop_id drop_drop add.commute)
    with 1 True show ?thesis by (simp add: nv_ranges.simps [of "length data" off])
  qed simp
qed

section \<open>The loops are folds over the chunks\<close>

fun read_ranges :: "'s transport \<Rightarrow> u32 \<Rightarrow> (nat \<times> nat) list \<Rightarrow> bytes \<Rightarrow> ('s, io_error, bytes) st" where
  "read_ranges tr i [] data s = (Inr data, s)"
| "read_ranges tr i ((a, k) # rs) data s =
     st_then (nv_read_chunk tr i (of_nat k) (of_nat a)) (\<lambda>part. read_ranges tr i rs (data @ part)) s"

fun write_ranges :: "'s transport \<Rightarrow> u32 \<Rightarrow> bytes \<Rightarrow> (nat \<times> nat) list \<Rightarrow> ('s, io_error, unit) st" where
  "write_ranges tr i data [] s = (Inr (), s)"
| "write_ranges tr i data ((a, k) # rs) s =
     st_then (nv_write_chunk tr i (take k (drop a data)) (of_nat a)) (\<lambda>_. write_ranges tr i data rs) s"

text \<open>The 16-bit offset never overflows for an area of at most 65535 bytes.\<close>

lemma nv_read_loop_ranges:
  "n < 65536 \<Longrightarrow> nv_read_loop tr i n data off s = read_ranges tr i (nv_ranges n (unat off)) data s"
proof (induction tr i n data off s rule: nv_read_loop.induct)
  case (1 tr i n data off s)
  let ?k = "min (n - unat off) 1024"
  show ?case
  proof (cases "unat off < n")
    case True
    with "1.prems" have k: "unat off + ?k < 65536" by linarith
    show ?thesis
      using True k "1.IH" [OF True refl refl _ _ k "1.prems"]
      by (simp add: nv_read_loop.simps [of tr i n data off s] nv_ranges.simps [of n "unat off"]
          Let_def st_then_def u16_add_chunk split: prod.splits sum.splits)
  next
    case False
    then show ?thesis by (simp add: nv_read_loop.simps [of tr i n data off s])
  qed
qed

lemma nv_write_loop_ranges:
  "length data < 65536 \<Longrightarrow>
     nv_write_loop tr i data off s = write_ranges tr i data (nv_ranges (length data) (unat off)) s"
proof (induction tr i data off s rule: nv_write_loop.induct)
  case (1 tr i data off s)
  let ?k = "min (length data - unat off) 1024"
  show ?case
  proof (cases "unat off < length data")
    case True
    with "1.prems" have k: "unat off + ?k < 65536" by linarith
    show ?thesis
      using True k "1.IH" [OF True refl refl _ _ k "1.prems"]
      by (simp add: nv_write_loop.simps [of tr i data off s] Let_def st_then_def u16_add_chunk
          nv_ranges.simps [of "length data" "unat off"] split: prod.splits sum.splits)
  next
    case False
    then show ?thesis by (simp add: nv_write_loop.simps [of tr i data off s])
  qed
qed

lemma read_nv_index_eq:
  "tpm_read_nv_index tr i s =
     st_then (tpm_nv_read_public tr i)
       (\<lambda>p. read_ranges tr i (nv_ranges (unat (np_data_size p)) 0) []) s"
  by (simp add: tpm_read_nv_index_def st_then_def nv_read_loop_ranges unat_u16_bound
      split: prod.splits sum.splits)

text \<open>
  Reading an NV index issues one NV_Read per chunk of the size
  its public area announces and concatenates the answers; the chunks are non-empty, at
  most 1024 bytes long, and tile the area from its first to its last byte. In particular
  the loop's 16-bit offset never overflows.
\<close>

theorem read_nv_index_chunks:
  "tpm_read_nv_index tr i s =
     st_then (tpm_nv_read_public tr i)
       (\<lambda>p. read_ranges tr i (nv_ranges (unat (np_data_size p)) 0) []) s
   \<and> concat (map (\<lambda>(a, k). [a..<a + k]) (nv_ranges n 0)) = [0..<n]
   \<and> list_all (\<lambda>(a, k). 0 < k \<and> k \<le> 1024) (nv_ranges n 0)"
  using nv_ranges_bounds [of _ _ n 0]
  by (auto simp: read_nv_index_eq nv_ranges_tile list_all_iff)

lemma write_nv_index_chunks:
  "tpm_write_nv_index tr i data s =
     st_then (tpm_nv_read_public tr i)
       (\<lambda>p. if unat (np_data_size p) < length data
            then st_res (io_fail InvalidInput ''data larger than NV index size'')
            else write_ranges tr i data (nv_ranges (length data) 0)) s"
proof -
  have "length data < 65536" if "\<not> unat (w :: u16) < length data" for w
    using that unat_u16_bound [of w] by simp
  then show ?thesis
    by (auto simp: tpm_write_nv_index_def st_then_def nv_write_loop_ranges
        split: prod.splits sum.splits)
qed

section \<open>A TPM that stores the index\<close>

text \<open>What a TPM answers to \<open>TPM2_NV_ReadPublic\<close>: the public area with all its attributes, and its name.\<close>

definition nv_fields_wire :: "nv_public \<Rightarrow> bytes" where
  "nv_fields_wire p =
     u32_marshal (np_nv_index p) @ u16_marshal (np_name_alg p) @ u32_marshal (np_attributes p) @
     sized_marshal (np_auth_policy p) @ u16_marshal (np_data_size p)"

definition nv_public_wire :: "nv_public \<Rightarrow> bytes" where
  "nv_public_wire p = u16_marshal (of_nat (length (nv_fields_wire p))) @ nv_fields_wire p"

lemma length_nv_fields_wire [simp]: "length (nv_fields_wire p) = 14 + length (np_auth_policy p)"
  by (simp add: nv_fields_wire_def)

lemma nv_fields_of_wire:
  assumes "fits_u16 (np_auth_policy p)" "occurs_at d c (nv_fields_wire p)"
  shows "nv_public_fields_unmarshal d c = Inr (p, c + length (nv_fields_wire p))"
proof -
  have "c + 12 \<le> length d" using occurs_at_bounds [OF assms(2)] by simp
  with assms show ?thesis
    by (auto simp: nv_public_fields_unmarshal_def nv_fields_wire_def add.assoc)
qed

lemma nv_block_of_wire:
  assumes "length (np_auth_policy p) < 65522" "occurs_at d c (nv_public_wire p)"
  shows "nv_public_block_unmarshal d c = Inr (p, c + length (nv_public_wire p))"
proof -
  have f: "fits_u16 (np_auth_policy p)" using assms(1) by (simp add: fits_u16_def)
  have o: "occurs_at d c (u16_marshal (of_nat (length (nv_fields_wire p))))"
    "occurs_at d (c + 2) (nv_fields_wire p)"
    using assms(2) by (simp_all add: nv_public_wire_def)
  have "unat (of_nat (length (nv_fields_wire p)) :: u16) = length (nv_fields_wire p)"
    using assms(1) by (subst unat_of_nat_u16) auto
  with o occurs_at_bounds [OF o(2)] nv_fields_of_wire [OF f o(2)] u16_codec.codec [OF o(1) TrueI]
  show ?thesis by (simp add: nv_public_block_unmarshal_def nv_public_wire_def)
qed

definition nv_read_public_wire :: "nv_read_public_response_parameters \<Rightarrow> bytes" where
  "nv_read_public_wire r = nv_public_wire (nr_public r) @ sized_marshal (nr_name r)"

definition nv_read_public_valid :: "nv_read_public_response_parameters \<Rightarrow> bool" where
  "nv_read_public_valid r \<longleftrightarrow>
     length (np_auth_policy (nr_public r)) < 65522 \<and> fits_u16 (nr_name r)"

lemma length_nv_read_public_wire [simp]:
  "length (nv_read_public_wire r) = 18 + length (np_auth_policy (nr_public r)) + length (nr_name r)"
  by (simp add: nv_read_public_wire_def nv_public_wire_def)

interpretation nv_read_public_codec:
  wire_codec nv_read_public_wire nv_read_public_parameters_unmarshal nv_read_public_valid
proof
  fix d c r
  assume v: "nv_read_public_valid r" and o: "occurs_at d c (nv_read_public_wire r)"
  let ?w = "nv_public_wire (nr_public r)"
  have block: "occurs_at d c ?w" and name: "occurs_at d (c + length ?w) (tpm2b_bytes_marshal (nr_name r))"
    using o by (simp_all add: nv_read_public_wire_def tpm2b_defs)
  have "nv_public_block_unmarshal d c = Inr (nr_public r, c + length ?w)"
    using v by (intro nv_block_of_wire block) (simp add: nv_read_public_valid_def)
  moreover have "nv_name_unmarshal d (c + length ?w) =
      Inr (nr_name r, c + length ?w + length (tpm2b_bytes_marshal (nr_name r)))"
    using v name occurs_at_bounds [OF name]
    by (simp add: nv_name_unmarshal_def nv_read_public_valid_def)
  ultimately show "nv_read_public_parameters_unmarshal d c = Inr (r, c + length (nv_read_public_wire r))"
    by (simp add: nv_read_public_parameters_unmarshal_def nv_read_public_wire_def tpm2b_defs)
qed

definition nv_read_request :: "u32 \<Rightarrow> u16 \<Rightarrow> u16 \<Rightarrow> bytes" where
  "nv_read_request i n off =
     pw_command NvRead [hierarchy_handle Hierarchy_Owner, i] (u16_marshal n @ u16_marshal off)"

definition nv_write_request :: "u32 \<Rightarrow> bytes \<Rightarrow> u16 \<Rightarrow> bytes" where
  "nv_write_request i part off =
     pw_command NvWrite [hierarchy_handle Hierarchy_Owner, i] (sized_marshal part @ u16_marshal off)"

definition nv_read_public_request :: "u32 \<Rightarrow> bytes" where
  "nv_read_public_request i = plain_command NvReadPublic [] (u32_marshal i)"

text \<open>
  A TPM that holds the index \<open>i\<close> with public area \<open>nr_public r\<close>: it answers reads of at
  most 1024 bytes inside the area, with password session replies \<open>auth\<close>, without changing
  its state; \<open>nv_service\<close> also accepts writes.
\<close>

definition nv_readable ::
    "'s transport \<Rightarrow> u32 \<Rightarrow> nv_read_public_response_parameters \<Rightarrow> bytes \<Rightarrow> ('s \<Rightarrow> bytes) \<Rightarrow> bool" where
  "nv_readable tr i r auth content \<longleftrightarrow>
     nv_read_public_valid r \<and> length auth < 65536 \<and>
     (\<forall>s. length (content s) = unat (np_data_size (nr_public r))) \<and>
     (\<forall>s. tr (nv_read_public_request i) s = (Inr (plain_response 0 (nv_read_public_wire r)), s)) \<and>
     (\<forall>s n off. n \<le> 1024 \<longrightarrow> off + n \<le> length (content s) \<longrightarrow>
        tr (nv_read_request i (of_nat n) (of_nat off)) s =
          (Inr (session_response 0 [] (of_nat (2 + n)) (sized_marshal (take n (drop off (content s)))) auth), s))"

definition nv_service ::
    "'s transport \<Rightarrow> u32 \<Rightarrow> nv_read_public_response_parameters \<Rightarrow> bytes \<Rightarrow> ('s \<Rightarrow> bytes) \<Rightarrow> bool" where
  "nv_service tr i r auth content \<longleftrightarrow>
     nv_readable tr i r auth content \<and>
     (\<forall>s part off. length part \<le> 1024 \<longrightarrow> off + length part \<le> length (content s) \<longrightarrow>
        (\<exists>s'. tr (nv_write_request i part (of_nat off)) s = (Inr (session_response 0 [] 0 [] auth), s') \<and>
              content s' = take off (content s) @ part @ drop (off + length part) (content s)))"

lemma nv_service_readable: "nv_service tr i r auth content \<Longrightarrow> nv_readable tr i r auth content"
  by (simp add: nv_service_def)

lemma nv_readable_length: "nv_readable tr i r auth content \<Longrightarrow> length (content s) = unat (np_data_size (nr_public r))"
  by (simp add: nv_readable_def)

lemma nv_readable_read_public:
  assumes "nv_readable tr i r auth content"
  shows "tpm_nv_read_public tr i s = (Inr (nr_public r), s)"
proof -
  have v: "nv_read_public_valid r"
    and t: "tr (nv_read_public_request i) s = (Inr (plain_response 0 (nv_read_public_wire r)), s)"
    using assms by (auto simp: nv_readable_def)
  have b: "10 + length (nv_read_public_wire r) < 4294967296"
    using v by (simp add: nv_read_public_valid_def fits_u16_def)
  obtain h where "nv_read_public_response_from_bytes (plain_response 0 (nv_read_public_wire r)) =
      Inr \<lparr>resp_header = h, resp_parameters = r\<rparr>"
    using nv_read_public_codec.checked_response_plain [OF v b]
    unfolding nv_read_public_response_from_bytes_def by blast
  with t b show ?thesis
    by (simp add: tpm_nv_read_public_def nv_read_public_new_def command_no_sessions_def
        nv_read_public_marshal_def nv_read_public_request_def require_14_def
        run_command_reply [OF _ plain_response_ok])
qed

lemma nv_readable_read_chunk:
  assumes "nv_readable tr i r auth content" "n \<le> 1024" "off + n \<le> length (content s)"
  shows "nv_read_chunk tr i (of_nat n) (of_nat off) s = (Inr (take n (drop off (content s))), s)"
proof -
  let ?part = "take n (drop off (content s))"
  have l: "length ?part = n" and a: "length auth < 65536"
    and t: "tr (nv_read_request i (of_nat n) (of_nat off)) s =
      (Inr (session_response 0 [] (of_nat (2 + n)) (sized_marshal ?part) auth), s)"
    using assms by (auto simp: nv_readable_def)
  have u: "unat (of_nat (2 + n) :: u32) = 2 + n" using assms(2) by (subst unat_of_nat_u32) auto
  have "nv_read_response_from_bytes (session_response 0 [] (of_nat (2 + n)) (sized_marshal ?part) auth) =
      Inr \<lparr>resp_header = session_header 0 [] (sized_marshal ?part) auth, resp_parameters = ?part\<rparr>"
    using nv_buffer_codec.checked_response_session [of ?part auth "of_nat (2 + n)" "''NvRead''"] a l u assms(2)
    by (simp add: nv_read_response_from_bytes_def tpm2b_max_nv_buffer_marshal_def fits_u16_def del: of_nat_add)
  with t a l assms(2) show ?thesis
    by (simp add: nv_read_chunk_def nv_read_new_def command_sessions_def nv_read_marshal_def
        nv_read_request_def run_command_reply [OF _ session_response_ok] del: of_nat_add)
qed

lemma empty_response_session:
  assumes "14 + length auth < 4294967296"
  shows "empty_response name (session_response 0 [] 0 [] auth) =
    Inr \<lparr>resp_header = session_header 0 [] [] auth, resp_parameters = ()\<rparr>"
proof -
  have "parameter_area name (session_header 0 [] [] auth) (session_response 0 [] 0 [] auth) 10 =
      Inr (14, Some 0)"
    using parameter_area_session [of 0 "[]" auth name 0 "[]"] by simp
  with assms show ?thesis by (simp add: empty_response_def header_of_session_response)
qed

lemma nv_service_write_chunk:
  assumes "nv_service tr i r auth content" "length part \<le> 1024" "off + length part \<le> length (content s)"
  shows "\<exists>s'. nv_write_chunk tr i part (of_nat off) s = (Inr (), s') \<and>
    content s' = take off (content s) @ part @ drop (off + length part) (content s)"
proof -
  obtain s' where t: "tr (nv_write_request i part (of_nat off)) s = (Inr (session_response 0 [] 0 [] auth), s')"
    and c: "content s' = take off (content s) @ part @ drop (off + length part) (content s)"
    and a: "length auth < 65536"
    using assms unfolding nv_service_def nv_readable_def by blast
  then have "nv_write_chunk tr i part (of_nat off) s = (Inr (), s')"
    using assms(2)
    by (simp add: nv_write_chunk_def nv_write_new_def command_sessions_def nv_write_marshal_def
        nv_write_request_def tpm2b_defs nv_write_response_from_bytes_def empty_response_session
        run_command_reply [OF _ session_response_ok])
  with c show ?thesis by blast
qed

lemma nv_readable_read_ranges:
  assumes "nv_readable tr i r auth content"
    and "\<forall>(a, k)\<in>set rs. k \<le> 1024 \<and> a + k \<le> length (content s)"
  shows "read_ranges tr i rs data s =
    (Inr (data @ concat (map (\<lambda>(a, k). take k (drop a (content s))) rs)), s)"
  using assms(2)
  by (induction rs arbitrary: data)
    (auto simp: st_then_def nv_readable_read_chunk [OF assms(1)])

lemma nv_service_write_ranges:
  assumes "nv_service tr i r auth content" "length data \<le> unat (np_data_size (nr_public r))"
  shows "\<exists>s'. write_ranges tr i data (nv_ranges (length data) off) s = (Inr (), s') \<and>
    content s' = take off (content s) @ drop off data @ drop (max off (length data)) (content s)"
  using assms(2)
proof (induction "length data" off arbitrary: s rule: nv_ranges.induct)
  case (1 off)
  have len: "length (content t) = unat (np_data_size (nr_public r))" for t
    by (rule nv_readable_length [OF nv_service_readable [OF assms(1)]])
  show ?case
  proof (cases "off < length data")
    case True
    let ?k = "min (length data - off) 1024"
    let ?part = "take ?k (drop off data)"
    have k: "length ?part = ?k" "off + ?k \<le> length data" using True by auto
    obtain s1 where w: "nv_write_chunk tr i ?part (of_nat off) s = (Inr (), s1)"
      and c1: "content s1 = take off (content s) @ ?part @ drop (off + ?k) (content s)"
      using nv_service_write_chunk [OF assms(1), of ?part off s] k len [of s] "1.prems" by auto
    obtain s2 where r: "write_ranges tr i data (nv_ranges (length data) (off + ?k)) s1 = (Inr (), s2)"
      and c2: "content s2 = take (off + ?k) (content s1) @ drop (off + ?k) data @
        drop (max (off + ?k) (length data)) (content s1)"
      using "1.hyps" [OF True "1.prems"] by blast
    have "take (off + ?k) (content s1) = take off (content s) @ ?part"
      using c1 k len [of s] "1.prems" by simp
    moreover have "?part @ drop (off + ?k) data = drop off data"
      by (metis append_take_drop_id drop_drop add.commute)
    moreover have "drop (length data) (content s1) = drop (length data) (content s)"
      using c1 k len [of s] "1.prems" True by (simp add: min_def split: if_splits)
    ultimately have "content s2 = take off (content s) @ drop off data @ drop (length data) (content s)"
      using c2 k(2) by (simp add: max_def)
    with w r True show ?thesis
      by (simp add: nv_ranges.simps [of "length data" off] st_then_def max_def)
  next
    case False
    then show ?thesis by (auto simp: max_def)
  qed
qed

text \<open>
  C1. On a TPM that stores the index, writing \<open>data\<close> and reading the
  index back gives \<open>data\<close> followed by the bytes that were not overwritten, for every
  length up to the index's size: the chunks neither overlap nor leave a gap.
\<close>

theorem nv_write_then_read:
  assumes "nv_service tr i r auth content" "length data \<le> unat (np_data_size (nr_public r))"
  shows "\<exists>s'. tpm_write_nv_index tr i data s = (Inr (), s') \<and>
    tpm_read_nv_index tr i s' = (Inr (data @ drop (length data) (content s)), s')"
proof -
  have len: "length (content t) = unat (np_data_size (nr_public r))" for t
    by (rule nv_readable_length [OF nv_service_readable [OF assms(1)]])
  obtain s' where w: "write_ranges tr i data (nv_ranges (length data) 0) s = (Inr (), s')"
    and c: "content s' = data @ drop (length data) (content s)"
    using nv_service_write_ranges [OF assms, of 0 s] by auto
  have "read_ranges tr i (nv_ranges (length (content s')) 0) [] s' =
      (Inr ([] @ concat (map (\<lambda>(a, k). take k (drop a (content s'))) (nv_ranges (length (content s')) 0))), s')"
    by (rule nv_readable_read_ranges [OF nv_service_readable [OF assms(1)]]) (auto dest: nv_ranges_bounds)
  then have "read_ranges tr i (nv_ranges (length (content s')) 0) [] s' = (Inr (content s'), s')"
    by (simp add: nv_ranges_slices)
  with w c show ?thesis
    using assms(2) len [of s']
    by (simp add: write_nv_index_chunks read_nv_index_eq st_then_def
        nv_readable_read_public [OF nv_service_readable [OF assms(1)]])
qed

text \<open>A three-byte index in a device whose state is the stored bytes.\<close>

definition demo_public :: nv_read_public_response_parameters where
  "demo_public = \<lparr>nr_public = \<lparr>np_nv_index = 0x01400001, np_name_alg = ALG_SHA256,
     np_attributes = 0x20060006, np_auth_policy = [], np_data_size = 3\<rparr>, nr_name = [0, 11]\<rparr>"

definition demo_content :: "bytes \<Rightarrow> bytes" where
  "demo_content s = take 3 (s @ [0, 0, 0])"

definition demo_nv :: "bytes transport" where
  "demo_nv cmd s =
     (let code = drop 6 (take 10 cmd); params = drop 31 cmd in
      if code = u32_marshal (command_code_u32 NvReadPublic)
      then (Inr (plain_response 0 (nv_read_public_wire demo_public)), s)
      else if code = u32_marshal (command_code_u32 NvRead)
      then
        (let n = unat (of_be (take 2 params) :: u16); off = unat (of_be (drop 2 params) :: u16)
         in (Inr (session_response 0 [] (of_nat (2 + n))
                   (sized_marshal (take n (drop off (demo_content s)))) []), s))
      else
        (let n = length params - 4; part = take n (drop 2 params);
             off = unat (of_be (drop (2 + n) params) :: u16)
         in (Inr (session_response 0 [] 0 [] []),
             take off (demo_content s) @ part @ drop (off + n) (demo_content s))))"

lemma command_code_of_frame: "drop 6 (take 10 (command_frame tag code body)) = u32_marshal (command_code_u32 code)"
  by (simp add: command_frame_def)

lemma u32_marshal_inject: "u32_marshal a = u32_marshal b \<longleftrightarrow> a = b"
  using u32_codec.codec_inj [of a b] by blast

lemma pw_command_parts:
  "drop 6 (take 10 (pw_command code hs params)) = u32_marshal (command_code_u32 code)"
  "drop (23 + 4 * length hs) (pw_command code hs params) = params"
  by (simp_all add: pw_command_def command_code_of_frame)
    (simp add: command_frame_def length_auth_area pw_entry_def)

lemma nv_requests_of_demo:
  "demo_nv (nv_read_public_request i) s = (Inr (plain_response 0 (nv_read_public_wire demo_public)), s)"
  "demo_nv (nv_read_request i n off) s =
     (Inr (session_response 0 [] (of_nat (2 + unat n))
        (sized_marshal (take (unat n) (drop (unat off) (demo_content s)))) []), s)"
  "demo_nv (nv_write_request i part off) s =
     (Inr (session_response 0 [] 0 [] []),
      take (unat off) (demo_content s) @ part @ drop (unat off + length part) (demo_content s))"
  using pw_command_parts(2) [of "[hierarchy_handle Hierarchy_Owner, i]"]
  by (simp_all add: demo_nv_def nv_read_public_request_def plain_command_def command_code_of_frame
      nv_read_request_def nv_write_request_def pw_command_parts Let_def
      u32_marshal_inject u16_marshal_def sized_marshal_def)

lemma demo_nv_service: "nv_service demo_nv i demo_public [] demo_content"
proof -
  have len: "length (demo_content s) = 3" for s by (simp add: demo_content_def)
  have small: "off + n \<le> 3 \<Longrightarrow> n < 65536 \<and> off < 65536" for off n :: nat by linarith
  show ?thesis
    unfolding nv_service_def nv_readable_def
    using small
    by (auto simp: nv_requests_of_demo len demo_public_def nv_read_public_valid_def fits_u16_def)
      (simp add: demo_content_def)
qed

theorem nv_write_then_read_witness:
  "nv_service demo_nv 0x01400001 demo_public [] demo_content \<and>
   length [0xAA, 0xBB :: u8] \<le> unat (np_data_size (nr_public demo_public)) \<and>
   (\<exists>s'. tpm_write_nv_index demo_nv 0x01400001 [0xAA, 0xBB] [1, 2, 3] = (Inr (), s') \<and>
      tpm_read_nv_index demo_nv 0x01400001 s' = (Inr [0xAA, 0xBB, 3], s'))"
  using nv_write_then_read [OF demo_nv_service [of "0x01400001"], where data = "[0xAA, 0xBB]" and s = "[1, 2, 3]"]
    demo_nv_service [of "0x01400001"]
  by (simp add: demo_public_def demo_content_def)

end
