(* ===== verification/Tpm_Pcr_Facts.thy ===== *)
theory Tpm_Pcr_Facts
  imports Tpm_Command_Facts
begin

text \<open>
  \<open>read_pcrs_for_alg\<close> of \<open>commands.rs\<close>: the bitmap of a selection and the indices read
  back from it, what every successful call returns, and that a TPM which answers each
  request with some of the PCRs asked for ends up giving all of them in order.
\<close>

section \<open>Bitmaps and indices\<close>

lemma selection_of_pcrs:
  assumes "pcrs \<noteq> []"
  shows "\<exists>bm. from_pcrs_with_alg pcrs alg =
      [\<lparr>ps_hash_alg = alg, ps_size_of_select = 3, ps_select = bm\<rparr>] \<and> length bm = 3 \<and>
    (\<forall>i. bitmap_has bm i \<longleftrightarrow> i \<in> unat ` {p \<in> set pcrs. p \<le> 23})"
  using assms by (auto simp: from_pcrs_with_alg_def bitmap_has_foldl)

text \<open>
  The selection for a non-empty list of PCRs has one bank with three
  bytes, and bit \<open>i\<close> is set exactly when the list contains \<open>i\<close> and \<open>i\<close> is at most 23.
\<close>

theorem from_pcrs_bitmap:
  "\<exists>bm. from_pcrs_with_alg (p # ps) alg =
      [\<lparr>ps_hash_alg = alg, ps_size_of_select = 3, ps_select = bm\<rparr>] \<and> length bm = 3 \<and>
    {i. bitmap_has bm i} = unat ` {q \<in> set (p # ps). q \<le> 23}"
  using selection_of_pcrs [of "p # ps" alg] by auto

lemma selected_bits_has:
  "byte < length sel \<Longrightarrow>
     selected_bits sel byte = map of_nat (filter (bitmap_has sel) [byte * 8..<byte * 8 + 8])"
proof -
  assume b: "byte < length sel"
  have "[byte * 8..<byte * 8 + 8] = map (\<lambda>b. byte * 8 + b) [0..<8]"
    by (simp add: upt_rec numeral_eq_Suc)
  moreover have "filter (bitmap_has sel \<circ> (\<lambda>b. byte * 8 + b)) [0..<8] = filter (bit (sel ! byte)) [0..<8]"
    using b by (intro filter_cong) (auto simp: bitmap_has_def)
  ultimately show ?thesis by (simp add: selected_bits_def filter_map comp_def)
qed

lemma selection_indices_has:
  assumes "length bm = 3"
  shows "selection_indices \<lparr>ps_hash_alg = alg, ps_size_of_select = 3, ps_select = bm\<rparr> =
    Inr (map of_nat (filter (bitmap_has bm) [0..<24]))"
proof -
  have "[0..<unat (3 :: u8)] = [0, 1, 2]" by (simp add: upt_rec)
  moreover have "[0..<24] = [0..<8] @ [8..<16] @ [16..<24 :: nat]"
    using upt_add_eq_append [of 0 8 16] upt_add_eq_append [of 8 16 8] by simp
  ultimately show ?thesis using assms by (simp add: selected_bits_has)
qed

lemma unat_image_sorted:
  "sorted ps \<Longrightarrow> distinct ps \<Longrightarrow> sorted (map unat ps) \<and> distinct (map unat (ps :: u32 list))"
  by (auto simp: sorted_map word_le_nat_alt distinct_map inj_on_def word_unat_eq_iff
      elim: sorted_wrt_mono_rel [rotated])

text \<open>The indices read from a selection are the PCRs it was built from.\<close>

lemma returned_indices_of_pcrs:
  assumes "ps \<noteq> []" "sorted ps" "distinct ps" "\<forall>p\<in>set ps. p \<le> 23"
  shows "returned_indices (from_pcrs_with_alg ps alg) = Inr ps"
proof -
  obtain bm where sel: "from_pcrs_with_alg ps alg =
      [\<lparr>ps_hash_alg = alg, ps_size_of_select = 3, ps_select = bm\<rparr>]" and l: "length bm = 3"
    and has: "\<And>i. bitmap_has bm i \<longleftrightarrow> i \<in> unat ` {p \<in> set ps. p \<le> 23}"
    using selection_of_pcrs [OF assms(1), of alg] by blast
  have "unat p < 24" if "p \<in> set ps" for p
    using assms(4) that by (auto simp: word_le_nat_alt)
  then have "set (filter (bitmap_has bm) [0..<24]) = set (map unat ps)"
    using assms(4) by (auto simp: has)
  then have "filter (bitmap_has bm) [0..<24] = map unat ps"
    using unat_image_sorted [OF assms(2,3)]
    by (intro sorted_distinct_set_unique) (auto intro: sorted_wrt_filter)
  then show ?thesis using l by (simp add: sel selection_indices_has comp_def del: selection_indices.simps)
qed

section \<open>What every successful call returns\<close>

lemma unique_pcrs_Inr:
  "unique_pcrs acc ps = Inr us \<Longrightarrow>
     set us = set acc \<union> set ps \<and> (\<forall>p\<in>set ps. p \<le> 23) \<and> (distinct acc \<longrightarrow> distinct us)"
  by (induction ps arbitrary: acc) (fastforce simp: not_less split: if_splits)+

lemma unique_pcrs_total: "\<forall>p\<in>set ps. p \<le> 23 \<Longrightarrow> \<exists>us. unique_pcrs acc ps = Inr us"
  by (induction ps arbitrary: acc) (auto simp: not_less)

lemma accept_digests_collected:
  "accept_digests alg ps rem col pr = Inr (rem', col', pr') \<Longrightarrow>
     set rem' \<subseteq> set rem \<and> dom col' = dom col \<union> (set rem - set rem') \<and>
     ((\<forall>d\<in>ran col. length d = pcr_digest_len alg) \<longrightarrow> (\<forall>d\<in>ran col'. length d = pcr_digest_len alg))"
proof (induction alg ps rem col pr rule: accept_digests.induct)
  case (2 alg idx digest rest rem col pr)
  show ?case
  proof (cases "idx \<in> set rem")
    case True
    from "2.prems" True have size: "length digest = pcr_digest_len alg"
      and next_step: "accept_digests alg rest (removeAll idx rem) (col(idx \<mapsto> digest)) True =
        Inr (rem', col', pr')"
      by (simp_all split: if_splits)
    have "set rem' \<subseteq> set (removeAll idx rem)"
      using accept_digests_remaining [OF next_step] by blast
    moreover have "ran (col(idx \<mapsto> digest)) \<subseteq> insert digest (ran col)"
      by (auto simp: ran_def)
    moreover note "2.IH"(1) [OF True _ next_step]
    ultimately show ?thesis using size True by (auto simp del: fun_upd_apply)
  next
    case False
    with 2 show ?thesis by simp
  qed
qed simp

lemma pcr_read_round_collected:
  assumes "pcr_read_round tr alg rem col s = (Inr (rem', col'), s')"
  shows "set rem' \<subseteq> set rem \<and> dom col' = dom col \<union> (set rem - set rem') \<and>
     ((\<forall>d\<in>ran col. length d = pcr_digest_len alg) \<longrightarrow> (\<forall>d\<in>ran col'. length d = pcr_digest_len alg))"
  using assms
  by (auto simp: pcr_read_round_def run_command_def require_14_def st_then_eq_Inr and_then_eq_Inr
      Let_def split: if_splits dest!: accept_digests_collected)

lemma pcr_read_loop_collected:
  "pcr_read_loop tr alg rem col s = (Inr col', s') \<Longrightarrow>
     dom col' = dom col \<union> set rem \<and>
     ((\<forall>d\<in>ran col. length d = pcr_digest_len alg) \<longrightarrow> (\<forall>d\<in>ran col'. length d = pcr_digest_len alg))"
proof (induction tr alg rem col s arbitrary: col' s' rule: pcr_read_loop.induct)
  case (1 tr alg rem col s)
  show ?case
  proof (cases "rem = []")
    case True
    with "1.prems" show ?thesis by (simp add: pcr_read_loop.simps [of tr alg "[]"])
  next
    case False
    have unfold: "(case pcr_read_round tr alg rem col s of
          (Inl e, s') \<Rightarrow> (Inl e, s')
        | (Inr (remaining', collected'), s') \<Rightarrow> pcr_read_loop tr alg remaining' collected' s') = (Inr col', s')"
      using "1.prems" False by (simp only: pcr_read_loop.simps [of tr alg rem col s] if_False)
    obtain rem1 col1 s1
      where r: "pcr_read_round tr alg rem col s = (Inr (rem1, col1), s1)"
        and l: "pcr_read_loop tr alg rem1 col1 s1 = (Inr col', s')"
      using unfold by (simp split: prod.splits sum.splits)
    note ih = "1.IH" [OF False r [symmetric] refl refl l] and rd = pcr_read_round_collected [OF r]
    have "dom col' = dom col \<union> set rem" using ih rd by blast
    moreover have "(\<forall>d\<in>ran col. length d = pcr_digest_len alg) \<longrightarrow>
        (\<forall>d\<in>ran col'. length d = pcr_digest_len alg)"
      using ih rd by (elim conjE) (rule impI, drule mp, assumption, erule mp)
    ultimately show ?thesis by (rule conjI)
  qed
qed

lemma pcr_output_Inr:
  "pcr_output col ps = Inr out \<Longrightarrow> map fst out = ps \<and> (\<forall>(p, d)\<in>set out. col p = Some d)"
  by (induction ps arbitrary: out) (auto simp: and_then_eq_Inr split: option.splits)

lemma pcr_output_dom:
  "set ps \<subseteq> dom col \<Longrightarrow> pcr_output col ps = Inr (map (\<lambda>p. (p, the (col p))) ps)"
  by (induction ps) auto

lemma read_pcrs_Inr:
  assumes "tpm_read_pcrs_for_alg tr alg pcrs s = (Inr out, s')"
  shows "map fst out = pcrs \<and> list_all (\<lambda>(p, d). p \<le> 23 \<and> length d = pcr_digest_len alg) out"
proof (cases "pcrs = []")
  case True
  with assms show ?thesis by (simp add: tpm_read_pcrs_for_alg_def)
next
  case False
  with assms obtain us col s1 where u: "unique_pcrs [] pcrs = Inr us"
    and l: "pcr_read_loop tr alg (sort us) Map.empty s = (Inr col, s1)" and o: "pcr_output col pcrs = Inr out"
    by (auto simp: tpm_read_pcrs_for_alg_def st_then_eq_Inr)
  from pcr_read_loop_collected [OF l] have "\<forall>d\<in>ran col. length d = pcr_digest_len alg" by simp
  then have d: "col p = Some d \<Longrightarrow> length d = pcr_digest_len alg" for p d by (auto intro: ranI)
  have p: "p \<le> 23" if "(p, d) \<in> set out" for p d
  proof -
    have "p \<in> set pcrs" using that pcr_output_Inr [OF o] by force
    then show ?thesis using unique_pcrs_Inr [OF u] by blast
  qed
  have c: "col p = Some d" if "(p, d) \<in> set out" for p d
    using that pcr_output_Inr [OF o] by blast
  have "length d = pcr_digest_len alg" if "(p, d) \<in> set out" for p d
    by (rule d [OF c [OF that]])
  with p have "list_all (\<lambda>(p, d). p \<le> 23 \<and> length d = pcr_digest_len alg) out"
    by (auto simp: list_all_iff)
  then show ?thesis using pcr_output_Inr [OF o] by blast
qed

text \<open>After a completed loop every requested PCR is there: the final lookup cannot fail.\<close>

lemma read_pcrs_lookup_total:
  assumes "unique_pcrs [] pcrs = Inr us"
    and "pcr_read_loop tr alg (sort us) Map.empty s = (Inr col, s')"
  shows "pcr_output col pcrs = Inr (map (\<lambda>p. (p, the (col p))) pcrs)"
  using pcr_read_loop_collected [OF assms(2)] unique_pcrs_Inr [OF assms(1)]
  by (intro pcr_output_dom) auto

section \<open>A TPM that answers part of each request\<close>

definition pcr_read_request :: "pcr_algorithm \<Rightarrow> u32 list \<Rightarrow> bytes" where
  "pcr_read_request alg wanted =
     plain_command PcrRead [] (pcr_selection_list_wire (from_pcrs_with_alg wanted (pcr_to_alg_id alg)))"

definition pcr_read_answer :: "pcr_algorithm \<Rightarrow> (u32 \<Rightarrow> bytes) \<Rightarrow> u32 \<Rightarrow> u32 list \<Rightarrow> pcr_read_response_parameters" where
  "pcr_read_answer alg bank counter part =
     \<lparr>prp_update_counter = counter, prp_selections = from_pcrs_with_alg part (pcr_to_alg_id alg),
      prp_digests = map bank part\<rparr>"

text \<open>
  \<open>TPM2_PCR_Read\<close> returns at most eight digests per call. All that is asked of the TPM
  here: the answer is for a non-empty part of the request, with the bank's values.
\<close>

definition pcr_service :: "'s transport \<Rightarrow> pcr_algorithm \<Rightarrow> (u32 \<Rightarrow> bytes) \<Rightarrow> bool" where
  "pcr_service tr alg bank \<longleftrightarrow>
     (\<forall>p. length (bank p) = pcr_digest_len alg) \<and>
     (\<forall>wanted s. wanted \<noteq> [] \<longrightarrow> sorted wanted \<longrightarrow> distinct wanted \<longrightarrow> (\<forall>p\<in>set wanted. p \<le> 23) \<longrightarrow>
        (\<exists>part counter s'. part \<noteq> [] \<and> sorted part \<and> distinct part \<and> set part \<subseteq> set wanted \<and>
           tr (pcr_read_request alg wanted) s =
             (Inr (plain_response 0 (pcr_read_parameters_wire (pcr_read_answer alg bank counter part))), s')))"

lemma accept_digests_bank:
  "set part \<subseteq> set rem \<Longrightarrow> distinct part \<Longrightarrow> (\<forall>p. length (bank p) = pcr_digest_len alg) \<Longrightarrow>
     accept_digests alg (zip part (map bank part)) rem col pr =
       Inr (filter (\<lambda>x. x \<notin> set part) rem, \<lambda>x. if x \<in> set part then Some (bank x) else col x,
            part \<noteq> [] \<or> pr)"
proof (induction part arbitrary: rem col pr)
  case (Cons p part)
  have "set part \<subseteq> set (removeAll p rem)" "p \<in> set rem" "p \<notin> set part"
    using Cons.prems by auto
  moreover have "filter (\<lambda>x. x \<notin> set part) (removeAll p rem) = filter (\<lambda>x. x \<notin> set (p # part)) rem"
    by (induction rem) auto
  moreover have "(\<lambda>x. if x \<in> set part then Some (bank x) else (col(p \<mapsto> bank p)) x) =
      (\<lambda>x. if x \<in> set (p # part) then Some (bank x) else col x)" by auto
  ultimately show ?case
    using Cons.IH [of "removeAll p rem" "col(p \<mapsto> bank p)" True] Cons.prems
    by (simp del: fun_upd_apply)
qed simp

lemma pcr_digest_len_bound: "pcr_digest_len alg < 65536"
  by (cases alg) auto

lemma length_concat_bound: "\<forall>x\<in>set xs. length (f x) \<le> n \<Longrightarrow> length (concat (map f xs)) \<le> n * length xs"
  by (induction xs) auto

lemma distinct_pcrs_length:
  assumes "distinct ps" "\<forall>p\<in>set ps. p \<le> (23 :: u32)"
  shows "length ps \<le> 24"
proof -
  have "set (map unat ps) \<subseteq> {..<24}" using assms(2) by (auto simp: word_le_nat_alt)
  moreover have "distinct (map unat ps)" using assms(1) by (auto simp: distinct_map inj_on_def word_unat_eq_iff)
  ultimately show ?thesis by (metis card_lessThan card_mono distinct_card finite_lessThan length_map)
qed

lemma pcr_answer_valid:
  assumes "\<forall>p. length (bank p) = pcr_digest_len alg" "distinct part" "\<forall>p\<in>set part. p \<le> 23"
  shows "pcr_read_parameters_valid (pcr_read_answer alg bank counter part)"
    and "10 + length (pcr_read_parameters_wire (pcr_read_answer alg bank counter part)) < 4294967296"
    and "4 \<le> length (pcr_read_parameters_wire (pcr_read_answer alg bank counter part))"
proof -
  have l: "length part \<le> 24" using assms(2,3) by (rule distinct_pcrs_length)
  show "pcr_read_parameters_valid (pcr_read_answer alg bank counter part)"
    using l pcr_digest_len_bound [of alg] assms(1)
    by (simp add: pcr_read_parameters_valid_def pcr_read_answer_def digest_list_valid_def fits_u16_def)
  have "length (pcr_selection_list_wire (from_pcrs_with_alg part (pcr_to_alg_id alg))) \<le> 10"
    by (simp add: pcr_selection_list_wire_def from_pcrs_with_alg_def pcr_selection_wire_def)
  moreover have "length (concat (map sized_marshal (map bank part))) \<le> 65538 * length (map bank part)"
    using assms(1) pcr_digest_len_bound [of alg] by (intro length_concat_bound) auto
  then have "length (digest_list_wire (map bank part)) \<le> 4 + 65538 * 24"
    using l by (simp add: digest_list_wire_def)
  ultimately show "10 + length (pcr_read_parameters_wire (pcr_read_answer alg bank counter part)) < 4294967296"
    "4 \<le> length (pcr_read_parameters_wire (pcr_read_answer alg bank counter part))"
    by (simp_all add: pcr_read_parameters_wire_def pcr_read_answer_def)
qed

lemma pcr_service_round:
  assumes "pcr_service tr alg bank" "wanted \<noteq> []" "sorted wanted" "distinct wanted" "\<forall>p\<in>set wanted. p \<le> 23"
  shows "\<exists>part s'. part \<noteq> [] \<and> set part \<subseteq> set wanted \<and>
    pcr_read_round tr alg wanted col s =
      (Inr (filter (\<lambda>x. x \<notin> set part) wanted, \<lambda>x. if x \<in> set part then Some (bank x) else col x), s')"
proof -
  have bank: "\<forall>p. length (bank p) = pcr_digest_len alg"
    using assms(1) by (simp add: pcr_service_def)
  obtain part counter s' where part: "part \<noteq> []" "sorted part" "distinct part" "set part \<subseteq> set wanted"
    and t: "tr (pcr_read_request alg wanted) s =
      (Inr (plain_response 0 (pcr_read_parameters_wire (pcr_read_answer alg bank counter part))), s')"
    using assms unfolding pcr_service_def by blast
  let ?a = "pcr_read_answer alg bank counter part"
  have le: "\<forall>p\<in>set part. p \<le> 23" using part(4) assms(5) by blast
  note valid = pcr_answer_valid [OF bank part(3) le, of counter]
  obtain h where parse: "pcr_read_response_from_bytes (plain_response 0 (pcr_read_parameters_wire ?a)) =
      Inr \<lparr>resp_header = h, resp_parameters = ?a\<rparr>"
    using pcr_read_codec.checked_response_plain [OF valid(1,2)]
    unfolding pcr_read_response_from_bytes_def by blast
  have cmd: "and_then (pcr_read_marshal (cmd_parameters (pcr_read_new (from_pcrs_with_alg wanted (pcr_to_alg_id alg)))))
      (\<lambda>params. build_command_no_sessions PcrRead
        (cmd_handles (pcr_read_new (from_pcrs_with_alg wanted (pcr_to_alg_id alg)))) params) =
      Inr (pcr_read_request alg wanted)"
    by (simp add: pcr_read_request_def pcr_read_new_def command_no_sessions_def pcr_read_marshal_def)
  note reply = run_command_reply [where tr = tr and s = s, OF t plain_response_ok [OF valid(2), of PcrRead]]
  have "pcr_read_round tr alg wanted col s =
      (Inr (filter (\<lambda>x. x \<notin> set part) wanted, \<lambda>x. if x \<in> set part then Some (bank x) else col x), s')"
    unfolding pcr_read_round_def Let_def cmd
    using parse valid(3) part returned_indices_of_pcrs [OF part(1,2,3) le]
      accept_digests_bank [OF part(4,3) bank]
    by (simp add: reply require_14_def
        pcr_read_answer_def)
  with part show ?thesis by blast
qed

lemma pcr_service_loop:
  assumes "pcr_service tr alg bank" "sorted wanted" "distinct wanted" "\<forall>p\<in>set wanted. p \<le> 23"
  shows "\<exists>s'. pcr_read_loop tr alg wanted col s =
    (Inr (\<lambda>x. if x \<in> set wanted then Some (bank x) else col x), s')"
  using assms(2-)
proof (induction "length wanted" arbitrary: wanted col s rule: less_induct)
  case less
  show ?case
  proof (cases "wanted = []")
    case True
    then show ?thesis by (simp add: pcr_read_loop.simps [of tr alg "[]"])
  next
    case False
    obtain part s1 where p: "part \<noteq> []" "set part \<subseteq> set wanted" and r: "pcr_read_round tr alg wanted col s =
        (Inr (filter (\<lambda>x. x \<notin> set part) wanted, \<lambda>x. if x \<in> set part then Some (bank x) else col x), s1)"
      using pcr_service_round [OF assms(1) False less.prems] by blast
    let ?rest = "filter (\<lambda>x. x \<notin> set part) wanted"
    obtain s2 where l: "pcr_read_loop tr alg ?rest (\<lambda>x. if x \<in> set part then Some (bank x) else col x) s1 =
        (Inr (\<lambda>x. if x \<in> set ?rest then Some (bank x) else if x \<in> set part then Some (bank x) else col x), s2)"
      using less.hyps [of ?rest "\<lambda>x. if x \<in> set part then Some (bank x) else col x" s1]
        pcr_read_round_progress [OF r] less.prems
      by (auto simp: sorted_wrt_filter)
    have "(\<lambda>x. if x \<in> set ?rest then Some (bank x) else if x \<in> set part then Some (bank x) else col x) =
        (\<lambda>x. if x \<in> set wanted then Some (bank x) else col x)"
      using p(2) by (auto simp: fun_eq_iff)
    with False r l show ?thesis by (simp add: pcr_read_loop.simps [of tr alg wanted])
  qed
qed

lemma service_reads:
  assumes "pcr_service tr alg bank" "list_all (\<lambda>p. p \<le> 23) pcrs"
  shows "\<exists>s'. tpm_read_pcrs_for_alg tr alg pcrs s = (Inr (map (\<lambda>p. (p, bank p)) pcrs), s')"
proof -
  have le: "\<forall>p\<in>set pcrs. p \<le> 23" using assms(2) by (simp add: list_all_iff)
  obtain us where u: "unique_pcrs [] pcrs = Inr us" using unique_pcrs_total [OF le] by blast
  from unique_pcrs_Inr [OF u] le have us: "set us = set pcrs" "distinct us" by auto
  obtain s' where l: "pcr_read_loop tr alg (sort us) Map.empty s =
      (Inr (\<lambda>x. if x \<in> set pcrs then Some (bank x) else None), s')"
    using pcr_service_loop [OF assms(1), of "sort us" Map.empty s] us le by auto
  have "pcr_output (\<lambda>x. if x \<in> set pcrs then Some (bank x) else None) pcrs = Inr (map (\<lambda>p. (p, bank p)) pcrs)"
    by (subst pcr_output_dom) auto
  with u l show ?thesis by (simp add: tpm_read_pcrs_for_alg_def st_then_def)
qed

text \<open>
  C2. Over a TPM that answers every \<open>PCR_Read\<close> with a non-empty part
  of the PCRs asked for, the call succeeds for every list of indices up to 23, with
  duplicates and in any order: it returns the bank's value for each entry of the list,
  in the list's order.
\<close>

theorem read_pcrs_from_bank:
  assumes "pcr_service tr alg bank" "list_all (\<lambda>p. p \<le> 23) pcrs"
  shows "\<exists>s'. tpm_read_pcrs_for_alg tr alg pcrs s = (Inr (map (\<lambda>p. (p, bank p)) pcrs), s')"
  using assms by (rule service_reads)

text \<open>A device that answers the first eight PCRs of each request.\<close>

definition pcr_device :: "pcr_algorithm \<Rightarrow> (u32 \<Rightarrow> bytes) \<Rightarrow> nat transport" where
  "pcr_device alg bank cmd s =
     (and_then (pcr_selection_list_unmarshal cmd 10) (\<lambda>(sel, _).
      and_then (returned_indices sel) (\<lambda>indices.
      Inr (plain_response 0 (pcr_read_parameters_wire (pcr_read_answer alg bank 0 (take 8 indices)))))),
      s + 1)"

lemma pcr_device_service:
  assumes "\<And>p. length (bank p) = pcr_digest_len alg"
  shows "pcr_service (pcr_device alg bank) alg bank"
proof -
  have "pcr_device alg bank (pcr_read_request alg wanted) s =
      (Inr (plain_response 0 (pcr_read_parameters_wire (pcr_read_answer alg bank 0 (take 8 wanted)))), s + 1)"
    if "wanted \<noteq> []" "sorted wanted" "distinct wanted" "\<forall>p\<in>set wanted. p \<le> 23" for wanted s
  proof -
    have "occurs_at (pcr_read_request alg wanted) 10
        (pcr_selection_list_wire (from_pcrs_with_alg wanted (pcr_to_alg_id alg)))"
      using occurs_at_whole [of "pcr_read_request alg wanted"]
      by (simp add: pcr_read_request_def plain_command_def command_frame_def handle_area_def eval_nat_numeral)
    then show ?thesis
      using returned_indices_of_pcrs [OF that] by (simp add: pcr_device_def)
  qed
  moreover have "take 8 wanted \<noteq> [] \<and> sorted (take 8 wanted) \<and> distinct (take 8 wanted) \<and>
      set (take 8 wanted) \<subseteq> set wanted"
    if "wanted \<noteq> []" "sorted wanted" "distinct wanted" for wanted :: "u32 list"
    using that by (auto simp: sorted_wrt_take dest: in_set_takeD)
  ultimately show ?thesis using assms unfolding pcr_service_def by blast
qed

definition demo_bank :: "u32 \<Rightarrow> bytes" where
  "demo_bank p = replicate 32 (ucast p)"

lemma demo_bank_service: "pcr_service (pcr_device Pcr_Sha256 demo_bank) Pcr_Sha256 demo_bank"
  by (rule pcr_device_service) (simp add: demo_bank_def)

theorem read_pcrs_from_bank_witness:
  "pcr_service (pcr_device Pcr_Sha256 demo_bank) Pcr_Sha256 demo_bank \<and>
   list_all (\<lambda>p. p \<le> (23 :: u32)) [7, 0, 7] \<and>
   (\<exists>s'. tpm_read_pcrs_for_alg (pcr_device Pcr_Sha256 demo_bank) Pcr_Sha256 [7, 0, 7] 0 =
      (Inr [(7, replicate 32 7), (0, replicate 32 0), (7, replicate 32 7)], s'))"
  using read_pcrs_from_bank [OF demo_bank_service, of "[7, 0, 7]" 0] demo_bank_service
  by (simp add: demo_bank_def)

text \<open>
  Whatever the TPM answers, a successful call returns one entry
  per requested index, in the caller's order and with its duplicates, each with a digest
  of the bank's length, and no index above 23 was asked for.
\<close>

theorem read_pcrs_result_shape:
  assumes "tpm_read_pcrs_for_alg tr alg pcrs s = (Inr out, s')"
  shows "map fst out = pcrs \<and> list_all (\<lambda>(p, d). p \<le> 23 \<and> length d = pcr_digest_len alg) out"
  using assms by (rule read_pcrs_Inr)

lemma demo_bank_read:
  "\<exists>s'. tpm_read_pcrs_for_alg (pcr_device Pcr_Sha256 demo_bank) Pcr_Sha256 [7] 0 =
     (Inr [(7, replicate 32 7)], s')"
proof -
  have l: "pcr_service (pcr_device Pcr_Sha256 demo_bank) Pcr_Sha256 demo_bank" by (rule demo_bank_service)
  obtain s' where "pcr_read_loop (pcr_device Pcr_Sha256 demo_bank) Pcr_Sha256 [7] Map.empty 0 =
      (Inr (\<lambda>x. if x \<in> set [7] then Some (demo_bank x) else None), s')"
    using pcr_service_loop [OF l, of "[7]" Map.empty 0] by auto
  then show ?thesis by (simp add: tpm_read_pcrs_for_alg_def st_then_def demo_bank_def)
qed

theorem read_pcrs_result_shape_witness:
  "\<exists>out s'. tpm_read_pcrs_for_alg (pcr_device Pcr_Sha256 demo_bank) Pcr_Sha256 [7] 0 = (Inr out, s') \<and>
     map fst out = [7] \<and> list_all (\<lambda>(p, d). p \<le> 23 \<and> length d = pcr_digest_len Pcr_Sha256) out"
proof -
  obtain s' where r: "tpm_read_pcrs_for_alg (pcr_device Pcr_Sha256 demo_bank) Pcr_Sha256 [7] 0 =
      (Inr [(7, replicate 32 7)], s')"
    using demo_bank_read by blast
  from r read_pcrs_result_shape [OF r] show ?thesis by (intro exI conjI) auto
qed

end
