(* ===== verification/Tpm_Session_Facts.thy ===== *)
theory Tpm_Session_Facts
  imports Tpm_Nv_Facts Tpm_Pcr_Facts
begin

text \<open>
  Sessions of \<open>commands.rs\<close> and what reaches the device: a recording transport shows
  that policy sessions are flushed on every path, and the commands the operations build
  pass the checks of \<open>Tpm::transmit\<close>.
\<close>

section \<open>Recording the commands\<close>

definition recording :: "'s transport \<Rightarrow> ('s \<times> bytes list) transport" where
  "recording tr cmd st = (case tr cmd (fst st) of (r, s') \<Rightarrow> (r, (s', snd st @ [cmd])))"

definition lift_random :: "'s random \<Rightarrow> ('s \<times> bytes list) random" where
  "lift_random rnd n st = (case rnd n (fst st) of (r, s') \<Rightarrow> (r, (s', snd st)))"

lemma fst_recording [simp]: "fst (recording tr cmd st) = fst (tr cmd (fst st))"
  by (simp add: recording_def split: prod.split)

lemma fst_lift_random [simp]: "fst (lift_random rnd n st) = fst (rnd n (fst st))"
  by (simp add: lift_random_def split: prod.split)

context panic_free_transport begin

lemma recording_panic_free: "panic_free_transport (recording transmit_raw)"
  by unfold_locales (simp add: transport_no_panic)

end

definition flush_request :: "u32 \<Rightarrow> bytes" where
  "flush_request h = plain_command FlushContext [h] []"

lemma flush_recorded:
  "snd (snd (tpm_flush_context (recording tr) h st)) = snd st @ [flush_request h]"
  by (auto simp: tpm_flush_context_def flush_context_new_def command_no_sessions_def Let_def
      run_command_def exchange_def st_then_def recording_def flush_request_def
      no_parameters_marshal_def split: prod.splits sum.splits)

text \<open>The closure's result is returned unchanged and the flush is the last command sent.\<close>

lemma with_flushed_session_outcome:
  assumes "fst (body st) \<noteq> Inl Panic" "\<And>st. fst (tpm_flush_context tr h st) \<noteq> Inl Panic"
  shows "with_flushed_session tr h body st =
    (fst (body st), snd (tpm_flush_context tr h (snd (body st))))"
proof -
  obtain r st1 where b: "body st = (r, st1)" by (cases "body st")
  obtain f st2 where fl: "tpm_flush_context tr h st1 = (f, st2)" by (cases "tpm_flush_context tr h st1")
  have "st_catch body st = (Inr r, st1)"
    using assms(1) b by (auto simp: st_catch_def split: sum.splits fault.splits)
  moreover have "st_ignore (tpm_flush_context tr h) st1 = (Inr (), st2)"
    using assms(2) [of st1] fl by (auto simp: st_ignore_def split: sum.splits fault.splits)
  ultimately show ?thesis using b fl by (simp add: with_flushed_session_def)
qed

context panic_free_transport begin

lemma flush_is_last:
  assumes "fst (body st) \<noteq> Inl Panic"
  shows "\<exists>pre. snd (snd (with_flushed_session (recording transmit_raw) h body st)) = pre @ [flush_request h]"
    and "fst (with_flushed_session (recording transmit_raw) h body st) = fst (body st)"
proof -
  have f: "fst (tpm_flush_context (recording transmit_raw) h st) \<noteq> Inl Panic" for st
    by (rule panic_free_transport.key_ops_no_panic(4) [OF recording_panic_free])
  note out = with_flushed_session_outcome [where tr = "recording transmit_raw" and h = h and body = body and st = st, OF assms f]
  show "\<exists>pre. snd (snd (with_flushed_session (recording transmit_raw) h body st)) = pre @ [flush_request h]"
    "fst (with_flushed_session (recording transmit_raw) h body st) = fst (body st)"
    by (simp_all add: out flush_recorded)
qed

lemmas recorded_bodies_no_panic =
  panic_free_transport.session_bodies_no_panic [OF recording_panic_free]

lemma policy_digest_flushes:
  assumes "tpm_start_auth_session rnd (recording transmit_raw) TPM_SE_TRIAL (alg_id_u16 Alg_Sha256) st = (Inr h, st1)"
  shows "\<exists>pre. snd (snd (tpm_compute_pcr_policy_digest rnd sha (recording transmit_raw) pcrs st)) =
    pre @ [flush_request h]"
  using flush_is_last(1) [OF recorded_bodies_no_panic(1)] assms
  by (simp add: tpm_compute_pcr_policy_digest_def)

lemma rsa_decrypt_flushes:
  assumes "tpm_start_auth_session rnd (recording transmit_raw) TPM_SE_POLICY (alg_id_u16 Alg_Sha256) st = (Inr h, st1)"
    and "length (trim_ciphertext ct) \<le> 512" "pcrs \<noteq> []"
  shows "\<exists>pre. snd (snd (tpm_rsa_decrypt rnd sha (recording transmit_raw) key pcrs ct scheme st)) =
    pre @ [flush_request h]"
proof -
  have keep: "snd (snd (st_then m (\<lambda>resp. st_then (st_res (f resp)) (\<lambda>_. st_res (g resp))) s)) = snd (snd (m s))"
    for m :: "('s \<times> bytes list, io_error, bytes) st" and f :: "bytes \<Rightarrow> unit io_res"
      and g :: "bytes \<Rightarrow> bytes io_res" and s
    by (simp add: st_then_def split: prod.split sum.split)
  show ?thesis
    using flush_is_last(1) [OF recorded_bodies_no_panic(2)] assms
    by (simp add: tpm_rsa_decrypt_def Let_def keep)
qed

end

text \<open>
  C3. Whenever the session of \<open>compute_pcr_policy_digest\<close> or of a
  policy-authorized \<open>rsa_decrypt\<close> was started, flushing it is the last command sent,
  whatever the PCR reads, the policy command and the decryption returned.
\<close>

theorem sessions_are_flushed:
  assumes "panic_free_transport tr"
    and "tpm_start_auth_session rnd (recording tr) TPM_SE_TRIAL (alg_id_u16 Alg_Sha256) st = (Inr h, st1)"
    and "tpm_start_auth_session rnd (recording tr) TPM_SE_POLICY (alg_id_u16 Alg_Sha256) st = (Inr k, st2)"
    and "length (trim_ciphertext ct) \<le> 512" "pcrs \<noteq> []"
  shows "(\<exists>pre. snd (snd (tpm_compute_pcr_policy_digest rnd sha (recording tr) pcrs st)) = pre @ [flush_request h]) \<and>
    (\<exists>pre. snd (snd (tpm_rsa_decrypt rnd sha (recording tr) key pcrs ct scheme st)) = pre @ [flush_request k])"
  using panic_free_transport.policy_digest_flushes [OF assms(1,2)]
    panic_free_transport.rsa_decrypt_flushes [OF assms(1,3-5)] by blast

text \<open>A device that answers every command with the same session handle.\<close>

definition demo_session_device :: "unit transport" where
  "demo_session_device cmd s =
     (Inr (plain_response 0 (u32_marshal 0x03000000 @ tpm2b_bytes_marshal [])), s)"

definition demo_random :: "'s random" where
  "demo_random n s = (Inr (replicate n 7), s)"

lemma demo_session_start:
  "\<exists>st1. tpm_start_auth_session demo_random (recording demo_session_device) t a ((), []) = (Inr 0x03000000, st1)"
proof -
  let ?r = "plain_response 0 (u32_marshal 0x03000000 @ tpm2b_bytes_marshal [])"
  have "case start_auth_session_response_from_bytes ?r of Inr x \<Rightarrow> resp_handle x = 0x03000000 | Inl _ \<Rightarrow> False"
    by code_simp
  then have "\<exists>x. start_auth_session_response_from_bytes ?r = Inr x \<and> resp_handle x = 0x03000000"
    by (simp split: sum.splits)
  moreover have "parse_tpm_rc_with_cmd ?r StartAuthSession = Inr ()"
    by (rule plain_response_ok) simp
  ultimately show ?thesis
    by (auto simp: tpm_start_auth_session_def demo_random_def run_command_def exchange_def st_then_def
        recording_def demo_session_device_def require_14_def Let_def split: prod.splits sum.splits)
qed

theorem sessions_are_flushed_witness:
  "\<exists>pre pre'. snd (snd (tpm_compute_pcr_policy_digest demo_random id (recording demo_session_device) [0] ((), []))) =
      pre @ [flush_request 0x03000000] \<and>
    snd (snd (tpm_rsa_decrypt demo_random id (recording demo_session_device) 0x81000001 [0] [1, 2] Rsaes ((), []))) =
      pre' @ [flush_request 0x03000000]"
proof -
  have free: "panic_free_transport demo_session_device"
    by unfold_locales (simp add: demo_session_device_def)
  obtain a b where "tpm_start_auth_session demo_random (recording demo_session_device) TPM_SE_TRIAL
      (alg_id_u16 Alg_Sha256) ((), []) = (Inr 0x03000000, a)"
    "tpm_start_auth_session demo_random (recording demo_session_device) TPM_SE_POLICY
      (alg_id_u16 Alg_Sha256) ((), []) = (Inr 0x03000000, b)"
    using demo_session_start by blast
  from sessions_are_flushed [OF free this, of "[1, 2]" "[0]" id "0x81000001" Rsaes]
  show ?thesis by (simp add: trim_ciphertext_def)
qed

section \<open>The size checks of \<open>transmit\<close>\<close>

definition accepted :: "bytes \<Rightarrow> bool" where
  "accepted cmd \<longleftrightarrow> well_framed cmd \<and> length cmd \<le> MAX_COMMAND_SIZE"

lemma accepted_pw_command:
  "23 + 4 * length hs + length params \<le> 65536 \<Longrightarrow> accepted (pw_command code hs params)"
  using well_framed_command_frame [of "handle_area hs @ auth_area [pw_entry []] @ params" TPM_ST_SESSIONS code]
  by (simp add: accepted_def MAX_COMMAND_SIZE_def)
    (simp add: pw_command_def length_auth_area pw_entry_def)

lemma accepted_plain_command:
  "10 + 4 * length hs + length params \<le> 65536 \<Longrightarrow> accepted (plain_command code hs params)"
  using well_framed_command_frame [of "handle_area hs @ params" TPM_ST_NO_SESSIONS code]
  by (simp add: accepted_def MAX_COMMAND_SIZE_def) (simp add: plain_command_def)

lemma tpm_transmit_accepted: "accepted cmd \<Longrightarrow> tpm_transmit dev cmd = inner_transmit dev cmd"
  by (rule ext) (simp add: tpm_transmit_cases accepted_def)

lemma run_command_accepted:
  "accepted cmd \<Longrightarrow> run_command (tpm_transmit dev) cc (Inr cmd) f = run_command (inner_transmit dev) cc (Inr cmd) f"
  by (simp add: run_command_def exchange_def tpm_transmit_accepted st_res_def [abs_def] st_then_def [abs_def])

lemma run_pw_sessions_accepted:
  assumes "14 + auth_bytes auths + 4 * length hs + length params \<le> 65536"
  shows "run_command (tpm_transmit dev) cc (build_command_pw_sessions code hs auths params) f =
    run_command (inner_transmit dev) cc (build_command_pw_sessions code hs auths params) f"
proof -
  let ?body = "handle_area hs @ auth_area (map pw_entry auths) @ params"
  have l: "length ?body = 4 + auth_bytes auths + 4 * length hs + length params"
    by (simp add: length_auth_area pw_entry_def comp_def)
  have "accepted (command_frame TPM_ST_SESSIONS code ?body)"
    using assms l well_framed_command_frame [of ?body TPM_ST_SESSIONS code]
    by (simp add: accepted_def MAX_COMMAND_SIZE_def del: length_append)
  with assms show ?thesis
    by (simp add: build_command_pw_sessions_frame run_command_accepted)
qed

lemma length_selection_wire: "length (pcr_selection_list_wire (from_pcrs_with_alg ps alg)) \<le> 10"
  by (simp add: pcr_selection_list_wire_def from_pcrs_with_alg_def pcr_selection_wire_def)

lemmas accepted_simps = run_command_accepted run_pw_sessions_accepted accepted_pw_command accepted_plain_command Let_def
  request_defs no_parameters_marshal_def length_selection_wire

lemma nv_ops_accepted:
  "tpm_nv_read_public (tpm_transmit dev) i = tpm_nv_read_public (inner_transmit dev) i"
  "nv_read_chunk (tpm_transmit dev) i n off = nv_read_chunk (inner_transmit dev) i n off"
  "length part \<le> 1024 \<Longrightarrow> nv_write_chunk (tpm_transmit dev) i part off = nv_write_chunk (inner_transmit dev) i part off"
  "tpm_nv_undefine_space (tpm_transmit dev) i = tpm_nv_undefine_space (inner_transmit dev) i"
  "tpm_nv_extend (tpm_transmit dev) i data = tpm_nv_extend (inner_transmit dev) i data"
  "tpm_nv_certify (tpm_transmit dev) i key q sz o' = tpm_nv_certify (inner_transmit dev) i key q sz o'"
  by (simp_all add: tpm_nv_read_public_def nv_read_chunk_def nv_write_chunk_def tpm_nv_undefine_space_def
      tpm_nv_extend_def tpm_nv_certify_def nv_read_public_marshal_def nv_read_marshal_def
      nv_write_marshal_def nv_extend_marshal_def nv_certify_marshal_def accepted_simps)

lemma key_ops_accepted:
  "tpm_read_public (tpm_transmit dev) h = tpm_read_public (inner_transmit dev) h"
  "tpm_flush_context (tpm_transmit dev) h = tpm_flush_context (inner_transmit dev) h"
  "tpm_evict_control (tpm_transmit dev) h h' = tpm_evict_control (inner_transmit dev) h h'"
  "tpm_certify_with_key (tpm_transmit dev) h h' = tpm_certify_with_key (inner_transmit dev) h h'"
  by (simp_all add: tpm_read_public_def tpm_flush_context_def tpm_evict_control_def
      tpm_certify_with_key_def evict_control_marshal_def certify_marshal_def accepted_simps)

lemma length_from_pcrs_wire: "length (pcr_selection_list_wire (from_pcrs ps)) \<le> 10"
  by (simp add: from_pcrs_def length_selection_wire)

lemma quote_accepted:
  "tpm_quote_with_key (tpm_transmit dev) h pcrs = tpm_quote_with_key (inner_transmit dev) h pcrs"
proof -
  have "8 + length (pcr_selection_list_wire (from_pcrs pcrs)) \<le> 65000"
    using length_from_pcrs_wire [of pcrs] by simp
  then show ?thesis
    by (simp add: tpm_quote_with_key_def quote_marshal_def accepted_simps)
qed

lemma pcr_round_accepted:
  "pcr_read_round (tpm_transmit dev) alg wanted col = pcr_read_round (inner_transmit dev) alg wanted col"
proof -
  have "length (pcr_selection_list_wire (from_pcrs_with_alg wanted (pcr_to_alg_id alg))) \<le> 65000"
    using length_selection_wire [of wanted "pcr_to_alg_id alg"] by simp
  then show ?thesis
    by (simp add: pcr_read_round_def pcr_read_marshal_def accepted_simps)
qed

lemma pcr_loop_accepted:
  "pcr_read_loop (tpm_transmit dev) alg wanted col s = pcr_read_loop (inner_transmit dev) alg wanted col s"
proof (induction tr\<equiv>"tpm_transmit dev" alg wanted col s rule: pcr_read_loop.induct)
  case (1 alg wanted col s)
  then show ?case
    by (simp add: pcr_read_loop.simps [of _ alg wanted col s] pcr_round_accepted
        split: prod.split sum.split)
qed

lemma read_ranges_accepted:
  "read_ranges (tpm_transmit dev) i rs data s = read_ranges (inner_transmit dev) i rs data s"
  by (induction rs arbitrary: data s)
    (auto simp: nv_ops_accepted st_then_def split: prod.split sum.split)

lemma write_ranges_accepted:
  "list_all (\<lambda>(a, k). k \<le> 1024) rs \<Longrightarrow>
     write_ranges (tpm_transmit dev) i data rs s = write_ranges (inner_transmit dev) i data rs s"
  by (induction rs arbitrary: s)
    (auto simp: nv_ops_accepted st_then_def split: prod.split sum.split)

lemma nv_transfers_accepted:
  "tpm_read_nv_index (tpm_transmit dev) i = tpm_read_nv_index (inner_transmit dev) i"
  "tpm_write_nv_index (tpm_transmit dev) i data = tpm_write_nv_index (inner_transmit dev) i data"
proof -
  have b: "list_all (\<lambda>(a, k). k \<le> 1024) (nv_ranges n 0)" for n
    using nv_ranges_bounds by (fastforce simp: list_all_iff)
  show "tpm_read_nv_index (tpm_transmit dev) i = tpm_read_nv_index (inner_transmit dev) i"
    by (rule ext) (simp add: read_nv_index_eq nv_ops_accepted st_then_def read_ranges_accepted
        split: prod.split sum.split)
  show "tpm_write_nv_index (tpm_transmit dev) i data = tpm_write_nv_index (inner_transmit dev) i data"
    by (rule ext)
      (simp add: write_nv_index_chunks nv_ops_accepted st_then_def write_ranges_accepted [OF b]
         split: prod.split sum.split)
qed

text \<open>
  The checks of \<open>Tpm::transmit\<close> on the command's length never
  reject what these operations build: over \<open>Tpm\<close> they behave exactly as over the driver
  behind it, for every NV index, data, key and PCR list. In particular the size field
  of each command is its length and nothing is truncated.
\<close>

theorem transmit_never_rejects:
  "tpm_read_nv_index (tpm_transmit dev) i = tpm_read_nv_index (inner_transmit dev) i \<and>
   tpm_write_nv_index (tpm_transmit dev) i data = tpm_write_nv_index (inner_transmit dev) i data \<and>
   tpm_nv_extend (tpm_transmit dev) i data = tpm_nv_extend (inner_transmit dev) i data \<and>
   tpm_nv_certify (tpm_transmit dev) i key q sz o' = tpm_nv_certify (inner_transmit dev) i key q sz o' \<and>
   tpm_read_pcrs_for_alg (tpm_transmit dev) alg pcrs = tpm_read_pcrs_for_alg (inner_transmit dev) alg pcrs \<and>
   tpm_quote_with_key (tpm_transmit dev) key pcrs = tpm_quote_with_key (inner_transmit dev) key pcrs \<and>
   tpm_certify_with_key (tpm_transmit dev) h key = tpm_certify_with_key (inner_transmit dev) h key \<and>
   tpm_flush_context (tpm_transmit dev) h = tpm_flush_context (inner_transmit dev) h \<and>
   tpm_evict_control (tpm_transmit dev) h key = tpm_evict_control (inner_transmit dev) h key"
proof -
  have "tpm_read_pcrs_for_alg (tpm_transmit dev) alg pcrs = tpm_read_pcrs_for_alg (inner_transmit dev) alg pcrs"
    by (rule ext) (simp add: tpm_read_pcrs_for_alg_def st_then_def pcr_loop_accepted
        split: prod.split sum.split)
  then show ?thesis
    by (simp add: nv_transfers_accepted nv_ops_accepted quote_accepted key_ops_accepted)
qed

section \<open>Absent indices\<close>

lemma and_power_cases: "(w :: u32) AND 2 ^ n = 0 \<or> w AND 2 ^ n = 2 ^ n"
  by (cases "bit w n") (auto intro!: bit_word_eqI simp: bit_simps)

lemma nv_absent_rc_mask: "nv_absent_rc rc \<longleftrightarrow> rc AND 0x1BF = 0x18B"
proof
  assume "nv_absent_rc rc"
  then have "rc AND 0x3F = 0x0B" "rc AND 0x80 = 0x80" "rc AND 0x100 = 0x100"
    using and_power_cases [of rc 7] and_power_cases [of rc 8] by (simp_all add: nv_absent_rc_def)
  moreover have "rc AND 0x1BF = (rc AND 0x3F) OR ((rc AND 0x80) OR (rc AND 0x100))"
    by (simp flip: bit.conj_disj_distrib)
  ultimately show "rc AND 0x1BF = 0x18B" by simp
next
  assume m: "rc AND 0x1BF = 0x18B"
  have "rc AND 0x3F = (rc AND 0x1BF) AND 0x3F" "rc AND 0x80 = (rc AND 0x1BF) AND 0x80"
    "rc AND 0x100 = (rc AND 0x1BF) AND 0x100"
    by (simp_all add: and.assoc)
  then show "nv_absent_rc rc" unfolding m by (simp add: nv_absent_rc_def)
qed

text \<open>
  \<open>find_nv_index\<close> reports the index as absent exactly when
  reading its public area failed with a TPM code of format 1 with the handle bit and base
  0x0B, or with an I/O error of kind \<open>NotFound\<close>; every other outcome is passed on.
\<close>

theorem find_nv_index_outcome:
  "tpm_find_nv_index tr i s =
     (case tpm_nv_read_public tr i s of
        (Inr p, s') \<Rightarrow> (Inr (Some p), s')
      | (Inl Panic, s') \<Rightarrow> (Inl Panic, s')
      | (Inl (Fail (Io_Tpm (Tpm_Rc rc d cmd))), s') \<Rightarrow>
          (if (rc AND 0x1BF) = 0x18B then Inr None else Inl (Fail (Io_Tpm (Tpm_Rc rc d cmd))), s')
      | (Inl (Fail (Io_Tpm e)), s') \<Rightarrow> (Inl (Fail (Io_Tpm e)), s')
      | (Inl (Fail (Io_Msg k msg)), s') \<Rightarrow>
          (if k = NotFound then Inr None else Inl (Fail (Io_Msg k msg)), s'))"
  by (auto simp: tpm_find_nv_index_def st_then_def st_catch_def nv_absent_error_def nv_absent_rc_mask
      split: prod.split sum.split fault.split io_error.split tpm_error.split)

end
