(* ===== verification/Cvm_Report.thy ===== *)
theory Cvm_Report
  imports Tpm_Wire Rust_Text
begin

text \<open>
  \<open>crates/azure-guest-attestation-sdk/src/report.rs\<close>: the HCL attestation report, a C
  structure read from an NV index, with the runtime claims behind it.

  The source copies the bytes over a \<open>repr(C)\<close> structure. Three of its fields are Rust
  enumerations, and a Rust enumeration with a value that is none of its variants is
  undefined behaviour: the outcome of a copy is an \<open>option\<close>, and \<open>None\<close> is that case.
\<close>

section \<open>The structures\<close>

definition ATTESTATION_VERSION :: u32 where "ATTESTATION_VERSION = 2"
definition ATTESTATION_SIGNATURE :: u32 where "ATTESTATION_SIGNATURE = 0x414C4348"
definition VBS_VM_REPORT_SIZE :: nat where "VBS_VM_REPORT_SIZE = 0x230"
definition SNP_VM_REPORT_SIZE :: nat where "SNP_VM_REPORT_SIZE = 0x4A0"
definition TDX_VM_REPORT_SIZE :: nat where "TDX_VM_REPORT_SIZE = 0x400"
definition ATTESTATION_REPORT_SIZE_MAX :: nat where "ATTESTATION_REPORT_SIZE_MAX = SNP_VM_REPORT_SIZE"
definition CVM_VERSION_CURRENT :: u32 where "CVM_VERSION_CURRENT = 2"

datatype cvm_report_type =
  Report_Invalid | VbsVmReport | SnpVmReport | TvmReport | TdxVmReport

datatype cvm_request_type =
  Request_Invalid | KeyReleaseRequest | AkCertRequest | WrappedKeyRequest

datatype report_data_hash_type = Hash_Invalid | Hash_Sha256 | Hash_Sha384 | Hash_Sha512

text \<open>The discriminants, and the variant a 32-bit value stands for, if any.\<close>

fun report_type_u32 :: "cvm_report_type \<Rightarrow> u32" where
  "report_type_u32 Report_Invalid = 0"
| "report_type_u32 VbsVmReport = 1"
| "report_type_u32 SnpVmReport = 2"
| "report_type_u32 TvmReport = 3"
| "report_type_u32 TdxVmReport = 4"

fun request_type_u32 :: "cvm_request_type \<Rightarrow> u32" where
  "request_type_u32 Request_Invalid = 0"
| "request_type_u32 KeyReleaseRequest = 1"
| "request_type_u32 AkCertRequest = 2"
| "request_type_u32 WrappedKeyRequest = 3"

fun hash_type_u32 :: "report_data_hash_type \<Rightarrow> u32" where
  "hash_type_u32 Hash_Invalid = 0"
| "hash_type_u32 Hash_Sha256 = 1"
| "hash_type_u32 Hash_Sha384 = 2"
| "hash_type_u32 Hash_Sha512 = 3"

definition variant_of :: "('v \<Rightarrow> u32) \<Rightarrow> 'v list \<Rightarrow> u32 \<Rightarrow> 'v option" where
  "variant_of disc vs w = List.find (\<lambda>v. disc v = w) vs"

definition report_type_of :: "u32 \<Rightarrow> cvm_report_type option" where
  "report_type_of = variant_of report_type_u32
     [Report_Invalid, VbsVmReport, SnpVmReport, TvmReport, TdxVmReport]"

definition request_type_of :: "u32 \<Rightarrow> cvm_request_type option" where
  "request_type_of = variant_of request_type_u32
     [Request_Invalid, KeyReleaseRequest, AkCertRequest, WrappedKeyRequest]"

definition hash_type_of :: "u32 \<Rightarrow> report_data_hash_type option" where
  "hash_type_of = variant_of hash_type_u32 [Hash_Invalid, Hash_Sha256, Hash_Sha384, Hash_Sha512]"

record cvm_report_header =
  ch_signature :: u32
  ch_version :: u32
  ch_report_size :: u32
  ch_request_type :: cvm_request_type
  ch_status :: u32
  ch_reserved :: "u32 list"

definition cvm_report_header_new :: "u32 \<Rightarrow> cvm_request_type \<Rightarrow> u32 \<Rightarrow> cvm_report_header" where
  "cvm_report_header_new report_size request_type status =
     \<lparr>ch_signature = ATTESTATION_SIGNATURE, ch_version = ATTESTATION_VERSION,
      ch_report_size = report_size, ch_request_type = request_type, ch_status = status,
      ch_reserved = [0, 0, 0]\<rparr>"

record runtime_claims_header =
  rc_data_size :: u32
  rc_version :: u32
  rc_report_type :: cvm_report_type
  rc_report_data_hash_type :: report_data_hash_type
  rc_variable_data_size :: u32

definition runtime_claims_header_new ::
    "u32 \<Rightarrow> cvm_report_type \<Rightarrow> report_data_hash_type \<Rightarrow> u32 \<Rightarrow> runtime_claims_header" where
  "runtime_claims_header_new data_size report_type hash_type variable_data_size =
     \<lparr>rc_data_size = data_size, rc_version = CVM_VERSION_CURRENT, rc_report_type = report_type,
      rc_report_data_hash_type = hash_type, rc_variable_data_size = variable_data_size\<rparr>"

record cvm_attestation_report =
  cr_report_header :: cvm_report_header
  cr_tee_report :: bytes
  cr_runtime_claims_header :: runtime_claims_header

text \<open>The runtime claims, as \<open>serde_json\<close> delivers them.\<close>

record rsa_jwk =
  jwk_kid :: rs_str
  jwk_key_ops :: "rs_str list"
  jwk_kty :: rs_str
  jwk_e :: rs_str
  jwk_n :: rs_str

record vmgs_provisioner =
  vp_id :: rs_str
  vp_signer :: rs_str

datatype hardware_sealing_policy =
  Sealing_None | Sealing_Hash | Sealing_Signer | Sealing_Unknown rs_str

record attestation_vm_config =
  vc_current_time :: "int option"
  vc_root_cert_thumbprint :: rs_str
  vc_console_enabled :: bool
  vc_interactive_console_enabled :: "bool option"
  vc_secure_boot :: bool
  vc_tpm_enabled :: bool
  vc_tpm_persisted :: "bool option"
  vc_filtered_vpci_devices_allowed :: "bool option"
  vc_vm_unique_id :: rs_str
  vc_vmgs_provisioner :: "vmgs_provisioner option"
  vc_hardware_sealing_policy :: "hardware_sealing_policy option"

record runtime_claims =
  cl_keys :: "rsa_jwk list"
  cl_vm_configuration :: attestation_vm_config
  cl_user_data :: rs_str

section \<open>Reading a report\<close>

text \<open>A little-endian field of the structure, and \<open>size_of::<CvmAttestationReport>()\<close>.\<close>

definition u32_field :: "bytes \<Rightarrow> nat \<Rightarrow> u32" where
  "u32_field d off = of_le (take 4 (drop off d))"

definition CVM_REPORT_SIZE :: nat where
  "CVM_REPORT_SIZE = 32 + ATTESTATION_REPORT_SIZE_MAX + 20"

text \<open>\<open>read_unaligned\<close> of the whole structure: \<open>None\<close> when a field is not a variant.\<close>

definition read_cvm_report :: "bytes \<Rightarrow> cvm_attestation_report option" where
  "read_cvm_report full =
     (let h = 32 + ATTESTATION_REPORT_SIZE_MAX in
      case (request_type_of (u32_field full 12), report_type_of (u32_field full (h + 8)),
            hash_type_of (u32_field full (h + 12))) of
        (Some request, Some report, Some hash) \<Rightarrow>
          Some \<lparr>cr_report_header =
                  \<lparr>ch_signature = u32_field full 0, ch_version = u32_field full 4,
                   ch_report_size = u32_field full 8, ch_request_type = request,
                   ch_status = u32_field full 16,
                   ch_reserved = [u32_field full 20, u32_field full 24, u32_field full 28]\<rparr>,
                cr_tee_report = take ATTESTATION_REPORT_SIZE_MAX (drop 32 full),
                cr_runtime_claims_header =
                  \<lparr>rc_data_size = u32_field full h, rc_version = u32_field full (h + 4),
                   rc_report_type = report, rc_report_data_hash_type = hash,
                   rc_variable_data_size = u32_field full (h + 16)\<rparr>\<rparr>
      | _ \<Rightarrow> None)"

text \<open>The claims behind the structure; both functions of the source compute them this way.\<close>

definition runtime_claims_tail :: "cvm_attestation_report \<Rightarrow> bytes \<Rightarrow> bytes io_res" where
  "runtime_claims_tail report full =
     (let start = CVM_REPORT_SIZE in
      case checked_add_usize start (unat (rc_variable_data_size (cr_runtime_claims_header report))) of
        None \<Rightarrow> io_fail InvalidData ''variable_data_size overflow''
      | Some e \<Rightarrow>
          if length full < e then io_fail UnexpectedEof ''buffer shorter than report''
          else rs_slice full start e)"

definition parse_with_runtime_claims ::
    "(bytes \<Rightarrow> runtime_claims option) \<Rightarrow> bytes \<Rightarrow>
     (cvm_attestation_report \<times> runtime_claims option) io_res option" where
  "parse_with_runtime_claims from_slice full =
     (if length full < CVM_REPORT_SIZE
      then Some (io_fail UnexpectedEof ''buffer shorter than report'')
      else
        case read_cvm_report full of
          None \<Rightarrow> None
        | Some report \<Rightarrow>
            Some (and_then (runtime_claims_tail report full) (\<lambda>tail.
              if tail = [] then Inr (report, None) else Inr (report, from_slice tail))))"

definition get_runtime_claims_raw_bytes :: "cvm_attestation_report \<Rightarrow> bytes \<Rightarrow> bytes io_res" where
  "get_runtime_claims_raw_bytes report full =
     (if length full < CVM_REPORT_SIZE
      then io_fail UnexpectedEof ''buffer shorter than report''
      else runtime_claims_tail report full)"

section \<open>What a report's bytes mean\<close>

lemma report_type_of_u32 [simp]: "report_type_of (report_type_u32 t) = Some t"
  by (cases t; simp add: report_type_of_def variant_of_def)

lemma request_type_of_u32 [simp]: "request_type_of (request_type_u32 r) = Some r"
  by (cases r; simp add: request_type_of_def variant_of_def)

lemma hash_type_of_u32 [simp]: "hash_type_of (hash_type_u32 h) = Some h"
  by (cases h; simp add: hash_type_of_def variant_of_def)

lemma small_u32:
  "(w :: u32) \<le> 4 \<longleftrightarrow> w = 0 \<or> w = 1 \<or> w = 2 \<or> w = 3 \<or> w = 4"
  "(w :: u32) \<le> 3 \<longleftrightarrow> w = 0 \<or> w = 1 \<or> w = 2 \<or> w = 3"
  by (auto simp: word_le_nat_alt word_unat_eq_iff)

lemma report_type_of_None [simp]: "report_type_of w = None \<longleftrightarrow> \<not> w \<le> 4"
  unfolding small_u32 by (auto simp: report_type_of_def variant_of_def)

lemma request_type_of_None [simp]: "request_type_of w = None \<longleftrightarrow> \<not> w \<le> 3"
  unfolding small_u32 by (auto simp: request_type_of_def variant_of_def)

lemma hash_type_of_None [simp]: "hash_type_of w = None \<longleftrightarrow> \<not> w \<le> 3"
  unfolding small_u32 by (auto simp: hash_type_of_def variant_of_def)

text \<open>The bytes of a report, in the order of the C structure, with the claims behind it.\<close>

definition le32_bytes :: "u32 \<Rightarrow> bytes" where "le32_bytes w = le_bytes 4 w"

definition cvm_report_header_wire :: "cvm_report_header \<Rightarrow> bytes" where
  "cvm_report_header_wire h =
     le32_bytes (ch_signature h) @ le32_bytes (ch_version h) @ le32_bytes (ch_report_size h) @
     le32_bytes (request_type_u32 (ch_request_type h)) @ le32_bytes (ch_status h) @
     concat (map le32_bytes (ch_reserved h))"

definition runtime_claims_header_wire :: "runtime_claims_header \<Rightarrow> bytes" where
  "runtime_claims_header_wire h =
     le32_bytes (rc_data_size h) @ le32_bytes (rc_version h) @
     le32_bytes (report_type_u32 (rc_report_type h)) @
     le32_bytes (hash_type_u32 (rc_report_data_hash_type h)) @ le32_bytes (rc_variable_data_size h)"

definition cvm_report_wire :: "cvm_attestation_report \<Rightarrow> bytes" where
  "cvm_report_wire r =
     cvm_report_header_wire (cr_report_header r) @ cr_tee_report r @
     runtime_claims_header_wire (cr_runtime_claims_header r)"

definition cvm_report_valid :: "cvm_attestation_report \<Rightarrow> bool" where
  "cvm_report_valid r \<longleftrightarrow> length (ch_reserved (cr_report_header r)) = 3 \<and>
     length (cr_tee_report r) = ATTESTATION_REPORT_SIZE_MAX"

lemma u32_field_occurs: "occurs_at d off (le32_bytes w) \<Longrightarrow> u32_field d off = w"
  by (simp add: occurs_at_def u32_field_def le32_bytes_def)

lemma length_le32_bytes [simp]: "length (le32_bytes w) = 4"
  by (simp add: le32_bytes_def)

lemma read_cvm_report_wire:
  assumes "occurs_at d 0 (cvm_report_wire r)" "cvm_report_valid r"
  shows "read_cvm_report d = Some r"
proof -
  obtain x y z where x: "ch_reserved (cr_report_header r) = [x, y, z]"
    using assms(2) by (auto simp: cvm_report_valid_def numeral_3_eq_3 length_Suc_conv)
  have l: "length (cr_tee_report r) = 1184"
    using assms(2) by (simp add: cvm_report_valid_def ATTESTATION_REPORT_SIZE_MAX_def SNP_VM_REPORT_SIZE_def)
  let ?h = "cr_report_header r" and ?c = "cr_runtime_claims_header r"
  have o: "occurs_at d 0 (le32_bytes (ch_signature ?h))" "occurs_at d 4 (le32_bytes (ch_version ?h))"
    "occurs_at d 8 (le32_bytes (ch_report_size ?h))"
    "occurs_at d 12 (le32_bytes (request_type_u32 (ch_request_type ?h)))"
    "occurs_at d 16 (le32_bytes (ch_status ?h))" "occurs_at d 20 (le32_bytes x)"
    "occurs_at d 24 (le32_bytes y)" "occurs_at d 28 (le32_bytes z)"
    "occurs_at d 32 (cr_tee_report r)" "occurs_at d 1216 (le32_bytes (rc_data_size ?c))"
    "occurs_at d 1220 (le32_bytes (rc_version ?c))"
    "occurs_at d 1224 (le32_bytes (report_type_u32 (rc_report_type ?c)))"
    "occurs_at d 1228 (le32_bytes (hash_type_u32 (rc_report_data_hash_type ?c)))"
    "occurs_at d 1232 (le32_bytes (rc_variable_data_size ?c))"
    using assms(1) l
    by (simp_all add: cvm_report_wire_def cvm_report_header_wire_def runtime_claims_header_wire_def x)
  have t: "take 1184 (drop 32 d) = cr_tee_report r" using occurs_at_take [OF o(9)] l by simp
  note f = o(1-8,10-14) [THEN u32_field_occurs]
  show ?thesis
    by (simp add: read_cvm_report_def f t Let_def ATTESTATION_REPORT_SIZE_MAX_def SNP_VM_REPORT_SIZE_def
        flip: x)
qed

lemma length_cvm_report_wire:
  "cvm_report_valid r \<Longrightarrow> length (cvm_report_wire r) = CVM_REPORT_SIZE"
  by (simp add: cvm_report_wire_def cvm_report_valid_def cvm_report_header_wire_def
      runtime_claims_header_wire_def CVM_REPORT_SIZE_def ATTESTATION_REPORT_SIZE_MAX_def
      SNP_VM_REPORT_SIZE_def length_concat comp_def sum_list_triv)

lemma runtime_claims_tail_no_panic [simp]: "runtime_claims_tail r d \<noteq> Inl Panic"
  by (auto simp: runtime_claims_tail_def Let_def checked_add_usize_def rs_slice_def split: option.splits)

lemma runtime_claims_tail_wire:
  assumes "cvm_report_valid r" "length claims = unat (rc_variable_data_size (cr_runtime_claims_header r))"
  shows "runtime_claims_tail r (cvm_report_wire r @ claims @ rest) = Inr claims"
proof -
  have b: "CVM_REPORT_SIZE + length claims < 2 ^ 64"
    using unat_u32_bound [of "rc_variable_data_size (cr_runtime_claims_header r)"] assms(2)
    by (simp add: CVM_REPORT_SIZE_def ATTESTATION_REPORT_SIZE_MAX_def SNP_VM_REPORT_SIZE_def)
  then show ?thesis
    using assms(2) length_cvm_report_wire [OF assms(1)]
      rs_slice_append [of "cvm_report_wire r" claims rest]
    by (simp add: runtime_claims_tail_def Let_def checked_add_usize_def)
qed

lemma parse_cvm_report_wire:
  assumes "cvm_report_valid r" "length claims = unat (rc_variable_data_size (cr_runtime_claims_header r))"
  shows "parse_with_runtime_claims from_slice (cvm_report_wire r @ claims @ padding) =
    Some (Inr (r, if claims = [] then None else from_slice claims))"
proof -
  let ?d = "cvm_report_wire r @ claims @ padding"
  have "read_cvm_report ?d = Some r" by (rule read_cvm_report_wire) (simp_all add: assms(1))
  moreover have "\<not> length ?d < CVM_REPORT_SIZE" by (simp add: length_cvm_report_wire [OF assms(1)])
  ultimately show ?thesis
    using runtime_claims_tail_wire [OF assms, of padding]
    by (simp add: parse_with_runtime_claims_def)
qed

text \<open>
  C39. A report laid out as the C structure, with its claims and any
  padding behind it, is read field by field, and the claims handed to the JSON parser and
  returned by \<open>get_runtime_claims_raw_bytes\<close> are exactly the bytes announced.
\<close>

theorem cvm_report_round_trip:
  assumes "cvm_report_valid r" "length claims = unat (rc_variable_data_size (cr_runtime_claims_header r))"
  shows "parse_with_runtime_claims from_slice (cvm_report_wire r @ claims @ padding) =
      Some (Inr (r, if claims = [] then None else from_slice claims)) \<and>
    get_runtime_claims_raw_bytes r (cvm_report_wire r @ claims @ padding) = Inr claims"
  using runtime_claims_tail_wire [OF assms, of padding] length_cvm_report_wire [OF assms(1)]
  by (simp add: parse_cvm_report_wire [OF assms] get_runtime_claims_raw_bytes_def)

definition demo_cvm_report :: cvm_attestation_report where
  "demo_cvm_report =
     \<lparr>cr_report_header = cvm_report_header_new 1184 AkCertRequest 0,
      cr_tee_report = replicate 1184 7,
      cr_runtime_claims_header = runtime_claims_header_new 20 SnpVmReport Hash_Sha256 2\<rparr>"

theorem cvm_report_round_trip_witness:
  "cvm_report_valid demo_cvm_report \<and>
   parse_with_runtime_claims (\<lambda>_. None) (cvm_report_wire demo_cvm_report @ [0x7B, 0x7D] @ [0, 0]) =
     Some (Inr (demo_cvm_report, None)) \<and>
   get_runtime_claims_raw_bytes demo_cvm_report (cvm_report_wire demo_cvm_report @ [0x7B, 0x7D] @ [0, 0]) =
     Inr [0x7B, 0x7D]"
proof -
  have v: "cvm_report_valid demo_cvm_report"
    by (simp add: demo_cvm_report_def cvm_report_valid_def cvm_report_header_new_def
        ATTESTATION_REPORT_SIZE_MAX_def SNP_VM_REPORT_SIZE_def)
  have n: "length [0x7B, 0x7D :: u8] =
      unat (rc_variable_data_size (cr_runtime_claims_header demo_cvm_report))"
    by (simp add: demo_cvm_report_def runtime_claims_header_new_def)
  show ?thesis using cvm_report_round_trip [OF v n, of "\<lambda>_. None" "[0, 0]"] v by simp
qed

text \<open>
  The copy of the NV index's bytes over the structure is undefined
  exactly when one of the three enumeration fields holds a value the program does not
  know: a request type above 3, a report type above 4 or a hash type above 3. Nothing else
  makes the parser leave its contract: it never panics.
\<close>

theorem cvm_report_undefined:
  "(parse_with_runtime_claims from_slice d = None) =
     (1236 \<le> length d \<and> (3 < u32_field d 12 \<or> 4 < u32_field d 1224 \<or> 3 < u32_field d 1228)) \<and>
   parse_with_runtime_claims from_slice d \<noteq> Some (Inl Panic)"
proof -
  have "read_cvm_report d = None \<longleftrightarrow> request_type_of (u32_field d 12) = None \<or>
      report_type_of (u32_field d 1224) = None \<or> hash_type_of (u32_field d 1228) = None"
    by (auto simp: read_cvm_report_def Let_def ATTESTATION_REPORT_SIZE_MAX_def SNP_VM_REPORT_SIZE_def
        simp del: request_type_of_None report_type_of_None hash_type_of_None split: option.split)
  then have "read_cvm_report d = None \<longleftrightarrow>
      (3 < u32_field d 12 \<or> 4 < u32_field d 1224 \<or> 3 < u32_field d 1228)"
    by (simp add: not_le)
  then show ?thesis
    by (auto simp: parse_with_runtime_claims_def and_then_eq_Inl CVM_REPORT_SIZE_def
        ATTESTATION_REPORT_SIZE_MAX_def SNP_VM_REPORT_SIZE_def split: option.split if_splits)
qed

end
