(* ===== verification/Tpm_Attestation.thy ===== *)
theory Tpm_Attestation
  imports Tpm_Session_Facts Cvm_Report
begin

text \<open>
  \<open>crates/azure-guest-attestation-sdk/src/tpm/attestation.rs\<close>: the operations on the
  handles and NV indices an Azure confidential VM uses, over the TPM operations of
  \<open>Tpm_Commands\<close>. The trace output of the source is left out. Reports whose bytes are
  not a value of the C structure make \<open>get_cvm_report\<close> undefined (\<open>None\<close>), as in
  \<open>Cvm_Report\<close>.
\<close>

definition AK_PERSISTENT_HANDLE :: u32 where "AK_PERSISTENT_HANDLE = 0x81000003"
definition ECC_SIGNING_KEY_PERSISTENT_HANDLE :: u32 where "ECC_SIGNING_KEY_PERSISTENT_HANDLE = 0x81000010"
definition NV_INDEX_AK_CERT :: u32 where "NV_INDEX_AK_CERT = 0x1c101d0"
definition NV_INDEX_CVM_REPORT :: u32 where "NV_INDEX_CVM_REPORT = 0x1400001"
definition NV_INDEX_USER_DATA :: u32 where "NV_INDEX_USER_DATA = 0x1400002"

record ephemeral_key =
  ek_public :: bytes
  ek_handle :: u32
  ek_certify_info :: bytes
  ek_certify_sig :: bytes

text \<open>\<open>io::Error::new(e.kind(), format!("context: {e}"))\<close>\<close>

definition io_context :: "string \<Rightarrow> io_error \<Rightarrow> io_error" where
  "io_context what e = Io_Msg (io_error_kind e) (what @ '': '' @ io_error_display e)"

section \<open>The ECC signing key\<close>

definition create_and_persist_ecc_signing_key :: "'s transport \<Rightarrow> ('s, io_error, bytes) st" where
  "create_and_persist_ecc_signing_key tr =
     st_then (st_catch (tpm_read_public tr ECC_SIGNING_KEY_PERSISTENT_HANDLE)) (\<lambda>existing.
     case existing of
       Inr pub_bytes \<Rightarrow> st_res (Inr pub_bytes)
     | Inl _ \<Rightarrow>
         st_then (tpm_create_primary_ecc tr Hierarchy_Owner ecc_unrestricted_signing_public) (\<lambda>created.
         st_then (tpm_evict_control tr ECC_SIGNING_KEY_PERSISTENT_HANDLE (cp_handle created)) (\<lambda>_.
         st_then (st_ignore (tpm_flush_context tr (cp_handle created))) (\<lambda>_.
         tpm_read_public tr ECC_SIGNING_KEY_PERSISTENT_HANDLE))))"

definition get_ecc_signing_key_pub :: "'s transport \<Rightarrow> ('s, io_error, bytes) st" where
  "get_ecc_signing_key_pub tr = tpm_read_public tr ECC_SIGNING_KEY_PERSISTENT_HANDLE"

text \<open>The check that opens the two operations with the key.\<close>

definition require_ecc_key :: "'s transport \<Rightarrow> ('s, io_error, 'a) st \<Rightarrow> ('s, io_error, 'a) st" where
  "require_ecc_key tr operation =
     st_then (st_catch (tpm_read_public tr ECC_SIGNING_KEY_PERSISTENT_HANDLE)) (\<lambda>r.
     case r of
       Inl _ \<Rightarrow> st_res (io_fail NotFound ''ECC signing key not found at persistent handle. Call create_and_persist_ecc_signing_key first.'')
     | Inr _ \<Rightarrow> operation)"

definition sign_with_ecc_key :: "'s transport \<Rightarrow> bytes \<Rightarrow> ('s, io_error, tpmt_signature) st" where
  "sign_with_ecc_key tr digest =
     require_ecc_key tr (tpm_sign tr ECC_SIGNING_KEY_PERSISTENT_HANDLE digest)"

definition verify_with_ecc_key ::
    "'s transport \<Rightarrow> bytes \<Rightarrow> tpmt_signature \<Rightarrow> ('s, io_error, unit) st" where
  "verify_with_ecc_key tr digest signature =
     require_ecc_key tr (tpm_verify_signature tr ECC_SIGNING_KEY_PERSISTENT_HANDLE digest signature)"

section \<open>The attestation key\<close>

definition get_ak_pub :: "'s transport \<Rightarrow> ('s, io_error, bytes) st" where
  "get_ak_pub tr = tpm_read_public tr AK_PERSISTENT_HANDLE"

definition ensure_persistent_ak :: "'s transport \<Rightarrow> ('s, io_error, unit) st" where
  "ensure_persistent_ak tr =
     st_then (st_catch (get_ak_pub tr)) (\<lambda>probe.
     case probe of
       Inr _ \<Rightarrow> st_res (Inr ())
     | Inl _ \<Rightarrow>
         st_then (tpm_create_primary tr Hierarchy_Endorsement rsa_restricted_signing_public []) (\<lambda>created.
         st_then (tpm_evict_control tr AK_PERSISTENT_HANDLE (cp_handle created)) (\<lambda>_.
         st_ignore (tpm_flush_context tr (cp_handle created)))))"

definition get_ak_cert :: "'s transport \<Rightarrow> ('s, io_error, bytes) st" where
  "get_ak_cert tr =
     st_then (st_catch (tpm_nv_read_public tr NV_INDEX_AK_CERT)) (\<lambda>r.
     case r of
       Inr pub_info \<Rightarrow>
         if np_data_size pub_info = 0 then st_res (Inr [])
         else tpm_read_nv_index tr NV_INDEX_AK_CERT
     | Inl (Fail e) \<Rightarrow>
         if io_error_kind e = NotFound then st_res (Inr []) else st_res (Inl (Fail e))
     | Inl Panic \<Rightarrow> st_res (Inl Panic))"

text \<open>
  The length octets of \<open>trim_der_certificate\<close>: at most four, so the shifted
  \<open>usize\<close> never wraps and the value is the big-endian number. \<open>None\<close> is the early
  return of the input.
\<close>

definition der_extent :: "bytes \<Rightarrow> (nat \<times> nat) option" where
  "der_extent full =
     (let len_byte = full ! 1 in
      if len_byte AND 0x80 = 0 then Some (unat len_byte, 2)
      else
        let n = unat (len_byte AND 0x7F) in
        if n = 0 \<or> 4 < n \<or> length full < 2 + n then None
        else Some (foldl (\<lambda>l b. l * 256 + unat b) 0 (take n (drop 2 full)), 2 + n))"

definition trim_der_certificate :: "bytes \<Rightarrow> bytes" where
  "trim_der_certificate full =
     (if length full < 4 then full
      else if full ! 0 \<noteq> 0x30 then full
      else
        case der_extent full of
          None \<Rightarrow> full
        | Some (content_len, header_len) \<Rightarrow>
            let total = header_len + content_len in
            if total \<le> length full then take total full else full)"

definition get_ak_cert_trimmed :: "'s transport \<Rightarrow> ('s, io_error, bytes) st" where
  "get_ak_cert_trimmed tr =
     st_then (get_ak_cert tr) (\<lambda>full. st_res (Inr (trim_der_certificate full)))"

section \<open>PCRs and ephemeral keys\<close>

definition get_pcr_values :: "'s transport \<Rightarrow> u32 list \<Rightarrow> ('s, io_error, (u32 \<times> bytes) list) st" where
  "get_pcr_values tr pcrs = tpm_read_pcrs_sha256 tr pcrs"

definition get_pcr_quote :: "'s transport \<Rightarrow> u32 list \<Rightarrow> ('s, io_error, bytes \<times> bytes) st" where
  "get_pcr_quote tr pcrs =
     st_then (ensure_persistent_ak tr) (\<lambda>_.
     tpm_quote_with_key tr AK_PERSISTENT_HANDLE pcrs)"

definition get_ephemeral_key ::
    "'s random \<Rightarrow> (bytes \<Rightarrow> bytes) \<Rightarrow> 's transport \<Rightarrow> u32 list \<Rightarrow> ('s, io_error, ephemeral_key) st" where
  "get_ephemeral_key rnd sha tr pcrs =
     st_then (tpm_compute_pcr_policy_digest rnd sha tr pcrs) (\<lambda>policy.
     st_then (tpm_create_primary tr Hierarchy_Owner
       (rsa_unrestricted_sign_decrypt_public_with_policy policy) pcrs) (\<lambda>cp.
     st_then (tpm_certify_with_key tr (cp_handle cp) AK_PERSISTENT_HANDLE) (\<lambda>(cert_info, cert_sig).
     st_res (Inr \<lparr>ek_public = cp_public cp, ek_handle = cp_handle cp,
                  ek_certify_info = cert_info, ek_certify_sig = cert_sig\<rparr>))))"

definition decrypt_with_ephemeral_key ::
    "'s random \<Rightarrow> (bytes \<Rightarrow> bytes) \<Rightarrow> 's transport \<Rightarrow> u32 \<Rightarrow> u32 list \<Rightarrow> bytes \<Rightarrow>
     tpmt_rsa_decrypt_scheme \<Rightarrow> ('s, io_error, bytes) st" where
  "decrypt_with_ephemeral_key rnd sha tr key_handle pcrs ciphertext scheme =
     tpm_rsa_decrypt rnd sha tr key_handle pcrs ciphertext scheme"

section \<open>User data and the CVM report\<close>

text \<open>\<open>iter().rposition(|b| *b != 0).map(|i| i + 1).unwrap_or(0)\<close> and the slice up to it.\<close>

definition meaningful_len :: "bytes \<Rightarrow> nat" where
  "meaningful_len raw = length (dropWhile (\<lambda>b. b = 0) (rev raw))"

definition get_user_data_nv :: "'s transport \<Rightarrow> ('s, io_error, bytes option) st" where
  "get_user_data_nv tr =
     st_then (st_catch (tpm_find_nv_index tr NV_INDEX_USER_DATA)) (\<lambda>r.
     case r of
       Inr (Some _) \<Rightarrow>
         st_then (st_catch (tpm_read_nv_index tr NV_INDEX_USER_DATA)) (\<lambda>r.
         case r of
           Inr raw \<Rightarrow> st_res (Inr (Some (take (meaningful_len raw) raw)))
         | Inl f \<Rightarrow> st_res (map_err (io_context ''failed to read user data NV index'') (Inl f)))
     | Inr None \<Rightarrow> st_res (Inr None)
     | Inl (Fail e) \<Rightarrow>
         if io_error_kind e = NotFound then st_res (Inr None)
         else st_res (Inl (Fail (io_context ''failed to query user data NV index'' e)))
     | Inl Panic \<Rightarrow> st_res (Inl Panic))"

definition pad_user_data :: "bytes \<Rightarrow> bytes" where
  "pad_user_data input = take (min (length input) 64) input @ replicate (64 - min (length input) 64) 0"

definition user_data_public :: nv_public where
  "user_data_public =
     \<lparr>np_nv_index = NV_INDEX_USER_DATA,
      np_name_alg = ALG_SHA256,
      np_attributes = nv_with Nv_authread (nv_with Nv_ownerread (nv_with Nv_authwrite (nv_with Nv_ownerwrite 0))),
      np_auth_policy = [],
      np_data_size = 64\<rparr>"

definition define_user_data_index :: "'s transport \<Rightarrow> ('s, io_error, unit) st" where
  "define_user_data_index tr = tpm_nv_define_space tr user_data_public []"

definition ensure_user_data_index_and_write :: "'s transport \<Rightarrow> bytes \<Rightarrow> ('s, io_error, unit) st" where
  "ensure_user_data_index_and_write tr user_data =
     st_then (st_catch (tpm_find_nv_index tr NV_INDEX_USER_DATA)) (\<lambda>r.
     st_then
       (case r of
          Inr (Some _) \<Rightarrow> st_res (Inr ())
        | Inr None \<Rightarrow> define_user_data_index tr
        | Inl _ \<Rightarrow> define_user_data_index tr)
       (\<lambda>_. tpm_write_nv_index tr NV_INDEX_USER_DATA user_data))"

text \<open>\<open>map_err\<close> on a computation with the device.\<close>

definition st_map_err :: "('e \<Rightarrow> 'f) \<Rightarrow> ('s, 'e, 'a) st \<Rightarrow> ('s, 'f, 'a) st" where
  "st_map_err f m s = (case m s of (r, s') \<Rightarrow> (map_err f r, s'))"

definition get_cvm_report_raw :: "'s transport \<Rightarrow> bytes option \<Rightarrow> ('s, io_error, bytes) st" where
  "get_cvm_report_raw tr user_data =
     st_then
       (case user_data of
          None \<Rightarrow> st_res (Inr ())
        | Some data \<Rightarrow>
            if 64 < length data
            then st_res (io_fail InvalidInput (''user_data length '' @ fmt_dec (length data) @ '' exceeds 64 bytes''))
            else
              st_map_err (io_context ''failed to stage user_data into NV index, so it cannot be bound to the report'')
                (ensure_user_data_index_and_write tr (pad_user_data data)))
       (\<lambda>_.
     st_map_err (io_context ''failed to read CVM report NV index'')
       (tpm_read_nv_index tr NV_INDEX_CVM_REPORT))"

definition get_cvm_report ::
    "(bytes \<Rightarrow> runtime_claims option) \<Rightarrow> 's transport \<Rightarrow> bytes option \<Rightarrow> 's \<Rightarrow>
     ((cvm_attestation_report \<times> runtime_claims option) io_res \<times> 's) option" where
  "get_cvm_report from_slice tr user_data s =
     (case get_cvm_report_raw tr user_data s of
        (Inl e, s') \<Rightarrow> Some (Inl e, s')
      | (Inr raw, s') \<Rightarrow>
          (case parse_with_runtime_claims from_slice raw of
             None \<Rightarrow> None
           | Some r \<Rightarrow> Some (r, s')))"

fun tee_report_size :: "cvm_report_type \<Rightarrow> nat" where
  "tee_report_size VbsVmReport = VBS_VM_REPORT_SIZE"
| "tee_report_size SnpVmReport = SNP_VM_REPORT_SIZE"
| "tee_report_size TdxVmReport = TDX_VM_REPORT_SIZE"
| "tee_report_size TvmReport = 0"
| "tee_report_size Report_Invalid = 0"

definition get_tee_report_and_type ::
    "(bytes \<Rightarrow> runtime_claims option) \<Rightarrow> 's transport \<Rightarrow> bytes option \<Rightarrow> 's \<Rightarrow>
     ((bytes \<times> cvm_report_type) io_res \<times> 's) option" where
  "get_tee_report_and_type from_slice tr user_data s =
     (case get_cvm_report from_slice tr user_data s of
        None \<Rightarrow> None
      | Some (Inl e, s') \<Rightarrow> Some (Inl e, s')
      | Some (Inr (rep, _), s') \<Rightarrow>
          let rtype = rc_report_type (cr_runtime_claims_header rep);
              expected = tee_report_size rtype;
              out = (if 0 < expected then take (min expected (length (cr_tee_report rep))) (cr_tee_report rep) else [])
          in Some (Inr (out, rtype), s'))"

end
