(* ===== verification/Event_Log.thy ===== *)
theory Event_Log
  imports Tpm_Wire Rust_Text "HOL-Library.List_Lexorder" "HOL-Library.Char_ord"
begin

text \<open>
  \<open>crates/azure-tpm/src/event_log.rs\<close>: reading the measured-boot event log (TCG 1.2
  and 2.0 binary formats and systemd's JSON lines), the Spec ID event, and the replay of
  PCR values. The hash functions, the JSON parser and the hex decoder are libraries and
  parameters here; the file system is a record of parameters.
\<close>

section \<open>Constants and data\<close>

definition SYSTEMD_EVENT_TYPE :: u32 where "SYSTEMD_EVENT_TYPE = 0x800000E0"
definition MAX_DIGEST_COUNT :: nat where "MAX_DIGEST_COUNT = 32"
definition MAX_EVENT_DATA_SIZE :: nat where "MAX_EVENT_DATA_SIZE = 2 * 1024 * 1024"
definition SPEC_ID_EVENT_TYPE :: u32 where "SPEC_ID_EVENT_TYPE = 0x00000003"

datatype digest_encoding = Auto | WithPrefix

record event_digest =
  ed_alg_id :: u16
  ed_digest :: bytes

record event =
  ev_pcr_index :: u32
  ev_event_type :: u32
  ev_digests :: "event_digest list"
  ev_event_data :: bytes

definition digest_for_algorithm :: "event \<Rightarrow> pcr_algorithm \<Rightarrow> bytes option" where
  "digest_for_algorithm e alg =
     (let alg_id = pcr_to_alg_id alg
      in map_option ed_digest (find (\<lambda>d. ed_alg_id d = alg_id) (ev_digests e)))"

record spec_id_algorithm =
  sa_algorithm_id :: u16
  sa_digest_size :: u16

record spec_id_event =
  si_signature :: rs_str
  si_platform_class :: u32
  si_spec_version_major :: u8
  si_spec_version_minor :: u8
  si_spec_errata :: u8
  si_uintn_size :: u8
  si_algorithms :: "spec_id_algorithm list"
  si_vendor_info :: bytes

section \<open>Little-endian readers\<close>

definition read_u16_le :: "u16 reader" where
  "read_u16_le d c =
     (if length d < c + 2 then io_fail UnexpectedEof ''u16 read past end''
      else and_then (le_u16_at d c) (\<lambda>v. Inr (v, c + 2)))"

definition read_u32_le :: "u32 reader" where
  "read_u32_le d c =
     (if length d < c + 4 then io_fail UnexpectedEof ''u32 read past end''
      else and_then (le_u32_at d c) (\<lambda>v. Inr (v, c + 4)))"

section \<open>The Spec ID event\<close>

definition spec_id_algorithm_read :: "spec_id_algorithm reader" where
  "spec_id_algorithm_read d c =
     and_then (read_u16_le d c) (\<lambda>(alg_id, c).
     and_then (read_u16_le d c) (\<lambda>(digest_size, c).
     Inr (\<lparr>sa_algorithm_id = alg_id, sa_digest_size = digest_size\<rparr>, c)))"

definition starts_with :: "bytes \<Rightarrow> bytes \<Rightarrow> bool" where
  "starts_with pre bs \<longleftrightarrow> take (length pre) bs = pre"

definition parse_spec_id_event :: "bytes \<Rightarrow> spec_id_event io_res" where
  "parse_spec_id_event d =
     (if length d < 16 then io_fail UnexpectedEof ''spec id event too short''
      else
        and_then (rs_slice d 0 16) (\<lambda>signature_bytes.
        let signature = trim_end_matches (\<lambda>ch. ch = [0]) (from_utf8_lossy signature_bytes) in
        if \<not> starts_with (ascii_bytes ''Spec ID Event'') (str_bytes signature)
        then io_fail InvalidData ''missing Spec ID signature''
        else
          and_then (read_u32_le d 16) (\<lambda>(platform_class, c).
          if length d < c + 4 then io_fail UnexpectedEof ''spec id version truncated''
          else
            and_then (rs_index d c) (\<lambda>major.
            and_then (rs_index d (c + 1)) (\<lambda>minor.
            and_then (rs_index d (c + 2)) (\<lambda>errata.
            and_then (rs_index d (c + 3)) (\<lambda>uintn_size.
            and_then (read_u32_le d (c + 4)) (\<lambda>(algorithm_count, c).
            if MAX_DIGEST_COUNT < unat algorithm_count
            then io_fail InvalidData
              (''spec id algorithm count '' @ fmt_dec (unat algorithm_count) @ '' exceeds limit'')
            else
              and_then (read_n spec_id_algorithm_read (unat algorithm_count) d c) (\<lambda>(algorithms, c).
              if length d \<le> c then io_fail UnexpectedEof ''spec id vendor info missing''
              else
                and_then (rs_index d c) (\<lambda>vendor_size.
                if length d < c + 1 + unat vendor_size
                then io_fail UnexpectedEof ''spec id vendor info truncated''
                else
                  and_then (rs_slice d (c + 1) (c + 1 + unat vendor_size)) (\<lambda>vendor_info.
                  Inr \<lparr>si_signature = signature, si_platform_class = platform_class,
                       si_spec_version_major = major, si_spec_version_minor = minor,
                       si_spec_errata = errata, si_uintn_size = uintn_size,
                       si_algorithms = algorithms, si_vendor_info = vendor_info\<rparr>)))))))))))"

definition try_parse_spec_id_event :: "bytes \<Rightarrow> (io_error, spec_id_event option) res" where
  "try_parse_spec_id_event d =
     (case parse_spec_id_event d of
        Inr s \<Rightarrow> Inr (Some s) | Inl (Fail _) \<Rightarrow> Inr None | Inl Panic \<Rightarrow> Inl Panic)"

section \<open>Events of the 1.2 format\<close>

definition parse_event1_digests :: "event_digest list reader" where
  "parse_event1_digests d c =
     (if length d < c + pcr_digest_len Pcr_Sha1 then io_fail UnexpectedEof ''digest exceeds buffer''
      else
        and_then (rs_slice d c (c + pcr_digest_len Pcr_Sha1)) (\<lambda>digest.
        Inr ([\<lparr>ed_alg_id = pcr_to_alg_id Pcr_Sha1, ed_digest = digest\<rparr>], c + pcr_digest_len Pcr_Sha1)))"

text \<open>
  The size checks and the slice of the event data, in both formats; the 2.0 parser also
  refuses an empty Spec ID event.
\<close>

definition event_data_read :: "bool \<Rightarrow> nat \<Rightarrow> bytes reader" where
  "event_data_read refuse_empty sz d c =
     (if MAX_EVENT_DATA_SIZE < sz
      then io_fail InvalidData (''event data size '' @ fmt_dec sz @ '' exceeds limit'')
      else if length d < c + sz then io_fail UnexpectedEof ''event data exceeds buffer''
      else if sz = 0 \<and> refuse_empty
      then io_fail InvalidData ''Spec ID event has zero-length payload''
      else and_then (rs_slice d c (c + sz)) (\<lambda>b. Inr (b, c + sz)))"

definition parse_event1_entry :: "event reader" where
  "parse_event1_entry d c =
     (if length d - c < 28 then io_fail UnexpectedEof ''event log truncated mid-entry''
      else
        and_then (read_u32_le d c) (\<lambda>(pcr_index, c).
        and_then (read_u32_le d c) (\<lambda>(event_type, c).
        and_then (parse_event1_digests d c) (\<lambda>(digests, c).
        and_then (read_u32_le d c) (\<lambda>(event_data_size, c).
        and_then (event_data_read False (unat event_data_size) d c) (\<lambda>(event_data, c).
        Inr (\<lparr>ev_pcr_index = pcr_index, ev_event_type = event_type, ev_digests = digests,
              ev_event_data = event_data\<rparr>, c)))))))"

section \<open>Events of the 2.0 format\<close>

type_synonym alg_sizes = "u16 \<rightharpoonup> nat"

definition digest_len_for_alg :: "u16 \<Rightarrow> alg_sizes \<Rightarrow> nat option" where
  "digest_len_for_alg alg_id overrides =
     (case overrides alg_id of
        Some len \<Rightarrow> Some len
      | None \<Rightarrow> map_option pcr_digest_len (pcr_from_alg_id alg_id))"

text \<open>\<open>for alg in &spec.algorithms { if alg.digest_size == 0 { continue; } insert }\<close>\<close>

fun insert_overrides :: "spec_id_algorithm list \<Rightarrow> alg_sizes \<Rightarrow> alg_sizes" where
  "insert_overrides [] ov = ov"
| "insert_overrides (a # as) ov =
     insert_overrides as
       (if sa_digest_size a = 0 then ov else ov(sa_algorithm_id a \<mapsto> unat (sa_digest_size a)))"

text \<open>
  The length of one digest and the cursor behind a length prefix: read when the encoding
  has one or the algorithm is unknown, skipped when the next two bytes happen to be the
  algorithm's length and the buffer is long enough for both.
\<close>

definition digest_length :: "digest_encoding \<Rightarrow> nat \<Rightarrow> nat reader" where
  "digest_length encoding digest_len d c =
     (let remaining = length d - c in
      if encoding = WithPrefix \<or> digest_len = 0 then
        if remaining < 2 then io_fail UnexpectedEof ''digest length prefix truncated''
        else and_then (read_u16_le d c) (\<lambda>(n, c). Inr (unat n, c))
      else if 2 \<le> remaining then
        and_then (le_u16_at d c) (\<lambda>possible_len.
        if unat possible_len = digest_len \<and> digest_len + 2 \<le> remaining
        then Inr (digest_len, c + 2) else Inr (digest_len, c))
      else Inr (digest_len, c))"

definition event2_digest_read :: "u32 \<Rightarrow> alg_sizes \<Rightarrow> digest_encoding \<Rightarrow> event_digest reader" where
  "event2_digest_read event_type overrides encoding d c =
     and_then (read_u16_le d c) (\<lambda>(alg_id, c).
     let known = (case digest_len_for_alg alg_id overrides of Some n \<Rightarrow> n | None \<Rightarrow> 0) in
     and_then (digest_length encoding known d c) (\<lambda>(digest_len, c).
     if digest_len = 0 then
       if event_type = SPEC_ID_EVENT_TYPE then Inr (\<lparr>ed_alg_id = alg_id, ed_digest = []\<rparr>, c)
       else io_fail InvalidData (''unknown digest length for algorithm 0x'' @ fmt_04x alg_id)
     else if length d - c < digest_len then io_fail UnexpectedEof ''digest exceeds buffer''
     else
       and_then (rs_slice d c (c + digest_len)) (\<lambda>digest.
       Inr (\<lparr>ed_alg_id = alg_id, ed_digest = digest\<rparr>, c + digest_len))))"

definition parse_event2_digests :: "u32 \<Rightarrow> nat \<Rightarrow> alg_sizes \<Rightarrow> digest_encoding \<Rightarrow> event_digest list reader" where
  "parse_event2_digests event_type digest_count overrides encoding =
     read_n (event2_digest_read event_type overrides encoding) digest_count"

text \<open>
  The digests and the data size; when the size is impossible the digests are read again
  with length prefixes.
\<close>

definition event2_digests_and_size :: "u32 \<Rightarrow> nat \<Rightarrow> alg_sizes \<Rightarrow> (event_digest list \<times> nat) reader" where
  "event2_digests_and_size event_type digest_count overrides d c =
     and_then (parse_event2_digests event_type digest_count overrides Auto d c) (\<lambda>(digests, c1).
     and_then (read_u32_le d c1) (\<lambda>(event_data_size, c1).
     if MAX_EVENT_DATA_SIZE < unat event_data_size \<or> length d < c1 + unat event_data_size then
       and_then (parse_event2_digests event_type digest_count overrides WithPrefix d c) (\<lambda>(digests, c2).
       and_then (read_u32_le d c2) (\<lambda>(event_data_size, c2).
       Inr ((digests, unat event_data_size), c2)))
     else Inr ((digests, unat event_data_size), c1)))"

text \<open>One iteration of \<open>parse_event2_entries_from\<close>: the event and the updated digest sizes.\<close>

definition parse_event2_entry :: "alg_sizes \<Rightarrow> (event \<times> alg_sizes) reader" where
  "parse_event2_entry overrides d c =
     (if length d - c < 12 then io_fail UnexpectedEof ''event log truncated mid-entry''
      else
        and_then (read_u32_le d c) (\<lambda>(pcr_index, c).
        and_then (read_u32_le d c) (\<lambda>(event_type, c).
        and_then (read_u32_le d c) (\<lambda>(digest_count, c).
        if MAX_DIGEST_COUNT < unat digest_count
        then io_fail InvalidData
          (''digest count '' @ fmt_dec (unat digest_count) @ '' exceeds safety limit'')
        else
          and_then (event2_digests_and_size event_type (unat digest_count) overrides d c)
            (\<lambda>((digests, event_data_size), c).
          and_then (event_data_read (event_type = SPEC_ID_EVENT_TYPE) event_data_size d c)
            (\<lambda>(event_data, c).
          let e = \<lparr>ev_pcr_index = pcr_index, ev_event_type = event_type, ev_digests = digests,
                   ev_event_data = event_data\<rparr>
          in if event_type = SPEC_ID_EVENT_TYPE then
               and_then (try_parse_spec_id_event event_data) (\<lambda>spec.
               Inr ((e, case spec of Some sp \<Rightarrow> insert_overrides (si_algorithms sp) overrides
                                    | None \<Rightarrow> overrides), c))
             else Inr ((e, overrides), c)))))))"

section \<open>The loops\<close>

text \<open>Every entry of the 1.2 format takes at least 32 bytes, so its loop advances.\<close>

lemma event_data_read_Inr:
  "event_data_read r sz d c = Inr (b, c') \<Longrightarrow>
     c' = c + sz \<and> c' \<le> length d \<and> b = take sz (drop c d) \<and> sz \<le> MAX_EVENT_DATA_SIZE \<and> (r \<longrightarrow> sz \<noteq> 0)"
  by (auto simp: event_data_read_def and_then_eq_Inr rs_slice_eq_Inr split: if_splits)

lemma read_u16_le_Inr: "read_u16_le d c = Inr (v, c') \<Longrightarrow> c' = c + 2 \<and> c' \<le> length d"
  by (auto simp: read_u16_le_def split: if_splits)

lemma read_u32_le_Inr: "read_u32_le d c = Inr (v, c') \<Longrightarrow> c' = c + 4 \<and> c' \<le> length d"
  by (auto simp: read_u32_le_def split: if_splits)

lemma parse_event1_digests_Inr:
  "parse_event1_digests d c = Inr (ds, c') \<Longrightarrow> c' = c + 20 \<and> c' \<le> length d"
  by (auto simp: parse_event1_digests_def and_then_eq_Inr split: if_splits)

lemma parse_event1_entry_Inr:
  "parse_event1_entry d c = Inr (e, c') \<Longrightarrow> c + 32 \<le> c' \<and> c' \<le> length d"
  by (auto simp: parse_event1_entry_def and_then_eq_Inr split: if_splits
      dest!: read_u32_le_Inr parse_event1_digests_Inr event_data_read_Inr)

function parse_event1_entries_from :: "bytes \<Rightarrow> nat \<Rightarrow> event list \<Rightarrow> event list io_res" where
  "parse_event1_entries_from d c events =
     (if c < length d then
        case parse_event1_entry d c of
          Inl e \<Rightarrow> Inl e
        | Inr (event, c') \<Rightarrow> parse_event1_entries_from d c' (events @ [event])
      else Inr events)"
  by pat_completeness auto
termination
  by (relation "measure (\<lambda>(d, c, events). length d - c)")
    (fastforce dest: parse_event1_entry_Inr)+

function parse_event2_entries_from ::
    "bytes \<Rightarrow> nat \<Rightarrow> event list \<Rightarrow> alg_sizes \<Rightarrow> event list io_res" where
  "parse_event2_entries_from d c events overrides =
     (if c < length d then
        case parse_event2_entry overrides d c of
          Inl e \<Rightarrow> Inl e
        | Inr ((event, overrides'), c') \<Rightarrow>
            if c' \<le> c then io_fail InvalidData ''event parser made no progress''
            else parse_event2_entries_from d c' (events @ [event]) overrides'
      else Inr events)"
  by pat_completeness auto
termination
  by (relation "measure (\<lambda>(d, c, events, ov). length d - c)") auto

declare parse_event1_entries_from.simps [simp del] parse_event2_entries_from.simps [simp del]

section \<open>The parsers of the binary formats\<close>

definition parse_event_log_event2 :: "bytes \<Rightarrow> event list io_res" where
  "parse_event_log_event2 d = parse_event2_entries_from d 0 [] Map.empty"

definition parse_event_log_event1 :: "bytes \<Rightarrow> event list io_res" where
  "parse_event_log_event1 d = parse_event1_entries_from d 0 []"

text \<open>A 1.2 event first; its Spec ID data decides the format of the rest.\<close>

definition parse_event_log_with_event1_spec :: "bytes \<Rightarrow> event list io_res" where
  "parse_event_log_with_event1_spec d =
     and_then (parse_event1_entry d 0) (\<lambda>(spec_event, c).
     and_then (try_parse_spec_id_event (ev_event_data spec_event)) (\<lambda>spec.
     let algorithms = (case spec of Some sp \<Rightarrow> si_algorithms sp | None \<Rightarrow> []);
         overrides = insert_overrides algorithms Map.empty;
         spec_version_major = (case spec of Some sp \<Rightarrow> si_spec_version_major sp | None \<Rightarrow> 0);
         has_multiple_algorithms =
           list_ex (\<lambda>a. sa_algorithm_id a \<noteq> pcr_to_alg_id Pcr_Sha1) algorithms
     in if 2 \<le> spec_version_major \<or> has_multiple_algorithms
        then parse_event2_entries_from d c [spec_event] overrides
        else parse_event1_entries_from d c [spec_event]))"

section \<open>JSON lines\<close>

text \<open>The value type of \<open>serde_json\<close> and what its derived parser returns for a line.\<close>

datatype json_value =
    J_Null | J_Bool bool | J_Number string | J_String string
  | J_Array "json_value list" | J_Object "(string \<times> json_value) list"

record json_digest_entry =
  jd_hash_alg :: string
  jd_digest :: string

record json_text_event =
  je_pcr :: u32
  je_digests :: "json_digest_entry list"
  je_event_type :: "string option"
  je_content :: "json_value option"

definition map_json_event_type :: "string \<Rightarrow> u32 option" where
  "map_json_event_type name = (if name = ''phase'' then Some 0x0000000D else None)"

fun extract_event_type_from_content :: "json_value \<Rightarrow> u32 option" where
  "extract_event_type_from_content (J_Object m) =
     (case map_of m ''eventType'' of
        Some (J_String name) \<Rightarrow> map_json_event_type name
      | _ \<Rightarrow> None)"
| "extract_event_type_from_content _ = None"

definition json_event_type :: "json_text_event \<Rightarrow> u32" where
  "json_event_type e =
     (case (case je_event_type e of Some name \<Rightarrow> map_json_event_type name | None \<Rightarrow> None) of
        Some mapped \<Rightarrow> mapped
      | None \<Rightarrow>
          (case (case je_content e of Some content \<Rightarrow> extract_event_type_from_content content
                                    | None \<Rightarrow> None) of
             Some mapped \<Rightarrow> mapped
           | None \<Rightarrow> SYSTEMD_EVENT_TYPE))"

text \<open>An entry with an unknown algorithm is skipped; a bad digest ends the conversion.\<close>

fun convert_json_digests ::
    "(string \<Rightarrow> string + bytes) \<Rightarrow> json_digest_entry list \<Rightarrow> event_digest list io_res" where
  "convert_json_digests hex_decode [] = Inr []"
| "convert_json_digests hex_decode (j # js) =
     (case pcr_algorithm_from_str (jd_hash_alg j) of
        Inl _ \<Rightarrow> convert_json_digests hex_decode js
      | Inr alg \<Rightarrow>
          (case hex_decode (jd_digest j) of
             Inl err \<Rightarrow> io_fail InvalidData
               (''invalid hex digest for algorithm '' @ jd_hash_alg j @ '': '' @ err)
           | Inr bs \<Rightarrow>
               if length bs \<noteq> pcr_digest_len alg
               then io_fail InvalidData
                 (''digest length '' @ fmt_dec (length bs) @ '' for algorithm '' @ jd_hash_alg j @
                  '' (expected '' @ fmt_dec (pcr_digest_len alg) @ '')'')
               else
                 and_then (convert_json_digests hex_decode js) (\<lambda>ds.
                 Inr (\<lparr>ed_alg_id = pcr_to_alg_id alg, ed_digest = bs\<rparr> # ds))))"

definition convert_json_event ::
    "(string \<Rightarrow> string + bytes) \<Rightarrow> rs_str \<Rightarrow> json_text_event \<Rightarrow> event io_res" where
  "convert_json_event hex_decode raw_line parsed =
     and_then (convert_json_digests hex_decode (je_digests parsed)) (\<lambda>digests.
     Inr \<lparr>ev_pcr_index = je_pcr parsed, ev_event_type = json_event_type parsed,
          ev_digests = digests, ev_event_data = str_bytes raw_line\<rparr>)"

fun json_lines ::
    "(rs_str \<Rightarrow> string + json_text_event) \<Rightarrow> (string \<Rightarrow> string + bytes) \<Rightarrow> nat \<Rightarrow> rs_str list \<Rightarrow>
     event list io_res" where
  "json_lines from_json hex_decode idx [] = Inr []"
| "json_lines from_json hex_decode idx (line # rest) =
     (let trimmed = str_trim line in
      if trimmed = [] then json_lines from_json hex_decode (idx + 1) rest
      else
        case from_json trimmed of
          Inl err \<Rightarrow> io_fail InvalidData
            (''json event parse error on line '' @ fmt_dec (idx + 1) @ '': '' @ err)
        | Inr parsed \<Rightarrow>
            and_then (convert_json_event hex_decode trimmed parsed) (\<lambda>event.
            and_then (json_lines from_json hex_decode (idx + 1) rest) (\<lambda>events.
            Inr (event # events))))"

definition parse_json_event_log ::
    "(rs_str \<Rightarrow> string + json_text_event) \<Rightarrow> (string \<Rightarrow> string + bytes) \<Rightarrow> bytes \<Rightarrow> event list io_res" where
  "parse_json_event_log from_json hex_decode d =
     (let normalized = map (\<lambda>b. if b = 0x1e then 0x0A else b) d in
      case from_utf8 0 normalized of
        Inl err \<Rightarrow> io_fail InvalidData
          (''text event log is not valid UTF-8: '' @ utf8_error_display err)
      | Inr text \<Rightarrow>
          and_then (json_lines from_json hex_decode 0 (str_lines text)) (\<lambda>events.
          if events = [] then io_fail InvalidData ''no JSON events detected''
          else Inr events))"

definition parse_event_log ::
    "(rs_str \<Rightarrow> string + json_text_event) \<Rightarrow> (string \<Rightarrow> string + bytes) \<Rightarrow> bytes \<Rightarrow> event list io_res" where
  "parse_event_log from_json hex_decode d =
     or_else (or_else (or_else (parse_event_log_with_event1_spec d)
       (\<lambda>_. parse_event_log_event2 d))
       (\<lambda>_. parse_event_log_event1 d))
       (\<lambda>_. parse_json_event_log from_json hex_decode d)"

section \<open>Replaying PCRs\<close>

text \<open>The three hash functions of the cryptographic library.\<close>

record hash_functions =
  hf_sha1 :: "bytes \<Rightarrow> bytes"
  hf_sha256 :: "bytes \<Rightarrow> bytes"
  hf_sha384 :: "bytes \<Rightarrow> bytes"

fun extend_digest :: "hash_functions \<Rightarrow> pcr_algorithm \<Rightarrow> bytes \<Rightarrow> bytes \<Rightarrow> bytes" where
  "extend_digest h Pcr_Sha1 current measurement = hf_sha1 h (concat [current, measurement])"
| "extend_digest h Pcr_Sha256 current measurement = hf_sha256 h (concat [current, measurement])"
| "extend_digest h Pcr_Sha384 current measurement = hf_sha384 h (concat [current, measurement])"

text \<open>One event: ignored without a digest of the bank's length, otherwise the PCR is extended.\<close>

definition replay_event ::
    "hash_functions \<Rightarrow> pcr_algorithm \<Rightarrow> event \<Rightarrow> (u32 \<rightharpoonup> bytes) \<Rightarrow> (u32 \<rightharpoonup> bytes)" where
  "replay_event h alg e state =
     (case digest_for_algorithm e alg of
        None \<Rightarrow> state
      | Some measurement \<Rightarrow>
          if length measurement \<noteq> pcr_digest_len alg then state
          else
            let entry = (case state (ev_pcr_index e) of
                           Some v \<Rightarrow> v | None \<Rightarrow> replicate (pcr_digest_len alg) 0)
            in state(ev_pcr_index e \<mapsto> extend_digest h alg entry measurement))"

definition replay_pcrs :: "hash_functions \<Rightarrow> event list \<Rightarrow> pcr_algorithm \<Rightarrow> (u32 \<rightharpoonup> bytes)" where
  "replay_pcrs h events alg = foldl (\<lambda>state e. replay_event h alg e state) Map.empty events"

section \<open>Descriptions\<close>

definition event_type_description :: "u32 \<Rightarrow> string option" where
  "event_type_description t =
     map_of
      [(0x00000000, ''EV_PREBOOT_CERT''), (0x00000001, ''EV_POST_CODE''), (0x00000002, ''EV_UNUSED''),
       (0x00000003, ''EV_NO_ACTION''), (0x00000004, ''EV_SEPARATOR''), (0x00000005, ''EV_ACTION''),
       (0x00000006, ''EV_EVENT_TAG''), (0x00000007, ''EV_S_CRTM_CONTENTS''),
       (0x00000008, ''EV_S_CRTM_VERSION''), (0x00000009, ''EV_CPU_MICROCODE''),
       (0x0000000A, ''EV_PLATFORM_CONFIG_FLAGS''), (0x0000000B, ''EV_TABLE_OF_DEVICES''),
       (0x0000000C, ''EV_COMPACT_HASH''), (0x0000000D, ''EV_IPL''),
       (0x0000000E, ''EV_IPL_PARTITION_DATA''), (0x0000000F, ''EV_NONHOST_CODE''),
       (0x00000010, ''EV_NONHOST_CONFIG''), (0x00000011, ''EV_NONHOST_INFO''),
       (0x00000012, ''EV_OMIT_BOOT_DEVICE_EVENTS''), (0x80000000, ''EV_EFI_EVENT_BASE''),
       (0x80000001, ''EV_EFI_VARIABLE_DRIVER_CONFIG''), (0x80000002, ''EV_EFI_VARIABLE_BOOT''),
       (0x80000003, ''EV_EFI_BOOT_SERVICES_APPLICATION''),
       (0x80000004, ''EV_EFI_BOOT_SERVICES_DRIVER''),
       (0x80000005, ''EV_EFI_RUNTIME_SERVICES_DRIVER''), (0x80000006, ''EV_EFI_GPT_EVENT''),
       (0x80000007, ''EV_EFI_ACTION''), (0x80000008, ''EV_EFI_PLATFORM_FIRMWARE_BLOB''),
       (0x80000009, ''EV_EFI_HANDOFF_TABLES''), (0x8000000A, ''EV_EFI_VARIABLE_AUTHORITY''),
       (0x800000E0, ''EV_SYSTEMD_MEASURE'')] t"

definition is_mostly_printable :: "bytes \<Rightarrow> bool" where
  "is_mostly_printable d \<longleftrightarrow>
     d \<noteq> [] \<and>
     80 \<le> length (filter (\<lambda>b. (0x20 \<le> b \<and> b \<le> 0x7E) \<or> b = 0x0A \<or> b = 0x0D \<or> b = 0x09) d) * 100
           div max (length d) 1"

section \<open>Loading the logs (Linux)\<close>

text \<open>
  What the loader asks of the file system, as parameters: the kind of a path, the entries
  of a directory with their own errors, the contents of a file. A path is its displayed
  string; sorting the paths of one directory compares them bytewise.
\<close>

datatype file_kind = Is_Dir | Is_File | Is_Other

record file_system =
  fs_metadata :: "string \<Rightarrow> io_error + file_kind"
  fs_read_dir :: "string \<Rightarrow> io_error + (io_error + (string \<times> (io_error + file_kind))) list"
  fs_read :: "string \<Rightarrow> io_error + bytes"

definition DEFAULT_EVENT_LOG_PATHS :: "string list" where
  "DEFAULT_EVENT_LOG_PATHS =
     [''/sys/kernel/security/tpm0/binary_bios_measurements'',
      ''/sys/kernel/security/tpm/binary_bios_measurements'',
      ''/sys/firmware/acpi/tables/data/TCG0'',
      ''/run/log/systemd/tpm2-measure.log'']"

definition path_error :: "string \<Rightarrow> io_error \<Rightarrow> io_error" where
  "path_error path err = Io_Msg (io_error_kind err) (path @ '': '' @ io_error_display err)"

text \<open>The loop over the candidates: missing files are skipped, the last other error is kept.\<close>

fun load_candidates ::
    "file_system \<Rightarrow> string list \<Rightarrow> (bytes \<times> string) list \<Rightarrow> io_error option \<Rightarrow>
     (bytes \<times> string) list \<times> io_error option" where
  "load_candidates fs [] found last_err = (found, last_err)"
| "load_candidates fs (p # ps) found last_err =
     (case fs_read fs p of
        Inr bs \<Rightarrow> load_candidates fs ps (found @ [(bs, p)]) last_err
      | Inl err \<Rightarrow>
          load_candidates fs ps found
            (if io_error_kind err \<noteq> NotFound then Some (path_error p err) else last_err))"

definition load_default_logs :: "file_system \<Rightarrow> (bytes \<times> string) list io_res" where
  "load_default_logs fs =
     (case load_candidates fs DEFAULT_EVENT_LOG_PATHS [] None of
        (found, last_err) \<Rightarrow>
          if found = [] then
            (case last_err of
               Some e \<Rightarrow> Inl (Fail e)
             | None \<Rightarrow> io_fail NotFound ''TPM event log not found in default locations'')
          else Inr found)"

fun read_paths :: "file_system \<Rightarrow> string list \<Rightarrow> (bytes \<times> string) list io_res" where
  "read_paths fs [] = Inr []"
| "read_paths fs (p # ps) =
     (case fs_read fs p of
        Inl err \<Rightarrow> Inl (Fail (path_error p err))
      | Inr bs \<Rightarrow> and_then (read_paths fs ps) (\<lambda>rest. Inr ((bs, p) # rest)))"

definition load_from_paths :: "file_system \<Rightarrow> string list \<Rightarrow> (bytes \<times> string) list io_res" where
  "load_from_paths fs paths =
     and_then (read_paths fs paths) (\<lambda>found.
     if found = [] then io_fail NotFound ''No event log data located'' else Inr found)"

fun regular_file :: "io_error + (string \<times> (io_error + file_kind)) \<Rightarrow> string option" where
  "regular_file (Inr (p, Inr Is_File)) = Some p"
| "regular_file _ = None"

definition load_explicit_logs :: "file_system \<Rightarrow> string \<Rightarrow> (bytes \<times> string) list io_res" where
  "load_explicit_logs fs path =
     (case fs_metadata fs path of
        Inl err \<Rightarrow> Inl (Fail err)
      | Inr Is_Dir \<Rightarrow>
          (case fs_read_dir fs path of
             Inl err \<Rightarrow> Inl (Fail err)
           | Inr es \<Rightarrow>
               let entries = sort (List.map_filter regular_file es) in
               if entries = [] then io_fail NotFound (''No files found in '' @ path)
               else load_from_paths fs entries)
      | Inr Is_File \<Rightarrow>
          (case fs_read fs path of
             Inr bs \<Rightarrow> Inr [(bs, path)]
           | Inl err \<Rightarrow> Inl (Fail (path_error path err)))
      | Inr Is_Other \<Rightarrow> io_fail InvalidInput (''Unsupported path type: '' @ path))"

definition load_event_logs :: "file_system \<Rightarrow> string option \<Rightarrow> (bytes \<times> string) list io_res" where
  "load_event_logs fs path =
     (case path of Some p \<Rightarrow> load_explicit_logs fs p | None \<Rightarrow> load_default_logs fs)"

definition load_event_log :: "file_system \<Rightarrow> string option \<Rightarrow> (bytes \<times> string) io_res" where
  "load_event_log fs path =
     and_then (load_event_logs fs path) (\<lambda>found.
     case found of
       x # _ \<Rightarrow> Inr x
     | [] \<Rightarrow> io_fail NotFound ''TPM event log not found in provided locations'')"

end
