(* ===== verification/Repr_C.thy ===== *)
theory Repr_C
  imports Tpm_Wire
begin

text \<open>
  C structures over byte buffers. The SDK copies report bytes over \<open>repr(C)\<close> and packed
  structures whose fields follow each other without padding: \<open>c_fields\<close> cuts a buffer into
  the fields of such a structure, given their sizes.
\<close>

fun c_fields :: "nat list \<Rightarrow> bytes \<Rightarrow> bytes list" where
  "c_fields [] d = []"
| "c_fields (n # ns) d = take n d # c_fields ns (drop n d)"

lemma length_c_fields [simp]: "length (c_fields ns d) = length ns"
  by (induction ns arbitrary: d) auto

lemma c_fields_concat: "map length fs = ns \<Longrightarrow> c_fields ns (concat fs @ rest) = fs"
  by (induction fs arbitrary: ns) auto

lemma c_fields_of_concat: "map length fs = ns \<Longrightarrow> c_fields ns (concat fs) = fs"
  using c_fields_concat [of fs ns "[]"] by simp

text \<open>Field \<open>k\<close> of a structure stands behind the fields before it.\<close>

lemma nth_c_fields:
  "k < length ns \<Longrightarrow> c_fields ns d ! k = take (ns ! k) (drop (sum_list (take k ns)) d)"
proof (induction ns arbitrary: k d)
  case (Cons n ns)
  then show ?case by (cases k) (simp_all add: add.commute)
qed simp

end
