(* ===== verification/Td_Quote.thy ===== *)
theory Td_Quote
  imports Repr_C Rust_Text
begin

text \<open>
  \<open>crates/azure-guest-attestation-sdk/src/tee_report/td_quote.rs\<close>: the decoder of Intel TDX
  quotes, versions 4 and 5. The envelope of the quote generation service, the header with its
  version-dependent tail, the body descriptor and its fallback sizes, the three body
  layouts, the signature block with its certification data.
\<close>

section \<open>Structures\<close>

definition SGX_ECDSA_SIGNATURE_SIZE :: nat where "SGX_ECDSA_SIGNATURE_SIZE = 64"
definition SGX_EC_P256_POINT_SIZE :: nat where "SGX_EC_P256_POINT_SIZE = 64"
definition SGX_REPORT_BODY_SIZE :: nat where "SGX_REPORT_BODY_SIZE = 384"
definition SGX_QL_CERTIFICATION_DATA_HEADER_SIZE :: nat where "SGX_QL_CERTIFICATION_DATA_HEADER_SIZE = 6"
definition SGX_QL_AUTH_DATA_HEADER_SIZE :: nat where "SGX_QL_AUTH_DATA_HEADER_SIZE = 2"
definition SGX_QL_CERT_KEY_TYPE_PCK_CERT_CHAIN :: u16 where "SGX_QL_CERT_KEY_TYPE_PCK_CERT_CHAIN = 5"
definition SGX_QL_CERT_KEY_TYPE_ECDSA_SIG_AUX_DATA :: u16 where
  "SGX_QL_CERT_KEY_TYPE_ECDSA_SIG_AUX_DATA = 6"
definition TD_QUOTE_HEADER_V4_SIZE :: nat where "TD_QUOTE_HEADER_V4_SIZE = 48"
definition TD_QUOTE_HEADER_V5_SIZE :: nat where "TD_QUOTE_HEADER_V5_SIZE = 54"
definition TD_QUOTE_BODY_DESCRIPTOR_HEADER_SIZE :: nat where "TD_QUOTE_BODY_DESCRIPTOR_HEADER_SIZE = 8"
definition TD_QUOTE_BODY_V1_0_SIZE :: nat where "TD_QUOTE_BODY_V1_0_SIZE = 584"
definition TD_QUOTE_BODY_V1_5_SIZE :: nat where "TD_QUOTE_BODY_V1_5_SIZE = 648"
definition TD_QUOTE_BODY_V1_5_EX_SIZE :: nat where "TD_QUOTE_BODY_V1_5_EX_SIZE = 885"
definition QGS_GET_QUOTE_RESP_PREFIX_SIZE :: nat where "QGS_GET_QUOTE_RESP_PREFIX_SIZE = 24"
definition QGS_MSG_TYPE_GET_QUOTE_RESP :: u32 where "QGS_MSG_TYPE_GET_QUOTE_RESP = 1"

lemmas quote_sizes =
  SGX_ECDSA_SIGNATURE_SIZE_def SGX_EC_P256_POINT_SIZE_def SGX_REPORT_BODY_SIZE_def
  SGX_QL_CERTIFICATION_DATA_HEADER_SIZE_def SGX_QL_AUTH_DATA_HEADER_SIZE_def
  TD_QUOTE_HEADER_V4_SIZE_def TD_QUOTE_HEADER_V5_SIZE_def TD_QUOTE_BODY_DESCRIPTOR_HEADER_SIZE_def
  TD_QUOTE_BODY_V1_0_SIZE_def TD_QUOTE_BODY_V1_5_SIZE_def TD_QUOTE_BODY_V1_5_EX_SIZE_def
  QGS_GET_QUOTE_RESP_PREFIX_SIZE_def

datatype td_quote_body_type = SgxFuture | Tdx10 | Tdx15 | Tdx15Ex

definition body_type_from_raw :: "u16 \<Rightarrow> td_quote_body_type option" where
  "body_type_from_raw v =
     (if v = 1 then Some SgxFuture else if v = 2 then Some Tdx10
      else if v = 3 then Some Tdx15 else if v = 4 then Some Tdx15Ex else None)"

record td_quote_header =
  qh_version :: u16
  qh_attestation_key_type :: u16
  qh_tee_type :: u32
  qh_qe_svn :: u16
  qh_pce_svn :: u16
  qh_qe_vendor_id :: bytes
  qh_user_data :: bytes
  qh_body_type :: u16
  qh_body_size :: u32

record td_quote_body_descriptor =
  bd_body_type :: u16
  bd_reserved :: u16
  bd_size :: u32

record td_quote_body_tdx10 =
  b10_tee_tcb_svn :: bytes
  b10_mr_seam :: bytes
  b10_mr_signer_seam :: bytes
  b10_seam_attributes :: bytes
  b10_td_attributes :: bytes
  b10_xfam :: bytes
  b10_mr_td :: bytes
  b10_mr_config_id :: bytes
  b10_mr_owner :: bytes
  b10_mr_owner_config :: bytes
  b10_rtmr0 :: bytes
  b10_rtmr1 :: bytes
  b10_rtmr2 :: bytes
  b10_rtmr3 :: bytes
  b10_report_data :: bytes

record td_quote_body_tdx15 =
  b15_base :: td_quote_body_tdx10
  b15_tee_tcb_svn_2 :: bytes
  b15_mr_service_td :: bytes

record td_quote_body_tdx15_ex =
  bex_base :: td_quote_body_tdx15
  bex_vmid :: u8
  bex_td_id :: bytes
  bex_devinfo :: bytes
  bex_init_server_td_hash :: bytes
  bex_init_server_td_attr :: bytes
  bex_init_cpu_svn :: bytes
  bex_init_tee_tcb_svn :: bytes
  bex_init_tee_fmspc :: bytes
  bex_curr_server_td_hash :: bytes
  bex_curr_server_td_attr :: bytes

datatype td_quote_body =
    Body_Tdx10 td_quote_body_tdx10
  | Body_Tdx15 td_quote_body_tdx15
  | Body_Tdx15Ex td_quote_body_tdx15_ex
  | Body_Unknown u16 bytes

datatype td_quote_parse_error =
    Quote_Truncated string
  | InvalidBodySize u16 nat nat

datatype td_quote_signature_error =
    Signature_Truncated string
  | Signature_InvalidFormat string

record td_quote_pck_cert_chain =
  pck_cert_chain :: bytes
  pck_qe_identity :: "bytes option"
  pck_remainder :: bytes

datatype td_quote_nested_certification =
    Nested_PckCertChain td_quote_pck_cert_chain
  | Nested_Raw u16 bytes

record td_quote_ecdsa_certification =
  ec_qe_report :: bytes
  ec_qe_report_signature :: bytes
  ec_auth_data :: bytes
  ec_nested_certification :: "td_quote_nested_certification option"
  ec_remainder :: bytes

datatype td_quote_certification =
    Cert_EcdsaSigAux td_quote_ecdsa_certification
  | Cert_Raw u16 bytes

record td_quote_signature =
  qs_signature :: bytes
  qs_attestation_public_key :: bytes
  qs_certification :: "td_quote_certification option"
  qs_remainder :: bytes

record parsed_td_quote =
  pq_header :: td_quote_header
  pq_body_header :: td_quote_body_descriptor
  pq_body :: td_quote_body
  pq_signature_data_len :: u32
  pq_signature_data :: bytes
  pq_signature :: "td_quote_signature option"
  pq_signature_parse_error :: "td_quote_signature_error option"
  pq_remainder :: bytes

datatype td_quote_signature_mode = Strict | AllowMissing

section \<open>Layouts\<close>

text \<open>What \<open>read_unaligned\<close> makes of the bytes of each structure.\<close>

definition header_of_wire_v4 :: "bytes \<Rightarrow> td_quote_header" where
  "header_of_wire_v4 b =
     (let f = c_fields [2, 2, 4, 2, 2, 16, 20] b
      in \<lparr>qh_version = of_le (f ! 0), qh_attestation_key_type = of_le (f ! 1),
          qh_tee_type = of_le (f ! 2), qh_qe_svn = of_le (f ! 3), qh_pce_svn = of_le (f ! 4),
          qh_qe_vendor_id = f ! 5, qh_user_data = f ! 6, qh_body_type = 0, qh_body_size = 0\<rparr>)"

definition descriptor_of_wire :: "bytes \<Rightarrow> td_quote_body_descriptor" where
  "descriptor_of_wire b =
     (let f = c_fields [2, 2, 4] b
      in \<lparr>bd_body_type = of_le (f ! 0), bd_reserved = of_le (f ! 1), bd_size = of_le (f ! 2)\<rparr>)"

definition body10_sizes :: "nat list" where
  "body10_sizes = [16, 48, 48, 8, 8, 8, 48, 48, 48, 48, 48, 48, 48, 48, 64]"

definition body10_of_wire :: "bytes \<Rightarrow> td_quote_body_tdx10" where
  "body10_of_wire b =
     (let f = c_fields body10_sizes b
      in \<lparr>b10_tee_tcb_svn = f ! 0, b10_mr_seam = f ! 1, b10_mr_signer_seam = f ! 2,
          b10_seam_attributes = f ! 3, b10_td_attributes = f ! 4, b10_xfam = f ! 5,
          b10_mr_td = f ! 6, b10_mr_config_id = f ! 7, b10_mr_owner = f ! 8,
          b10_mr_owner_config = f ! 9, b10_rtmr0 = f ! 10, b10_rtmr1 = f ! 11,
          b10_rtmr2 = f ! 12, b10_rtmr3 = f ! 13, b10_report_data = f ! 14\<rparr>)"

definition body15_of_wire :: "bytes \<Rightarrow> td_quote_body_tdx15" where
  "body15_of_wire b =
     (let f = c_fields [TD_QUOTE_BODY_V1_0_SIZE, 16, 48] b
      in \<lparr>b15_base = body10_of_wire (f ! 0), b15_tee_tcb_svn_2 = f ! 1, b15_mr_service_td = f ! 2\<rparr>)"

definition body15_ex_of_wire :: "bytes \<Rightarrow> td_quote_body_tdx15_ex" where
  "body15_ex_of_wire b =
     (let f = c_fields [TD_QUOTE_BODY_V1_5_SIZE, 1, 32, 48, 48, 8, 16, 16, 12, 48, 8] b
      in \<lparr>bex_base = body15_of_wire (f ! 0), bex_vmid = of_le (f ! 1), bex_td_id = f ! 2,
          bex_devinfo = f ! 3, bex_init_server_td_hash = f ! 4, bex_init_server_td_attr = f ! 5,
          bex_init_cpu_svn = f ! 6, bex_init_tee_tcb_svn = f ! 7, bex_init_tee_fmspc = f ! 8,
          bex_curr_server_td_hash = f ! 9, bex_curr_server_td_attr = f ! 10\<rparr>)"

section \<open>The envelope of the quote generation service\<close>

definition le32_at :: "bytes \<Rightarrow> nat \<Rightarrow> u32" where
  "le32_at d off = of_le (take 4 (drop off d))"

definition le16_at :: "bytes \<Rightarrow> nat \<Rightarrow> u16" where
  "le16_at d off = of_le (take 2 (drop off d))"

definition looks_like_td_quote_header :: "bytes \<Rightarrow> bool" where
  "looks_like_td_quote_header b \<longleftrightarrow>
     TD_QUOTE_HEADER_V4_SIZE \<le> length b \<and>
     le16_at b 0 \<in> {4, 5} \<and> le32_at b 4 \<in> {0x00, 0x81}"

definition unwrap_qgs_get_quote_response :: "bytes \<Rightarrow> bytes option" where
  "unwrap_qgs_get_quote_response b =
     (if length b < QGS_GET_QUOTE_RESP_PREFIX_SIZE then None
      else
        let msg_type = le32_at b 4; sz = unat (le32_at b 8);
            selected_id_size = unat (le32_at b 16); quote_size = unat (le32_at b 20)
        in if msg_type \<noteq> QGS_MSG_TYPE_GET_QUOTE_RESP \<or> sz \<noteq> length b then None
           else
             Option.bind (checked_add_usize QGS_GET_QUOTE_RESP_PREFIX_SIZE selected_id_size) (\<lambda>quote_start.
             Option.bind (checked_add_usize quote_start quote_size) (\<lambda>quote_end.
             if length b < quote_end then None
             else
               let inner = take (quote_end - quote_start) (drop quote_start b)
               in if looks_like_td_quote_header inner then Some inner else None)))"

section \<open>The signature block\<close>

type_synonym 'a sig_reader = "bytes \<Rightarrow> nat \<Rightarrow> (td_quote_signature_error, 'a \<times> nat) res"

text \<open>\<open>ByteCursor\<close>: the buffer and the offset, moved by \<open>take\<close>.\<close>

definition cursor_take :: "nat \<Rightarrow> string \<Rightarrow> bytes sig_reader" where
  "cursor_take n context d c =
     (if length d < c + n then Inl (Fail (Signature_Truncated context))
      else and_then (rs_slice d c (c + n)) (\<lambda>b. Inr (b, c + n)))"

definition cursor_take_u16 :: "string \<Rightarrow> u16 sig_reader" where
  "cursor_take_u16 context d c =
     and_then (cursor_take 2 context d c) (\<lambda>(b, c). Inr (of_le b, c))"

definition cursor_take_u32 :: "string \<Rightarrow> u32 sig_reader" where
  "cursor_take_u32 context d c =
     and_then (cursor_take 4 context d c) (\<lambda>(b, c). Inr (of_le b, c))"

definition plain_chain :: "bytes \<Rightarrow> td_quote_pck_cert_chain" where
  "plain_chain payload = \<lparr>pck_cert_chain = payload, pck_qe_identity = None, pck_remainder = []\<rparr>"

definition parse_pck_cert_chain :: "bytes \<Rightarrow> (td_quote_signature_error, td_quote_pck_cert_chain) res" where
  "parse_pck_cert_chain payload =
     (if length payload < 2 then Inr (plain_chain payload)
      else
        let declared_len = unat (le16_at payload 0) in
        if declared_len = 0 \<or> length payload - 2 < declared_len then Inr (plain_chain payload)
        else if length payload < 2 + declared_len
        then Inl (Fail (Signature_Truncated ''PCK cert chain payload''))
        else
          and_then (rs_slice payload 2 (2 + declared_len)) (\<lambda>cert_chain.
          let offset = 2 + declared_len in
          if offset + 2 \<le> length payload then
            let qe_len = unat (le16_at payload offset); offset = offset + 2 in
            if 0 < qe_len then
              if length payload < offset + qe_len
              then Inl (Fail (Signature_Truncated ''QE identity payload''))
              else
                and_then (rs_slice payload offset (offset + qe_len)) (\<lambda>qe_identity.
                Inr \<lparr>pck_cert_chain = cert_chain, pck_qe_identity = Some qe_identity,
                     pck_remainder = drop (offset + qe_len) payload\<rparr>)
            else Inr \<lparr>pck_cert_chain = cert_chain, pck_qe_identity = None,
                      pck_remainder = drop offset payload\<rparr>
          else Inr \<lparr>pck_cert_chain = cert_chain, pck_qe_identity = None,
                    pck_remainder = drop offset payload\<rparr>))"

text \<open>\<open>match parse_pck_cert_chain(..) { Ok(chain) => .., Err(_) => Raw }\<close>.\<close>

definition nested_certification :: "u16 \<Rightarrow> bytes \<Rightarrow> (td_quote_signature_error, td_quote_nested_certification) res" where
  "nested_certification nested_type nested_payload =
     (if nested_type = SGX_QL_CERT_KEY_TYPE_PCK_CERT_CHAIN
      then or_else (and_then (parse_pck_cert_chain nested_payload) (\<lambda>chain. Inr (Nested_PckCertChain chain)))
             (\<lambda>_. Inr (Nested_Raw nested_type nested_payload))
      else Inr (Nested_Raw nested_type nested_payload))"

definition parse_nested_certification :: "td_quote_nested_certification option sig_reader" where
  "parse_nested_certification d c =
     (if drop c d = [] then Inr (None, c)
      else if length (drop c d) < SGX_QL_CERTIFICATION_DATA_HEADER_SIZE
      then Inl (Fail (Signature_Truncated ''nested certification data header''))
      else
        and_then (cursor_take_u16 ''nested certification type'' d c) (\<lambda>(nested_type, c).
        and_then (cursor_take_u32 ''nested certification size'' d c) (\<lambda>(nested_size, c).
        and_then (cursor_take (unat nested_size) ''nested certification payload'' d c) (\<lambda>(nested_payload, c).
        and_then (nested_certification nested_type nested_payload) (\<lambda>nested.
        Inr (Some nested, c))))))"

definition parse_ecdsa_sig_aux :: "bytes \<Rightarrow> (td_quote_signature_error, td_quote_certification) res" where
  "parse_ecdsa_sig_aux payload =
     (if length payload < SGX_REPORT_BODY_SIZE + SGX_ECDSA_SIGNATURE_SIZE + SGX_QL_AUTH_DATA_HEADER_SIZE
      then Inl (Fail (Signature_Truncated ''QE report certification data''))
      else
        and_then (cursor_take SGX_REPORT_BODY_SIZE ''QE report'' payload 0) (\<lambda>(qe_report, c).
        and_then (cursor_take SGX_ECDSA_SIGNATURE_SIZE ''QE report signature'' payload c) (\<lambda>(qe_sig, c).
        and_then (cursor_take_u16 ''auth data size'' payload c) (\<lambda>(auth_size, c).
        and_then (cursor_take (unat auth_size) ''auth data'' payload c) (\<lambda>(auth_data, c).
        and_then (parse_nested_certification payload c) (\<lambda>(nested, c).
        Inr (Cert_EcdsaSigAux
          \<lparr>ec_qe_report = qe_report, ec_qe_report_signature = qe_sig, ec_auth_data = auth_data,
           ec_nested_certification = nested, ec_remainder = drop c payload\<rparr>)))))))"

definition parse_certification :: "td_quote_certification sig_reader" where
  "parse_certification d c =
     (if length (drop c d) < SGX_QL_CERTIFICATION_DATA_HEADER_SIZE
      then Inl (Fail (Signature_Truncated ''certification data header''))
      else
        and_then (cursor_take_u16 ''certification data type'' d c) (\<lambda>(cert_key_type, c).
        and_then (cursor_take_u32 ''certification data size'' d c) (\<lambda>(cert_size, c).
        and_then (cursor_take (unat cert_size) ''certification data payload'' d c) (\<lambda>(payload, c).
        if cert_key_type = SGX_QL_CERT_KEY_TYPE_ECDSA_SIG_AUX_DATA
        then and_then (parse_ecdsa_sig_aux payload) (\<lambda>cert. Inr (cert, c))
        else Inr (Cert_Raw cert_key_type payload, c)))))"

definition parse_quote_signature ::
    "bytes \<Rightarrow> (td_quote_signature_error, td_quote_signature option) res" where
  "parse_quote_signature signature_data =
     (if signature_data = [] then Inr None
      else if length signature_data < SGX_ECDSA_SIGNATURE_SIZE + SGX_EC_P256_POINT_SIZE
      then Inl (Fail (Signature_Truncated ''quote signature components''))
      else
        and_then (cursor_take SGX_ECDSA_SIGNATURE_SIZE ''quote signature'' signature_data 0) (\<lambda>(signature, c).
        and_then (cursor_take SGX_EC_P256_POINT_SIZE ''attestation public key'' signature_data c) (\<lambda>(key, c).
        and_then
          (if drop c signature_data = [] then Inr (None, c)
           else and_then (parse_certification signature_data c) (\<lambda>(cert, c). Inr (Some cert, c)))
          (\<lambda>(certification, c).
        Inr (Some \<lparr>qs_signature = signature, qs_attestation_public_key = key,
                   qs_certification = certification, qs_remainder = drop c signature_data\<rparr>)))))"

section \<open>The quote\<close>

type_synonym 'a quote_reader = "bytes \<Rightarrow> nat \<Rightarrow> (td_quote_parse_error, 'a \<times> nat) res"

definition read_unaligned :: "nat \<Rightarrow> (bytes \<Rightarrow> 'a) \<Rightarrow> string \<Rightarrow> 'a quote_reader" where
  "read_unaligned n of_wire context d c =
     (if length d < c + n then Inl (Fail (Quote_Truncated context))
      else and_then (rs_slice d c (c + n)) (\<lambda>b. Inr (of_wire b, c + n)))"

text \<open>The header, whose body type and size follow in a tail from version 5 on.\<close>

definition read_header :: "td_quote_header quote_reader" where
  "read_header d c =
     and_then (read_unaligned TD_QUOTE_HEADER_V4_SIZE header_of_wire_v4 ''TD quote header'' d c) (\<lambda>(header, c).
     if 5 \<le> qh_version header then
       and_then (read_unaligned 6 (c_fields [2, 4]) ''TD quote header (v5 tail)'' d c) (\<lambda>(tl, c).
       Inr (header\<lparr>qh_body_type := of_le (tl ! 0), qh_body_size := of_le (tl ! 1)\<rparr>, c))
     else Inr (header, c))"

text \<open>
  The body descriptor: fixed for version 4, the header's tail otherwise, and a structure
  of its own when the tail is zero.
\<close>

definition read_body_descriptor ::
    "td_quote_header \<Rightarrow> (td_quote_header \<times> td_quote_body_descriptor) quote_reader" where
  "read_body_descriptor header d c =
     (let body_header = \<lparr>bd_body_type = qh_body_type header, bd_reserved = 0, bd_size = qh_body_size header\<rparr>;
          follow = (\<lambda>bd. (header\<lparr>qh_body_type := bd_body_type bd, qh_body_size := bd_size bd\<rparr>, bd))
      in if qh_version header \<le> 4
         then Inr (follow (body_header\<lparr>bd_body_type := 2, bd_size := of_nat TD_QUOTE_BODY_V1_0_SIZE\<rparr>), c)
         else if bd_body_type body_header = 0 \<and> bd_size body_header = 0
         then and_then (read_unaligned TD_QUOTE_BODY_DESCRIPTOR_HEADER_SIZE descriptor_of_wire
                ''quote body header'' d c) (\<lambda>(bd, c). Inr (follow bd, c))
         else Inr ((header, body_header), c))"

text \<open>The size of the body when the descriptor's does not fit the buffer.\<close>

definition settle_body_size ::
    "nat \<Rightarrow> td_quote_header \<Rightarrow> td_quote_body_descriptor \<Rightarrow>
     td_quote_header \<times> td_quote_body_descriptor \<times> nat" where
  "settle_body_size remaining header bd =
     (let body_size = unat (bd_size bd) in
      if remaining < body_size then
        let fallback_size = unat (bd_reserved bd);
            fallback_known = (fallback_size = TD_QUOTE_BODY_V1_0_SIZE \<or> fallback_size = TD_QUOTE_BODY_V1_5_SIZE)
        in if fallback_known \<and> fallback_size \<le> remaining then
             let bd = bd\<lparr>bd_size := of_nat fallback_size\<rparr>
             in (header\<lparr>qh_body_size := bd_size bd\<rparr>, bd, fallback_size)
           else if qh_body_size header \<noteq> 0 \<and> unat (qh_body_size header) \<le> remaining \<and> bd_body_type bd \<noteq> 0
           then (header, bd\<lparr>bd_size := qh_body_size header\<rparr>, unat (qh_body_size header))
           else (header, bd, body_size)
      else (header, bd, body_size))"

definition sized_body ::
    "u16 \<Rightarrow> nat \<Rightarrow> (bytes \<Rightarrow> td_quote_body) \<Rightarrow> bytes \<Rightarrow> (td_quote_parse_error, td_quote_body) res" where
  "sized_body body_type expected of_wire body_slice =
     (if length body_slice \<noteq> expected
      then Inl (Fail (InvalidBodySize body_type expected (length body_slice)))
      else Inr (of_wire body_slice))"

definition decode_body :: "u16 \<Rightarrow> bytes \<Rightarrow> (td_quote_parse_error, td_quote_body) res" where
  "decode_body body_type body_slice =
     (case body_type_from_raw body_type of
        Some Tdx10 \<Rightarrow> sized_body body_type TD_QUOTE_BODY_V1_0_SIZE (Body_Tdx10 \<circ> body10_of_wire) body_slice
      | Some Tdx15 \<Rightarrow> sized_body body_type TD_QUOTE_BODY_V1_5_SIZE (Body_Tdx15 \<circ> body15_of_wire) body_slice
      | Some Tdx15Ex \<Rightarrow>
          sized_body body_type TD_QUOTE_BODY_V1_5_EX_SIZE (Body_Tdx15Ex \<circ> body15_ex_of_wire) body_slice
      | _ \<Rightarrow> Inr (Body_Unknown body_type body_slice))"

definition read_signature ::
    "td_quote_signature_mode \<Rightarrow> bytes \<Rightarrow> nat \<Rightarrow> (td_quote_parse_error, u32 \<times> bytes \<times> bytes) res" where
  "read_signature mode d c =
     (if length d < c + 4 then
        case mode of
          Strict \<Rightarrow> Inl (Fail (Quote_Truncated ''quote signature length''))
        | AllowMissing \<Rightarrow> Inr (0, [], drop c d)
      else
        let declared_len = le32_at d c; c = c + 4; sig_len = unat declared_len in
        if length d < c + sig_len then
          case mode of
            Strict \<Rightarrow> Inl (Fail (Quote_Truncated ''quote signature blob''))
          | AllowMissing \<Rightarrow> Inr (of_nat (length d - c), drop c d, [])
        else
          and_then (rs_slice d c (c + sig_len)) (\<lambda>signature_data.
          Inr (declared_len, signature_data, drop (c + sig_len) d)))"

text \<open>\<open>match parse_quote_signature(signature_data) { Ok(sig) => (sig, None), Err(err) => (None, Some(err)) }\<close>.\<close>

definition signature_or_error ::
    "bytes \<Rightarrow> ('e, td_quote_signature option \<times> td_quote_signature_error option) res" where
  "signature_or_error signature_data =
     (case parse_quote_signature signature_data of
        Inr sig \<Rightarrow> Inr (sig, None)
      | Inl (Fail err) \<Rightarrow> Inr (None, Some err)
      | Inl Panic \<Rightarrow> Inl Panic)"

definition parse_td_quote_with_options ::
    "bytes \<Rightarrow> td_quote_signature_mode \<Rightarrow> (td_quote_parse_error, parsed_td_quote) res" where
  "parse_td_quote_with_options bs signature_mode =
     (let d = (case unwrap_qgs_get_quote_response bs of Some inner \<Rightarrow> inner | None \<Rightarrow> bs) in
      and_then (read_header d 0) (\<lambda>(header, c).
      and_then (read_body_descriptor header d c) (\<lambda>((header, bd), c).
      let (header, bd, body_size) = settle_body_size (length d - c) header bd in
      if length d < c + body_size then Inl (Fail (Quote_Truncated ''TD quote body''))
      else
        and_then (rs_slice d c (c + body_size)) (\<lambda>body_slice.
        and_then (decode_body (bd_body_type bd) body_slice) (\<lambda>body.
        and_then (read_signature signature_mode d (c + body_size)) (\<lambda>(signature_data_len, signature_data, remainder).
        and_then (signature_or_error signature_data) (\<lambda>(signature, signature_parse_error).
        Inr \<lparr>pq_header = header, pq_body_header = bd, pq_body = body,
             pq_signature_data_len = signature_data_len, pq_signature_data = signature_data,
             pq_signature = signature, pq_signature_parse_error = signature_parse_error,
             pq_remainder = remainder\<rparr>)))))))"

definition parse_td_quote :: "bytes \<Rightarrow> (td_quote_parse_error, parsed_td_quote) res" where
  "parse_td_quote bs = parse_td_quote_with_options bs Strict"

text \<open>\<open>ParsedTdQuote::pck_cert_chain\<close>.\<close>

definition quote_pck_cert_chain :: "parsed_td_quote \<Rightarrow> bytes option" where
  "quote_pck_cert_chain q =
     (case pq_signature q of
        Some sig \<Rightarrow>
          (case qs_certification sig of
             Some (Cert_EcdsaSigAux ecdsa) \<Rightarrow>
               (case ec_nested_certification ecdsa of
                  Some (Nested_PckCertChain chain) \<Rightarrow> Some (pck_cert_chain chain)
                | _ \<Rightarrow> None)
           | _ \<Rightarrow> None)
      | None \<Rightarrow> None)"

section \<open>Labels of a printed quote\<close>

definition body_type_label :: "u16 \<Rightarrow> string" where
  "body_type_label v =
     (case body_type_from_raw v of
        Some SgxFuture \<Rightarrow> ''SGX future body''
      | Some Tdx10 \<Rightarrow> ''TDX 1.0''
      | Some Tdx15 \<Rightarrow> ''TDX 1.5''
      | Some Tdx15Ex \<Rightarrow> ''TDX 1.5 (Service-TD ext)''
      | None \<Rightarrow> ''unknown'')"

fun td_quote_parse_error_display :: "td_quote_parse_error \<Rightarrow> string" where
  "td_quote_parse_error_display (Quote_Truncated what) = ''buffer too short while reading '' @ what"
| "td_quote_parse_error_display (InvalidBodySize body_type expected actual) =
     ''body type 0x'' @ fmt_04x body_type @ '' has size '' @ fmt_dec actual @ '', expected '' @ fmt_dec expected"

fun td_quote_signature_error_display :: "td_quote_signature_error \<Rightarrow> string" where
  "td_quote_signature_error_display (Signature_Truncated what) = ''buffer too short while reading '' @ what"
| "td_quote_signature_error_display (Signature_InvalidFormat what) = ''malformed '' @ what"

section \<open>No panic\<close>

lemma cursor_take_Inr:
  "cursor_take n ctx d c = Inr (b, c') \<longleftrightarrow> c + n \<le> length d \<and> c' = c + n \<and> b = take n (drop c d)"
  by (auto simp: cursor_take_def)

lemma cursor_take_no_panic [simp]:
  "cursor_take n ctx d c \<noteq> Inl Panic" "cursor_take_u16 ctx d c \<noteq> Inl Panic" "cursor_take_u32 ctx d c \<noteq> Inl Panic"
  by (auto simp: cursor_take_def cursor_take_u16_def cursor_take_u32_def and_then_eq_Inl)

lemma parse_pck_cert_chain_no_panic [simp]: "parse_pck_cert_chain p \<noteq> Inl Panic"
  by (auto simp: parse_pck_cert_chain_def Let_def and_then_eq_Inl)

lemma nested_certification_no_panic [simp]:
  "nested_certification t p \<noteq> Inl Panic" "parse_nested_certification d c \<noteq> Inl Panic"
  by (auto simp: nested_certification_def parse_nested_certification_def or_else_def and_then_eq_Inl
      split: sum.splits fault.splits)

lemma parse_quote_signature_no_panic [simp]:
  "parse_ecdsa_sig_aux p \<noteq> Inl Panic" "parse_certification d c \<noteq> Inl Panic"
  "parse_quote_signature s \<noteq> Inl Panic"
  by (auto simp: parse_ecdsa_sig_aux_def parse_certification_def parse_quote_signature_def and_then_eq_Inl)

lemma read_unaligned_Inr:
  "read_unaligned n f ctx d c = Inr (x, c') \<longleftrightarrow>
     c + n \<le> length d \<and> c' = c + n \<and> x = f (take n (drop c d))"
  by (auto simp: read_unaligned_def)

lemma read_unaligned_no_panic [simp]: "read_unaligned n f ctx d c \<noteq> Inl Panic"
  by (auto simp: read_unaligned_def)

lemma read_header_no_panic [simp]:
  "read_header d c \<noteq> Inl Panic" "read_body_descriptor h d c \<noteq> Inl Panic"
  by (auto simp: read_header_def read_body_descriptor_def and_then_eq_Inl Let_def)

lemma decode_body_no_panic [simp]: "decode_body t b \<noteq> Inl Panic"
  by (auto simp: decode_body_def sized_body_def split: option.split td_quote_body_type.split)

lemma read_signature_no_panic [simp]: "read_signature m d c \<noteq> Inl Panic"
  by (auto simp: read_signature_def Let_def split: td_quote_signature_mode.split)

lemma signature_or_error_no_panic [simp]: "signature_or_error s \<noteq> Inl Panic"
  by (auto simp: signature_or_error_def split: sum.split fault.split)

lemma signature_or_error_Inr:
  "signature_or_error s = Inr (sig, err) \<longleftrightarrow>
     (case err of None \<Rightarrow> parse_quote_signature s = Inr sig
      | Some e \<Rightarrow> parse_quote_signature s = Inl (Fail e) \<and> sig = None)"
  by (auto simp: signature_or_error_def split: sum.split fault.split option.split)

lemma parse_td_quote_no_panic: "parse_td_quote_with_options bs mode \<noteq> Inl Panic"
  by (auto simp: parse_td_quote_with_options_def Let_def and_then_eq_Inl
      split: prod.splits sum.splits fault.splits if_splits)

end
