(* ===== verification/Td_Quote_Facts.thy ===== *)
theory Td_Quote_Facts
  imports Td_Quote
begin

text \<open>
  Facts on the quote decoder: the parts it returns tile the quote, quotes of versions 4 and 5
  are read back, and the service's envelope is transparent.
\<close>

section \<open>The parts of a quote\<close>

definition quote_inner :: "bytes \<Rightarrow> bytes" where
  "quote_inner bs = (case unwrap_qgs_get_quote_response bs of Some inner \<Rightarrow> inner | None \<Rightarrow> bs)"

text \<open>Where the body starts: behind the header and, if there is one, the descriptor.\<close>

definition body_offset :: "bytes \<Rightarrow> nat" where
  "body_offset d =
     (if le16_at d 0 \<le> 4 then 48 else if le16_at d 48 = 0 \<and> le32_at d 50 = 0 then 62 else 54)"

lemma version_bounds: "5 \<le> (w :: u16) \<longleftrightarrow> \<not> w \<le> 4" "4 < (w :: u16) \<longleftrightarrow> \<not> w \<le> 4"
  by (auto simp: word_le_nat_alt word_less_nat_alt)

lemma header_of_wire_version: "48 \<le> length d \<Longrightarrow> qh_version (header_of_wire_v4 (take 48 d)) = le16_at d 0"
  by (simp add: header_of_wire_v4_def le16_at_def Let_def)

lemma read_header_Inr:
  assumes "read_header d 0 = Inr (h, c)"
  shows "qh_version h = le16_at d 0 \<and> c \<le> length d \<and>
    (if 5 \<le> le16_at d 0 then c = 54 \<and> qh_body_type h = le16_at d 48 \<and> qh_body_size h = le32_at d 50
     else c = 48)"
proof -
  have t: "take 2 (take 6 (drop 48 d)) = take 2 (drop 48 d)"
    "take 4 (drop 2 (take 6 (drop 48 d))) = take 4 (drop 50 d)"
    by (simp_all add: drop_take)
  show ?thesis
    using assms header_of_wire_version [of d]
    by (auto simp: read_header_def and_then_eq_Inr read_unaligned_Inr TD_QUOTE_HEADER_V4_SIZE_def t
        le16_at_def [of d 48] le32_at_def split: if_splits)
qed

lemma read_body_descriptor_Inr:
  assumes "read_body_descriptor h d c = Inr ((h', bd), c')" "c \<le> length d"
  shows "qh_version h' = qh_version h \<and> c' \<le> length d \<and> qh_body_size h' = bd_size bd \<and>
    c' = (if 4 < qh_version h \<and> qh_body_type h = 0 \<and> qh_body_size h = 0 then c + 8 else c)"
  using assms
  by (auto simp: read_body_descriptor_def Let_def and_then_eq_Inr read_unaligned_Inr
      TD_QUOTE_BODY_DESCRIPTOR_HEADER_SIZE_def split: if_splits)

lemma unat_ucast_u16 [simp]: "unat (ucast (w :: u16) :: u32) = unat w"
  using unat_u16_bound [of w] by (simp add: unsigned_ucast_eq take_bit_nat_eq_self)

text \<open>The last fallback of the source is dead code: the header's size is the descriptor's.\<close>

lemma settle_body_size_Inr:
  assumes "settle_body_size n h bd = (h', bd', k)" "qh_body_size h = bd_size bd"
  shows "qh_version h' = qh_version h \<and> unat (bd_size bd') = k \<and> qh_body_size h' = bd_size bd' \<and>
    bd_body_type bd' = bd_body_type bd"
  using assms
  by (auto simp: settle_body_size_def Let_def quote_sizes split: if_splits)

lemma drop_split: "drop c d = take n (drop c d) @ drop (c + n) d"
proof -
  have "drop (c + n) d = drop n (drop c d)" by (simp add: add.commute)
  then show ?thesis by (simp only: append_take_drop_id)
qed

lemma read_signature_Strict:
  assumes "read_signature Strict d c = Inr (n, sig, rest)"
  shows "c + 4 \<le> length d \<and> unat n = length sig \<and> drop c d = le_bytes 4 n @ sig @ rest"
proof -
  let ?n = "le32_at d c"
  from assms have l: "c + 4 + unat ?n \<le> length d" "n = ?n" "sig = take (unat ?n) (drop (c + 4) d)"
    "rest = drop (c + 4 + unat ?n) d"
    by (auto simp: read_signature_def Let_def and_then_eq_Inr rs_slice_eq_Inr split: if_splits)
  have "drop c d = take 4 (drop c d) @ drop (c + 4) d" by (rule drop_split)
  also have "take 4 (drop c d) = le_bytes 4 ?n"
    using le_bytes_of_le [of "take 4 (drop c d)", where 'a = 32] l(1) by (simp add: le32_at_def)
  also have "drop (c + 4) d = sig @ rest" unfolding l(3,4) by (rule drop_split)
  finally have "drop c d = le_bytes 4 n @ sig @ rest" by (simp only: l(2))
  moreover have "unat n = length sig" using l(1,2) by (simp add: l(3))
  ultimately show ?thesis using l(1) by simp
qed

lemma parse_td_quote_Inr:
  assumes "parse_td_quote bs = Inr q"
  obtains h c h1 bd1 c1 h2 k where "read_header (quote_inner bs) 0 = Inr (h, c)"
    "read_body_descriptor h (quote_inner bs) c = Inr ((h1, bd1), c1)"
    "settle_body_size (length (quote_inner bs) - c1) h1 bd1 = (h2, pq_body_header q, k)"
    "c1 + k \<le> length (quote_inner bs)" "pq_header q = h2"
    "decode_body (bd_body_type (pq_body_header q)) (take k (drop c1 (quote_inner bs))) = Inr (pq_body q)"
    "read_signature Strict (quote_inner bs) (c1 + k) =
       Inr (pq_signature_data_len q, pq_signature_data q, pq_remainder q)"
    "\<And>sig. pq_signature q = Some sig \<Longrightarrow> parse_quote_signature (pq_signature_data q) = Inr (Some sig)"
proof -
  let ?d = "quote_inner bs"
  note [simp] = and_then_eq_Inr
  from assms obtain h c where h: "read_header ?d 0 = Inr (h, c)"
    by (auto simp: parse_td_quote_def parse_td_quote_with_options_def quote_inner_def Let_def)
  from assms h obtain h1 bd1 c1 where b: "read_body_descriptor h ?d c = Inr ((h1, bd1), c1)"
    by (auto simp: parse_td_quote_def parse_td_quote_with_options_def quote_inner_def [symmetric] Let_def)
  obtain h2 bd k where s: "settle_body_size (length ?d - c1) h1 bd1 = (h2, bd, k)"
    by (cases "settle_body_size (length ?d - c1) h1 bd1")
  from assms h b s obtain body n sig rest ps err where r: "c1 + k \<le> length ?d"
    "decode_body (bd_body_type bd) (take k (drop c1 ?d)) = Inr body"
    "read_signature Strict ?d (c1 + k) = Inr (n, sig, rest)" "(signature_or_error sig :: (td_quote_parse_error, _) res) = Inr (ps, err)"
    "q = \<lparr>pq_header = h2, pq_body_header = bd, pq_body = body, pq_signature_data_len = n,
      pq_signature_data = sig, pq_signature = ps, pq_signature_parse_error = err, pq_remainder = rest\<rparr>"
    by (auto simp: parse_td_quote_def parse_td_quote_with_options_def quote_inner_def [symmetric] Let_def
        rs_slice_eq_Inr not_less split: if_splits)
  show thesis
    by (rule that [OF h b]) (use r s in \<open>auto simp: signature_or_error_Inr split: option.splits\<close>)
qed

lemma td_quote_parts:
  assumes "parse_td_quote bs = Inr q"
  shows "\<exists>hdr body. quote_inner bs =
      hdr @ body @ le_bytes 4 (pq_signature_data_len q) @ pq_signature_data q @ pq_remainder q \<and>
    length hdr = body_offset (quote_inner bs) \<and> length body = unat (bd_size (pq_body_header q)) \<and>
    decode_body (bd_body_type (pq_body_header q)) body = Inr (pq_body q) \<and>
    unat (pq_signature_data_len q) = length (pq_signature_data q)"
proof -
  let ?d = "quote_inner bs"
  obtain h c h1 bd1 c1 h2 k where p: "read_header ?d 0 = Inr (h, c)"
    "read_body_descriptor h ?d c = Inr ((h1, bd1), c1)"
    "settle_body_size (length ?d - c1) h1 bd1 = (h2, pq_body_header q, k)" "c1 + k \<le> length ?d"
    "decode_body (bd_body_type (pq_body_header q)) (take k (drop c1 ?d)) = Inr (pq_body q)"
    "read_signature Strict ?d (c1 + k) = Inr (pq_signature_data_len q, pq_signature_data q, pq_remainder q)"
    using assms by (rule parse_td_quote_Inr)
  note h = read_header_Inr [OF p(1)]
  then have "c \<le> length ?d" by simp
  note b = read_body_descriptor_Inr [OF p(2) this]
  note s = settle_body_size_Inr [OF p(3)] and r = read_signature_Strict [OF p(6)]
  have c1: "c1 = body_offset ?d"
    using h b by (auto simp: body_offset_def version_bounds split: if_splits)
  have "?d = take c1 ?d @ drop c1 ?d" by simp
  also have "drop c1 ?d = take k (drop c1 ?d) @ drop (c1 + k) ?d" by (rule drop_split)
  finally have "?d = take c1 ?d @ take k (drop c1 ?d) @ le_bytes 4 (pq_signature_data_len q) @
      pq_signature_data q @ pq_remainder q"
    using r by simp
  moreover have "length (take c1 ?d) = body_offset ?d" "unat (pq_signature_data_len q) = length (pq_signature_data q)"
    using c1 p(4) r by simp_all
  moreover have "length (take k (drop c1 ?d)) = unat (bd_size (pq_body_header q))"
    using p(4) s b by simp
  ultimately show ?thesis using p(5) by blast
qed

text \<open>
  C35. What \<open>parse_td_quote\<close> returns accounts for every byte of the
  quote (of the inner quote, when there is an envelope): header, body, signature length,
  signature data and remainder follow each other without gap or overlap, and the
  body decoded is the slice of the announced size.
\<close>

theorem td_quote_partition:
  assumes "parse_td_quote bs = Inr q"
  shows "\<exists>hdr body. quote_inner bs =
      hdr @ body @ le_bytes 4 (pq_signature_data_len q) @ pq_signature_data q @ pq_remainder q \<and>
    length hdr = body_offset (quote_inner bs) \<and> length body = unat (bd_size (pq_body_header q)) \<and>
    decode_body (bd_body_type (pq_body_header q)) body = Inr (pq_body q) \<and>
    unat (pq_signature_data_len q) = length (pq_signature_data q)"
  using assms by (rule td_quote_parts)

section \<open>Writing quotes\<close>

definition header_fields :: "td_quote_header \<Rightarrow> bytes list" where
  "header_fields h =
     [le_bytes 2 (qh_version h), le_bytes 2 (qh_attestation_key_type h), le_bytes 4 (qh_tee_type h),
      le_bytes 2 (qh_qe_svn h), le_bytes 2 (qh_pce_svn h), qh_qe_vendor_id h, qh_user_data h]"

definition body10_fields :: "td_quote_body_tdx10 \<Rightarrow> bytes list" where
  "body10_fields b =
     [b10_tee_tcb_svn b, b10_mr_seam b, b10_mr_signer_seam b, b10_seam_attributes b,
      b10_td_attributes b, b10_xfam b, b10_mr_td b, b10_mr_config_id b, b10_mr_owner b,
      b10_mr_owner_config b, b10_rtmr0 b, b10_rtmr1 b, b10_rtmr2 b, b10_rtmr3 b, b10_report_data b]"

definition body15_fields :: "td_quote_body_tdx15 \<Rightarrow> bytes list" where
  "body15_fields b = [concat (body10_fields (b15_base b)), b15_tee_tcb_svn_2 b, b15_mr_service_td b]"

definition body15_ex_fields :: "td_quote_body_tdx15_ex \<Rightarrow> bytes list" where
  "body15_ex_fields b =
     [concat (body15_fields (bex_base b)), [bex_vmid b], bex_td_id b, bex_devinfo b,
      bex_init_server_td_hash b, bex_init_server_td_attr b, bex_init_cpu_svn b,
      bex_init_tee_tcb_svn b, bex_init_tee_fmspc b, bex_curr_server_td_hash b, bex_curr_server_td_attr b]"

definition body10_valid :: "td_quote_body_tdx10 \<Rightarrow> bool" where
  "body10_valid b \<longleftrightarrow> map length (body10_fields b) = body10_sizes"

definition body15_valid :: "td_quote_body_tdx15 \<Rightarrow> bool" where
  "body15_valid b \<longleftrightarrow> body10_valid (b15_base b) \<and> map length (body15_fields b) = [584, 16, 48]"

definition body15_ex_valid :: "td_quote_body_tdx15_ex \<Rightarrow> bool" where
  "body15_ex_valid b \<longleftrightarrow> body15_valid (bex_base b) \<and>
     map length (body15_ex_fields b) = [648, 1, 32, 48, 48, 8, 16, 16, 12, 48, 8]"

fun body_code :: "td_quote_body \<Rightarrow> u16" where
  "body_code (Body_Tdx10 _) = 2"
| "body_code (Body_Tdx15 _) = 3"
| "body_code (Body_Tdx15Ex _) = 4"
| "body_code (Body_Unknown t _) = t"

fun body_wire :: "td_quote_body \<Rightarrow> bytes" where
  "body_wire (Body_Tdx10 b) = concat (body10_fields b)"
| "body_wire (Body_Tdx15 b) = concat (body15_fields b)"
| "body_wire (Body_Tdx15Ex b) = concat (body15_ex_fields b)"
| "body_wire (Body_Unknown _ d) = d"

fun body_valid :: "td_quote_body \<Rightarrow> bool" where
  "body_valid (Body_Tdx10 b) = body10_valid b"
| "body_valid (Body_Tdx15 b) = body15_valid b"
| "body_valid (Body_Tdx15Ex b) = body15_ex_valid b"
| "body_valid (Body_Unknown t d) = (t \<notin> {0, 2, 3, 4} \<and> length d < 2 ^ 32)"

lemma header_of_wire_fields:
  "map length (header_fields h) = [2, 2, 4, 2, 2, 16, 20] \<Longrightarrow>
     header_of_wire_v4 (concat (header_fields h)) = h\<lparr>qh_body_type := 0, qh_body_size := 0\<rparr>"
  unfolding header_of_wire_v4_def
  by (simp only: c_fields_of_concat Let_def) (simp add: header_fields_def)

lemma body10_of_wire_fields: "body10_valid b \<Longrightarrow> body10_of_wire (concat (body10_fields b)) = b"
  unfolding body10_of_wire_def body10_valid_def
  by (simp only: c_fields_of_concat Let_def) (simp add: body10_fields_def)

lemma body15_of_wire_fields: "body15_valid b \<Longrightarrow> body15_of_wire (concat (body15_fields b)) = b"
  unfolding body15_of_wire_def body15_valid_def TD_QUOTE_BODY_V1_0_SIZE_def
  by (simp only: c_fields_of_concat Let_def) (simp add: body15_fields_def body10_of_wire_fields)

lemma body15_ex_of_wire_fields: "body15_ex_valid b \<Longrightarrow> body15_ex_of_wire (concat (body15_ex_fields b)) = b"
  unfolding body15_ex_of_wire_def body15_ex_valid_def TD_QUOTE_BODY_V1_5_SIZE_def
  by (simp only: c_fields_of_concat Let_def) (simp add: body15_ex_fields_def body15_of_wire_fields)

lemma length_concat_fields: "map length fs = ns \<Longrightarrow> length (concat fs) = sum_list ns"
  by (simp add: length_concat)

lemma decode_body_wire:
  assumes "body_valid b"
  shows "decode_body (body_code b) (body_wire b) = Inr b \<and> length (body_wire b) < 2 ^ 32 \<and> body_code b \<noteq> 0"
proof (cases b)
  case (Body_Tdx10 x)
  with assms have "body10_valid x" by simp
  then show ?thesis
    using length_concat_fields [of "body10_fields x"] Body_Tdx10
    by (simp add: decode_body_def sized_body_def body_type_from_raw_def quote_sizes
        body10_of_wire_fields body10_valid_def body10_sizes_def)
next
  case (Body_Tdx15 x)
  with assms have "body15_valid x" by simp
  then show ?thesis
    using length_concat_fields [of "body15_fields x"] Body_Tdx15
    by (simp add: decode_body_def sized_body_def body_type_from_raw_def quote_sizes
        body15_of_wire_fields body15_valid_def)
next
  case (Body_Tdx15Ex x)
  with assms have "body15_ex_valid x" by simp
  then show ?thesis
    using length_concat_fields [of "body15_ex_fields x"] Body_Tdx15Ex
    by (simp add: decode_body_def sized_body_def body_type_from_raw_def quote_sizes
        body15_ex_of_wire_fields body15_ex_valid_def)
next
  case (Body_Unknown t d)
  with assms show ?thesis
    by (auto simp: decode_body_def body_type_from_raw_def)
qed

text \<open>
  The certification data. A certificate chain stands in the payload as it is; the decoder
  looks for an inner length prefix first, so such a chain must not begin with two bytes
  that are a possible length. With a QE identity the payload has the prefixes.
\<close>

definition pck_chain_wire :: "td_quote_pck_cert_chain \<Rightarrow> bytes" where
  "pck_chain_wire ch =
     (case pck_qe_identity ch of
        None \<Rightarrow> pck_cert_chain ch
      | Some qe \<Rightarrow> le_bytes 2 (of_nat (length (pck_cert_chain ch)) :: u16) @ pck_cert_chain ch @
          le_bytes 2 (of_nat (length qe) :: u16) @ qe @ pck_remainder ch)"

definition pck_chain_valid :: "td_quote_pck_cert_chain \<Rightarrow> bool" where
  "pck_chain_valid ch \<longleftrightarrow>
     (case pck_qe_identity ch of
        None \<Rightarrow> pck_remainder ch = [] \<and> 2 \<le> length (pck_cert_chain ch) \<and>
          length (pck_cert_chain ch) - 2 < unat (le16_at (pck_cert_chain ch) 0)
      | Some qe \<Rightarrow> fits_u16 (pck_cert_chain ch) \<and> pck_cert_chain ch \<noteq> [] \<and> fits_u16 qe \<and> qe \<noteq> [])"

fun nested_wire :: "td_quote_nested_certification option \<Rightarrow> bytes" where
  "nested_wire None = []"
| "nested_wire (Some (Nested_PckCertChain ch)) =
     le_bytes 2 SGX_QL_CERT_KEY_TYPE_PCK_CERT_CHAIN @ le_bytes 4 (of_nat (length (pck_chain_wire ch)) :: u32) @
     pck_chain_wire ch"
| "nested_wire (Some (Nested_Raw t d)) = le_bytes 2 t @ le_bytes 4 (of_nat (length d) :: u32) @ d"

fun nested_valid :: "td_quote_nested_certification option \<Rightarrow> bytes \<Rightarrow> bool" where
  "nested_valid None remainder = (remainder = [])"
| "nested_valid (Some (Nested_PckCertChain ch)) _ = (pck_chain_valid ch \<and> length (pck_chain_wire ch) < 2 ^ 32)"
| "nested_valid (Some (Nested_Raw t d)) _ = (t \<noteq> SGX_QL_CERT_KEY_TYPE_PCK_CERT_CHAIN \<and> length d < 2 ^ 32)"

definition ecdsa_wire :: "td_quote_ecdsa_certification \<Rightarrow> bytes" where
  "ecdsa_wire e =
     ec_qe_report e @ ec_qe_report_signature e @ le_bytes 2 (of_nat (length (ec_auth_data e)) :: u16) @
     ec_auth_data e @ nested_wire (ec_nested_certification e) @ ec_remainder e"

definition ecdsa_valid :: "td_quote_ecdsa_certification \<Rightarrow> bool" where
  "ecdsa_valid e \<longleftrightarrow> length (ec_qe_report e) = 384 \<and> length (ec_qe_report_signature e) = 64 \<and>
     fits_u16 (ec_auth_data e) \<and> nested_valid (ec_nested_certification e) (ec_remainder e)"

fun certification_wire :: "td_quote_certification option \<Rightarrow> bytes" where
  "certification_wire None = []"
| "certification_wire (Some (Cert_EcdsaSigAux e)) =
     le_bytes 2 SGX_QL_CERT_KEY_TYPE_ECDSA_SIG_AUX_DATA @ le_bytes 4 (of_nat (length (ecdsa_wire e)) :: u32) @
     ecdsa_wire e"
| "certification_wire (Some (Cert_Raw t d)) = le_bytes 2 t @ le_bytes 4 (of_nat (length d) :: u32) @ d"

fun certification_valid :: "td_quote_certification option \<Rightarrow> bytes \<Rightarrow> bool" where
  "certification_valid None remainder = (remainder = [])"
| "certification_valid (Some (Cert_EcdsaSigAux e)) _ = (ecdsa_valid e \<and> length (ecdsa_wire e) < 2 ^ 32)"
| "certification_valid (Some (Cert_Raw t d)) _ = (t \<noteq> SGX_QL_CERT_KEY_TYPE_ECDSA_SIG_AUX_DATA \<and> length d < 2 ^ 32)"

definition signature_wire :: "td_quote_signature \<Rightarrow> bytes" where
  "signature_wire s = qs_signature s @ qs_attestation_public_key s @
     certification_wire (qs_certification s) @ qs_remainder s"

definition quote_signature_valid :: "td_quote_signature \<Rightarrow> bool" where
  "quote_signature_valid s \<longleftrightarrow> length (qs_signature s) = 64 \<and> length (qs_attestation_public_key s) = 64 \<and>
     certification_valid (qs_certification s) (qs_remainder s)"

lemma cursor_take_wire: "occurs_at d c b \<Longrightarrow> length b = n \<Longrightarrow> cursor_take n ctx d c = Inr (b, c + n)"
  by (auto simp: cursor_take_Inr occurs_at_def)

lemma cursor_take_int_wire:
  "occurs_at d c (le_bytes 2 w) \<Longrightarrow> cursor_take_u16 ctx d c = Inr (w, c + 2)"
  "occurs_at d c (le_bytes 4 v) \<Longrightarrow> cursor_take_u32 ctx d c = Inr (v, c + 4)"
  by (simp_all add: cursor_take_u16_def cursor_take_u32_def cursor_take_wire [of _ _ "le_bytes _ _"])

lemma le16_at_wire: "le16_at (le_bytes 2 w @ d) 0 = w"
  by (simp add: le16_at_def)

lemma le16_at_occurs: "occurs_at d c (le_bytes 2 w) \<Longrightarrow> le16_at d c = w"
  by (simp add: le16_at_def occurs_at_def)

lemma le32_at_occurs: "occurs_at d c (le_bytes 4 w) \<Longrightarrow> le32_at d c = w"
  by (simp add: le32_at_def occurs_at_def)

lemma parse_pck_cert_chain_wire:
  assumes "pck_chain_valid ch"
  shows "parse_pck_cert_chain (pck_chain_wire ch) = Inr ch"
proof (cases "pck_qe_identity ch")
  case None
  with assms show ?thesis
    by (simp add: pck_chain_valid_def pck_chain_wire_def parse_pck_cert_chain_def Let_def plain_chain_def)
next
  case (Some qe)
  let ?c = "pck_cert_chain ch" let ?d = "pck_chain_wire ch"
  from assms Some have v: "length ?c < 65536" "0 < length ?c" "length qe < 65536" "0 < length qe"
    by (simp_all add: pck_chain_valid_def fits_u16_def)
  have w: "?d = le_bytes 2 (of_nat (length ?c) :: u16) @ ?c @ le_bytes 2 (of_nat (length qe) :: u16) @ qe @ pck_remainder ch"
    by (simp add: pck_chain_wire_def Some)
  have n: "unat (le16_at ?d 0) = length ?c" using v(1) by (simp add: w le16_at_wire)
  have q: "unat (le16_at ?d (2 + length ?c)) = length qe"
    using v(3) le16_at_occurs [of ?d "2 + length ?c" "of_nat (length qe)"] occurs_at_whole [of ?d]
    by (simp add: w)
  have s: "rs_slice ?d 2 (2 + length ?c) = (Inr ?c :: (td_quote_signature_error, bytes) res)"
    "rs_slice ?d (4 + length ?c) (4 + length ?c + length qe) = (Inr qe :: (td_quote_signature_error, bytes) res)"
    by (simp_all add: w rs_slice_def)
  have r: "drop (4 + length ?c + length qe) ?d = pck_remainder ch" by (simp add: w)
  have l: "length ?d = 4 + length ?c + length qe + length (pck_remainder ch)" by (simp add: w)
  have four: "4 + k = Suc (Suc (Suc (Suc k)))" for k :: nat by simp
  show ?thesis
    using v n q s r l Some
    by (simp add: parse_pck_cert_chain_def Let_def four)
qed

lemma parse_nested_certification_wire:
  assumes "occurs_at d c (nested_wire nc @ rest)" "nested_valid nc rest" "c + length (nested_wire nc @ rest) = length d"
  shows "parse_nested_certification d c = Inr (nc, c + length (nested_wire nc))"
proof (cases nc)
  case None
  with assms show ?thesis by (simp add: parse_nested_certification_def)
next
  case (Some n)
  have *: "parse_nested_certification d c =
      and_then (nested_certification t p) (\<lambda>nested. Inr (Some nested, 6 + c + length p))"
    if "nested_wire nc = le_bytes 2 t @ le_bytes 4 (of_nat (length p) :: u32) @ p" "length p < 2 ^ 32" for t p
  proof -
    have o: "occurs_at d c (le_bytes 2 t)" "occurs_at d (c + 2) (le_bytes 4 (of_nat (length p) :: u32))"
      "occurs_at d (6 + c) p"
      using assms(1) unfolding that(1) by (simp_all add: add.commute)
    have "length d = c + 6 + length p + length rest" using assms(3) by (simp add: that(1))
    then show ?thesis
      using that(2) cursor_take_int_wire(1) [OF o(1)] cursor_take_int_wire(2) [OF o(2)] cursor_take_wire [OF o(3) refl]
      by (simp add: parse_nested_certification_def SGX_QL_CERTIFICATION_DATA_HEADER_SIZE_def)
  qed
  show ?thesis
  proof (cases n)
    case (Nested_PckCertChain ch)
    with assms(2) Some * [of SGX_QL_CERT_KEY_TYPE_PCK_CERT_CHAIN "pck_chain_wire ch"] show ?thesis
      by (simp add: nested_certification_def parse_pck_cert_chain_wire)
  next
    case (Nested_Raw t p)
    with assms(2) Some * [of t p] show ?thesis by (simp add: nested_certification_def)
  qed
qed

lemma parse_ecdsa_sig_aux_wire:
  assumes "ecdsa_valid e"
  shows "parse_ecdsa_sig_aux (ecdsa_wire e) = Inr (Cert_EcdsaSigAux e)"
proof -
  define d where "d = ecdsa_wire e"
  let ?a = "ec_auth_data e"
  have v: "length (ec_qe_report e) = 384" "length (ec_qe_report_signature e) = 64" "length ?a < 65536"
    using assms by (simp_all add: ecdsa_valid_def fits_u16_def)
  have w: "occurs_at d 0 (ec_qe_report e @ ec_qe_report_signature e @ le_bytes 2 (of_nat (length ?a) :: u16) @
      ?a @ nested_wire (ec_nested_certification e) @ ec_remainder e)"
    unfolding d_def ecdsa_wire_def by (rule occurs_at_whole)
  then have o: "occurs_at d 0 (ec_qe_report e)" "occurs_at d 384 (ec_qe_report_signature e)"
    "occurs_at d 448 (le_bytes 2 (of_nat (length ?a) :: u16))" "occurs_at d 450 ?a"
    "occurs_at d (450 + length ?a) (nested_wire (ec_nested_certification e) @ ec_remainder e)"
    by (simp_all add: v)
  have l: "length d = 450 + length ?a + length (nested_wire (ec_nested_certification e) @ ec_remainder e)"
    by (simp add: d_def ecdsa_wire_def v)
  have n: "parse_nested_certification d (450 + length ?a) =
      Inr (ec_nested_certification e, 450 + length ?a + length (nested_wire (ec_nested_certification e)))"
    by (rule parse_nested_certification_wire [OF o(5)]) (use assms l in \<open>simp_all add: ecdsa_valid_def\<close>)
  have r: "drop (450 + length ?a + length (nested_wire (ec_nested_certification e))) d = ec_remainder e"
    by (simp add: d_def ecdsa_wire_def v)
  show ?thesis
    unfolding d_def [symmetric]
    using l n r v cursor_take_wire [OF o(1) v(1)] cursor_take_wire [OF o(2) v(2)]
      cursor_take_int_wire(1) [OF o(3)] cursor_take_wire [OF o(4) refl]
    by (simp add: parse_ecdsa_sig_aux_def quote_sizes)
qed

lemma parse_certification_wire:
  assumes "occurs_at d c (certification_wire (Some ct))" "certification_valid (Some ct) rest"
  shows "parse_certification d c = Inr (ct, c + length (certification_wire (Some ct)))"
proof -
  have *: "parse_certification d c =
      (if t = SGX_QL_CERT_KEY_TYPE_ECDSA_SIG_AUX_DATA
       then and_then (parse_ecdsa_sig_aux p) (\<lambda>cert. Inr (cert, 6 + c + length p))
       else Inr (Cert_Raw t p, 6 + c + length p))"
    if "certification_wire (Some ct) = le_bytes 2 t @ le_bytes 4 (of_nat (length p) :: u32) @ p"
      "length p < 2 ^ 32" for t p
  proof -
    have o: "occurs_at d c (le_bytes 2 t)" "occurs_at d (c + 2) (le_bytes 4 (of_nat (length p) :: u32))"
      "occurs_at d (6 + c) p"
      using assms(1) unfolding that(1) by (simp_all add: add.commute)
    have "\<not> length d - c < 6" using occurs_at_bounds [OF o(3)] by simp
    then show ?thesis
      using that(2) cursor_take_int_wire(1) [OF o(1)] cursor_take_int_wire(2) [OF o(2)] cursor_take_wire [OF o(3) refl]
      by (simp add: parse_certification_def SGX_QL_CERTIFICATION_DATA_HEADER_SIZE_def)
  qed
  show ?thesis
  proof (cases ct)
    case (Cert_EcdsaSigAux e)
    with assms(2) * [of SGX_QL_CERT_KEY_TYPE_ECDSA_SIG_AUX_DATA "ecdsa_wire e"] show ?thesis
      by (simp add: parse_ecdsa_sig_aux_wire)
  next
    case (Cert_Raw t p)
    with assms(2) * [of t p] show ?thesis by simp
  qed
qed

lemma parse_quote_signature_wire:
  assumes "quote_signature_valid s"
  shows "parse_quote_signature (signature_wire s) = Inr (Some s)"
proof -
  define d where "d = signature_wire s"
  have v: "length (qs_signature s) = 64" "length (qs_attestation_public_key s) = 64"
    using assms by (simp_all add: quote_signature_valid_def)
  have w: "occurs_at d 0 (qs_signature s @ qs_attestation_public_key s @
      certification_wire (qs_certification s) @ qs_remainder s)"
    unfolding d_def signature_wire_def by (rule occurs_at_whole)
  then have o: "occurs_at d 0 (qs_signature s)" "occurs_at d 64 (qs_attestation_public_key s)"
    "occurs_at d 128 (certification_wire (qs_certification s))"
    by (simp_all add: v)
  have l: "length d = 128 + length (certification_wire (qs_certification s)) + length (qs_remainder s)"
    by (simp add: d_def signature_wire_def v)
  have r: "drop 128 d = certification_wire (qs_certification s) @ qs_remainder s"
    "drop (128 + length (certification_wire (qs_certification s))) d = qs_remainder s"
    by (simp_all add: d_def signature_wire_def v)
  have "(if drop 128 d = [] then Inr (None, 128)
         else and_then (parse_certification d 128) (\<lambda>(cert, c). Inr (Some cert, c))) =
      (Inr (qs_certification s, 128 + length (certification_wire (qs_certification s))) ::
         (td_quote_signature_error, _) res)"
  proof (cases "qs_certification s")
    case None
    with assms r(1) show ?thesis by (simp add: quote_signature_valid_def)
  next
    case (Some ct)
    then have "certification_wire (qs_certification s) \<noteq> []" by (cases ct) (auto simp: le_bytes_unfold)
    with assms o(3) r(1) parse_certification_wire [of d 128 ct "qs_remainder s"] Some show ?thesis
      by (simp add: quote_signature_valid_def)
  qed
  then show ?thesis
    unfolding d_def [symmetric]
    using l r v cursor_take_wire [OF o(1) v(1)] cursor_take_wire [OF o(2) v(2)]
    by (cases "d = []") (simp_all add: parse_quote_signature_def quote_sizes)
qed

definition td_quote_wire :: "parsed_td_quote \<Rightarrow> bytes" where
  "td_quote_wire q =
     concat (header_fields (pq_header q)) @
     (if 5 \<le> qh_version (pq_header q)
      then le_bytes 2 (qh_body_type (pq_header q)) @ le_bytes 4 (qh_body_size (pq_header q)) else []) @
     body_wire (pq_body q) @ le_bytes 4 (pq_signature_data_len q) @ pq_signature_data q @ pq_remainder q"

definition td_quote_valid :: "parsed_td_quote \<Rightarrow> bool" where
  "td_quote_valid q \<longleftrightarrow>
     qh_version (pq_header q) \<in> {4, 5} \<and> (qh_version (pq_header q) = 4 \<longrightarrow> body_code (pq_body q) = 2) \<and>
     map length (header_fields (pq_header q)) = [2, 2, 4, 2, 2, 16, 20] \<and> qh_tee_type (pq_header q) \<noteq> 1 \<and>
     body_valid (pq_body q) \<and> qh_body_type (pq_header q) = body_code (pq_body q) \<and>
     qh_body_size (pq_header q) = of_nat (length (body_wire (pq_body q))) \<and>
     pq_body_header q = \<lparr>bd_body_type = qh_body_type (pq_header q), bd_reserved = 0,
                         bd_size = qh_body_size (pq_header q)\<rparr> \<and>
     length (pq_signature_data q) < 2 ^ 32 \<and>
     pq_signature_data_len q = of_nat (length (pq_signature_data q)) \<and>
     (case pq_signature q of Some s \<Rightarrow> quote_signature_valid s \<and> pq_signature_data q = signature_wire s
      | None \<Rightarrow> pq_signature_data q = []) \<and> pq_signature_parse_error q = None"

lemma settle_fits:
  "unat (bd_size bd) \<le> n \<Longrightarrow> settle_body_size n h bd = (h, bd, unat (bd_size bd))"
  by (simp add: settle_body_size_def Let_def)

lemma read_signature_wire:
  assumes "occurs_at d c (le_bytes 4 n @ sig @ rest)" "unat n = length sig"
    and "length d = c + 4 + length sig + length rest"
  shows "read_signature Strict d c = Inr (n, sig, rest)"
proof -
  have o: "occurs_at d c (le_bytes 4 n)" "occurs_at d (c + 4) sig" "occurs_at d (c + 4 + length sig) rest"
    using assms(1) by (simp_all add: add.commute add.left_commute)
  have "drop (c + 4 + length sig) d = rest"
    using occurs_at_take [OF o(3)] assms(3) by simp
  then show ?thesis
    using assms(2,3) le32_at_occurs [OF o(1)] occurs_at_take [OF o(2)]
    by (simp add: read_signature_def Let_def rs_slice_def)
qed

lemma header_wire_v4:
  assumes "map length (header_fields h) = [2, 2, 4, 2, 2, 16, 20]" "occurs_at d 0 (concat (header_fields h))"
  shows "read_unaligned TD_QUOTE_HEADER_V4_SIZE header_of_wire_v4 ctx d 0 =
      Inr (h\<lparr>qh_body_type := 0, qh_body_size := 0\<rparr>, 48)"
    and "le16_at d 0 = qh_version h" and "le32_at d 4 = qh_tee_type h"
proof -
  have l: "length (concat (header_fields h)) = 48"
    using length_concat_fields [OF assms(1)] by simp
  then have "take 48 d = concat (header_fields h)" "48 \<le> length d"
    using occurs_at_take [OF assms(2)] occurs_at_bounds [OF assms(2)] by simp_all
  with header_of_wire_fields [OF assms(1)]
  show "read_unaligned TD_QUOTE_HEADER_V4_SIZE header_of_wire_v4 ctx d 0 =
      Inr (h\<lparr>qh_body_type := 0, qh_body_size := 0\<rparr>, 48)"
    by (simp add: read_unaligned_Inr TD_QUOTE_HEADER_V4_SIZE_def)
  have "occurs_at d 0 (le_bytes 2 (qh_version h))" "occurs_at d 4 (le_bytes 4 (qh_tee_type h))"
    using assms(2) by (simp_all only: header_fields_def concat.simps occurs_at_append length_le_bytes)
      (simp_all add: eval_nat_numeral)
  then show "le16_at d 0 = qh_version h" "le32_at d 4 = qh_tee_type h"
    by (simp_all only: le16_at_occurs le32_at_occurs)
qed

lemma unwrap_needs_type: "le32_at d 4 \<noteq> 1 \<Longrightarrow> unwrap_qgs_get_quote_response d = None"
  by (simp add: unwrap_qgs_get_quote_response_def QGS_MSG_TYPE_GET_QUOTE_RESP_def Let_def)

lemma parse_td_quote_wire:
  assumes "td_quote_valid q"
  shows "parse_td_quote (td_quote_wire q) = Inr q"
proof -
  define d where "d = td_quote_wire q"
  let ?h = "pq_header q" and ?b = "body_wire (pq_body q)"
  let ?s = "le_bytes 4 (pq_signature_data_len q) @ pq_signature_data q @ pq_remainder q"
  define c where "c = (if 5 \<le> qh_version ?h then 54 else 48 :: nat)"
  have hl: "map length (header_fields ?h) = [2, 2, 4, 2, 2, 16, 20]" using assms by (simp add: td_quote_valid_def)
  have l48: "length (concat (header_fields ?h)) = 48"
    using length_concat_fields [OF hl] by simp
  have "occurs_at d 0 (concat (header_fields ?h) @ (if 5 \<le> qh_version ?h
      then le_bytes 2 (qh_body_type ?h) @ le_bytes 4 (qh_body_size ?h) else []) @ ?b @ ?s)"
    unfolding d_def td_quote_wire_def by (rule occurs_at_whole)
  then have o: "occurs_at d 0 (concat (header_fields ?h))" "occurs_at d c ?b" "occurs_at d (c + length ?b) ?s"
    "5 \<le> qh_version ?h \<Longrightarrow> occurs_at d 48 (le_bytes 2 (qh_body_type ?h))"
    "5 \<le> qh_version ?h \<Longrightarrow> occurs_at d 50 (le_bytes 4 (qh_body_size ?h))"
    by (simp_all add: l48 c_def split: if_splits)
  have l: "length d = c + length ?b + length ?s"
    using l48 by (simp add: d_def td_quote_wire_def c_def)
  note H = header_wire_v4 [OF hl o(1)] and B = decode_body_wire [of "pq_body q"]
  have bv: "body_valid (pq_body q)" "qh_body_type ?h = body_code (pq_body q)"
    "qh_body_size ?h = of_nat (length ?b)" using assms by (simp_all add: td_quote_valid_def)
  then have n: "unat (qh_body_size ?h) = length ?b" "length ?b < 4294967296" using B by simp_all
  have header: "read_header d 0 = Inr (if 5 \<le> qh_version ?h then ?h else ?h\<lparr>qh_body_type := 0, qh_body_size := 0\<rparr>, c)"
  proof (cases "5 \<le> qh_version ?h")
    case True
    have "take 6 (drop 48 d) = concat [le_bytes 2 (qh_body_type ?h), le_bytes 4 (qh_body_size ?h)]"
      using occurs_at_take [of d 48 "le_bytes 2 (qh_body_type ?h) @ le_bytes 4 (qh_body_size ?h)"] o(4,5) [OF True] by simp
    moreover have "54 \<le> length d" using l True by (simp add: c_def)
    ultimately have "read_unaligned 6 (c_fields [2, 4]) ctx d 48 =
        Inr ([le_bytes 2 (qh_body_type ?h), le_bytes 4 (qh_body_size ?h)], 54)" for ctx
      by (simp add: read_unaligned_Inr del: concat.simps) (simp add: c_fields_of_concat)
    then show ?thesis using True H(1) by (simp add: read_header_def c_def)
  next
    case False
    then show ?thesis using H(1) by (simp add: read_header_def c_def)
  qed
  have "read_body_descriptor (if 5 \<le> qh_version ?h then ?h else ?h\<lparr>qh_body_type := 0, qh_body_size := 0\<rparr>) d c =
      Inr ((?h, pq_body_header q), c)"
  proof (cases "5 \<le> qh_version ?h")
    case True
    then show ?thesis
      using assms B bv by (simp add: read_body_descriptor_def Let_def td_quote_valid_def version_bounds)
  next
    case False
    with assms bv have "qh_version ?h = 4" "body_code (pq_body q) = 2" by (auto simp: td_quote_valid_def)
    moreover from this bv have "length ?b = 584"
      by (cases "pq_body q") (use length_concat_fields in \<open>force simp: body10_valid_def body10_sizes_def\<close>)+
    ultimately show ?thesis
      using assms bv by (simp add: read_body_descriptor_def Let_def td_quote_valid_def quote_sizes)
  qed
  moreover have "settle_body_size (length d - c) ?h (pq_body_header q) = (?h, pq_body_header q, length ?b)"
    using settle_fits [of "pq_body_header q" "length d - c" ?h] assms n l by (simp add: td_quote_valid_def)
  moreover have "decode_body (bd_body_type (pq_body_header q)) (take (length ?b) (drop c d)) = Inr (pq_body q)"
    using B bv occurs_at_take [OF o(2)] assms by (simp add: td_quote_valid_def)
  moreover have "read_signature Strict d (c + length ?b) = Inr (pq_signature_data_len q, pq_signature_data q, pq_remainder q)"
    by (rule read_signature_wire [OF o(3)]) (use assms l in \<open>simp_all add: td_quote_valid_def\<close>)
  moreover have "signature_or_error (pq_signature_data q) =
      (Inr (pq_signature q, pq_signature_parse_error q) :: (td_quote_parse_error, _) res)"
  proof (cases "pq_signature q")
    case None
    with assms show ?thesis
      by (simp add: td_quote_valid_def signature_or_error_Inr parse_quote_signature_def)
  next
    case (Some s)
    with assms show ?thesis
      by (simp add: td_quote_valid_def signature_or_error_Inr parse_quote_signature_wire)
  qed
  moreover have "unwrap_qgs_get_quote_response d = None"
    by (rule unwrap_needs_type) (use H(3) assms in \<open>simp add: td_quote_valid_def\<close>)
  ultimately show ?thesis
    unfolding d_def [symmetric] using header l
    by (simp add: parse_td_quote_def parse_td_quote_with_options_def Let_def)
qed


text \<open>
  C34. The decoder reads back every well-formed quote: written to bytes, a
  quote of version 4 with a TDX 1.0 body, or of version 5 with a body of any type, with its
  signature block (certification data of either kind, nested certification, trailing
  bytes), decodes to the very fields it was written from. Two forms of certificate chain are not counted as well-formed,
  since the decoder reads them otherwise: a chain without a length prefix whose first two bytes are a possible length of what
  follows them, and a chain with a length prefix but an empty chain or no QE identity behind it. Nor is a quote whose TEE type
  is 1, which would look like an envelope.
\<close>

theorem td_quote_round_trip:
  assumes "td_quote_valid q"
  shows "parse_td_quote (td_quote_wire q) = Inr q"
  using assms by (rule parse_td_quote_wire)

definition zero_body10 :: td_quote_body_tdx10 where
  "zero_body10 =
     \<lparr>b10_tee_tcb_svn = replicate 16 1, b10_mr_seam = replicate 48 2, b10_mr_signer_seam = replicate 48 0,
      b10_seam_attributes = replicate 8 0, b10_td_attributes = replicate 8 3, b10_xfam = replicate 8 0,
      b10_mr_td = replicate 48 4, b10_mr_config_id = replicate 48 0, b10_mr_owner = replicate 48 0,
      b10_mr_owner_config = replicate 48 0, b10_rtmr0 = replicate 48 5, b10_rtmr1 = replicate 48 6,
      b10_rtmr2 = replicate 48 7, b10_rtmr3 = replicate 48 8, b10_report_data = replicate 64 9\<rparr>"

definition sample_ecdsa :: td_quote_ecdsa_certification where
  "sample_ecdsa =
     \<lparr>ec_qe_report = replicate 384 1, ec_qe_report_signature = replicate 64 2, ec_auth_data = replicate 32 3,
      ec_nested_certification = Some (Nested_PckCertChain (plain_chain [0x2D, 0x2D, 0x2D])), ec_remainder = [7]\<rparr>"

definition sample_td_signature :: td_quote_signature where
  "sample_td_signature =
     \<lparr>qs_signature = replicate 64 1, qs_attestation_public_key = replicate 64 2,
      qs_certification = Some (Cert_EcdsaSigAux sample_ecdsa), qs_remainder = []\<rparr>"

definition sample_td_quote :: parsed_td_quote where
  "sample_td_quote =
     \<lparr>pq_header =
        \<lparr>qh_version = 5, qh_attestation_key_type = 2, qh_tee_type = 0x81, qh_qe_svn = 1, qh_pce_svn = 2,
         qh_qe_vendor_id = replicate 16 3, qh_user_data = replicate 20 4, qh_body_type = 3, qh_body_size = 648\<rparr>,
      pq_body_header = \<lparr>bd_body_type = 3, bd_reserved = 0, bd_size = 648\<rparr>,
      pq_body = Body_Tdx15
        \<lparr>b15_base = zero_body10, b15_tee_tcb_svn_2 = replicate 16 1, b15_mr_service_td = replicate 48 2\<rparr>,
      pq_signature_data_len = 626,
      pq_signature_data = signature_wire sample_td_signature,
      pq_signature = Some sample_td_signature, pq_signature_parse_error = None, pq_remainder = [0, 0]\<rparr>"

lemma sample_td_signature_valid:
  "quote_signature_valid sample_td_signature \<and> length (signature_wire sample_td_signature) = 626"
  by (simp add: sample_td_signature_def sample_ecdsa_def quote_signature_valid_def signature_wire_def
      ecdsa_valid_def ecdsa_wire_def fits_u16_def pck_chain_valid_def pck_chain_wire_def plain_chain_def le16_at_def)

lemma sample_td_quote_valid: "td_quote_valid sample_td_quote"
  using sample_td_signature_valid
  by (simp add: td_quote_valid_def sample_td_quote_def header_fields_def body15_valid_def body15_fields_def
      body10_valid_def zero_body10_def body10_fields_def body10_sizes_def)

theorem td_quote_round_trip_witness: "parse_td_quote (td_quote_wire sample_td_quote) = Inr sample_td_quote"
  using td_quote_round_trip [OF sample_td_quote_valid] .

theorem td_quote_partition_witness:
  "\<exists>hdr body. quote_inner (td_quote_wire sample_td_quote) =
      hdr @ body @ le_bytes 4 (pq_signature_data_len sample_td_quote) @ pq_signature_data sample_td_quote @
        pq_remainder sample_td_quote \<and>
    length hdr = body_offset (quote_inner (td_quote_wire sample_td_quote)) \<and>
    length body = unat (bd_size (pq_body_header sample_td_quote)) \<and>
    decode_body (bd_body_type (pq_body_header sample_td_quote)) body = Inr (pq_body sample_td_quote) \<and>
    unat (pq_signature_data_len sample_td_quote) = length (pq_signature_data sample_td_quote)"
  using td_quote_partition [OF parse_td_quote_wire [OF sample_td_quote_valid]] .

section \<open>The envelope\<close>

text \<open>\<open>qgs_msg_get_quote_resp_t\<close>: header, identifier size, quote size, identifier, quote.\<close>

definition qgs_envelope :: "bytes \<Rightarrow> bytes \<Rightarrow> bytes \<Rightarrow> bytes \<Rightarrow> bytes" where
  "qgs_envelope version error_code selected_id quote =
     version @ le_bytes 4 (1 :: u32) @ le_bytes 4 (of_nat (24 + length selected_id + length quote) :: u32) @
     error_code @ le_bytes 4 (of_nat (length selected_id) :: u32) @ le_bytes 4 (of_nat (length quote) :: u32) @
     selected_id @ quote"

lemma unwrap_qgs_envelope:
  assumes "length v = 4" "length e = 4" "24 + length ids + length quote < 2 ^ 32" "looks_like_td_quote_header quote"
  shows "unwrap_qgs_get_quote_response (qgs_envelope v e ids quote) = Some quote"
proof -
  let ?d = "qgs_envelope v e ids quote"
  have "occurs_at ?d 0 ?d" by simp
  then have o: "occurs_at ?d 4 (le_bytes 4 (1 :: u32))"
    "occurs_at ?d 8 (le_bytes 4 (of_nat (24 + length ids + length quote) :: u32))"
    "occurs_at ?d 16 (le_bytes 4 (of_nat (length ids) :: u32))" "occurs_at ?d 20 (le_bytes 4 (of_nat (length quote) :: u32))"
    "occurs_at ?d (24 + length ids) quote"
    unfolding qgs_envelope_def by (simp_all add: assms(1,2))
  have n: "unat (of_nat (24 + length ids + length quote) :: u32) = 24 + length ids + length quote"
    "unat (of_nat (length ids) :: u32) = length ids" "unat (of_nat (length quote) :: u32) = length quote"
    using assms(3) by (simp_all only: unat_of_nat) (simp_all add: take_bit_nat_eq_self)
  have l: "length ?d = 24 + length ids + length quote" by (simp add: qgs_envelope_def assms(1,2))
  have t: "take (length quote) (drop (24 + length ids) ?d) = quote" by (rule occurs_at_take [OF o(5)])
  show ?thesis
    using assms(3,4) n l t
    by (simp only: unwrap_qgs_get_quote_response_def le32_at_occurs [OF o(1)] le32_at_occurs [OF o(2)]
        le32_at_occurs [OF o(3)] le32_at_occurs [OF o(4)] Let_def)
      (simp add: QGS_GET_QUOTE_RESP_PREFIX_SIZE_def QGS_MSG_TYPE_GET_QUOTE_RESP_def checked_add_usize_def)
qed

text \<open>
  A quote in the response envelope of the quote generation
  service decodes, in either signature mode, exactly as the bare quote does: for every
  version and error field, every selected identifier, and every quote that starts with a
  quote header.
\<close>

theorem qgs_envelope_transparent:
  assumes "length version = 4" "length error_code = 4" "24 + length selected_id + length quote < 2 ^ 32"
    and "looks_like_td_quote_header quote"
  shows "parse_td_quote_with_options (qgs_envelope version error_code selected_id quote) mode =
    parse_td_quote_with_options quote mode"
proof -
  have "unwrap_qgs_get_quote_response quote = None"
    by (rule unwrap_needs_type) (use assms(4) in \<open>auto simp: looks_like_td_quote_header_def\<close>)
  then show ?thesis
    by (simp add: parse_td_quote_with_options_def unwrap_qgs_envelope [OF assms])
qed

definition sample_header_bytes :: bytes where
  "sample_header_bytes = le_bytes 2 (4 :: u16) @ replicate 2 0 @ le_bytes 4 (0x81 :: u32) @ replicate 40 0"

lemma sample_header_bytes: "looks_like_td_quote_header sample_header_bytes \<and> length sample_header_bytes = 48"
  by (simp add: looks_like_td_quote_header_def sample_header_bytes_def le16_at_def le32_at_def TD_QUOTE_HEADER_V4_SIZE_def)

theorem qgs_envelope_transparent_witness:
  "parse_td_quote_with_options (qgs_envelope [1, 0, 1, 0] [0, 0, 0, 0] [7, 7] sample_header_bytes) Strict =
   parse_td_quote_with_options sample_header_bytes Strict"
  by (rule qgs_envelope_transparent) (simp_all add: sample_header_bytes)

end
