(* ===== verification/Td_Quote_Fmspc.thy ===== *)
theory Td_Quote_Fmspc
  imports Td_Quote_Facts
begin

text \<open>
  The FMSPC of a quote's PCK certificate (\<open>tee_report/td_quote.rs\<close>): the first certificate of
  the chain, PEM or DER, and the walk over its DER structure to the SGX extension. The
  base64 decoder is third-party code and stands as the parameter \<open>b64\<close>; \<open>checks\<close> says
  whether arithmetic is compiled with overflow checks (debug) or wraps (release).
\<close>

definition FMSPC_LEN :: nat where "FMSPC_LEN = 6"

definition OID_INTEL_SGX_EXTENSION :: bytes where
  "OID_INTEL_SGX_EXTENSION = [0x2A, 0x86, 0x48, 0x86, 0xF8, 0x4D, 0x01, 0x0D, 0x01]"

definition OID_INTEL_SGX_FMSPC :: bytes where
  "OID_INTEL_SGX_FMSPC = [0x2A, 0x86, 0x48, 0x86, 0xF8, 0x4D, 0x01, 0x0D, 0x01, 0x04]"

definition DER_TAG_BOOLEAN :: u8 where "DER_TAG_BOOLEAN = 0x01"
definition DER_TAG_OID :: u8 where "DER_TAG_OID = 0x06"
definition DER_TAG_OCTET_STRING :: u8 where "DER_TAG_OCTET_STRING = 0x04"
definition DER_TAG_SEQUENCE :: u8 where "DER_TAG_SEQUENCE = 0x30"
definition DER_TAG_CONTEXT_3_EXPLICIT :: u8 where "DER_TAG_CONTEXT_3_EXPLICIT = 0xA3"

lemmas der_tags =
  DER_TAG_BOOLEAN_def DER_TAG_OID_def DER_TAG_OCTET_STRING_def DER_TAG_SEQUENCE_def
  DER_TAG_CONTEXT_3_EXPLICIT_def

datatype fmspc_extract_error =
    NoPckCertChain
  | InvalidCertChain
  | InvalidCertificate string
  | NoSgxExtension
  | NoFmspc
  | InvalidFmspcLength nat

fun fmspc_extract_error_display :: "fmspc_extract_error \<Rightarrow> string" where
  "fmspc_extract_error_display NoPckCertChain = ''quote does not carry an ECDSA PCK certificate chain''"
| "fmspc_extract_error_display InvalidCertChain = ''PCK certificate chain is not valid PEM or DER''"
| "fmspc_extract_error_display (InvalidCertificate what) = ''malformed PCK certificate ('' @ what @ '')''"
| "fmspc_extract_error_display NoSgxExtension = ''PCK leaf certificate has no Intel SGX extension''"
| "fmspc_extract_error_display NoFmspc = ''Intel SGX extension has no FMSPC entry''"
| "fmspc_extract_error_display (InvalidFmspcLength n) =
     ''FMSPC has length '' @ fmt_dec n @ '', expected '' @ fmt_dec FMSPC_LEN"

section \<open>DER\<close>

text \<open>\<open>+\<close> on \<open>usize\<close>: a panic or a wrap-around.\<close>

definition usize_add :: "bool \<Rightarrow> nat \<Rightarrow> nat \<Rightarrow> ('e, nat) res" where
  "usize_add checks a b =
     (if a + b < 2 ^ 64 then Inr (a + b) else if checks then Inl Panic else Inr ((a + b) mod 2 ^ 64))"

definition der_length_value :: "bytes \<Rightarrow> u64" where
  "der_length_value bs = foldl (\<lambda>len b. push_bit 8 len OR ucast b) 0 bs"

definition read_der_length :: "bytes \<Rightarrow> (fmspc_extract_error, nat \<times> nat) res" where
  "read_der_length bs =
     (case bs of
        [] \<Rightarrow> Inl (Fail (InvalidCertificate ''missing DER length''))
      | first # rest \<Rightarrow>
          if first < 0x80 then Inr (unat first, 1)
          else
            let n = unat (first AND 0x7F) in
            if n = 0 \<or> 8 < n \<or> length bs < 1 + n
            then Inl (Fail (InvalidCertificate ''invalid DER length''))
            else Inr (unat (der_length_value (take n rest)), 1 + n))"

text \<open>\<open>DerReader::read_tlv\<close>: the tag, the value and what the reader has left.\<close>

definition read_tlv :: "bool \<Rightarrow> bytes \<Rightarrow> (fmspc_extract_error, u8 \<times> bytes \<times> bytes) res" where
  "read_tlv checks bs =
     (case bs of
        [] \<Rightarrow> Inl (Fail (InvalidCertificate ''truncated TLV''))
      | tag # rest \<Rightarrow>
          and_then (read_der_length rest) (\<lambda>(len, len_size).
          and_then (usize_add checks 1 len_size) (\<lambda>header.
          and_then (usize_add checks header len) (\<lambda>stop.
          if length bs < stop then Inl (Fail (InvalidCertificate ''truncated value''))
          else and_then (rs_slice bs header stop) (\<lambda>val.
               Inr (tag, val, drop stop bs))))))"

definition expect_tag :: "bool \<Rightarrow> u8 \<Rightarrow> string \<Rightarrow> bytes \<Rightarrow> (fmspc_extract_error, bytes \<times> bytes) res" where
  "expect_tag checks expected what bs =
     and_then (read_tlv checks bs) (\<lambda>(tag, val, rest).
     if tag \<noteq> expected then Inl (Fail (InvalidCertificate what)) else Inr (val, rest))"

lemma read_der_length_size: "read_der_length bs = Inr (n, k) \<Longrightarrow> 1 \<le> k \<and> k \<le> 9"
  by (auto simp: read_der_length_def Let_def split: list.splits if_splits)

lemma read_tlv_Inr:
  assumes "read_tlv checks bs = Inr (tag, v, rest)"
  shows "\<exists>hdr. bs = tag # hdr @ v @ rest \<and> hdr \<noteq> []"
proof -
  from assms obtain t r n k where bs: "bs = t # r" and r: "read_der_length r = Inr (n, k)"
    by (auto simp: read_tlv_def and_then_eq_Inr split: list.splits)
  note k = read_der_length_size [OF r]
  have "(usize_add checks 1 k :: (fmspc_extract_error, nat) res) = Inr (1 + k)" using k by (simp add: usize_add_def)
  with assms bs r obtain e where "(usize_add checks (1 + k) n :: (fmspc_extract_error, nat) res) = Inr e" "\<not> length bs < e"
    "rs_slice bs (1 + k) e = (Inr v :: (fmspc_extract_error, bytes) res)" "tag = t" "rest = drop e bs"
    by (auto simp: read_tlv_def and_then_eq_Inr split: if_splits)
  then have e: "tag = t" "1 + k \<le> e" "e \<le> length bs" "v = take (e - (1 + k)) (drop (1 + k) bs)" "rest = drop e bs"
    by (auto simp: rs_slice_eq_Inr)
  have "bs = take (1 + k) bs @ drop (1 + k) bs" by simp
  also have "drop (1 + k) bs = v @ rest"
  proof -
    have "drop (e - (1 + k)) (drop (1 + k) bs) = rest" using e by simp
    then show ?thesis unfolding e(4) by (metis append_take_drop_id)
  qed
  also have "take (1 + k) bs = t # take k r" by (simp add: bs)
  finally have "bs = t # take k r @ v @ rest" by simp
  moreover have "take k r \<noteq> []" using k r by (auto simp: read_der_length_def)
  ultimately show ?thesis using e(1) by blast
qed

lemma read_tlv_shrinks: "read_tlv checks bs = Inr (tag, v, rest) \<Longrightarrow> length rest < length bs"
  by (drule read_tlv_Inr) auto

section \<open>The walk over the certificate\<close>

text \<open>The search for the extensions of the \<open>TBSCertificate\<close>, field after field.\<close>

function find_extensions :: "bool \<Rightarrow> bytes \<Rightarrow> (fmspc_extract_error, bytes) res" where
  "find_extensions checks tbs =
     (if tbs = [] then Inl (Fail NoSgxExtension)
      else
        case read_tlv checks tbs of
          Inl e \<Rightarrow> Inl e
        | Inr (tag, val, rest) \<Rightarrow>
            if tag = DER_TAG_CONTEXT_3_EXPLICIT then Inr val else find_extensions checks rest)"
  by pat_completeness auto
termination
  by (relation "measure (\<lambda>(checks, tbs). length tbs)") (auto dest: read_tlv_shrinks)

declare find_extensions.simps [simp del]

text \<open>The entries of the SGX extension.\<close>

function find_fmspc :: "bool \<Rightarrow> bytes \<Rightarrow> (fmspc_extract_error, bytes) res" where
  "find_fmspc checks entries =
     (if entries = [] then Inl (Fail NoFmspc)
      else
        case read_tlv checks entries of
          Inl e \<Rightarrow> Inl e
        | Inr (entry_tag, entry_value, rest) \<Rightarrow>
            if entry_tag \<noteq> DER_TAG_SEQUENCE
            then Inl (Fail (InvalidCertificate ''expected SGX entry SEQUENCE''))
            else
              case expect_tag checks DER_TAG_OID ''SGX entry OID'' entry_value of
                Inl e \<Rightarrow> Inl e
              | Inr (entry_oid, entry) \<Rightarrow>
                  if entry_oid \<noteq> OID_INTEL_SGX_FMSPC then find_fmspc checks rest
                  else
                    and_then (expect_tag checks DER_TAG_OCTET_STRING ''FMSPC OCTET STRING'' entry) (\<lambda>(val, _).
                    if length val \<noteq> FMSPC_LEN then Inl (Fail (InvalidFmspcLength (length val)))
                    else Inr val))"
  by pat_completeness auto
termination
  by (relation "measure (\<lambda>(checks, entries). length entries)") (auto dest: read_tlv_shrinks)

declare find_fmspc.simps [simp del]

text \<open>What follows the OID of the SGX extension: an optional \<open>critical\<close> flag and the value.\<close>

definition sgx_extension_fmspc :: "bool \<Rightarrow> bytes \<Rightarrow> (fmspc_extract_error, bytes) res" where
  "sgx_extension_fmspc checks ext =
     and_then (read_tlv checks ext) (\<lambda>(next_tag, next_value, ext).
     and_then
       (if next_tag = DER_TAG_BOOLEAN
        then and_then (read_tlv checks ext) (\<lambda>(t, v, ext). Inr (t, v))
        else Inr (next_tag, next_value)) (\<lambda>(next_tag, next_value).
     if next_tag \<noteq> DER_TAG_OCTET_STRING
     then Inl (Fail (InvalidCertificate ''expected OCTET STRING extnValue''))
     else
       and_then (expect_tag checks DER_TAG_SEQUENCE ''SGX extension SEQUENCE'' next_value) (\<lambda>(entries, _).
       find_fmspc checks entries)))"

function find_sgx_extension :: "bool \<Rightarrow> bytes \<Rightarrow> (fmspc_extract_error, bytes) res" where
  "find_sgx_extension checks exts =
     (if exts = [] then Inl (Fail NoSgxExtension)
      else
        case read_tlv checks exts of
          Inl e \<Rightarrow> Inl e
        | Inr (tag, ext_value, rest) \<Rightarrow>
            if tag \<noteq> DER_TAG_SEQUENCE
            then Inl (Fail (InvalidCertificate ''expected Extension SEQUENCE''))
            else
              case expect_tag checks DER_TAG_OID ''Extension OID'' ext_value of
                Inl e \<Rightarrow> Inl e
              | Inr (oid_bytes, ext) \<Rightarrow>
                  if oid_bytes \<noteq> OID_INTEL_SGX_EXTENSION then find_sgx_extension checks rest
                  else sgx_extension_fmspc checks ext)"
  by pat_completeness auto
termination
  by (relation "measure (\<lambda>(checks, exts). length exts)") (auto dest: read_tlv_shrinks)

declare find_sgx_extension.simps [simp del]

definition extract_fmspc_from_cert_der :: "bool \<Rightarrow> bytes \<Rightarrow> (fmspc_extract_error, bytes) res" where
  "extract_fmspc_from_cert_der checks cert_der =
     and_then (expect_tag checks DER_TAG_SEQUENCE ''Certificate SEQUENCE'' cert_der) (\<lambda>(cert_inner, _).
     and_then (expect_tag checks DER_TAG_SEQUENCE ''TBSCertificate SEQUENCE'' cert_inner) (\<lambda>(tbs_inner, _).
     and_then (find_extensions checks tbs_inner) (\<lambda>extensions_outer.
     and_then (expect_tag checks DER_TAG_SEQUENCE ''Extensions SEQUENCE'' extensions_outer) (\<lambda>(extensions_seq, _).
     find_sgx_extension checks extensions_seq))))"

section \<open>The chain\<close>

text \<open>\<open>str::find\<close>. The position counts characters, where the source counts bytes; both delimit the same slices.\<close>

fun str_find :: "rs_str \<Rightarrow> rs_str \<Rightarrow> nat option" where
  "str_find pat [] = (if pat = [] then Some 0 else None)"
| "str_find pat (c # cs) =
     (if take (length pat) (c # cs) = pat then Some 0 else map_option Suc (str_find pat cs))"

definition PEM_BEGIN :: rs_str where "PEM_BEGIN = ascii_str ''-----BEGIN CERTIFICATE-----''"
definition PEM_END :: rs_str where "PEM_END = ascii_str ''-----END CERTIFICATE-----''"

definition first_der_certificate :: "bool \<Rightarrow> bytes \<Rightarrow> (fmspc_extract_error, bytes) res" where
  "first_der_certificate checks chain =
     (case chain of
        [] \<Rightarrow> Inl (Fail InvalidCertChain)
      | tag # rest \<Rightarrow>
          if tag \<noteq> DER_TAG_SEQUENCE then Inl (Fail InvalidCertChain)
          else
            and_then (map_err (\<lambda>_. InvalidCertChain) (read_der_length rest)) (\<lambda>(len, len_size).
            and_then (usize_add checks 1 len_size) (\<lambda>n.
            and_then (usize_add checks n len) (\<lambda>total.
            if length chain < total then Inl (Fail InvalidCertChain)
            else rs_slice chain 0 total))))"

definition first_certificate_der ::
    "bool \<Rightarrow> (bytes \<Rightarrow> bytes option) \<Rightarrow> bytes \<Rightarrow> (fmspc_extract_error, bytes) res" where
  "first_certificate_der checks b64 chain =
     (case from_utf8 0 chain of
        Inr text \<Rightarrow>
          (case str_find PEM_BEGIN text of
             Some start \<Rightarrow>
               let body = drop (start + length PEM_BEGIN) text in
               (case str_find PEM_END body of
                  None \<Rightarrow> Inl (Fail InvalidCertChain)
                | Some rel_end \<Rightarrow>
                    let b64_body = filter (\<lambda>c. \<not> is_whitespace c) (take rel_end body) in
                    (case b64 (str_bytes b64_body) of
                       Some der \<Rightarrow> Inr der
                     | None \<Rightarrow> Inl (Fail InvalidCertChain)))
           | None \<Rightarrow> first_der_certificate checks chain)
      | Inl _ \<Rightarrow> first_der_certificate checks chain)"

text \<open>\<open>ParsedTdQuote::fmspc\<close>.\<close>

definition quote_fmspc ::
    "bool \<Rightarrow> (bytes \<Rightarrow> bytes option) \<Rightarrow> parsed_td_quote \<Rightarrow> (fmspc_extract_error, bytes) res" where
  "quote_fmspc checks b64 q =
     (case quote_pck_cert_chain q of
        None \<Rightarrow> Inl (Fail NoPckCertChain)
      | Some chain \<Rightarrow>
          and_then (first_certificate_der checks b64 chain) (\<lambda>leaf.
          extract_fmspc_from_cert_der checks leaf))"


section \<open>Certificates with an FMSPC\<close>

text \<open>
  The length octets of DER (X.690, 10.1), for lengths below \<open>2 ^ 32\<close>: the short form below 128, else the least number of
  big-endian octets behind \<open>0x81\<close> to \<open>0x84\<close>.
\<close>

definition length_octets :: "nat \<Rightarrow> nat" where
  "length_octets n = (if n < 2 ^ 8 then 1 else if n < 2 ^ 16 then 2 else if n < 2 ^ 24 then 3 else 4)"

definition der_length :: "nat \<Rightarrow> bytes" where
  "der_length n =
     (if n < 128 then [of_nat n]
      else of_nat (0x80 + length_octets n) # be_bytes (length_octets n) (of_nat n :: u64))"

definition der_tlv :: "u8 \<Rightarrow> bytes \<Rightarrow> bytes" where
  "der_tlv tag v = tag # der_length (length v) @ v"

lemma der_length_value_of_be: "der_length_value bs = of_be bs"
  by (induction bs rule: rev_induct) (simp_all add: der_length_value_def of_be_def or.commute)

lemma der_length_value_octets:
  assumes "n < 2 ^ (8 * k)" "k \<le> 8"
  shows "unat (der_length_value (be_bytes k (of_nat n :: u64))) = n"
proof -
  have "(2 :: nat) ^ (8 * k) \<le> 2 ^ 64" using assms(2) by (intro power_increasing) simp_all
  then have "unat (of_nat n :: u64) = n" using assms(1) by (simp add: unat_of_nat take_bit_nat_eq_self)
  moreover have "der_length_value (be_bytes k (of_nat n :: u64)) = take_bit (8 * k) (of_nat n)"
    by (simp add: der_length_value_of_be of_be_def be_bytes_def of_le_le_bytes)
  ultimately show ?thesis using assms(1) by (simp add: unsigned_take_bit_eq take_bit_nat_eq_self)
qed

lemma length_octets_enough: "n < 2 ^ 32 \<Longrightarrow> n < 2 ^ (8 * length_octets n)"
  and length_octets_bounds: "1 \<le> length_octets n" "length_octets n \<le> 4"
  by (simp_all add: length_octets_def)

lemma long_form_octet:
  "unat (of_nat (0x80 + length_octets n) AND 0x7F :: u8) = length_octets n"
  "\<not> (of_nat (0x80 + length_octets n) :: u8) < 0x80"
  by (simp_all add: length_octets_def)

text \<open>
  The encoding is minimal: a length in the long form has no leading zero octet, and one octet is used for 128 to 255 only.
\<close>

lemma der_length_minimal:
  "128 \<le> n \<Longrightarrow> n < 2 ^ 32 \<Longrightarrow> 256 ^ (length (der_length n) - 2) \<le> n \<and> length (der_length n) = 1 + length_octets n"
  by (auto simp: der_length_def length_octets_def be_bytes_def)

lemma small_length_octet: "n < 128 \<Longrightarrow> unat (of_nat n :: u8) = n \<and> (of_nat n :: u8) < 0x80"
  by (simp add: unat_of_nat take_bit_nat_eq_self word_less_nat_alt)

lemma read_der_length_wire:
  assumes "n < 2 ^ 32"
  shows "read_der_length (der_length n @ rest) = Inr (n, length (der_length n))"
proof (cases "n < 128")
  case True
  with small_length_octet [of n] show ?thesis by (simp add: read_der_length_def der_length_def)
next
  case False
  have v: "unat (der_length_value (be_bytes (length_octets n) (of_nat n :: u64))) = n"
    using length_octets_enough [OF assms] length_octets_bounds(2) [of n] by (intro der_length_value_octets) simp_all
  have l: "length (be_bytes (length_octets n) (of_nat n :: u64)) = length_octets n" by (simp add: be_bytes_def)
  have "take (length_octets n) (be_bytes (length_octets n) (of_nat n :: u64) @ rest) = be_bytes (length_octets n) (of_nat n :: u64)"
    using l by simp
  with False v l show ?thesis
    using length_octets_bounds [of n] long_form_octet [of n]
    by (simp add: read_der_length_def der_length_def Let_def del: of_nat_add)
qed

lemma der_length_bounds: "1 \<le> length (der_length n) \<and> length (der_length n) \<le> 5"
  using length_octets_bounds [of n] by (simp add: der_length_def be_bytes_def)

lemma read_tlv_wire:
  assumes "length v < 2 ^ 32"
  shows "read_tlv checks (der_tlv tag v @ rest) = Inr (tag, v, rest)"
proof -
  let ?k = "length (der_length (length v))"
  have "read_der_length (der_length (length v) @ v @ rest) = Inr (length v, ?k)"
    using assms by (simp add: read_der_length_wire)
  moreover have "(usize_add checks 1 ?k :: (fmspc_extract_error, nat) res) = Inr (1 + ?k)"
    "(usize_add checks (1 + ?k) (length v) :: (fmspc_extract_error, nat) res) = Inr (1 + ?k + length v)"
    using assms der_length_bounds [of "length v"] by (simp_all add: usize_add_def)
  ultimately show ?thesis by (simp add: read_tlv_def der_tlv_def)
qed

lemma expect_tag_wire: "length v < 2 ^ 32 \<Longrightarrow> expect_tag checks tag what (der_tlv tag v @ rest) = Inr (v, rest)"
  by (simp add: expect_tag_def read_tlv_wire)

lemma length_der_tlv: "length v < length (der_tlv tag v)"
  by (simp add: der_tlv_def)

text \<open>An X.509 certificate whose SGX extension has an FMSPC, around everything the walk skips.\<close>

definition oid_entry :: "bytes \<Rightarrow> bytes \<Rightarrow> bytes" where
  "oid_entry oid v = der_tlv DER_TAG_SEQUENCE (der_tlv DER_TAG_OID oid @ v)"

definition sgx_entries :: "(bytes \<times> bytes) list \<Rightarrow> bytes \<Rightarrow> bytes \<Rightarrow> bytes" where
  "sgx_entries before fmspc after =
     concat (map (\<lambda>(oid, v). oid_entry oid v) before) @
     oid_entry OID_INTEL_SGX_FMSPC (der_tlv DER_TAG_OCTET_STRING fmspc) @ after"

definition sgx_extension :: "bytes option \<Rightarrow> bytes \<Rightarrow> bytes" where
  "sgx_extension critical entries =
     oid_entry OID_INTEL_SGX_EXTENSION
       ((case critical of Some c \<Rightarrow> der_tlv DER_TAG_BOOLEAN c | None \<Rightarrow> []) @
        der_tlv DER_TAG_OCTET_STRING (der_tlv DER_TAG_SEQUENCE entries))"

definition extension_list :: "(bytes \<times> bytes) list \<Rightarrow> bytes \<Rightarrow> bytes \<Rightarrow> bytes" where
  "extension_list before ext after = concat (map (\<lambda>(oid, v). oid_entry oid v) before) @ ext @ after"

definition certificate_der :: "(u8 \<times> bytes) list \<Rightarrow> bytes \<Rightarrow> bytes \<Rightarrow> bytes" where
  "certificate_der tbs exts signature =
     der_tlv DER_TAG_SEQUENCE
       (der_tlv DER_TAG_SEQUENCE
          (concat (map (\<lambda>(tag, v). der_tlv tag v) tbs) @
           der_tlv DER_TAG_CONTEXT_3_EXPLICIT (der_tlv DER_TAG_SEQUENCE exts)) @ signature)"

lemma der_tlv_not_Nil [simp]: "der_tlv tag v \<noteq> []" "oid_entry oid v \<noteq> []"
  by (simp_all add: der_tlv_def oid_entry_def)

lemma oid_entry_parts:
  assumes "length (oid_entry oid v @ rest) < 2 ^ 32"
  shows "read_tlv checks (oid_entry oid v @ rest) = Inr (DER_TAG_SEQUENCE, der_tlv DER_TAG_OID oid @ v, rest)"
    and "expect_tag checks DER_TAG_OID what (der_tlv DER_TAG_OID oid @ v) = Inr (oid, v)"
proof -
  have "length (der_tlv DER_TAG_OID oid @ v) < 2 ^ 32" "length oid < 2 ^ 32"
    using assms length_der_tlv [of "der_tlv DER_TAG_OID oid @ v" DER_TAG_SEQUENCE] length_der_tlv [of oid DER_TAG_OID]
    by (simp_all add: oid_entry_def)
  then show "read_tlv checks (oid_entry oid v @ rest) = Inr (DER_TAG_SEQUENCE, der_tlv DER_TAG_OID oid @ v, rest)"
    "expect_tag checks DER_TAG_OID what (der_tlv DER_TAG_OID oid @ v) = Inr (oid, v)"
    by (simp_all only: oid_entry_def read_tlv_wire expect_tag_wire)
qed

lemma find_fmspc_wire:
  assumes "length (sgx_entries before fmspc after) < 2 ^ 32" "\<forall>(oid, v) \<in> set before. oid \<noteq> OID_INTEL_SGX_FMSPC"
  shows "find_fmspc checks (sgx_entries before fmspc after) =
    (if length fmspc = FMSPC_LEN then Inr fmspc else Inl (Fail (InvalidFmspcLength (length fmspc))))"
  using assms
proof (induction before)
  case Nil
  then have l: "length (oid_entry OID_INTEL_SGX_FMSPC (der_tlv DER_TAG_OCTET_STRING fmspc) @ after) < 2 ^ 32"
    by (simp add: sgx_entries_def)
  then have "length fmspc < 2 ^ 32"
    using length_der_tlv [of fmspc DER_TAG_OCTET_STRING] by (simp add: oid_entry_def der_tlv_def)
  then have "expect_tag checks DER_TAG_OCTET_STRING what (der_tlv DER_TAG_OCTET_STRING fmspc) = Inr (fmspc, [])" for what
    using expect_tag_wire [of fmspc checks DER_TAG_OCTET_STRING what "[]"] by simp
  then show ?case
    using oid_entry_parts [OF l] by (subst find_fmspc.simps) (simp add: sgx_entries_def)
next
  case (Cons p before)
  obtain oid v where p: "p = (oid, v)" by (cases p)
  have w: "sgx_entries (p # before) fmspc after = oid_entry oid v @ sgx_entries before fmspc after"
    by (simp add: sgx_entries_def p)
  then have "find_fmspc checks (sgx_entries (p # before) fmspc after) = find_fmspc checks (sgx_entries before fmspc after)"
    using oid_entry_parts [of oid v "sgx_entries before fmspc after"] Cons.prems
    by (subst find_fmspc.simps) (simp add: p)
  with Cons w show ?case by simp
qed

lemma find_sgx_extension_wire:
  assumes "length (extension_list before (oid_entry OID_INTEL_SGX_EXTENSION v) after) < 2 ^ 32"
    and "\<forall>(oid, v) \<in> set before. oid \<noteq> OID_INTEL_SGX_EXTENSION"
  shows "find_sgx_extension checks (extension_list before (oid_entry OID_INTEL_SGX_EXTENSION v) after) =
    sgx_extension_fmspc checks v"
  using assms
proof (induction before)
  case Nil
  then show ?case
    using oid_entry_parts [of OID_INTEL_SGX_EXTENSION v after]
    by (subst find_sgx_extension.simps) (simp add: extension_list_def)
next
  case (Cons p before)
  let ?rest = "extension_list before (oid_entry OID_INTEL_SGX_EXTENSION v) after"
  obtain oid w where p: "p = (oid, w)" by (cases p)
  have w: "extension_list (p # before) (oid_entry OID_INTEL_SGX_EXTENSION v) after = oid_entry oid w @ ?rest"
    by (simp add: extension_list_def p)
  then have "find_sgx_extension checks (extension_list (p # before) (oid_entry OID_INTEL_SGX_EXTENSION v) after) =
      find_sgx_extension checks ?rest"
    using oid_entry_parts [of oid w ?rest] Cons.prems by (subst find_sgx_extension.simps) (simp add: p)
  with Cons w show ?case by simp
qed

lemma find_extensions_wire:
  assumes "length (concat (map (\<lambda>(tag, v). der_tlv tag v) tbs) @ der_tlv DER_TAG_CONTEXT_3_EXPLICIT v) < 2 ^ 32"
    and "\<forall>(tag, v) \<in> set tbs. tag \<noteq> DER_TAG_CONTEXT_3_EXPLICIT"
  shows "find_extensions checks (concat (map (\<lambda>(tag, v). der_tlv tag v) tbs) @ der_tlv DER_TAG_CONTEXT_3_EXPLICIT v) = Inr v"
  using assms
proof (induction tbs)
  case Nil
  then show ?case
    using read_tlv_wire [of v checks DER_TAG_CONTEXT_3_EXPLICIT "[]"] length_der_tlv [of v DER_TAG_CONTEXT_3_EXPLICIT]
    by (subst find_extensions.simps) simp
next
  case (Cons p tbs)
  obtain tag w where p: "p = (tag, w)" by (cases p)
  from Cons show ?case
    using read_tlv_wire [of w checks tag] length_der_tlv [of w tag]
    by (subst find_extensions.simps) (simp add: p)
qed


lemma sgx_extension_fmspc_wire:
  assumes "length (der_tlv DER_TAG_SEQUENCE entries) < 2 ^ 32"
    and "\<And>c. critical = Some c \<Longrightarrow> length c < 2 ^ 32"
  shows "sgx_extension_fmspc checks
      ((case critical of Some c \<Rightarrow> der_tlv DER_TAG_BOOLEAN c | None \<Rightarrow> []) @
        der_tlv DER_TAG_OCTET_STRING (der_tlv DER_TAG_SEQUENCE entries)) = find_fmspc checks entries"
proof -
  have "length entries < 2 ^ 32" using assms(1) length_der_tlv [of entries DER_TAG_SEQUENCE] by simp
  then have "expect_tag checks DER_TAG_SEQUENCE what (der_tlv DER_TAG_SEQUENCE entries) = Inr (entries, [])" for what
    using expect_tag_wire [of entries checks DER_TAG_SEQUENCE what "[]"] by simp
  moreover have "read_tlv checks (der_tlv DER_TAG_OCTET_STRING (der_tlv DER_TAG_SEQUENCE entries)) =
      Inr (DER_TAG_OCTET_STRING, der_tlv DER_TAG_SEQUENCE entries, [])"
    using read_tlv_wire [OF assms(1), of checks DER_TAG_OCTET_STRING "[]"] by simp
  ultimately show ?thesis
    using assms(2) read_tlv_wire
    by (cases critical) (auto simp: sgx_extension_fmspc_def der_tags)
qed

text \<open>
  C36. The FMSPC is found in every certificate in DER of less than \<open>2 ^ 32\<close> bytes that has it, whatever
  stands around it: any fields of one-octet tags before the extensions, any other extensions and any other
  entries of the SGX extension (sequences that begin with their OID), and an optional \<open>critical\<close> flag. Every length is in the form DER prescribes for it, short
  below 128 and with the least number of octets (one to four) from there on. A value that is not six bytes long is an error naming
  its length.
\<close>

theorem fmspc_extracted:
  assumes "certificate = certificate_der tbs
      (extension_list exts (sgx_extension critical (sgx_entries entries fmspc after_entry)) after_ext) signature"
    and "length certificate < 2 ^ 32"
    and "\<forall>(tag, v) \<in> set tbs. tag \<noteq> DER_TAG_CONTEXT_3_EXPLICIT"
    and "\<forall>(oid, v) \<in> set exts. oid \<noteq> OID_INTEL_SGX_EXTENSION"
    and "\<forall>(oid, v) \<in> set entries. oid \<noteq> OID_INTEL_SGX_FMSPC"
  shows "extract_fmspc_from_cert_der checks certificate =
    (if length fmspc = FMSPC_LEN then Inr fmspc else Inl (Fail (InvalidFmspcLength (length fmspc))))"
proof -
  let ?e = "sgx_entries entries fmspc after_entry"
  let ?v = "(case critical of Some c \<Rightarrow> der_tlv DER_TAG_BOOLEAN c | None \<Rightarrow> []) @
        der_tlv DER_TAG_OCTET_STRING (der_tlv DER_TAG_SEQUENCE ?e)"
  let ?x = "extension_list exts (oid_entry OID_INTEL_SGX_EXTENSION ?v) after_ext"
  let ?t = "concat (map (\<lambda>(tag, v). der_tlv tag v) tbs) @ der_tlv DER_TAG_CONTEXT_3_EXPLICIT (der_tlv DER_TAG_SEQUENCE ?x)"
  let ?c = "der_tlv DER_TAG_SEQUENCE ?t @ signature"
  have c: "certificate = der_tlv DER_TAG_SEQUENCE ?c"
    by (simp add: assms(1) certificate_der_def sgx_extension_def)
  have l: "length ?c < 2 ^ 32" using assms(2) length_der_tlv [of ?c DER_TAG_SEQUENCE] by (simp only: c)
  then have t: "length ?t < 2 ^ 32" using length_der_tlv [of ?t DER_TAG_SEQUENCE] by simp
  then have s: "length (der_tlv DER_TAG_SEQUENCE ?x) < 2 ^ 32"
    using length_der_tlv [of "der_tlv DER_TAG_SEQUENCE ?x" DER_TAG_CONTEXT_3_EXPLICIT] by simp
  then have x: "length ?x < 2 ^ 32" using length_der_tlv [of ?x DER_TAG_SEQUENCE] by simp
  then have v: "length ?v < 2 ^ 32"
    using length_der_tlv [of "der_tlv DER_TAG_OID OID_INTEL_SGX_EXTENSION @ ?v" DER_TAG_SEQUENCE]
    by (simp add: extension_list_def oid_entry_def)
  then have q: "length (der_tlv DER_TAG_SEQUENCE ?e) < 2 ^ 32"
    using length_der_tlv [of "der_tlv DER_TAG_SEQUENCE ?e" DER_TAG_OCTET_STRING] by simp
  have cr: "\<And>c. critical = Some c \<Longrightarrow> length c < 2 ^ 32"
  proof -
    fix c assume "critical = Some c"
    then show "length c < 2 ^ 32" using v length_der_tlv [of c DER_TAG_BOOLEAN] by simp
  qed
  from q have e: "length ?e < 2 ^ 32" using length_der_tlv [of ?e DER_TAG_SEQUENCE] by simp
  have seq: "expect_tag checks DER_TAG_SEQUENCE what (der_tlv DER_TAG_SEQUENCE w) = Inr (w, [])" if "length w < 2 ^ 32" for what w
    using expect_tag_wire [OF that, of checks DER_TAG_SEQUENCE what "[]"] by simp
  have "extract_fmspc_from_cert_der checks certificate = find_fmspc checks ?e"
    unfolding extract_fmspc_from_cert_der_def c
    by (simp only: seq [OF l] expect_tag_wire [OF t] find_extensions_wire [OF t assms(3)] seq [OF x]
        find_sgx_extension_wire [OF x assms(4)] sgx_extension_fmspc_wire [OF q cr] and_then_Inr prod.case)
  then show ?thesis by (simp only: find_fmspc_wire [OF e assms(5)])
qed

theorem fmspc_extracted_witness:
  "extract_fmspc_from_cert_der True
     (certificate_der [(0x02, replicate 200 1), (DER_TAG_SEQUENCE, [])]
       (extension_list [([0x55, 0x1D, 0x0F], [])]
         (sgx_extension (Some [0xFF]) (sgx_entries [([0x2A], [])] [1, 2, 3, 4, 5, 6] [])) []) [0x30, 0]) =
   Inr [1, 2, 3, 4, 5, 6]"
proof -
  have "extract_fmspc_from_cert_der True
     (certificate_der [(0x02, replicate 200 1), (DER_TAG_SEQUENCE, [])]
       (extension_list [([0x55, 0x1D, 0x0F], [])]
         (sgx_extension (Some [0xFF]) (sgx_entries [([0x2A], [])] [1, 2, 3, 4, 5, 6] [])) []) [0x30, 0]) =
    (if length [1, 2, 3, 4, 5, 6 :: u8] = FMSPC_LEN then Inr [1, 2, 3, 4, 5, 6]
     else Inl (Fail (InvalidFmspcLength (length [1, 2, 3, 4, 5, 6 :: u8]))))"
    by (rule fmspc_extracted [OF refl])
      (simp_all add: certificate_der_def extension_list_def sgx_extension_def sgx_entries_def oid_entry_def
        der_tlv_def der_length_def length_octets_def be_bytes_def OID_INTEL_SGX_EXTENSION_def OID_INTEL_SGX_FMSPC_def der_tags)
  then show ?thesis by (simp add: FMSPC_LEN_def)
qed

section \<open>Lengths near the end of the address space\<close>

lemma der_length_value_be8: "der_length_value (be_bytes 8 (w :: u64)) = w"
  by (simp add: der_length_value_of_be)

lemma read_tlv_overflow:
  assumes "2 ^ 64 - 10 \<le> n" "n < 2 ^ 64"
  shows "read_tlv checks (tag # 0x88 # be_bytes 8 (of_nat n :: u64) @ rest) = Inl Panic"
proof -
  have n: "unat (of_nat n :: u64) = n" using assms(2) by (simp add: unat_of_nat take_bit_nat_eq_self)
  then have "read_der_length (0x88 # be_bytes 8 (of_nat n :: u64) @ rest) = Inr (n, 9)"
    by (simp add: read_der_length_def der_length_value_be8)
  moreover have "(10 + n) mod 2 ^ 64 < 10" using assms by (simp add: le_mod_geq)
  moreover from this have "rs_slice bs 10 ((10 + n) mod 2 ^ 64) = (Inl Panic :: (fmspc_extract_error, bytes) res)" for bs :: bytes
    by (simp add: rs_slice_def)
  ultimately show ?thesis using assms by (simp add: read_tlv_def usize_add_def)
qed

text \<open>
  C40. A quote whose certificate chain is a DER sequence in the short form around
  an element of tag \<open>0x30\<close> with an 8-byte length of at least \<open>2 ^ 64 - 10\<close> and fewer than 118 further bytes makes the
  method \<open>fmspc\<close> of the parsed quote panic, whether the addition of header and length is checked or wraps:
  the chain comes from the quote, before any signature is verified.
\<close>

theorem fmspc_length_overflow_panics:
  assumes "quote_pck_cert_chain q = Some (0x30 # of_nat (10 + length rest) # 0x30 # 0x88 # be_bytes 8 (of_nat n :: u64) @ rest)"
    and "2 ^ 64 - 10 \<le> n" "n < 2 ^ 64" "length rest < 118"
  shows "quote_fmspc checks b64 q = Inl Panic"
proof -
  let ?in = "0x30 # 0x88 # be_bytes 8 (of_nat n :: u64) @ rest"
  have c: "0x30 # of_nat (10 + length rest) # ?in = der_tlv DER_TAG_SEQUENCE ?in"
    using assms(4) by (simp add: der_tlv_def der_length_def DER_TAG_SEQUENCE_def)
  have b: "(of_nat (10 + length rest) :: u8) < 0x80" using small_length_octet [of "10 + length rest"] assms(4) by simp
  have u: "\<exists>e. from_utf8 0 (0x30 # of_nat (10 + length rest) # ?in) = Inl e"
    using b by (simp add: from_utf8_ascii from_utf8.simps [of _ "0x88 # _"] utf8_width_def split: sum.split)
  have d: "read_der_length (of_nat (10 + length rest) # ?in) = Inr (10 + length rest, 1)"
    using small_length_octet [of "10 + length rest"] assms(4) by (simp add: read_der_length_def)
  then have "first_der_certificate checks (0x30 # of_nat (10 + length rest) # ?in) = Inr (0x30 # of_nat (10 + length rest) # ?in)"
    using assms(4) by (simp add: first_der_certificate_def DER_TAG_SEQUENCE_def usize_add_def)
  with u have f: "first_certificate_der checks b64 (0x30 # of_nat (10 + length rest) # ?in) =
      Inr (der_tlv DER_TAG_SEQUENCE ?in)"
    by (auto simp: first_certificate_der_def c [symmetric])
  have l: "length ?in < 2 ^ 32" using assms(4) by simp
  have "extract_fmspc_from_cert_der checks (der_tlv DER_TAG_SEQUENCE ?in) = Inl Panic"
    using expect_tag_wire [OF l, of checks DER_TAG_SEQUENCE _ "[]"] read_tlv_overflow [OF assms(2,3)]
    by (simp add: extract_fmspc_from_cert_der_def) (simp add: expect_tag_def)
  with f assms(1) show ?thesis by (simp add: quote_fmspc_def)
qed

definition quote_with_chain :: "bytes \<Rightarrow> parsed_td_quote" where
  "quote_with_chain chain =
     sample_td_quote\<lparr>pq_signature := Some (sample_td_signature\<lparr>qs_certification := Some (Cert_EcdsaSigAux
       (sample_ecdsa\<lparr>ec_nested_certification := Some (Nested_PckCertChain (plain_chain chain))\<rparr>))\<rparr>)\<rparr>"

lemma quote_with_chain [simp]: "quote_pck_cert_chain (quote_with_chain chain) = Some chain"
  by (simp add: quote_pck_cert_chain_def quote_with_chain_def plain_chain_def)

theorem fmspc_length_overflow_panics_witness:
  "quote_fmspc False (\<lambda>_. None) (quote_with_chain (0x30 # 0x0A # 0x30 # 0x88 # be_bytes 8 (2 ^ 64 - 1 :: u64))) = Inl Panic \<and>
   quote_fmspc True (\<lambda>_. None) (quote_with_chain (0x30 # 0x0A # 0x30 # 0x88 # be_bytes 8 (2 ^ 64 - 1 :: u64))) = Inl Panic"
proof -
  have "quote_fmspc checks (\<lambda>_. None) (quote_with_chain (0x30 # 0x0A # 0x30 # 0x88 # be_bytes 8 (2 ^ 64 - 1 :: u64))) = Inl Panic"
    for checks
    by (rule fmspc_length_overflow_panics [of _ "[]" "2 ^ 64 - 1"]) simp_all
  then show ?thesis by blast
qed

end
