(* ===== verification/Tee_Reports.thy ===== *)
theory Tee_Reports
  imports Td_Quote_Fmspc Cvm_Report Tpm_Errors
begin

text \<open>
  The fixed-size hardware reports: \<open>tee_report/snp.rs\<close>, \<open>tee_report/tdx.rs\<close>,
  \<open>tee_report/vbs.rs\<close>, their copies out of a byte buffer in \<open>parse.rs\<close>, and the SDK's
  error type (\<open>error.rs\<close>).
\<close>

section \<open>Errors of the SDK\<close>

datatype sdk_error =
    Sdk_Tpm tpm_error
  | Sdk_Io io_error
  | Sdk_Network string "u16 option" string
  | Sdk_Parse string
  | Sdk_Quote td_quote_parse_error
  | Sdk_Crypto string
  | Sdk_Other string

fun sdk_error_display :: "sdk_error \<Rightarrow> string" where
  "sdk_error_display (Sdk_Tpm e) = ''TPM error: '' @ tpm_error_display e"
| "sdk_error_display (Sdk_Io e) = ''I/O error: '' @ io_error_display e"
| "sdk_error_display (Sdk_Network message status body) =
     ''network error: '' @ message @
     (case status of Some code \<Rightarrow> '' (HTTP '' @ fmt_dec (unat code) @ '')'' | None \<Rightarrow> []) @
     (if body = [] then [] else '': '' @ body)"
| "sdk_error_display (Sdk_Parse msg) = ''parse error: '' @ msg"
| "sdk_error_display (Sdk_Quote e) = ''TD quote parse error: '' @ td_quote_parse_error_display e"
| "sdk_error_display (Sdk_Crypto msg) = ''crypto error: '' @ msg"
| "sdk_error_display (Sdk_Other msg) = msg"

text \<open>\<open>From<io::Error>\<close>: a boxed \<open>TpmError\<close> becomes the TPM variant again.\<close>

fun sdk_from_io :: "io_error \<Rightarrow> sdk_error" where
  "sdk_from_io (Io_Tpm te) = Sdk_Tpm te"
| "sdk_from_io (Io_Msg k msg) = Sdk_Io (Io_Msg k msg)"

definition sdk_from_tpm :: "tpm_error \<Rightarrow> sdk_error" where "sdk_from_tpm e = Sdk_Tpm e"

definition sdk_from_quote :: "td_quote_parse_error \<Rightarrow> sdk_error" where "sdk_from_quote e = Sdk_Quote e"

type_synonym 'a sdk_res = "(sdk_error, 'a) res"

section \<open>SEV-SNP\<close>

definition SNP_REPORT_SIZE :: nat where "SNP_REPORT_SIZE = 0x4A0"

record snp_report =
  sr_version :: u32
  sr_guest_svn :: u32
  sr_policy :: u64
  sr_family :: "128 word"
  sr_image_id :: "128 word"
  sr_vmpl :: u32
  sr_signature_algo :: u32
  sr_current_tcb :: u64
  sr_platform_info :: u64
  sr_flags :: u32
  sr_reserved0 :: u32
  sr_report_data :: bytes
  sr_measurement :: bytes
  sr_host_data :: bytes
  sr_id_key_digest :: bytes
  sr_author_key_digest :: bytes
  sr_report_id :: bytes
  sr_report_id_ma :: bytes
  sr_reported_tcb :: u64
  sr_reserved1 :: bytes
  sr_chip_id :: bytes
  sr_committed_tcb :: u64
  sr_current_build :: u8
  sr_current_minor :: u8
  sr_current_major :: u8
  sr_reserved2 :: u8
  sr_committed_build :: u8
  sr_committed_minor :: u8
  sr_committed_major :: u8
  sr_reserved3 :: u8
  sr_launch_tcb :: u64
  sr_reserved4 :: bytes
  sr_signature :: bytes

definition snp_sizes :: "nat list" where
  "snp_sizes =
     [4, 4, 8, 16, 16, 4, 4, 8, 8, 4, 4, 64, 48, 32, 48, 48, 32, 32, 8, 24, 64, 8,
      1, 1, 1, 1, 1, 1, 1, 1, 8, 168, 512]"

definition snp_of_wire :: "bytes \<Rightarrow> snp_report" where
  "snp_of_wire b =
     (let f = c_fields snp_sizes b
      in \<lparr>sr_version = of_le (f ! 0), sr_guest_svn = of_le (f ! 1), sr_policy = of_le (f ! 2),
          sr_family = of_le (f ! 3), sr_image_id = of_le (f ! 4), sr_vmpl = of_le (f ! 5),
          sr_signature_algo = of_le (f ! 6), sr_current_tcb = of_le (f ! 7),
          sr_platform_info = of_le (f ! 8), sr_flags = of_le (f ! 9), sr_reserved0 = of_le (f ! 10),
          sr_report_data = f ! 11, sr_measurement = f ! 12, sr_host_data = f ! 13,
          sr_id_key_digest = f ! 14, sr_author_key_digest = f ! 15, sr_report_id = f ! 16,
          sr_report_id_ma = f ! 17, sr_reported_tcb = of_le (f ! 18), sr_reserved1 = f ! 19,
          sr_chip_id = f ! 20, sr_committed_tcb = of_le (f ! 21), sr_current_build = of_le (f ! 22),
          sr_current_minor = of_le (f ! 23), sr_current_major = of_le (f ! 24),
          sr_reserved2 = of_le (f ! 25), sr_committed_build = of_le (f ! 26),
          sr_committed_minor = of_le (f ! 27), sr_committed_major = of_le (f ! 28),
          sr_reserved3 = of_le (f ! 29), sr_launch_tcb = of_le (f ! 30), sr_reserved4 = f ! 31,
          sr_signature = f ! 32\<rparr>)"

text \<open>Family, model and stepping, in the layouts that have them.\<close>

definition snp_cpuid :: "snp_report \<Rightarrow> (u8 \<times> u8 \<times> u8) option" where
  "snp_cpuid r =
     (if 3 \<le> sr_version r \<and> sr_version r \<le> 5
      then Some (sr_reserved1 r ! 0, sr_reserved1 r ! 1, sr_reserved1 r ! 2) else None)"

definition mitigation_vectors :: "snp_report \<Rightarrow> (u64 \<times> u64) option" where
  "mitigation_vectors r =
     (if sr_version r = 5
      then Some (of_le (take 8 (sr_reserved4 r)), of_le (take 8 (drop 8 (sr_reserved4 r)))) else None)"

definition parse_snp_report :: "bytes \<Rightarrow> snp_report sdk_res" where
  "parse_snp_report bs =
     (if length bs < SNP_REPORT_SIZE
      then Inl (Fail (Sdk_Parse (''SNP report buffer too small: have '' @ fmt_dec (length bs) @
             '' need '' @ fmt_dec SNP_REPORT_SIZE)))
      else Inr (snp_of_wire (take SNP_REPORT_SIZE bs)))"

section \<open>TDX\<close>

definition TDX_REPORT_SIZE :: nat where "TDX_REPORT_SIZE = 0x400"

record report_type =
  rt_tee_type :: u8
  rt_sub_type :: u8
  rt_version :: u8
  rt_reserved :: u8

record report_mac =
  rm_report_type :: report_type
  rm_reserved0 :: bytes
  rm_cpu_svn :: bytes
  rm_tee_tcb_info_hash :: bytes
  rm_tee_info_hash :: bytes
  rm_report_data :: bytes
  rm_reserved1 :: bytes
  rm_mac :: bytes

record tee_tcb_svn =
  ts_module_svn_minor :: u8
  ts_module_svn_major :: u8
  ts_seam_last_patch_svn :: u8
  ts_reserved :: bytes

record tee_tcb_info =
  ti_valid :: bytes
  ti_tee_tcb_svn :: tee_tcb_svn
  ti_mr_seam :: bytes
  ti_mr_signer_seam :: bytes
  ti_attributes :: bytes
  ti_tee_tcb_svn2 :: tee_tcb_svn
  ti_reserved :: bytes

record td_info_base =
  tb_attributes :: u64
  tb_xfam :: bytes
  tb_mr_td :: bytes
  tb_mr_config_id :: bytes
  tb_mr_owner :: bytes
  tb_mr_owner_config :: bytes
  tb_rtmr :: "bytes list"
  tb_servd_hash :: bytes

record td_info =
  td_info_base :: td_info_base
  td_info_extension :: bytes

record td_report =
  tr_report_mac_struct :: report_mac
  tr_tee_tcb_info :: tee_tcb_info
  tr_reserved :: bytes
  tr_td_info :: td_info

record td_info_ext_v15 =
  tx_td_id :: bytes
  tx_reserved :: bytes
  tx_vmid :: u8
  tx_reserved2 :: bytes
  tx_valid :: u32

definition report_type_of_wire :: "bytes \<Rightarrow> report_type" where
  "report_type_of_wire b =
     (let f = c_fields [1, 1, 1, 1] b
      in \<lparr>rt_tee_type = of_le (f ! 0), rt_sub_type = of_le (f ! 1), rt_version = of_le (f ! 2),
          rt_reserved = of_le (f ! 3)\<rparr>)"

definition report_mac_of_wire :: "bytes \<Rightarrow> report_mac" where
  "report_mac_of_wire b =
     (let f = c_fields [4, 12, 16, 48, 48, 64, 32, 32] b
      in \<lparr>rm_report_type = report_type_of_wire (f ! 0), rm_reserved0 = f ! 1, rm_cpu_svn = f ! 2,
          rm_tee_tcb_info_hash = f ! 3, rm_tee_info_hash = f ! 4, rm_report_data = f ! 5,
          rm_reserved1 = f ! 6, rm_mac = f ! 7\<rparr>)"

definition tee_tcb_svn_of_wire :: "bytes \<Rightarrow> tee_tcb_svn" where
  "tee_tcb_svn_of_wire b =
     (let f = c_fields [1, 1, 1, 13] b
      in \<lparr>ts_module_svn_minor = of_le (f ! 0), ts_module_svn_major = of_le (f ! 1),
          ts_seam_last_patch_svn = of_le (f ! 2), ts_reserved = f ! 3\<rparr>)"

definition tee_tcb_info_of_wire :: "bytes \<Rightarrow> tee_tcb_info" where
  "tee_tcb_info_of_wire b =
     (let f = c_fields [8, 16, 48, 48, 8, 16, 95] b
      in \<lparr>ti_valid = f ! 0, ti_tee_tcb_svn = tee_tcb_svn_of_wire (f ! 1), ti_mr_seam = f ! 2,
          ti_mr_signer_seam = f ! 3, ti_attributes = f ! 4,
          ti_tee_tcb_svn2 = tee_tcb_svn_of_wire (f ! 5), ti_reserved = f ! 6\<rparr>)"

definition td_info_base_of_wire :: "bytes \<Rightarrow> td_info_base" where
  "td_info_base_of_wire b =
     (let f = c_fields [8, 8, 48, 48, 48, 48, 192, 48] b
      in \<lparr>tb_attributes = of_le (f ! 0), tb_xfam = f ! 1, tb_mr_td = f ! 2, tb_mr_config_id = f ! 3,
          tb_mr_owner = f ! 4, tb_mr_owner_config = f ! 5,
          tb_rtmr = c_fields [48, 48, 48, 48] (f ! 6), tb_servd_hash = f ! 7\<rparr>)"

definition td_report_of_wire :: "bytes \<Rightarrow> td_report" where
  "td_report_of_wire b =
     (let f = c_fields [256, 239, 17, 448, 64] b
      in \<lparr>tr_report_mac_struct = report_mac_of_wire (f ! 0), tr_tee_tcb_info = tee_tcb_info_of_wire (f ! 1),
          tr_reserved = f ! 2,
          tr_td_info = \<lparr>td_info_base = td_info_base_of_wire (f ! 3), td_info_extension = f ! 4\<rparr>\<rparr>)"

definition td_info_extension_v15_ex :: "td_report \<Rightarrow> td_info_ext_v15 option" where
  "td_info_extension_v15_ex r =
     (if rt_version (rm_report_type (tr_report_mac_struct r)) = 3 then
        let f = c_fields [32, 24, 1, 3, 4] (td_info_extension (tr_td_info r))
        in Some \<lparr>tx_td_id = f ! 0, tx_reserved = f ! 1, tx_vmid = of_le (f ! 2), tx_reserved2 = f ! 3,
                 tx_valid = of_le (f ! 4)\<rparr>
      else None)"

definition parse_tdx_report :: "bytes \<Rightarrow> td_report sdk_res" where
  "parse_tdx_report bs =
     (if length bs < TDX_REPORT_SIZE
      then Inl (Fail (Sdk_Parse (''TDX report buffer too small: have '' @ fmt_dec (length bs) @
             '' need '' @ fmt_dec TDX_REPORT_SIZE)))
      else Inr (td_report_of_wire (take TDX_REPORT_SIZE bs)))"

text \<open>The named flags of \<open>TdAttributes\<close>, in the order of their bits.\<close>

definition td_attribute_flags :: "(nat \<times> string) list" where
  "td_attribute_flags =
     [(0, ''debug''), (4, ''hgs_plus_prof''), (5, ''perf_prof''), (6, ''pmt_prof''), (27, ''lass''),
      (28, ''sept_ve_disable''), (29, ''migratable''), (30, ''pks''), (31, ''kl''), (62, ''tpa''),
      (63, ''perfmon'')]"

section \<open>VBS\<close>

definition VBS_REPORT_SIZE :: nat where "VBS_REPORT_SIZE = 0x230"

record vbs_package_header =
  vh_package_size :: u32
  vh_version :: u32
  vh_signature_scheme :: u32
  vh_signature_size :: u32
  vh_reserved :: u32

record vbs_vm_identity =
  vi_owner_id :: bytes
  vi_measurement :: bytes
  vi_signer :: bytes
  vi_host_data :: bytes
  vi_enabled_vtl :: u32
  vi_policy :: u32
  vi_guest_vtl :: u32
  vi_guest_svn :: u32
  vi_guest_product_id :: u32
  vi_guest_module_id :: u32
  vi_reserved :: bytes

record vbs_report =
  vr_header :: vbs_package_header
  vr_version :: u32
  vr_report_data :: bytes
  vr_identity :: vbs_vm_identity
  vr_signature :: bytes

definition vbs_header_of_wire :: "bytes \<Rightarrow> vbs_package_header" where
  "vbs_header_of_wire b =
     (let f = c_fields [4, 4, 4, 4, 4] b
      in \<lparr>vh_package_size = of_le (f ! 0), vh_version = of_le (f ! 1), vh_signature_scheme = of_le (f ! 2),
          vh_signature_size = of_le (f ! 3), vh_reserved = of_le (f ! 4)\<rparr>)"

definition vbs_identity_of_wire :: "bytes \<Rightarrow> vbs_vm_identity" where
  "vbs_identity_of_wire b =
     (let f = c_fields [32, 32, 32, 32, 4, 4, 4, 4, 4, 4, 64] b
      in \<lparr>vi_owner_id = f ! 0, vi_measurement = f ! 1, vi_signer = f ! 2, vi_host_data = f ! 3,
          vi_enabled_vtl = of_le (f ! 4), vi_policy = of_le (f ! 5), vi_guest_vtl = of_le (f ! 6),
          vi_guest_svn = of_le (f ! 7), vi_guest_product_id = of_le (f ! 8),
          vi_guest_module_id = of_le (f ! 9), vi_reserved = f ! 10\<rparr>)"

definition vbs_of_wire :: "bytes \<Rightarrow> vbs_report" where
  "vbs_of_wire b =
     (let f = c_fields [20, 4, 64, 216, 256] b
      in \<lparr>vr_header = vbs_header_of_wire (f ! 0), vr_version = of_le (f ! 1), vr_report_data = f ! 2,
          vr_identity = vbs_identity_of_wire (f ! 3), vr_signature = f ! 4\<rparr>)"

definition parse_vbs_report :: "bytes \<Rightarrow> vbs_report sdk_res" where
  "parse_vbs_report bs =
     (if length bs < VBS_REPORT_SIZE
      then Inl (Fail (Sdk_Parse (''VBS report buffer too small: have '' @ fmt_dec (length bs) @
             '' need '' @ fmt_dec VBS_REPORT_SIZE)))
      else Inr (vbs_of_wire (take VBS_REPORT_SIZE bs)))"

section \<open>The other parsers of the module\<close>

definition sdk_td_quote :: "bytes \<Rightarrow> parsed_td_quote sdk_res" where
  "sdk_td_quote bs = map_err sdk_from_quote (parse_td_quote bs)"

end
