(* ===== verification/Guest_Attest.thy ===== *)
theory Guest_Attest
  imports Maa_Endpoint Tpm_Attestation Event_Log Tee_Reports
begin

text \<open>
  The guest attestation layer of the SDK: \<open>guest_attest/mod.rs\<close> (request types, their JSON
  form, payload builders, the token envelope), \<open>guest_attest/imds.rs\<close> and
  \<open>guest_attest/provider.rs\<close>, with \<open>aes_gcm_decrypt\<close> of \<open>crypto.rs\<close>.

  What the code calls outside the repository is the record \<open>'s platform\<close> over a state \<open>'s\<close>
  that the TPM and the network share: \<open>reqwest\<close> answers a request with a reply whose
  accessors are fields (\<open>pf_client_error\<close> and \<open>pf_url_error\<close> are the failures of its builders), \<open>serde_json\<close> writes and reads values of \<open>json_value\<close>, \<open>base64\<close> has its
  two engines. A \<open>String\<close> is its UTF-8 bytes as a \<open>string\<close>.
\<close>

section \<open>The platform\<close>

record http_request =
  rq_post :: bool
  rq_url :: string
  rq_headers :: "(string \<times> string) list"
  rq_json :: "json_value option"

text \<open>\<open>status\<close> with its \<open>Display\<close>, the headers (present or not, and whether \<open>to_str\<close> reads them), and the results of \<open>text()\<close>, \<open>json()\<close>, \<open>bytes()\<close> and \<open>json::<MrtdListResponse>()\<close>
  on the body.\<close>

record http_reply =
  ht_status :: u16
  ht_status_text :: string
  ht_header :: "string \<Rightarrow> string option option"
  ht_text :: "string + string"
  ht_json :: "string + json_value"
  ht_body :: "string + bytes"
  ht_mrtds :: "string + string list"

text \<open>
  The libraries behind the backends of \<open>crypto.rs\<close>: the crate \<open>aes-gcm\<close> is given the ciphertext with the tag behind
  it, OpenSSL the two apart, SymCrypt expands the key first. The arguments are key, nonce, associated data and message.
\<close>

type_synonym aead_open = "bytes \<Rightarrow> bytes \<Rightarrow> bytes \<Rightarrow> string + bytes"

datatype aead_library =
    Aes_Gcm_Crate "bytes \<Rightarrow> aead_open"
  | Openssl_Aead "bytes \<Rightarrow> bytes \<Rightarrow> aead_open"
  | Symcrypt_Aead "bytes \<Rightarrow> string + (bytes \<Rightarrow> aead_open)"

record 's platform =
  pf_tpm :: "'s transport"
  pf_random :: "'s random"
  pf_sha256 :: "bytes \<Rightarrow> bytes"
  pf_aead :: aead_library
  pf_claims :: "bytes \<Rightarrow> runtime_claims option"
  pf_json_text :: "json_value \<Rightarrow> string"
  pf_json_parse :: "string \<Rightarrow> string + json_value"
  pf_b64_std :: "bytes \<Rightarrow> string"
  pf_b64_std_decode :: "string \<Rightarrow> string + bytes"
  pf_b64_url :: "bytes \<Rightarrow> string"
  pf_b64_url_decode :: "string \<Rightarrow> string + bytes"
  pf_hex_upper :: "bytes \<Rightarrow> string"
  pf_uppercase :: "string \<Rightarrow> string"
  pf_client_error :: "string option"
  pf_url_error :: "string \<Rightarrow> string option"
  pf_http :: "http_request \<Rightarrow> 's \<Rightarrow> (string + http_reply) \<times> 's"
  pf_sleep :: "nat \<Rightarrow> 's \<Rightarrow> 's"
  pf_os :: string
  pf_read_file :: "string \<Rightarrow> 's \<Rightarrow> bytes option \<times> 's"
  pf_wbcl :: "'s \<Rightarrow> bytes \<times> 's"

definition is_success :: "http_reply \<Rightarrow> bool" where
  "is_success r \<longleftrightarrow> 200 \<le> unat (ht_status r) \<and> unat (ht_status r) < 300"

text \<open>\<open>http_client_builder().build().expect(...)\<close>\<close>

definition new_client :: "'s platform \<Rightarrow> ('e, unit) res" where
  "new_client pf = (case pf_client_error pf of None \<Rightarrow> Inr () | Some _ \<Rightarrow> Inl Panic)"

text \<open>\<open>send().map_err(|e| io::Error::other(format!("what: {e}")))\<close>\<close>

definition send :: "'s platform \<Rightarrow> string \<Rightarrow> http_request \<Rightarrow> ('s, io_error, http_reply) st" where
  "send pf what req s =
     (case pf_http pf req s of
        (Inl e, s') \<Rightarrow> (io_fail OtherKind (what @ '': '' @ e), s')
      | (Inr r, s') \<Rightarrow> (Inr r, s'))"

definition text_or :: "string \<Rightarrow> string + 'a \<Rightarrow> 'a io_res" where
  "text_or what r = (case r of Inl e \<Rightarrow> io_fail OtherKind (what @ '': '' @ e) | Inr x \<Rightarrow> Inr x)"

text \<open>\<open>Value::get\<close> with a key, \<open>as_str\<close>.\<close>

fun json_get :: "json_value \<Rightarrow> string \<Rightarrow> json_value option" where
  "json_get (J_Object m) k = map_of m k"
| "json_get _ k = None"

fun json_str :: "json_value \<Rightarrow> string option" where
  "json_str (J_String s) = Some s"
| "json_str _ = None"

definition get_str :: "json_value \<Rightarrow> string \<Rightarrow> string option" where
  "get_str v k = Option.bind (json_get v k) json_str"

definition text_chars :: "string \<Rightarrow> rs_str" where
  "text_chars s = (case from_utf8 0 (ascii_bytes s) of Inr cs \<Rightarrow> cs | Inl _ \<Rightarrow> [])"

definition bytes_text :: "bytes \<Rightarrow> string" where
  "bytes_text bs = map (\<lambda>b. char_of (unat b)) bs"

lemma ascii_bytes_text: "ascii_bytes (bytes_text d) = d"
proof -
  have "of_char (char_of (unat b)) = b" for b :: u8
  proof -
    have "of_char (char_of (unat b)) = (of_nat (of_char (char_of (unat b))) :: u8)"
      by (rule of_nat_of_char [symmetric])
    then show ?thesis using unat_u8_bound [of b] by simp
  qed
  then show ?thesis by (simp add: ascii_bytes_def bytes_text_def o_def map_idI)
qed

lemma bytes_text_ascii: "bytes_text (ascii_bytes s) = s"
  by (simp add: bytes_text_def ascii_bytes_def o_def unat_of_char map_idI)

section \<open>The operating system\<close>

record os_info =
  os_type :: string
  os_distro :: string
  os_version_major :: u32
  os_version_minor :: u32
  os_build :: string
  os_pcr_list :: "u32 list"

text \<open>\<open>str::parse::<u32>\<close>: an optional plus sign, at least one digit, no overflow.\<close>

fun parse_digits :: "nat \<Rightarrow> string \<Rightarrow> nat option" where
  "parse_digits acc [] = Some acc"
| "parse_digits acc (c # cs) =
     (let n = (of_char c :: nat) in
      if 48 \<le> n \<and> n \<le> 57 then
        (let acc' = acc * 10 + (n - 48) in if acc' < 2 ^ 32 then parse_digits acc' cs else None)
      else None)"

definition parse_u32 :: "string \<Rightarrow> u32 option" where
  "parse_u32 s =
     (let digits = (if 1 < length s \<and> s ! 0 = CHR ''+'' then tl s else s)
      in if digits = [] then None else map_option of_nat (parse_digits 0 digits))"

fun split_on :: "char \<Rightarrow> string \<Rightarrow> string \<Rightarrow> string list" where
  "split_on c acc [] = [acc]"
| "split_on c acc (x # xs) = (if x = c then acc # split_on c [] xs else split_on c (acc @ [x]) xs)"

definition parse_version_pair :: "string \<Rightarrow> u32 \<times> u32" where
  "parse_version_pair v =
     (let parts = split_on CHR ''.'' [] v;
          part = (\<lambda>i. if i < length parts
                  then (case parse_u32 (parts ! i) of Some n \<Rightarrow> n | None \<Rightarrow> 0) else 0)
      in (part 0, part 1))"

definition trim_quotes :: "string \<Rightarrow> string" where
  "trim_quotes s = rev (dropWhile (\<lambda>c. c = CHR 34) (rev (dropWhile (\<lambda>c. c = CHR 34) s)))"

text \<open>The loop over the lines of \<open>/etc/os-release\<close>: later lines win.\<close>

fun os_release_fields :: "string list \<Rightarrow> string \<times> string \<Rightarrow> string \<times> string" where
  "os_release_fields [] (name, version) = (name, version)"
| "os_release_fields (line # rest) (name, version) =
     (let name = (if has_prefix line ''NAME='' then trim_quotes (drop 5 line) else name);
          version = (if has_prefix line ''VERSION_ID='' then trim_quotes (drop 11 line) else version)
      in os_release_fields rest (name, version))"

definition os_info_detect :: "'s platform \<Rightarrow> ('s, io_error, os_info) st" where
  "os_info_detect pf s =
     (if pf_os pf = ''windows'' then
        (Inr \<lparr>os_type = ''Windows'', os_distro = ''Windows'', os_version_major = 10,
           os_version_minor = 0, os_build = ''NotApplication'',
           os_pcr_list = [0, 1, 2, 3, 4, 5, 6, 7, 11, 12, 13, 14]\<rparr>, s)
      else if pf_os pf = ''linux'' then
        (case pf_read_file pf ''/etc/os-release'' s of
           (contents, s') \<Rightarrow>
             let lines = (case contents of
                            Some d \<Rightarrow> (case from_utf8 0 d of
                                         Inr cs \<Rightarrow> map (\<lambda>l. bytes_text (str_bytes l)) (str_lines cs)
                                       | Inl _ \<Rightarrow> [])
                          | None \<Rightarrow> []);
                 (name, version) = os_release_fields lines ([], []);
                 (maj, mn) = parse_version_pair version
             in (Inr \<lparr>os_type = ''Linux'', os_distro = name, os_version_major = maj,
                   os_version_minor = mn, os_build = ''NotApplication'',
                   os_pcr_list = [0, 1, 2, 3, 4, 5, 6, 7]\<rparr>, s'))
      else (io_fail OtherKind ''unsupported OS'', s))"

definition collect_tcg_logs :: "'s platform \<Rightarrow> os_info \<Rightarrow> 's \<Rightarrow> bytes \<times> 's" where
  "collect_tcg_logs pf os s =
     (if os_type os = ''Linux'' then
        (case pf_read_file pf ''/sys/kernel/security/tpm0/binary_bios_measurements'' s of
           (Some d, s') \<Rightarrow> (d, s')
         | (None, s') \<Rightarrow> ([], s'))
      else if os_type os = ''Windows'' then
        (if pf_os pf = ''windows'' then pf_wbcl pf s else ([], s))
      else ([], s))"

section \<open>Requests\<close>

datatype isolation_type = Iso_SevSnp | Iso_Tdx | Iso_TrustedLaunch

datatype tee_proof = Proof_Snp bytes bytes | Proof_Tdx bytes

record isolation_evidence =
  ie_tee_proof :: tee_proof
  ie_runtime_data :: bytes

record isolation_info =
  ii_vm_type :: isolation_type
  ii_evidence :: "isolation_evidence option"

record pcr_entry =
  pe_index :: u32
  pe_digest :: bytes

record tpm_info =
  ti_ak_cert :: bytes
  ti_ak_pub :: bytes
  ti_pcr_quote :: bytes
  ti_pcr_sig :: bytes
  ti_pcr_set :: "u32 list"
  ti_pcrs :: "pcr_entry list"
  ti_enc_key_pub :: bytes
  ti_enc_key_certify_info :: bytes
  ti_enc_key_certify_info_sig :: bytes

record guest_attestation_parameters =
  ga_protocol_version :: string
  ga_os_type :: string
  ga_os_distro :: string
  ga_os_version_major :: u32
  ga_os_version_minor :: u32
  ga_os_build :: string
  ga_tcg_logs :: bytes
  ga_client_payload :: string
  ga_tpm_info :: tpm_info
  ga_isolation :: isolation_info

fun isolation_type_json :: "isolation_type \<Rightarrow> json_value" where
  "isolation_type_json Iso_SevSnp = J_String ''SevSnp''"
| "isolation_type_json Iso_Tdx = J_String ''Tdx''"
| "isolation_type_json Iso_TrustedLaunch = J_String ''TrustedLaunch''"

definition snp_proof_json :: "'s platform \<Rightarrow> bytes \<Rightarrow> bytes \<Rightarrow> json_value" where
  "snp_proof_json pf snp_report vcek_chain =
     J_Object [(''SnpReport'', J_String (pf_b64_url pf snp_report)),
               (''VcekCertChain'', J_String (pf_b64_url pf vcek_chain))]"

definition isolation_evidence_json :: "'s platform \<Rightarrow> isolation_evidence \<Rightarrow> json_value" where
  "isolation_evidence_json pf ev =
     (case ie_tee_proof ev of
        Proof_Snp snp_report vcek_chain \<Rightarrow>
          let inner_bytes = ascii_bytes (pf_json_text pf (snp_proof_json pf snp_report vcek_chain));
              proof_str = pf_b64_url pf inner_bytes
          in J_Object [(''Proof'', J_String proof_str),
                       (''RunTimeData'', J_String (pf_b64_url pf (ie_runtime_data ev)))]
      | Proof_Tdx td_quote \<Rightarrow>
          J_Object [(''Proof'', J_String (pf_b64_std pf td_quote)),
                    (''RunTimeData'', J_String (pf_b64_std pf (ie_runtime_data ev)))])"

definition isolation_info_json :: "'s platform \<Rightarrow> isolation_info \<Rightarrow> json_value" where
  "isolation_info_json pf info =
     J_Object
       ((''Type'', isolation_type_json (ii_vm_type info)) #
        (case ii_evidence info of
           None \<Rightarrow> []
         | Some ev \<Rightarrow> [(''Evidence'', isolation_evidence_json pf ev)]))"

definition json_u32 :: "u32 \<Rightarrow> json_value" where
  "json_u32 n = J_Number (fmt_dec (unat n))"

definition as_b64 :: "'s platform \<Rightarrow> bytes \<Rightarrow> json_value" where
  "as_b64 pf d = J_String (pf_b64_std pf d)"

definition str_as_b64 :: "'s platform \<Rightarrow> string \<Rightarrow> json_value" where
  "str_as_b64 pf s = J_String (pf_b64_std pf (ascii_bytes s))"

text \<open>Every value of the caller's JSON object is encoded by itself; anything else is an empty object.\<close>

definition client_payload_b64 :: "'s platform \<Rightarrow> string \<Rightarrow> json_value" where
  "client_payload_b64 pf raw =
     (if str_trim (text_chars raw) = [] then J_Object []
      else
        case (case pf_json_parse pf raw of Inr v \<Rightarrow> v | Inl _ \<Rightarrow> J_Object []) of
          J_Object obj \<Rightarrow>
            J_Object (map (\<lambda>(k, v).
              let val_str = (case v of J_String s \<Rightarrow> s | _ \<Rightarrow> pf_json_text pf v)
              in (k, J_String (pf_b64_std pf (ascii_bytes val_str)))) obj)
        | _ \<Rightarrow> J_Object [])"

definition pcr_entry_json :: "'s platform \<Rightarrow> pcr_entry \<Rightarrow> json_value" where
  "pcr_entry_json pf e =
     J_Object [(''Index'', json_u32 (pe_index e)), (''Digest'', as_b64 pf (pe_digest e))]"

definition tpm_info_json :: "'s platform \<Rightarrow> tpm_info \<Rightarrow> json_value" where
  "tpm_info_json pf t =
     J_Object
       [(''AikCert'', as_b64 pf (ti_ak_cert t)),
        (''AikPub'', as_b64 pf (ti_ak_pub t)),
        (''PcrQuote'', as_b64 pf (ti_pcr_quote t)),
        (''PcrSignature'', as_b64 pf (ti_pcr_sig t)),
        (''PcrSet'', J_Array (map json_u32 (ti_pcr_set t))),
        (''PCRs'', J_Array (map (pcr_entry_json pf) (ti_pcrs t))),
        (''EncKeyPub'', as_b64 pf (ti_enc_key_pub t)),
        (''EncKeyCertifyInfo'', as_b64 pf (ti_enc_key_certify_info t)),
        (''EncKeyCertifyInfoSignature'', as_b64 pf (ti_enc_key_certify_info_sig t))]"

definition parameters_json :: "'s platform \<Rightarrow> guest_attestation_parameters \<Rightarrow> json_value" where
  "parameters_json pf p =
     J_Object
       [(''AttestationProtocolVersion'', J_String (ga_protocol_version p)),
        (''OSType'', str_as_b64 pf (ga_os_type p)),
        (''OSDistro'', str_as_b64 pf (ga_os_distro p)),
        (''OSVersionMajor'', json_u32 (ga_os_version_major p)),
        (''OSVersionMinor'', json_u32 (ga_os_version_minor p)),
        (''OSBuild'', str_as_b64 pf (ga_os_build p)),
        (''TcgLogs'', as_b64 pf (ga_tcg_logs p)),
        (''ClientPayload'', client_payload_b64 pf (ga_client_payload p)),
        (''TpmInfo'', tpm_info_json pf (ga_tpm_info p)),
        (''IsolationInfo'', isolation_info_json pf (ga_isolation p))]"

definition to_json_string :: "'s platform \<Rightarrow> guest_attestation_parameters \<Rightarrow> string io_res" where
  "to_json_string pf p = Inr (pf_json_text pf (parameters_json pf p))"

end
