(* ===== verification/Guest_Services.thy ===== *)
theory Guest_Services
  imports Guest_Attest
begin

text \<open>
  The services behind an attestation: \<open>guest_attest/imds.rs\<close> (instance metadata),
  \<open>guest_attest/provider.rs\<close> (attestation providers and the retry loop), and the payloads and
  token envelope of \<open>guest_attest/mod.rs\<close>. Trace output and timers are left out.
\<close>

section \<open>Instance metadata\<close>

definition imds_get :: "string \<Rightarrow> http_request" where
  "imds_get url = \<lparr>rq_post = False, rq_url = url, rq_headers = [(''Metadata'', ''true'')], rq_json = None\<rparr>"

definition imds_post :: "string \<Rightarrow> json_value \<Rightarrow> http_request" where
  "imds_post url body = \<lparr>rq_post = True, rq_url = url, rq_headers = [(''Metadata'', ''true'')], rq_json = Some body\<rparr>"

definition status_error :: "http_reply \<Rightarrow> 'a io_res" where
  "status_error r = io_fail OtherKind (''status '' @ ht_status_text r)"

definition imds_get_json :: "'s platform \<Rightarrow> string \<Rightarrow> ('s, io_error, json_value) st" where
  "imds_get_json pf url =
     st_then (send pf ''http error'' (imds_get url)) (\<lambda>resp.
     st_res
       (if \<not> is_success resp then status_error resp
        else text_or ''json error'' (ht_json resp)))"

definition imds_get_text :: "'s platform \<Rightarrow> string \<Rightarrow> ('s, io_error, string) st" where
  "imds_get_text pf url =
     st_then (send pf ''http error'' (imds_get url)) (\<lambda>resp.
     st_res
       (if \<not> is_success resp then status_error resp
        else text_or ''read body'' (ht_text resp)))"

definition LOCATION_ENDPOINT :: string where
  "LOCATION_ENDPOINT = ''http://169.254.169.254/metadata/instance/compute/location?api-version=2021-01-01&format=text''"

definition THIM_ENDPOINT :: string where
  "THIM_ENDPOINT = ''http://169.254.169.254/metadata/THIM/amd/certification''"

definition TDQUOTE_ENDPOINT :: string where
  "TDQUOTE_ENDPOINT = ''http://169.254.169.254/acc/tdquote''"

definition imds_get_region :: "'s platform \<Rightarrow> ('s, io_error, rs_str) st" where
  "imds_get_region pf =
     st_then (imds_get_text pf LOCATION_ENDPOINT) (\<lambda>text.
     let region = str_trim (text_chars text) in
     st_res (if region = [] then io_fail OtherKind ''IMDS returned empty region'' else Inr region))"

definition imds_get_vcek_chain :: "'s platform \<Rightarrow> ('s, io_error, bytes) st" where
  "imds_get_vcek_chain pf =
     st_then (imds_get_json pf THIM_ENDPOINT) (\<lambda>v.
     let vcek = (case get_str v ''vcekCert'' of Some s \<Rightarrow> s | None \<Rightarrow> []);
         chain = (case get_str v ''certificateChain'' of Some s \<Rightarrow> s | None \<Rightarrow> [])
     in st_res (Inr (ascii_bytes (vcek @ chain))))"

text \<open>\<open>text().unwrap_or_default()\<close>\<close>

definition text_or_default :: "http_reply \<Rightarrow> string" where
  "text_or_default r = (case ht_text r of Inr t \<Rightarrow> t | Inl _ \<Rightarrow> [])"

text \<open>A successful answer to either attempt: the quote in one of the two alphabets.\<close>

definition decode_quote_reply :: "'s platform \<Rightarrow> string \<Rightarrow> string \<Rightarrow> string \<Rightarrow> bytes io_res" where
  "decode_quote_reply pf undecodable missing text =
     (case (case pf_json_parse pf text of Inr v \<Rightarrow> get_str v ''quote'' | Inl _ \<Rightarrow> None) of
        None \<Rightarrow> io_fail OtherKind (missing @ text)
      | Some quote_enc \<Rightarrow>
          (case pf_b64_std_decode pf quote_enc of
             Inr bs \<Rightarrow> Inr bs
           | Inl _ \<Rightarrow>
               (case pf_b64_url_decode pf quote_enc of
                  Inr bs \<Rightarrow> Inr bs
                | Inl _ \<Rightarrow> io_fail InvalidData undecodable)))"

definition fetch_td_quote_http :: "'s platform \<Rightarrow> bytes \<Rightarrow> ('s, io_error, bytes) st" where
  "fetch_td_quote_http pf rep =
     st_then (send pf ''tdquote http (std b64) error''
       (imds_post TDQUOTE_ENDPOINT (J_Object [(''report'', J_String (pf_b64_std pf rep))]))) (\<lambda>resp_std.
     let text_std = text_or_default resp_std in
     if is_success resp_std then
       st_res (decode_quote_reply pf ''unable to base64 decode returned quote''
         ''tdquote success status but missing/invalid JSON: '' text_std)
     else
       st_then (send pf ''tdquote http (url b64) error''
         (imds_post TDQUOTE_ENDPOINT (J_Object [(''report'', J_String (pf_b64_url pf rep))]))) (\<lambda>resp_url.
       let text_url = text_or_default resp_url in
       st_res
         (if is_success resp_url then
            decode_quote_reply pf ''unable to base64 decode returned quote (fallback)''
              ''tdquote fallback success status but missing/invalid JSON: '' text_url
          else
            io_fail OtherKind
              (''tdquote failed (std status '' @ ht_status_text resp_std @ '', fallback status '' @
               ht_status_text resp_url @ '') std_body='' @ [CHR 39] @ text_std @ [CHR 39] @
               '' fallback_body='' @ [CHR 39] @ text_url @ [CHR 39]))))"

definition imds_get_td_quote :: "'s platform \<Rightarrow> bytes \<Rightarrow> ('s, io_error, bytes) st" where
  "imds_get_td_quote pf report =
     (let needed = TDX_VM_REPORT_SIZE in
      if length report < needed
      then st_res (io_fail InvalidInput
        (''tdx report buffer too small: have '' @ fmt_dec (length report) @ '' need '' @ fmt_dec needed))
      else fetch_td_quote_http pf (take needed report))"

definition detect_maa_base_url :: "(bytes \<Rightarrow> rs_str) \<Rightarrow> 's platform \<Rightarrow> ('s, io_error, string) st" where
  "detect_maa_base_url lower pf =
     st_then (st_res (new_client pf)) (\<lambda>_.
     st_then (imds_get_region pf) (\<lambda>region.
     st_res (Inr (maa_base_url_for_region_or_default lower region))))"

section \<open>Providers\<close>

text \<open>The implementations of the trait \<open>AttestationProvider\<close>, and its method.\<close>

datatype provider_impl = MaaProvider string | LoopbackProvider

definition loopback_attest :: "'s platform \<Rightarrow> string \<Rightarrow> ('s, io_error, string option) st" where
  "loopback_attest pf encoded_request =
     (let token = J_Object [(''loopback'', J_Bool True), (''request'', J_String encoded_request)]
      in st_res (Inr (Some (pf_b64_url pf (ascii_bytes (pf_json_text pf token))))))"

definition maa_provider_new :: "'s platform \<Rightarrow> string \<Rightarrow> ('e, provider_impl) res" where
  "maa_provider_new pf endpoint =
     and_then (new_client pf) (\<lambda>_.
     Inr (MaaProvider (resolve_maa_url endpoint GUEST_ATTEST_PATH GUEST_ATTEST_API_VERSION)))"

definition maa_post :: "string \<Rightarrow> json_value \<Rightarrow> http_request" where
  "maa_post url body = \<lparr>rq_post = True, rq_url = url, rq_headers = [], rq_json = Some body\<rparr>"

text \<open>The token of a body: the member \<open>token\<close> of a JSON object, else the body itself.\<close>

definition token_of_body :: "'s platform \<Rightarrow> string \<Rightarrow> string" where
  "token_of_body pf text =
     (case (case pf_json_parse pf text of Inr v \<Rightarrow> get_str v ''token'' | Inl _ \<Rightarrow> None) of
        Some tok \<Rightarrow> tok
      | None \<Rightarrow> text)"

definition maa_status_error :: "http_reply \<Rightarrow> string \<Rightarrow> 'a io_res" where
  "maa_status_error r text =
     io_fail OtherKind (''MAA status '' @ ht_status_text r @ '' body: '' @ text)"

definition maa_attest :: "'s platform \<Rightarrow> string \<Rightarrow> string \<Rightarrow> ('s, io_error, string option) st" where
  "maa_attest pf endpoint encoded_request =
     st_then (st_res (case pf_url_error pf endpoint of
                        None \<Rightarrow> Inr () | Some e \<Rightarrow> io_fail OtherKind (''maa build request: '' @ e))) (\<lambda>_.
     st_then (send pf ''maa http error''
       (maa_post endpoint (J_Object [(''AttestationInfo'', J_String encoded_request)]))) (\<lambda>resp.
     st_res
       (and_then (text_or ''maa read body'' (ht_text resp)) (\<lambda>text.
        if \<not> is_success resp then maa_status_error resp text
        else Inr (Some (token_of_body pf text))))))"

fun provider_attest :: "'s platform \<Rightarrow> provider_impl \<Rightarrow> string \<Rightarrow> ('s, io_error, string option) st" where
  "provider_attest pf (MaaProvider endpoint) = maa_attest pf endpoint"
| "provider_attest pf LoopbackProvider = loopback_attest pf"

text \<open>The retry loop over any provider's \<open>attest_guest\<close>.\<close>

definition max_retries :: nat where "max_retries = 3"

function submit_loop ::
    "(string \<Rightarrow> ('s, io_error, string option) st) \<Rightarrow> (nat \<Rightarrow> 's \<Rightarrow> 's) \<Rightarrow> string \<Rightarrow> nat \<Rightarrow>
     ('s, io_error, string option) st" where
  "submit_loop attest_guest sleep encoded_request attempt s =
     (case attest_guest encoded_request s of
        (Inr t, s') \<Rightarrow> (Inr t, s')
      | (Inl Panic, s') \<Rightarrow> (Inl Panic, s')
      | (Inl (Fail e), s') \<Rightarrow>
          if attempt + 1 < max_retries
          then submit_loop attest_guest sleep encoded_request (attempt + 1) (sleep (2 ^ attempt) s')
          else (Inl (Fail e), s'))"
  by pat_completeness auto
termination
  by (relation "measure (\<lambda>(attest_guest, sleep, encoded_request, attempt, s). max_retries - attempt)")
    (auto simp: max_retries_def)

declare submit_loop.simps [simp del]

definition submit_to_provider ::
    "(string \<Rightarrow> ('s, io_error, string option) st) \<Rightarrow> (nat \<Rightarrow> 's \<Rightarrow> 's) \<Rightarrow> string \<Rightarrow>
     ('s, io_error, string option) st" where
  "submit_to_provider attest_guest sleep encoded_request = submit_loop attest_guest sleep encoded_request 0"

definition submit_tee_only :: "'s platform \<Rightarrow> string \<Rightarrow> string \<Rightarrow> cvm_report_type \<Rightarrow> ('s, io_error, string) st" where
  "submit_tee_only pf payload endpoint report_type =
     (let tee_path = (if report_type = SnpVmReport then TEE_SNP_PATH else TEE_TDX_PATH);
          endpoint = resolve_maa_url endpoint tee_path TEE_ATTEST_API_VERSION;
          body = (case pf_json_parse pf payload of Inr v \<Rightarrow> v | Inl _ \<Rightarrow> J_Object [])
      in st_then (st_res (case pf_client_error pf of
                            None \<Rightarrow> Inr ()
                          | Some e \<Rightarrow> io_fail OtherKind (''initialize TEE-only HTTP client: '' @ e))) (\<lambda>_.
         st_then (send pf ''http error'' (maa_post endpoint body)) (\<lambda>resp.
         let text = text_or_default resp in
         st_res (if \<not> is_success resp then maa_status_error resp text else Inr (token_of_body pf text)))))"

section \<open>TEE-only payloads\<close>

datatype endorsement_kind = Vcek | TdxMrtd "string option"

record endorsement_response =
  er_mrtd :: string
  er_data :: bytes
  er_content_type :: string

record endorsement =
  en_kind :: endorsement_kind
  en_data :: bytes
  en_endorsement_response :: "endorsement_response option"

record cvm_evidence =
  ce_report_type :: cvm_report_type
  ce_tee_report :: bytes
  ce_runtime_claims :: "runtime_claims option"
  ce_runtime_data :: bytes
  ce_platform_quote :: bytes

text \<open>\<open>ImdsClient::new()\<close> followed by one of its requests.\<close>

definition fresh_vcek_chain :: "'s platform \<Rightarrow> ('s, io_error, bytes) st" where
  "fresh_vcek_chain pf = st_then (st_res (new_client pf)) (\<lambda>_. imds_get_vcek_chain pf)"

definition fresh_td_quote :: "'s platform \<Rightarrow> bytes \<Rightarrow> ('s, io_error, bytes) st" where
  "fresh_td_quote pf report = st_then (st_res (new_client pf)) (\<lambda>_. imds_get_td_quote pf report)"

text \<open>The chain given by the caller, if it is one, else the platform's; likewise the quote.\<close>

definition vcek_chain_for :: "'s platform \<Rightarrow> endorsement option \<Rightarrow> ('s, io_error, bytes) st" where
  "vcek_chain_for pf e =
     (case e of
        Some e \<Rightarrow> if en_kind e = Vcek then st_res (Inr (en_data e)) else fresh_vcek_chain pf
      | None \<Rightarrow> fresh_vcek_chain pf)"

definition td_quote_for :: "'s platform \<Rightarrow> cvm_evidence \<Rightarrow> ('s, io_error, bytes) st" where
  "td_quote_for pf ev =
     (if ce_platform_quote ev \<noteq> [] then st_res (Inr (ce_platform_quote ev))
      else fresh_td_quote pf (ce_tee_report ev))"

fun report_type_debug :: "cvm_report_type \<Rightarrow> string" where
  "report_type_debug Report_Invalid = ''Invalid''"
| "report_type_debug VbsVmReport = ''VbsVmReport''"
| "report_type_debug SnpVmReport = ''SnpVmReport''"
| "report_type_debug TvmReport = ''TvmReport''"
| "report_type_debug TdxVmReport = ''TdxVmReport''"

definition tee_only_json :: "'s platform \<Rightarrow> string \<Rightarrow> bytes \<Rightarrow> bytes \<Rightarrow> json_value" where
  "tee_only_json pf evidence_field evidence_bytes runtime_data =
     J_Object
       [(evidence_field, J_String (pf_b64_url pf evidence_bytes)),
        (''runtimeData'', J_Object [(''data'', J_String (pf_b64_url pf runtime_data)), (''dataType'', J_String ''JSON'')])]"

definition snp_report_json_bytes :: "'s platform \<Rightarrow> bytes \<Rightarrow> bytes \<Rightarrow> bytes" where
  "snp_report_json_bytes pf report chain = ascii_bytes (pf_json_text pf (snp_proof_json pf report chain))"

definition unsupported_tee_only :: "cvm_report_type \<Rightarrow> 'a io_res" where
  "unsupported_tee_only rtype =
     io_fail OtherKind (''Unsupported report type for tee-only attestation: '' @ report_type_debug rtype)"

definition build_tee_only_payload_from_evidence ::
    "'s platform \<Rightarrow> cvm_evidence \<Rightarrow> endorsement option \<Rightarrow> ('s, io_error, string \<times> cvm_report_type) st" where
  "build_tee_only_payload_from_evidence pf ev e =
     (let rtype = ce_report_type ev; runtime_data = ce_runtime_data ev in
      st_then
        (case rtype of
           SnpVmReport \<Rightarrow>
             st_then (vcek_chain_for pf e) (\<lambda>vcek_chain.
             st_res (Inr (''report'', snp_report_json_bytes pf (ce_tee_report ev) vcek_chain)))
         | TdxVmReport \<Rightarrow>
             st_then (td_quote_for pf ev) (\<lambda>td_quote. st_res (Inr (''quote'', td_quote)))
         | _ \<Rightarrow> st_res (unsupported_tee_only rtype))
        (\<lambda>(evidence_field, evidence_bytes).
      st_res (Inr (pf_json_text pf (tee_only_json pf evidence_field evidence_bytes runtime_data), rtype))))"

text \<open>
  \<open>build_tee_only_payload\<close> collects the report itself; a report whose bytes are no value of the
  structure makes it undefined. The slices of the fixed-size report are in range.
\<close>

definition build_tee_only_payload ::
    "'s platform \<Rightarrow> bytes option \<Rightarrow> 's \<Rightarrow> ((string \<times> cvm_report_type) io_res \<times> 's) option" where
  "build_tee_only_payload pf user_data s =
     (case get_cvm_report_raw (pf_tpm pf) user_data s of
        (Inl e, s') \<Rightarrow> Some (Inl e, s')
      | (Inr raw, s') \<Rightarrow>
          (case parse_with_runtime_claims (pf_claims pf) raw of
             None \<Rightarrow> None
           | Some parsed \<Rightarrow> Some
               (st_then (st_res parsed) (\<lambda>(report, _).
                let rtype = rc_report_type (cr_runtime_claims_header report) in
                st_then (st_res (get_runtime_claims_raw_bytes report raw)) (\<lambda>runtime_data.
                st_then
                  (case rtype of
                     SnpVmReport \<Rightarrow>
                       st_then (st_res (rs_slice (cr_tee_report report) 0 SNP_VM_REPORT_SIZE)) (\<lambda>snp_slice.
                       st_then (fresh_vcek_chain pf) (\<lambda>vcek_chain.
                       st_res (Inr (''report'', snp_report_json_bytes pf snp_slice vcek_chain))))
                   | TdxVmReport \<Rightarrow>
                       st_then (st_res (rs_slice (cr_tee_report report) 0 TDX_VM_REPORT_SIZE)) (\<lambda>tdx_slice.
                       st_then (fresh_td_quote pf tdx_slice) (\<lambda>td_quote.
                       st_res (Inr (''quote'', td_quote))))
                   | _ \<Rightarrow> st_res (unsupported_tee_only rtype))
                  (\<lambda>(evidence_field, evidence_bytes).
                st_res (Inr (pf_json_text pf (tee_only_json pf evidence_field evidence_bytes runtime_data), rtype)))))
                s')))"

definition tee_only_attest_platform ::
    "'s platform \<Rightarrow> string \<Rightarrow> cvm_report_type option \<Rightarrow> bytes option \<Rightarrow> 's \<Rightarrow>
     ((string \<times> string) io_res \<times> 's) option" where
  "tee_only_attest_platform pf endpoint force_override user_data s =
     map_option (\<lambda>(r, s').
       st_then (st_res r) (\<lambda>(payload, detected_type).
       let eff_type = (case force_override of Some t \<Rightarrow> t | None \<Rightarrow> detected_type) in
       st_then (submit_tee_only pf payload endpoint eff_type) (\<lambda>token.
       st_res (Inr (token, payload)))) s')
       (build_tee_only_payload pf user_data s)"

section \<open>The token envelope\<close>

definition base64_url_decode :: "'s platform \<Rightarrow> string \<Rightarrow> bytes io_res" where
  "base64_url_decode pf s =
     (case pf_b64_url_decode pf s of
        Inl e \<Rightarrow> io_fail InvalidData (''b64 decode: '' @ e)
      | Inr bs \<Rightarrow> Inr bs)"

definition b64_any :: "'s platform \<Rightarrow> string \<Rightarrow> bytes io_res" where
  "b64_any pf s =
     (case pf_b64_std_decode pf s of
        Inr bs \<Rightarrow> Inr bs
      | Inl _ \<Rightarrow>
          (case pf_b64_url_decode pf s of
             Inr bs \<Rightarrow> Inr bs
           | Inl e \<Rightarrow> io_fail InvalidData (''base64 decode: '' @ e)))"

section \<open>AES-GCM\<close>

text \<open>
  The backends of \<open>crypto.rs\<close>, over the libraries' authenticated decryption. \<open>Nonce::from_slice\<close> of the default
  backend panics on a nonce of another length than 12; it comes before the look at the key.
\<close>

definition aes_key_length_error :: "bytes \<Rightarrow> bytes io_res" where
  "aes_key_length_error key =
     io_fail InvalidData (''unsupported AES key length: '' @ fmt_dec (length key) @ '' (expected 16 or 32)'')"

definition aes_gcm_rustcrypto :: "(bytes \<Rightarrow> aead_open) \<Rightarrow> bytes \<Rightarrow> bytes \<Rightarrow> bytes \<Rightarrow> bytes \<Rightarrow> bytes \<Rightarrow> bytes io_res" where
  "aes_gcm_rustcrypto open_aead key nonce aad ciphertext tag =
     (let ct_and_tag = ciphertext @ tag in
      if length nonce \<noteq> 12 then Inl Panic
      else if length key = 16 \<or> length key = 32 then
        (case open_aead key nonce aad ct_and_tag of
           Inl e \<Rightarrow> io_fail OtherKind (''aes-gcm decrypt: '' @ e)
         | Inr plaintext \<Rightarrow> Inr plaintext)
      else aes_key_length_error key)"

definition aes_gcm_symcrypt ::
    "(bytes \<Rightarrow> string + (bytes \<Rightarrow> aead_open)) \<Rightarrow> bytes \<Rightarrow> bytes \<Rightarrow> bytes \<Rightarrow> bytes \<Rightarrow> bytes \<Rightarrow> bytes io_res" where
  "aes_gcm_symcrypt new_key key nonce aad ciphertext tag =
     (if \<not> (length key = 16 \<or> length key = 32) \<or> length tag \<noteq> 16 then
        io_fail InvalidData ''AES-GCM requires a 16/32-byte key and 16-byte tag''
      else if length nonce \<noteq> 12 then io_fail InvalidData ''AES-GCM requires a 12-byte nonce''
      else
        case new_key key of
          Inl e \<Rightarrow> io_fail OtherKind (''SymCrypt AES key: '' @ e)
        | Inr decrypt_in_place \<Rightarrow>
            (case decrypt_in_place nonce aad ciphertext tag of
               Inl e \<Rightarrow> io_fail OtherKind (''SymCrypt AES-GCM decrypt: '' @ e)
             | Inr plaintext \<Rightarrow> Inr plaintext))"

definition aes_gcm_openssl ::
    "(bytes \<Rightarrow> bytes \<Rightarrow> aead_open) \<Rightarrow> bytes \<Rightarrow> bytes \<Rightarrow> bytes \<Rightarrow> bytes \<Rightarrow> bytes \<Rightarrow> bytes io_res" where
  "aes_gcm_openssl decrypt_aead key nonce aad ciphertext tag =
     (if length key = 16 \<or> length key = 32 then
        (case decrypt_aead key nonce aad ciphertext tag of
           Inl e \<Rightarrow> io_fail OtherKind (''aes-gcm decrypt: '' @ e)
         | Inr plaintext \<Rightarrow> Inr plaintext)
      else aes_key_length_error key)"

text \<open>The features of the build choose the backend.\<close>

definition aes_gcm_decrypt :: "'s platform \<Rightarrow> bytes \<Rightarrow> bytes \<Rightarrow> bytes \<Rightarrow> bytes \<Rightarrow> bytes \<Rightarrow> bytes io_res" where
  "aes_gcm_decrypt pf =
     (case pf_aead pf of
        Aes_Gcm_Crate open_aead \<Rightarrow> aes_gcm_rustcrypto open_aead
      | Openssl_Aead decrypt_aead \<Rightarrow> aes_gcm_openssl decrypt_aead
      | Symcrypt_Aead new_key \<Rightarrow> aes_gcm_symcrypt new_key)"

text \<open>What the library of the build makes of a ciphertext and its tag.\<close>

definition aead_opens :: "'s platform \<Rightarrow> bytes \<Rightarrow> bytes \<Rightarrow> bytes \<Rightarrow> bytes \<Rightarrow> bytes \<Rightarrow> string + bytes" where
  "aead_opens pf key nonce aad ciphertext tag =
     (case pf_aead pf of
        Aes_Gcm_Crate open_aead \<Rightarrow> open_aead key nonce aad (ciphertext @ tag)
      | Openssl_Aead decrypt_aead \<Rightarrow> decrypt_aead key nonce aad ciphertext tag
      | Symcrypt_Aead new_key \<Rightarrow> (case new_key key of Inl e \<Rightarrow> Inl e | Inr k \<Rightarrow> k nonce aad ciphertext tag))"

section \<open>The token\<close>

text \<open>\<open>String::from_utf8\<close> on the bytes of a message.\<close>

definition string_from_utf8 :: "bytes \<Rightarrow> string + string" where
  "string_from_utf8 bs =
     (case from_utf8 0 bs of Inl e \<Rightarrow> Inl (utf8_error_display e) | Inr _ \<Rightarrow> Inr (bytes_text bs))"

record token_envelope =
  te_encrypted_inner_key :: string
  te_iv :: string
  te_authentication_data :: string
  te_jwt :: string

text \<open>The part of \<open>parse_token\<close> that returns \<open>Ok(None)\<close> on any other format.\<close>

definition read_envelope :: "'s platform \<Rightarrow> string \<Rightarrow> token_envelope option" where
  "read_envelope pf token_b64url =
     (case base64_url_decode pf token_b64url of
        Inl _ \<Rightarrow> None
      | Inr raw \<Rightarrow>
     (case string_from_utf8 raw of
        Inl _ \<Rightarrow> None
      | Inr raw_str \<Rightarrow>
     (case pf_json_parse pf raw_str of
        Inl _ \<Rightarrow> None
      | Inr v \<Rightarrow>
     (case get_str v ''EncryptedInnerKey'' of
        None \<Rightarrow> None
      | Some enc_inner \<Rightarrow>
     (case json_get v ''EncryptionParams'' of
        None \<Rightarrow> None
      | Some enc_params \<Rightarrow>
     (case get_str enc_params ''Iv'' of
        None \<Rightarrow> None
      | Some iv_b64 \<Rightarrow>
     (case get_str v ''AuthenticationData'' of
        None \<Rightarrow> None
      | Some auth_tag_b64 \<Rightarrow>
     (case get_str v ''Jwt'' of
        None \<Rightarrow> None
      | Some jwt_ct_b64 \<Rightarrow>
          Some \<lparr>te_encrypted_inner_key = enc_inner, te_iv = iv_b64,
                te_authentication_data = auth_tag_b64, te_jwt = jwt_ct_b64\<rparr>))))))))"

definition parse_token ::
    "'s platform \<Rightarrow> u32 \<Rightarrow> u32 list \<Rightarrow> string \<Rightarrow> ('s, io_error, string option) st" where
  "parse_token pf ephemeral_key_handle pcrs token_b64url =
     (case read_envelope pf token_b64url of
        None \<Rightarrow> st_res (Inr None)
      | Some te \<Rightarrow>
          st_then (st_res (b64_any pf (te_encrypted_inner_key te))) (\<lambda>encrypted_inner_key.
          st_then (st_res (b64_any pf (te_iv te))) (\<lambda>iv.
          st_then (st_res (b64_any pf (te_authentication_data te))) (\<lambda>auth_tag.
          st_then (st_res (b64_any pf (te_jwt te))) (\<lambda>jwt_ct.
          if length iv \<noteq> 12 then st_res (io_fail InvalidData ''expected 12-byte IV'')
          else if length auth_tag \<noteq> 16 then st_res (io_fail InvalidData ''expected 16-byte GCM tag'')
          else
            st_then (decrypt_with_ephemeral_key (pf_random pf) (pf_sha256 pf) (pf_tpm pf)
              ephemeral_key_handle pcrs encrypted_inner_key Rsaes) (\<lambda>inner_key.
            st_then (st_res (aes_gcm_decrypt pf inner_key iv (ascii_bytes ''Transport Key'') jwt_ct auth_tag)) (\<lambda>plaintext.
            st_res
              (case string_from_utf8 plaintext of
                 Inl e \<Rightarrow> io_fail InvalidData (''jwt utf8: '' @ e)
               | Inr jwt_str \<Rightarrow> Inr (Some jwt_str)))))))))"

end
