(* ===== verification/Cose.thy ===== *)
theory Cose
  imports Tpm_Wire
begin

text \<open>
  \<open>crates/azure-guest-attestation-sdk/src/cose.rs\<close>: the COSE_Sign1 reader with its
  recursive walk over CBOR items. The walk's recursion is the program's: \<open>frames\<close> is the
  number of nested calls of \<open>skip_cbor_item\<close> the thread's stack has room for, and \<open>None\<close> is
  the stack overflow, which aborts the process.
\<close>

section \<open>The reader\<close>

definition CBOR_MAJOR_UINT :: u8 where "CBOR_MAJOR_UINT = 0"
definition CBOR_MAJOR_NINT :: u8 where "CBOR_MAJOR_NINT = 1"
definition CBOR_MAJOR_BSTR :: u8 where "CBOR_MAJOR_BSTR = 2"
definition CBOR_MAJOR_TSTR :: u8 where "CBOR_MAJOR_TSTR = 3"
definition CBOR_MAJOR_ARRAY :: u8 where "CBOR_MAJOR_ARRAY = 4"
definition CBOR_MAJOR_MAP :: u8 where "CBOR_MAJOR_MAP = 5"
definition CBOR_MAJOR_TAG :: u8 where "CBOR_MAJOR_TAG = 6"
definition CBOR_MAJOR_SIMPLE :: u8 where "CBOR_MAJOR_SIMPLE = 7"
definition CBOR_ADDL_1BYTE :: u8 where "CBOR_ADDL_1BYTE = 24"
definition CBOR_ADDL_2BYTE :: u8 where "CBOR_ADDL_2BYTE = 25"
definition CBOR_ADDL_4BYTE :: u8 where "CBOR_ADDL_4BYTE = 26"
definition CBOR_ADDL_8BYTE :: u8 where "CBOR_ADDL_8BYTE = 27"
definition COSE_SIGN1_TAG :: u64 where "COSE_SIGN1_TAG = 18"
definition COSE_SIGN1_ARRAY_LEN :: u64 where "COSE_SIGN1_ARRAY_LEN = 4"
definition COSE_SIGN1_TAG_BYTE :: u8 where "COSE_SIGN1_TAG_BYTE = 0xD2"
definition COSE_SIGN1_ARRAY_BYTE :: u8 where "COSE_SIGN1_ARRAY_BYTE = 0x84"
definition COSE_SIGN1_MIN_SIZE :: nat where "COSE_SIGN1_MIN_SIZE = 4"

lemmas cbor_constants =
  CBOR_MAJOR_UINT_def CBOR_MAJOR_NINT_def CBOR_MAJOR_BSTR_def CBOR_MAJOR_TSTR_def
  CBOR_MAJOR_ARRAY_def CBOR_MAJOR_MAP_def CBOR_MAJOR_TAG_def CBOR_MAJOR_SIMPLE_def
  CBOR_ADDL_1BYTE_def CBOR_ADDL_2BYTE_def CBOR_ADDL_4BYTE_def CBOR_ADDL_8BYTE_def

text \<open>The bytes of an argument of \<open>n\<close> bytes behind the initial byte.\<close>

definition cbor_argument :: "bytes \<Rightarrow> nat \<Rightarrow> nat \<Rightarrow> string \<Rightarrow> (string, u64 \<times> nat) res" where
  "cbor_argument data p n msg =
     (if length data < p + n then Inl (Fail msg)
      else and_then (rs_slice data p (p + n)) (\<lambda>bs. Inr (of_be bs, p + n)))"

definition read_cbor_head :: "bytes \<Rightarrow> nat \<Rightarrow> (string, u8 \<times> u64 \<times> nat) res" where
  "read_cbor_head data pos =
     (if length data \<le> pos then Inl (Fail ''unexpected end of CBOR data'')
      else
        and_then (rs_index data pos) (\<lambda>initial.
        let major = drop_bit 5 initial;
            addl = initial AND 0x1F;
            p = pos + 1
        in and_then
             (if addl \<le> 23 then Inr (ucast addl, p)
              else if addl = CBOR_ADDL_1BYTE
              then cbor_argument data p 1 ''truncated CBOR 1-byte length''
              else if addl = CBOR_ADDL_2BYTE
              then cbor_argument data p 2 ''truncated CBOR 2-byte length''
              else if addl = CBOR_ADDL_4BYTE
              then cbor_argument data p 4 ''truncated CBOR 4-byte length''
              else if addl = CBOR_ADDL_8BYTE
              then cbor_argument data p 8 ''truncated CBOR 8-byte length''
              else Inl (Fail (''unsupported CBOR additional info '' @ fmt_dec (unat addl))))
             (\<lambda>(value, p). Inr (major, value, p))))"

definition read_cbor_bstr :: "bytes \<Rightarrow> nat \<Rightarrow> (string, bytes \<times> nat) res" where
  "read_cbor_bstr data pos =
     and_then (read_cbor_head data pos) (\<lambda>(major, len, p).
     if major \<noteq> CBOR_MAJOR_BSTR \<and> major \<noteq> CBOR_MAJOR_TSTR
     then Inl (Fail (''expected bstr/tstr (major 2/3) at offset '' @ fmt_dec pos @ '', got major '' @
            fmt_dec (unat major)))
     else
       case checked_add_usize p (unat len) of
         None \<Rightarrow> Inl (Fail ''CBOR length overflow'')
       | Some e \<Rightarrow>
           if length data < e
           then Inl (Fail (''CBOR bstr at offset '' @ fmt_dec pos @ '': need '' @ fmt_dec (unat len) @
                  '' bytes but only '' @ fmt_dec (length data - p) @ '' remain''))
           else and_then (rs_slice data p e) (\<lambda>bs. Inr (bs, e)))"

text \<open>\<open>for _ in 0..count { cur = step(cur)?; }\<close>\<close>

fun for_count :: "nat \<Rightarrow> (nat \<Rightarrow> (string, nat) res option) \<Rightarrow> nat \<Rightarrow> (string, nat) res option" where
  "for_count 0 step cur = Some (Inr cur)"
| "for_count (Suc n) step cur =
     (case step cur of
        Some (Inr cur) \<Rightarrow> for_count n step cur
      | r \<Rightarrow> r)"

definition skip_string :: "bytes \<Rightarrow> nat \<Rightarrow> nat \<Rightarrow> nat \<Rightarrow> (string, nat) res" where
  "skip_string data pos len p =
     (case checked_add_usize p len of
        None \<Rightarrow> Inl (Fail ''CBOR length overflow'')
      | Some e \<Rightarrow>
          if length data < e
          then Inl (Fail (''truncated CBOR bstr/tstr at offset '' @ fmt_dec pos))
          else Inr e)"

primrec skip_cbor_item :: "nat \<Rightarrow> bytes \<Rightarrow> nat \<Rightarrow> (string, nat) res option" where
  "skip_cbor_item 0 data pos = None"
| "skip_cbor_item (Suc frames) data pos =
     (case read_cbor_head data pos of
        Inl e \<Rightarrow> Some (Inl e)
      | Inr (major, value, p) \<Rightarrow>
          if major = CBOR_MAJOR_UINT \<or> major = CBOR_MAJOR_NINT then Some (Inr p)
          else if major = CBOR_MAJOR_BSTR \<or> major = CBOR_MAJOR_TSTR
          then Some (skip_string data pos (unat value) p)
          else if major = CBOR_MAJOR_ARRAY
          then for_count (unat value) (skip_cbor_item frames data) p
          else if major = CBOR_MAJOR_MAP
          then for_count (unat value)
                 (\<lambda>cur. case skip_cbor_item frames data cur of
                     Some (Inr cur) \<Rightarrow> skip_cbor_item frames data cur
                   | r \<Rightarrow> r) p
          else if major = CBOR_MAJOR_TAG then skip_cbor_item frames data p
          else if major = CBOR_MAJOR_SIMPLE then Some (Inr p)
          else Some (Inl (Fail (''unknown CBOR major type '' @ fmt_dec (unat major)))))"

definition cose_err :: "string \<Rightarrow> io_error" where
  "cose_err msg = Io_Msg InvalidData msg"

definition parse_cose_sign1_payload :: "nat \<Rightarrow> bytes \<Rightarrow> bytes io_res option" where
  "parse_cose_sign1_payload frames data =
     (if length data < COSE_SIGN1_MIN_SIZE
      then Some (Inl (Fail (cose_err ''data too short for COSE_Sign1'')))
      else if data ! 0 \<noteq> COSE_SIGN1_TAG_BYTE
      then Some (Inl (Fail (cose_err (''expected CBOR tag '' @ fmt_dec (unat COSE_SIGN1_TAG) @ '' (0x'' @
             fmt_02x COSE_SIGN1_TAG_BYTE @ ''), got 0x'' @ fmt_02x (data ! 0)))))
      else if data ! 1 \<noteq> COSE_SIGN1_ARRAY_BYTE
      then Some (Inl (Fail (cose_err (''expected CBOR array('' @ fmt_dec (unat COSE_SIGN1_ARRAY_LEN) @
             '') (0x'' @ fmt_02x COSE_SIGN1_ARRAY_BYTE @ ''), got 0x'' @ fmt_02x (data ! 1)))))
      else
        case skip_cbor_item frames data 2 of
          None \<Rightarrow> None
        | Some (Inl e) \<Rightarrow> Some (map_err cose_err (Inl e))
        | Some (Inr pos) \<Rightarrow>
            (case skip_cbor_item frames data pos of
               None \<Rightarrow> None
             | Some (Inl e) \<Rightarrow> Some (map_err cose_err (Inl e))
             | Some (Inr pos) \<Rightarrow>
                 Some (and_then (map_err cose_err (read_cbor_bstr data pos)) (\<lambda>(payload, _).
                   Inr payload))))"

section \<open>Termination, bounds and the stack\<close>

lemma cbor_argument_Inr:
  "cbor_argument data p n msg = Inr (v, p') \<Longrightarrow> p' = p + n \<and> p' \<le> length data"
  by (auto simp: cbor_argument_def and_then_eq_Inr split: if_splits)

lemma cbor_argument_no_panic [simp]: "cbor_argument data p n msg \<noteq> Inl Panic"
  by (auto simp: cbor_argument_def and_then_eq_Inl rs_slice_def)

lemma read_cbor_head_Inr:
  "read_cbor_head data pos = Inr (major, value, p) \<Longrightarrow> pos < p \<and> p \<le> length data"
  by (auto simp: read_cbor_head_def and_then_eq_Inr rs_index_eq_Inr Let_def
      split: if_splits dest!: cbor_argument_Inr)

lemma read_cbor_head_no_panic [simp]: "read_cbor_head data pos \<noteq> Inl Panic"
  by (auto simp: read_cbor_head_def and_then_eq_Inl rs_index_def Let_def split: if_splits)

lemma read_cbor_bstr_no_panic [simp]: "read_cbor_bstr data pos \<noteq> Inl Panic"
  by (auto simp: read_cbor_bstr_def and_then_eq_Inl checked_add_usize_def rs_slice_def
      dest: read_cbor_head_Inr split: if_splits option.splits)

lemma skip_string_bounds:
  "skip_string data pos len p = Inr c \<Longrightarrow> p \<le> c \<and> c \<le> length data"
  "skip_string data pos len p \<noteq> Inl Panic"
  by (auto simp: skip_string_def checked_add_usize_def split: option.splits if_splits)

text \<open>A step that ends, does not panic and moves forward in the buffer, below a limit.\<close>

definition sound_step :: "bytes \<Rightarrow> nat \<Rightarrow> (nat \<Rightarrow> (string, nat) res option) \<Rightarrow> bool" where
  "sound_step data lo step \<longleftrightarrow>
     (\<forall>cur\<ge>lo. \<exists>r. step cur = Some r \<and> r \<noteq> Inl Panic \<and> (\<forall>c. r = Inr c \<longrightarrow> cur \<le> c \<and> c \<le> length data))"

lemma sound_step_for_count:
  assumes "sound_step data lo step" "lo \<le> cur" "cur \<le> length data"
  shows "\<exists>r. for_count n step cur = Some r \<and> r \<noteq> Inl Panic \<and>
    (\<forall>c. r = Inr c \<longrightarrow> cur \<le> c \<and> c \<le> length data)"
  using assms(2,3)
proof (induction n arbitrary: cur)
  case 0
  then show ?case by simp
next
  case (Suc n)
  from assms(1) Suc.prems(1) obtain r where r: "step cur = Some r" "r \<noteq> Inl Panic"
    "\<And>c. r = Inr c \<Longrightarrow> cur \<le> c \<and> c \<le> length data"
    by (auto simp: sound_step_def)
  show ?case
  proof (cases r)
    case (Inl e)
    with r show ?thesis by simp
  next
    case (Inr c)
    with r(3) have c: "cur \<le> c" "c \<le> length data" by auto
    then have "lo \<le> c" using Suc.prems(1) by simp
    from Suc.IH [OF this c(2)] c(1) r(1) Inr show ?thesis by (auto intro: order_trans)
  qed
qed

lemma skip_cbor_item_sound:
  "length data - pos < frames \<Longrightarrow>
     \<exists>r. skip_cbor_item frames data pos = Some r \<and> r \<noteq> Inl Panic \<and>
       (\<forall>c. r = Inr c \<longrightarrow> pos < c \<and> c \<le> length data)"
proof (induction frames arbitrary: pos)
  case 0
  then show ?case by simp
next
  case (Suc frames)
  show ?case
  proof (cases "read_cbor_head data pos")
    case (Inl e)
    then show ?thesis using read_cbor_head_no_panic [of data pos] by auto
  next
    case (Inr h)
    obtain major "value" p where h: "h = (major, value, p)" by (cases h)
    from read_cbor_head_Inr [OF Inr [unfolded h]] have p: "pos < p" "p \<le> length data" by auto
    have step: "\<exists>r. skip_cbor_item frames data cur = Some r \<and> r \<noteq> Inl Panic \<and>
        (\<forall>c. r = Inr c \<longrightarrow> cur < c \<and> c \<le> length data)" if "p \<le> cur" for cur
      by (rule Suc.IH) (use that p Suc.prems in simp)
    have items: "sound_step data p (skip_cbor_item frames data)"
      using step by (fastforce simp: sound_step_def)
    have pairs: "sound_step data p
        (\<lambda>cur. case skip_cbor_item frames data cur of
             Some (Inr cur) \<Rightarrow> skip_cbor_item frames data cur | r \<Rightarrow> r)"
      unfolding sound_step_def
    proof (intro allI impI)
      fix cur assume c: "p \<le> cur"
      from step [OF c] obtain r where r: "skip_cbor_item frames data cur = Some r" "r \<noteq> Inl Panic"
        "\<And>c. r = Inr c \<Longrightarrow> cur < c \<and> c \<le> length data" by blast
      show "\<exists>r. (case skip_cbor_item frames data cur of
             Some (Inr cur) \<Rightarrow> skip_cbor_item frames data cur | r \<Rightarrow> r) = Some r \<and> r \<noteq> Inl Panic \<and>
          (\<forall>c. r = Inr c \<longrightarrow> cur \<le> c \<and> c \<le> length data)"
      proof (cases r)
        case (Inl e)
        with r show ?thesis by simp
      next
        case (Inr c1)
        with r(3) c have "cur < c1" "p \<le> c1" by auto
        with step [of c1] r(1) Inr show ?thesis by fastforce
      qed
    qed
    note loops = sound_step_for_count [OF items order_refl p(2), of "unat value"]
      sound_step_for_count [OF pairs order_refl p(2), of "unat value"]
    show ?thesis
      using Inr h p loops step [of p] skip_string_bounds [of data pos "unat value" p]
      by (fastforce dest: less_le_trans)
  qed
qed

lemma parse_cose_sign1_total:
  assumes "length data \<le> frames"
  shows "\<exists>r. parse_cose_sign1_payload frames data = Some r \<and> r \<noteq> Inl Panic"
proof -
  have step: "\<exists>r. skip_cbor_item frames data pos = Some r \<and> r \<noteq> Inl Panic \<and>
      (\<forall>c. r = Inr c \<longrightarrow> pos < c \<and> c \<le> length data)" if "2 \<le> pos" "4 \<le> length data" for pos
    by (rule skip_cbor_item_sound) (use assms that in simp)
  show ?thesis
  proof (cases "length data < 4")
    case True
    then show ?thesis by (simp add: parse_cose_sign1_payload_def COSE_SIGN1_MIN_SIZE_def)
  next
    case False
    then obtain r1 where r1: "skip_cbor_item frames data 2 = Some r1" "r1 \<noteq> Inl Panic"
      "\<And>c. r1 = Inr c \<Longrightarrow> 2 < c" using step [of 2] by auto
    show ?thesis
    proof (cases r1)
      case (Inl e)
      with r1 show ?thesis
        by (cases e) (simp_all add: parse_cose_sign1_payload_def)
    next
      case (Inr p1)
      with r1(3) have "2 \<le> p1" by force
      with False step [of p1] obtain r2 where r2: "skip_cbor_item frames data p1 = Some r2" "r2 \<noteq> Inl Panic"
        by auto
      then show ?thesis using r1 Inr
        by (cases r2; cases "projl r2")
          (auto simp: parse_cose_sign1_payload_def and_then_eq_Inl)
    qed
  qed
qed

text \<open>Nested tags, one byte each, take one stack frame each.\<close>

lemma read_cbor_head_tag:
  "occurs_at data pos [0xC0] \<Longrightarrow> read_cbor_head data pos = Inr (CBOR_MAJOR_TAG, 0, pos + 1)"
proof -
  assume "occurs_at data pos [0xC0]"
  then have "pos < length data" "data ! pos = 0xC0"
    by (auto simp: occurs_at_iff nth_append)
  then show ?thesis
    by (simp add: read_cbor_head_def Let_def cbor_constants drop_bit_eq_div)
qed

lemma skip_cbor_item_tags:
  "occurs_at data pos (replicate frames 0xC0) \<Longrightarrow> skip_cbor_item frames data pos = None"
proof (induction frames arbitrary: pos)
  case 0
  then show ?case by simp
next
  case (Suc frames)
  then have "occurs_at data pos [0xC0]" "occurs_at data (pos + 1) (replicate frames 0xC0)"
    using occurs_at_append [of data pos "[0xC0]" "replicate frames 0xC0"] by simp_all
  with Suc.IH read_cbor_head_tag show ?case by (simp add: cbor_constants)
qed

section \<open>CBOR items\<close>

text \<open>
  The items of definite length, with the width in which each head is written: in the initial byte, or in 1, 2, 4 or 8
  bytes behind it. The shortest width is one choice among those that fit.
\<close>

datatype cbor_width = In_Initial | In_1 | In_2 | In_4 | In_8

datatype cbor =
    Cbor_Uint cbor_width u64 | Cbor_Nint cbor_width u64 | Cbor_Bstr cbor_width bytes | Cbor_Tstr cbor_width bytes
  | Cbor_Array cbor_width "cbor list" | Cbor_Map cbor_width "(cbor \<times> cbor) list" | Cbor_Tag cbor_width u64 cbor
  | Cbor_Simple cbor_width u64

fun cbor_head :: "cbor_width \<Rightarrow> u8 \<Rightarrow> u64 \<Rightarrow> bytes" where
  "cbor_head In_Initial major v = [push_bit 5 major OR ucast v]"
| "cbor_head In_1 major v = (push_bit 5 major OR 24) # be_bytes 1 v"
| "cbor_head In_2 major v = (push_bit 5 major OR 25) # be_bytes 2 v"
| "cbor_head In_4 major v = (push_bit 5 major OR 26) # be_bytes 4 v"
| "cbor_head In_8 major v = (push_bit 5 major OR 27) # be_bytes 8 v"

fun width_fits :: "cbor_width \<Rightarrow> u64 \<Rightarrow> bool" where
  "width_fits In_Initial v = (v < 24)"
| "width_fits In_1 v = (v < 0x100)"
| "width_fits In_2 v = (v < 0x10000)"
| "width_fits In_4 v = (v < 0x100000000)"
| "width_fits In_8 v = True"

declare cbor_head.simps [simp del] width_fits.simps [simp del]

primrec cbor_wire :: "cbor \<Rightarrow> bytes" where
  "cbor_wire (Cbor_Uint w v) = cbor_head w 0 v"
| "cbor_wire (Cbor_Nint w v) = cbor_head w 1 v"
| "cbor_wire (Cbor_Bstr w b) = cbor_head w 2 (of_nat (length b)) @ b"
| "cbor_wire (Cbor_Tstr w b) = cbor_head w 3 (of_nat (length b)) @ b"
| "cbor_wire (Cbor_Array w xs) = cbor_head w 4 (of_nat (length xs)) @ concat (map cbor_wire xs)"
| "cbor_wire (Cbor_Map w kvs) = cbor_head w 5 (of_nat (length kvs)) @
     concat (map (\<lambda>(k, v). k @ v) (map (map_prod cbor_wire cbor_wire) kvs))"
| "cbor_wire (Cbor_Tag w t x) = cbor_head w 6 t @ cbor_wire x"
| "cbor_wire (Cbor_Simple w v) = cbor_head w 7 v"

primrec cbor_depth :: "cbor \<Rightarrow> nat" where
  "cbor_depth (Cbor_Uint w v) = 1"
| "cbor_depth (Cbor_Nint w v) = 1"
| "cbor_depth (Cbor_Bstr w b) = 1"
| "cbor_depth (Cbor_Tstr w b) = 1"
| "cbor_depth (Cbor_Array w xs) = Suc (foldr max (map cbor_depth xs) 0)"
| "cbor_depth (Cbor_Map w kvs) =
     Suc (foldr max (map (\<lambda>(k, v). max k v) (map (map_prod cbor_depth cbor_depth) kvs)) 0)"
| "cbor_depth (Cbor_Tag w t x) = Suc (cbor_depth x)"
| "cbor_depth (Cbor_Simple w v) = 1"

primrec cbor_fits :: "cbor \<Rightarrow> bool" where
  "cbor_fits (Cbor_Uint w v) = width_fits w v"
| "cbor_fits (Cbor_Nint w v) = width_fits w v"
| "cbor_fits (Cbor_Bstr w b) = width_fits w (of_nat (length b))"
| "cbor_fits (Cbor_Tstr w b) = width_fits w (of_nat (length b))"
| "cbor_fits (Cbor_Array w xs) = (width_fits w (of_nat (length xs)) \<and> list_all id (map cbor_fits xs))"
| "cbor_fits (Cbor_Map w kvs) =
     (width_fits w (of_nat (length kvs)) \<and> list_all (\<lambda>(k, v). k \<and> v) (map (map_prod cbor_fits cbor_fits) kvs))"
| "cbor_fits (Cbor_Tag w t x) = (width_fits w t \<and> cbor_fits x)"
| "cbor_fits (Cbor_Simple w v) = width_fits w v"

lemma cbor_map_simps [simp]:
  "cbor_wire (Cbor_Map w kvs) =
     cbor_head w 5 (of_nat (length kvs)) @ concat (map (\<lambda>(k, v). cbor_wire k @ cbor_wire v) kvs)"
  "cbor_depth (Cbor_Map w kvs) = Suc (foldr max (map (\<lambda>(k, v). max (cbor_depth k) (cbor_depth v)) kvs) 0)"
  "cbor_fits (Cbor_Map w kvs) =
     (width_fits w (of_nat (length kvs)) \<and> (\<forall>(k, v) \<in> set kvs. cbor_fits k \<and> cbor_fits v))"
  by (simp_all add: comp_def case_prod_unfold list_all_iff)

declare cbor_wire.simps(6) [simp del] cbor_depth.simps(6) [simp del] cbor_fits.simps(6) [simp del]

lemma head_byte:
  assumes "major < 8" "x < 32"
  shows "drop_bit 5 (push_bit 5 major OR x) = (major :: u8)" "(push_bit 5 major OR x) AND 0x1F = (x :: u8)"
proof -
  have m: "take_bit 3 major = major" and x: "take_bit 5 x = x"
    using assms by (simp_all add: take_bit_eq_mod mod_word_less)
  have hx: "\<not> bit x (5 + i)" for i
    using x by (metis bit_take_bit_iff not_add_less1)
  have hm: "bit major i \<Longrightarrow> i < 3" for i
    using m by (metis bit_take_bit_iff)
  show "drop_bit 5 (push_bit 5 major OR x) = major"
    by (rule bit_word_eqI) (use hx hm in \<open>force simp: bit_simps\<close>)
  have f: "(0x1F :: u8) = mask 5" by (simp add: mask_eq_exp_minus_1)
  have "take_bit 5 (push_bit 5 major OR x) = take_bit 5 x"
    by (rule bit_word_eqI) (auto simp: bit_simps)
  then show "(push_bit 5 major OR x) AND 0x1F = x"
    unfolding f using x by (simp add: take_bit_eq_mask)
qed

lemma cbor_argument_wire:
  assumes "occurs_at data p (be_bytes n v)" "take_bit (8 * n) v = v"
  shows "cbor_argument data p n msg = Inr (v, p + n)"
proof -
  have "p + n \<le> length data" "take n (drop p data) = be_bytes n v"
    using assms(1) by (simp_all add: occurs_at_def)
  then show ?thesis
    using assms(2) by (simp add: cbor_argument_def of_be_def be_bytes_def of_le_le_bytes)
qed

lemma nth_occurs: "occurs_at data p (b # bs) \<Longrightarrow> p < length data \<and> data ! p = b"
  by (auto simp: occurs_at_iff nth_append)

lemma occurs_Cons: "occurs_at data p (b # bs) \<Longrightarrow> occurs_at data (p + 1) bs"
  using occurs_at_append [of data p "[b]" bs] by simp

lemma read_cbor_head_wire:
  assumes "occurs_at data pos (cbor_head w major v)" "major < 8" "width_fits w v"
  shows "read_cbor_head data pos = Inr (major, v, pos + length (cbor_head w major v))"
proof -
  have wide: "read_cbor_head data pos = Inr (major, v, pos + length (cbor_head w major v))"
    if "cbor_head w major v = (push_bit 5 major OR a) # be_bytes n v" "take_bit (8 * n) v = v"
      and "(a, n) \<in> {(24, 1), (25, 2), (26, 4), (27, 8)}" for a n
  proof -
    have "a < 32" using that(3) by auto
    then obtain b where b: "b = push_bit 5 major OR a" "drop_bit 5 b = major" "b AND 0x1F = a"
      using head_byte [OF assms(2)] by blast
    have o: "occurs_at data pos (b # be_bytes n v)"
      using assms(1) that(1) b(1) by simp
    from nth_occurs [OF this] cbor_argument_wire [OF occurs_Cons [OF o] that(2)] that b show ?thesis
      by (auto simp: read_cbor_head_def Let_def cbor_constants)
  qed
  show ?thesis
  proof (cases w)
    case In_Initial
    then have v: "v < 24" using assms(3) by (simp add: width_fits.simps)
    have n: "unat (ucast v :: u8) = unat v"
      using v by (simp add: unsigned_ucast_eq take_bit_nat_eq_self word_less_nat_alt)
    have u: "(ucast v :: u8) < 32" "(ucast v :: u8) \<le> 23"
      using v n by (simp_all add: word_less_nat_alt word_le_nat_alt)
    have "v < 0x100" using v by (rule less_trans) simp
    then have "take_bit 8 v = v" by (simp add: take_bit_eq_mod mod_word_less)
    then have "bit v i \<Longrightarrow> i < 8" for i by (metis bit_take_bit_iff)
    then have c: "ucast (ucast v :: u8) = v" by (intro bit_word_eqI) (auto simp: bit_simps)
    obtain b where b: "b = push_bit 5 major OR ucast v" "drop_bit 5 b = major" "b AND 0x1F = ucast v"
      using head_byte [OF assms(2) u(1)] by blast
    have "occurs_at data pos [b]" using assms(1) In_Initial b(1) by (simp add: cbor_head.simps)
    from nth_occurs [OF this] u c b In_Initial show ?thesis
      by (simp add: read_cbor_head_def Let_def cbor_head.simps)
  next
    case In_1
    then have "take_bit (8 * 1) v = v" using assms(3) by (simp add: width_fits.simps take_bit_eq_mod mod_word_less)
    with In_1 wide [of 24 1] show ?thesis by (simp add: cbor_head.simps)
  next
    case In_2
    then have "take_bit (8 * 2) v = v" using assms(3) by (simp add: width_fits.simps take_bit_eq_mod mod_word_less)
    with In_2 wide [of 25 2] show ?thesis by (simp add: cbor_head.simps)
  next
    case In_4
    then have "take_bit (8 * 4) v = v" using assms(3) by (simp add: width_fits.simps take_bit_eq_mod mod_word_less)
    with In_4 wide [of 26 4] show ?thesis by (simp add: cbor_head.simps)
  next
    case In_8
    have "take_bit (8 * 8) v = v" by (simp add: take_bit_word_eq_self)
    with In_8 wide [of 27 8] show ?thesis by (simp add: cbor_head.simps)
  qed
qed

lemma for_count_wires:
  assumes "\<And>x c. x \<in> set xs \<Longrightarrow> occurs_at data c (w x) \<Longrightarrow> step c = Some (Inr (c + length (w x)))"
    and "occurs_at data cur (concat (map w xs))"
  shows "for_count (length xs) step cur = Some (Inr (cur + length (concat (map w xs))))"
  using assms(2,1)
proof (induction xs arbitrary: cur)
  case (Cons x xs)
  have "step cur = Some (Inr (cur + length (w x)))"
    by (rule Cons.prems(2)) (use Cons.prems(1) in simp_all)
  moreover have "for_count (length xs) step (cur + length (w x)) =
      Some (Inr (cur + length (w x) + length (concat (map w xs))))"
    by (rule Cons.IH) (use Cons.prems in simp_all)
  ultimately show ?case by (simp add: add.assoc)
qed simp

lemma cbor_head_pos [simp]: "cbor_head w major v \<noteq> []"
  by (cases w) (simp_all add: cbor_head.simps)

lemma cbor_wire_pos [simp]: "cbor_wire x \<noteq> []"
  by (cases x) simp_all

lemma length_concat_pos: "\<forall>x\<in>set xs. w x \<noteq> [] \<Longrightarrow> length xs \<le> length (concat (map w xs))"
proof (induction xs)
  case (Cons x xs)
  then show ?case by (cases "w x") auto
qed simp

lemma unat_of_nat_u64: "n < 2 ^ 64 \<Longrightarrow> unat (of_nat n :: u64) = n"
  by (simp add: unat_of_nat take_bit_nat_eq_self)

lemma foldr_max_le: "foldr max xs 0 \<le> (n :: nat) \<longleftrightarrow> (\<forall>x\<in>set xs. x \<le> n)"
  by (induction xs) auto

lemma skip_string_wire:
  assumes "occurs_at data pos (cbor_head w major (of_nat (length b)) @ b)" "length data < 2 ^ 64"
  shows "skip_string data pos (unat (of_nat (length b) :: u64)) (pos + length (cbor_head w major (of_nat (length b)))) =
    Inr (pos + length (cbor_head w major (of_nat (length b)) @ b))"
proof -
  have "pos + length (cbor_head w major (of_nat (length b))) + length b \<le> length data"
    using occurs_at_bounds [OF assms(1)] by simp
  with assms(2) show ?thesis
    by (simp add: skip_string_def checked_add_usize_def unat_of_nat_u64 add.assoc)
qed

lemma skip_leaf_wire:
  assumes "occurs_at data pos (cbor_head w major v)" "major \<in> {0, 1, 7}" "width_fits w v" "1 \<le> frames"
  shows "skip_cbor_item frames data pos = Some (Inr (pos + length (cbor_head w major v)))"
proof -
  obtain f where f: "frames = Suc f" using assms(4) by (cases frames) auto
  have "major < 8" using assms(2) by auto
  from read_cbor_head_wire [OF assms(1) this assms(3)] assms(2) show ?thesis
    unfolding f by (auto simp: cbor_constants)
qed

lemma skip_cbor_item_wire:
  "occurs_at data pos (cbor_wire x) \<Longrightarrow> length data < 2 ^ 64 \<Longrightarrow> cbor_fits x \<Longrightarrow> cbor_depth x \<le> frames \<Longrightarrow>
     skip_cbor_item frames data pos = Some (Inr (pos + length (cbor_wire x)))"
proof (induction x arbitrary: pos frames)
  case (Cbor_Array w xs)
  then obtain f where f: "frames = Suc f" "\<forall>x\<in>set xs. cbor_depth x \<le> f"
    by (cases frames) (auto simp: foldr_max_le)
  have fits: "width_fits w (of_nat (length xs))" "\<forall>x\<in>set xs. cbor_fits x"
    using Cbor_Array.prems(3) by (simp_all add: list_all_iff)
  let ?h = "cbor_head w 4 (of_nat (length xs))"
  have o: "occurs_at data pos ?h" "occurs_at data (pos + length ?h) (concat (map cbor_wire xs))"
    using Cbor_Array.prems(1) by simp_all
  have "length xs \<le> length (concat (map cbor_wire xs))"
    by (rule length_concat_pos) simp
  then have n: "unat (of_nat (length xs) :: u64) = length xs"
    using occurs_at_bounds [OF o(2)] Cbor_Array.prems(2) by (intro unat_of_nat_u64) simp
  have "for_count (length xs) (skip_cbor_item f data) (pos + length ?h) =
      Some (Inr (pos + length ?h + length (concat (map cbor_wire xs))))"
    by (rule for_count_wires [OF _ o(2)]) (use Cbor_Array.IH Cbor_Array.prems(2) f(2) fits(2) in blast)
  with f read_cbor_head_wire [OF o(1) _ fits(1)] n show ?case
    by (simp add: cbor_constants add.assoc)
next
  case (Cbor_Map w kvs)
  then obtain f where f: "frames = Suc f" "\<forall>(k, v)\<in>set kvs. cbor_depth k \<le> f \<and> cbor_depth v \<le> f"
    by (cases frames) (auto simp: foldr_max_le case_prod_unfold)
  have fits: "width_fits w (of_nat (length kvs))" "\<forall>(k, v)\<in>set kvs. cbor_fits k \<and> cbor_fits v"
    using Cbor_Map.prems(3) by simp_all
  let ?h = "cbor_head w 5 (of_nat (length kvs))"
  let ?w = "\<lambda>(k, v). cbor_wire k @ cbor_wire v"
  have o: "occurs_at data pos ?h" "occurs_at data (pos + length ?h) (concat (map ?w kvs))"
    using Cbor_Map.prems(1) by simp_all
  have "length kvs \<le> length (concat (map ?w kvs))"
    by (rule length_concat_pos) auto
  then have n: "unat (of_nat (length kvs) :: u64) = length kvs"
    using occurs_at_bounds [OF o(2)] Cbor_Map.prems(2) by (intro unat_of_nat_u64) simp
  have "for_count (length kvs)
        (\<lambda>cur. case skip_cbor_item f data cur of
           Some (Inr cur) \<Rightarrow> skip_cbor_item f data cur | r \<Rightarrow> r) (pos + length ?h) =
      Some (Inr (pos + length ?h + length (concat (map ?w kvs))))"
  proof (rule for_count_wires [OF _ o(2)])
    fix kv c assume kv: "kv \<in> set kvs" "occurs_at data c (?w kv)"
    obtain k v where p: "kv = (k, v)" by (cases kv)
    have "skip_cbor_item f data c = Some (Inr (c + length (cbor_wire k)))"
      "skip_cbor_item f data (c + length (cbor_wire k)) =
        Some (Inr (c + length (cbor_wire k) + length (cbor_wire v)))"
      using Cbor_Map.IH(1) [of kv k c f] Cbor_Map.IH(2) [of kv v "c + length (cbor_wire k)" f]
        kv p f(2) fits(2) Cbor_Map.prems(2) by (auto simp: fsts.simps snds.simps)
    then show "(case skip_cbor_item f data c of
        Some (Inr cur) \<Rightarrow> skip_cbor_item f data cur | r \<Rightarrow> r) = Some (Inr (c + length (?w kv)))"
      by (simp add: p add.assoc)
  qed
  with f read_cbor_head_wire [OF o(1) _ fits(1)] n show ?case
    by (simp add: cbor_constants add.assoc)
next
  case (Cbor_Tag w t x)
  then obtain f where f: "frames = Suc f" "cbor_depth x \<le> f" by (cases frames) auto
  have fits: "width_fits w t" "cbor_fits x" using Cbor_Tag.prems(3) by simp_all
  have o: "occurs_at data pos (cbor_head w 6 t)" "occurs_at data (pos + length (cbor_head w 6 t)) (cbor_wire x)"
    using Cbor_Tag.prems(1) by simp_all
  with Cbor_Tag.IH [OF o(2) Cbor_Tag.prems(2) fits(2) f(2)] read_cbor_head_wire [OF o(1) _ fits(1)] f(1) show ?case
    by (simp add: cbor_constants add.assoc)
next
  case (Cbor_Bstr w b)
  then have o: "occurs_at data pos (cbor_head w 2 (of_nat (length b)))" "width_fits w (of_nat (length b))" by simp_all
  from Cbor_Bstr.prems skip_string_wire [of data pos w 2 b] read_cbor_head_wire [OF o(1) _ o(2)] show ?case
    by (cases frames) (simp_all add: cbor_constants)
next
  case (Cbor_Tstr w b)
  then have o: "occurs_at data pos (cbor_head w 3 (of_nat (length b)))" "width_fits w (of_nat (length b))" by simp_all
  from Cbor_Tstr.prems skip_string_wire [of data pos w 3 b] read_cbor_head_wire [OF o(1) _ o(2)] show ?case
    by (cases frames) (simp_all add: cbor_constants)
qed (simp_all add: skip_leaf_wire del: skip_cbor_item.simps)

lemma skip_cbor_items_wire:
  assumes "occurs_at data pos (cbor_wire x @ cbor_wire y)" "length data < 2 ^ 64" "cbor_fits x" "cbor_fits y"
    and "cbor_depth x \<le> frames" "cbor_depth y \<le> frames"
  shows "skip_cbor_item frames data pos = Some (Inr (pos + length (cbor_wire x)))"
    and "skip_cbor_item frames data (pos + length (cbor_wire x)) =
      Some (Inr (pos + length (cbor_wire x) + length (cbor_wire y)))"
  using assms by (simp_all add: skip_cbor_item_wire)

section \<open>Envelopes\<close>

text \<open>The major type of an item, its bytes if it is a string, and what follows its head.\<close>

fun cbor_major :: "cbor \<Rightarrow> u8" where
  "cbor_major (Cbor_Uint _ _) = 0"
| "cbor_major (Cbor_Nint _ _) = 1"
| "cbor_major (Cbor_Bstr _ _) = 2"
| "cbor_major (Cbor_Tstr _ _) = 3"
| "cbor_major (Cbor_Array _ _) = 4"
| "cbor_major (Cbor_Map _ _) = 5"
| "cbor_major (Cbor_Tag _ _ _) = 6"
| "cbor_major (Cbor_Simple _ _) = 7"

lemma cbor_major_head:
  "\<exists>w v rest. cbor_wire x = cbor_head w (cbor_major x) v @ rest \<and> (cbor_fits x \<longrightarrow> width_fits w v) \<and> cbor_major x < 8"
proof (cases x)
  case (Cbor_Uint w v)
  then show ?thesis by (intro exI [of _ w] exI [of _ v] exI [of _ "[]"]) simp
next
  case (Cbor_Nint w v)
  then show ?thesis by (intro exI [of _ w] exI [of _ v] exI [of _ "[]"]) simp
next
  case (Cbor_Simple w v)
  then show ?thesis by (intro exI [of _ w] exI [of _ v] exI [of _ "[]"]) simp
qed auto

definition payload_result :: "nat \<Rightarrow> cbor \<Rightarrow> bytes io_res" where
  "payload_result pos x =
     (case x of
        Cbor_Bstr _ b \<Rightarrow> Inr b
      | Cbor_Tstr _ b \<Rightarrow> Inr b
      | _ \<Rightarrow> Inl (Fail (cose_err (''expected bstr/tstr (major 2/3) at offset '' @ fmt_dec pos @ '', got major '' @
               fmt_dec (unat (cbor_major x))))))"

lemma read_cbor_string_wire:
  assumes "occurs_at data pos (cbor_head w major (of_nat (length b)) @ b)" "major = 2 \<or> major = 3"
    and "width_fits w (of_nat (length b))" "length data < 2 ^ 64"
  shows "\<exists>p. read_cbor_bstr data pos = Inr (b, p)"
proof -
  let ?h = "cbor_head w major (of_nat (length b))"
  have o: "occurs_at data pos ?h" "occurs_at data (pos + length ?h) b"
    using assms(1) by simp_all
  then have l: "pos + length ?h + length b \<le> length data" "take (length b) (drop (pos + length ?h) data) = b"
    by (auto dest: occurs_at_bounds occurs_at_take)
  have "major < 8" using assms(2) by auto
  from l read_cbor_head_wire [OF o(1) this assms(3)] assms(2,4) show ?thesis
    by (auto simp: read_cbor_bstr_def cbor_constants checked_add_usize_def unat_of_nat_u64 add.assoc)
qed

lemma read_payload_wire:
  assumes "occurs_at data pos (cbor_wire x)" "cbor_fits x" "length data < 2 ^ 64"
  shows "and_then (map_err cose_err (read_cbor_bstr data pos)) (\<lambda>(payload, _). Inr payload) = payload_result pos x"
proof (cases "cbor_major x = 2 \<or> cbor_major x = 3")
  case True
  then obtain w b where x: "x = Cbor_Bstr w b \<or> x = Cbor_Tstr w b" by (cases x) auto
  with assms read_cbor_string_wire [of data pos w "cbor_major x" b] True obtain p where "read_cbor_bstr data pos = Inr (b, p)"
    by auto
  with x show ?thesis by (auto simp: payload_result_def)
next
  case False
  obtain w v rest where h: "cbor_wire x = cbor_head w (cbor_major x) v @ rest" "width_fits w v" "cbor_major x < 8"
    using cbor_major_head [of x] assms(2) by blast
  have o: "occurs_at data pos (cbor_head w (cbor_major x) v)" using assms(1) h(1) by simp
  with False h read_cbor_head_wire [OF o h(3,2)] show ?thesis
    by (cases x) (simp_all add: read_cbor_bstr_def payload_result_def cbor_constants)
qed

text \<open>The envelope: tag 18 and an array of four, whose third element is the payload.\<close>

definition cose_sign1_wire :: "cbor \<Rightarrow> cbor \<Rightarrow> cbor \<Rightarrow> bytes \<Rightarrow> bytes" where
  "cose_sign1_wire protected unprotected payload signature =
     [0xD2, 0x84] @ cbor_wire protected @ cbor_wire unprotected @ cbor_wire payload @ signature"

lemma cose_sign1_head: "[0xD2, 0x84] = cbor_head In_Initial 6 18 @ cbor_head In_Initial 4 4"
  by (simp add: cbor_head.simps)

lemma cose_sign1_steps:
  assumes "d = [0xD2, 0x84] @ cbor_wire protected @ cbor_wire unprotected @ rest" "rest \<noteq> []" "length d < 2 ^ 64"
    and "cbor_fits protected" "cbor_fits unprotected" "cbor_depth protected \<le> frames" "cbor_depth unprotected \<le> frames"
  defines "pos \<equiv> 2 + length (cbor_wire protected) + length (cbor_wire unprotected)"
  shows "parse_cose_sign1_payload frames d =
    Some (and_then (map_err cose_err (read_cbor_bstr d pos)) (\<lambda>(payload, _). Inr payload))" "occurs_at d pos rest"
proof -
  have "occurs_at d 0 ([0xD2, 0x84] @ cbor_wire protected @ cbor_wire unprotected @ rest)"
    unfolding assms(1) by (rule occurs_at_whole)
  from occurs_at_append [THEN iffD1, OF this]
  have "occurs_at d 2 (cbor_wire protected @ cbor_wire unprotected @ rest)" by (simp add: numeral_2_eq_2)
  then have o: "occurs_at d 2 (cbor_wire protected @ cbor_wire unprotected)" and r: "occurs_at d pos rest"
    by (simp_all add: pos_def add.assoc)
  have pos: "1 \<le> length (cbor_wire x)" for x by (simp add: Suc_le_eq)
  have "4 \<le> length d" using pos [of protected] pos [of unprotected] by (simp add: assms(1))
  moreover have "d ! 0 = 0xD2" "d ! 1 = 0x84" by (simp_all add: assms(1))
  ultimately show "parse_cose_sign1_payload frames d =
      Some (and_then (map_err cose_err (read_cbor_bstr d pos)) (\<lambda>(payload, _). Inr payload))"
    using skip_cbor_items_wire [OF o assms(3-7)]
    by (simp add: parse_cose_sign1_payload_def COSE_SIGN1_MIN_SIZE_def COSE_SIGN1_TAG_BYTE_def COSE_SIGN1_ARRAY_BYTE_def
        pos_def del: skip_cbor_item.simps)
  show "occurs_at d pos rest" by (rule r)
qed

text \<open>
  C38. From a COSE_Sign1 envelope whose protected header, unprotected header and payload are CBOR
  items of definite length, in any of the widths that fit and not only the shortest, the parser returns the bytes of the
  payload if that is a byte or text string, and refuses any other payload (a detached one, for instance) with an error that
  names its offset and its major type. (The tag and the array head of the envelope are the bytes \<open>D2 84\<close>, the only form the
  parser takes.) The stack must have room for the nesting of the headers, and nothing is asked of
  what follows the payload. Envelopes with items of indefinite length are not among these: they are refused.
\<close>

theorem cose_payload_extracted:
  assumes "length (cose_sign1_wire protected unprotected payload signature) < 2 ^ 64"
    and "cbor_fits protected" "cbor_fits unprotected" "cbor_fits payload"
    and "cbor_depth protected \<le> frames" "cbor_depth unprotected \<le> frames"
  shows "parse_cose_sign1_payload frames (cose_sign1_wire protected unprotected payload signature) =
    Some (payload_result (2 + length (cbor_wire protected) + length (cbor_wire unprotected)) payload)"
proof -
  have ne: "cbor_wire payload @ signature \<noteq> []" by simp
  note steps = cose_sign1_steps [OF cose_sign1_wire_def ne assms(1,2,3,5,6)]
  have "occurs_at (cose_sign1_wire protected unprotected payload signature)
      (2 + length (cbor_wire protected) + length (cbor_wire unprotected)) (cbor_wire payload)"
    using steps(2) by simp
  from read_payload_wire [OF this assms(4,1)] show ?thesis unfolding steps(1) by (rule arg_cong)
qed

theorem cose_payload_extracted_witness:
  "parse_cose_sign1_payload 2
     (cose_sign1_wire (Cbor_Bstr In_2 [0xA1]) (Cbor_Map In_Initial [(Cbor_Uint In_1 4, Cbor_Bstr In_Initial [1, 2])])
       (Cbor_Bstr In_8 [7, 8, 9]) [0x41, 0]) = Some (Inr [7, 8, 9])"
  by (subst cose_payload_extracted)
    (simp_all add: cose_sign1_wire_def cbor_head.simps width_fits.simps be_bytes_def payload_result_def)

text \<open>
  An item whose initial byte announces an indefinite length, or one of the reserved forms, ends the parser with an error
  wherever it is reached.
\<close>

lemma indefinite_head_refused:
  assumes "pos < length data" "28 \<le> data ! pos AND 0x1F"
  shows "read_cbor_head data pos =
    Inl (Fail (''unsupported CBOR additional info '' @ fmt_dec (unat (data ! pos AND 0x1F))))"
  using assms by (auto simp: read_cbor_head_def Let_def cbor_constants rs_index_def word_le_nat_alt)

lemma indefinite_unprotected_refused:
  "parse_cose_sign1_payload (Suc frames) [0xD2, 0x84, 0x40, 0xBF, 0xFF, 0x41, 0x07, 0x40] =
     Some (Inl (Fail (cose_err ''unsupported CBOR additional info 31'')))"
proof -
  let ?d = "[0xD2, 0x84, 0x40, 0xBF, 0xFF, 0x41, 0x07, 0x40] :: bytes"
  have "read_cbor_head ?d 2 = Inr (CBOR_MAJOR_BSTR, 0, 3)"
    by (simp add: read_cbor_head_def Let_def cbor_constants rs_index_def drop_bit_eq_div)
  then have p: "skip_cbor_item (Suc frames) ?d 2 = Some (Inr 3)"
    by (simp add: cbor_constants skip_string_def checked_add_usize_def)
  have "(?d ! 3) AND 0x1F = 31" by simp
  then have "read_cbor_head ?d 3 = Inl (Fail (''unsupported CBOR additional info '' @ fmt_dec 31))"
    using indefinite_head_refused [of 3 ?d] by simp
  then have "skip_cbor_item (Suc frames) ?d 3 = Some (Inl (Fail (''unsupported CBOR additional info '' @ fmt_dec 31)))"
    by simp
  moreover have "fmt_dec 31 = ''31''" by (simp add: fmt_dec.simps [of 31] fmt_dec.simps [of 3] hex_digit_def)
  ultimately show ?thesis using p
    by (simp add: parse_cose_sign1_payload_def COSE_SIGN1_MIN_SIZE_def COSE_SIGN1_TAG_BYTE_def COSE_SIGN1_ARRAY_BYTE_def
        del: skip_cbor_item.simps)
qed

text \<open>
  On every input a stack with room for as many nested calls as the
  input has bytes is enough: the parser returns, and does not panic. No smaller bound that
  is independent of the input is: whatever the stack has room for, an envelope of that many
  bytes and six more exhausts it.
\<close>

theorem cose_stack_need:
  "(case parse_cose_sign1_payload (length data) data of None \<Rightarrow> False | Some r \<Rightarrow> r \<noteq> Inl Panic) \<and>
   parse_cose_sign1_payload frames ([0xD2, 0x84] @ replicate frames 0xC0 @ [0, 0x40, 0x40, 0x40]) = None"
proof -
  let ?e = "[0xD2, 0x84] @ replicate frames 0xC0 @ [0, 0x40, 0x40, 0x40]"
  have "occurs_at ?e 2 (replicate frames 0xC0)"
    using occurs_at_here [of "[0xD2, 0x84]" "replicate frames 0xC0" "[0, 0x40, 0x40, 0x40]"]
    by (simp add: numeral_2_eq_2)
  from skip_cbor_item_tags [OF this]
  have "parse_cose_sign1_payload frames ?e = None"
    by (simp add: parse_cose_sign1_payload_def COSE_SIGN1_MIN_SIZE_def COSE_SIGN1_TAG_BYTE_def
        COSE_SIGN1_ARRAY_BYTE_def)
  moreover obtain r where "parse_cose_sign1_payload (length data) data = Some r" "r \<noteq> Inl Panic"
    using parse_cose_sign1_total [of data "length data"] by auto
  ultimately show ?thesis by simp
qed

end
