(* ===== verification/Attest_Client.thy ===== *)
theory Attest_Client
  imports Guest_Services Cose
begin

text \<open>
  \<open>client.rs\<close> and \<open>endorsement.rs\<close> of the SDK: the operations of \<open>AttestationClient\<close>, which
  owns the TPM, over the platform of \<open>Guest_Attest\<close>, and the client of the THIM service.
  An operation is a function of the state that may be undefined (\<open>None\<close>) where a CVM
  report is copied over the C structure.
\<close>

section \<open>Operations that may be undefined\<close>

type_synonym ('s, 'a) sdk_op = "'s \<Rightarrow> ('a sdk_res \<times> 's) option"

definition op_st :: "('s, sdk_error, 'a) st \<Rightarrow> ('s, 'a) sdk_op" where
  "op_st m s = Some (m s)"

definition op_res :: "'a sdk_res \<Rightarrow> ('s, 'a) sdk_op" where
  "op_res r s = Some (r, s)"

definition op_then :: "('s, 'a) sdk_op \<Rightarrow> ('a \<Rightarrow> ('s, 'b) sdk_op) \<Rightarrow> ('s, 'b) sdk_op" where
  "op_then m f s =
     (case m s of
        None \<Rightarrow> None
      | Some (Inl e, s') \<Rightarrow> Some (Inl e, s')
      | Some (Inr x, s') \<Rightarrow> f x s')"

text \<open>A call that returns \<open>io::Result\<close>, with the conversion of its error by \<open>?\<close>.\<close>

definition op_io :: "('s, io_error, 'a) st \<Rightarrow> ('s, 'a) sdk_op" where
  "op_io m = op_st (st_map_err sdk_from_io m)"

text \<open>A match on the result; a panic is not a result.\<close>

definition op_match ::
    "('s, 'a) sdk_op \<Rightarrow> (sdk_error \<Rightarrow> ('s, 'b) sdk_op) \<Rightarrow> ('a \<Rightarrow> ('s, 'b) sdk_op) \<Rightarrow> ('s, 'b) sdk_op" where
  "op_match m on_err on_ok s =
     (case m s of
        None \<Rightarrow> None
      | Some (Inl Panic, s') \<Rightarrow> Some (Inl Panic, s')
      | Some (Inl (Fail e), s') \<Rightarrow> on_err e s'
      | Some (Inr x, s') \<Rightarrow> on_ok x s')"

section \<open>Types\<close>

datatype provider = Maa string | Loopback

datatype device_type = Dev_Tpm

record device_evidence_options =
  do_device_type :: device_type
  do_pcr_selection :: "u32 list option"

definition device_evidence_options_default :: device_evidence_options where
  "device_evidence_options_default = \<lparr>do_device_type = Dev_Tpm, do_pcr_selection = None\<rparr>"

record cvm_evidence_options =
  co_user_data :: "bytes option"
  co_fetch_platform_quote :: bool

definition cvm_evidence_options_default :: cvm_evidence_options where
  "cvm_evidence_options_default = \<lparr>co_user_data = None, co_fetch_platform_quote = False\<rparr>"

record attest_options =
  ao_client_payload :: "string option"
  ao_pcr_selection :: "u32 list option"
  ao_user_data :: "bytes option"

definition attest_options_default :: attest_options where
  "attest_options_default = \<lparr>ao_client_payload = None, ao_pcr_selection = None, ao_user_data = None\<rparr>"

record platform_attest_options =
  po_user_data :: "bytes option"

record attest_result =
  ar_token :: "string option"
  ar_request_json :: string
  ar_encoded_request :: string
  ar_pcrs :: "u32 list"

record attestation_report =
  rt_json :: string
  rt_pcrs :: "u32 list"

record device_evidence =
  de_tpm_info :: tpm_info
  de_pcrs :: "u32 list"

section \<open>Evidence\<close>

definition sdk_fail :: "sdk_error \<Rightarrow> 'a sdk_res" where
  "sdk_fail e = Inl (Fail e)"

definition check_user_data :: "bytes option \<Rightarrow> unit sdk_res" where
  "check_user_data ud =
     (case ud of
        Some d \<Rightarrow>
          if 64 < length d
          then sdk_fail (Sdk_Parse (''user_data length '' @ fmt_dec (length d) @ '' exceeds 64 bytes''))
          else Inr ()
      | None \<Rightarrow> Inr ())"

definition op_parse_report ::
    "'s platform \<Rightarrow> bytes \<Rightarrow> ('s, cvm_attestation_report \<times> runtime_claims option) sdk_op" where
  "op_parse_report pf raw s =
     map_option (\<lambda>r. (map_err sdk_from_io r, s)) (parse_with_runtime_claims (pf_claims pf) raw)"

definition get_cvm_evidence :: "'s platform \<Rightarrow> cvm_evidence_options option \<Rightarrow> ('s, cvm_evidence) sdk_op" where
  "get_cvm_evidence pf options =
     (let opts = (case options of Some o' \<Rightarrow> o' | None \<Rightarrow> cvm_evidence_options_default) in
      op_then (op_res (check_user_data (co_user_data opts))) (\<lambda>_.
      op_then (op_io (get_cvm_report_raw (pf_tpm pf) (co_user_data opts))) (\<lambda>raw.
      op_then (op_parse_report pf raw) (\<lambda>(parsed, claims).
      let rtype = rc_report_type (cr_runtime_claims_header parsed);
          expected_size = tee_report_size rtype;
          tee_report = (if 0 < expected_size
                        then take (min expected_size (length (cr_tee_report parsed))) (cr_tee_report parsed)
                        else [])
      in op_then (op_res (map_err sdk_from_io (get_runtime_claims_raw_bytes parsed raw))) (\<lambda>runtime_data.
         op_then
           (if co_fetch_platform_quote opts \<and> rtype = TdxVmReport
            then op_io (fresh_td_quote pf tee_report)
            else op_res (Inr []))
           (\<lambda>platform_quote.
         op_res (Inr \<lparr>ce_report_type = rtype, ce_tee_report = tee_report, ce_runtime_claims = claims,
                      ce_runtime_data = runtime_data, ce_platform_quote = platform_quote\<rparr>)))))))"

definition get_tpm_evidence :: "'s platform \<Rightarrow> u32 list option \<Rightarrow> ('s, io_error, device_evidence) st" where
  "get_tpm_evidence pf pcr_selection =
     (let tr = pf_tpm pf in
      st_then
        (case pcr_selection of
           Some p \<Rightarrow> st_res (Inr p)
         | None \<Rightarrow> st_then (os_info_detect pf) (\<lambda>os. st_res (Inr (os_pcr_list os))))
        (\<lambda>pcrs.
      st_then (ensure_persistent_ak tr) (\<lambda>_.
      st_then (get_ak_cert tr) (\<lambda>ak_cert.
      st_then (get_ak_pub tr) (\<lambda>ak_pub.
      st_then (get_pcr_quote tr pcrs) (\<lambda>(quote, sig).
      st_then (get_pcr_values tr pcrs) (\<lambda>pcr_values.
      st_then (get_ephemeral_key (pf_random pf) (pf_sha256 pf) tr pcrs) (\<lambda>ek.
      st_then (st_ignore (tpm_flush_context tr (ek_handle ek))) (\<lambda>_.
      st_res (Inr
        \<lparr>de_tpm_info =
           \<lparr>ti_ak_cert = ak_cert, ti_ak_pub = ak_pub, ti_pcr_quote = quote, ti_pcr_sig = sig,
            ti_pcr_set = map fst pcr_values,
            ti_pcrs = map (\<lambda>(i, d). \<lparr>pe_index = i, pe_digest = d\<rparr>) pcr_values,
            ti_enc_key_pub = ek_public ek, ti_enc_key_certify_info = ek_certify_info ek,
            ti_enc_key_certify_info_sig = ek_certify_sig ek\<rparr>,
         de_pcrs = pcrs\<rparr>))))))))))"

definition get_device_evidence :: "'s platform \<Rightarrow> device_evidence_options option \<Rightarrow> ('s, device_evidence) sdk_op" where
  "get_device_evidence pf options =
     (let opts = (case options of Some o' \<Rightarrow> o' | None \<Rightarrow> device_evidence_options_default)
      in case do_device_type opts of
           Dev_Tpm \<Rightarrow> op_io (get_tpm_evidence pf (do_pcr_selection opts)))"

section \<open>Endorsements\<close>

definition DEFAULT_REGION :: string where "DEFAULT_REGION = ''westus''"

text \<open>\<open>ThimClient\<close>: its base address.\<close>

definition thim_client_new :: "'s platform \<Rightarrow> string \<Rightarrow> ('e, string) res" where
  "thim_client_new pf region =
     and_then (new_client pf) (\<lambda>_. Inr (''https://'' @ region @ ''.thim.azure.net''))"

definition thim_client_with_base_url :: "'s platform \<Rightarrow> string \<Rightarrow> ('e, string) res" where
  "thim_client_with_base_url pf base_url =
     and_then (new_client pf) (\<lambda>_. Inr (trim_end_slashes base_url))"

definition thim_request :: "(string \<times> string) list \<Rightarrow> string \<Rightarrow> http_request" where
  "thim_request headers url = \<lparr>rq_post = False, rq_url = url, rq_headers = headers, rq_json = None\<rparr>"

definition thim_list_mrtds :: "'s platform \<Rightarrow> string \<Rightarrow> ('s, io_error, string list) st" where
  "thim_list_mrtds pf base_url =
     (let url = base_url @ ''/endorsement/tdx/mrtds'' in
      st_then (send pf ''THIM request failed'' (thim_request [(''Accept'', ''application/json'')] url)) (\<lambda>resp.
      st_res
        (if \<not> is_success resp
         then io_fail OtherKind (''THIM returned HTTP '' @ ht_status_text resp @ '' for '' @ url)
         else text_or ''failed to parse MRTD list JSON'' (ht_mrtds resp))))"

definition thim_get_endorsement :: "'s platform \<Rightarrow> string \<Rightarrow> string \<Rightarrow> ('s, io_error, endorsement_response) st" where
  "thim_get_endorsement pf base_url mrtd_hex =
     (let url = base_url @ ''/endorsement/tdx/'' @ mrtd_hex in
      st_then (send pf ''THIM request failed'' (thim_request [] url)) (\<lambda>resp.
      st_res
        (if \<not> is_success resp
         then io_fail OtherKind (''THIM returned HTTP '' @ ht_status_text resp @ '' for MRTD '' @ mrtd_hex)
         else
           and_then (text_or ''failed to read endorsement body'' (ht_body resp)) (\<lambda>d.
           Inr \<lparr>er_mrtd = pf_uppercase pf mrtd_hex, er_data = d,
                er_content_type = (case Option.bind (ht_header resp ''content-type'') id of
                                     Some ct \<Rightarrow> ct
                                   | None \<Rightarrow> ''application/octet-stream'')\<rparr>))))"

definition thim_get_endorsement_for_report ::
    "'s platform \<Rightarrow> string \<Rightarrow> bytes \<Rightarrow> ('s, io_error, endorsement_response) st" where
  "thim_get_endorsement_for_report pf base_url td_report_bytes =
     st_then (st_res (map_err (\<lambda>e. Io_Msg InvalidInput (''failed to parse TDX report: '' @ sdk_error_display e))
       (parse_tdx_report td_report_bytes))) (\<lambda>report.
     thim_get_endorsement pf base_url (pf_hex_upper pf (tb_mr_td (td_info_base (tr_td_info report)))))"

text \<open>\<open>frames\<close> is the stack left for the recursion of the COSE parser, \<open>None\<close> its overflow.\<close>

definition payload_json :: "nat \<Rightarrow> 's platform \<Rightarrow> endorsement_response \<Rightarrow> json_value io_res option" where
  "payload_json frames pf r =
     map_option (\<lambda>payload.
       and_then payload (\<lambda>bs.
       case pf_json_parse pf (bytes_text bs) of
         Inl e \<Rightarrow> io_fail OtherKind (''payload is not valid JSON: '' @ e)
       | Inr v \<Rightarrow> Inr v))
       (parse_cose_sign1_payload frames (er_data r))"

definition get_endorsement :: "'s platform \<Rightarrow> endorsement_kind \<Rightarrow> ('s, endorsement) sdk_op" where
  "get_endorsement pf kind =
     (case kind of
        Vcek \<Rightarrow>
          op_then (op_io (fresh_vcek_chain pf)) (\<lambda>chain.
          op_res (Inr \<lparr>en_kind = Vcek, en_data = chain, en_endorsement_response = None\<rparr>))
      | TdxMrtd region \<Rightarrow>
          op_then (\<lambda>s. map_option (\<lambda>(r, s'). (map_err sdk_from_io r, s'))
            (get_cvm_report (pf_claims pf) (pf_tpm pf) None s)) (\<lambda>(report, _).
          op_then (op_res (thim_client_new pf (case region of Some r \<Rightarrow> r | None \<Rightarrow> DEFAULT_REGION))) (\<lambda>base_url.
          op_then (op_io (thim_get_endorsement_for_report pf base_url (cr_tee_report report))) (\<lambda>resp.
          op_res (Inr \<lparr>en_kind = TdxMrtd region, en_data = er_data resp,
                       en_endorsement_response = Some resp\<rparr>)))))"

section \<open>Reports\<close>

definition with_evidence :: "isolation_type \<Rightarrow> tee_proof \<Rightarrow> bytes \<Rightarrow> isolation_info" where
  "with_evidence t proof runtime_data =
     \<lparr>ii_vm_type = t, ii_evidence = Some \<lparr>ie_tee_proof = proof, ie_runtime_data = runtime_data\<rparr>\<rparr>"

definition build_isolation_info ::
    "'s platform \<Rightarrow> cvm_evidence option \<Rightarrow> endorsement option \<Rightarrow> ('s, sdk_error, isolation_info) st" where
  "build_isolation_info pf evidence e =
     (case evidence of
        None \<Rightarrow> st_res (Inr \<lparr>ii_vm_type = Iso_TrustedLaunch, ii_evidence = None\<rparr>)
      | Some ev \<Rightarrow>
          (case ce_report_type ev of
             SnpVmReport \<Rightarrow>
               st_then (st_map_err sdk_from_io (vcek_chain_for pf e)) (\<lambda>vcek_chain.
               st_res (Inr (with_evidence Iso_SevSnp (Proof_Snp (ce_tee_report ev) vcek_chain) (ce_runtime_data ev))))
           | TdxVmReport \<Rightarrow>
               st_then (st_map_err sdk_from_io (td_quote_for pf ev)) (\<lambda>td_quote.
               st_res (Inr (with_evidence Iso_Tdx (Proof_Tdx td_quote) (ce_runtime_data ev))))
           | rtype \<Rightarrow>
               st_res (sdk_fail (Sdk_Parse (''Unsupported report type for attestation: '' @ report_type_debug rtype)))))"

definition create_attestation_report ::
    "'s platform \<Rightarrow> device_evidence \<Rightarrow> cvm_evidence option \<Rightarrow> endorsement option \<Rightarrow> attest_options option \<Rightarrow>
     ('s, sdk_error, attestation_report) st" where
  "create_attestation_report pf device_ev cvm_ev e options =
     st_then (st_map_err sdk_from_io (os_info_detect pf)) (\<lambda>os.
     st_then (\<lambda>s. case collect_tcg_logs pf os s of (logs, s') \<Rightarrow> (Inr logs, s')) (\<lambda>tcg_logs.
     let client_payload =
           (case Option.bind options ao_client_payload of Some p \<Rightarrow> p | None \<Rightarrow> [])
     in st_then (build_isolation_info pf cvm_ev e) (\<lambda>isolation.
        let params = \<lparr>ga_protocol_version = ''2.0'', ga_os_type = os_type os, ga_os_distro = os_distro os,
                      ga_os_version_major = os_version_major os, ga_os_version_minor = os_version_minor os,
                      ga_os_build = os_build os, ga_tcg_logs = tcg_logs, ga_client_payload = client_payload,
                      ga_tpm_info = de_tpm_info device_ev, ga_isolation = isolation\<rparr>
        in st_then (st_res (map_err sdk_from_io (to_json_string pf params))) (\<lambda>json.
           st_res (Inr \<lparr>rt_json = json, rt_pcrs = de_pcrs device_ev\<rparr>)))))"

section \<open>Attestation\<close>

fun make_provider :: "'s platform \<Rightarrow> provider \<Rightarrow> ('e, provider_impl) res" where
  "make_provider pf (Maa endpoint) = maa_provider_new pf endpoint"
| "make_provider pf Loopback = Inr LoopbackProvider"

definition recreate_ephemeral_key :: "'s platform \<Rightarrow> u32 list \<Rightarrow> ('s, io_error, u32) st" where
  "recreate_ephemeral_key pf pcrs =
     st_then (get_ephemeral_key (pf_random pf) (pf_sha256 pf) (pf_tpm pf) pcrs) (\<lambda>ek.
     st_res (Inr (ek_handle ek)))"

text \<open>\<open>let result = ...; let _ = flush_context(handle); Ok(result?)\<close>\<close>

definition with_ephemeral_key ::
    "'s platform \<Rightarrow> u32 list \<Rightarrow> (u32 \<Rightarrow> ('s, io_error, 'a) st) \<Rightarrow> ('s, io_error, 'a) st" where
  "with_ephemeral_key pf pcrs use =
     st_then (recreate_ephemeral_key pf pcrs) (\<lambda>handle.
     st_then (st_catch (use handle)) (\<lambda>result.
     st_then (st_ignore (tpm_flush_context (pf_tpm pf) handle)) (\<lambda>_.
     st_res result)))"

definition decrypt_token :: "'s platform \<Rightarrow> u32 list \<Rightarrow> string \<Rightarrow> ('s, string option) sdk_op" where
  "decrypt_token pf pcrs token_b64url =
     op_io (with_ephemeral_key pf pcrs (\<lambda>handle. parse_token pf handle pcrs token_b64url))"

definition decrypt_with_tpm_ephemeral_key ::
    "'s platform \<Rightarrow> u32 list \<Rightarrow> bytes \<Rightarrow> tpmt_rsa_decrypt_scheme \<Rightarrow> ('s, bytes) sdk_op" where
  "decrypt_with_tpm_ephemeral_key pf pcrs ciphertext scheme =
     op_io (with_ephemeral_key pf pcrs (\<lambda>handle.
       decrypt_with_ephemeral_key (pf_random pf) (pf_sha256 pf) (pf_tpm pf) handle pcrs ciphertext scheme))"

text \<open>The steps of \<open>attest_guest\<close>: the TEE evidence with its fallback, then the submission.\<close>

definition evidence_or_trusted_launch ::
    "'s platform \<Rightarrow> bytes option \<Rightarrow> ('s, cvm_evidence option) sdk_op" where
  "evidence_or_trusted_launch pf user_data =
     op_match (get_cvm_evidence pf (Some \<lparr>co_user_data = user_data, co_fetch_platform_quote = False\<rparr>))
       (\<lambda>e. if user_data \<noteq> None
            then op_res (sdk_fail (Sdk_Parse
              (''user_data was requested but no CVM (TEE) evidence is available on this VM, so it cannot be bound to a report: '' @
               sdk_error_display e)))
            else op_res (Inr None))
       (\<lambda>ev. op_res (Inr (Some ev)))"

definition submit_report :: "'s platform \<Rightarrow> provider \<Rightarrow> attestation_report \<Rightarrow> ('s, attest_result) sdk_op" where
  "submit_report pf provider report =
     (let encoded = pf_b64_url pf (ascii_bytes (rt_json report)) in
      op_then (op_res (make_provider pf provider)) (\<lambda>provider_impl.
      op_then (op_io (submit_to_provider (provider_attest pf provider_impl) (pf_sleep pf) encoded)) (\<lambda>token.
      op_then
        (case token of
           Some token \<Rightarrow>
             op_then (decrypt_token pf (rt_pcrs report) token) (\<lambda>jwt.
             op_res (Inr (case jwt of Some jwt \<Rightarrow> Some jwt | None \<Rightarrow> Some token)))
         | None \<Rightarrow> op_res (Inr None))
        (\<lambda>token.
      op_res (Inr \<lparr>ar_token = token, ar_request_json = rt_json report,
                   ar_encoded_request = encoded, ar_pcrs = rt_pcrs report\<rparr>)))))"

definition attest_guest :: "'s platform \<Rightarrow> provider \<Rightarrow> attest_options option \<Rightarrow> ('s, attest_result) sdk_op" where
  "attest_guest pf provider options =
     op_then (evidence_or_trusted_launch pf (Option.bind options ao_user_data)) (\<lambda>cvm_evidence.
     op_then (get_device_evidence pf (Some \<lparr>do_device_type = Dev_Tpm,
       do_pcr_selection = Option.bind options ao_pcr_selection\<rparr>)) (\<lambda>device_evidence.
     op_then (op_st (create_attestation_report pf device_evidence cvm_evidence None options)) (\<lambda>report.
     submit_report pf provider report)))"

definition attest_guest_with_user_data ::
    "'s platform \<Rightarrow> provider \<Rightarrow> attest_options option \<Rightarrow> bytes \<Rightarrow> ('s, attest_result) sdk_op" where
  "attest_guest_with_user_data pf provider options user_data =
     (let options = (case options of Some o' \<Rightarrow> o' | None \<Rightarrow> attest_options_default)
      in attest_guest pf provider (Some (options\<lparr>ao_user_data := Some user_data\<rparr>)))"

definition platform_result :: "string option \<Rightarrow> string \<Rightarrow> attest_result" where
  "platform_result token payload =
     \<lparr>ar_token = token, ar_request_json = payload, ar_encoded_request = [], ar_pcrs = []\<rparr>"

definition attest_platform :: "'s platform \<Rightarrow> provider \<Rightarrow> platform_attest_options option \<Rightarrow> ('s, attest_result) sdk_op" where
  "attest_platform pf provider options =
     op_then (get_cvm_evidence pf (Some \<lparr>co_user_data = Option.bind options po_user_data,
       co_fetch_platform_quote = True\<rparr>)) (\<lambda>cvm_ev.
     case provider of
       Maa endpoint \<Rightarrow>
         op_then (op_io (build_tee_only_payload_from_evidence pf cvm_ev None)) (\<lambda>(payload, rtype).
         op_then (op_io (submit_tee_only pf payload endpoint rtype)) (\<lambda>token.
         op_res (Inr (platform_result (Some token) payload))))
     | Loopback \<Rightarrow>
         op_then (op_io (build_tee_only_payload_from_evidence pf cvm_ev None)) (\<lambda>(payload, rtype).
         op_res (Inr (platform_result None payload))))"

definition attest_platform_with_user_data ::
    "'s platform \<Rightarrow> provider \<Rightarrow> bytes \<Rightarrow> ('s, attest_result) sdk_op" where
  "attest_platform_with_user_data pf provider user_data = attest_platform pf provider (Some \<lparr>po_user_data = Some user_data\<rparr>)"

end
