(* ===== verification/Tpm_Tool.thy ===== *)
theory Tpm_Tool
  imports Event_Log Tpm_Nv_Facts
begin

text \<open>
  The command-line tool \<open>tools/azure-tpm-tool\<close>: one operation per subcommand over the TPM operations, and
  what it prints. The arguments are parsed by a library; the parser of handles is the tool's
  own. An operation runs on the state of the machine and the text printed so far; the hexadecimal
  codec, the files and the hash functions are fields of \<open>tool_env\<close>.
\<close>

section \<open>Handles\<close>

text \<open>\<open>u32::from_str_radix(s, 16)\<close>: an optional plus sign, at least one digit, no overflow.\<close>

datatype parse_int_error = Int_Empty | Int_Invalid_Digit | Int_Overflow

fun parse_int_error_display :: "parse_int_error \<Rightarrow> string" where
  "parse_int_error_display Int_Empty = ''cannot parse integer from empty string''"
| "parse_int_error_display Int_Invalid_Digit = ''invalid digit found in string''"
| "parse_int_error_display Int_Overflow = ''number too large to fit in target type''"

definition hex_value :: "char \<Rightarrow> nat option" where
  "hex_value c =
     (let n = (of_char c :: nat) in
      if 48 \<le> n \<and> n \<le> 57 then Some (n - 48)
      else if 97 \<le> n \<and> n \<le> 102 then Some (n - 87)
      else if 65 \<le> n \<and> n \<le> 70 then Some (n - 55)
      else None)"

fun hex_digits :: "nat \<Rightarrow> nat \<Rightarrow> string \<Rightarrow> parse_int_error + nat" where
  "hex_digits limit acc [] = Inr acc"
| "hex_digits limit acc (c # cs) =
     (case hex_value c of
        None \<Rightarrow> Inl Int_Invalid_Digit
      | Some d \<Rightarrow>
          if acc * 16 + d < limit then hex_digits limit (acc * 16 + d) cs else Inl Int_Overflow)"

definition from_str_radix_16 :: "nat \<Rightarrow> string \<Rightarrow> parse_int_error + nat" where
  "from_str_radix_16 limit s =
     (if s = [] then Inl Int_Empty
      else if s = ''+'' \<or> s = ''-'' then Inl Int_Invalid_Digit
      else hex_digits limit 0 (if hd s = CHR ''+'' then tl s else s))"

definition parse_hex_u32 :: "string \<Rightarrow> string + u32" where
  "parse_hex_u32 s =
     (let s = (if take 2 s = ''0x'' \<or> take 2 s = ''0X'' then drop 2 s else s)
      in case from_str_radix_16 (2 ^ 32) s of
           Inl e \<Rightarrow> Inl (''invalid hex handle: '' @ parse_int_error_display e)
         | Inr n \<Rightarrow> Inr (of_nat n))"

section \<open>Printing and errors\<close>

text \<open>\<open>anyhow\<close>: an error of the library under a context, a message under a context, or a message.\<close>

datatype tool_error = Tool_Io string io_error | Tool_Text string string | Tool_Bail string

type_synonym ('s, 'a) tool = "('s \<times> string, tool_error, 'a) st"

record 's tool_env =
  tv_open :: "('s, io_error, unit) st"
  tv_tpm :: "'s transport"
  tv_hex_encode :: "bytes \<Rightarrow> string"
  tv_hex_decode :: "string \<Rightarrow> string + bytes"
  tv_read_file :: "string \<Rightarrow> 's \<Rightarrow> (io_error + bytes) \<times> 's"
  tv_write_file :: "string \<Rightarrow> bytes \<Rightarrow> 's \<Rightarrow> (io_error + unit) \<times> 's"
  tv_logs :: file_system
  tv_hash :: hash_functions
  tv_json :: "rs_str \<Rightarrow> string + json_text_event"

definition print_text :: "string \<Rightarrow> ('s, unit) tool" where
  "print_text t = (\<lambda>(s, out). (Inr (), (s, out @ t)))"

definition print_line :: "string \<Rightarrow> ('s, unit) tool" where
  "print_line t = print_text (t @ [CHR 10])"

fun print_each :: "('a \<Rightarrow> ('s, unit) tool) \<Rightarrow> 'a list \<Rightarrow> ('s, unit) tool" where
  "print_each f [] = st_res (Inr ())"
| "print_each f (x # xs) = st_then (f x) (\<lambda>_. print_each f xs)"

text \<open>An operation of the TPM, its error under a context.\<close>

definition on_tpm :: "string \<Rightarrow> ('s, io_error, 'a) st \<Rightarrow> ('s, 'a) tool" where
  "on_tpm what m = (\<lambda>(s, out). case m s of (r, s') \<Rightarrow> (map_err (Tool_Io what) r, (s', out)))"

definition on_file :: "string \<Rightarrow> ('s \<Rightarrow> (io_error + 'a) \<times> 's) \<Rightarrow> ('s, 'a) tool" where
  "on_file what m = (\<lambda>(s, out). case m s of
     (Inl e, s') \<Rightarrow> (Inl (Fail (Tool_Io what e)), (s', out)) | (Inr x, s') \<Rightarrow> (Inr x, (s', out)))"

definition decode_hex :: "'s tool_env \<Rightarrow> string \<Rightarrow> string \<Rightarrow> ('s, bytes) tool" where
  "decode_hex env what s =
     st_res (case tv_hex_decode env s of Inl e \<Rightarrow> Inl (Fail (Tool_Text what e)) | Inr d \<Rightarrow> Inr d)"

definition pad_left :: "char \<Rightarrow> nat \<Rightarrow> string \<Rightarrow> string" where
  "pad_left c width s = replicate (width - length s) c @ s"

definition fmt_02 :: "nat \<Rightarrow> string" where "fmt_02 n = pad_left CHR ''0'' 2 (fmt_dec n)"

definition arrow :: string where "arrow = '' '' @ [CHR 0xE2, CHR 0x86, CHR 0x92] @ '' ''"

section \<open>PCRs and NV indices\<close>

definition cmd_pcr_read :: "'s tool_env \<Rightarrow> u32 list \<Rightarrow> pcr_algorithm \<Rightarrow> ('s, unit) tool" where
  "cmd_pcr_read env pcrs alg =
     st_then (on_tpm ''TPM2_PCR_Read failed'' (tpm_read_pcrs_for_alg (tv_tpm env) alg pcrs)) (\<lambda>values.
     print_each (\<lambda>(index, digest). print_line (''PCR'' @ fmt_02 (unat index) @ '': '' @ tv_hex_encode env digest)) values)"

datatype nv_type = Nv_Ordinary | Nv_Extend

definition cmd_nv_define :: "'s tool_env \<Rightarrow> u32 \<Rightarrow> u16 \<Rightarrow> nv_type \<Rightarrow> string \<Rightarrow> ('s, unit) tool" where
  "cmd_nv_define env index sz nv_type auth_hex =
     (let public = (case nv_type of Nv_Ordinary \<Rightarrow> new_ordinary_index index sz
                                  | Nv_Extend \<Rightarrow> new_extend_index index sz)
      in st_then (if auth_hex = [] then st_res (Inr []) else decode_hex env ''invalid hex auth value'' auth_hex) (\<lambda>auth.
         st_then (on_tpm ''TPM2_NV_DefineSpace failed'' (tpm_nv_define_space (tv_tpm env) public auth)) (\<lambda>_.
         print_line (''Defined NV index 0x'' @ fmt_08x index @ '' ('' @ fmt_dec (unat sz) @ '' bytes, type='' @
           (case nv_type of Nv_Ordinary \<Rightarrow> ''ordinary'' | Nv_Extend \<Rightarrow> ''extend'') @ '')''))))"

definition cmd_nv_undefine :: "'s tool_env \<Rightarrow> u32 \<Rightarrow> ('s, unit) tool" where
  "cmd_nv_undefine env index =
     st_then (on_tpm ''TPM2_NV_UndefineSpace failed'' (tpm_nv_undefine_space (tv_tpm env) index)) (\<lambda>_.
     print_line (''Undefined NV index 0x'' @ fmt_08x index))"

text \<open>The flags printed, in their order, with the bits they stand for.\<close>

definition flag_names :: "(tpma_nv_field \<times> string) list" where
  "flag_names =
     [(Nv_ownerwrite, ''OWNERWRITE''), (Nv_authwrite, ''AUTHWRITE''), (Nv_ownerread, ''OWNERREAD''),
      (Nv_authread, ''AUTHREAD''), (Nv_no_da, ''NO_DA''), (Nt_extend, ''NT_EXTEND''),
      (Nv_clear_stclear, ''CLEAR_STCLEAR''), (Nv_ppwrite, ''PPWRITE''), (Nv_ppread, ''PPREAD''),
      (Nv_written, ''WRITTEN''), (Nv_platformcreate, ''PLATFORMCREATE''),
      (Nv_policywrite, ''POLICYWRITE''), (Nv_policyread, ''POLICYREAD''),
      (Nv_writedefine, ''WRITEDEFINE''), (Nv_writelocked, ''WRITELOCKED''), (Nv_readlocked, ''READLOCKED'')]"

definition nv_flags :: "u32 \<Rightarrow> string list" where
  "nv_flags attributes =
     map snd (filter (\<lambda>(f, _). bit attributes (field_offset f tpma_nv_layout)) flag_names)"

fun join :: "string \<Rightarrow> string list \<Rightarrow> string" where
  "join sep [] = []"
| "join sep [x] = x"
| "join sep (x # xs) = x @ sep @ join sep xs"

definition cmd_nv_read_public :: "'s tool_env \<Rightarrow> u32 \<Rightarrow> ('s, unit) tool" where
  "cmd_nv_read_public env index =
     st_then (on_tpm ''TPM2_NV_ReadPublic failed'' (tpm_nv_read_public (tv_tpm env) index)) (\<lambda>pub_info.
     print_each print_line
       [''NV Index:    0x'' @ fmt_08x (np_nv_index pub_info),
        ''Name Alg:    0x'' @ fmt_04x (np_name_alg pub_info),
        ''Attributes:  0x'' @ fmt_08x (np_attributes pub_info),
        ''  Flags:     '' @ join '' | '' (nv_flags (np_attributes pub_info)),
        ''Auth Policy: '' @ (if np_auth_policy pub_info = [] then ''(empty)''
                             else tv_hex_encode env (np_auth_policy pub_info)),
        ''Data Size:   '' @ fmt_dec (unat (np_data_size pub_info)) @ '' bytes'',
        (if is_extend_type pub_info then ''Type:        extend (hash chain)'' else ''Type:        ordinary'')])"

definition cmd_nv_read :: "'s tool_env \<Rightarrow> u32 \<Rightarrow> string option \<Rightarrow> ('s, unit) tool" where
  "cmd_nv_read env index output =
     st_then (on_tpm ''TPM2_NV_Read failed'' (tpm_read_nv_index (tv_tpm env) index)) (\<lambda>data.
     case output of
       Some path \<Rightarrow>
         st_then (on_file (''failed to write '' @ path) (tv_write_file env path data)) (\<lambda>_.
         print_line (''Read '' @ fmt_dec (length data) @ '' bytes from NV 0x'' @ fmt_08x index @ arrow @ path))
     | None \<Rightarrow> print_line (tv_hex_encode env data))"

definition nv_write_input ::
    "'s tool_env \<Rightarrow> string option \<Rightarrow> string option \<Rightarrow> string option \<Rightarrow> ('s, bytes) tool" where
  "nv_write_input env data_hex file text =
     (case data_hex of
        Some h \<Rightarrow> decode_hex env ''invalid hex data'' h
      | None \<Rightarrow>
     (case file of
        Some path \<Rightarrow> on_file (''failed to read '' @ path) (tv_read_file env path)
      | None \<Rightarrow>
     (case text of
        Some s \<Rightarrow> st_res (Inr (ascii_bytes s))
      | None \<Rightarrow> st_res (Inl (Fail (Tool_Bail ''one of --data, --file, or --string is required''))))))"

definition cmd_nv_write ::
    "'s tool_env \<Rightarrow> u32 \<Rightarrow> string option \<Rightarrow> string option \<Rightarrow> string option \<Rightarrow> ('s, unit) tool" where
  "cmd_nv_write env index data_hex file text =
     st_then (nv_write_input env data_hex file text) (\<lambda>data.
     st_then (on_tpm ''TPM2_NV_Write failed'' (tpm_write_nv_index (tv_tpm env) index data)) (\<lambda>_.
     print_line (''Wrote '' @ fmt_dec (length data) @ '' bytes to NV index 0x'' @ fmt_08x index)))"

definition cmd_nv_extend :: "'s tool_env \<Rightarrow> u32 \<Rightarrow> string \<Rightarrow> ('s, unit) tool" where
  "cmd_nv_extend env index data_hex =
     st_then (decode_hex env ''invalid hex data'' data_hex) (\<lambda>data.
     st_then (on_tpm ''TPM2_NV_Extend failed'' (tpm_nv_extend (tv_tpm env) index data)) (\<lambda>_.
     print_line (''Extended NV index 0x'' @ fmt_08x index @ '' with '' @ fmt_dec (length data) @ '' bytes'')))"

section \<open>Keys and quotes\<close>

definition cmd_read_public :: "'s tool_env \<Rightarrow> u32 \<Rightarrow> ('s, unit) tool" where
  "cmd_read_public env handle =
     st_then (on_tpm ''TPM2_ReadPublic failed'' (tpm_read_public (tv_tpm env) handle)) (\<lambda>public_bytes.
     print_each print_line
       [''Handle:     0x'' @ fmt_08x handle,
        ''Public ('' @ fmt_dec (length public_bytes) @ '' bytes):'',
        ''  '' @ tv_hex_encode env public_bytes])"

definition cmd_flush_context :: "'s tool_env \<Rightarrow> u32 \<Rightarrow> ('s, unit) tool" where
  "cmd_flush_context env handle =
     st_then (on_tpm ''TPM2_FlushContext failed'' (tpm_flush_context (tv_tpm env) handle)) (\<lambda>_.
     print_line (''Flushed handle 0x'' @ fmt_08x handle))"

definition cmd_create_primary :: "'s tool_env \<Rightarrow> hierarchy \<Rightarrow> ('s, unit) tool" where
  "cmd_create_primary env hierarchy =
     st_then (on_tpm ''TPM2_CreatePrimary failed''
       (tpm_create_primary (tv_tpm env) hierarchy rsa_restricted_signing_public [])) (\<lambda>created.
     print_each print_line
       [''Created primary key:'',
        ''  Handle:  0x'' @ fmt_08x (cp_handle created) @ '' (transient)'',
        ''  Public:  '' @ fmt_dec (length (cp_public created)) @ '' bytes'',
        ''  Hint: use '' @ [CHR 39] @ ''evict-control'' @ [CHR 39] @ '' to make it persistent, or '' @ [CHR 39] @
          ''flush-context'' @ [CHR 39] @ '' to remove it.''])"

definition cmd_evict_control :: "'s tool_env \<Rightarrow> u32 \<Rightarrow> u32 \<Rightarrow> ('s, unit) tool" where
  "cmd_evict_control env persistent transient =
     st_then (on_tpm ''TPM2_EvictControl failed'' (tpm_evict_control (tv_tpm env) persistent transient)) (\<lambda>_.
     print_line (''Persisted transient 0x'' @ fmt_08x transient @ arrow @ ''persistent 0x'' @ fmt_08x persistent))"

definition cmd_quote :: "'s tool_env \<Rightarrow> u32 \<Rightarrow> u32 list \<Rightarrow> ('s, unit) tool" where
  "cmd_quote env key_handle pcrs =
     st_then (on_tpm ''TPM2_Quote failed'' (tpm_quote_with_key (tv_tpm env) key_handle pcrs)) (\<lambda>(attest, signature).
     print_each print_line
       [''Attestation ('' @ fmt_dec (length attest) @ '' bytes):'',
        ''  '' @ tv_hex_encode env attest,
        ''Signature ('' @ fmt_dec (length signature) @ '' bytes):'',
        ''  '' @ tv_hex_encode env signature])"

section \<open>Event logs\<close>

definition alg_name :: "u16 \<Rightarrow> string" where
  "alg_name alg_id = (case pcr_from_alg_id alg_id of Some a \<Rightarrow> pcr_algorithm_display a | None \<Rightarrow> ''0x'' @ fmt_04x alg_id)"

definition print_spec_id :: "event list \<Rightarrow> ('s, unit) tool" where
  "print_spec_id events =
     (case events of
        [] \<Rightarrow> st_res (Inr ())
      | first # _ \<Rightarrow>
          st_then (st_res (map_err (Tool_Io []) (try_parse_spec_id_event (ev_event_data first)))) (\<lambda>spec.
          case spec of
            None \<Rightarrow> st_res (Inr ())
          | Some spec \<Rightarrow>
              st_then (print_line (''Spec ID: platform_class='' @ fmt_dec (unat (si_platform_class spec)) @
                '', version='' @ fmt_dec (unat (si_spec_version_major spec)) @ ''.'' @
                fmt_dec (unat (si_spec_version_minor spec)) @ '', algorithms='' @
                fmt_dec (length (si_algorithms spec)))) (\<lambda>_.
              print_each (\<lambda>a. print_line (''  Algorithm: '' @ alg_name (sa_algorithm_id a) @
                '' (digest size: '' @ fmt_dec (unat (sa_digest_size a)) @ '')'')) (si_algorithms spec))))"

definition event_line :: "'s tool_env \<Rightarrow> pcr_algorithm \<Rightarrow> nat \<times> event \<Rightarrow> string" where
  "event_line env alg = (\<lambda>(i, evt).
     ''  ['' @ pad_left CHR '' '' 3 (fmt_dec i) @ ''] PCR'' @ fmt_02 (unat (ev_pcr_index evt)) @ '' type=0x'' @
     fmt_08x (ev_event_type evt) @ '' ('' @
     (case event_type_description (ev_event_type evt) of Some d \<Rightarrow> d | None \<Rightarrow> ''UNKNOWN'') @ '')'' @
     (case digest_for_algorithm evt alg of
        Some digest \<Rightarrow> '' '' @ pcr_algorithm_display alg @ ''='' @ tv_hex_encode env digest
      | None \<Rightarrow> []) @
     (if ev_event_data evt \<noteq> [] \<and> is_mostly_printable (ev_event_data evt) then
        (let trimmed = trim_end_matches (\<lambda>ch. ch = [0]) (from_utf8_lossy (ev_event_data evt))
         in if trimmed = [] then []
            else '' data='' @ [CHR 34] @ map (\<lambda>b. char_of (unat b)) (str_bytes trimmed) @ [CHR 34])
      else []))"

text \<open>The entries of a \<open>BTreeMap\<close> whose keys are indices of the events.\<close>

definition replayed_entries :: "event list \<Rightarrow> (u32 \<rightharpoonup> bytes) \<Rightarrow> (u32 \<times> bytes) list" where
  "replayed_entries events m =
     List.map_filter (\<lambda>i. map_option (\<lambda>d. (i, d)) (m i)) (sort (remdups (map ev_pcr_index events)))"

definition cmd_event_log :: "'s tool_env \<Rightarrow> string option \<Rightarrow> pcr_algorithm \<Rightarrow> ('s, unit) tool" where
  "cmd_event_log env file alg =
     st_then (st_res (map_err (Tool_Io ''failed to load event log'') (load_event_log (tv_logs env) file))) (\<lambda>(raw, source).
     st_then (print_line (''Event log: '' @ source @ '' ('' @ fmt_dec (length raw) @ '' bytes)'')) (\<lambda>_.
     st_then (st_res (map_err (Tool_Io ''failed to parse event log'') (parse_event_log (tv_json env) (tv_hex_decode env) raw))) (\<lambda>events.
     st_then (print_spec_id events) (\<lambda>_.
     st_then (print_line ([CHR 10] @ ''Events ('' @ fmt_dec (length events) @ ''):'')) (\<lambda>_.
     st_then (print_each (\<lambda>e. print_line (event_line env alg e)) (enumerate 0 events)) (\<lambda>_.
     let replayed = replayed_entries events (replay_pcrs (tv_hash env) events alg)
     in if replayed = [] then st_res (Inr ())
        else
          st_then (print_line ([CHR 10] @ ''Replayed PCR values ('' @ pcr_algorithm_display alg @ ''):'')) (\<lambda>_.
          print_each (\<lambda>(pcr, digest). print_line (''  PCR'' @ fmt_02 (unat pcr) @ '': '' @ tv_hex_encode env digest)) replayed)))))))"

section \<open>The tool\<close>

datatype tool_command =
    Cmd_PcrRead "u32 list" pcr_algorithm
  | Cmd_NvDefine u32 u16 nv_type string
  | Cmd_NvUndefine u32
  | Cmd_NvReadPublic u32
  | Cmd_NvRead u32 "string option"
  | Cmd_NvWrite u32 "string option" "string option" "string option"
  | Cmd_NvExtend u32 string
  | Cmd_ReadPublic u32
  | Cmd_FlushContext u32
  | Cmd_CreatePrimary hierarchy
  | Cmd_EvictControl u32 u32
  | Cmd_EventLog "string option" pcr_algorithm
  | Cmd_Quote u32 "u32 list"

fun on_device :: "'s tool_env \<Rightarrow> tool_command \<Rightarrow> ('s, unit) tool" where
  "on_device env (Cmd_PcrRead pcrs alg) = cmd_pcr_read env pcrs alg"
| "on_device env (Cmd_NvDefine index sz nv_type auth) = cmd_nv_define env index sz nv_type auth"
| "on_device env (Cmd_NvUndefine index) = cmd_nv_undefine env index"
| "on_device env (Cmd_NvReadPublic index) = cmd_nv_read_public env index"
| "on_device env (Cmd_NvRead index output) = cmd_nv_read env index output"
| "on_device env (Cmd_NvWrite index data file text) = cmd_nv_write env index data file text"
| "on_device env (Cmd_NvExtend index data) = cmd_nv_extend env index data"
| "on_device env (Cmd_ReadPublic handle) = cmd_read_public env handle"
| "on_device env (Cmd_FlushContext handle) = cmd_flush_context env handle"
| "on_device env (Cmd_CreatePrimary hierarchy) = cmd_create_primary env hierarchy"
| "on_device env (Cmd_EvictControl persistent transient) = cmd_evict_control env persistent transient"
| "on_device env (Cmd_Quote key pcrs) = cmd_quote env key pcrs"
| "on_device env (Cmd_EventLog file alg) = st_res (Inl Panic)"

definition tool_main :: "'s tool_env \<Rightarrow> tool_command \<Rightarrow> ('s, unit) tool" where
  "tool_main env command =
     (case command of
        Cmd_EventLog file alg \<Rightarrow> cmd_event_log env file alg
      | _ \<Rightarrow> st_then (on_tpm ''failed to open TPM device'' (tv_open env)) (\<lambda>_. on_device env command))"

end
