(* ===== verification/Pretty_Report.thy ===== *)
theory Pretty_Report
  imports Tee_Reports Td_Quote_Fmspc
begin

text \<open>
  The printed forms of the reports: \<open>tee_report/mod.rs\<close> (SNP, TDX, VBS) and
  \<open>pretty_td_quote\<close> of \<open>tee_report/td_quote.rs\<close>, with \<open>sdk_*\<close> of \<open>parse.rs\<close>. A printer returns the text that the
  source appends to its buffer. \<open>hex\<close> stands for \<open>hex::encode\<close>, \<open>b64\<close> for the base64 decoder and
  \<open>checks\<close> for the overflow checks of the build, as in \<open>Td_Quote_Fmspc\<close>.
\<close>

section \<open>Lines and blocks\<close>

text \<open>\<open>writeln!\<close>\<close>

definition writeln :: "string \<Rightarrow> string" where
  "writeln t = t @ [CHR 10]"

text \<open>\<open>{:016x}\<close>\<close>

definition fmt_016x :: "u64 \<Rightarrow> string" where
  "fmt_016x w = hex_fixed 16 (unat w)"

function chunks :: "nat \<Rightarrow> 'a list \<Rightarrow> 'a list list" where
  "chunks n xs = (if n = 0 \<or> xs = [] then [] else take n xs # chunks n (drop n xs))"
  by pat_completeness auto
termination by (relation "measure (\<lambda>(n, xs). length xs)") auto

declare chunks.simps [simp del]

lemma chunks_Nil [simp]: "chunks n [] = []"
  by (simp add: chunks.simps)

lemma concat_chunks: "0 < n \<Longrightarrow> concat (chunks n xs) = xs"
proof (induction n xs rule: chunks.induct)
  case (1 n xs)
  then show ?case by (cases "xs = []") (simp_all add: chunks.simps [of n xs])
qed

lemma chunk_bounds: "c \<in> set (chunks n xs) \<Longrightarrow> c \<noteq> [] \<and> length c \<le> n"
proof (induction n xs rule: chunks.induct)
  case (1 n xs)
  then show ?case by (auto simp: chunks.simps [of n xs] split: if_splits)
qed

definition fmt_hex_block :: "string \<Rightarrow> bytes \<Rightarrow> string" where
  "fmt_hex_block label bs =
     writeln (label @ '' ('' @ fmt_dec (length bs) @ '' bytes):'') @
     concat (map (\<lambda>chunk. writeln (''    '' @ concat (map fmt_02x chunk))) (chunks 32 bs))"

section \<open>The reports\<close>

definition pretty_snp :: "snp_report \<Rightarrow> string" where
  "pretty_snp r =
     writeln ''SNP Report:'' @
     writeln (''  version: '' @ fmt_dec (unat (sr_version r))) @
     writeln (''  guest_svn: '' @ fmt_dec (unat (sr_guest_svn r))) @
     writeln (''  policy: 0x'' @ fmt_016x (sr_policy r)) @
     writeln (''  vmpl: '' @ fmt_dec (unat (sr_vmpl r))) @
     writeln (''  signature_algo: '' @ fmt_dec (unat (sr_signature_algo r))) @
     writeln (''  current_tcb: 0x'' @ fmt_016x (sr_current_tcb r)) @
     writeln (''  platform_info: 0x'' @ fmt_016x (sr_platform_info r)) @
     writeln (''  flags: 0x'' @ fmt_08x (sr_flags r)) @
     fmt_hex_block ''  family'' (le_bytes 16 (sr_family r)) @
     fmt_hex_block ''  image_id'' (le_bytes 16 (sr_image_id r)) @
     fmt_hex_block ''  report_data'' (sr_report_data r) @
     fmt_hex_block ''  measurement'' (sr_measurement r) @
     fmt_hex_block ''  host_data'' (sr_host_data r) @
     fmt_hex_block ''  id_key_digest'' (sr_id_key_digest r) @
     fmt_hex_block ''  author_key_digest'' (sr_author_key_digest r) @
     fmt_hex_block ''  report_id'' (sr_report_id r) @
     fmt_hex_block ''  report_id_ma'' (sr_report_id_ma r) @
     writeln (''  reported_tcb: 0x'' @ fmt_016x (sr_reported_tcb r)) @
     fmt_hex_block ''  chip_id'' (sr_chip_id r) @
     writeln (''  committed_tcb: 0x'' @ fmt_016x (sr_committed_tcb r)) @
     writeln (''  current version: '' @ fmt_dec (unat (sr_current_major r)) @ ''.'' @
       fmt_dec (unat (sr_current_minor r)) @ ''.'' @ fmt_dec (unat (sr_current_build r))) @
     writeln (''  committed version: '' @ fmt_dec (unat (sr_committed_major r)) @ ''.'' @
       fmt_dec (unat (sr_committed_minor r)) @ ''.'' @ fmt_dec (unat (sr_committed_build r))) @
     writeln (''  launch_tcb: 0x'' @ fmt_016x (sr_launch_tcb r)) @
     fmt_hex_block ''  signature'' (sr_signature r)"

definition pretty_tdx :: "td_report \<Rightarrow> string" where
  "pretty_tdx r =
     (let mac = tr_report_mac_struct r; tcb = tr_tee_tcb_info r; tdinfo = td_info_base (tr_td_info r)
      in writeln ''TDX Report:'' @
         writeln (''  report_type.tee_type: 0x'' @ fmt_02x (rt_tee_type (rm_report_type mac))) @
         writeln (''  report_type.sub_type: 0x'' @ fmt_02x (rt_sub_type (rm_report_type mac))) @
         writeln (''  report_type.version: '' @ fmt_dec (unat (rt_version (rm_report_type mac)))) @
         fmt_hex_block ''  tee_tcb_info_hash'' (rm_tee_tcb_info_hash mac) @
         fmt_hex_block ''  tee_info_hash'' (rm_tee_info_hash mac) @
         fmt_hex_block ''  report_data'' (rm_report_data mac) @
         fmt_hex_block ''  mac'' (rm_mac mac) @
         fmt_hex_block ''  tee_tcb_info.valid'' (ti_valid tcb) @
         fmt_hex_block ''  tee_tcb_info.mr_seam'' (ti_mr_seam tcb) @
         fmt_hex_block ''  tee_tcb_info.attributes'' (ti_attributes tcb) @
         fmt_hex_block ''  mr_td'' (tb_mr_td tdinfo) @
         fmt_hex_block ''  mr_config_id'' (tb_mr_config_id tdinfo) @
         fmt_hex_block ''  mr_owner'' (tb_mr_owner tdinfo) @
         fmt_hex_block ''  mr_owner_config'' (tb_mr_owner_config tdinfo) @
         concat (map (\<lambda>(i, r). fmt_hex_block (''  rtmr['' @ fmt_dec i @ '']'') r) (enumerate 0 (tb_rtmr tdinfo))) @
         fmt_hex_block ''  servd_hash'' (tb_servd_hash tdinfo))"

definition pretty_vbs :: "vbs_report \<Rightarrow> string" where
  "pretty_vbs r =
     writeln ''VBS Report:'' @
     writeln (''  version: '' @ fmt_dec (unat (vr_version r))) @
     fmt_hex_block ''  report_data'' (vr_report_data r) @
     fmt_hex_block ''  identity.owner_id'' (vi_owner_id (vr_identity r)) @
     fmt_hex_block ''  identity.measurement'' (vi_measurement (vr_identity r)) @
     fmt_hex_block ''  identity.signer'' (vi_signer (vr_identity r)) @
     fmt_hex_block ''  identity.host_data'' (vi_host_data (vr_identity r)) @
     writeln (''  identity.guest_svn: '' @ fmt_dec (unat (vi_guest_svn (vr_identity r)))) @
     fmt_hex_block ''  signature'' (vr_signature r)"

section \<open>Text or hexadecimal\<close>

definition looks_like_pem :: "rs_str \<Rightarrow> bool" where
  "looks_like_pem text \<longleftrightarrow>
     str_find PEM_BEGIN (str_trim text) \<noteq> None \<and> str_find PEM_END (str_trim text) \<noteq> None"

definition is_mostly_printable_text :: "rs_str \<Rightarrow> bool" where
  "is_mostly_printable_text text \<longleftrightarrow>
     list_all (\<lambda>c. case c of
       [b] \<Rightarrow> b = 0x0A \<or> b = 0x0D \<or> b = 0x09 \<or> 0x20 \<le> b \<and> b \<le> 0x7E | _ \<Rightarrow> False) text"

definition char_text :: "rs_str \<Rightarrow> string" where
  "char_text s = map (\<lambda>b. char_of (unat b)) (str_bytes s)"

definition fmt_text_block :: "string \<Rightarrow> rs_str \<Rightarrow> string" where
  "fmt_text_block label text =
     writeln (label @ '' ('' @ fmt_dec (length (str_bytes text)) @ '' bytes):'') @
     (if str_lines text = [] then writeln ''    (empty)''
      else concat (map (\<lambda>l. writeln (''    '' @ char_text (trim_end_matches (\<lambda>c. c = [0x0D]) l))) (str_lines text)))"

definition text_or_hex :: "(rs_str \<Rightarrow> bool) \<Rightarrow> string \<Rightarrow> bytes \<Rightarrow> string" where
  "text_or_hex readable label bs =
     (case from_utf8 0 bs of
        Inr text \<Rightarrow> if readable text then fmt_text_block label text else fmt_hex_block label bs
      | Inl _ \<Rightarrow> fmt_hex_block label bs)"

definition fmt_pem_or_hex :: "string \<Rightarrow> bytes \<Rightarrow> string" where
  "fmt_pem_or_hex = text_or_hex looks_like_pem"

definition fmt_utf8_or_hex :: "string \<Rightarrow> bytes \<Rightarrow> string" where
  "fmt_utf8_or_hex = text_or_hex is_mostly_printable_text"

section \<open>The quote\<close>

definition format_uuid :: "(bytes \<Rightarrow> string) \<Rightarrow> bytes \<Rightarrow> string" where
  "format_uuid hex bs =
     (if list_all (\<lambda>b. b = 0) bs then ''00000000-0000-0000-0000-000000000000''
      else hex (take 4 bs) @ ''-'' @ hex (take 2 (drop 4 bs)) @ ''-'' @ hex (take 2 (drop 6 bs)) @ ''-'' @
        hex (take 2 (drop 8 bs)) @ ''-'' @ hex (take 6 (drop 10 bs)))"

definition named_flags :: "u64 \<Rightarrow> string list" where
  "named_flags raw =
     map (\<lambda>(i, name). name @ '' (bit '' @ fmt_dec i @ '')'') (filter (\<lambda>(i, name). bit raw i) td_attribute_flags)"

definition known_mask :: u64 where
  "known_mask = foldl (\<lambda>m (i, name). m OR push_bit i 1) 0 td_attribute_flags"

definition unknown_bits :: "u64 \<Rightarrow> u64" where
  "unknown_bits raw = raw AND NOT known_mask"

fun join_with :: "string \<Rightarrow> string list \<Rightarrow> string" where
  "join_with sep [] = []"
| "join_with sep [s] = s"
| "join_with sep (s # t # ts) = s @ sep @ join_with sep (t # ts)"

definition fmt_td_attributes :: "bytes \<Rightarrow> string" where
  "fmt_td_attributes bs =
     (let raw = of_le bs; flags = named_flags raw
      in writeln (''  td_attributes: 0x'' @ fmt_016x raw) @
         writeln (''    flags: '' @ (if flags = [] then ''none'' else join_with '', '' flags)) @
         (if unknown_bits raw \<noteq> 0 then writeln (''    unknown_bits: 0x'' @ fmt_016x (unknown_bits raw)) else []))"

definition append_tdx_body :: "td_quote_body_tdx10 \<Rightarrow> string" where
  "append_tdx_body b =
     fmt_hex_block ''  tee_tcb_svn'' (b10_tee_tcb_svn b) @
     fmt_hex_block ''  mr_seam'' (b10_mr_seam b) @
     fmt_hex_block ''  mr_signer_seam'' (b10_mr_signer_seam b) @
     fmt_hex_block ''  seam_attributes'' (b10_seam_attributes b) @
     fmt_td_attributes (b10_td_attributes b) @
     fmt_hex_block ''  xfam'' (b10_xfam b) @
     fmt_hex_block ''  mr_td'' (b10_mr_td b) @
     fmt_hex_block ''  mr_config_id'' (b10_mr_config_id b) @
     fmt_hex_block ''  mr_owner'' (b10_mr_owner b) @
     fmt_hex_block ''  mr_owner_config'' (b10_mr_owner_config b) @
     fmt_hex_block ''  rtmr0'' (b10_rtmr0 b) @
     fmt_hex_block ''  rtmr1'' (b10_rtmr1 b) @
     fmt_hex_block ''  rtmr2'' (b10_rtmr2 b) @
     fmt_hex_block ''  rtmr3'' (b10_rtmr3 b) @
     fmt_hex_block ''  report_data'' (b10_report_data b)"

definition append_tdx15_body :: "td_quote_body_tdx15 \<Rightarrow> string" where
  "append_tdx15_body b =
     append_tdx_body (b15_base b) @
     fmt_hex_block ''  tee_tcb_svn_2'' (b15_tee_tcb_svn_2 b) @
     fmt_hex_block ''  mr_service_td'' (b15_mr_service_td b)"

fun append_body :: "td_quote_body \<Rightarrow> string" where
  "append_body (Body_Tdx10 b) = append_tdx_body b"
| "append_body (Body_Tdx15 b) = append_tdx15_body b"
| "append_body (Body_Tdx15Ex b) =
     append_tdx15_body (bex_base b) @
     writeln (''  vmid: 0x'' @ fmt_02x (bex_vmid b)) @
     fmt_hex_block ''  td_id'' (bex_td_id b) @
     fmt_hex_block ''  devinfo'' (bex_devinfo b) @
     fmt_hex_block ''  init_server_td_hash'' (bex_init_server_td_hash b) @
     fmt_hex_block ''  init_server_td_attr'' (bex_init_server_td_attr b) @
     fmt_hex_block ''  init_cpu_svn'' (bex_init_cpu_svn b) @
     fmt_hex_block ''  init_tee_tcb_svn'' (bex_init_tee_tcb_svn b) @
     fmt_hex_block ''  init_tee_fmspc'' (bex_init_tee_fmspc b) @
     fmt_hex_block ''  curr_server_td_hash'' (bex_curr_server_td_hash b) @
     fmt_hex_block ''  curr_server_td_attr'' (bex_curr_server_td_attr b)"
| "append_body (Body_Unknown _ bs) = fmt_hex_block ''  body (raw)'' bs"

text \<open>The FMSPC is extracted once more while printing; that may panic.\<close>

definition append_pck_cert_chain ::
    "bool \<Rightarrow> (bytes \<Rightarrow> bytes option) \<Rightarrow> (bytes \<Rightarrow> string) \<Rightarrow> td_quote_pck_cert_chain \<Rightarrow> ('e, string) res" where
  "append_pck_cert_chain checks b64 hex chain =
     and_then (case and_then (first_certificate_der checks b64 (pck_cert_chain chain)) (extract_fmspc_from_cert_der checks) of
                 Inr fmspc \<Rightarrow> Inr (writeln (''  fmspc: '' @ hex fmspc))
               | Inl (Fail err) \<Rightarrow> Inr (writeln (''  fmspc: <unavailable: '' @ fmspc_extract_error_display err @ ''>''))
               | Inl Panic \<Rightarrow> Inl Panic) (\<lambda>fmspc_line.
     Inr (fmt_pem_or_hex ''  pck_cert_chain'' (pck_cert_chain chain) @ fmspc_line @
       (case pck_qe_identity chain of
          Some identity \<Rightarrow> fmt_utf8_or_hex ''  qe_identity'' identity
        | None \<Rightarrow> []) @
       (if pck_remainder chain \<noteq> [] then fmt_hex_block ''  pck_cert_chain_remainder'' (pck_remainder chain) else [])))"

fun append_certification ::
    "bool \<Rightarrow> (bytes \<Rightarrow> bytes option) \<Rightarrow> (bytes \<Rightarrow> string) \<Rightarrow> td_quote_certification \<Rightarrow> ('e, string) res" where
  "append_certification checks b64 hex (Cert_EcdsaSigAux e) =
     and_then (case ec_nested_certification e of
                 Some (Nested_PckCertChain chain) \<Rightarrow> append_pck_cert_chain checks b64 hex chain
               | Some (Nested_Raw t data) \<Rightarrow>
                   Inr (writeln (''  nested_certification_type: 0x'' @ fmt_04x t) @
                     fmt_hex_block ''  nested_certification_data'' data)
               | None \<Rightarrow> Inr []) (\<lambda>nested.
     Inr (fmt_hex_block ''  qe_report'' (ec_qe_report e) @
       fmt_hex_block ''  qe_report_signature'' (ec_qe_report_signature e) @
       fmt_hex_block ''  auth_data'' (ec_auth_data e) @ nested @
       (if ec_remainder e \<noteq> [] then fmt_hex_block ''  certification_remainder'' (ec_remainder e) else [])))"
| "append_certification checks b64 hex (Cert_Raw t data) =
     Inr (writeln (''  certification_type: 0x'' @ fmt_04x t) @ fmt_hex_block ''  certification_data'' data)"

definition append_signature ::
    "bool \<Rightarrow> (bytes \<Rightarrow> bytes option) \<Rightarrow> (bytes \<Rightarrow> string) \<Rightarrow> parsed_td_quote \<Rightarrow> ('e, string) res" where
  "append_signature checks b64 hex q =
     (case (pq_signature q, pq_signature_parse_error q) of
        (Some sig, _) \<Rightarrow>
          and_then (case qs_certification sig of
                      Some cert \<Rightarrow> append_certification checks b64 hex cert
                    | None \<Rightarrow> Inr []) (\<lambda>cert.
          Inr (fmt_hex_block ''  quote_signature'' (qs_signature sig) @
            fmt_hex_block ''  attestation_public_key'' (qs_attestation_public_key sig) @ cert @
            (if qs_remainder sig \<noteq> [] then fmt_hex_block ''  signature_remainder'' (qs_remainder sig) else [])))
      | (None, Some err) \<Rightarrow> Inr (writeln (''  Signature parse error: '' @ td_quote_signature_error_display err))
      | (None, None) \<Rightarrow> Inr [])"

definition pretty_td_quote ::
    "bool \<Rightarrow> (bytes \<Rightarrow> bytes option) \<Rightarrow> (bytes \<Rightarrow> string) \<Rightarrow> parsed_td_quote \<Rightarrow> ('e, string) res" where
  "pretty_td_quote checks b64 hex q =
     (let h = pq_header q; d = pq_body_header q
      in and_then (append_signature checks b64 hex q) (\<lambda>signature.
         Inr (writeln (''TD Quote v'' @ fmt_dec (unat (qh_version h)) @ '' (TEE type 0x'' @ fmt_08x (qh_tee_type h) @
                '', attestation key type 0x'' @ fmt_04x (qh_attestation_key_type h) @ '')'') @
           writeln (''  QE Vendor ID: '' @ format_uuid hex (qh_qe_vendor_id h)) @
           writeln (''  User Data: '' @ hex (qh_user_data h)) @
           writeln (''  Body Type: 0x'' @ fmt_04x (bd_body_type d) @ '' ('' @ body_type_label (bd_body_type d) @
             ''), declared size '' @ fmt_dec (unat (bd_size d)) @ '' bytes'') @
           append_body (pq_body q) @
           writeln (''  Signature Data Length: '' @ fmt_dec (unat (pq_signature_data_len q)) @ '' bytes'') @
           fmt_hex_block ''  signature_data'' (pq_signature_data q) @
           signature @
           (if pq_remainder q \<noteq> [] then fmt_hex_block ''  trailing_bytes'' (pq_remainder q) else []))))"

end
