(* ===== verification/Attest_Text.thy ===== *)
theory Attest_Text
  imports Attest_Client Tpm_Tool Pretty_Report
begin

text \<open>
  The helper functions of the command-line tool \<open>tools/azure-guest-attest\<close>: the argument forms of
  user data and PCR lists, PEM, the inspection and printing of tokens, and the printing of
  event logs. A function that prints takes and returns the text written so far; writing does not fail.
\<close>

section \<open>Errors and output\<close>

text \<open>\<open>anyhow::Error\<close>: a message, or an error of a library under an optional context.\<close>

datatype cli_error =
    Cli_Message string
  | Cli_Io io_error
  | Cli_Context string io_error
  | Cli_Sdk sdk_error
  | Cli_Int parse_int_error

definition cli_fail :: "string \<Rightarrow> (cli_error, 'a) res" where
  "cli_fail msg = Inl (Fail (Cli_Message msg))"

type_synonym 'a printing = "(string, cli_error, 'a) st"

definition put :: "string \<Rightarrow> unit printing" where
  "put t out = (Inr (), out @ t)"

definition put_line :: "string \<Rightarrow> unit printing" where
  "put_line t = put (writeln t)"

fun put_each :: "('a \<Rightarrow> unit printing) \<Rightarrow> 'a list \<Rightarrow> unit printing" where
  "put_each f [] = st_res (Inr ())"
| "put_each f (x # xs) = st_then (f x) (\<lambda>_. put_each f xs)"

section \<open>User data\<close>

text \<open>\<open>&s[a..b]\<close> on a \<open>str\<close> panics unless both ends are boundaries of characters.\<close>

definition char_boundary :: "rs_str \<Rightarrow> nat \<Rightarrow> bool" where
  "char_boundary s i \<longleftrightarrow> i \<in> set (map (\<lambda>k. length (str_bytes (take k s))) [0..<length s + 1])"

definition str_slice :: "rs_str \<Rightarrow> nat \<Rightarrow> nat \<Rightarrow> ('e, bytes) res" where
  "str_slice s a b =
     (if a \<le> b \<and> char_boundary s a \<and> char_boundary s b
      then Inr (take (b - a) (drop a (str_bytes s))) else Inl Panic)"

definition str_len :: "rs_str \<Rightarrow> nat" where
  "str_len s = length (str_bytes s)"

fun hex_bytes_at :: "rs_str \<Rightarrow> nat list \<Rightarrow> (cli_error, bytes) res" where
  "hex_bytes_at s [] = Inr []"
| "hex_bytes_at s (i # is) =
     and_then (str_slice s (i * 2) (i * 2 + 2)) (\<lambda>digits.
     case from_str_radix_16 (2 ^ 8) (bytes_text digits) of
       Inl e \<Rightarrow> Inl (Fail (Cli_Int e))
     | Inr n \<Rightarrow> and_then (hex_bytes_at s is) (\<lambda>rest. Inr (of_nat n # rest)))"

definition hex_to_bytes :: "rs_str \<Rightarrow> (cli_error, bytes) res" where
  "hex_to_bytes s =
     (if str_len s mod 2 \<noteq> 0 then cli_fail ''hex data must have even length''
      else if 64 < str_len s div 2 then cli_fail ''hex decodes to more than 64 bytes''
      else hex_bytes_at s [0..<str_len s div 2])"

definition is_ascii_hexdigit :: "bytes \<Rightarrow> bool" where
  "is_ascii_hexdigit c =
     (case c of
        [b] \<Rightarrow> 0x30 \<le> b \<and> b \<le> 0x39 \<or> 0x41 \<le> b \<and> b \<le> 0x46 \<or> 0x61 \<le> b \<and> b \<le> 0x66
      | _ \<Rightarrow> False)"

definition is_probable_hex :: "rs_str \<Rightarrow> bool" where
  "is_probable_hex s \<longleftrightarrow>
     str_len s mod 2 = 0 \<and> s \<noteq> [] \<and> list_all is_ascii_hexdigit s \<and> str_len s div 2 \<le> 64"

definition truncated_utf8 :: "rs_str \<Rightarrow> bytes" where
  "truncated_utf8 payload = (let bs = str_bytes payload in if 64 < length bs then take 64 bs else bs)"

definition strip_prefix :: "rs_str \<Rightarrow> rs_str \<Rightarrow> rs_str option" where
  "strip_prefix p s = (if take (length p) s = p then Some (drop (length p) s) else None)"

definition parse_user_data_variable :: "rs_str \<Rightarrow> (cli_error, bytes) res" where
  "parse_user_data_variable s =
     (let trimmed = str_trim s in
      if trimmed = [] then Inr []
      else
        case strip_prefix (ascii_str ''hex:'') trimmed of
          Some payload \<Rightarrow> hex_to_bytes payload
        | None \<Rightarrow>
        case strip_prefix (ascii_str ''utf8:'') trimmed of
          Some payload \<Rightarrow> Inr (truncated_utf8 payload)
        | None \<Rightarrow>
          if is_probable_hex trimmed then hex_to_bytes trimmed else Inr (truncated_utf8 trimmed))"

section \<open>PCR indices\<close>

fun filter_pcrs :: "u32 list \<Rightarrow> u32 list \<Rightarrow> (cli_error, u32 list) res" where
  "filter_pcrs out [] = Inr out"
| "filter_pcrs out (idx # rest) =
     (if 23 < idx then cli_fail (''PCR index '' @ fmt_dec (unat idx) @ '' out of range (0-23)'')
      else filter_pcrs (if idx \<in> set out then out else out @ [idx]) rest)"

definition validate_pcr_filter :: "u32 list \<Rightarrow> (cli_error, u32 list) res" where
  "validate_pcr_filter pcrs = filter_pcrs [] pcrs"

definition normalize_pcrs_with_default :: "u32 list \<Rightarrow> (cli_error, u32 list) res" where
  "normalize_pcrs_with_default pcrs =
     and_then (validate_pcr_filter pcrs) (\<lambda>filtered.
     Inr (if filtered = [] then map of_nat [0..<24] else filtered))"

definition parse_algorithm_flag :: "string \<Rightarrow> (cli_error, pcr_algorithm) res" where
  "parse_algorithm_flag v =
     (case pcr_algorithm_from_str v of
        Inr a \<Rightarrow> Inr a
      | Inl _ \<Rightarrow> cli_fail (''Unsupported algorithm '' @ [CHR 39] @ v @ [CHR 39] @ ''. Expected sha1, sha256, or sha384.''))"

section \<open>PEM\<close>

fun pem_lines :: "bytes list \<Rightarrow> ('e, string) res" where
  "pem_lines [] = Inr []"
| "pem_lines (chunk # rest) =
     (case from_utf8 0 chunk of
        Inl _ \<Rightarrow> Inl Panic
      | Inr text \<Rightarrow> and_then (pem_lines rest) (\<lambda>t. Inr (writeln (char_text text) @ t)))"

definition der_to_pem :: "(bytes \<Rightarrow> string) \<Rightarrow> string \<Rightarrow> bytes \<Rightarrow> ('e, string) res" where
  "der_to_pem b64 label der =
     and_then (pem_lines (chunks 64 (ascii_bytes (b64 der)))) (\<lambda>body.
     Inr (writeln (''-----BEGIN '' @ label @ ''-----'') @ body @ writeln (''-----END '' @ label @ ''-----'')))"

section \<open>Tokens\<close>

definition base64_url_decode_vec :: "'s platform \<Rightarrow> string \<Rightarrow> (cli_error, bytes) res" where
  "base64_url_decode_vec pf s =
     (case pf_b64_url_decode pf s of
        Inr d \<Rightarrow> Inr d
      | Inl e \<Rightarrow> cli_fail (''base64url decode failed: '' @ e))"

text \<open>The middle segment of a JWT, and the envelope around one.\<close>

definition jwt_claims :: "'s platform \<Rightarrow> string list \<Rightarrow> json_value option" where
  "jwt_claims pf parts =
     (if length parts = 3 then
        (case base64_url_decode_vec pf (parts ! 1) of
           Inr raw \<Rightarrow> (case pf_json_parse pf (bytes_text raw) of Inr v \<Rightarrow> Some v | Inl _ \<Rightarrow> None)
         | Inl _ \<Rightarrow> None)
      else None)"

definition envelope_json :: "'s platform \<Rightarrow> string \<Rightarrow> json_value option" where
  "envelope_json pf token =
     (case base64_url_decode_vec pf token of
        Inr raw \<Rightarrow>
          (case from_utf8 0 raw of
             Inr text \<Rightarrow> (case pf_json_parse pf (char_text text) of Inr v \<Rightarrow> Some v | Inl _ \<Rightarrow> None)
           | Inl _ \<Rightarrow> None)
      | Inl _ \<Rightarrow> None)"

partial_function (option) jwt_payload_value :: "'s platform \<Rightarrow> string \<Rightarrow> json_value option option" where
  "jwt_payload_value pf token =
     (case jwt_claims pf (split_on CHR ''.'' [] token) of
        Some v \<Rightarrow> Some (Some v)
      | None \<Rightarrow>
          (case Option.bind (envelope_json pf token) (\<lambda>v. get_str v ''Jwt'') of
             Some jwt \<Rightarrow> jwt_payload_value pf jwt
           | None \<Rightarrow> Some None))"

fun find_map :: "('a \<Rightarrow> 'b option) \<Rightarrow> 'a list \<Rightarrow> 'b option" where
  "find_map f [] = None"
| "find_map f (x # xs) = (case f x of Some y \<Rightarrow> Some y | None \<Rightarrow> find_map f xs)"

lemma find_map_cong [fundef_cong]:
  "xs = ys \<Longrightarrow> (\<And>x. x \<in> set ys \<Longrightarrow> f x = g x) \<Longrightarrow> find_map f xs = find_map g ys"
  by (induction xs arbitrary: ys) (auto split: option.split)

text \<open>\<open>Value::as_u64\<close>: a number written as a non-negative integer of 64 bits.\<close>

definition as_u64 :: "json_value \<Rightarrow> u64 option" where
  "as_u64 v =
     (case v of
        J_Number s \<Rightarrow>
          if s \<noteq> [] \<and> list_all (\<lambda>c. 48 \<le> (of_char c :: nat) \<and> (of_char c :: nat) \<le> 57) s
          then (let n = foldl (\<lambda>acc c. acc * 10 + (of_char c - 48)) 0 s :: nat in
                if n < 2 ^ 64 then Some (of_nat n) else None)
          else None
      | _ \<Rightarrow> None)"

definition compose_snp_tcb :: "'s platform \<Rightarrow> (string \<times> json_value) list \<Rightarrow> string option" where
  "compose_snp_tcb pf m =
     (let svn = (\<lambda>k. Option.bind (map_of m k) as_u64) in
      case (svn ''x-ms-sevsnpvm-bootloader-svn'', svn ''x-ms-sevsnpvm-tee-svn'',
            svn ''x-ms-sevsnpvm-snpfw-svn'', svn ''x-ms-sevsnpvm-microcode-svn'') of
        (Some bootloader, Some tee, Some snpfw, Some microcode) \<Rightarrow>
          Some (pf_hex_upper pf [ucast microcode, ucast snpfw, 0, 0, 0, 0, ucast tee, ucast bootloader])
      | _ \<Rightarrow> None)"

definition value_to_string :: "'s platform \<Rightarrow> json_value \<Rightarrow> string" where
  "value_to_string pf v = (case v of J_String s \<Rightarrow> s | other \<Rightarrow> pf_json_text pf other)"

function extract_tcb :: "'s platform \<Rightarrow> json_value \<Rightarrow> string option" where
  "extract_tcb pf (J_Object m) =
     (case map_of m ''tdx_tee_tcb_svn'' of
        Some v \<Rightarrow> Some (value_to_string pf v)
      | None \<Rightarrow>
          (case compose_snp_tcb pf m of
             Some tcb \<Rightarrow> Some tcb
           | None \<Rightarrow> find_map (\<lambda>kv. extract_tcb pf (snd kv)) m))"
| "extract_tcb pf (J_Array vs) = find_map (extract_tcb pf) vs"
| "extract_tcb pf J_Null = None"
| "extract_tcb pf (J_Bool b) = None"
| "extract_tcb pf (J_Number n) = None"
| "extract_tcb pf (J_String s) = None"
  by pat_completeness auto
termination
  by (relation "measure (\<lambda>(pf, v). size v)") (auto simp: less_Suc_eq_le elim!: size_list_estimation')

section \<open>Printing a token\<close>

definition em_dash :: string where "em_dash = [CHR 0xE2, CHR 0x80, CHR 0x94]"

definition put_json_or_text :: "'s platform \<Rightarrow> (json_value \<Rightarrow> string) \<Rightarrow> bytes \<Rightarrow> unit printing" where
  "put_json_or_text pf pretty raw =
     (let text = char_text (from_utf8_lossy raw) in
      put_line (case pf_json_parse pf text of Inr v \<Rightarrow> pretty v | Inl _ \<Rightarrow> text))"

definition put_jwt :: "'s platform \<Rightarrow> (json_value \<Rightarrow> string) \<Rightarrow> string list \<Rightarrow> unit printing" where
  "put_jwt pf pretty parts =
     st_then (st_res (base64_url_decode_vec pf (parts ! 0))) (\<lambda>header_raw.
     st_then (st_res (base64_url_decode_vec pf (parts ! 1))) (\<lambda>payload_raw.
     st_then (put_line ''JWT Header:'') (\<lambda>_.
     st_then (put_json_or_text pf pretty header_raw) (\<lambda>_.
     st_then (put_line ''JWT Payload:'') (\<lambda>_.
     put_json_or_text pf pretty payload_raw)))))"

definition put_member :: "'s platform \<Rightarrow> string \<times> json_value \<Rightarrow> unit printing" where
  "put_member pf = (\<lambda>(key, val).
     case val of
       J_String s \<Rightarrow>
         if 80 < length s then
           st_then (st_res (str_slice (text_chars s) 0 80)) (\<lambda>start.
           put_line (''  '' @ key @ '': '' @ [CHR 34] @ bytes_text start @ ''...'' @ [CHR 34] @ '' ('' @
             fmt_dec (length s) @ '' bytes)''))
         else put_line (''  '' @ key @ '': '' @ [CHR 34] @ s @ [CHR 34])
     | _ \<Rightarrow> put_line (''  '' @ key @ '': '' @ pf_json_text pf val))"

function decode_and_print_jwt :: "'s platform \<Rightarrow> (json_value \<Rightarrow> string) \<Rightarrow> string \<Rightarrow> unit printing" where
  "decode_and_print_jwt pf pretty token =
     (if 2 \<le> length (split_on CHR ''.'' [] token) then put_jwt pf pretty (split_on CHR ''.'' [] token)
      else
        case envelope_json pf token of
          None \<Rightarrow> put_line ''(not a JWT structure)''
        | Some v \<Rightarrow>
            let shown =
              st_then (put_line ''Encrypted envelope:'') (\<lambda>_.
              case v of
                J_Object obj \<Rightarrow> put_each (put_member pf) obj
              | _ \<Rightarrow> put_line (pretty v))
            in case get_str v ''Jwt'' of
                 Some jwt \<Rightarrow>
                   if 2 \<le> length (split_on CHR ''.'' [] jwt) then
                     st_then (put_line (''(Decoded encrypted envelope '' @ em_dash @ '' Jwt field is a JWT)''))
                       (\<lambda>_. decode_and_print_jwt pf pretty jwt)
                   else shown
               | None \<Rightarrow> shown)"
  by pat_completeness auto
termination
  by (relation "measure (\<lambda>(pf, pretty, token). if 2 \<le> length (split_on CHR ''.'' [] token) then 0 else 1)") auto

declare decode_and_print_jwt.simps [simp del]

section \<open>Printing an event log\<close>

definition hex_preview :: "(bytes \<Rightarrow> string) \<Rightarrow> bytes \<Rightarrow> nat \<Rightarrow> string" where
  "hex_preview hex bs max_chars =
     (let hex_str = hex bs in
      if length hex_str \<le> max_chars then hex_str
      else if 4 \<le> max_chars then
        (let capped = max_chars - max_chars mod 2 in
         if capped = 0 then fmt_dec (length bs) @ '' bytes''
         else take capped hex_str @ ''... ('' @ fmt_dec (length bs) @ '' bytes)'')
      else fmt_dec (length bs) @ '' bytes'')"

definition write_spec_overview :: "(bytes \<Rightarrow> string) \<Rightarrow> spec_id_event \<Rightarrow> unit printing" where
  "write_spec_overview hex spec =
     st_then (put_line (''Spec ID: '' @ char_text (si_signature spec) @ '' class=0x'' @ fmt_08x (si_platform_class spec) @
       '' version '' @ fmt_dec (unat (si_spec_version_major spec)) @ ''.'' @ fmt_dec (unat (si_spec_version_minor spec)) @
       '' errata '' @ fmt_dec (unat (si_spec_errata spec)) @ '' uintn '' @ fmt_dec (unat (si_uintn_size spec)))) (\<lambda>_.
     st_then
       (if si_algorithms spec \<noteq> [] then
          st_then (put_line ''  Algorithms:'') (\<lambda>_.
          put_each (\<lambda>a. put_line (''    '' @ alg_name (sa_algorithm_id a) @ '' (size '' @
            fmt_dec (unat (sa_digest_size a)) @ '')'')) (si_algorithms spec))
        else st_res (Inr ())) (\<lambda>_.
     if si_vendor_info spec \<noteq> [] then put_line (''  Vendor info: '' @ hex_preview hex (si_vendor_info spec) 64)
     else st_res (Inr ())))"

text \<open>\<open>replace\<close> of a character by a text.\<close>

definition replace_char :: "u8 \<Rightarrow> string \<Rightarrow> rs_str \<Rightarrow> rs_str" where
  "replace_char b t s = concat (map (\<lambda>c. if c = [b] then ascii_str t else [c]) s)"

definition write_event_entry :: "(bytes \<Rightarrow> string) \<Rightarrow> event \<Rightarrow> unit printing" where
  "write_event_entry hex e =
     (let name = (case event_type_description (ev_event_type e) of Some d \<Rightarrow> d | None \<Rightarrow> ''UNKNOWN'') in
      st_then (put_line (''PCR['' @ fmt_dec (unat (ev_pcr_index e)) @ ''] '' @ name @ '' (0x'' @
        fmt_08x (ev_event_type e) @ '')'')) (\<lambda>_.
      st_then
        (if ev_digests e = [] then put_line ''    (no digests)''
         else put_each (\<lambda>d. put_line (case pcr_from_alg_id (ed_alg_id d) of
                Some alg \<Rightarrow> ''    '' @ pcr_algorithm_display alg @ '': '' @ hex (ed_digest d)
              | None \<Rightarrow> ''    alg 0x'' @ fmt_04x (ed_alg_id d) @ '': '' @ hex (ed_digest d))) (ev_digests e)) (\<lambda>_.
      if ev_event_data e = [] then st_res (Inr ())
      else if is_mostly_printable (ev_event_data e) then
        (let sanitized = replace_char 0x09 [CHR 92, CHR ''t''] (replace_char 0x0A [CHR 92, CHR ''n'']
               (replace_char 0x0D [CHR 92, CHR ''r''] (from_utf8_lossy (ev_event_data e))))
         in if sanitized \<noteq> [] then put_line (''    data: '' @ char_text sanitized) else st_res (Inr ()))
      else put_line (''    data (hex): '' @ hex_preview hex (ev_event_data e) 128))))"

end
