(* ===== verification/Attest_Tool.thy ===== *)
theory Attest_Tool
  imports Attest_Text
begin

text \<open>
  The subcommands of \<open>tools/azure-guest-attest\<close>, composed of the operations of the SDK, the TPM
  and the helpers of \<open>Attest_Text\<close>. A command runs on the state of the platform and the text written so far, may
  be undefined where the SDK is (\<open>None\<close>), and returns the exit code. What it asks of libraries and of its
  surroundings is the record \<open>cli_env\<close>: the platform of the SDK, the opening of the TPM, files,
  the hexadecimal codec, the pretty printers of \<open>serde_json\<close>, whether the output is a terminal or a file. Log messages and
  the warning on standard error are left out; the file system is the one of Linux.
\<close>

section \<open>Commands\<close>

type_synonym ('s, 'e, 'a) cmd = "'s \<times> string \<Rightarrow> (('e, 'a) res \<times> ('s \<times> string)) option"

definition cmd_res :: "('e, 'a) res \<Rightarrow> ('s, 'e, 'a) cmd" where
  "cmd_res r st = Some (r, st)"

definition cmd_then :: "('s, 'e, 'a) cmd \<Rightarrow> ('a \<Rightarrow> ('s, 'e, 'b) cmd) \<Rightarrow> ('s, 'e, 'b) cmd" where
  "cmd_then m f st =
     (case m st of
        None \<Rightarrow> None
      | Some (Inl e, st') \<Rightarrow> Some (Inl e, st')
      | Some (Inr x, st') \<Rightarrow> f x st')"

text \<open>A step on the platform, a printing step, a value that may be undefined.\<close>

definition cmd_op :: "('s \<Rightarrow> (('e, 'a) res \<times> 's) option) \<Rightarrow> ('s, 'e, 'a) cmd" where
  "cmd_op m = (\<lambda>(s, out). map_option (\<lambda>(r, s'). (r, (s', out))) (m s))"

definition cmd_st :: "('s, 'e, 'a) st \<Rightarrow> ('s, 'e, 'a) cmd" where
  "cmd_st m = cmd_op (\<lambda>s. Some (m s))"

definition cmd_put :: "'a printing \<Rightarrow> ('s, cli_error, 'a) cmd" where
  "cmd_put m = (\<lambda>(s, out). case m out of (r, out') \<Rightarrow> Some (r, (s, out')))"

definition cmd_line :: "string \<Rightarrow> ('s, cli_error, unit) cmd" where
  "cmd_line t = cmd_put (put_line t)"

fun cmd_option :: "'a option \<Rightarrow> ('s, 'e, 'a) cmd" where
  "cmd_option None st = None"
| "cmd_option (Some x) st = Some (Inr x, st)"

text \<open>\<open>map_err\<close>, and a \<open>match\<close> on the result; a panic is not a result.\<close>

definition cmd_map_err :: "('e \<Rightarrow> 'f) \<Rightarrow> ('s, 'e, 'a) cmd \<Rightarrow> ('s, 'f, 'a) cmd" where
  "cmd_map_err f m st = map_option (\<lambda>(r, st'). (map_err f r, st')) (m st)"

definition cmd_match :: "('s, 'e, 'a) cmd \<Rightarrow> ('e \<Rightarrow> ('s, 'f, 'b) cmd) \<Rightarrow> ('a \<Rightarrow> ('s, 'f, 'b) cmd) \<Rightarrow> ('s, 'f, 'b) cmd" where
  "cmd_match m on_err on_ok st =
     (case m st of
        None \<Rightarrow> None
      | Some (Inl Panic, st') \<Rightarrow> Some (Inl Panic, st')
      | Some (Inl (Fail e), st') \<Rightarrow> on_err e st'
      | Some (Inr x, st') \<Rightarrow> on_ok x st')"

definition done_with :: "nat \<Rightarrow> ('s, cli_error, nat) cmd" where
  "done_with code = cmd_res (Inr code)"

abbreviation ok :: "('s, cli_error, nat) cmd" where "ok \<equiv> done_with 0"

definition say :: "string \<Rightarrow> ('s, cli_error, nat) cmd" where
  "say t = cmd_then (cmd_line t) (\<lambda>_. ok)"

definition fail_with :: "string \<Rightarrow> ('s, cli_error, 'a) cmd" where
  "fail_with msg = cmd_res (cli_fail msg)"

record 's cli_env =
  cv_platform :: "'s platform"
  cv_open :: "('s, io_error, unit) st"
  cv_create_out :: "('s, io_error, unit) st"
  cv_out_file :: bool
  cv_terminal :: bool
  cv_hex :: "bytes \<Rightarrow> string"
  cv_hex_decode :: "string \<Rightarrow> string + bytes"
  cv_json_pretty :: "json_value \<Rightarrow> string"
  cv_claims_pretty :: "runtime_claims \<Rightarrow> string"
  cv_cert_summary :: "(bytes \<Rightarrow> string) option"
  cv_read_file :: "string \<Rightarrow> 's \<Rightarrow> (io_error + bytes) \<times> 's"
  cv_write_file :: "string \<Rightarrow> bytes \<Rightarrow> 's \<Rightarrow> (io_error + unit) \<times> 's"
  cv_logs :: file_system
  cv_hash :: hash_functions
  cv_event_json :: "rs_str \<Rightarrow> string + json_text_event"
  cv_lowercase :: "bytes \<Rightarrow> rs_str"
  cv_checks :: bool
  cv_frames :: nat

definition tpm_of :: "'s cli_env \<Rightarrow> 's transport" where
  "tpm_of env = pf_tpm (cv_platform env)"

definition b64_text :: "'s cli_env \<Rightarrow> bytes \<Rightarrow> string" where
  "b64_text env = pf_b64_std (cv_platform env)"

definition b64_option :: "'s cli_env \<Rightarrow> bytes \<Rightarrow> bytes option" where
  "b64_option env b = (case pf_b64_std_decode (cv_platform env) (bytes_text b) of Inr d \<Rightarrow> Some d | Inl _ \<Rightarrow> None)"

text \<open>\<open>?\<close> on an \<open>io::Result\<close>; \<open>std::fs::read(path).with_context(...)\<close>.\<close>

definition try_io :: "('s, io_error, 'a) st \<Rightarrow> ('s, cli_error, 'a) cmd" where
  "try_io m = cmd_map_err Cli_Io (cmd_st m)"

definition file_op :: "string \<Rightarrow> ('s \<Rightarrow> (io_error + 'a) \<times> 's) \<Rightarrow> ('s, cli_error, 'a) cmd" where
  "file_op what m = (\<lambda>(s, out). case m s of
     (Inl e, s') \<Rightarrow> Some (Inl (Fail (Cli_Context what e)), (s', out))
   | (Inr x, s') \<Rightarrow> Some (Inr x, (s', out)))"

definition read_file :: "'s cli_env \<Rightarrow> string \<Rightarrow> string \<Rightarrow> ('s, cli_error, bytes) cmd" where
  "read_file env what path = file_op (what @ path) (cv_read_file env path)"

definition fetch_report ::
    "'s cli_env \<Rightarrow> bytes option \<Rightarrow> ('s, cli_error, cvm_attestation_report \<times> runtime_claims option) cmd" where
  "fetch_report env user_data =
     cmd_map_err Cli_Io (cmd_op (get_cvm_report (pf_claims (cv_platform env)) (tpm_of env) user_data))"

text \<open>The two ways a command opens the TPM: every error ends it, or a missing TPM is reported.\<close>

definition open_failed :: "io_error \<Rightarrow> string" where
  "open_failed e = ''Failed to open TPM: '' @ io_error_display e"

definition with_tpm :: "'s cli_env \<Rightarrow> ('s, cli_error, 'a) cmd \<Rightarrow> ('s, cli_error, 'a) cmd" where
  "with_tpm env k = cmd_match (cmd_st (cv_open env)) (\<lambda>e. fail_with (open_failed e)) (\<lambda>_. k)"

definition with_tpm_or_note :: "'s cli_env \<Rightarrow> string \<Rightarrow> ('s, cli_error, nat) cmd \<Rightarrow> ('s, cli_error, nat) cmd" where
  "with_tpm_or_note env note k =
     cmd_match (cmd_st (cv_open env))
       (\<lambda>e. if io_error_kind e = NotFound then say note else fail_with (open_failed e)) (\<lambda>_. k)"

section \<open>The CVM report\<close>

fun request_type_debug :: "cvm_request_type \<Rightarrow> string" where
  "request_type_debug Request_Invalid = ''Invalid''"
| "request_type_debug KeyReleaseRequest = ''KeyReleaseRequest''"
| "request_type_debug AkCertRequest = ''AkCertRequest''"
| "request_type_debug WrappedKeyRequest = ''WrappedKeyRequest''"

fun hash_type_debug :: "report_data_hash_type \<Rightarrow> string" where
  "hash_type_debug Hash_Invalid = ''Invalid''"
| "hash_type_debug Hash_Sha256 = ''Sha256''"
| "hash_type_debug Hash_Sha384 = ''Sha384''"
| "hash_type_debug Hash_Sha512 = ''Sha512''"

definition header_lines :: "cvm_attestation_report \<Rightarrow> string list" where
  "header_lines rep =
     (let rh = cr_report_header rep; rch = cr_runtime_claims_header rep in
      [''CVM Attestation Report:'',
       ''  ReportHeader.signature: 0x'' @ fmt_08x (ch_signature rh),
       ''  ReportHeader.version: '' @ fmt_dec (unat (ch_version rh)),
       ''  ReportHeader.report_size: '' @ fmt_dec (unat (ch_report_size rh)),
       ''  ReportHeader.request_type: '' @ request_type_debug (ch_request_type rh),
       ''  ReportHeader.status: 0x'' @ fmt_08x (ch_status rh),
       ''  ReportHeader.reserved[0]: 0x'' @ fmt_08x (ch_reserved rh ! 0),
       ''  ReportHeader.reserved[1]: 0x'' @ fmt_08x (ch_reserved rh ! 1),
       ''  ReportHeader.reserved[2]: 0x'' @ fmt_08x (ch_reserved rh ! 2),
       ''  RuntimeClaimsHeader.data_size: '' @ fmt_dec (unat (rc_data_size rch)),
       ''  RuntimeClaimsHeader.version: '' @ fmt_dec (unat (rc_version rch)),
       ''  RuntimeClaimsHeader.report_type: '' @ report_type_debug (rc_report_type rch),
       ''  RuntimeClaimsHeader.report_data_hash_type: '' @ hash_type_debug (rc_report_data_hash_type rch),
       ''  RuntimeClaimsHeader.variable_data_size: '' @ fmt_dec (unat (rc_variable_data_size rch))])"

text \<open>\<open>parse::*_report\<close> followed by its pretty printer, for the three types that have a report.\<close>

definition pretty_tee_report :: "cvm_report_type \<Rightarrow> bytes \<Rightarrow> string sdk_res option" where
  "pretty_tee_report rtype bs =
     (case rtype of
        SnpVmReport \<Rightarrow> Some (and_then (parse_snp_report bs) (\<lambda>r. Inr (pretty_snp r)))
      | TdxVmReport \<Rightarrow> Some (and_then (parse_tdx_report bs) (\<lambda>r. Inr (pretty_tdx r)))
      | VbsVmReport \<Rightarrow> Some (and_then (parse_vbs_report bs) (\<lambda>r. Inr (pretty_vbs r)))
      | _ \<Rightarrow> None)"

definition show_report :: "cvm_attestation_report \<Rightarrow> unit printing" where
  "show_report rep =
     st_then (put_each put_line (header_lines rep)) (\<lambda>_.
     let rtype = rc_report_type (cr_runtime_claims_header rep);
         expected = tee_report_size rtype
     in if 0 < expected \<and> expected \<le> length (cr_tee_report rep) then
          (case pretty_tee_report rtype (cr_tee_report rep) of
             Some (Inr t) \<Rightarrow> put_line t
           | Some (Inl Panic) \<Rightarrow> st_res (Inl Panic)
           | _ \<Rightarrow> st_res (Inr ()))
        else put_line (''(No TEE report body to decode for type '' @ report_type_debug rtype @ '')''))"

definition show_claims_tail :: "'s cli_env \<Rightarrow> cvm_attestation_report \<Rightarrow> ('s, cli_error, unit) cmd" where
  "show_claims_tail env rep =
     (let var = unat (rc_variable_data_size (cr_runtime_claims_header rep)) in
      if 0 < var then
        cmd_then (try_io (get_cvm_report_raw (tpm_of env) None)) (\<lambda>raw_full.
        if CVM_REPORT_SIZE + var \<le> length raw_full then
          cmd_then (cmd_res (rs_slice raw_full CVM_REPORT_SIZE (CVM_REPORT_SIZE + var))) (\<lambda>tail.
          case from_utf8 0 tail of
            Inr s \<Rightarrow> cmd_then (cmd_line ''Runtime Claims Tail (UTF-8):'') (\<lambda>_. cmd_line (char_text s))
          | Inl _ \<Rightarrow> cmd_line (''Runtime Claims Tail present but not valid UTF-8 ('' @ fmt_dec var @ '' bytes)''))
        else cmd_line (''(Variable data size '' @ fmt_dec var @ '' beyond buffer length '' @
               fmt_dec (length raw_full) @ '')''))
      else cmd_line ''(runtime_claims_header.variable_data_size == 0)'')"

definition show_user_data :: "'s cli_env \<Rightarrow> ('s, cli_error, unit) cmd" where
  "show_user_data env =
     cmd_match (cmd_st (get_user_data_nv (tpm_of env)))
       (\<lambda>e. cmd_line (''User Data NV Index: error reading: '' @ io_error_display e))
       (\<lambda>r. case r of
          Some data \<Rightarrow>
            cmd_then (cmd_line ''User Data NV Index: defined'') (\<lambda>_.
            if data = [] then cmd_line ''  (empty / all zero bytes)''
            else
              cmd_then (cmd_line (''  Hex ('' @ fmt_dec (length data) @ '' bytes): '' @ cv_hex env data)) (\<lambda>_.
              cmd_line (''  UTF-8 (lossy): '' @ char_text (replace_char 0x0D [CHR 92, CHR ''r'']
                (replace_char 0x0A [CHR 92, CHR ''n''] (from_utf8_lossy data))))))
        | None \<Rightarrow> cmd_line ''User Data NV Index: (not defined)'')"

definition TBS_NOTE :: string where
  "TBS_NOTE = ''TPM access via TBS failed (reported not found). If PowerShell '' @ [CHR 39] @ ''get-tpm'' @ [CHR 39] @
     '' shows TpmPresent=True this indicates a TBS accessibility or policy issue. Suggestions:'' @ [CHR 10] @
     ''  * Run: get-service tbs (should be Running)'' @ [CHR 10] @
     ''  * Restart service: Stop-Service tbs; Start-Service tbs'' @ [CHR 10] @
     ''  * Run: tpmtool getdeviceinformation'' @ [CHR 10] @
     ''  * Check: tpm.msc status'' @ [CHR 10] @
     ''  * If VM: ensure vTPM attached (Gen2, security settings)'' @ [CHR 10] @
     ''  * Set AZURE_GUEST_ATTESTATION_LOG=guest_attest=trace and rerun for details''"

record cvm_report_args =
  cra_user_data :: rs_str
  cra_raw :: bool
  cra_claims :: bool
  cra_pretty :: bool
  cra_show_json :: bool

definition cvm_report_command :: "'s cli_env \<Rightarrow> cvm_report_args \<Rightarrow> ('s, cli_error, nat) cmd" where
  "cvm_report_command env args =
     cmd_then (cmd_res (parse_user_data_variable (cra_user_data args))) (\<lambda>ud.
     with_tpm_or_note env TBS_NOTE
       (if cra_raw args then
          cmd_then (try_io (get_cvm_report_raw (tpm_of env) (Some ud))) (\<lambda>raw. say (cv_hex env raw))
        else
          cmd_then (fetch_report env (Some ud)) (\<lambda>(rep, rc).
          if cra_claims args then
            (case rc of Some c \<Rightarrow> say (cv_claims_pretty env c) | None \<Rightarrow> ok)
          else
            cmd_then (if cra_pretty args then cmd_put (show_report rep) else cmd_res (Inr ())) (\<lambda>_.
            cmd_then
              (case rc of
                 Some c \<Rightarrow> cmd_then (cmd_line ''Runtime Claims JSON:'') (\<lambda>_. cmd_line (cv_claims_pretty env c))
               | None \<Rightarrow> cmd_line ''(No runtime claims present)'') (\<lambda>_.
            cmd_then (if cra_show_json args then show_claims_tail env rep else cmd_res (Inr ())) (\<lambda>_.
            cmd_then (show_user_data env) (\<lambda>_. ok)))))))"

section \<open>Keys, diagnosis, TEE reports\<close>

definition NO_TPM_CERT :: string where
  "NO_TPM_CERT = ''TPM access via TBS failed (not found). If '' @ [CHR 39] @ ''get-tpm'' @ [CHR 39] @
     '' reports present, see: azure-guest-attest diagnose, restart TBS service, check tpm.msc, and verify virtualization settings.''"

record ak_cert_args =
  aca_pem :: bool
  aca_summary :: bool
  aca_base64 :: bool
  aca_binary :: bool
  aca_no_trim :: bool

definition ak_cert_command :: "'s cli_env \<Rightarrow> ak_cert_args \<Rightarrow> ('s, cli_error, nat) cmd" where
  "ak_cert_command env args =
     with_tpm_or_note env NO_TPM_CERT
       (cmd_then (try_io (if aca_no_trim args then get_ak_cert (tpm_of env) else get_ak_cert_trimmed (tpm_of env))) (\<lambda>cert.
        if cert = [] then say ''(AK cert NV index empty or not defined)''
        else
          let stdout_is_tty = (cv_terminal env \<and> \<not> cv_out_file env);
              effective_pem = (aca_pem args \<or> (stdout_is_tty \<and> \<not> aca_base64 args \<and> \<not> aca_binary args))
          in cmd_then
               (if aca_summary args then
                  (case cv_cert_summary env of
                     Some summary \<Rightarrow> cmd_put (put (summary cert))
                   | None \<Rightarrow> cmd_line ''(rebuild with --features with-x509 for summary)'')
                else cmd_res (Inr ())) (\<lambda>_.
             if effective_pem then
               cmd_then (cmd_res (der_to_pem (b64_text env) ''CERTIFICATE'' cert)) (\<lambda>pem. say pem)
             else if aca_base64 args then say (b64_text env cert)
             else cmd_then (cmd_put (put (bytes_text cert))) (\<lambda>_. ok))))"

definition NO_TPM_PUB :: string where
  "NO_TPM_PUB = ''TPM access via TBS failed (not found). Use '' @ [CHR 39] @ ''azure-guest-attest diagnose'' @ [CHR 39] @
     '' and system tools (get-tpm, tpmtool) to isolate policy/service issues.''"

definition ak_pub_command :: "'s cli_env \<Rightarrow> bool \<Rightarrow> ('s, cli_error, nat) cmd" where
  "ak_pub_command env as_hex =
     with_tpm_or_note env NO_TPM_PUB
       (cmd_then (try_io (get_ak_pub (tpm_of env))) (\<lambda>pub_area.
        if as_hex then say (cv_hex env pub_area)
        else cmd_then (cmd_put (put (bytes_text pub_area))) (\<lambda>_. ok)))"

definition WINDOWS_CHECKS :: "string list" where
  "WINDOWS_CHECKS =
     [''Windows checks:'',
      ''  1. Run '' @ [CHR 39] @ ''tpm.msc'' @ [CHR 39] @ '' -> Status should report '' @ [CHR 39] @
        ''The TPM is ready to use'' @ [CHR 39],
      ''  2. Settings > Privacy & Security > Windows Security > Device Security -> Security processor details'',
      ''  3. Device Manager -> Security devices -> Trusted Platform Module'',
      ''  4. If using a VM: ensure vTPM is attached and generation 2 VM with security features enabled'',
      ''  5. WSL note: Access to host TPM may require /dev/tpm* passthrough (not automatic)'']"

definition diagnose_json :: "'s cli_env \<Rightarrow> bool \<Rightarrow> json_value" where
  "diagnose_json env opened =
     J_Object [(''platform'', J_String (pf_os (cv_platform env))), (''tpm_open'', J_Bool opened), (''notes'', J_Array [])]"

definition diagnose_command :: "'s cli_env \<Rightarrow> bool \<Rightarrow> ('s, cli_error, nat) cmd" where
  "diagnose_command env json =
     cmd_match (cmd_st (cv_open env))
       (\<lambda>e. if json then say (cv_json_pretty env (diagnose_json env False))
            else cmd_then (cmd_line (''TPM context open failed: '' @ io_error_display e)) (\<lambda>_.
              cmd_then (cmd_put (put_each put_line (if pf_os (cv_platform env) = ''windows'' then WINDOWS_CHECKS else []))) (\<lambda>_. ok)))
       (\<lambda>_. if json then say (cv_json_pretty env (diagnose_json env True))
            else cmd_then (cmd_line ''TPM context: OK'') (\<lambda>_.
              cmd_then (cmd_put (put_each put_line (if pf_os (cv_platform env) = ''windows'' then WINDOWS_CHECKS else []))) (\<lambda>_. ok)))"

datatype saved_report_kind = Saved_Snp | Saved_Tdx

record tee_report_args =
  ta_report :: "string option"
  ta_report_type :: "saved_report_kind option"
  ta_user_data :: rs_str
  ta_raw :: bool
  ta_hex :: bool
  ta_base64 :: bool
  ta_pretty :: bool

fun tee_report_name :: "cvm_report_type \<Rightarrow> (string \<times> nat) option" where
  "tee_report_name SnpVmReport = Some (''SNP'', SNP_REPORT_SIZE)"
| "tee_report_name TdxVmReport = Some (''TDX'', TDX_REPORT_SIZE)"
| "tee_report_name VbsVmReport = Some (''VBS'', VBS_REPORT_SIZE)"
| "tee_report_name TvmReport = None"
| "tee_report_name Report_Invalid = None"

definition write_tee_report :: "'s cli_env \<Rightarrow> tee_report_args \<Rightarrow> bytes \<Rightarrow> cvm_report_type \<Rightarrow> unit printing" where
  "write_tee_report env args bs rtype =
     (if ta_raw args then put (bytes_text bs)
      else if ta_base64 args then put_line (b64_text env bs)
      else if ta_hex args \<or> \<not> ta_pretty args then put_line (cv_hex env bs)
      else if bs = [] \<and> ta_report args = None
      then put_line (''TEE report type '' @ report_type_debug rtype @ '' has no payload'')
      else
        case tee_report_name rtype of
          None \<Rightarrow> put_line (''No TEE report available for type '' @ report_type_debug rtype)
        | Some (name, expected_size) \<Rightarrow>
            if ta_report args \<noteq> None \<and> length bs \<noteq> expected_size
            then st_res (cli_fail (name @ '' report must be exactly '' @ fmt_dec expected_size @ '' bytes; got '' @
              fmt_dec (length bs)))
            else
              (case pretty_tee_report rtype bs of
                 None \<Rightarrow> st_res (Inl Panic)
               | Some display \<Rightarrow> st_then (st_res (map_err Cli_Sdk display)) put_line))"

definition tee_report_command :: "'s cli_env \<Rightarrow> tee_report_args \<Rightarrow> ('s, cli_error, nat) cmd" where
  "tee_report_command env args =
     cmd_then
       (case ta_report args of
          Some path \<Rightarrow>
            (case ta_report_type args of
               None \<Rightarrow> fail_with ''--type is required with PATH''
             | Some kind \<Rightarrow>
                 cmd_then (read_file env ''reading TEE report from '' path) (\<lambda>bs.
                 cmd_res (Inr (bs, case kind of Saved_Snp \<Rightarrow> SnpVmReport | Saved_Tdx \<Rightarrow> TdxVmReport))))
        | None \<Rightarrow>
            cmd_then (cmd_res (parse_user_data_variable (ta_user_data args))) (\<lambda>ud.
            cmd_then (cmd_map_err (Cli_Context ''Failed to open TPM'') (cmd_st (cv_open env))) (\<lambda>_.
            cmd_map_err Cli_Io (cmd_op (get_tee_report_and_type (pf_claims (cv_platform env)) (tpm_of env) (Some ud))))))
       (\<lambda>(tee_bytes, rtype).
     cmd_then (cmd_put (write_tee_report env args tee_bytes rtype)) (\<lambda>_. ok))"

section \<open>TD quotes and isolation evidence\<close>

fun body_label :: "td_quote_body \<Rightarrow> string" where
  "body_label (Body_Tdx10 _) = ''TDX 1.0''"
| "body_label (Body_Tdx15 _) = ''TDX 1.5''"
| "body_label (Body_Tdx15Ex _) = ''TDX 1.5 (Service-TD ext)''"
| "body_label (Body_Unknown _ _) = ''unknown''"

definition td_quote_summary :: "parsed_td_quote \<Rightarrow> string" where
  "td_quote_summary q =
     ''TD Quote v'' @ fmt_dec (unat (qh_version (pq_header q))) @ '' tee_type=0x'' @ fmt_08x (qh_tee_type (pq_header q)) @
     '' body_type=0x'' @ fmt_04x (bd_body_type (pq_body_header q)) @ '' ('' @ body_label (pq_body q) @ '') body_size='' @
     fmt_dec (unat (bd_size (pq_body_header q))) @ '' signature_len='' @ fmt_dec (unat (pq_signature_data_len q)) @
     '' remainder='' @ fmt_dec (length (pq_remainder q))"

definition extract_pck_cert_chain :: "parsed_td_quote \<Rightarrow> td_quote_pck_cert_chain option" where
  "extract_pck_cert_chain q =
     (case Option.bind (pq_signature q) qs_certification of
        Some (Cert_EcdsaSigAux e) \<Rightarrow>
          (case ec_nested_certification e of Some (Nested_PckCertChain chain) \<Rightarrow> Some chain | _ \<Rightarrow> None)
      | _ \<Rightarrow> None)"

record rendered_td_quote =
  rd_display :: string
  rd_pck_cert_chain :: "bytes option"
  rd_qe_identity :: "bytes option"
  rd_fmspc :: "bytes option"
  rd_signature_error :: "string option"

definition render_td_quote ::
    "'s cli_env \<Rightarrow> bytes \<Rightarrow> bool \<Rightarrow> bool \<Rightarrow> bool \<Rightarrow> bool \<Rightarrow> (cli_error, rendered_td_quote) res" where
  "render_td_quote env bs hex_output pretty ignore_signature capture_chain =
     (if hex_output \<and> \<not> capture_chain then
        Inr \<lparr>rd_display = cv_hex env bs, rd_pck_cert_chain = None, rd_qe_identity = None, rd_fmspc = None,
             rd_signature_error = None\<rparr>
      else
        and_then (map_err (\<lambda>e. Cli_Message (''failed to parse TD quote: '' @ td_quote_parse_error_display e))
            (parse_td_quote_with_options bs (if ignore_signature then AllowMissing else Strict))) (\<lambda>q.
        and_then (case quote_fmspc (cv_checks env) (b64_option env) q of
                    Inr f \<Rightarrow> Inr (Some f) | Inl (Fail _) \<Rightarrow> Inr None | Inl Panic \<Rightarrow> Inl Panic) (\<lambda>fmspc.
        and_then (if hex_output then Inr (cv_hex env bs)
                  else if pretty then pretty_td_quote (cv_checks env) (b64_option env) (cv_hex env) q
                  else Inr (td_quote_summary q)) (\<lambda>display.
        let chain = (if capture_chain then extract_pck_cert_chain q else None) in
        Inr \<lparr>rd_display = display, rd_pck_cert_chain = map_option pck_cert_chain chain,
             rd_qe_identity = Option.bind chain pck_qe_identity, rd_fmspc = fmspc,
             rd_signature_error = map_option td_quote_signature_error_display (pq_signature_parse_error q)\<rparr>))))"

definition fetch_platform_td_quote :: "'s cli_env \<Rightarrow> ('s, cli_error, bytes option) cmd" where
  "fetch_platform_td_quote env =
     with_tpm env
       (cmd_then (fetch_report env None) (\<lambda>(report, _).
        if rc_report_type (cr_runtime_claims_header report) \<noteq> TdxVmReport then cmd_res (Inr None)
        else
          cmd_match (cmd_st (fresh_td_quote (cv_platform env) (cr_tee_report report)))
            (\<lambda>e. fail_with (''Failed to fetch TD quote from IMDS: '' @ io_error_display e))
            (\<lambda>bs. cmd_res (Inr (Some bs)))))"

record td_quote_args =
  tq_quote :: "string option"
  tq_raw :: bool
  tq_hex :: bool
  tq_base64 :: bool
  tq_pretty :: bool
  tq_ignore_signature :: bool
  tq_save_pck_pem :: "string option"

definition save_chain :: "'s cli_env \<Rightarrow> rendered_td_quote \<Rightarrow> string \<Rightarrow> ('s, cli_error, nat) cmd" where
  "save_chain env rendered path =
     (case rd_pck_cert_chain rendered of
        None \<Rightarrow> fail_with (''PCK certificate chain not present in quote'' @
          (case rd_signature_error rendered of Some err \<Rightarrow> '' (parse error: '' @ err @ '')'' | None \<Rightarrow> []))
      | Some chain \<Rightarrow>
          cmd_then (file_op (''writing PCK cert chain to '' @ path) (cv_write_file env path chain)) (\<lambda>_.
          cmd_then (cmd_line (''Saved PCK cert chain ('' @ fmt_dec (length chain) @ '' bytes) to '' @ path)) (\<lambda>_.
          case rd_qe_identity rendered of
            Some identity \<Rightarrow> say (''Quote includes QE identity payload ('' @ fmt_dec (length identity) @
              '' bytes); inspect pretty output for details.'')
          | None \<Rightarrow> ok)))"

definition td_quote_command :: "'s cli_env \<Rightarrow> td_quote_args \<Rightarrow> ('s, cli_error, nat) cmd" where
  "td_quote_command env args =
     cmd_then
       (case tq_quote args of
          Some path \<Rightarrow> read_file env ''reading TD quote from '' path
        | None \<Rightarrow>
            cmd_then (fetch_platform_td_quote env) (\<lambda>q.
            case q of
              Some bs \<Rightarrow> cmd_res (Inr bs)
            | None \<Rightarrow> fail_with ''TD quote not available: host does not expose TDX report'')) (\<lambda>quote_bytes.
     if tq_raw args then cmd_then (cmd_put (put (bytes_text quote_bytes))) (\<lambda>_. ok)
     else if tq_base64 args then say (b64_text env quote_bytes)
     else
       cmd_then (cmd_res (render_td_quote env quote_bytes (tq_hex args) (tq_pretty args) (tq_ignore_signature args)
         (tq_save_pck_pem args \<noteq> None))) (\<lambda>rendered.
       cmd_then (cmd_line (rd_display rendered)) (\<lambda>_.
       cmd_then (case rd_fmspc rendered of
                   Some fmspc \<Rightarrow> cmd_line (''FMSPC: '' @ cv_hex env fmspc) | None \<Rightarrow> cmd_res (Inr ())) (\<lambda>_.
       cmd_then (case rd_signature_error rendered of
                   Some err \<Rightarrow> cmd_line (''Warning: signature certification block parsing failed: '' @ err)
                 | None \<Rightarrow> cmd_res (Inr ())) (\<lambda>_.
       case tq_save_pck_pem args of
         Some path \<Rightarrow> save_chain env rendered path
       | None \<Rightarrow> ok)))))"

definition say_encoded :: "'s cli_env \<Rightarrow> bool \<Rightarrow> bytes \<Rightarrow> ('s, cli_error, nat) cmd" where
  "say_encoded env base64 bs = say (if base64 then b64_text env bs else cv_hex env bs)"

definition isolation_evidence_command :: "'s cli_env \<Rightarrow> bool \<Rightarrow> ('s, cli_error, nat) cmd" where
  "isolation_evidence_command env base64 =
     with_tpm env
       (cmd_then (try_io (get_cvm_report_raw (tpm_of env) None)) (\<lambda>raw_report.
        cmd_then (cmd_option (parse_with_runtime_claims (pf_claims (cv_platform env)) raw_report)) (\<lambda>r.
        cmd_then (cmd_res (map_err Cli_Io r)) (\<lambda>(parsed, _).
        case rc_report_type (cr_runtime_claims_header parsed) of
          SnpVmReport \<Rightarrow>
            cmd_match (cmd_st (fresh_vcek_chain (cv_platform env)))
              (\<lambda>e. say (''(failed to fetch VCEK chain: '' @ io_error_display e @ '')''))
              (\<lambda>bs. say_encoded env base64 bs)
        | TdxVmReport \<Rightarrow>
            cmd_match (cmd_st (fresh_td_quote (cv_platform env) (cr_tee_report parsed)))
              (\<lambda>e. say (''(failed to fetch TD quote: '' @ io_error_display e @ '')''))
              (\<lambda>bs. say_encoded env base64 bs)
        | rtype \<Rightarrow> say (''Unsupported report type '' @ report_type_debug rtype @ '' for isolation evidence'')))))"

end
