(* ===== verification/Attest_Tool_Main.thy ===== *)
theory Attest_Tool_Main
  imports Attest_Tool
begin

text \<open>
  The remaining subcommands of \<open>tools/azure-guest-attest\<close> (event logs and their verification against the
  TPM, PCRs, guest and platform attestation, endorsements) and \<open>main\<close>.
\<close>

section \<open>Event logs\<close>

text \<open>The three piles a log may end on: parsed, text, or skipped with its error.\<close>

record sorted_logs =
  sl_parsed :: "(string \<times> event list) list"
  sl_text :: "(string \<times> rs_str) list"
  sl_skipped :: "(string \<times> io_error) list"

fun sort_logs :: "'s cli_env \<Rightarrow> sorted_logs \<Rightarrow> (bytes \<times> string) list \<Rightarrow> ('e, sorted_logs) res" where
  "sort_logs env acc [] = Inr acc"
| "sort_logs env acc ((raw_log, source) # rest) =
     (case parse_event_log (cv_event_json env) (cv_hex_decode env) raw_log of
        Inr parsed \<Rightarrow> sort_logs env (acc\<lparr>sl_parsed := sl_parsed acc @ [(source, parsed)]\<rparr>) rest
      | Inl Panic \<Rightarrow> Inl Panic
      | Inl (Fail err) \<Rightarrow>
          if is_mostly_printable raw_log
          then sort_logs env (acc\<lparr>sl_text := sl_text acc @ [(source, from_utf8_lossy raw_log)]\<rparr>) rest
          else sort_logs env (acc\<lparr>sl_skipped := sl_skipped acc @ [(source, err)]\<rparr>) rest)"

definition load_logs :: "'s cli_env \<Rightarrow> string option \<Rightarrow> (cli_error, (bytes \<times> string) list) res" where
  "load_logs env explicit =
     (case explicit of
        Some path \<Rightarrow>
          (case fs_read (cv_logs env) path of
             Inr bs \<Rightarrow> Inr [(bs, path)]
           | Inl e \<Rightarrow> Inl (Fail (Cli_Context (''reading event log from '' @ path) e)))
      | None \<Rightarrow> map_err Cli_Io (load_event_logs (cv_logs env) None))"

definition put_text_log :: "string \<times> rs_str \<Rightarrow> unit printing" where
  "put_text_log = (\<lambda>(path, text).
     let lines = str_lines text in
     st_then (put_line (''  '' @ path @ '':'')) (\<lambda>_.
     st_then (put_each (\<lambda>l. put_line (''    '' @ char_text l)) (take 20 lines)) (\<lambda>_.
     if 20 < length lines then put_line ''    ... (truncated)'' else st_res (Inr ()))))"

definition no_parsed_logs :: "sorted_logs \<Rightarrow> unit printing" where
  "no_parsed_logs logs =
     (if sl_text logs = [] then
        let msg = join_with '', '' (map (\<lambda>(path, err). path @ '': '' @ io_error_display err) (sl_skipped logs)) in
        st_res (cli_fail (''No event logs could be parsed ('' @ (if msg = [] then ''no sources available'' else msg) @ '')''))
      else
        st_then (put_line ''No binary TPM event logs were parsed.'') (\<lambda>_.
        st_then (put_line ''Text logs detected:'') (\<lambda>_.
        st_then (put_each put_text_log (sl_text logs)) (\<lambda>_.
        put_line ''Re-run with --event-log pointing to a binary measurement log to enable PCR replay.''))))"

definition put_sources :: "sorted_logs \<Rightarrow> unit printing" where
  "put_sources logs =
     st_then
       (if length (sl_parsed logs) = 1 then put_line (''Event log source: '' @ fst (hd (sl_parsed logs)))
        else st_then (put_line ''Event log sources:'') (\<lambda>_.
             put_each (\<lambda>(path, _). put_line (''  '' @ path)) (sl_parsed logs))) (\<lambda>_.
     st_then
       (if sl_skipped logs = [] then st_res (Inr ())
        else st_then (put_line ''Skipped event logs:'') (\<lambda>_.
             put_each (\<lambda>(path, err). put_line (''  '' @ path @ '' ('' @ io_error_display err @ '')'')) (sl_skipped logs))) (\<lambda>_.
     if sl_text logs = [] then st_res (Inr ())
     else st_then (put_line ''Text event logs (not parsed as binary):'') (\<lambda>_. put_each put_text_log (sl_text logs))))"

text \<open>The first event of type \<open>EV_NO_ACTION\<close> that is a Spec ID event.\<close>

fun find_spec :: "event list \<Rightarrow> (cli_error, spec_id_event option) res" where
  "find_spec [] = Inr None"
| "find_spec (e # es) =
     (if ev_event_type e = 3 then
        and_then (map_err Cli_Io (try_parse_spec_id_event (ev_event_data e))) (\<lambda>r.
        case r of Some spec \<Rightarrow> Inr (Some spec) | None \<Rightarrow> find_spec es)
      else find_spec es)"

text \<open>The events that pass the filter, under a line for their source when there are several sources.\<close>

definition shown_events :: "u32 list option \<Rightarrow> event list \<Rightarrow> event list" where
  "shown_events filter_set evs =
     (case filter_set of None \<Rightarrow> evs | Some keep \<Rightarrow> filter (\<lambda>e. ev_pcr_index e \<in> set keep) evs)"

definition put_log_events ::
    "'s cli_env \<Rightarrow> u32 list option \<Rightarrow> nat \<Rightarrow> nat \<times> string \<times> event list \<Rightarrow> unit printing" where
  "put_log_events env filter_set n = (\<lambda>(idx, path, evs).
     let shown = shown_events filter_set evs in
     if shown = [] then st_res (Inr ())
     else
       st_then (if 1 < n then put_line (''  Source: '' @ path) else st_res (Inr ())) (\<lambda>_.
       st_then (put_each (write_event_entry (cv_hex env)) shown) (\<lambda>_.
       if 1 < n \<and> idx + 1 < n then put_line [] else st_res (Inr ()))))"

definition put_events :: "'s cli_env \<Rightarrow> u32 list option \<Rightarrow> (string \<times> event list) list \<Rightarrow> unit printing" where
  "put_events env filter_set logs =
     (let combined = concat (map snd logs) in
      if combined = [] then put_line ''No events in log''
      else
        st_then (put_line ''Events:'') (\<lambda>_.
        st_then (put_each (put_log_events env filter_set (length logs)) (enumerate 0 logs)) (\<lambda>_.
        if shown_events filter_set combined = [] then put_line ''(no events matched PCR filter)'' else st_res (Inr ()))))"

text \<open>
  \<open>replay_pcrs\<close> with a zero digest for each index of the filter that no event extended, and the
  entries of the resulting \<open>BTreeMap\<close>.
\<close>

definition zero_digest :: "pcr_algorithm \<Rightarrow> bytes" where
  "zero_digest alg = replicate (pcr_digest_len alg) 0"

definition replay_with_filter :: "'s cli_env \<Rightarrow> u32 list option \<Rightarrow> event list \<Rightarrow> pcr_algorithm \<Rightarrow> (u32 \<rightharpoonup> bytes)" where
  "replay_with_filter env filter_set evs alg =
     (let m = replay_pcrs (cv_hash env) evs alg in
      case filter_set of
        None \<Rightarrow> m
      | Some keep \<Rightarrow> foldl (\<lambda>m i. if m i = None then m(i \<mapsto> zero_digest alg) else m) m keep)"

definition btree_entries :: "u32 list \<Rightarrow> (u32 \<rightharpoonup> bytes) \<Rightarrow> (u32 \<times> bytes) list" where
  "btree_entries keys m =
     List.map_filter (\<lambda>i. map_option (\<lambda>d. (i, d)) (m i)) (sort (remdups keys))"

definition put_replayed ::
    "'s cli_env \<Rightarrow> u32 list option \<Rightarrow> pcr_algorithm \<Rightarrow> (u32 \<times> bytes) list \<Rightarrow> unit printing" where
  "put_replayed env filter_set alg entries =
     (if entries = [] then
        put_line (''Replayed PCRs ('' @ pcr_algorithm_display alg @ ''): (no digests for this algorithm)'')
      else
        st_then (put_line (''Replayed PCRs ('' @ pcr_algorithm_display alg @ ''):'')) (\<lambda>_.
        put_each (\<lambda>(idx, digest).
          if (case filter_set of None \<Rightarrow> True | Some keep \<Rightarrow> idx \<in> set keep)
          then put_line (''  PCR['' @ fmt_dec (unat idx) @ '']: '' @ cv_hex env digest)
          else st_res (Inr ())) entries))"

text \<open>The verdict on one PCR, and its line.\<close>

datatype verdict = Pcr_Ok | Pcr_Mismatch | Pcr_Missing

definition pcr_verdict :: "bytes \<Rightarrow> bytes option \<Rightarrow> verdict" where
  "pcr_verdict expected actual =
     (case actual of
        None \<Rightarrow> Pcr_Missing
      | Some a \<Rightarrow> if a = expected then Pcr_Ok else Pcr_Mismatch)"

definition verdict_line :: "'s cli_env \<Rightarrow> u32 \<Rightarrow> bytes \<Rightarrow> bytes option \<Rightarrow> string" where
  "verdict_line env idx expected actual =
     ''  PCR['' @ fmt_dec (unat idx) @ '']'' @
     (case actual of
        Some a \<Rightarrow>
          (if pcr_verdict expected actual = Pcr_Ok then '' OK'' else '' MISMATCH'') @ '' expected '' @
          cv_hex env expected @ '' actual '' @ cv_hex env a
      | None \<Rightarrow> '' missing in TPM response (expected '' @ cv_hex env expected @ '')'')"

definition expected_digest :: "pcr_algorithm \<Rightarrow> (u32 \<rightharpoonup> bytes) \<Rightarrow> u32 \<Rightarrow> bytes" where
  "expected_digest alg replayed idx = (case replayed idx of Some d \<Rightarrow> d | None \<Rightarrow> zero_digest alg)"

definition verify_pcrs ::
    "'s cli_env \<Rightarrow> pcr_algorithm \<Rightarrow> (u32 \<rightharpoonup> bytes) \<Rightarrow> u32 list \<Rightarrow> ('s, cli_error, nat) cmd" where
  "verify_pcrs env alg replayed verify_indices =
     (if verify_indices = [] then say ''No PCR indices available for verification''
      else
        with_tpm env
          (cmd_match (cmd_st (tpm_read_pcrs_for_alg (tpm_of env) alg verify_indices))
             (\<lambda>err. fail_with (''Failed to read TPM PCRs for '' @ pcr_algorithm_display alg @ '': '' @ io_error_display err))
             (\<lambda>live_values.
           let live_map = map_of (rev live_values) in
           cmd_then (cmd_line (''Verification ('' @ pcr_algorithm_display alg @ ''):'')) (\<lambda>_.
           cmd_then (cmd_put (put_each (\<lambda>idx. put_line (verdict_line env idx (expected_digest alg replayed idx) (live_map idx)))
             verify_indices)) (\<lambda>_. ok)))))"

definition event_log_command ::
    "'s cli_env \<Rightarrow> string option \<Rightarrow> u32 list \<Rightarrow> string \<Rightarrow> bool \<Rightarrow> ('s, cli_error, nat) cmd" where
  "event_log_command env path pcr_index algorithm verify =
     cmd_then (cmd_res (parse_algorithm_flag algorithm)) (\<lambda>alg.
     cmd_then (cmd_res (validate_pcr_filter pcr_index)) (\<lambda>filtered.
     let filter_set = (if filtered = [] then None else Some (sort filtered)) in
     cmd_then (cmd_res (load_logs env path)) (\<lambda>raw_logs.
     cmd_then (cmd_res (sort_logs env \<lparr>sl_parsed = [], sl_text = [], sl_skipped = []\<rparr> raw_logs)) (\<lambda>logs.
     if sl_parsed logs = [] then cmd_then (cmd_put (no_parsed_logs logs)) (\<lambda>_. ok)
     else
       let combined = concat (map snd (sl_parsed logs));
           replayed = replay_with_filter env filter_set combined alg;
           keys = (case filter_set of None \<Rightarrow> [] | Some keep \<Rightarrow> keep) @ map ev_pcr_index combined;
           entries = btree_entries keys replayed
       in cmd_then (cmd_put (put_sources logs)) (\<lambda>_.
          cmd_then (cmd_res (find_spec combined)) (\<lambda>spec.
          cmd_then (case spec of Some s \<Rightarrow> cmd_put (write_spec_overview (cv_hex env) s) | None \<Rightarrow> cmd_res (Inr ())) (\<lambda>_.
          cmd_then (cmd_put (put_events env filter_set (sl_parsed logs))) (\<lambda>_.
          cmd_then (cmd_put (put_replayed env filter_set alg entries)) (\<lambda>_.
          if verify then
            verify_pcrs env alg replayed (case filter_set of Some keep \<Rightarrow> keep | None \<Rightarrow> map fst entries)
          else ok)))))))))"

section \<open>PCRs\<close>

definition read_bank ::
    "'s cli_env \<Rightarrow> u32 list \<Rightarrow> (pcr_algorithm \<times> (u32 \<times> bytes) list) list \<times> (pcr_algorithm \<times> string) list \<Rightarrow> pcr_algorithm \<Rightarrow>
     ('s, cli_error, (pcr_algorithm \<times> (u32 \<times> bytes) list) list \<times> (pcr_algorithm \<times> string) list) cmd" where
  "read_bank env indices acc alg =
     (let (banks, skipped) = acc in
      cmd_match (cmd_st (tpm_read_pcrs_for_alg (tpm_of env) alg indices))
        (\<lambda>err. cmd_res (Inr (banks, skipped @ [(alg, io_error_display err)])))
        (\<lambda>vals. cmd_res (Inr (if vals \<noteq> [] then (banks @ [(alg, vals)], skipped) else (banks, skipped)))))"

definition read_pcrs_command :: "'s cli_env \<Rightarrow> u32 list \<Rightarrow> ('s, cli_error, nat) cmd" where
  "read_pcrs_command env pcr_index =
     cmd_then (cmd_res (normalize_pcrs_with_default pcr_index)) (\<lambda>indices.
     with_tpm env
       (cmd_then (read_bank env indices ([], []) Pcr_Sha1) (\<lambda>acc.
        cmd_then (read_bank env indices acc Pcr_Sha256) (\<lambda>acc.
        cmd_then (read_bank env indices acc Pcr_Sha384) (\<lambda>(banks, skipped).
        if banks = [] then
          (if skipped = [] then say ''No PCR values returned''
           else say (''PCR read failed for all algorithms. Reasons: '' @
             join_with '', '' (map (\<lambda>(alg, err). pcr_algorithm_display alg @ '': '' @ err) skipped)))
        else
          cmd_then (cmd_line ''PCR values:'') (\<lambda>_.
          cmd_then (cmd_put (put_each (\<lambda>(alg, vals).
            st_then (put_line (''  '' @ pcr_algorithm_display alg @ '':'')) (\<lambda>_.
            put_each (\<lambda>(idx, digest). put_line (''    PCR['' @ fmt_dec (unat idx) @ '']: '' @ cv_hex env digest)) vals)) banks)) (\<lambda>_.
          if skipped = [] then ok
          else say (''  Note: '' @ join_with '', ''
            (map (\<lambda>(alg, err). pcr_algorithm_display alg @ '' unavailable ('' @ err @ '')'') skipped)))))))))"

section \<open>Attestation\<close>

text \<open>Without an endpoint the region decides; outside Azure a default is used.\<close>

definition choose_endpoint :: "'s cli_env \<Rightarrow> bool \<Rightarrow> string option \<Rightarrow> ('s, cli_error, string) cmd" where
  "choose_endpoint env json endpoint =
     (case endpoint of
        Some e \<Rightarrow> cmd_res (Inr e)
      | None \<Rightarrow>
          cmd_match (cmd_st (detect_maa_base_url (cv_lowercase env) (cv_platform env)))
            (\<lambda>e. let base = DEFAULT_COMMERCIAL_BASE_URL in
              cmd_then (if json then cmd_res (Inr ())
                        else cmd_line (''IMDS endpoint auto-detection failed ('' @ io_error_display e @
                          ''); falling back to default MAA endpoint: '' @ base)) (\<lambda>_. cmd_res (Inr base)))
            (\<lambda>base.
              cmd_then (if json then cmd_res (Inr ()) else cmd_line (''Auto-selected MAA endpoint: '' @ base)) (\<lambda>_.
              cmd_res (Inr base))))"

definition json_option :: "string option \<Rightarrow> json_value" where
  "json_option o' = (case o' of Some s \<Rightarrow> J_String s | None \<Rightarrow> J_Null)"

definition result_json ::
    "'s cli_env \<Rightarrow> string \<Rightarrow> string \<Rightarrow> string option \<Rightarrow> bool \<Rightarrow> string option \<Rightarrow> json_value option \<Rightarrow> string option \<Rightarrow> json_value" where
  "result_json env kind provider endpoint passed token claims request =
     J_Object
       ([(''attestation_type'', J_String kind), (''provider'', J_String provider), (''endpoint'', json_option endpoint),
         (''passed'', J_Bool passed), (''tcb'', json_option (Option.bind claims (extract_tcb (cv_platform env)))),
         (''token'', json_option token), (''claims'', (case claims of Some c \<Rightarrow> c | None \<Rightarrow> J_Null))] @
        (case request of Some r \<Rightarrow> [(''request'', J_String r)] | None \<Rightarrow> []))"

record guest_attest_args =
  gu_provider :: string
  gu_endpoint :: "string option"
  gu_user_data :: rs_str
  gu_client_payload :: string
  gu_decode :: bool
  gu_show_request :: bool
  gu_pcr_index :: "u32 list"
  gu_json :: bool

definition choose_provider :: "'s cli_env \<Rightarrow> guest_attest_args \<Rightarrow> ('s, cli_error, provider \<times> string option) cmd" where
  "choose_provider env args =
     (if gu_provider args = ''loopback'' then
        (if gu_endpoint args \<noteq> None then fail_with ''--endpoint is only valid with --provider=maa''
         else cmd_res (Inr (Loopback, None)))
      else if gu_provider args = ''maa'' then
        cmd_then (choose_endpoint env (gu_json args) (gu_endpoint args)) (\<lambda>ep. cmd_res (Inr (Maa ep, Some ep)))
      else fail_with (''Unknown provider: '' @ gu_provider args))"

definition guest_options ::
    "guest_attest_args \<Rightarrow> (cli_error, attest_options) res" where
  "guest_options args =
     and_then (if gu_pcr_index args = [] then Inr None
               else and_then (validate_pcr_filter (gu_pcr_index args)) (\<lambda>pcrs. Inr (Some pcrs))) (\<lambda>pcr_selection.
     and_then (parse_user_data_variable (gu_user_data args)) (\<lambda>ud.
     Inr \<lparr>ao_client_payload = Some (gu_client_payload args), ao_pcr_selection = pcr_selection,
          ao_user_data = (if ud = [] then None else Some ud)\<rparr>))"

text \<open>The token that is shown, opened once more if it is still sealed, and its claims.\<close>

definition token_and_claims ::
    "'s cli_env \<Rightarrow> attest_result \<Rightarrow> ('s, cli_error, string option \<times> json_value option) cmd" where
  "token_and_claims env result =
     (case ar_token result of
        None \<Rightarrow> cmd_res (Inr (None, None))
      | Some tok \<Rightarrow>
          let as_is = cmd_then (cmd_option (jwt_payload_value (cv_platform env) tok)) (\<lambda>c. cmd_res (Inr (Some tok, c)))
          in cmd_match (cmd_op (decrypt_token (cv_platform env) (ar_pcrs result) tok))
               (\<lambda>_. as_is)
               (\<lambda>jwt. case jwt of
                  Some inner_jwt \<Rightarrow>
                    cmd_then (cmd_option (jwt_payload_value (cv_platform env) inner_jwt)) (\<lambda>c.
                    cmd_res (Inr (Some inner_jwt, c)))
                | None \<Rightarrow> as_is))"

definition guest_attest_report ::
    "'s cli_env \<Rightarrow> guest_attest_args \<Rightarrow> attest_result \<Rightarrow> string option \<Rightarrow> unit printing" where
  "guest_attest_report env args result final_token =
     st_then (if gu_show_request args then put_line (''Request JSON:'' @ [CHR 10] @ ar_request_json result)
              else st_res (Inr ())) (\<lambda>_.
     case final_token of
       Some tok \<Rightarrow>
         st_then (case ar_token result of
                    Some raw \<Rightarrow> put_line (''Token (raw/envelope b64url): '' @ raw) | None \<Rightarrow> st_res (Inr ())) (\<lambda>_.
         st_then (if gu_decode args then
                    st_then (put_line ''Token (decoded):'') (\<lambda>_.
                    decode_and_print_jwt (cv_platform env) (cv_json_pretty env) tok)
                  else st_res (Inr ())) (\<lambda>_.
         put_line ''Attested Guest Successfully''))
     | None \<Rightarrow> put_line ''Attestation failed: no token returned'')"

definition guest_attest_command :: "'s cli_env \<Rightarrow> guest_attest_args \<Rightarrow> ('s, cli_error, nat) cmd" where
  "guest_attest_command env args =
     with_tpm env
       (cmd_then (choose_provider env args) (\<lambda>(prov, endpoint_used).
        cmd_then (cmd_res (guest_options args)) (\<lambda>opts.
        cmd_then (cmd_map_err Cli_Sdk (cmd_op (attest_guest (cv_platform env) prov (Some opts)))) (\<lambda>result.
        cmd_then (if gu_json args \<or> gu_decode args then token_and_claims env result
                  else cmd_res (Inr (ar_token result, None))) (\<lambda>(final_token, claims).
        let passed = (final_token \<noteq> None) in
        cmd_then
          (if gu_json args then
             cmd_line (cv_json_pretty env (result_json env ''guest'' (gu_provider args) endpoint_used passed final_token claims
               (if gu_show_request args then Some (ar_request_json result) else None)))
           else cmd_put (guest_attest_report env args result final_token)) (\<lambda>_.
        done_with (if passed then 0 else 2)))))))"

record tee_attest_args =
  te_endpoint :: "string option"
  te_user_data :: rs_str
  te_decode :: bool
  te_force_snp :: bool
  te_force_tdx :: bool
  te_show_request :: bool
  te_json :: bool

definition tee_attest_report ::
    "'s cli_env \<Rightarrow> tee_attest_args \<Rightarrow> string \<Rightarrow> string \<Rightarrow> bool \<Rightarrow> unit printing" where
  "tee_attest_report env args token_or_body payload passed =
     st_then (if te_show_request args then put_line (''Request JSON:'' @ [CHR 10] @ payload) else st_res (Inr ())) (\<lambda>_.
     st_then (put_line (''Token: '' @ token_or_body)) (\<lambda>_.
     st_then (if te_decode args then decode_and_print_jwt (cv_platform env) (cv_json_pretty env) token_or_body
              else st_res (Inr ())) (\<lambda>_.
     put_line (if passed then ''Attested Platform Successfully''
               else ''Attestation failed: response did not contain a parseable token''))))"

definition tee_attest_command :: "'s cli_env \<Rightarrow> tee_attest_args \<Rightarrow> ('s, cli_error, nat) cmd" where
  "tee_attest_command env args =
     with_tpm env
       (cmd_then (cmd_res (parse_user_data_variable (te_user_data args))) (\<lambda>ud.
        let override_type = (if te_force_snp args then Some SnpVmReport
                             else if te_force_tdx args then Some TdxVmReport else None) in
        cmd_then (choose_endpoint env (te_json args) (te_endpoint args)) (\<lambda>endpoint.
        cmd_then (cmd_map_err Cli_Io (cmd_op (tee_only_attest_platform (cv_platform env) endpoint override_type
          (if ud = [] then None else Some ud)))) (\<lambda>(token_or_body, payload).
        cmd_then (cmd_option (jwt_payload_value (cv_platform env) token_or_body)) (\<lambda>claims.
        let passed = (claims \<noteq> None) in
        cmd_then
          (if te_json args then
             cmd_line (cv_json_pretty env (result_json env ''platform'' ''maa'' (Some endpoint) passed (Some token_or_body) claims
               (if te_show_request args then Some payload else None)))
           else cmd_put (tee_attest_report env args token_or_body payload passed)) (\<lambda>_.
        done_with (if passed then 0 else 2)))))))"

section \<open>Endorsements\<close>

datatype endorsement_action =
    List_Mrtds
  | Get_Mrtd string bool bool
  | From_Report string bool bool
  | From_Platform bool bool

definition write_endorsement :: "'s cli_env \<Rightarrow> endorsement_response \<Rightarrow> bool \<Rightarrow> bool \<Rightarrow> ('s, cli_error, nat) cmd" where
  "write_endorsement env resp as_base64 show_json =
     cmd_then (cmd_line (''Content-Type: '' @ er_content_type resp @ ''  ('' @ fmt_dec (length (er_data resp)) @ '' bytes)'')) (\<lambda>_.
     if show_json then
       cmd_match (\<lambda>st. map_option (\<lambda>r. (r, st)) (payload_json (cv_frames env) (cv_platform env) resp))
         (\<lambda>e. say (''(failed to extract JSON payload: '' @ io_error_display e @ '')''))
         (\<lambda>json. say (cv_json_pretty env json))
     else if as_base64 then say (b64_text env (er_data resp))
     else if cv_terminal env then say (cv_hex env (er_data resp))
     else cmd_then (cmd_put (put (bytes_text (er_data resp)))) (\<lambda>_. ok))"

definition or_endorsement_error :: "string \<Rightarrow> ('s, io_error, 'a) st \<Rightarrow> ('s, cli_error, 'a) cmd" where
  "or_endorsement_error what m = cmd_map_err (\<lambda>e. Cli_Message (what @ io_error_display e)) (cmd_st m)"

definition endorsement_for ::
    "'s cli_env \<Rightarrow> string \<Rightarrow> bytes \<Rightarrow> bool \<Rightarrow> bool \<Rightarrow> ('s, cli_error, nat) cmd" where
  "endorsement_for env base_url report base64 json =
     cmd_then (or_endorsement_error ''failed to get endorsement: ''
       (thim_get_endorsement_for_report (cv_platform env) base_url report)) (\<lambda>resp.
     cmd_then (cmd_line (''MRTD: '' @ er_mrtd resp)) (\<lambda>_. write_endorsement env resp base64 json))"

definition endorsement_command :: "'s cli_env \<Rightarrow> endorsement_action \<Rightarrow> string \<Rightarrow> ('s, cli_error, nat) cmd" where
  "endorsement_command env action region =
     cmd_then (cmd_res (thim_client_new (cv_platform env) region)) (\<lambda>base_url.
     case action of
       List_Mrtds \<Rightarrow>
         cmd_then (or_endorsement_error ''failed to list MRTDs: '' (thim_list_mrtds (cv_platform env) base_url)) (\<lambda>mrtds.
         cmd_then (cmd_line (''Known TDX MRTDs ('' @ fmt_dec (length mrtds) @ '' entries):'')) (\<lambda>_.
         cmd_then (cmd_put (put_each (\<lambda>m. put_line (''  '' @ m)) mrtds)) (\<lambda>_. ok)))
     | Get_Mrtd mrtd base64 json \<Rightarrow>
         cmd_then (or_endorsement_error ''failed to get endorsement: ''
           (thim_get_endorsement (cv_platform env) base_url mrtd)) (\<lambda>resp.
         write_endorsement env resp base64 json)
     | From_Report path base64 json \<Rightarrow>
         cmd_then (read_file env ''reading '' path) (\<lambda>report_bytes. endorsement_for env base_url report_bytes base64 json)
     | From_Platform base64 json \<Rightarrow>
         with_tpm env
           (cmd_then (fetch_report env None) (\<lambda>(report, _).
            endorsement_for env base_url (cr_tee_report report) base64 json)))"

section \<open>The tool\<close>

datatype cli_command =
    CvmReport cvm_report_args
  | AkCert ak_cert_args
  | AkPub bool
  | Diagnose bool
  | TeeReport tee_report_args
  | TdQuote td_quote_args
  | IsolationEvidence bool
  | TpmEventLog "string option" "u32 list" string bool
  | ReadPcrs "u32 list"
  | GuestAttest guest_attest_args
  | TeeAttest tee_attest_args
  | EndorsementCmd endorsement_action string

fun dispatch :: "'s cli_env \<Rightarrow> cli_command \<Rightarrow> ('s, cli_error, nat) cmd" where
  "dispatch env (CvmReport args) = cvm_report_command env args"
| "dispatch env (AkCert args) = ak_cert_command env args"
| "dispatch env (AkPub as_hex) = ak_pub_command env as_hex"
| "dispatch env (Diagnose json) = diagnose_command env json"
| "dispatch env (TeeReport args) = tee_report_command env args"
| "dispatch env (TdQuote args) = td_quote_command env args"
| "dispatch env (IsolationEvidence base64) = isolation_evidence_command env base64"
| "dispatch env (TpmEventLog path pcr_index algorithm verify) = event_log_command env path pcr_index algorithm verify"
| "dispatch env (ReadPcrs pcr_index) = read_pcrs_command env pcr_index"
| "dispatch env (GuestAttest args) = guest_attest_command env args"
| "dispatch env (TeeAttest args) = tee_attest_command env args"
| "dispatch env (EndorsementCmd action region) = endorsement_command env action region"

text \<open>The result is the exit code of a run that ends regularly.\<close>

definition cli_main :: "'s cli_env \<Rightarrow> cli_command \<Rightarrow> ('s, cli_error, nat) cmd" where
  "cli_main env command = cmd_then (try_io (cv_create_out env)) (\<lambda>_. dispatch env command)"

end
