(* ===== verification/Web_Api.thy ===== *)
theory Web_Api
  imports Attest_Tool_Main "HOL-Library.AList"
begin

text \<open>
  The handlers of the web front end \<open>tools/azure-guest-attest-web\<close>: what each endpoint of the REST
  interface answers. A handler runs as a blocking task; a panic of the task is an error answer. HTTP itself,
  the deserialization of requests, the files and the text of JSON values are parameters.
\<close>

section \<open>Answers\<close>

record api_response =
  ap_success :: bool
  ap_data :: "json_value option"
  ap_error :: "string option"

definition api_ok :: "json_value \<Rightarrow> api_response" where
  "api_ok data = \<lparr>ap_success = True, ap_data = Some data, ap_error = None\<rparr>"

definition api_err :: "string \<Rightarrow> api_response" where
  "api_err msg = \<lparr>ap_success = False, ap_data = None, ap_error = Some msg\<rparr>"

record 's web_env =
  wb_platform :: "'s platform"
  wb_open :: "('s, io_error, unit) st"
  wb_hex :: "bytes \<Rightarrow> string"
  wb_hex_decode :: "string \<Rightarrow> string + bytes"
  wb_claims_json :: "runtime_claims \<Rightarrow> json_value"
  wb_arch :: string
  wb_exists :: "string \<Rightarrow> 's \<Rightarrow> bool"
  wb_read :: "string \<Rightarrow> 's \<Rightarrow> (io_error + bytes) \<times> 's"
  wb_hash :: hash_functions
  wb_event_json :: "rs_str \<Rightarrow> string + json_text_event"
  wb_checks :: bool
  wb_frames :: nat
  wb_panic_text :: string

abbreviation web_tpm :: "'s web_env \<Rightarrow> 's transport" where "web_tpm env \<equiv> pf_tpm (wb_platform env)"

text \<open>
  The body of a handler: undefined (\<open>None\<close>), a panic, or an answer. Each fallible call is matched: its error ends the
  body with an error answer.
\<close>

type_synonym 's handler = "'s \<Rightarrow> ((unit, api_response) res \<times> 's) option"

definition reply :: "api_response \<Rightarrow> 's handler" where
  "reply r s = Some (Inr r, s)"

definition web_match ::
    "('s \<Rightarrow> (('e, 'a) res \<times> 's) option) \<Rightarrow> ('e \<Rightarrow> 's handler) \<Rightarrow> ('a \<Rightarrow> 's handler) \<Rightarrow> 's handler" where
  "web_match m on_err on_ok s =
     (case m s of
        None \<Rightarrow> None
      | Some (Inl Panic, s') \<Rightarrow> Some (Inl Panic, s')
      | Some (Inl (Fail e), s') \<Rightarrow> on_err e s'
      | Some (Inr x, s') \<Rightarrow> on_ok x s')"

definition web_st :: "('s, 'e, 'a) st \<Rightarrow> 's \<Rightarrow> (('e, 'a) res \<times> 's) option" where
  "web_st m s = Some (m s)"

definition web_res :: "('e, 'a) res \<Rightarrow> 's \<Rightarrow> (('e, 'a) res \<times> 's) option" where
  "web_res r s = Some (r, s)"

definition or_err :: "string \<Rightarrow> ('s, io_error, 'a) st \<Rightarrow> ('a \<Rightarrow> 's handler) \<Rightarrow> 's handler" where
  "or_err what m k = web_match (web_st m) (\<lambda>e. reply (api_err (what @ io_error_display e))) k"

definition with_open_tpm :: "'s web_env \<Rightarrow> 's handler \<Rightarrow> 's handler" where
  "with_open_tpm env k = or_err ''Failed to open TPM: '' (wb_open env) (\<lambda>_. k)"

text \<open>\<open>CvmAttestationReport::parse_with_runtime_claims\<close> of a raw report.\<close>

definition web_parse_report ::
    "'s web_env \<Rightarrow> bytes \<Rightarrow> (cvm_attestation_report \<times> runtime_claims option \<Rightarrow> 's handler) \<Rightarrow> 's handler" where
  "web_parse_report env raw k =
     web_match (\<lambda>s. map_option (\<lambda>r. (r, s)) (parse_with_runtime_claims (pf_claims (wb_platform env)) raw))
       (\<lambda>e. reply (api_err (''Failed to parse CVM report: '' @ io_error_display e))) k"

definition spawned :: "'s web_env \<Rightarrow> 's handler \<Rightarrow> 's \<Rightarrow> (api_response \<times> 's) option" where
  "spawned env body s =
     (case body s of
        None \<Rightarrow> None
      | Some (Inl _, s') \<Rightarrow> Some (api_err (''Task failed: '' @ wb_panic_text env), s')
      | Some (Inr r, s') \<Rightarrow> Some (r, s'))"

definition json_nat :: "nat \<Rightarrow> json_value" where
  "json_nat n = J_Number (fmt_dec n)"

definition json_message :: "string \<Rightarrow> json_value" where
  "json_message msg = J_Object [(''message'', J_String msg)]"

definition pcr_name :: "u32 \<Rightarrow> string" where
  "pcr_name idx = ''PCR['' @ fmt_dec (unat idx) @ '']''"

text \<open>\<open>collect\<close> into a \<open>serde_json::Map\<close>: a later entry replaces an earlier one.\<close>

definition json_map :: "(string \<times> json_value) list \<Rightarrow> json_value" where
  "json_map kvs = J_Object (foldl (\<lambda>m (k, v). AList.update k v m) [] kvs)"

section \<open>Arguments\<close>

definition web_truncate :: "rs_str \<Rightarrow> bytes" where
  "web_truncate s = take 64 (str_bytes s)"

definition web_decode_hex :: "'s web_env \<Rightarrow> rs_str \<Rightarrow> (string, bytes option) res" where
  "web_decode_hex env s =
     (case wb_hex_decode env (char_text s) of
        Inr d \<Rightarrow> Inr (Some d)
      | Inl e \<Rightarrow> Inl (Fail (''Invalid hex: '' @ e)))"

definition parse_user_data_opt :: "'s web_env \<Rightarrow> rs_str option \<Rightarrow> (string, bytes option) res" where
  "parse_user_data_opt env input =
     (case input of
        None \<Rightarrow> Inr None
      | Some input \<Rightarrow>
          if input = [] then Inr None
          else
            case strip_prefix (ascii_str ''hex:'') input of
              Some hex_str \<Rightarrow> web_decode_hex env hex_str
            | None \<Rightarrow>
            case strip_prefix (ascii_str ''utf8:'') input of
              Some utf8_str \<Rightarrow> Inr (Some (web_truncate utf8_str))
            | None \<Rightarrow>
              if str_len input mod 2 = 0 \<and> list_all is_ascii_hexdigit input then web_decode_hex env input
              else Inr (Some (web_truncate input)))"

text \<open>Parts that are no number are skipped; without a text all 24 indices are meant.\<close>

definition parse_pcr_indices :: "string option \<Rightarrow> u32 list" where
  "parse_pcr_indices input =
     (case input of
        None \<Rightarrow> map of_nat [0..<24]
      | Some s \<Rightarrow>
          if s = [] then map of_nat [0..<24]
          else List.map_filter (\<lambda>p. parse_u32 (char_text (str_trim (text_chars p)))) (split_on CHR '','' [] s))"

fun web_pem_lines :: "bytes list \<Rightarrow> string" where
  "web_pem_lines [] = []"
| "web_pem_lines (chunk # rest) =
     (case from_utf8 0 chunk of Inr text \<Rightarrow> char_text text | Inl _ \<Rightarrow> []) @ [CHR 10] @ web_pem_lines rest"

definition web_der_to_pem :: "(bytes \<Rightarrow> string) \<Rightarrow> string \<Rightarrow> bytes \<Rightarrow> string" where
  "web_der_to_pem b64 label der =
     writeln (''-----BEGIN '' @ label @ ''-----'') @ web_pem_lines (chunks 64 (ascii_bytes (b64 der))) @
     ''-----END '' @ label @ ''-----''"

definition web_load_event_log :: "'s web_env \<Rightarrow> ('s, io_error, bytes option) st" where
  "web_load_event_log env s =
     (let os = pf_os (wb_platform env);
          candidate =
            (if os = ''linux'' then Some ''/sys/kernel/security/tpm0/binary_bios_measurements''
             else if os = ''windows'' then
               Some (''C:'' @ [CHR 92] @ ''Windows'' @ [CHR 92] @ ''Logs'' @ [CHR 92] @ ''MeasuredBoot'' @ [CHR 92] @
                 ''0000000001-0000000000.log'')
             else None)
      in case candidate of
           None \<Rightarrow> (Inr None, s)
         | Some path \<Rightarrow>
             if wb_exists env path s then
               (case wb_read env path s of
                  (Inl e, s') \<Rightarrow> (Inl (Fail e), s')
                | (Inr d, s') \<Rightarrow> (Inr (Some d), s'))
             else (Inr None, s))"

definition event_type_name :: "u32 \<Rightarrow> string" where
  "event_type_name event_type =
     (case map_of
        [(0x00000000, ''EV_PREBOOT_CERT''), (0x00000001, ''EV_POST_CODE''), (0x00000002, ''EV_UNUSED''),
         (0x00000003, ''EV_NO_ACTION''), (0x00000004, ''EV_SEPARATOR''), (0x00000005, ''EV_ACTION''),
         (0x00000006, ''EV_EVENT_TAG''), (0x00000007, ''EV_S_CRTM_CONTENTS''), (0x00000008, ''EV_S_CRTM_VERSION''),
         (0x00000009, ''EV_CPU_MICROCODE''), (0x0000000A, ''EV_PLATFORM_CONFIG_FLAGS''),
         (0x0000000B, ''EV_TABLE_OF_DEVICES''), (0x0000000C, ''EV_COMPACT_HASH''), (0x0000000D, ''EV_IPL''),
         (0x0000000E, ''EV_IPL_PARTITION_DATA''), (0x0000000F, ''EV_NONHOST_CODE''), (0x00000010, ''EV_NONHOST_CONFIG''),
         (0x00000011, ''EV_NONHOST_INFO''), (0x00000012, ''EV_OMIT_BOOT_DEVICE_EVENTS''),
         (0x80000001, ''EV_EFI_VARIABLE_DRIVER_CONFIG''), (0x80000002, ''EV_EFI_VARIABLE_BOOT''),
         (0x80000003, ''EV_EFI_BOOT_SERVICES_APPLICATION''), (0x80000004, ''EV_EFI_BOOT_SERVICES_DRIVER''),
         (0x80000005, ''EV_EFI_RUNTIME_SERVICES_DRIVER''), (0x80000006, ''EV_EFI_GPT_EVENT''),
         (0x80000007, ''EV_EFI_ACTION''), (0x80000008, ''EV_EFI_PLATFORM_FIRMWARE_BLOB''),
         (0x80000009, ''EV_EFI_HANDOFF_TABLES''), (0x8000000A, ''EV_EFI_PLATFORM_FIRMWARE_BLOB2''),
         (0x8000000B, ''EV_EFI_HANDOFF_TABLES2''), (0x8000000C, ''EV_EFI_VARIABLE_BOOT2''),
         (0x8000000E, ''EV_EFI_HCRTM_EVENT''), (0x80000010, ''EV_EFI_VARIABLE_AUTHORITY''),
         (0x80000011, ''EV_EFI_SPDM_FIRMWARE_BLOB''), (0x80000012, ''EV_EFI_SPDM_FIRMWARE_CONFIG'')] event_type of
        Some name \<Rightarrow> name
      | None \<Rightarrow> ''UNKNOWN'')"

section \<open>Diagnosis and reports\<close>

definition api_diagnose :: "'s web_env \<Rightarrow> 's handler" where
  "api_diagnose env =
     (let info = [(''os'', J_String (pf_os (wb_platform env))), (''arch'', J_String (wb_arch env))];
          status = (\<lambda>available msg. [(''tpm_available'', J_Bool available), (''tpm_status'', J_String msg)]);
          detect = (\<lambda>info.
            web_match (web_st (wb_open env)) (\<lambda>_. reply (api_ok (J_Object info))) (\<lambda>_.
            web_match (get_cvm_report (pf_claims (wb_platform env)) (web_tpm env) None)
              (\<lambda>e. reply (api_ok (J_Object (info @ [(''cvm_type'',
                 J_String (''Not detected ('' @ io_error_display e @ '')''))]))))
              (\<lambda>(report, _). reply (api_ok (J_Object (info @ [(''cvm_type'',
                 J_String (report_type_debug (rc_report_type (cr_runtime_claims_header report))))]))))))
      in web_match (web_st (wb_open env))
           (\<lambda>e. detect (info @ status False (''Failed to open TPM: '' @ io_error_display e)))
           (\<lambda>_. detect (info @ status True ''TPM opened successfully'')))"

text \<open>The printed report; a report that cannot be parsed is left out.\<close>

definition optional_pretty :: "cvm_report_type \<Rightarrow> bytes \<Rightarrow> (unit, string option) res" where
  "optional_pretty rtype bs =
     (case pretty_tee_report rtype bs of
        Some (Inr t) \<Rightarrow> Inr (Some t)
      | Some (Inl Panic) \<Rightarrow> Inl Panic
      | _ \<Rightarrow> Inr None)"

definition report_header_json :: "cvm_attestation_report \<Rightarrow> json_value" where
  "report_header_json report =
     (let rh = cr_report_header report in
      J_Object
        [(''signature'', J_String (''0x'' @ fmt_08x (ch_signature rh))), (''version'', json_u32 (ch_version rh)),
         (''report_size'', json_u32 (ch_report_size rh)), (''request_type'', J_String (request_type_debug (ch_request_type rh))),
         (''status'', J_String (''0x'' @ fmt_08x (ch_status rh)))])"

definition claims_header_json :: "cvm_attestation_report \<Rightarrow> json_value" where
  "claims_header_json report =
     (let rch = cr_runtime_claims_header report in
      J_Object
        [(''data_size'', json_u32 (rc_data_size rch)), (''version'', json_u32 (rc_version rch)),
         (''report_type'', J_String (report_type_debug (rc_report_type rch))),
         (''report_data_hash_type'', J_String (hash_type_debug (rc_report_data_hash_type rch))),
         (''variable_data_size'', json_u32 (rc_variable_data_size rch))])"

definition tee_report_fields ::
    "'s web_env \<Rightarrow> cvm_attestation_report \<Rightarrow> (unit, (string \<times> json_value) list) res" where
  "tee_report_fields env report =
     (let rtype = rc_report_type (cr_runtime_claims_header report);
          expected = tee_report_size rtype
      in if 0 < expected \<and> expected \<le> length (cr_tee_report report) then
           and_then (optional_pretty rtype (take expected (cr_tee_report report))) (\<lambda>pretty.
           Inr ((case pretty of Some t \<Rightarrow> [(''tee_report_pretty'', J_String t)] | None \<Rightarrow> []) @
                [(''tee_report_hex'', J_String (wb_hex env (take expected (cr_tee_report report))))]))
         else Inr [])"

definition cvm_report_json ::
    "'s web_env \<Rightarrow> bytes \<Rightarrow> cvm_attestation_report \<Rightarrow> runtime_claims option \<Rightarrow> (string \<times> json_value) list \<Rightarrow> json_value" where
  "cvm_report_json env raw_bytes report claims tee =
     J_Object
       ([(''report_header'', report_header_json report)] @ tee @
        [(''runtime_claims_header'', claims_header_json report),
         (''runtime_claims'', (case claims of Some c \<Rightarrow> wb_claims_json env c | None \<Rightarrow> J_Null)),
         (''raw_report_hex'', J_String (wb_hex env raw_bytes))])"

definition api_cvm_report :: "'s web_env \<Rightarrow> rs_str option \<Rightarrow> 's handler" where
  "api_cvm_report env user_data =
     with_open_tpm env
       (web_match (web_res (parse_user_data_opt env user_data)) (\<lambda>e. reply (api_err e)) (\<lambda>ud_vec.
        or_err ''Failed to get CVM report: '' (get_cvm_report_raw (web_tpm env) ud_vec) (\<lambda>raw_bytes.
        web_parse_report env raw_bytes (\<lambda>(report, claims).
        web_match (web_res (tee_report_fields env report)) (\<lambda>_. reply (api_err [])) (\<lambda>tee.
        reply (api_ok (cvm_report_json env raw_bytes report claims tee)))))))"

definition api_tee_report :: "'s web_env \<Rightarrow> rs_str option \<Rightarrow> 's handler" where
  "api_tee_report env user_data =
     with_open_tpm env
       (web_match (web_res (parse_user_data_opt env user_data)) (\<lambda>e. reply (api_err e)) (\<lambda>ud_vec.
        web_match (get_tee_report_and_type (pf_claims (wb_platform env)) (web_tpm env) ud_vec)
          (\<lambda>e. reply (api_err (''Failed to get TEE report: '' @ io_error_display e))) (\<lambda>(tee_bytes, rtype).
        if tee_bytes = [] then
          reply (api_ok (J_Object
            [(''report_type'', J_String (report_type_debug rtype)),
             (''message'', J_String ''No TEE report payload for this report type'')]))
        else
          web_match (web_res (optional_pretty rtype tee_bytes)) (\<lambda>_. reply (api_err [])) (\<lambda>pretty.
          reply (api_ok (J_Object
            ([(''report_type'', J_String (report_type_debug rtype)), (''raw_hex'', J_String (wb_hex env tee_bytes)),
              (''size_bytes'', json_nat (length tee_bytes))] @
             (case pretty of Some p \<Rightarrow> [(''pretty'', J_String p)] | None \<Rightarrow> []))))))))"

definition api_ak_cert :: "'s web_env \<Rightarrow> 's handler" where
  "api_ak_cert env =
     with_open_tpm env
       (or_err ''Failed to get AK cert: '' (get_ak_cert_trimmed (web_tpm env)) (\<lambda>cert.
        if cert = [] then reply (api_ok (json_message ''AK cert NV index empty or not defined''))
        else reply (api_ok (J_Object
          [(''pem'', J_String (web_der_to_pem (pf_b64_std (wb_platform env)) ''CERTIFICATE'' cert)),
           (''base64'', J_String (pf_b64_std (wb_platform env) cert)), (''size_bytes'', json_nat (length cert))]))))"

definition api_ak_pub :: "'s web_env \<Rightarrow> 's handler" where
  "api_ak_pub env =
     with_open_tpm env
       (or_err ''Failed to get AK pub: '' (get_ak_pub (web_tpm env)) (\<lambda>pub_area.
        reply (api_ok (J_Object
          [(''hex'', J_String (wb_hex env pub_area)), (''size_bytes'', json_nat (length pub_area))]))))"

end
