(* ===== verification/Sample_Platform.thy ===== *)
theory Sample_Platform
  imports Guest_Attest Tpm_Session_Facts
begin

text \<open>
  A platform around a TPM on which the properties of the client are witnessed: every HTTP request
  succeeds with an empty object, files cannot be read, and the codecs are constant.
\<close>

definition sample_platform :: "'s transport \<Rightarrow> 's platform" where
  "sample_platform tr =
     \<lparr>pf_tpm = tr, pf_random = demo_random, pf_sha256 = id, pf_aead = Aes_Gcm_Crate (\<lambda>_ _ _ _. Inl ''no''),
      pf_claims = (\<lambda>_. None), pf_json_text = (\<lambda>_. ''{}''), pf_json_parse = (\<lambda>_. Inl ''no''),
      pf_b64_std = (\<lambda>_. ''b''), pf_b64_std_decode = (\<lambda>_. Inl ''no''), pf_b64_url = (\<lambda>_. ''b''),
      pf_b64_url_decode = (\<lambda>_. Inl ''no''), pf_hex_upper = (\<lambda>_. []), pf_uppercase = id,
      pf_client_error = None, pf_url_error = (\<lambda>_. None),
      pf_http = (\<lambda>_ s. (Inr \<lparr>ht_status = 200, ht_status_text = ''200 OK'', ht_header = (\<lambda>_. None),
        ht_text = Inr [], ht_json = Inr (J_Object []), ht_body = Inr [], ht_mrtds = Inr []\<rparr>, s)),
      pf_sleep = (\<lambda>_ s. s), pf_os = ''windows'', pf_read_file = (\<lambda>_ s. (None, s)), pf_wbcl = (\<lambda>s. ([], s))\<rparr>"

end
