(* ===== verification/Fmspc_Resolver.thy ===== *)
theory Fmspc_Resolver
  imports Sample_Platform
begin

text \<open>
  The collateral lookup of \<open>tee_report/fmspc_resolver.rs\<close>: the request for the TCB information of an
  FMSPC, its answer, and the two byte codecs it uses; \<open>attestation_token\<close> of \<open>parse.rs\<close>, which
  reads the claims of a token.
\<close>

section \<open>Hexadecimal and percent encoding\<close>

definition HEX_UPPER :: string where "HEX_UPPER = ''0123456789ABCDEF''"

fun hex_encode_upper :: "bytes \<Rightarrow> string" where
  "hex_encode_upper [] = []"
| "hex_encode_upper (b # bs) =
     HEX_UPPER ! unat (drop_bit 4 b) # HEX_UPPER ! unat (b AND 0x0F) # hex_encode_upper bs"

definition from_hex :: "u8 \<Rightarrow> u8 option" where
  "from_hex b =
     (if 48 \<le> b \<and> b \<le> 57 then Some (b - 48)
      else if 97 \<le> b \<and> b \<le> 102 then Some (10 + b - 97)
      else if 65 \<le> b \<and> b \<le> 70 then Some (10 + b - 65)
      else None)"

text \<open>The loop at one position: an escape needs two digits behind the percent sign, anything
  else is passed through.\<close>

fun percent_decode :: "bytes \<Rightarrow> bytes" where
  "percent_decode (b # h # l # rest) =
     (if b = 0x25 then
        (case (from_hex h, from_hex l) of
           (Some hi, Some lo) \<Rightarrow> (push_bit 4 hi OR lo) # percent_decode rest
         | _ \<Rightarrow> b # percent_decode (h # l # rest))
      else b # percent_decode (h # l # rest))"
| "percent_decode (b # rest) = b # percent_decode rest"
| "percent_decode [] = []"

section \<open>The resolver\<close>

definition AZURE_THIM_GLOBAL_BASE_URL :: string where
  "AZURE_THIM_GLOBAL_BASE_URL = ''https://global.acccache.azure.net''"

definition INTEL_PCS_V4_BASE_URL :: string where
  "INTEL_PCS_V4_BASE_URL = ''https://api.trustedservices.intel.com''"

datatype tee_kind = Tee_Sgx | Tee_Tdx

fun path_segment :: "tee_kind \<Rightarrow> string" where
  "path_segment Tee_Sgx = ''sgx''"
| "path_segment Tee_Tdx = ''tdx''"

record tcb_info_response =
  tr_fmspc :: string
  tr_tcb_info :: json_value
  tr_signature :: string
  tr_issuer_chain :: "bytes option"

definition fmspc_resolver_with_base_url :: "'s platform \<Rightarrow> string \<Rightarrow> ('e, string) res" where
  "fmspc_resolver_with_base_url pf base_url = and_then (new_client pf) (\<lambda>_. Inr base_url)"

definition fmspc_resolver_new :: "'s platform \<Rightarrow> ('e, string) res" where
  "fmspc_resolver_new pf = fmspc_resolver_with_base_url pf AZURE_THIM_GLOBAL_BASE_URL"

definition tcb_info_url :: "string \<Rightarrow> tee_kind \<Rightarrow> bytes \<Rightarrow> string" where
  "tcb_info_url base_url tee fmspc =
     trim_end_slashes base_url @ ''/'' @ path_segment tee @ ''/certification/v4/tcb?fmspc='' @ hex_encode_upper fmspc"

definition issuer_chain_of :: "http_reply \<Rightarrow> bytes option" where
  "issuer_chain_of resp =
     (let header = (case ht_header resp ''TCB-Info-Issuer-Chain'' of
                      Some v \<Rightarrow> Some v
                    | None \<Rightarrow> ht_header resp ''SGX-TCB-Info-Issuer-Chain'')
      in map_option (\<lambda>s. percent_decode (ascii_bytes s)) (Option.bind header id))"

definition tcb_info_of_json :: "string \<Rightarrow> bytes option \<Rightarrow> json_value \<Rightarrow> tcb_info_response io_res" where
  "tcb_info_of_json hex_fmspc issuer_chain parsed =
     (case json_get parsed ''tcbInfo'' of
        None \<Rightarrow> io_fail OtherKind ''TCB info response missing `tcbInfo`''
      | Some tcb_info \<Rightarrow>
          Inr \<lparr>tr_fmspc = (case get_str tcb_info ''fmspc'' of Some f \<Rightarrow> f | None \<Rightarrow> hex_fmspc),
               tr_tcb_info = tcb_info,
               tr_signature = (case get_str parsed ''signature'' of Some sig \<Rightarrow> sig | None \<Rightarrow> []),
               tr_issuer_chain = issuer_chain\<rparr>)"

definition fetch_tcb_info :: "'s platform \<Rightarrow> string \<Rightarrow> tee_kind \<Rightarrow> bytes \<Rightarrow> ('s, io_error, tcb_info_response) st" where
  "fetch_tcb_info pf base_url tee fmspc =
     (let url = tcb_info_url base_url tee fmspc
      in st_then (send pf (''TCB info request failed ('' @ url @ '')'')
           \<lparr>rq_post = False, rq_url = url, rq_headers = [], rq_json = None\<rparr>) (\<lambda>resp.
         st_res
           (and_then (text_or ''TCB info read failed'' (ht_text resp)) (\<lambda>body.
            if \<not> is_success resp
            then io_fail OtherKind (''TCB info returned status '' @ ht_status_text resp @ '': '' @ body)
            else
              (case pf_json_parse pf body of
                 Inl e \<Rightarrow> io_fail OtherKind (''TCB info body is not JSON: '' @ e @ '': '' @ body)
               | Inr parsed \<Rightarrow>
                   tcb_info_of_json (hex_encode_upper fmspc) (issuer_chain_of resp) parsed)))))"

definition sgx_tcb_info :: "'s platform \<Rightarrow> string \<Rightarrow> bytes \<Rightarrow> ('s, io_error, tcb_info_response) st" where
  "sgx_tcb_info pf base_url = fetch_tcb_info pf base_url Tee_Sgx"

definition tdx_tcb_info :: "'s platform \<Rightarrow> string \<Rightarrow> bytes \<Rightarrow> ('s, io_error, tcb_info_response) st" where
  "tdx_tcb_info pf base_url = fetch_tcb_info pf base_url Tee_Tdx"

section \<open>Token claims\<close>

record token_claims =
  tk_header :: json_value
  tk_payload :: json_value

definition jwt_segment :: "'s platform \<Rightarrow> string \<Rightarrow> string \<Rightarrow> json_value sdk_res" where
  "jwt_segment pf what part =
     (case pf_b64_url_decode pf part of
        Inl e \<Rightarrow> Inl (Fail (Sdk_Parse (what @ '' base64: '' @ e)))
      | Inr d \<Rightarrow>
          (case pf_json_parse pf (bytes_text d) of
             Inl e \<Rightarrow> Inl (Fail (Sdk_Parse (what @ '' json: '' @ e)))
           | Inr v \<Rightarrow> Inr v))"

definition attestation_token :: "'s platform \<Rightarrow> string \<Rightarrow> token_claims sdk_res" where
  "attestation_token pf token =
     (let parts = split_on CHR ''.'' [] token
      in if length parts < 2
         then Inl (Fail (Sdk_Parse ''JWT must have at least header.payload parts''))
         else
           and_then (jwt_segment pf ''header'' (parts ! 0)) (\<lambda>header.
           and_then (jwt_segment pf ''payload'' (parts ! 1)) (\<lambda>payload.
           Inr \<lparr>tk_header = header, tk_payload = payload\<rparr>)))"

section \<open>What a lookup returns\<close>

text \<open>The encoding of a certificate chain in a header: every byte that is not kept is escaped.\<close>

fun percent_encode :: "(u8 \<Rightarrow> bool) \<Rightarrow> bytes \<Rightarrow> bytes" where
  "percent_encode keep [] = []"
| "percent_encode keep (b # bs) =
     (if keep b then b # percent_encode keep bs
      else 0x25 # ascii_bytes (hex_encode_upper [b]) @ percent_encode keep bs)"

lemma percent_decode_plain: "b \<noteq> 0x25 \<Longrightarrow> percent_decode (b # bs) = b # percent_decode bs"
  by (cases bs; cases "tl bs") auto

lemma from_hex_digit:
  assumes "n < 16"
  shows "from_hex (of_char (HEX_UPPER ! n)) = Some (of_nat n)"
proof -
  have "\<forall>n \<in> set [0..<16]. from_hex (of_char (HEX_UPPER ! n)) = Some (of_nat n)"
    by code_simp
  with assms show ?thesis by simp
qed

lemma nibbles_join: "push_bit 4 (drop_bit 4 (b :: u8)) OR (b AND 0x0F) = b"
proof -
  have "(0x0F :: u8) = mask 4" by (simp add: mask_eq_exp_minus_1)
  then have "b AND 0x0F = take_bit 4 b" by (simp add: take_bit_eq_mask)
  then show ?thesis by (auto intro!: bit_word_eqI simp: bit_simps)
qed

lemma nibble_bounds: "unat (drop_bit 4 (b :: u8)) < 16" "unat (b AND 0x0F :: u8) < 16"
proof -
  show "unat (drop_bit 4 b) < 16"
    using unat_u8_bound [of b] by (simp only: unat_drop_bit_eq) (simp add: drop_bit_eq_div)
  have "b AND 0x0F \<le> 0x0F" by (rule word_and_le1)
  then show "unat (b AND 0x0F) < 16" by (simp add: word_le_nat_alt)
qed

lemma percent_decode_escape:
  "percent_decode (0x25 # ascii_bytes (hex_encode_upper [b]) @ bs) = b # percent_decode bs"
  using from_hex_digit [OF nibble_bounds(1) [of b]] from_hex_digit [OF nibble_bounds(2) [of b]]
  by (simp add: ascii_bytes_def nibbles_join)

lemma percent_round_trip: "\<not> keep 0x25 \<Longrightarrow> percent_decode (percent_encode keep bs) = bs"
proof (induction bs)
  case (Cons b bs)
  show ?case
  proof (cases "keep b")
    case True
    then have "b \<noteq> 0x25" using Cons.prems by auto
    then show ?thesis using True Cons by (simp add: percent_decode_plain del: percent_decode.simps)
  qed (use Cons percent_decode_escape in \<open>simp del: percent_decode.simps hex_encode_upper.simps\<close>)
qed simp

text \<open>
  When the service answers the one request made for an FMSPC with a JSON object that
  has the member \<open>tcbInfo\<close>, the result is that member, its signature, the FMSPC it names
  (else the one asked for), and the issuer chain, byte for byte, that the header carries
  percent-encoded.
\<close>

theorem tcb_info_fetched:
  assumes "pf_http pf \<lparr>rq_post = False, rq_url = tcb_info_url base tee fmspc, rq_headers = [], rq_json = None\<rparr> s = (Inr resp, s')"
    and "is_success resp" "ht_text resp = Inr body" "pf_json_parse pf body = Inr doc"
    and "json_get doc ''tcbInfo'' = Some info" "get_str doc ''signature'' = Some sig"
    and "\<not> keep 0x25" "ht_header resp ''TCB-Info-Issuer-Chain'' = Some (Some (bytes_text (percent_encode keep chain)))"
  shows "fetch_tcb_info pf base tee fmspc s =
    (Inr \<lparr>tr_fmspc = (case get_str info ''fmspc'' of Some f \<Rightarrow> f | None \<Rightarrow> hex_encode_upper fmspc),
          tr_tcb_info = info, tr_signature = sig, tr_issuer_chain = Some chain\<rparr>, s')"
proof -
  have "issuer_chain_of resp = Some chain"
    using assms(7,8) by (simp add: issuer_chain_of_def percent_round_trip ascii_bytes_text)
  with assms(1-6) show ?thesis
    by (simp add: fetch_tcb_info_def send_def st_then_def text_or_def tcb_info_of_json_def Let_def)
qed

definition sample_info :: json_value where
  "sample_info = J_Object [(''fmspc'', J_String ''00906ED50000'')]"

definition sample_resolver :: "unit platform" where
  "sample_resolver = (sample_platform (\<lambda>_ s. (Inr [], s)))
     \<lparr>pf_http := (\<lambda>rq s. (Inr \<lparr>ht_status = 200, ht_status_text = ''200 OK'',
        ht_header = [''TCB-Info-Issuer-Chain'' \<mapsto> Some ''A%0A%25''],
        ht_text = Inr ''doc'', ht_json = Inr (J_Object []), ht_body = Inr [], ht_mrtds = Inr []\<rparr>, s)),
      pf_json_parse := (\<lambda>_. Inr (J_Object [(''tcbInfo'', sample_info), (''signature'', J_String ''ab'')]))\<rparr>"

theorem tcb_info_fetched_witness:
  "fetch_tcb_info sample_resolver ''https://host/'' Tee_Tdx [0, 0x90, 0x6E, 0xD5, 0, 0] () =
     (Inr \<lparr>tr_fmspc = ''00906ED50000'', tr_tcb_info = sample_info, tr_signature = ''ab'',
           tr_issuer_chain = Some [0x41, 0x0A, 0x25]\<rparr>, ())"
proof -
  have "bytes_text (percent_encode (\<lambda>b. b = 0x41) [0x41, 0x0A, 0x25]) = ''A%0A%25''"
    by code_simp
  from tcb_info_fetched [where keep = "\<lambda>b. b = 0x41" and chain = "[0x41, 0x0A, 0x25]" and pf = sample_resolver
      and base = "''https://host/''" and tee = Tee_Tdx and fmspc = "[0, 0x90, 0x6E, 0xD5, 0, 0]" and s = "()", unfolded this]
  show ?thesis by (simp add: sample_resolver_def is_success_def sample_info_def get_str_def)
qed

end
