(* ===== verification/Web_Attest.thy ===== *)
theory Web_Attest
  imports Web_Api Fmspc_Resolver
begin

text \<open>
  The remaining endpoints of \<open>tools/azure-guest-attest-web\<close>: PCRs and event logs, quotes, attestation, tokens and
  endorsements, and the dispatch over all of them.
\<close>

section \<open>PCRs and event logs\<close>

definition read_web_bank ::
    "'s web_env \<Rightarrow> u32 list \<Rightarrow> (string \<times> json_value) list \<times> string list \<Rightarrow> pcr_algorithm \<Rightarrow>
     ((string \<times> json_value) list \<times> string list \<Rightarrow> 's handler) \<Rightarrow> 's handler" where
  "read_web_bank env indices acc alg k =
     (let (banks, errors) = acc in
      web_match (web_st (tpm_read_pcrs_for_alg (web_tpm env) alg indices))
        (\<lambda>e. k (banks, errors @ [pcr_algorithm_display alg @ '': '' @ io_error_display e]))
        (\<lambda>values. if values \<noteq> [] then
             k (AList.update (pcr_algorithm_display alg)
                  (json_map (map (\<lambda>(idx, digest). (pcr_name idx, J_String (wb_hex env digest))) values)) banks, errors)
           else k (banks, errors)))"

definition api_pcrs :: "'s web_env \<Rightarrow> string option \<Rightarrow> 's handler" where
  "api_pcrs env indices_str =
     with_open_tpm env
       (let indices = parse_pcr_indices indices_str in
        read_web_bank env indices ([], []) Pcr_Sha1 (\<lambda>acc.
        read_web_bank env indices acc Pcr_Sha256 (\<lambda>acc.
        read_web_bank env indices acc Pcr_Sha384 (\<lambda>(banks, errors).
        reply (api_ok (J_Object
          ([(''banks'', J_Object banks)] @
           (if errors \<noteq> [] then [(''notes'', J_Array (map J_String errors))] else [])))))))) "

text \<open>\<open>event_log::parse_event_log\<close> of the platform's log; the two handlers differ in what a missing log means.\<close>

definition with_web_log ::
    "'s web_env \<Rightarrow> api_response \<Rightarrow> (event list \<Rightarrow> 's handler) \<Rightarrow> 's handler" where
  "with_web_log env missing k =
     or_err ''Failed to load event log: '' (web_load_event_log env) (\<lambda>log.
     case log of
       None \<Rightarrow> reply missing
     | Some log_bytes \<Rightarrow>
         web_match (web_res (parse_event_log (wb_event_json env) (wb_hex_decode env) log_bytes))
           (\<lambda>e. reply (api_err (''Failed to parse event log: '' @ io_error_display e))) k)"

definition event_json :: "'s web_env \<Rightarrow> event \<Rightarrow> json_value" where
  "event_json env evt =
     (let digest =
        (case digest_for_algorithm evt Pcr_Sha256 of
           Some d \<Rightarrow> Some d
         | None \<Rightarrow> (case ev_digests evt of [] \<Rightarrow> None | d # _ \<Rightarrow> Some (ed_digest d)))
      in J_Object
        [(''pcr_index'', json_u32 (ev_pcr_index evt)),
         (''event_type'', J_String (''0x'' @ fmt_08x (ev_event_type evt))),
         (''event_type_name'', J_String (event_type_name (ev_event_type evt))),
         (''digest_hex'', J_String (case digest of Some d \<Rightarrow> wb_hex env d | None \<Rightarrow> [])),
         (''event_data_size'', json_nat (length (ev_event_data evt)))])"

definition web_replay :: "'s web_env \<Rightarrow> event list \<Rightarrow> (u32 \<times> bytes) list" where
  "web_replay env events =
     btree_entries (map ev_pcr_index events) (replay_pcrs (wb_hash env) events Pcr_Sha256)"

definition api_event_log :: "'s web_env \<Rightarrow> 's handler" where
  "api_event_log env =
     with_web_log env (api_ok (json_message ''No event log found at standard platform locations'')) (\<lambda>events.
     reply (api_ok (J_Object
       [(''event_count'', json_nat (length events)), (''events'', J_Array (map (event_json env) events)),
        (''replayed_pcrs_sha256'',
          json_map (map (\<lambda>(idx, digest). (pcr_name idx, J_String (wb_hex env digest))) (web_replay env events)))])))"

text \<open>The raw download: the file, or a status code with a text.\<close>

datatype raw_answer = Octet_Stream bytes | Status_Text nat string

definition api_event_log_raw :: "'s web_env \<Rightarrow> 's \<Rightarrow> raw_answer \<times> 's" where
  "api_event_log_raw env s =
     (case web_load_event_log env s of
        (Inr (Some bs), s') \<Rightarrow> (Octet_Stream bs, s')
      | (Inr None, s') \<Rightarrow> (Status_Text 404 ''No event log found at standard platform locations'', s')
      | (Inl (Fail e), s') \<Rightarrow> (Status_Text 500 (''Failed to load event log: '' @ io_error_display e), s')
      | (Inl Panic, s') \<Rightarrow> (Status_Text 500 (''Task failed: '' @ wb_panic_text env), s'))"

text \<open>One comparison of \<open>api_verify_pcrs\<close>.\<close>

definition pcr_comparison ::
    "'s web_env \<Rightarrow> (u32 \<times> bytes) list \<Rightarrow> (u32 \<times> bytes) list \<Rightarrow> u32 \<Rightarrow> bool \<times> json_value" where
  "pcr_comparison env replayed live_pcrs idx =
     (let replayed_hex = map_option (wb_hex env) (map_of replayed idx);
          live_hex = map_option (wb_hex env) (map_of live_pcrs idx);
          matches = (case (replayed_hex, live_hex) of (Some a, Some b) \<Rightarrow> a = b | _ \<Rightarrow> False)
      in (matches,
          J_Object
            [(''pcr'', J_String (pcr_name idx)),
             (''replayed'', J_String (case replayed_hex of Some t \<Rightarrow> t | None \<Rightarrow> ''(not in event log)'')),
             (''tpm'', J_String (case live_hex of Some t \<Rightarrow> t | None \<Rightarrow> ''(not read)'')),
             (''match'', J_Bool matches)]))"

definition api_verify_pcrs :: "'s web_env \<Rightarrow> 's handler" where
  "api_verify_pcrs env =
     with_web_log env (api_err ''No event log found at standard platform locations'') (\<lambda>events.
     let replayed = web_replay env events in
     with_open_tpm env
       (or_err ''Failed to read TPM PCR values: ''
          (tpm_read_pcrs_for_alg (web_tpm env) Pcr_Sha256 (map fst replayed)) (\<lambda>live_pcrs.
        let all_indices = sort (remdups (map fst replayed @ map fst live_pcrs));
            comparisons = map (pcr_comparison env replayed live_pcrs) all_indices
        in reply (api_ok (J_Object
             [(''algorithm'', J_String ''SHA-256''), (''all_match'', J_Bool (list_all fst comparisons)),
              (''pcr_count'', json_nat (length comparisons)), (''comparisons'', J_Array (map snd comparisons))])))))"

section \<open>Quotes and evidence\<close>

definition web_raw_report ::
    "'s web_env \<Rightarrow> (cvm_attestation_report \<Rightarrow> 's handler) \<Rightarrow> 's handler" where
  "web_raw_report env k =
     with_open_tpm env
       (or_err ''Failed to get CVM report: '' (get_cvm_report_raw (web_tpm env) None) (\<lambda>raw_report.
        web_parse_report env raw_report (\<lambda>(parsed, _). k parsed)))"

definition web_b64 :: "'s web_env \<Rightarrow> bytes \<Rightarrow> bytes option" where
  "web_b64 env b = (case pf_b64_std_decode (wb_platform env) (bytes_text b) of Inr d \<Rightarrow> Some d | Inl _ \<Rightarrow> None)"

text \<open>What the parser makes of the quote: its printed form and FMSPC, or its error.\<close>

definition quote_fields :: "'s web_env \<Rightarrow> bytes \<Rightarrow> (unit, (string \<times> json_value) list) res" where
  "quote_fields env quote_bytes =
     (case parse_td_quote quote_bytes of
        Inl Panic \<Rightarrow> Inl Panic
      | Inl (Fail e) \<Rightarrow> Inr [(''parse_error'', J_String (sdk_error_display (Sdk_Quote e)))]
      | Inr q \<Rightarrow>
          and_then (pretty_td_quote (wb_checks env) (web_b64 env) (wb_hex env) q) (\<lambda>pretty.
          case quote_fmspc (wb_checks env) (web_b64 env) q of
            Inl Panic \<Rightarrow> Inl Panic
          | Inl (Fail _) \<Rightarrow> Inr [(''pretty'', J_String pretty)]
          | Inr fmspc \<Rightarrow> Inr [(''pretty'', J_String pretty), (''fmspc'', J_String (wb_hex env fmspc))]))"

definition api_td_quote :: "'s web_env \<Rightarrow> 's handler" where
  "api_td_quote env =
     web_raw_report env (\<lambda>parsed.
     let rtype = rc_report_type (cr_runtime_claims_header parsed) in
     if rtype \<noteq> TdxVmReport then
       reply (api_ok (json_message (''Not a TDX VM (detected: '' @ report_type_debug rtype @ '')'')))
     else
       or_err ''Failed to fetch TD quote from IMDS: '' (fresh_td_quote (wb_platform env) (cr_tee_report parsed))
         (\<lambda>quote_bytes.
       web_match (web_res (quote_fields env quote_bytes)) (\<lambda>_. reply (api_err [])) (\<lambda>fields.
       reply (api_ok (J_Object
         ([(''size_bytes'', json_nat (length quote_bytes)), (''hex'', J_String (wb_hex env quote_bytes)),
           (''base64'', J_String (pf_b64_std (wb_platform env) quote_bytes))] @ fields))))))"

definition api_isolation_evidence :: "'s web_env \<Rightarrow> 's handler" where
  "api_isolation_evidence env =
     web_raw_report env (\<lambda>parsed.
     case rc_report_type (cr_runtime_claims_header parsed) of
       SnpVmReport \<Rightarrow>
         or_err ''Failed to fetch VCEK chain: '' (fresh_vcek_chain (wb_platform env)) (\<lambda>bs.
         reply (api_ok (J_Object
           [(''type'', J_String ''SNP VCEK Chain''), (''hex'', J_String (wb_hex env bs)),
            (''base64'', J_String (pf_b64_std (wb_platform env) bs)), (''size_bytes'', json_nat (length bs))])))
     | TdxVmReport \<Rightarrow>
         reply (api_ok (json_message
           ''TDX isolation evidence (TD Quote) is available via the dedicated TD Quote panel.''))
     | rtype \<Rightarrow>
         reply (api_ok (json_message (''No isolation evidence for report type '' @ report_type_debug rtype))))"

section \<open>Attestation\<close>

record guest_attest_request =
  gr_provider :: string
  gr_endpoint :: "string option"
  gr_client_payload :: "string option"
  gr_pcr_indices :: "u32 list option"
  gr_decode_token :: bool

record tee_attest_request =
  tr_endpoint :: string
  tr_decode_token :: bool

definition default_provider :: string where
  "default_provider = ''loopback''"

definition default_tee_endpoint :: string where
  "default_tee_endpoint = ''https://sharedweu.weu.attest.azure.net''"

definition sdk_err :: "string \<Rightarrow> ('s, 'a) sdk_op \<Rightarrow> ('a \<Rightarrow> 's handler) \<Rightarrow> 's handler" where
  "sdk_err what m k = web_match m (\<lambda>e. reply (api_err (what @ sdk_error_display e))) k"

text \<open>The members a decoded token adds to an answer; a token that cannot be decoded adds none.\<close>

definition token_fields :: "'s web_env \<Rightarrow> string \<Rightarrow> (unit, (string \<times> json_value) list) res" where
  "token_fields env token =
     (case attestation_token (wb_platform env) token of
        Inl Panic \<Rightarrow> Inl Panic
      | Inl (Fail _) \<Rightarrow> Inr []
      | Inr claims \<Rightarrow> Inr [(''token_header'', tk_header claims), (''token_payload'', tk_payload claims)])"

definition web_provider :: "guest_attest_request \<Rightarrow> (string, provider) res" where
  "web_provider req =
     (if gr_provider req = ''loopback'' then Inr Loopback
      else if gr_provider req = ''maa'' then
        Inr (Maa (case gr_endpoint req of Some e \<Rightarrow> e | None \<Rightarrow> ''https://sharedweu.weu.attest.azure.net''))
      else Inl (Fail (''Unknown provider: '' @ gr_provider req @ ''. Use '' @ [CHR 39] @ ''loopback'' @ [CHR 39] @
        '' or '' @ [CHR 39] @ ''maa'' @ [CHR 39])))"

definition reply_with_token ::
    "'s web_env \<Rightarrow> (string \<times> json_value) list \<Rightarrow> string \<Rightarrow> 's handler" where
  "reply_with_token env response token =
     web_match (web_res (token_fields env token)) (\<lambda>_. reply (api_err [])) (\<lambda>fields.
     reply (api_ok (J_Object (response @ fields))))"

definition api_guest_attest :: "'s web_env \<Rightarrow> guest_attest_request \<Rightarrow> 's handler" where
  "api_guest_attest env req =
     with_open_tpm env
       (web_match (web_res (web_provider req)) (\<lambda>e. reply (api_err e)) (\<lambda>prov.
        sdk_err ''Attestation failed: ''
          (attest_guest (wb_platform env) prov
            (Some \<lparr>ao_client_payload = gr_client_payload req, ao_pcr_selection = gr_pcr_indices req, ao_user_data = None\<rparr>))
          (\<lambda>result.
        let response =
          [(''pcrs'', J_Array (map json_u32 (ar_pcrs result))), (''request_json'', J_String (ar_request_json result)),
           (''encoded_request'', J_String (ar_encoded_request result))]
        in case ar_token result of
             None \<Rightarrow> reply (api_ok (J_Object response))
           | Some token \<Rightarrow>
               (let response = response @ [(''token'', J_String token)];
                    as_is = reply_with_token env (response @ [(''decrypted'', J_Bool False)]) token
                in if \<not> gr_decode_token req then reply (api_ok (J_Object response))
                   else
                     web_match (decrypt_token (wb_platform env) (ar_pcrs result) token) (\<lambda>_. as_is) (\<lambda>jwt.
                     case jwt of
                       Some inner_jwt \<Rightarrow> reply_with_token env (response @ [(''decrypted'', J_Bool True)]) inner_jwt
                     | None \<Rightarrow> as_is)))))"

definition api_tee_attest :: "'s web_env \<Rightarrow> tee_attest_request \<Rightarrow> 's handler" where
  "api_tee_attest env req =
     with_open_tpm env
       (sdk_err ''TEE attestation failed: '' (attest_platform (wb_platform env) (Maa (tr_endpoint req)) None) (\<lambda>result.
        let response = [(''request_json'', J_String (ar_request_json result))] in
        case ar_token result of
          None \<Rightarrow> reply (api_ok (J_Object response))
        | Some token \<Rightarrow>
            (let response = response @ [(''token'', J_String token)] in
             if tr_decode_token req then reply_with_token env response token
             else reply (api_ok (J_Object response)))))"

definition api_parse_token :: "'s web_env \<Rightarrow> string \<Rightarrow> 's handler" where
  "api_parse_token env token =
     web_match (web_res (attestation_token (wb_platform env) token))
       (\<lambda>e. reply (api_err (''Failed to parse token: '' @ sdk_error_display e)))
       (\<lambda>claims. reply (api_ok (J_Object [(''header'', tk_header claims), (''payload'', tk_payload claims)])))"

section \<open>Endorsements\<close>

definition web_thim_client :: "'s web_env \<Rightarrow> string option \<Rightarrow> (io_error, string) res" where
  "web_thim_client env region =
     thim_client_new (wb_platform env) (case region of Some r \<Rightarrow> r | None \<Rightarrow> DEFAULT_REGION)"

definition with_thim :: "'s web_env \<Rightarrow> string option \<Rightarrow> (string \<Rightarrow> 's handler) \<Rightarrow> 's handler" where
  "with_thim env region k = web_match (web_res (web_thim_client env region)) (\<lambda>_. reply (api_err [])) k"

definition api_endorsement_mrtds :: "'s web_env \<Rightarrow> string option \<Rightarrow> 's handler" where
  "api_endorsement_mrtds env region =
     with_thim env region (\<lambda>client.
     or_err ''Failed to list MRTDs: '' (thim_list_mrtds (wb_platform env) client) (\<lambda>mrtds.
     reply (api_ok (J_Object
       [(''count'', json_nat (length mrtds)), (''mrtds'', J_Array (map J_String mrtds))]))))"

definition reply_endorsement :: "'s web_env \<Rightarrow> endorsement_response \<Rightarrow> 's handler" where
  "reply_endorsement env resp =
     (let result =
        [(''mrtd'', J_String (er_mrtd resp)), (''content_type'', J_String (er_content_type resp)),
         (''size_bytes'', json_nat (length (er_data resp))),
         (''base64'', J_String (pf_b64_std (wb_platform env) (er_data resp)))]
      in web_match (\<lambda>s. map_option (\<lambda>r. (r, s)) (payload_json (wb_frames env) (wb_platform env) resp))
           (\<lambda>e. reply (api_ok (J_Object (result @ [(''payload_error'', J_String (io_error_display e))]))))
           (\<lambda>json. reply (api_ok (J_Object (result @ [(''payload'', json)])))))"

definition api_endorsement_get :: "'s web_env \<Rightarrow> string \<Rightarrow> string option \<Rightarrow> 's handler" where
  "api_endorsement_get env mrtd region =
     with_thim env region (\<lambda>client.
     or_err ''Failed to get endorsement: '' (thim_get_endorsement (wb_platform env) client mrtd) (reply_endorsement env))"

definition api_endorsement_from_platform :: "'s web_env \<Rightarrow> string option \<Rightarrow> 's handler" where
  "api_endorsement_from_platform env region =
     with_open_tpm env
       (web_match (get_cvm_report (pf_claims (wb_platform env)) (web_tpm env) None)
          (\<lambda>e. reply (api_err (''Failed to get CVM report: '' @ io_error_display e))) (\<lambda>(report, _).
        let rtype = rc_report_type (cr_runtime_claims_header report) in
        if rtype \<noteq> TdxVmReport then
          reply (api_err (''Not a TDX VM (detected: '' @ report_type_debug rtype @ '')''))
        else
          with_thim env region (\<lambda>client.
          or_err ''Failed to get endorsement: ''
            (thim_get_endorsement_for_report (wb_platform env) client (cr_tee_report report)) (reply_endorsement env))))"

section \<open>Dispatch\<close>

datatype web_request =
    Get_Diagnose
  | Get_Cvm_Report "rs_str option"
  | Get_Tee_Report "rs_str option"
  | Get_Ak_Cert
  | Get_Ak_Pub
  | Get_Pcrs "string option"
  | Get_Event_Log
  | Get_Verify_Pcrs
  | Get_Td_Quote
  | Get_Isolation_Evidence
  | Post_Guest_Attest guest_attest_request
  | Post_Tee_Attest tee_attest_request
  | Get_Endorsement_Mrtds "string option"
  | Get_Endorsement string "string option"
  | Get_Endorsement_From_Platform "string option"

fun web_body :: "'s web_env \<Rightarrow> web_request \<Rightarrow> 's handler" where
  "web_body env Get_Diagnose = api_diagnose env"
| "web_body env (Get_Cvm_Report ud) = api_cvm_report env ud"
| "web_body env (Get_Tee_Report ud) = api_tee_report env ud"
| "web_body env Get_Ak_Cert = api_ak_cert env"
| "web_body env Get_Ak_Pub = api_ak_pub env"
| "web_body env (Get_Pcrs indices) = api_pcrs env indices"
| "web_body env Get_Event_Log = api_event_log env"
| "web_body env Get_Verify_Pcrs = api_verify_pcrs env"
| "web_body env Get_Td_Quote = api_td_quote env"
| "web_body env Get_Isolation_Evidence = api_isolation_evidence env"
| "web_body env (Post_Guest_Attest req) = api_guest_attest env req"
| "web_body env (Post_Tee_Attest req) = api_tee_attest env req"
| "web_body env (Get_Endorsement_Mrtds region) = api_endorsement_mrtds env region"
| "web_body env (Get_Endorsement mrtd region) = api_endorsement_get env mrtd region"
| "web_body env (Get_Endorsement_From_Platform region) = api_endorsement_from_platform env region"

definition web_handle :: "'s web_env \<Rightarrow> web_request \<Rightarrow> 's \<Rightarrow> (api_response \<times> 's) option" where
  "web_handle env request = spawned env (web_body env request)"

end
