(* ===== verification/Web_Server.thy ===== *)
theory Web_Server
  imports Web_Attest
begin

text \<open>
  The server around the endpoints of \<open>tools/azure-guest-attest-web\<close>: its routes and the index it publishes, the choice of
  the TLS configuration from the command line, and the self-signed certificate that may be kept on disk. PEM, TLS and the
  generation of a certificate are parameters.
\<close>

section \<open>Routes and the index of the interface\<close>

datatype http_method = GET | POST

fun method_text :: "http_method \<Rightarrow> string" where
  "method_text GET = ''GET''"
| "method_text POST = ''POST''"

definition web_routes :: "(string \<times> http_method) list" where
  "web_routes =
     [(''/'', GET), (''/style.css'', GET), (''/app.js'', GET), (''/api'', GET), (''/api/docs'', GET),
      (''/api/diagnose'', GET), (''/api/cvm-report'', GET), (''/api/tee-report'', GET), (''/api/ak-cert'', GET),
      (''/api/ak-pub'', GET), (''/api/pcrs'', GET), (''/api/event-log'', GET), (''/api/event-log/raw'', GET),
      (''/api/verify-pcrs'', GET), (''/api/td-quote'', GET), (''/api/isolation-evidence'', GET),
      (''/api/guest-attest'', POST), (''/api/tee-attest'', POST), (''/api/parse-token'', POST),
      (''/api/endorsement/mrtds'', GET), (''/api/endorsement/tdx/:mrtd'', GET),
      (''/api/endorsement/from-platform'', GET)]"

record index_entry =
  ix_method :: http_method
  ix_path :: string
  ix_description :: string
  ix_params :: "(string \<times> string list) option"

abbreviation "entry m p d ps \<equiv> \<lparr>ix_method = m, ix_path = p, ix_description = d, ix_params = ps\<rparr>"

definition index_endpoints :: "index_entry list" where
  "index_endpoints =
     [entry GET ''/api/diagnose'' ''System diagnostics: OS, TPM availability, CVM type'' None,
      entry GET ''/api/cvm-report'' ''Full CVM attestation report (header + TEE report + runtime claims)''
        (Some (''query_params'', [''user_data''])),
      entry GET ''/api/tee-report'' ''Raw TEE report (SNP / TDX / VBS)'' (Some (''query_params'', [''user_data''])),
      entry GET ''/api/ak-cert'' ''Attestation Key certificate (PEM + base64)'' None,
      entry GET ''/api/ak-pub'' ''Attestation Key public area (hex)'' None,
      entry GET ''/api/pcrs'' ''PCR values across SHA-1 / SHA-256 / SHA-384 banks'' (Some (''query_params'', [''indices''])),
      entry GET ''/api/event-log'' ''TPM event log with PCR replay'' None,
      entry GET ''/api/event-log/raw'' ''Download raw event log binary'' None,
      entry GET ''/api/verify-pcrs'' ''Compare replayed event log PCRs against live TPM PCR values (SHA-256)'' None,
      entry GET ''/api/td-quote'' ''Intel TDX quote (TDX CVMs only)'' None,
      entry GET ''/api/isolation-evidence'' ''Platform isolation evidence (VCEK chain for SNP)'' None,
      entry POST ''/api/guest-attest''
        (''Full guest attestation (TPM + TEE '' @ [CHR 0xE2, CHR 0x86, CHR 0x92] @ '' provider)'')
        (Some (''body_params'', [''provider'', ''endpoint'', ''client_payload'', ''pcr_indices'', ''decode_token''])),
      entry POST ''/api/tee-attest'' ''TEE-only platform attestation (no TPM/PCR)''
        (Some (''body_params'', [''endpoint'', ''decode_token''])),
      entry POST ''/api/parse-token'' ''Decode a JWT attestation token'' (Some (''body_params'', [''token''])),
      entry GET ''/api/endorsement/mrtds'' ''List known TDX MRTDs from Azure THIM'' (Some (''query_params'', [''region''])),
      entry GET ''/api/endorsement/tdx/:mrtd'' ''Fetch TDX endorsement (CoRIM) for a specific MRTD hex''
        (Some (''query_params'', [''region''])),
      entry GET ''/api/endorsement/from-platform'' ''Extract MRTD from platform TDX report and fetch its endorsement''
        (Some (''query_params'', [''region'']))]"

definition index_entry_json :: "index_entry \<Rightarrow> json_value" where
  "index_entry_json e =
     J_Object
       ([(''method'', J_String (method_text (ix_method e))), (''path'', J_String (ix_path e)),
         (''description'', J_String (ix_description e))] @
        (case ix_params e of Some (kind, names) \<Rightarrow> [(kind, J_Array (map J_String names))] | None \<Rightarrow> []))"

definition api_index :: json_value where
  "api_index =
     J_Object
       [(''name'', J_String ''Azure Guest Attestation REST API''), (''docs'', J_String ''/api/docs''),
        (''endpoints'', J_Array (map index_entry_json index_endpoints))]"

section \<open>Self-signed certificates\<close>

text \<open>The names a generated certificate covers.\<close>

definition DEFAULT_SANS :: "string list" where
  "DEFAULT_SANS = [''localhost'', ''127.0.0.1'', ''::1'']"

definition add_san :: "string list \<Rightarrow> string \<Rightarrow> string list" where
  "add_san sans san = (if san \<in> set sans then sans else sans @ [san])"

definition certificate_sans :: "string \<Rightarrow> string list \<Rightarrow> string list" where
  "certificate_sans bind_host extra_sans =
     (let sans = DEFAULT_SANS;
          sans = (if bind_host \<noteq> [] \<and> bind_host \<noteq> ''0.0.0.0'' \<and> bind_host \<notin> set sans then sans @ [bind_host] else sans)
      in foldl add_san sans extra_sans)"

text \<open>\<open>rsplit_once(':')\<close>: what stands before the last colon.\<close>

definition bind_host_of :: "string \<Rightarrow> string" where
  "bind_host_of bind =
     (if CHR '':'' \<in> set bind then rev (tl (dropWhile (\<lambda>c. c \<noteq> CHR '':'') (rev bind))) else bind)"

record ('s, 'cfg) tls_env =
  tl_self_signed :: "string list \<Rightarrow> 's \<Rightarrow> (io_error + string \<times> string) \<times> 's"
  tl_parse_certs :: "string \<Rightarrow> string + bytes list"
  tl_parse_key :: "string \<Rightarrow> string + bytes"
  tl_builder :: "io_error option"
  tl_config :: "bytes list \<Rightarrow> bytes \<Rightarrow> string + 'cfg"
  tl_exists :: "string \<Rightarrow> 's \<Rightarrow> bool"
  tl_read :: "string \<Rightarrow> 's \<Rightarrow> (io_error + string) \<times> 's"
  tl_create_dir :: "string \<Rightarrow> 's \<Rightarrow> (io_error + unit) \<times> 's"
  tl_write :: "string \<Rightarrow> string \<Rightarrow> 's \<Rightarrow> (io_error + unit) \<times> 's"
  tl_join :: "string \<Rightarrow> string \<Rightarrow> string"
  tl_cert_file :: "string \<Rightarrow> 's \<Rightarrow> string + string + bytes list"
  tl_key_file :: "string \<Rightarrow> 's \<Rightarrow> string + bytes"

text \<open>\<open>tls_crypto::server_builder()?.with_no_client_auth().with_single_cert(certs, key)\<close>\<close>

definition server_config :: "('s, 'cfg) tls_env \<Rightarrow> bytes list \<Rightarrow> bytes \<Rightarrow> (io_error, 'cfg) res" where
  "server_config env certs key =
     (case tl_builder env of
        Some e \<Rightarrow> Inl (Fail e)
      | None \<Rightarrow>
          (case tl_config env certs key of
             Inl e \<Rightarrow> io_fail InvalidInput (''TLS config: '' @ e)
           | Inr cfg \<Rightarrow> Inr cfg))"

definition build_tls_config_from_pem :: "('s, 'cfg) tls_env \<Rightarrow> string \<Rightarrow> string \<Rightarrow> (io_error, 'cfg) res" where
  "build_tls_config_from_pem env cert_pem key_pem =
     (case tl_parse_certs env cert_pem of
        Inl e \<Rightarrow> io_fail InvalidData (''parsing cert PEM: '' @ e)
      | Inr certs \<Rightarrow>
          if certs = [] then io_fail InvalidData ''no certificates found in PEM data''
          else
            (case tl_parse_key env key_pem of
               Inl e \<Rightarrow> io_fail InvalidData (''parsing key PEM: '' @ e)
             | Inr key \<Rightarrow> server_config env certs key))"

text \<open>The files of \<open>--tls-cert\<close> and \<open>--tls-key\<close>: the first can fail to open or to be read.\<close>

definition load_tls_config :: "('s, 'cfg) tls_env \<Rightarrow> string \<Rightarrow> string \<Rightarrow> 's \<Rightarrow> (io_error, 'cfg) res" where
  "load_tls_config env cert_path key_path s =
     (case tl_cert_file env cert_path s of
        Inl e \<Rightarrow> io_fail InvalidInput (''opening cert '' @ cert_path @ '': '' @ e)
      | Inr (Inl e) \<Rightarrow> io_fail InvalidData (''reading cert '' @ cert_path @ '': '' @ e)
      | Inr (Inr certs) \<Rightarrow>
          if certs = [] then io_fail InvalidInput ''no certificates found in cert file''
          else
            (case tl_key_file env key_path s of
               Inl e \<Rightarrow> io_fail InvalidInput (''reading key '' @ key_path @ '': '' @ e)
             | Inr key \<Rightarrow> server_config env certs key))"

definition file_step :: "string \<Rightarrow> ('s \<Rightarrow> (io_error + 'a) \<times> 's) \<Rightarrow> ('s, io_error, 'a) st" where
  "file_step what m s =
     (case m s of
        (Inl e, s') \<Rightarrow> (io_fail (io_error_kind e) (what @ '': '' @ io_error_display e), s')
      | (Inr x, s') \<Rightarrow> (Inr x, s'))"

definition generate_self_signed_config ::
    "('s, 'cfg) tls_env \<Rightarrow> string \<Rightarrow> string list \<Rightarrow> ('s, io_error, string \<times> string \<times> 'cfg) st" where
  "generate_self_signed_config env bind_host extra_sans s =
     (case tl_self_signed env (certificate_sans bind_host extra_sans) s of
        (Inl e, s') \<Rightarrow> (Inl (Fail e), s')
      | (Inr (cert_pem, key_pem), s') \<Rightarrow>
          (and_then (build_tls_config_from_pem env cert_pem key_pem) (\<lambda>cfg. Inr (cert_pem, key_pem, cfg)), s'))"

definition load_or_generate_self_signed ::
    "('s, 'cfg) tls_env \<Rightarrow> string \<Rightarrow> string \<Rightarrow> string list \<Rightarrow> ('s, io_error, 'cfg \<times> bool) st" where
  "load_or_generate_self_signed env dir bind_host extra_sans s =
     (let cert_path = tl_join env dir ''cert.pem''; key_path = tl_join env dir ''key.pem'' in
      if tl_exists env cert_path s \<and> tl_exists env key_path s then
        st_then (file_step (''reading '' @ cert_path) (tl_read env cert_path)) (\<lambda>cert_pem.
        st_then (file_step (''reading '' @ key_path) (tl_read env key_path)) (\<lambda>key_pem.
        st_then (st_res (build_tls_config_from_pem env cert_pem key_pem)) (\<lambda>cfg. st_res (Inr (cfg, True))))) s
      else
        st_then (file_step (''creating directory '' @ dir) (tl_create_dir env dir)) (\<lambda>_.
        st_then (generate_self_signed_config env bind_host extra_sans) (\<lambda>(cert_pem, key_pem, cfg).
        st_then (file_step (''writing '' @ cert_path) (tl_write env cert_path cert_pem)) (\<lambda>_.
        st_then (file_step (''writing '' @ key_path) (tl_write env key_path key_pem)) (\<lambda>_.
        st_res (Inr (cfg, False)))))) s)"

section \<open>The choice of the TLS configuration\<close>

record web_args =
  wa_bind :: string
  wa_tls_cert :: "string option"
  wa_tls_key :: "string option"
  wa_tls_self_signed :: bool
  wa_tls_self_signed_dir :: "string option"
  wa_tls_san :: "string list"

text \<open>The names shown on the console.\<close>

definition san_display :: "string \<Rightarrow> string list \<Rightarrow> string list" where
  "san_display bind_host tls_san =
     (let shown = DEFAULT_SANS;
          shown = (if bind_host \<noteq> [] \<and> bind_host \<noteq> ''0.0.0.0'' \<and> bind_host \<notin> set shown then shown @ [bind_host] else shown)
      in foldl (\<lambda>shown san. if list_ex (\<lambda>s. s = san) shown then shown else shown @ [san]) shown tls_san)"

text \<open>
  \<open>main\<close> up to the socket: the configuration with the lines written to standard error, or the line of the error that
  ends the process with exit code 1.
\<close>

definition tls_mode ::
    "('s, 'cfg) tls_env \<Rightarrow> web_args \<Rightarrow> ('s, string, 'cfg option \<times> string list) st" where
  "tls_mode env cli =
     (let bind_host = bind_host_of (wa_bind cli);
          sans_line = ''  SANs: '' @ join_with '', '' (san_display bind_host (wa_tls_san cli))
      in if wa_tls_self_signed cli \<or> wa_tls_self_signed_dir cli \<noteq> None then
           (if wa_tls_cert cli \<noteq> None \<or> wa_tls_key cli \<noteq> None then
              st_res (Inl (Fail ''Error: --tls-self-signed / --tls-self-signed-dir cannot be combined with --tls-cert / --tls-key''))
            else
              case wa_tls_self_signed_dir cli of
                Some dir \<Rightarrow>
                  st_then (st_map_err (\<lambda>e. ''Self-signed certificate error: '' @ io_error_display e)
                    (load_or_generate_self_signed env dir bind_host (wa_tls_san cli))) (\<lambda>(cfg, loaded).
                  st_res (Inr (Some cfg,
                    [(if loaded then ''Loaded self-signed certificate from '' @ dir
                      else ''Generated and saved self-signed certificate to '' @ dir), sans_line])))
              | None \<Rightarrow>
                  st_then (st_map_err (\<lambda>e. ''Failed to generate self-signed certificate: '' @ io_error_display e)
                    (generate_self_signed_config env bind_host (wa_tls_san cli))) (\<lambda>(_, _, cfg).
                  st_res (Inr (Some cfg,
                    [''Generated ephemeral self-signed certificate (will change on restart)'', sans_line]))))
         else
           case (wa_tls_cert cli, wa_tls_key cli) of
             (Some cert, Some key) \<Rightarrow>
               (\<lambda>s. (and_then (map_err (\<lambda>e. ''TLS configuration error: '' @ io_error_display e)
                        (load_tls_config env cert key s)) (\<lambda>cfg. Inr (Some cfg, [])), s))
           | (None, None) \<Rightarrow>
               if wa_tls_san cli \<noteq> [] then
                 st_res (Inl (Fail ''Error: --tls-san can only be used with --tls-self-signed''))
               else st_res (Inr (None, []))
           | _ \<Rightarrow> st_res (Inl (Fail ''Error: --tls-cert and --tls-key must both be specified for HTTPS'')))"

end
