(* ===== verification/Event_Log_Facts.thy ===== *)
theory Event_Log_Facts
  imports Event_Log
begin

text \<open>
  Facts on the event log parser: no input makes it panic, the loops advance and stay in
  the buffer, a TCG crypto-agile log is read back event by event, and the replay is the
  fold of the PCR extensions.
\<close>

section \<open>No panics, bounds, progress\<close>

lemma le_reads_total [total_intros]: "total_reader read_u16_le" "total_reader read_u32_le"
  by (unfold_locales; auto simp: read_u16_le_def read_u32_le_def split: if_splits)+

lemma spec_id_algorithm_total [total_intros]: "total_reader spec_id_algorithm_read"
  unfolding spec_id_algorithm_read_def [abs_def] by (intro total_intros)

lemma event1_digests_total [total_intros]: "total_reader parse_event1_digests"
  unfolding parse_event1_digests_def [abs_def] by (intro total_intros)

lemma event_data_total [total_intros]: "total_reader (event_data_read r sz)"
  by unfold_locales (auto simp: event_data_read_def and_then_eq_Inr rs_slice_eq_Inr split: if_splits)

lemma short_guard_total [total_intros]:
  "total_reader f \<Longrightarrow> total_reader (\<lambda>d c. if length d - c < n then io_fail k msg else f d c)"
  by unfold_locales
    (auto simp: total_reader.reader_no_panic dest!: total_reader.reader_bounds [rotated 2]
       split: if_splits)

lemma event1_entry_total [total_intros]: "total_reader parse_event1_entry"
  unfolding parse_event1_entry_def [abs_def] by (intro total_intros)

lemma digest_length_total [total_intros]: "total_reader (digest_length enc n)"
proof
  fix d :: bytes and c
  assume c: "c \<le> length d"
  show "digest_length enc n d c \<noteq> Inl Panic"
    using c by (auto simp: digest_length_def Let_def and_then_eq_Inl
        total_reader.reader_no_panic [OF le_reads_total(1)])
  fix x c'
  assume "digest_length enc n d c = Inr (x, c')"
  then show "c \<le> c' \<and> c' \<le> length d"
    using c by (auto simp: digest_length_def Let_def and_then_eq_Inr dest!: read_u16_le_Inr split: if_splits)
qed

lemma event2_digest_slice_total:
  "total_reader (\<lambda>d c. if length d - c < n then io_fail k msg
     else and_then (rs_slice d c (c + n)) (\<lambda>b. Inr (f b, c + n)))"
  by unfold_locales (auto simp: and_then_eq_Inr rs_slice_eq_Inr and_then_eq_Inl rs_slice_def split: if_splits)

lemma event2_digest_total [total_intros]: "total_reader (event2_digest_read t ov enc)"
  unfolding event2_digest_read_def [abs_def] Let_def
  by (intro total_intros event2_digest_slice_total)

lemma event2_digests_total [total_intros]: "total_reader (parse_event2_digests t n ov enc)"
  unfolding parse_event2_digests_def by (intro total_reader.total_reader_read_n event2_digest_total)

lemma event2_retry_total [total_intros]: "total_reader (event2_digests_and_size t n ov)"
proof
  fix d :: bytes and c
  assume c: "c \<le> length d"
  note nopanic = total_reader.reader_no_panic [OF event2_digests_total]
    total_reader.reader_no_panic [OF le_reads_total(2)]
  note bounds = total_reader.reader_bounds [OF event2_digests_total c]
  show "event2_digests_and_size t n ov d c \<noteq> Inl Panic"
    using c by (auto simp: event2_digests_and_size_def and_then_eq_Inl nopanic split: if_splits
        dest!: bounds)
  fix x c'
  assume "event2_digests_and_size t n ov d c = Inr (x, c')"
  then show "c \<le> c' \<and> c' \<le> length d"
    by (auto simp: event2_digests_and_size_def and_then_eq_Inr split: if_splits
        dest!: bounds read_u32_le_Inr)
qed

lemma spec_id_no_panic [simp]: "parse_spec_id_event d \<noteq> Inl Panic"
proof -
  have n: "c \<le> length d \<Longrightarrow> read_n spec_id_algorithm_read k d c \<noteq> Inl Panic" for k c
    by (rule total_reader.reader_no_panic [OF total_reader.total_reader_read_n [OF spec_id_algorithm_total]])
  show ?thesis
    by (auto simp: parse_spec_id_event_def and_then_eq_Inl Let_def n
        total_reader.reader_no_panic [OF le_reads_total(2)] dest!: read_u32_le_Inr)
qed

lemma try_spec_id_no_panic [simp]: "try_parse_spec_id_event d \<noteq> Inl Panic"
  by (auto simp: try_parse_spec_id_event_def split: sum.split fault.split)

lemma parse_event2_digests_Inr:
  "parse_event2_digests t n ov enc d c = Inr (ds, e) \<Longrightarrow> c \<le> length d \<Longrightarrow>
     length ds = n \<and> c \<le> e \<and> e \<le> length d"
  using total_reader.reader_bounds [OF event2_digests_total [of t n ov enc], of c d ds e]
    read_n_length [of "event2_digest_read t ov enc" n d c ds e]
  by (simp add: parse_event2_digests_def)

lemma event2_retry_Inr:
  "event2_digests_and_size t n ov d c = Inr ((ds, sz), c') \<Longrightarrow> c \<le> length d \<Longrightarrow>
     length ds = n \<and> c + 4 \<le> c' \<and> c' \<le> length d"
  by (auto simp: event2_digests_and_size_def and_then_eq_Inr split: if_splits
      dest!: read_u32_le_Inr parse_event2_digests_Inr)

text \<open>An entry of the 2.0 format takes at least 16 bytes and stays in the buffer.\<close>

lemma parse_event2_entry_Inr:
  "parse_event2_entry ov d c = Inr ((e, ov'), c') \<Longrightarrow>
     c + 16 \<le> c' \<and> c' \<le> length d \<and> length (ev_event_data e) \<le> MAX_EVENT_DATA_SIZE \<and>
     length (ev_digests e) \<le> MAX_DIGEST_COUNT"
  by (auto simp: parse_event2_entry_def and_then_eq_Inr Let_def split: if_splits
      dest!: read_u32_le_Inr event2_retry_Inr event_data_read_Inr)

lemma parse_event2_entry_no_panic: "c \<le> length d \<Longrightarrow> parse_event2_entry ov d c \<noteq> Inl Panic"
  by (auto simp: parse_event2_entry_def and_then_eq_Inl Let_def
      total_reader.reader_no_panic [OF le_reads_total(2)]
      total_reader.reader_no_panic [OF event2_retry_total]
      total_reader.reader_no_panic [OF event_data_total]
      dest!: read_u32_le_Inr event2_retry_Inr split: if_splits)

lemma event1_loop_no_panic: "parse_event1_entries_from d c es \<noteq> Inl Panic"
proof (induction d c es rule: parse_event1_entries_from.induct)
  case (1 d c es)
  then show ?case
    using total_reader.reader_no_panic [OF event1_entry_total, of c d]
    by (auto simp: parse_event1_entries_from.simps [of d c es] split: sum.splits)
qed

lemma event2_loop_no_panic: "parse_event2_entries_from d c es ov \<noteq> Inl Panic"
proof (induction d c es ov rule: parse_event2_entries_from.induct)
  case (1 d c es ov)
  then show ?case
    using parse_event2_entry_no_panic [of c d ov]
    by (auto simp: parse_event2_entries_from.simps [of d c es ov] split: sum.splits)
qed

lemma binary_parsers_no_panic [simp]:
  "parse_event_log_with_event1_spec d \<noteq> Inl Panic"
  "parse_event_log_event2 d \<noteq> Inl Panic"
  "parse_event_log_event1 d \<noteq> Inl Panic"
  by (auto simp: parse_event_log_with_event1_spec_def parse_event_log_event2_def
      parse_event_log_event1_def and_then_eq_Inl Let_def event1_loop_no_panic event2_loop_no_panic
      total_reader.reader_no_panic [OF event1_entry_total] split: if_splits)

lemma convert_json_digests_no_panic [simp]: "convert_json_digests hx js \<noteq> Inl Panic"
  by (induction js) (auto simp: and_then_eq_Inl split: sum.splits)

lemma json_lines_no_panic [simp]: "json_lines fj hx i ls \<noteq> Inl Panic"
  by (induction ls arbitrary: i)
    (auto simp: and_then_eq_Inl Let_def convert_json_event_def split: sum.splits)

lemma parse_json_no_panic [simp]: "parse_json_event_log fj hx d \<noteq> Inl Panic"
  by (auto simp: parse_json_event_log_def and_then_eq_Inl Let_def split: sum.splits)

text \<open>
  Parsing an event log never panics: on every byte string
  each of the four parsers either returns its events or an error, and the loops of the
  binary formats terminate.
\<close>

theorem parse_event_log_no_panic: "parse_event_log from_json hex_decode d \<noteq> Inl Panic"
  unfolding parse_event_log_def by (intro or_else_no_panic) simp_all

text \<open>
  The reference for the 2.0 loop: the same without the progress check. They agree: the
  error ``event parser made no progress'' cannot occur.
\<close>

function event2_entries_spec :: "bytes \<Rightarrow> nat \<Rightarrow> alg_sizes \<Rightarrow> event list io_res" where
  "event2_entries_spec d c ov =
     (if c < length d then
        case parse_event2_entry ov d c of
          Inl e \<Rightarrow> Inl e
        | Inr ((event, ov'), c') \<Rightarrow>
            and_then (event2_entries_spec d c' ov') (\<lambda>rest. Inr (event # rest))
      else Inr [])"
  by pat_completeness auto
termination
  by (relation "measure (\<lambda>(d, c, ov). length d - c)")
    (fastforce dest: parse_event2_entry_Inr)+

declare event2_entries_spec.simps [simp del]

lemma event2_loop_spec:
  "parse_event2_entries_from d c es ov =
     and_then (event2_entries_spec d c ov) (\<lambda>rest. Inr (es @ rest))"
proof (induction d c es ov rule: parse_event2_entries_from.induct)
  case (1 d c es ov)
  show ?case
  proof (cases "c < length d")
    case True
    show ?thesis
    proof (cases "parse_event2_entry ov d c")
      case (Inl e)
      with True show ?thesis
        by (simp add: parse_event2_entries_from.simps [of d c] event2_entries_spec.simps [of d c])
    next
      case (Inr r)
      obtain e ov' c' where r: "r = ((e, ov'), c')" by (metis surj_pair)
      have "c < c'" using parse_event2_entry_Inr Inr r by fastforce
      then show ?thesis
        using 1 [OF True] True Inr r
        by (simp add: parse_event2_entries_from.simps [of d c es] event2_entries_spec.simps [of d c ov]
            and_then_assoc)
    qed
  next
    case False
    then show ?thesis
      by (simp add: parse_event2_entries_from.simps [of d c] event2_entries_spec.simps [of d c])
  qed
qed

lemma event2_spec_bounds:
  "event2_entries_spec d c ov = Inr es \<Longrightarrow> c \<le> length d \<Longrightarrow>
     c + 16 * length es \<le> length d \<and>
     list_all (\<lambda>e. length (ev_event_data e) \<le> MAX_EVENT_DATA_SIZE \<and>
       length (ev_digests e) \<le> MAX_DIGEST_COUNT) es"
proof (induction d c ov arbitrary: es rule: event2_entries_spec.induct)
  case (1 d c ov)
  show ?case
  proof (cases "c < length d")
    case True
    with "1.prems"(1) obtain e ov' c' rest where p: "parse_event2_entry ov d c = Inr ((e, ov'), c')"
      and r: "event2_entries_spec d c' ov' = Inr rest" and es: "es = e # rest"
      by (auto simp: event2_entries_spec.simps [of d c ov] and_then_eq_Inr split: sum.splits)
    note b = parse_event2_entry_Inr [OF p]
    with "1.IH" [OF True p refl refl r] es show ?thesis by auto
  next
    case False
    with "1.prems" show ?thesis by (simp add: event2_entries_spec.simps [of d c])
  qed
qed

lemma event_log_event2_eq: "parse_event_log_event2 d = event2_entries_spec d 0 Map.empty"
  by (simp add: parse_event_log_event2_def event2_loop_spec and_then_def split: sum.split)

text \<open>
  The 2.0 parser equals the recursion without its progress check, and
  what it returns is bounded by the input: at least 16 bytes for each event, at most 32
  digests and 2 MiB of data in each.
\<close>

theorem event2_no_stall:
  "parse_event_log_event2 d = event2_entries_spec d 0 Map.empty \<and>
   (case parse_event_log_event2 d of
      Inl _ \<Rightarrow> True
    | Inr es \<Rightarrow> 16 * length es \<le> length d \<and>
        list_all (\<lambda>e. length (ev_event_data e) \<le> MAX_EVENT_DATA_SIZE \<and>
          length (ev_digests e) \<le> MAX_DIGEST_COUNT) es)"
  using event2_spec_bounds [of d 0 Map.empty]
  by (auto simp: event_log_event2_eq split: sum.split)

section \<open>The TCG layout of events\<close>

definition le16 :: "u16 \<Rightarrow> bytes" where "le16 v = le_bytes 2 v"
definition le32 :: "u32 \<Rightarrow> bytes" where "le32 v = le_bytes 4 v"

lemma length_le [simp]: "length (le16 v) = 2" "length (le32 w) = 4"
  by (simp_all add: le16_def le32_def)

interpretation le16_codec: wire_codec le16 read_u16_le "\<lambda>_. True"
  by unfold_locales (auto simp: read_u16_le_def le16_def occurs_at_iff)

interpretation le32_codec: wire_codec le32 read_u32_le "\<lambda>_. True"
  by unfold_locales (auto simp: read_u32_le_def le32_def occurs_at_iff)

lemmas le_codecs [simp] = le16_codec.codec [OF _ TrueI] le32_codec.codec [OF _ TrueI]

definition event_digest_wire :: "event_digest \<Rightarrow> bytes" where
  "event_digest_wire dg = le16 (ed_alg_id dg) @ ed_digest dg"

definition event2_wire :: "event \<Rightarrow> bytes" where
  "event2_wire e =
     le32 (ev_pcr_index e) @ le32 (ev_event_type e) @ le32 (of_nat (length (ev_digests e))) @
     concat (map event_digest_wire (ev_digests e)) @
     le32 (of_nat (length (ev_event_data e))) @ ev_event_data e"

text \<open>
  A digest of the length known for its algorithm whose first two bytes are not that
  length: the parser takes two such bytes for a length prefix.
\<close>

definition digest_plain :: "alg_sizes \<Rightarrow> event_digest \<Rightarrow> bool" where
  "digest_plain ov dg \<longleftrightarrow>
     digest_len_for_alg (ed_alg_id dg) ov = Some (length (ed_digest dg)) \<and>
     2 \<le> length (ed_digest dg) \<and>
     unat (of_le (take 2 (ed_digest dg)) :: u16) \<noteq> length (ed_digest dg)"

text \<open>
  An event with plain digests, of an admissible size. An \<open>EV_NO_ACTION\<close> event behind the first (a startup locality, for
  instance) must have data, and data that is not itself a Spec ID event, which would change the digest sizes.
\<close>

definition event_plain :: "alg_sizes \<Rightarrow> event \<Rightarrow> bool" where
  "event_plain ov e \<longleftrightarrow>
     list_all (digest_plain ov) (ev_digests e) \<and> length (ev_digests e) \<le> MAX_DIGEST_COUNT \<and>
     length (ev_event_data e) \<le> MAX_EVENT_DATA_SIZE \<and>
     (ev_event_type e = SPEC_ID_EVENT_TYPE \<longrightarrow>
        ev_event_data e \<noteq> [] \<and> try_parse_spec_id_event (ev_event_data e) = Inr None)"

interpretation event_digest_codec:
  wire_codec event_digest_wire "event2_digest_read t ov Auto" "digest_plain ov" for t ov
proof
  fix dg d c
  assume v: "digest_plain ov dg" and o: "occurs_at d c (event_digest_wire dg)"
  let ?n = "length (ed_digest dg)"
  have b: "c + 2 + ?n \<le> length d" using occurs_at_bounds [OF o] by (simp add: event_digest_wire_def)
  have dig: "occurs_at d (c + 2) (ed_digest dg)" using o by (simp add: event_digest_wire_def)
  then have t: "take ?n (drop (c + 2) d) = ed_digest dg" by (rule occurs_at_take)
  have "take 2 (drop (c + 2) d) = take 2 (ed_digest dg)"
    using arg_cong [OF t, of "take 2"] v by (simp add: digest_plain_def min_absorb1)
  then have "le_u16_at d (c + 2) = Inr (of_le (take 2 (ed_digest dg)))"
    using b v by (simp add: digest_plain_def)
  moreover have "read_u16_le d c = Inr (ed_alg_id dg, c + 2)"
    using o le16_codec.codec [of d c "ed_alg_id dg"] by (simp add: event_digest_wire_def)
  ultimately show "event2_digest_read t ov Auto d c = Inr (dg, c + length (event_digest_wire dg))"
    using v b t
    by (auto simp: event2_digest_read_def digest_length_def digest_plain_def Let_def event_digest_wire_def)
qed

lemma event2_entry_of_wire:
  assumes "event_plain ov e" "occurs_at d c (event2_wire e)"
  shows "parse_event2_entry ov d c = Inr ((e, ov), c + length (event2_wire e))"
proof -
  let ?n = "length (ev_digests e)" and ?m = "length (ev_event_data e)"
  let ?ds = "concat (map event_digest_wire (ev_digests e))"
  have n: "unat (of_nat ?n :: u32) = ?n" "?n \<le> 32" and m: "unat (of_nat ?m :: u32) = ?m" "?m \<le> MAX_EVENT_DATA_SIZE"
    using assms(1) by (auto simp: event_plain_def MAX_DIGEST_COUNT_def MAX_EVENT_DATA_SIZE_def)
  have o: "occurs_at d (c + 12) ?ds" "occurs_at d (c + 12 + length ?ds) (le32 (of_nat ?m))"
    "occurs_at d (c + 16 + length ?ds) (ev_event_data e)"
    and h: "occurs_at d c (le32 (ev_pcr_index e))" "occurs_at d (c + 4) (le32 (ev_event_type e))"
      "occurs_at d (c + 8) (le32 (of_nat ?n))"
    using assms(2) by (simp_all add: event2_wire_def ac_simps eval_nat_numeral)
  have data: "c + 16 + length ?ds + ?m \<le> length d" "take ?m (drop (c + 16 + length ?ds) d) = ev_event_data e"
    using occurs_at_bounds [OF o(3)] occurs_at_take [OF o(3)] by simp_all
  have "parse_event2_digests (ev_event_type e) ?n ov Auto d (c + 12) = Inr (ev_digests e, c + 12 + length ?ds)"
    using event_digest_codec.read_n_codec [OF o(1)] assms(1)
    by (simp add: parse_event2_digests_def event_plain_def list_all_iff)
  moreover have "read_u32_le d (c + 12 + length ?ds) = Inr (of_nat ?m, c + 16 + length ?ds)"
    using le32_codec.codec [OF o(2)] by simp
  ultimately have r: "event2_digests_and_size (ev_event_type e) ?n ov d (c + 12) =
      Inr ((ev_digests e, ?m), c + 16 + length ?ds)"
    using m data by (simp add: event2_digests_and_size_def)
  have "read_u32_le d c = Inr (ev_pcr_index e, c + 4)" "read_u32_le d (c + 4) = Inr (ev_event_type e, c + 8)"
    "read_u32_le d (c + 8) = Inr (of_nat ?n, c + 12)"
    using le32_codec.codec [OF h(1)] le32_codec.codec [OF h(2)] le32_codec.codec [OF h(3)] by simp_all
  moreover have "event_data_read (ev_event_type e = SPEC_ID_EVENT_TYPE) ?m d (c + 16 + length ?ds) =
      Inr (ev_event_data e, c + length (event2_wire e))"
    using m data assms(1) by (auto simp: event_data_read_def event_plain_def event2_wire_def)
  ultimately show ?thesis
    using r n assms(1) data(1)
    by (cases "ev_event_type e = SPEC_ID_EVENT_TYPE")
      (simp_all add: parse_event2_entry_def Let_def event_plain_def MAX_DIGEST_COUNT_def)
qed

lemma event2_entries_of_wire:
  "list_all (event_plain ov) es \<Longrightarrow>
     event2_entries_spec (pre @ concat (map event2_wire es)) (length pre) ov = Inr es"
proof (induction es arbitrary: pre)
  case Nil
  then show ?case by (simp add: event2_entries_spec.simps)
next
  case (Cons e es)
  let ?d = "pre @ event2_wire e @ concat (map event2_wire es)"
  have "parse_event2_entry ov ?d (length pre) = Inr ((e, ov), length (pre @ event2_wire e))"
    using Cons.prems event2_entry_of_wire [of ov e ?d "length pre"] by simp
  moreover have "event2_entries_spec ?d (length (pre @ event2_wire e)) ov = Inr es"
    using Cons.IH [of "pre @ event2_wire e"] Cons.prems by simp
  moreover have "0 < length (event2_wire e)" by (simp add: event2_wire_def)
  ultimately show ?case by (simp add: event2_entries_spec.simps [of ?d "length pre"])
qed

text \<open>
  A log of the 2.0 format is read back event by event, whenever
  its digests have their algorithm's length and do not begin with that length.
\<close>

theorem event2_log_round_trip:
  "list_all (event_plain Map.empty) es \<Longrightarrow>
     parse_event_log_event2 (concat (map event2_wire es)) = Inr es"
  using event2_entries_of_wire [of Map.empty es "[]"] by (simp add: event_log_event2_eq)

definition demo_event :: "u8 list \<Rightarrow> bytes \<Rightarrow> event" where
  "demo_event digest data =
     \<lparr>ev_pcr_index = 4, ev_event_type = 0x80000003,
      ev_digests = [\<lparr>ed_alg_id = ALG_SHA256, ed_digest = digest\<rparr>], ev_event_data = data\<rparr>"

lemma demo_event_plain: "event_plain Map.empty (demo_event (replicate 32 7) [1, 2])"
proof -
  have "take 2 (replicate 32 7) = [7, 7 :: u8]" by (simp add: numeral_2_eq_2)
  then show ?thesis
    using pcr_from_to_alg_id [of Pcr_Sha256]
    by (simp add: event_plain_def demo_event_def digest_plain_def digest_len_for_alg_def
        MAX_DIGEST_COUNT_def MAX_EVENT_DATA_SIZE_def SPEC_ID_EVENT_TYPE_def)
qed

theorem event2_log_round_trip_witness:
  "list_all (event_plain Map.empty) [demo_event (replicate 32 7) [1, 2]] \<and>
   parse_event_log_event2 (concat (map event2_wire [demo_event (replicate 32 7) [1, 2]])) =
     Inr [demo_event (replicate 32 7) [1, 2]]"
  using event2_log_round_trip [of "[demo_event (replicate 32 7) [1, 2]]"] demo_event_plain by simp

text \<open>A genuine event whose SHA-256 digest begins with the bytes 0x20 0x00.\<close>

definition ambiguous_event :: event where
  "ambiguous_event = demo_event (0x20 # 0x00 # replicate 30 7) [0, 0]"

lemma ambiguous_bytes:
  "event2_wire ambiguous_event =
   [4, 0, 0, 0, 3, 0, 0, 0x80, 1, 0, 0, 0, 0x0B, 0, 0x20, 0,
    7, 7, 7, 7, 7, 7, 7, 7, 7, 7, 7, 7, 7, 7, 7, 7, 7, 7, 7, 7, 7, 7, 7, 7, 7, 7, 7, 7, 7, 7,
    2, 0, 0, 0, 0, 0]"
  by code_simp

text \<open>
  The condition on the digests is needed: for this valid event
  the parser takes the digest's first two bytes for a length prefix and returns, without
  an error, an event with a wrong digest and without its data.
\<close>

theorem event2_prefix_ambiguity:
  "parse_event_log_event2 (event2_wire ambiguous_event) = Inr [demo_event (replicate 30 7 @ [2, 0]) []]"
proof -
  have d: "digest_len_for_alg 0x0B Map.empty = Some 32"
    by (simp add: digest_len_for_alg_def pcr_from_alg_id_def tpm_constant_defs)
  have r: "replicate 30 (7 :: u8) =
      [7, 7, 7, 7, 7, 7, 7, 7, 7, 7, 7, 7, 7, 7, 7, 7, 7, 7, 7, 7, 7, 7, 7, 7, 7, 7, 7, 7, 7, 7]"
    by code_simp
  show ?thesis
    unfolding ambiguous_bytes parse_event_log_event2_def
    by (simp add: parse_event2_entries_from.simps parse_event2_entry_def read_u32_le_def
        read_u16_le_def le_u32_at_def le_u16_at_def MAX_DIGEST_COUNT_def MAX_EVENT_DATA_SIZE_def
        event2_digests_and_size_def parse_event2_digests_def event2_digest_read_def d
        digest_length_def event_data_read_def SPEC_ID_EVENT_TYPE_def demo_event_def
        tpm_constant_defs r Let_def rs_slice_def)
qed

section \<open>The crypto-agile log\<close>

text \<open>The Spec ID event of TCG 2.0: a 16-byte signature, the versions, the digest sizes, vendor data.\<close>

definition spec_signature :: bytes where
  "spec_signature = ascii_bytes ''Spec ID Event03'' @ [0]"

definition spec_algorithm_wire :: "spec_id_algorithm \<Rightarrow> bytes" where
  "spec_algorithm_wire a = le16 (sa_algorithm_id a) @ le16 (sa_digest_size a)"

definition spec_versions :: "spec_id_event \<Rightarrow> bytes" where
  "spec_versions s =
     [si_spec_version_major s, si_spec_version_minor s, si_spec_errata s, si_uintn_size s]"

lemma length_spec_versions [simp]: "length (spec_versions s) = 4"
  by (simp add: spec_versions_def)

definition spec_id_wire :: "spec_id_event \<Rightarrow> bytes" where
  "spec_id_wire s =
     spec_signature @ le32 (si_platform_class s) @
     spec_versions s @
     le32 (of_nat (length (si_algorithms s))) @ concat (map spec_algorithm_wire (si_algorithms s)) @
     u8_marshal (of_nat (length (si_vendor_info s))) @ si_vendor_info s"

definition spec_id_valid :: "spec_id_event \<Rightarrow> bool" where
  "spec_id_valid s \<longleftrightarrow>
     si_signature s = map (\<lambda>b. [b]) (ascii_bytes ''Spec ID Event03'') \<and>
     length (si_algorithms s) \<le> MAX_DIGEST_COUNT \<and> length (si_vendor_info s) < 256"

interpretation spec_algorithm_codec: wire_codec spec_algorithm_wire spec_id_algorithm_read "\<lambda>_. True"
  by unfold_locales (auto simp: spec_algorithm_wire_def spec_id_algorithm_read_def)

lemma spec_signature_lossy:
  "trim_end_matches (\<lambda>ch. ch = [0]) (from_utf8_lossy spec_signature) =
     map (\<lambda>b. [b]) (ascii_bytes ''Spec ID Event03'')"
  "starts_with (ascii_bytes ''Spec ID Event'') (str_bytes (map (\<lambda>b. [b]) (ascii_bytes ''Spec ID Event03'')))"
  by code_simp+

lemma length_spec_signature [simp]: "length spec_signature = 16"
  by code_simp

lemma occurs_at_nth: "occurs_at d c w \<Longrightarrow> i < length w \<Longrightarrow> c + i < length d \<and> d ! (c + i) = w ! i"
  by (auto simp: occurs_at_iff nth_append)

lemma spec_id_round_trip:
  assumes "spec_id_valid s"
  shows "parse_spec_id_event (spec_id_wire s) = Inr s"
proof -
  let ?d = "spec_id_wire s"
  let ?algs = "concat (map spec_algorithm_wire (si_algorithms s))"
  let ?n = "length (si_algorithms s)" and ?v = "length (si_vendor_info s)"
  have n: "unat (of_nat ?n :: u32) = ?n" "?n \<le> MAX_DIGEST_COUNT" and v: "unat (of_nat ?v :: u8) = ?v"
    using assms by (auto simp: spec_id_valid_def MAX_DIGEST_COUNT_def unat_of_nat take_bit_nat_eq_self)
  have o: "occurs_at ?d 0 spec_signature" "occurs_at ?d 16 (le32 (si_platform_class s))"
    "occurs_at ?d 20 (spec_versions s)"
    "occurs_at ?d 24 (le32 (of_nat ?n))" "occurs_at ?d 28 ?algs"
    "occurs_at ?d (28 + length ?algs) (u8_marshal (of_nat ?v))"
    "occurs_at ?d (28 + length ?algs + 1) (si_vendor_info s)"
    using occurs_at_whole [of ?d] by (simp_all add: spec_id_wire_def ac_simps)
  have sig: "take 16 ?d = spec_signature" using occurs_at_take [OF o(1)] by simp
  have len: "28 + length ?algs + 1 + ?v \<le> length ?d" using occurs_at_bounds [OF o(7)] .
  have head: "read_u32_le ?d 16 = Inr (si_platform_class s, 20)"
    "read_u32_le ?d 24 = Inr (of_nat ?n, 28)"
    using le32_codec.codec [OF o(2)] le32_codec.codec [OF o(4)] by simp_all
  have version: "?d ! 20 = si_spec_version_major s" "?d ! 21 = si_spec_version_minor s"
    "?d ! 22 = si_spec_errata s" "?d ! 23 = si_uintn_size s"
    using occurs_at_nth [OF o(3), of 0] occurs_at_nth [OF o(3), of 1] occurs_at_nth [OF o(3), of 2]
      occurs_at_nth [OF o(3), of 3] by (simp_all add: spec_versions_def)
  have algs: "read_n spec_id_algorithm_read ?n ?d 28 = Inr (si_algorithms s, 28 + length ?algs)"
    using spec_algorithm_codec.read_n_codec [OF o(5)] by simp
  have vendor: "?d ! (28 + length ?algs) = of_nat ?v"
    "take ?v (drop (28 + length ?algs + 1) ?d) = si_vendor_info s"
    using occurs_at_nth [OF o(6), of 0] occurs_at_take [OF o(7)] by (simp_all add: u8_marshal_def)
  have lens: "16 \<le> length ?d" "24 \<le> length ?d" "28 + length ?algs < length ?d" using len by simp_all
  have "starts_with (ascii_bytes ''Spec ID Event'') (str_bytes (si_signature s))"
    and "trim_end_matches (\<lambda>ch. ch = [0]) (from_utf8_lossy spec_signature) = si_signature s"
    using assms spec_signature_lossy by (simp_all add: spec_id_valid_def)
  then show ?thesis
    using lens len n(2) vendor(2)
    by (simp add: parse_spec_id_event_def sig head version algs n(1) v vendor(1) Let_def)
qed

text \<open>An event of the 1.2 format: one SHA-1 digest, the data size, the data.\<close>

definition event1_wire :: "event \<Rightarrow> bytes" where
  "event1_wire e =
     le32 (ev_pcr_index e) @ le32 (ev_event_type e) @ concat (map ed_digest (ev_digests e)) @
     le32 (of_nat (length (ev_event_data e))) @ ev_event_data e"

definition event1_valid :: "event \<Rightarrow> bool" where
  "event1_valid e \<longleftrightarrow>
     map ed_alg_id (ev_digests e) = [ALG_SHA1] \<and> length (concat (map ed_digest (ev_digests e))) = 20 \<and>
     length (ev_event_data e) \<le> MAX_EVENT_DATA_SIZE"

interpretation event1_codec: wire_codec event1_wire parse_event1_entry event1_valid
proof
  fix e d c
  assume valid: "event1_valid e" and o: "occurs_at d c (event1_wire e)"
  let ?m = "length (ev_event_data e)"
  obtain dg where dg: "ev_digests e = [\<lparr>ed_alg_id = ALG_SHA1, ed_digest = dg\<rparr>]" "length dg = 20"
  proof -
    obtain a where a: "ev_digests e = [a]" "ed_alg_id a = ALG_SHA1" "length (ed_digest a) = 20"
      using valid by (cases "ev_digests e") (auto simp: event1_valid_def)
    then have "a = \<lparr>ed_alg_id = ALG_SHA1, ed_digest = ed_digest a\<rparr>" by simp
    with a show ?thesis by (metis that)
  qed
  have m: "unat (of_nat ?m :: u32) = ?m" "?m \<le> MAX_EVENT_DATA_SIZE"
    using valid by (auto simp: event1_valid_def MAX_EVENT_DATA_SIZE_def)
  have p: "occurs_at d c (le32 (ev_pcr_index e))" "occurs_at d (c + 4) (le32 (ev_event_type e))"
    "occurs_at d (c + 8) dg" "occurs_at d (c + 28) (le32 (of_nat ?m))" "occurs_at d (c + 32) (ev_event_data e)"
    using o dg by (simp_all add: event1_wire_def ac_simps)
  have b: "c + 32 + ?m \<le> length d" using occurs_at_bounds [OF p(5)] .
  have reads: "read_u32_le d c = Inr (ev_pcr_index e, c + 4)" "read_u32_le d (c + 4) = Inr (ev_event_type e, c + 8)"
    "read_u32_le d (c + 28) = Inr (of_nat ?m, c + 32)"
    using le32_codec.codec [OF p(1)] le32_codec.codec [OF p(2)] le32_codec.codec [OF p(4)] by simp_all
  have "parse_event1_digests d (c + 8) = Inr (ev_digests e, c + 28)"
    using b dg occurs_at_take [OF p(3)] by (simp add: parse_event1_digests_def)
  moreover have "event_data_read False ?m d (c + 32) = Inr (ev_event_data e, c + 32 + ?m)"
    using b m occurs_at_take [OF p(5)] by (simp add: event_data_read_def)
  ultimately show "parse_event1_entry d c = Inr (e, c + length (event1_wire e))"
    using b reads m dg by (simp add: parse_event1_entry_def event1_wire_def)
qed

lemma event1_entries_of_wire:
  "list_all event1_valid es \<Longrightarrow>
     parse_event1_entries_from (pre @ concat (map event1_wire es)) (length pre) acc = Inr (acc @ es)"
proof (induction es arbitrary: pre acc)
  case Nil
  then show ?case by (simp add: parse_event1_entries_from.simps)
next
  case (Cons e es)
  let ?d = "pre @ event1_wire e @ concat (map event1_wire es)"
  have "parse_event1_entry ?d (length pre) = Inr (e, length (pre @ event1_wire e))"
    using Cons.prems event1_codec.codec [of ?d "length pre" e] by simp
  moreover have "parse_event1_entries_from ?d (length (pre @ event1_wire e)) (acc @ [e]) = Inr (acc @ e # es)"
    using Cons.IH [of "pre @ event1_wire e" "acc @ [e]"] Cons.prems by simp
  moreover have "0 < length (event1_wire e)" by (simp add: event1_wire_def)
  ultimately show ?case by (simp add: parse_event1_entries_from.simps [of ?d "length pre"])
qed

text \<open>
  C31. A TCG 2.0 log, a Spec ID event of version 2 or later in the 1.2 format followed by events of the 2.0 format,
  is read back event by event, with the sizes of unknown algorithms taken from the Spec ID event. Three kinds of events are
  excluded, since the parser reads them otherwise: a digest that does not have the size announced for its algorithm, a
  digest whose first two bytes, as a little-endian number, are its own length (they are taken for a length prefix), and a
  further \<open>EV_NO_ACTION\<close> event without data or with another Spec ID event as its data.
\<close>

theorem crypto_agile_round_trip:
  assumes "event1_valid e" "ev_event_data e = spec_id_wire s" "spec_id_valid s"
    and "2 \<le> si_spec_version_major s"
    and "list_all (event_plain (insert_overrides (si_algorithms s) Map.empty)) es"
  shows "parse_event_log from_json hex_decode (event1_wire e @ concat (map event2_wire es)) = Inr (e # es)"
proof -
  let ?d = "event1_wire e @ concat (map event2_wire es)"
  have "parse_event1_entry ?d 0 = Inr (e, length (event1_wire e))"
    using event1_codec.codec_front [OF assms(1)] by simp
  moreover have "try_parse_spec_id_event (ev_event_data e) = Inr (Some s)"
    by (simp add: try_parse_spec_id_event_def assms(2) spec_id_round_trip [OF assms(3)])
  ultimately have "parse_event_log_with_event1_spec ?d = Inr (e # es)"
    using assms(4) event2_entries_of_wire [OF assms(5), of "event1_wire e"]
    by (simp add: parse_event_log_with_event1_spec_def event2_loop_spec)
  then show ?thesis by (simp add: parse_event_log_def)
qed

text \<open>A log whose Spec ID event announces SHA-256 and an algorithm the program does not know.\<close>

definition demo_spec :: spec_id_event where
  "demo_spec = \<lparr>si_signature = map (\<lambda>b. [b]) (ascii_bytes ''Spec ID Event03''), si_platform_class = 0,
     si_spec_version_major = 2, si_spec_version_minor = 0, si_spec_errata = 0, si_uintn_size = 2,
     si_algorithms = [\<lparr>sa_algorithm_id = 0x0012, sa_digest_size = 3\<rparr>], si_vendor_info = []\<rparr>"

definition demo_spec_event :: event where
  "demo_spec_event = \<lparr>ev_pcr_index = 0, ev_event_type = SPEC_ID_EVENT_TYPE,
     ev_digests = [\<lparr>ed_alg_id = ALG_SHA1, ed_digest = replicate 20 0\<rparr>],
     ev_event_data = spec_id_wire demo_spec\<rparr>"

definition demo_locality_event :: event where
  "demo_locality_event = \<lparr>ev_pcr_index = 0, ev_event_type = SPEC_ID_EVENT_TYPE,
     ev_digests = [\<lparr>ed_alg_id = 0x0012, ed_digest = [0, 0, 0]\<rparr>], ev_event_data = ascii_bytes ''StartupLocality'' @ [0, 3]\<rparr>"

definition demo_sm3_event :: event where
  "demo_sm3_event = \<lparr>ev_pcr_index = 7, ev_event_type = 0x80000001,
     ev_digests = [\<lparr>ed_alg_id = 0x0012, ed_digest = [9, 8, 7]\<rparr>], ev_event_data = [1]\<rparr>"

lemma demo_log_valid:
  "event1_valid demo_spec_event" "spec_id_valid demo_spec" "2 \<le> si_spec_version_major demo_spec"
  "event_plain (insert_overrides (si_algorithms demo_spec) Map.empty) demo_sm3_event"
  by (simp_all add: event1_valid_def demo_spec_event_def demo_spec_def spec_id_valid_def spec_id_wire_def
      spec_algorithm_wire_def u8_marshal_def MAX_EVENT_DATA_SIZE_def MAX_DIGEST_COUNT_def event_plain_def
      demo_sm3_event_def digest_plain_def digest_len_for_alg_def SPEC_ID_EVENT_TYPE_def)

lemma demo_locality_plain: "event_plain (insert_overrides (si_algorithms demo_spec) Map.empty) demo_locality_event"
proof -
  have "try_parse_spec_id_event (ascii_bytes ''StartupLocality'' @ [0, 3]) = Inr None" by code_simp
  then show ?thesis
    by (simp add: demo_spec_def MAX_EVENT_DATA_SIZE_def MAX_DIGEST_COUNT_def event_plain_def
        demo_locality_event_def digest_plain_def digest_len_for_alg_def SPEC_ID_EVENT_TYPE_def ascii_bytes_def)
qed

theorem crypto_agile_round_trip_witness:
  "event1_valid demo_spec_event \<and> ev_event_data demo_spec_event = spec_id_wire demo_spec \<and>
   parse_event_log (\<lambda>_. Inl []) (\<lambda>_. Inl []) (event1_wire demo_spec_event @ concat (map event2_wire [demo_locality_event, demo_sm3_event])) =
     Inr [demo_spec_event, demo_locality_event, demo_sm3_event]"
proof -
  have data: "ev_event_data demo_spec_event = spec_id_wire demo_spec"
    by (simp add: demo_spec_event_def)
  have "list_all (event_plain (insert_overrides (si_algorithms demo_spec) Map.empty)) [demo_locality_event, demo_sm3_event]"
    using demo_log_valid(4) demo_locality_plain by simp
  from crypto_agile_round_trip [OF demo_log_valid(1) data demo_log_valid(2,3) this, of "\<lambda>_. Inl []" "\<lambda>_. Inl []"] data
  show ?thesis by (simp add: demo_log_valid)
qed

section \<open>Replay\<close>

text \<open>The measurements a PCR receives, in order.\<close>

definition pcr_measurements :: "pcr_algorithm \<Rightarrow> u32 \<Rightarrow> event list \<Rightarrow> bytes list" where
  "pcr_measurements alg p events =
     List.map_filter (\<lambda>e. digest_for_algorithm e alg)
       (filter (\<lambda>e. ev_pcr_index e = p \<and>
          (case digest_for_algorithm e alg of Some m \<Rightarrow> length m = pcr_digest_len alg | None \<Rightarrow> False)) events)"

text \<open>The TPM's definition of a PCR's value: start from zeros and extend once per measurement.\<close>

definition pcr_value :: "hash_functions \<Rightarrow> pcr_algorithm \<Rightarrow> bytes list \<Rightarrow> bytes option" where
  "pcr_value h alg ms =
     (if ms = [] then None
      else Some (foldl (extend_digest h alg) (replicate (pcr_digest_len alg) 0) ms))"

lemma pcr_measurements_snoc:
  "pcr_measurements alg p (es @ [e]) =
     pcr_measurements alg p es @
       (case digest_for_algorithm e alg of
          Some m \<Rightarrow> if ev_pcr_index e = p \<and> length m = pcr_digest_len alg then [m] else []
        | None \<Rightarrow> [])"
  by (auto simp: pcr_measurements_def List.map_filter_def split: option.split)

lemma replay_pcrs_value: "replay_pcrs h es alg p = pcr_value h alg (pcr_measurements alg p es)"
proof (induction es rule: rev_induct)
  case Nil
  then show ?case by (simp add: replay_pcrs_def pcr_measurements_def pcr_value_def List.map_filter_def)
next
  case (snoc e es)
  have step: "replay_pcrs h (es @ [e]) alg = replay_event h alg e (replay_pcrs h es alg)"
    by (simp add: replay_pcrs_def)
  show ?case
    unfolding step pcr_measurements_snoc
    using snoc.IH by (auto simp: replay_event_def pcr_value_def Let_def split: option.split if_splits)
qed

text \<open>
  The replayed value of a PCR is the fold of the TPM's extend operation
  over the measurements the log has for that PCR and bank, in order, and a PCR without
  measurements is absent; the events of other PCRs do not influence it.
\<close>

theorem replay_is_fold: "replay_pcrs h events alg p = pcr_value h alg (pcr_measurements alg p events)"
  by (rule replay_pcrs_value)

text \<open>
  An EV_NO_ACTION event is extended like any other: replaying
  just the Spec ID event gives PCR 0 the hash of forty zero bytes, where a TPM, which
  does not extend such events, keeps twenty zero bytes.
\<close>

theorem replay_extends_no_action:
  "replay_pcrs h [demo_spec_event] Pcr_Sha1 0 = Some (hf_sha1 h (replicate 40 0))"
proof -
  have "replicate 20 0 @ replicate 20 (0 :: u8) = replicate 40 0"
    by (simp flip: replicate_add)
  then show ?thesis
    by (simp add: replay_pcrs_def replay_event_def digest_for_algorithm_def demo_spec_event_def Let_def)
qed

end
