(* ===== verification/Tee_Report_Facts.thy ===== *)
theory Tee_Report_Facts
  imports Tee_Reports
begin

text \<open>
  The layouts of the hardware reports, in both directions: a parsed report determines the
  bytes it was read from, and every report with fields of the right sizes is read back.
\<close>

lemma le_bytes_of_le_sized:
  "length bs = n \<Longrightarrow> 8 * n \<le> LENGTH('a) \<Longrightarrow> le_bytes n (of_le bs :: 'a::len word) = bs"
  using le_bytes_of_le [of bs] by auto

lemma concat_c_fields: "concat (c_fields ns d) = take (sum_list ns) d"
  by (induction ns arbitrary: d) (simp_all add: take_add)

lemma length_of_c_fields: "sum_list ns \<le> length d \<Longrightarrow> map length (c_fields ns d) = ns"
  by (induction ns arbitrary: d) auto

text \<open>
  A structure with a reader \<open>of_wire\<close> and a list of its fields, which the reader cuts out
  of a buffer of the structure's size.
\<close>

locale c_struct =
  fixes sizes :: "nat list" and of_wire :: "bytes \<Rightarrow> 'r" and struct_fields :: "'r \<Rightarrow> bytes list"
    and valid :: "'r \<Rightarrow> bool"
  assumes cut: "length d = sum_list sizes \<Longrightarrow> struct_fields (of_wire d) = c_fields sizes d"
    and valid_cut: "length d = sum_list sizes \<Longrightarrow> valid (of_wire d)"
    and valid_sizes: "valid r \<Longrightarrow> map length (struct_fields r) = sizes"
    and rebuild: "valid r \<Longrightarrow> of_wire (concat (struct_fields r)) = r"
begin

lemma length_wire: "valid r \<Longrightarrow> length (concat (struct_fields r)) = sum_list sizes"
  using valid_sizes [of r] by (simp add: length_concat)

lemma layout:
  assumes "length d = sum_list sizes"
  shows "of_wire d = r \<longleftrightarrow> valid r \<and> d = concat (struct_fields r)"
proof
  assume "of_wire d = r"
  then show "valid r \<and> d = concat (struct_fields r)"
    using cut [OF assms] valid_cut [OF assms] concat_c_fields [of sizes d] assms by auto
next
  assume "valid r \<and> d = concat (struct_fields r)"
  then show "of_wire d = r" using rebuild by simp
qed

lemma rebuild_wire: "length d = sum_list sizes \<Longrightarrow> concat (struct_fields (of_wire d)) = d"
  using cut [of d] concat_c_fields [of sizes d] by simp

lemma prefix_layout:
  "n = sum_list sizes \<Longrightarrow> n \<le> length bs \<Longrightarrow>
     of_wire (take n bs) = r \<longleftrightarrow> valid r \<and> take n bs = concat (struct_fields r)"
  using layout [of "take n bs" r] by simp

end

section \<open>SEV-SNP\<close>

definition snp_fields :: "snp_report \<Rightarrow> bytes list" where
  "snp_fields r =
     [le_bytes 4 (sr_version r), le_bytes 4 (sr_guest_svn r), le_bytes 8 (sr_policy r),
      le_bytes 16 (sr_family r), le_bytes 16 (sr_image_id r), le_bytes 4 (sr_vmpl r),
      le_bytes 4 (sr_signature_algo r), le_bytes 8 (sr_current_tcb r), le_bytes 8 (sr_platform_info r),
      le_bytes 4 (sr_flags r), le_bytes 4 (sr_reserved0 r), sr_report_data r, sr_measurement r,
      sr_host_data r, sr_id_key_digest r, sr_author_key_digest r, sr_report_id r, sr_report_id_ma r,
      le_bytes 8 (sr_reported_tcb r), sr_reserved1 r, sr_chip_id r, le_bytes 8 (sr_committed_tcb r),
      [sr_current_build r], [sr_current_minor r], [sr_current_major r], [sr_reserved2 r],
      [sr_committed_build r], [sr_committed_minor r], [sr_committed_major r], [sr_reserved3 r],
      le_bytes 8 (sr_launch_tcb r), sr_reserved4 r, sr_signature r]"

definition snp_valid :: "snp_report \<Rightarrow> bool" where
  "snp_valid r \<longleftrightarrow> map length (snp_fields r) = snp_sizes"

lemma of_le_single [simp]: "(of_le [b] :: u8) = b"
  by simp

lemma single_of_le: "length d = 1 \<Longrightarrow> [of_le d :: u8] = d"
  by (cases d) simp_all

lemma snp_cut:
  assumes "length d = sum_list snp_sizes"
  shows "snp_fields (snp_of_wire d) = c_fields snp_sizes d"
  using assms
  by (simp add: snp_sizes_def snp_of_wire_def Let_def snp_fields_def le_bytes_of_le_sized single_of_le)

interpretation snp: c_struct snp_sizes snp_of_wire snp_fields snp_valid
proof
  fix d :: bytes assume d: "length d = sum_list snp_sizes"
  show "snp_fields (snp_of_wire d) = c_fields snp_sizes d" using d by (rule snp_cut)
  then show "snp_valid (snp_of_wire d)" using d by (simp add: snp_valid_def length_of_c_fields)
next
  fix r assume v: "snp_valid r"
  then show "map length (snp_fields r) = snp_sizes" by (simp add: snp_valid_def)
  then have "c_fields snp_sizes (concat (snp_fields r)) = snp_fields r" by (rule c_fields_of_concat)
  then show "snp_of_wire (concat (snp_fields r)) = r"
    unfolding snp_of_wire_def by (simp add: snp_fields_def)
qed


section \<open>TDX\<close>

definition report_type_sizes :: "nat list" where "report_type_sizes = [1, 1, 1, 1]"

definition report_type_fields :: "report_type \<Rightarrow> bytes list" where
  "report_type_fields r =
     [[rt_tee_type r], [rt_sub_type r], [rt_version r], [rt_reserved r]]"

definition report_type_valid :: "report_type \<Rightarrow> bool" where
  "report_type_valid r \<longleftrightarrow> map length (report_type_fields r) = report_type_sizes"

interpretation report_type: c_struct report_type_sizes report_type_of_wire report_type_fields report_type_valid
proof
  fix d :: bytes assume d: "length d = sum_list report_type_sizes"
  then show c: "report_type_fields (report_type_of_wire d) = c_fields report_type_sizes d"
    by (simp add: report_type_sizes_def report_type_of_wire_def Let_def report_type_fields_def le_bytes_of_le_sized single_of_le
         )
  from d show "report_type_valid (report_type_of_wire d)"
    unfolding report_type_valid_def c length_of_c_fields [OF eq_imp_le [OF d [symmetric]]]
    by (simp add: report_type_sizes_def report_type_of_wire_def Let_def  )
next
  fix r assume v: "report_type_valid r"
  then show "map length (report_type_fields r) = report_type_sizes" by (simp add: report_type_valid_def)
  then have c: "c_fields report_type_sizes (concat (report_type_fields r)) = report_type_fields r" by (rule c_fields_of_concat)
  then show "report_type_of_wire (concat (report_type_fields r)) = r"
    using v unfolding report_type_of_wire_def report_type_sizes_def [symmetric] c
    by (simp add: report_type_fields_def report_type_valid_def )
qed

definition report_mac_sizes :: "nat list" where "report_mac_sizes = [4, 12, 16, 48, 48, 64, 32, 32]"

definition report_mac_fields :: "report_mac \<Rightarrow> bytes list" where
  "report_mac_fields r =
     [concat (report_type_fields (rm_report_type r)), rm_reserved0 r, rm_cpu_svn r,
      rm_tee_tcb_info_hash r, rm_tee_info_hash r, rm_report_data r, rm_reserved1 r, rm_mac r]"

definition report_mac_valid :: "report_mac \<Rightarrow> bool" where
  "report_mac_valid r \<longleftrightarrow> map length (report_mac_fields r) = report_mac_sizes \<and> report_type_valid (rm_report_type r)"

interpretation report_mac: c_struct report_mac_sizes report_mac_of_wire report_mac_fields report_mac_valid
proof
  fix d :: bytes assume d: "length d = sum_list report_mac_sizes"
  then show c: "report_mac_fields (report_mac_of_wire d) = c_fields report_mac_sizes d"
    by (simp add: report_mac_sizes_def report_mac_of_wire_def Let_def report_mac_fields_def le_bytes_of_le_sized single_of_le
        report_type.rebuild_wire report_type_sizes_def)
  from d show "report_mac_valid (report_mac_of_wire d)"
    unfolding report_mac_valid_def c length_of_c_fields [OF eq_imp_le [OF d [symmetric]]]
    by (simp add: report_mac_sizes_def report_mac_of_wire_def Let_def report_type.valid_cut report_type_sizes_def)
next
  fix r assume v: "report_mac_valid r"
  then show "map length (report_mac_fields r) = report_mac_sizes" by (simp add: report_mac_valid_def)
  then have c: "c_fields report_mac_sizes (concat (report_mac_fields r)) = report_mac_fields r" by (rule c_fields_of_concat)
  then show "report_mac_of_wire (concat (report_mac_fields r)) = r"
    using v unfolding report_mac_of_wire_def report_mac_sizes_def [symmetric] c
    by (simp add: report_mac_fields_def report_mac_valid_def report_type.rebuild)
qed

definition tcb_svn_sizes :: "nat list" where "tcb_svn_sizes = [1, 1, 1, 13]"

definition tcb_svn_fields :: "tee_tcb_svn \<Rightarrow> bytes list" where
  "tcb_svn_fields r =
     [[ts_module_svn_minor r], [ts_module_svn_major r], [ts_seam_last_patch_svn r], ts_reserved r]"

definition tcb_svn_valid :: "tee_tcb_svn \<Rightarrow> bool" where
  "tcb_svn_valid r \<longleftrightarrow> map length (tcb_svn_fields r) = tcb_svn_sizes"

interpretation tcb_svn: c_struct tcb_svn_sizes tee_tcb_svn_of_wire tcb_svn_fields tcb_svn_valid
proof
  fix d :: bytes assume d: "length d = sum_list tcb_svn_sizes"
  then show c: "tcb_svn_fields (tee_tcb_svn_of_wire d) = c_fields tcb_svn_sizes d"
    by (simp add: tcb_svn_sizes_def tee_tcb_svn_of_wire_def Let_def tcb_svn_fields_def le_bytes_of_le_sized single_of_le
         )
  from d show "tcb_svn_valid (tee_tcb_svn_of_wire d)"
    unfolding tcb_svn_valid_def c length_of_c_fields [OF eq_imp_le [OF d [symmetric]]]
    by (simp add: tcb_svn_sizes_def tee_tcb_svn_of_wire_def Let_def  )
next
  fix r assume v: "tcb_svn_valid r"
  then show "map length (tcb_svn_fields r) = tcb_svn_sizes" by (simp add: tcb_svn_valid_def)
  then have c: "c_fields tcb_svn_sizes (concat (tcb_svn_fields r)) = tcb_svn_fields r" by (rule c_fields_of_concat)
  then show "tee_tcb_svn_of_wire (concat (tcb_svn_fields r)) = r"
    using v unfolding tee_tcb_svn_of_wire_def tcb_svn_sizes_def [symmetric] c
    by (simp add: tcb_svn_fields_def tcb_svn_valid_def )
qed

definition tcb_info_sizes :: "nat list" where "tcb_info_sizes = [8, 16, 48, 48, 8, 16, 95]"

definition tcb_info_fields :: "tee_tcb_info \<Rightarrow> bytes list" where
  "tcb_info_fields r =
     [ti_valid r, concat (tcb_svn_fields (ti_tee_tcb_svn r)), ti_mr_seam r, ti_mr_signer_seam r,
      ti_attributes r, concat (tcb_svn_fields (ti_tee_tcb_svn2 r)), ti_reserved r]"

definition tcb_info_valid :: "tee_tcb_info \<Rightarrow> bool" where
  "tcb_info_valid r \<longleftrightarrow> map length (tcb_info_fields r) = tcb_info_sizes \<and> tcb_svn_valid (ti_tee_tcb_svn r) \<and> tcb_svn_valid (ti_tee_tcb_svn2 r)"

interpretation tcb_info: c_struct tcb_info_sizes tee_tcb_info_of_wire tcb_info_fields tcb_info_valid
proof
  fix d :: bytes assume d: "length d = sum_list tcb_info_sizes"
  then show c: "tcb_info_fields (tee_tcb_info_of_wire d) = c_fields tcb_info_sizes d"
    by (simp add: tcb_info_sizes_def tee_tcb_info_of_wire_def Let_def tcb_info_fields_def le_bytes_of_le_sized single_of_le
        tcb_svn.rebuild_wire tcb_svn_sizes_def)
  from d show "tcb_info_valid (tee_tcb_info_of_wire d)"
    unfolding tcb_info_valid_def c length_of_c_fields [OF eq_imp_le [OF d [symmetric]]]
    by (simp add: tcb_info_sizes_def tee_tcb_info_of_wire_def Let_def tcb_svn.valid_cut tcb_svn_sizes_def)
next
  fix r assume v: "tcb_info_valid r"
  then show "map length (tcb_info_fields r) = tcb_info_sizes" by (simp add: tcb_info_valid_def)
  then have c: "c_fields tcb_info_sizes (concat (tcb_info_fields r)) = tcb_info_fields r" by (rule c_fields_of_concat)
  then show "tee_tcb_info_of_wire (concat (tcb_info_fields r)) = r"
    using v unfolding tee_tcb_info_of_wire_def tcb_info_sizes_def [symmetric] c
    by (simp add: tcb_info_fields_def tcb_info_valid_def tcb_svn.rebuild)
qed

lemma rtmr_cut:
  "192 \<le> length (y :: bytes) \<Longrightarrow> take 48 y @ take 48 (drop 48 (take 192 y)) @ take 48 (drop 96 (take 192 y)) @
     drop 144 (take 192 y) = take 192 y"
  using concat_c_fields [of "[48, 48, 48, 48]" "take 192 y"] by simp

definition info_base_sizes :: "nat list" where "info_base_sizes = [8, 8, 48, 48, 48, 48, 192, 48]"

definition info_base_fields :: "td_info_base \<Rightarrow> bytes list" where
  "info_base_fields r =
     [le_bytes 8 (tb_attributes r), tb_xfam r, tb_mr_td r, tb_mr_config_id r, tb_mr_owner r,
      tb_mr_owner_config r, concat (tb_rtmr r), tb_servd_hash r]"

definition info_base_valid :: "td_info_base \<Rightarrow> bool" where
  "info_base_valid r \<longleftrightarrow> map length (info_base_fields r) = info_base_sizes \<and> map length (tb_rtmr r) = [48, 48, 48, 48]"

interpretation info_base: c_struct info_base_sizes td_info_base_of_wire info_base_fields info_base_valid
proof
  fix d :: bytes assume d: "length d = sum_list info_base_sizes"
  then show c: "info_base_fields (td_info_base_of_wire d) = c_fields info_base_sizes d"
    by (simp add: info_base_sizes_def td_info_base_of_wire_def Let_def info_base_fields_def le_bytes_of_le_sized single_of_le rtmr_cut
         )
  from d show "info_base_valid (td_info_base_of_wire d)"
    unfolding info_base_valid_def c length_of_c_fields [OF eq_imp_le [OF d [symmetric]]]
    by (simp add: info_base_sizes_def td_info_base_of_wire_def Let_def  )
next
  fix r assume v: "info_base_valid r"
  then show "map length (info_base_fields r) = info_base_sizes" by (simp add: info_base_valid_def)
  then have c: "c_fields info_base_sizes (concat (info_base_fields r)) = info_base_fields r" by (rule c_fields_of_concat)
  then show "td_info_base_of_wire (concat (info_base_fields r)) = r"
    using v c_fields_of_concat [of "tb_rtmr r" "[48, 48, 48, 48]"]
    unfolding td_info_base_of_wire_def info_base_sizes_def [symmetric] c
    by (simp add: info_base_fields_def info_base_valid_def )
qed

definition td_report_sizes :: "nat list" where "td_report_sizes = [256, 239, 17, 448, 64]"

definition td_report_fields :: "td_report \<Rightarrow> bytes list" where
  "td_report_fields r =
     [concat (report_mac_fields (tr_report_mac_struct r)), concat (tcb_info_fields (tr_tee_tcb_info r)),
      tr_reserved r, concat (info_base_fields (td_info_base (tr_td_info r))), td_info_extension (tr_td_info r)]"

definition td_report_valid :: "td_report \<Rightarrow> bool" where
  "td_report_valid r \<longleftrightarrow> map length (td_report_fields r) = td_report_sizes \<and> report_mac_valid (tr_report_mac_struct r) \<and> tcb_info_valid (tr_tee_tcb_info r) \<and> info_base_valid (td_info_base (tr_td_info r))"

interpretation td_report: c_struct td_report_sizes td_report_of_wire td_report_fields td_report_valid
proof
  fix d :: bytes assume d: "length d = sum_list td_report_sizes"
  then show c: "td_report_fields (td_report_of_wire d) = c_fields td_report_sizes d"
    by (simp add: td_report_sizes_def td_report_of_wire_def Let_def td_report_fields_def le_bytes_of_le_sized single_of_le
        report_mac.rebuild_wire tcb_info.rebuild_wire info_base.rebuild_wire report_mac_sizes_def tcb_info_sizes_def info_base_sizes_def)
  from d show "td_report_valid (td_report_of_wire d)"
    unfolding td_report_valid_def c length_of_c_fields [OF eq_imp_le [OF d [symmetric]]]
    by (simp add: td_report_sizes_def td_report_of_wire_def Let_def report_mac.valid_cut tcb_info.valid_cut info_base.valid_cut report_mac_sizes_def tcb_info_sizes_def info_base_sizes_def)
next
  fix r assume v: "td_report_valid r"
  then show "map length (td_report_fields r) = td_report_sizes" by (simp add: td_report_valid_def)
  then have c: "c_fields td_report_sizes (concat (td_report_fields r)) = td_report_fields r" by (rule c_fields_of_concat)
  then show "td_report_of_wire (concat (td_report_fields r)) = r"
    using v unfolding td_report_of_wire_def td_report_sizes_def [symmetric] c
    by (simp add: td_report_fields_def td_report_valid_def report_mac.rebuild tcb_info.rebuild info_base.rebuild)
qed

section \<open>VBS\<close>

definition vbs_header_sizes :: "nat list" where "vbs_header_sizes = [4, 4, 4, 4, 4]"

definition vbs_header_fields :: "vbs_package_header \<Rightarrow> bytes list" where
  "vbs_header_fields r =
     [le_bytes 4 (vh_package_size r), le_bytes 4 (vh_version r), le_bytes 4 (vh_signature_scheme r),
      le_bytes 4 (vh_signature_size r), le_bytes 4 (vh_reserved r)]"

definition vbs_header_valid :: "vbs_package_header \<Rightarrow> bool" where
  "vbs_header_valid r \<longleftrightarrow> map length (vbs_header_fields r) = vbs_header_sizes"

interpretation vbs_header: c_struct vbs_header_sizes vbs_header_of_wire vbs_header_fields vbs_header_valid
proof
  fix d :: bytes assume d: "length d = sum_list vbs_header_sizes"
  then show c: "vbs_header_fields (vbs_header_of_wire d) = c_fields vbs_header_sizes d"
    by (simp add: vbs_header_sizes_def vbs_header_of_wire_def Let_def vbs_header_fields_def le_bytes_of_le_sized single_of_le
         )
  from d show "vbs_header_valid (vbs_header_of_wire d)"
    unfolding vbs_header_valid_def c length_of_c_fields [OF eq_imp_le [OF d [symmetric]]]
    by (simp add: vbs_header_sizes_def vbs_header_of_wire_def Let_def  )
next
  fix r assume v: "vbs_header_valid r"
  then show "map length (vbs_header_fields r) = vbs_header_sizes" by (simp add: vbs_header_valid_def)
  then have c: "c_fields vbs_header_sizes (concat (vbs_header_fields r)) = vbs_header_fields r" by (rule c_fields_of_concat)
  then show "vbs_header_of_wire (concat (vbs_header_fields r)) = r"
    using v unfolding vbs_header_of_wire_def vbs_header_sizes_def [symmetric] c
    by (simp add: vbs_header_fields_def vbs_header_valid_def )
qed

definition vbs_identity_sizes :: "nat list" where "vbs_identity_sizes = [32, 32, 32, 32, 4, 4, 4, 4, 4, 4, 64]"

definition vbs_identity_fields :: "vbs_vm_identity \<Rightarrow> bytes list" where
  "vbs_identity_fields r =
     [vi_owner_id r, vi_measurement r, vi_signer r, vi_host_data r, le_bytes 4 (vi_enabled_vtl r),
      le_bytes 4 (vi_policy r), le_bytes 4 (vi_guest_vtl r), le_bytes 4 (vi_guest_svn r),
      le_bytes 4 (vi_guest_product_id r), le_bytes 4 (vi_guest_module_id r), vi_reserved r]"

definition vbs_identity_valid :: "vbs_vm_identity \<Rightarrow> bool" where
  "vbs_identity_valid r \<longleftrightarrow> map length (vbs_identity_fields r) = vbs_identity_sizes"

interpretation vbs_identity: c_struct vbs_identity_sizes vbs_identity_of_wire vbs_identity_fields vbs_identity_valid
proof
  fix d :: bytes assume d: "length d = sum_list vbs_identity_sizes"
  then show c: "vbs_identity_fields (vbs_identity_of_wire d) = c_fields vbs_identity_sizes d"
    by (simp add: vbs_identity_sizes_def vbs_identity_of_wire_def Let_def vbs_identity_fields_def le_bytes_of_le_sized single_of_le
         )
  from d show "vbs_identity_valid (vbs_identity_of_wire d)"
    unfolding vbs_identity_valid_def c length_of_c_fields [OF eq_imp_le [OF d [symmetric]]]
    by (simp add: vbs_identity_sizes_def vbs_identity_of_wire_def Let_def  )
next
  fix r assume v: "vbs_identity_valid r"
  then show "map length (vbs_identity_fields r) = vbs_identity_sizes" by (simp add: vbs_identity_valid_def)
  then have c: "c_fields vbs_identity_sizes (concat (vbs_identity_fields r)) = vbs_identity_fields r" by (rule c_fields_of_concat)
  then show "vbs_identity_of_wire (concat (vbs_identity_fields r)) = r"
    using v unfolding vbs_identity_of_wire_def vbs_identity_sizes_def [symmetric] c
    by (simp add: vbs_identity_fields_def vbs_identity_valid_def )
qed

definition vbs_sizes :: "nat list" where "vbs_sizes = [20, 4, 64, 216, 256]"

definition vbs_fields :: "vbs_report \<Rightarrow> bytes list" where
  "vbs_fields r =
     [concat (vbs_header_fields (vr_header r)), le_bytes 4 (vr_version r), vr_report_data r,
      concat (vbs_identity_fields (vr_identity r)), vr_signature r]"

definition vbs_valid :: "vbs_report \<Rightarrow> bool" where
  "vbs_valid r \<longleftrightarrow> map length (vbs_fields r) = vbs_sizes \<and> vbs_header_valid (vr_header r) \<and> vbs_identity_valid (vr_identity r)"

interpretation vbs: c_struct vbs_sizes vbs_of_wire vbs_fields vbs_valid
proof
  fix d :: bytes assume d: "length d = sum_list vbs_sizes"
  then show c: "vbs_fields (vbs_of_wire d) = c_fields vbs_sizes d"
    by (simp add: vbs_sizes_def vbs_of_wire_def Let_def vbs_fields_def le_bytes_of_le_sized single_of_le
        vbs_header.rebuild_wire vbs_identity.rebuild_wire vbs_header_sizes_def vbs_identity_sizes_def)
  from d show "vbs_valid (vbs_of_wire d)"
    unfolding vbs_valid_def c length_of_c_fields [OF eq_imp_le [OF d [symmetric]]]
    by (simp add: vbs_sizes_def vbs_of_wire_def Let_def vbs_header.valid_cut vbs_identity.valid_cut vbs_header_sizes_def vbs_identity_sizes_def)
next
  fix r assume v: "vbs_valid r"
  then show "map length (vbs_fields r) = vbs_sizes" by (simp add: vbs_valid_def)
  then have c: "c_fields vbs_sizes (concat (vbs_fields r)) = vbs_fields r" by (rule c_fields_of_concat)
  then show "vbs_of_wire (concat (vbs_fields r)) = r"
    using v unfolding vbs_of_wire_def vbs_sizes_def [symmetric] c
    by (simp add: vbs_fields_def vbs_valid_def vbs_header.rebuild vbs_identity.rebuild)
qed


section \<open>The parsers\<close>

text \<open>
  C37. The three report parsers implement exactly the C layouts: the
  result is \<open>r\<close> precisely when the buffer has the report's size and begins with the
  fields of \<open>r\<close>, each in its place and little-endian, whatever follows; the sizes are
  1184, 1024 and 560 bytes.
\<close>

theorem tee_report_layouts:
  "(parse_snp_report bs = Inr snp \<longleftrightarrow>
      1184 \<le> length bs \<and> snp_valid snp \<and> take 1184 bs = concat (snp_fields snp)) \<and>
   (parse_tdx_report bs = Inr td \<longleftrightarrow>
      1024 \<le> length bs \<and> td_report_valid td \<and> take 1024 bs = concat (td_report_fields td)) \<and>
   (parse_vbs_report bs = Inr vbs \<longleftrightarrow>
      560 \<le> length bs \<and> vbs_valid vbs \<and> take 560 bs = concat (vbs_fields vbs))"
  using snp.prefix_layout [of 1184 bs snp] td_report.prefix_layout [of 1024 bs td] vbs.prefix_layout [of 560 bs vbs]
  by (auto simp: parse_snp_report_def parse_tdx_report_def parse_vbs_report_def SNP_REPORT_SIZE_def
      TDX_REPORT_SIZE_def VBS_REPORT_SIZE_def snp_sizes_def td_report_sizes_def vbs_sizes_def)

end
