(* ===== verification/Tpm_Attestation_Facts.thy ===== *)
theory Tpm_Attestation_Facts
  imports Tpm_Attestation Tee_Report_Facts
begin

text \<open>
  What the operations of \<open>tpm/attestation.rs\<close> promise: no panic, staging of the user
  data before the report is read, provisioning of the attestation key, the certificate
  without its padding.
\<close>

section \<open>No panic\<close>

definition st_safe :: "('s, 'e, 'a) st \<Rightarrow> bool" where
  "st_safe m \<longleftrightarrow> (\<forall>s. fst (m s) \<noteq> Inl Panic)"

named_theorems safe \<open>computations that never panic\<close>

lemma st_safe_then [safe]: "st_safe m \<Longrightarrow> (\<And>x. st_safe (f x)) \<Longrightarrow> st_safe (st_then m f)"
  by (simp add: st_safe_def st_then_no_panic)

lemma st_safe_caught [safe]:
  assumes "st_safe m" "\<And>e. st_safe (f (Inl (Fail e)))" "\<And>x. st_safe (f (Inr x))"
  shows "st_safe (st_then (st_catch m) f)"
proof -
  have "fst (f r s) \<noteq> Inl Panic" if "r \<noteq> Inl Panic" for r s
    using that assms(2,3) by (cases r; simp add: st_safe_def) (metis fault.exhaust)
  then show ?thesis
    using assms(1) unfolding st_safe_def
    by (intro allI st_then_no_panic st_catch_no_panic) (auto dest: st_catch_value)
qed

lemma st_safe_ignore [safe]: "st_safe m \<Longrightarrow> st_safe (st_ignore m)"
  by (simp add: st_safe_def st_ignore_no_panic)

lemma st_safe_res [safe]: "r \<noteq> Inl Panic \<Longrightarrow> st_safe (st_res r)"
  by (simp add: st_safe_def)

lemma st_safe_map_err [safe]: "st_safe m \<Longrightarrow> st_safe (st_map_err f m)"
  by (auto simp: st_safe_def st_map_err_def split: prod.split) (metis fst_conv)

lemma st_safe_if [safe]: "st_safe m \<Longrightarrow> st_safe m' \<Longrightarrow> st_safe (if b then m else m')"
  by simp

lemma st_safe_case_option [safe]:
  "st_safe m \<Longrightarrow> (\<And>x. st_safe (f x)) \<Longrightarrow> st_safe (case y of None \<Rightarrow> m | Some x \<Rightarrow> f x)"
  by (cases y) simp_all

lemma st_safe_case_prod [safe]: "(\<And>a b. st_safe (f a b)) \<Longrightarrow> st_safe (case p of (a, b) \<Rightarrow> f a b)"
  by (cases p) simp

context panic_free_transport begin

lemma device_ops_safe:
  "st_safe (tpm_read_public transmit_raw h)" "st_safe (tpm_create_primary transmit_raw hier template pcrs)"
  "st_safe (tpm_create_primary_ecc transmit_raw hier ecc_template)"
  "st_safe (tpm_flush_context transmit_raw h)" "st_safe (tpm_evict_control transmit_raw h h')"
  "st_safe (tpm_quote_with_key transmit_raw h pcrs)" "st_safe (tpm_certify_with_key transmit_raw h h')"
  "st_safe (tpm_sign transmit_raw h digest)" "st_safe (tpm_verify_signature transmit_raw h digest sig)"
  "st_safe (tpm_nv_read_public transmit_raw i)" "st_safe (tpm_nv_define_space transmit_raw public auth)"
  "st_safe (tpm_read_nv_index transmit_raw i)" "st_safe (tpm_write_nv_index transmit_raw i data)"
  "st_safe (tpm_find_nv_index transmit_raw i)" "st_safe (tpm_read_pcrs_for_alg transmit_raw alg pcrs)"
  by (simp_all add: st_safe_def key_ops_no_panic signing_ops_no_panic nv_ops_no_panic
      nv_transfers_no_panic find_nv_index_no_panic read_pcrs_no_panic)

lemma ensure_ak_safe: "st_safe (ensure_persistent_ak transmit_raw)"
  unfolding ensure_persistent_ak_def get_ak_pub_def
  by (rule st_safe_caught) (simp_all add: safe device_ops_safe)

lemma ecc_key_safe:
  "st_safe (create_and_persist_ecc_signing_key transmit_raw)"
  "st_safe (sign_with_ecc_key transmit_raw digest)"
  "st_safe (verify_with_ecc_key transmit_raw digest sig)"
  unfolding create_and_persist_ecc_signing_key_def sign_with_ecc_key_def verify_with_ecc_key_def
    require_ecc_key_def
  by (rule st_safe_caught; simp add: safe device_ops_safe)+

lemma ak_cert_safe: "st_safe (get_ak_cert transmit_raw)" "st_safe (get_ak_cert_trimmed transmit_raw)"
proof -
  show c: "st_safe (get_ak_cert transmit_raw)"
    unfolding get_ak_cert_def by (rule st_safe_caught) (simp_all add: safe device_ops_safe)
  show "st_safe (get_ak_cert_trimmed transmit_raw)"
    unfolding get_ak_cert_trimmed_def by (rule st_safe_then) (simp_all add: c safe)
qed

lemma pcr_evidence_safe:
  "st_safe (get_pcr_values transmit_raw pcrs)" "st_safe (get_pcr_quote transmit_raw pcrs)"
  unfolding get_pcr_values_def tpm_read_pcrs_sha256_def get_pcr_quote_def
  by (simp_all add: safe device_ops_safe ensure_ak_safe)

lemma ephemeral_key_safe:
  assumes "\<And>s. fst (rnd 16 s) \<noteq> Inl Panic"
  shows "st_safe (get_ephemeral_key rnd sha transmit_raw pcrs)"
    "st_safe (decrypt_with_ephemeral_key rnd sha transmit_raw h pcrs ct scheme)"
proof -
  have "st_safe (tpm_compute_pcr_policy_digest rnd sha transmit_raw pcrs)"
    "st_safe (tpm_rsa_decrypt rnd sha transmit_raw h pcrs ct scheme)"
    by (simp_all add: st_safe_def compute_pcr_policy_digest_no_panic rsa_decrypt_no_panic assms)
  then show "st_safe (get_ephemeral_key rnd sha transmit_raw pcrs)"
    "st_safe (decrypt_with_ephemeral_key rnd sha transmit_raw h pcrs ct scheme)"
    unfolding get_ephemeral_key_def decrypt_with_ephemeral_key_def
    by (simp_all add: safe device_ops_safe)
qed

lemma user_data_safe:
  "st_safe (get_user_data_nv transmit_raw)"
  "st_safe (ensure_user_data_index_and_write transmit_raw data)"
  "st_safe (get_cvm_report_raw transmit_raw user_data)"
proof -
  have "st_safe (st_then (st_catch (tpm_read_nv_index transmit_raw i)) (\<lambda>r.
    case r of Inr raw \<Rightarrow> st_res (Inr (g raw)) | Inl f \<Rightarrow> st_res (map_err h (Inl f))))" for g i h
    by (rule st_safe_caught) (simp_all add: safe device_ops_safe)
  then show "st_safe (get_user_data_nv transmit_raw)"
    unfolding get_user_data_nv_def by (intro st_safe_caught) (simp_all add: safe device_ops_safe)
  show e: "st_safe (ensure_user_data_index_and_write transmit_raw data)" for data
    unfolding ensure_user_data_index_and_write_def define_user_data_index_def
    by (rule st_safe_caught) (simp_all add: safe device_ops_safe)
  show "st_safe (get_cvm_report_raw transmit_raw user_data)"
    unfolding get_cvm_report_raw_def by (simp add: safe device_ops_safe e)
qed

end

section \<open>User data\<close>

lemma meaningful_prefix:
  "take (meaningful_len raw) raw = rev (dropWhile (\<lambda>b. b = 0) (rev raw))"
proof -
  have "raw = rev (dropWhile (\<lambda>b. b = 0) (rev raw)) @ rev (takeWhile (\<lambda>b. b = 0) (rev raw))"
    by (metis rev_append rev_rev_ident takeWhile_dropWhile_id)
  then show ?thesis
    unfolding meaningful_len_def by (metis append_eq_conv_conj length_rev)
qed

lemma meaningful_append_zeros:
  "take (meaningful_len (d @ replicate n 0)) (d @ replicate n 0) = take (meaningful_len d) d"
  unfolding meaningful_prefix by (simp add: dropWhile_append)

lemma length_pad_user_data [simp]: "length (pad_user_data d) = 64"
  by (simp add: pad_user_data_def)

lemma pad_user_data_eq: "length d \<le> 64 \<Longrightarrow> pad_user_data d = d @ replicate (64 - length d) 0"
  by (simp add: pad_user_data_def min_def)

text \<open>The outcome of staging, and of a report with user data, in terms of its steps.\<close>

lemma staging_steps:
  assumes "ensure_user_data_index_and_write tr data s = (Inr (), s')"
  shows "\<exists>s1. tpm_write_nv_index tr NV_INDEX_USER_DATA data s1 = (Inr (), s')"
  using assms unfolding ensure_user_data_index_and_write_def by (auto simp: st_then_eq_Inr)

lemma st_map_err_eq_Inr [simp]: "st_map_err f m s = (Inr x, s') \<longleftrightarrow> m s = (Inr x, s')"
  by (auto simp: st_map_err_def map_err_def split: prod.split sum.split fault.split)

lemma report_raw_with_data:
  "length d \<le> 64 \<Longrightarrow> get_cvm_report_raw tr (Some d) s = (Inr raw, s') \<longleftrightarrow>
     (\<exists>s1. ensure_user_data_index_and_write tr (pad_user_data d) s = (Inr (), s1) \<and>
        tpm_read_nv_index tr NV_INDEX_CVM_REPORT s1 = (Inr raw, s'))"
  by (auto simp: get_cvm_report_raw_def st_then_eq_Inr)

section \<open>A vTPM with the two indices\<close>

lemma nv_readable_find:
  "nv_readable tr i r auth content \<Longrightarrow> tpm_find_nv_index tr i s = (Inr (Some (nr_public r)), s)"
  by (simp add: tpm_find_nv_index_def st_then_def st_catch_def nv_readable_read_public)

lemma nv_readable_read:
  assumes "nv_readable tr i r auth content"
  shows "tpm_read_nv_index tr i s = (Inr (content s), s)"
proof -
  have "read_ranges tr i (nv_ranges (length (content s)) 0) [] s =
      (Inr ([] @ concat (map (\<lambda>(a, k). take k (drop a (content s))) (nv_ranges (length (content s)) 0))), s)"
    by (rule nv_readable_read_ranges [OF assms]) (auto dest: nv_ranges_bounds)
  then have "read_ranges tr i (nv_ranges (length (content s)) 0) [] s = (Inr (content s), s)"
    by (simp add: nv_ranges_slices)
  then show ?thesis
    by (simp add: read_nv_index_eq st_then_def nv_readable_read_public [OF assms] nv_readable_length [OF assms])
qed

lemma nv_service_write:
  assumes "nv_service tr i r auth content" "length data = unat (np_data_size (nr_public r))"
  shows "\<exists>s'. tpm_write_nv_index tr i data s = (Inr (), s') \<and> content s' = data"
proof -
  note readable = nv_service_readable [OF assms(1)]
  obtain s' where "write_ranges tr i data (nv_ranges (length data) 0) s = (Inr (), s')"
    "content s' = data @ drop (length data) (content s)"
    using nv_service_write_ranges [OF assms(1), of data 0 s] assms(2) by auto
  moreover have "length (content s) = length data"
    by (simp add: nv_readable_length [OF readable] assms(2))
  ultimately show ?thesis
    using assms(2) by (simp add: write_nv_index_chunks st_then_def nv_readable_read_public [OF readable])
qed

text \<open>
  The platform's contract: both indices exist, the user data index has its 64 bytes. The
  platform derives the report from the user data, so writing may change \<open>report\<close>.
\<close>

definition cvm_vtpm ::
    "'s transport \<Rightarrow> ('s \<Rightarrow> bytes) \<Rightarrow> ('s \<Rightarrow> bytes) \<Rightarrow> bool" where
  "cvm_vtpm tr user_data report \<longleftrightarrow>
     (\<exists>r auth. nv_service tr NV_INDEX_USER_DATA r auth user_data \<and> np_data_size (nr_public r) = 64) \<and>
     (\<exists>r auth. nv_readable tr NV_INDEX_CVM_REPORT r auth report)"

lemma stage_user_data:
  assumes "cvm_vtpm tr user_data report"
  shows "\<exists>s'. ensure_user_data_index_and_write tr (pad_user_data d) s = (Inr (), s') \<and>
    user_data s' = pad_user_data d"
proof -
  obtain r auth where nv: "nv_service tr NV_INDEX_USER_DATA r auth user_data"
    and "np_data_size (nr_public r) = 64"
    using assms by (auto simp: cvm_vtpm_def)
  then obtain s' where "tpm_write_nv_index tr NV_INDEX_USER_DATA (pad_user_data d) s = (Inr (), s')"
    "user_data s' = pad_user_data d"
    using nv_service_write [OF nv, of "pad_user_data d" s] by auto
  then show ?thesis
    by (simp add: ensure_user_data_index_and_write_def st_then_def st_catch_def nv_readable_find [OF nv_service_readable [OF nv]])
qed

lemma read_user_data:
  assumes "cvm_vtpm tr user_data report"
  shows "get_user_data_nv tr s = (Inr (Some (take (meaningful_len (user_data s)) (user_data s))), s)"
proof -
  obtain r auth where "nv_readable tr NV_INDEX_USER_DATA r auth user_data"
    using assms by (auto simp: cvm_vtpm_def intro: nv_service_readable)
  then show ?thesis
    by (simp add: get_user_data_nv_def st_then_def st_catch_def nv_readable_find nv_readable_read)
qed

lemma read_report:
  "cvm_vtpm tr user_data report \<Longrightarrow> tpm_read_nv_index tr NV_INDEX_CVM_REPORT s = (Inr (report s), s)"
  by (auto simp: cvm_vtpm_def nv_readable_read)

text \<open>What a caller is promised, over the stored user data alone.\<close>

fun staged :: "bytes option \<Rightarrow> bytes \<Rightarrow> bytes" where
  "staged None old = old"
| "staged (Some d) old = d @ replicate (64 - length d) 0"

lemma report_with_user_data:
  assumes "cvm_vtpm tr user_data report" "\<And>d. ud = Some d \<Longrightarrow> length d \<le> 64"
  shows "\<exists>s'. get_cvm_report_raw tr ud s = (Inr (report s'), s') \<and> user_data s' = staged ud (user_data s)"
proof (cases ud)
  case None
  then show ?thesis
    by (simp add: get_cvm_report_raw_def st_then_def st_map_err_def read_report [OF assms(1)])
next
  case (Some d)
  obtain s' where "ensure_user_data_index_and_write tr (pad_user_data d) s = (Inr (), s')"
    "user_data s' = pad_user_data d"
    using stage_user_data [OF assms(1)] by blast
  then show ?thesis
    using Some assms(2) report_raw_with_data [of d tr s "report s'" s']
    by (intro exI [of _ s']) (simp add: read_report [OF assms(1)] pad_user_data_eq)
qed

text \<open>
  C28. On the platform's vTPM, asking for a report with at most 64 bytes of
  user data returns the report as it stands once the index holds that data padded with
  zeros (and untouched without user data), and \<open>get_user_data_nv\<close> then returns the data
  without its trailing zeros. The abstract state is the content of the index.
\<close>

theorem cvm_report_binds_user_data:
  assumes "cvm_vtpm tr user_data report" "\<And>d. ud = Some d \<Longrightarrow> length d \<le> 64"
  shows "\<exists>s'. get_cvm_report_raw tr ud s = (Inr (report s'), s') \<and>
    user_data s' = staged ud (user_data s) \<and>
    get_user_data_nv tr s' =
      (Inr (Some (case ud of
         None \<Rightarrow> take (meaningful_len (user_data s)) (user_data s)
       | Some d \<Rightarrow> take (meaningful_len d) d)), s')"
proof -
  obtain s' where s': "get_cvm_report_raw tr ud s = (Inr (report s'), s')"
    "user_data s' = staged ud (user_data s)"
    using report_with_user_data [OF assms] by blast
  then show ?thesis
    using meaningful_append_zeros [of _ "64 - length (the ud)"]
    by (intro exI [of _ s'], cases ud) (simp_all add: read_user_data [OF assms(1)])
qed

text \<open>
  Over any device: a report returned for a caller's user data was read
  directly after the padded data was written to its index without error, and data of
  more than 64 bytes is rejected without a command. No stale report is handed back.
\<close>

theorem report_requires_staging:
  "(get_cvm_report_raw tr (Some d) s = (Inr raw, s') \<longrightarrow>
      length d \<le> 64 \<and>
      (\<exists>s1 s2. tpm_write_nv_index tr NV_INDEX_USER_DATA (d @ replicate (64 - length d) 0) s1 = (Inr (), s2) \<and>
         tpm_read_nv_index tr NV_INDEX_CVM_REPORT s2 = (Inr raw, s'))) \<and>
   (64 < length d \<longrightarrow> snd (get_cvm_report_raw tr (Some d) s) = s)"
proof (intro conjI impI)
  show "snd (get_cvm_report_raw tr (Some d) s) = s" if "64 < length d"
    using that by (simp add: get_cvm_report_raw_def st_then_def)
  assume r: "get_cvm_report_raw tr (Some d) s = (Inr raw, s')"
  then show l: "length d \<le> 64"
    by (auto simp: get_cvm_report_raw_def st_then_eq_Inr split: if_splits)
  from r show "\<exists>s1 s2. tpm_write_nv_index tr NV_INDEX_USER_DATA (d @ replicate (64 - length d) 0) s1 = (Inr (), s2) \<and>
      tpm_read_nv_index tr NV_INDEX_CVM_REPORT s2 = (Inr raw, s')"
    unfolding report_raw_with_data [OF l] pad_user_data_eq [OF l] by (blast dest: staging_steps)
qed

text \<open>
  A simulated vTPM: \<open>area i\<close> is the public area of the index \<open>i\<close>, \<open>get i\<close> and \<open>put i\<close> read and
  replace its content in the state.
\<close>

definition nv_device ::
    "(u32 \<Rightarrow> nv_read_public_response_parameters) \<Rightarrow> (u32 \<Rightarrow> 's \<Rightarrow> bytes) \<Rightarrow> (u32 \<Rightarrow> bytes \<Rightarrow> 's \<Rightarrow> 's) \<Rightarrow>
     's transport" where
  "nv_device area get put cmd s =
     (let code = drop 6 (take 10 cmd) in
      if code = u32_marshal (command_code_u32 NvReadPublic)
      then (Inr (plain_response 0 (nv_read_public_wire (area (of_be (drop 10 cmd))))), s)
      else
        let i = of_be (take 4 (drop 14 cmd)); params = drop 31 cmd in
        if code = u32_marshal (command_code_u32 NvRead)
        then
          (let n = unat (of_be (take 2 params) :: u16); off = unat (of_be (drop 2 params) :: u16)
           in (Inr (session_response 0 [] (of_nat (2 + n)) (sized_marshal (take n (drop off (get i s)))) []), s))
        else
          (let n = length params - 4; part = take n (drop 2 params);
               off = unat (of_be (drop (2 + n) params) :: u16); old = get i s
           in (Inr (session_response 0 [] 0 [] []),
               put i (take off old @ part @ drop (off + n) old) s)))"

lemma index_of_command:
  "drop 6 (take 10 (plain_command code hs params)) = u32_marshal (command_code_u32 code)"
  "drop 10 (plain_command code [] (u32_marshal i)) = u32_marshal i"
  "take 4 (drop 14 (pw_command code [h, i] params)) = u32_marshal i"
  by (simp_all add: plain_command_def pw_command_def command_frame_def handle_area_def)

lemma of_be_u32_marshal [simp]: "(of_be (u32_marshal i) :: u32) = i"
  by (simp add: u32_marshal_def)

lemma nv_device_requests:
  "nv_device area get put (nv_read_public_request i) s =
     (Inr (plain_response 0 (nv_read_public_wire (area i))), s)"
  "nv_device area get put (nv_read_request i n off) s =
     (Inr (session_response 0 [] (of_nat (2 + unat n))
        (sized_marshal (take (unat n) (drop (unat off) (get i s)))) []), s)"
  "nv_device area get put (nv_write_request i part off) s =
     (Inr (session_response 0 [] 0 [] []),
      put i (take (unat off) (get i s) @ part @ drop (unat off + length part) (get i s)) s)"
  using pw_command_parts(2) [of "[hierarchy_handle Hierarchy_Owner, i]"]
  by (simp_all add: nv_device_def nv_read_public_request_def command_code_of_frame index_of_command
      nv_read_request_def nv_write_request_def pw_command_parts Let_def
      u32_marshal_inject u16_marshal_def sized_marshal_def)

lemma nv_device_readable:
  assumes "nv_read_public_valid (area i)"
    and "\<And>s. length (get i s) = unat (np_data_size (nr_public (area i)))"
  shows "nv_readable (nv_device area get put) i (area i) [] (get i)"
proof -
  have b: "unat (np_data_size (nr_public (area i))) < 65536" by (rule unat_u16_bound)
  have small: "off + n \<le> unat (np_data_size (nr_public (area i))) \<Longrightarrow> n < 65536 \<and> off < 65536" for off n
    using b by linarith
  show ?thesis
    unfolding nv_readable_def using small assms by (auto simp: nv_device_requests)
qed

lemma nv_device_service:
  assumes "nv_read_public_valid (area i)"
    and "\<And>s. length (get i s) = unat (np_data_size (nr_public (area i)))"
    and "\<And>v s. length v = unat (np_data_size (nr_public (area i))) \<Longrightarrow> get i (put i v s) = v"
  shows "nv_service (nv_device area get put) i (area i) [] (get i)"
proof -
  have b: "off + n \<le> unat (np_data_size (nr_public (area i))) \<Longrightarrow> off < 65536" for off n
    using unat_u16_bound [of "np_data_size (nr_public (area i))"] by linarith
  show ?thesis
    unfolding nv_service_def using b assms nv_device_readable [where area = area and get = get and put = put and i = i, OF assms(1,2)]
    by (auto simp: nv_device_requests)
qed

text \<open>A state of user data and report; writing user data makes the platform write a report.\<close>

definition demo_area :: "u32 \<Rightarrow> nv_read_public_response_parameters" where
  "demo_area i = \<lparr>nr_public = \<lparr>np_nv_index = i, np_name_alg = ALG_SHA256, np_attributes = 0x20060006,
     np_auth_policy = [], np_data_size = (if i = NV_INDEX_USER_DATA then 64 else 5)\<rparr>, nr_name = [0, 11]\<rparr>"

definition resized :: "nat \<Rightarrow> bytes \<Rightarrow> bytes" where
  "resized n bs = take n (bs @ replicate n 0)"

lemma resized_length [simp]: "length (resized n bs) = n" "length bs = n \<Longrightarrow> resized n bs = bs"
  by (simp_all add: resized_def)

definition demo_get :: "u32 \<Rightarrow> bytes \<times> bytes \<Rightarrow> bytes" where
  "demo_get i s = (if i = NV_INDEX_USER_DATA then resized 64 (fst s) else resized 5 (snd s))"

definition demo_put :: "u32 \<Rightarrow> bytes \<Rightarrow> bytes \<times> bytes \<Rightarrow> bytes \<times> bytes" where
  "demo_put i v s = (if i = NV_INDEX_USER_DATA then (v, 0x48 # 0x43 # take 3 v) else (fst s, v))"

definition demo_vtpm :: "(bytes \<times> bytes) transport" where
  "demo_vtpm = nv_device demo_area demo_get demo_put"

lemma demo_vtpm_ok:
  "cvm_vtpm demo_vtpm (demo_get NV_INDEX_USER_DATA) (demo_get NV_INDEX_CVM_REPORT)"
proof -
  have "nv_service demo_vtpm i (demo_area i) [] (demo_get i)" for i
    unfolding demo_vtpm_def
    by (rule nv_device_service)
      (auto simp: demo_area_def demo_get_def demo_put_def nv_read_public_valid_def fits_u16_def)
  moreover have "np_data_size (nr_public (demo_area NV_INDEX_USER_DATA)) = 64"
    by (simp add: demo_area_def)
  ultimately show ?thesis unfolding cvm_vtpm_def by (metis nv_service_readable)
qed

theorem cvm_report_binds_user_data_witness:
  "\<exists>s'. get_cvm_report_raw demo_vtpm (Some [7, 8, 0]) ([], []) = (Inr (demo_get NV_INDEX_CVM_REPORT s'), s') \<and>
    demo_get NV_INDEX_USER_DATA s' = [7, 8] @ replicate 62 0 \<and>
    get_user_data_nv demo_vtpm s' = (Inr (Some [7, 8]), s')"
proof -
  obtain s' where "get_cvm_report_raw demo_vtpm (Some [7, 8, 0]) ([], []) = (Inr (demo_get NV_INDEX_CVM_REPORT s'), s')"
    "demo_get NV_INDEX_USER_DATA s' = staged (Some [7, 8, 0]) (demo_get NV_INDEX_USER_DATA ([], []))"
    "get_user_data_nv demo_vtpm s' = (Inr (Some (take (meaningful_len [7, 8, 0]) [7, 8, 0])), s')"
    using cvm_report_binds_user_data [OF demo_vtpm_ok, of "Some [7, 8, 0]" "([], [])"] by auto
  moreover have "[7, 8, 0] @ replicate (64 - length [7, 8, 0 :: u8]) (0 :: u8) = [7, 8] @ replicate 62 0"
    by (simp add: numeral_eq_Suc)
  moreover have "take (meaningful_len [7, 8, 0]) [7, 8, 0] = [7, 8 :: u8]"
    by (simp add: meaningful_len_def)
  ultimately show ?thesis by (metis staged.simps(2))
qed

theorem report_requires_staging_witness:
  "\<exists>raw s' s1 s2. get_cvm_report_raw demo_vtpm (Some [7, 8]) ([], []) = (Inr raw, s') \<and>
    tpm_write_nv_index demo_vtpm NV_INDEX_USER_DATA ([7, 8] @ replicate (64 - length [7, 8 :: u8]) 0) s1 = (Inr (), s2) \<and>
    tpm_read_nv_index demo_vtpm NV_INDEX_CVM_REPORT s2 = (Inr raw, s') \<and>
    snd (get_cvm_report_raw demo_vtpm (Some (replicate 65 1)) s1) = s1"
proof -
  obtain s0 where "ensure_user_data_index_and_write demo_vtpm (pad_user_data [7, 8]) ([], []) = (Inr (), s0)"
    using stage_user_data [OF demo_vtpm_ok] by blast
  then have r: "get_cvm_report_raw demo_vtpm (Some [7, 8]) ([], []) = (Inr (demo_get NV_INDEX_CVM_REPORT s0), s0)"
    by (subst report_raw_with_data) (auto simp: read_report [OF demo_vtpm_ok])
  note staged = report_requires_staging [THEN conjunct1, THEN mp, THEN conjunct2, OF r]
  have "snd (get_cvm_report_raw demo_vtpm (Some (replicate 65 1)) s1) = s1" for s1
    using report_requires_staging [of demo_vtpm "replicate 65 1" s1] by simp
  with staged r show ?thesis by blast
qed

section \<open>Provisioned keys\<close>

text \<open>
  The objects of a TPM as far as provisioning sees them: the public area behind each handle, and how many objects the
  transient memory and the persistent storage still take.
\<close>

record key_view =
  kv_object :: "u32 \<Rightarrow> bytes option"
  kv_transient :: nat
  kv_persistent :: nat

definition is_transient :: "u32 \<Rightarrow> bool" where "is_transient h \<longleftrightarrow> drop_bit 24 h = 0x80"
definition is_persistent :: "u32 \<Rightarrow> bool" where "is_persistent h \<longleftrightarrow> drop_bit 24 h = 0x81"

lemma not_both: "is_transient h \<Longrightarrow> \<not> is_persistent h"
  by (simp add: is_transient_def is_persistent_def)

definition key_created :: "key_view \<Rightarrow> u32 \<Rightarrow> key_view \<Rightarrow> bool" where
  "key_created v t v' \<longleftrightarrow> is_transient t \<and> kv_object v t = None \<and>
     (\<exists>pub. v' = v\<lparr>kv_object := (kv_object v)(t \<mapsto> pub), kv_transient := kv_transient v - 1\<rparr>)"

text \<open>
  What TPM 2.0 documents of these commands: \<open>ReadPublic\<close> changes nothing and succeeds exactly for a handle with an
  object; \<open>CreatePrimary\<close> puts a key behind an unused transient handle while there is transient memory;
  \<open>EvictControl\<close> copies a transient object to an unoccupied persistent handle while there is room; \<open>FlushContext\<close>
  removes a transient object. Nothing is said of an occupied persistent handle, of a full memory or of other handles.
\<close>

definition key_store :: "'s transport \<Rightarrow> ('s \<Rightarrow> key_view) \<Rightarrow> bool" where
  "key_store tr view \<longleftrightarrow>
     (\<forall>s h. case kv_object (view s) h of
        Some pub \<Rightarrow> tpm_read_public tr h s = (Inr pub, s)
      | None \<Rightarrow> (\<exists>e. tpm_read_public tr h s = (Inl (Fail e), s))) \<and>
     (\<forall>s. 0 < kv_transient (view s) \<longrightarrow>
        (\<exists>cp s'. tpm_create_primary tr Hierarchy_Endorsement rsa_restricted_signing_public [] s = (Inr cp, s') \<and>
           key_created (view s) (cp_handle cp) (view s')) \<and>
        (\<exists>cp s'. tpm_create_primary_ecc tr Hierarchy_Owner ecc_unrestricted_signing_public s = (Inr cp, s') \<and>
           key_created (view s) (cp_handle cp) (view s'))) \<and>
     (\<forall>s h t pub. is_persistent h \<and> kv_object (view s) h = None \<and> 0 < kv_persistent (view s) \<and>
        is_transient t \<and> kv_object (view s) t = Some pub \<longrightarrow>
        (\<exists>s'. tpm_evict_control tr h t s = (Inr (), s') \<and>
           view s' = (view s)\<lparr>kv_object := (kv_object (view s))(h \<mapsto> pub), kv_persistent := kv_persistent (view s) - 1\<rparr>)) \<and>
     (\<forall>s t. is_transient t \<and> kv_object (view s) t \<noteq> None \<longrightarrow>
        (\<exists>s'. tpm_flush_context tr t s = (Inr (), s') \<and>
           view s' = (view s)\<lparr>kv_object := (kv_object (view s))(t := None), kv_transient := kv_transient (view s) + 1\<rparr>))"

lemma key_store_read:
  assumes "key_store tr view"
  shows "kv_object (view s) h = Some pub \<Longrightarrow> tpm_read_public tr h s = (Inr pub, s)"
    and "kv_object (view s) h = None \<Longrightarrow> \<exists>e. tpm_read_public tr h s = (Inl (Fail e), s)"
  using assms [unfolded key_store_def, THEN conjunct1, THEN spec [of _ s], THEN spec [of _ h]] by simp_all

text \<open>What provisioning does to the objects: nothing, or one more persistent object and no transient one.\<close>

definition provisioned :: "('s \<Rightarrow> key_view) \<Rightarrow> u32 \<Rightarrow> bytes \<Rightarrow> 's \<Rightarrow> 's \<Rightarrow> bool" where
  "provisioned view h pub s s' \<longleftrightarrow>
     (case kv_object (view s) h of
        Some p \<Rightarrow> p = pub \<and> s' = s
      | None \<Rightarrow>
          view s' = (view s)\<lparr>kv_object := (kv_object (view s))(h \<mapsto> pub), kv_persistent := kv_persistent (view s) - 1\<rparr>)"

lemma provisioned_object: "provisioned view h pub s s' \<Longrightarrow> kv_object (view s') h = Some pub"
  by (auto simp: provisioned_def split: option.splits)

lemma key_store_persist:
  assumes "key_store tr view" "is_persistent h" "kv_object (view s) h = None"
    and "0 < kv_transient (view s)" "0 < kv_persistent (view s)" "key_created (view s) t (view s1)"
  shows "\<exists>s2 s3 pub. tpm_evict_control tr h t s1 = (Inr (), s2) \<and>
    st_ignore (tpm_flush_context tr t) s2 = (Inr (), s3) \<and> provisioned view h pub s s3"
proof -
  let ?o = "kv_object (view s)"
  obtain pub where t: "is_transient t" "?o t = None"
    and v1: "view s1 = (view s)\<lparr>kv_object := ?o(t \<mapsto> pub), kv_transient := kv_transient (view s) - 1\<rparr>"
    using assms(6) by (auto simp: key_created_def)
  have ne: "h \<noteq> t" using not_both [OF t(1)] assms(2) by blast
  have "is_persistent h \<and> kv_object (view s1) h = None \<and> 0 < kv_persistent (view s1) \<and>
      is_transient t \<and> kv_object (view s1) t = Some pub"
    using v1 ne t assms(2,3,5) by simp
  then obtain s2 where e: "tpm_evict_control tr h t s1 = (Inr (), s2)"
    and v2: "view s2 = (view s1)\<lparr>kv_object := (kv_object (view s1))(h \<mapsto> pub), kv_persistent := kv_persistent (view s1) - 1\<rparr>"
    using assms(1) unfolding key_store_def by blast
  have "is_transient t \<and> kv_object (view s2) t \<noteq> None" using v1 v2 ne t by simp
  then obtain s3 where f: "tpm_flush_context tr t s2 = (Inr (), s3)"
    and v3: "view s3 = (view s2)\<lparr>kv_object := (kv_object (view s2))(t := None), kv_transient := kv_transient (view s2) + 1\<rparr>"
    using assms(1) unfolding key_store_def by blast
  have "(?o(t \<mapsto> pub, h \<mapsto> pub))(t := None) = ?o(h \<mapsto> pub)" using ne t by auto
  then have "view s3 = (view s)\<lparr>kv_object := ?o(h \<mapsto> pub), kv_persistent := kv_persistent (view s) - 1\<rparr>"
    using v1 v2 v3 assms(4) by simp
  then have "provisioned view h pub s s3" using assms(3) by (simp add: provisioned_def)
  moreover have "st_ignore (tpm_flush_context tr t) s2 = (Inr (), s3)" using f by (simp add: st_ignore_def)
  ultimately show ?thesis using e by blast
qed

text \<open>
  C29. On a TPM that does with objects what TPM 2.0 documents, provisioning ends with the key in its slot.
  A key that is there already is kept and nothing changes. If the slot is empty, and the TPM has room for one transient
  and one persistent object, a key is put there, and nothing else is different afterwards: the transient object it was
  created as is gone again. The key can be read then, the ECC operation returns what is stored, and provisioning again
  returns the same without changing the TPM.
\<close>

theorem keys_get_provisioned:
  assumes "key_store tr view"
    and "kv_object (view s) AK_PERSISTENT_HANDLE \<noteq> None \<and> kv_object (view s) ECC_SIGNING_KEY_PERSISTENT_HANDLE \<noteq> None \<or>
      0 < kv_transient (view s) \<and> 0 < kv_persistent (view s)"
  shows "(\<exists>s' pub. ensure_persistent_ak tr s = (Inr (), s') \<and> provisioned view AK_PERSISTENT_HANDLE pub s s' \<and>
      get_ak_pub tr s' = (Inr pub, s') \<and> ensure_persistent_ak tr s' = (Inr (), s')) \<and>
    (\<exists>s' pub. create_and_persist_ecc_signing_key tr s = (Inr pub, s') \<and>
      provisioned view ECC_SIGNING_KEY_PERSISTENT_HANDLE pub s s' \<and>
      get_ecc_signing_key_pub tr s' = (Inr pub, s') \<and>
      create_and_persist_ecc_signing_key tr s' = (Inr pub, s'))"
proof (intro conjI)
  let ?h = AK_PERSISTENT_HANDLE
  note read = key_store_read [OF assms(1)]
  have probed: "ensure_persistent_ak tr s = (Inr (), s)" "get_ak_pub tr s = (Inr pub, s)"
    if "kv_object (view s) ?h = Some pub" for s pub
    using read(1) [OF that] by (simp_all add: ensure_persistent_ak_def get_ak_pub_def st_then_def st_catch_def)
  have "\<exists>s' pub. ensure_persistent_ak tr s = (Inr (), s') \<and> provisioned view ?h pub s s'"
  proof (cases "kv_object (view s) ?h")
    case (Some pub)
    with probed show ?thesis by (auto simp: provisioned_def)
  next
    case None
    with assms(2) have room: "0 < kv_transient (view s)" "0 < kv_persistent (view s)" by auto
    obtain e where e: "tpm_read_public tr ?h s = (Inl (Fail e), s)" using read(2) [OF None] by blast
    obtain cp s1 where c: "tpm_create_primary tr Hierarchy_Endorsement rsa_restricted_signing_public [] s = (Inr cp, s1)"
      "key_created (view s) (cp_handle cp) (view s1)"
      using assms(1) room(1) unfolding key_store_def by blast
    have "is_persistent ?h" by (simp add: is_persistent_def AK_PERSISTENT_HANDLE_def)
    from key_store_persist [OF assms(1) this None room c(2)] e c(1) show ?thesis
      by (auto simp: ensure_persistent_ak_def get_ak_pub_def st_then_def st_catch_def)
  qed
  then show "\<exists>s' pub. ensure_persistent_ak tr s = (Inr (), s') \<and> provisioned view ?h pub s s' \<and>
      get_ak_pub tr s' = (Inr pub, s') \<and> ensure_persistent_ak tr s' = (Inr (), s')"
    using probed provisioned_object by metis
next
  let ?h = ECC_SIGNING_KEY_PERSISTENT_HANDLE
  note read = key_store_read [OF assms(1)]
  have probed: "create_and_persist_ecc_signing_key tr s = (Inr pub, s)" "get_ecc_signing_key_pub tr s = (Inr pub, s)"
    if "kv_object (view s) ?h = Some pub" for s pub
    using read(1) [OF that]
    by (simp_all add: create_and_persist_ecc_signing_key_def get_ecc_signing_key_pub_def st_then_def st_catch_def)
  have "\<exists>s' pub. create_and_persist_ecc_signing_key tr s = (Inr pub, s') \<and> provisioned view ?h pub s s'"
  proof (cases "kv_object (view s) ?h")
    case (Some pub)
    with probed show ?thesis by (auto simp: provisioned_def)
  next
    case None
    with assms(2) have room: "0 < kv_transient (view s)" "0 < kv_persistent (view s)" by auto
    obtain e where e: "tpm_read_public tr ?h s = (Inl (Fail e), s)" using read(2) [OF None] by blast
    obtain cp s1 where c: "tpm_create_primary_ecc tr Hierarchy_Owner ecc_unrestricted_signing_public s = (Inr cp, s1)"
      "key_created (view s) (cp_handle cp) (view s1)"
      using assms(1) room(1) unfolding key_store_def by blast
    have "is_persistent ?h" by (simp add: is_persistent_def ECC_SIGNING_KEY_PERSISTENT_HANDLE_def)
    from key_store_persist [OF assms(1) this None room c(2)] obtain s2 s3 pub where p:
      "tpm_evict_control tr ?h (cp_handle cp) s1 = (Inr (), s2)"
      "st_ignore (tpm_flush_context tr (cp_handle cp)) s2 = (Inr (), s3)" "provisioned view ?h pub s s3" by blast
    have "tpm_read_public tr ?h s3 = (Inr pub, s3)" by (rule read(1) [OF provisioned_object [OF p(3)]])
    with p e c(1) show ?thesis by (auto simp: create_and_persist_ecc_signing_key_def st_then_def st_catch_def)
  qed
  then show "\<exists>s' pub. create_and_persist_ecc_signing_key tr s = (Inr pub, s') \<and> provisioned view ?h pub s s' \<and>
      get_ecc_signing_key_pub tr s' = (Inr pub, s') \<and> create_and_persist_ecc_signing_key tr s' = (Inr pub, s')"
    using probed provisioned_object by metis
qed

text \<open>
  A device with memory for one transient object: its state says whether that is loaded, which persistent handles are
  occupied, and how many more there may be.
\<close>

definition demo_key_public :: tpmt_public where
  "demo_key_public = rsa_restricted_signing_public\<lparr>tp_unique := [1, 2]\<rparr>"

definition demo_key_wire :: bytes where
  "demo_key_wire = tpm2b_public_marshal demo_key_public"

definition demo_created :: bytes where
  "demo_created = session_response 0 (u32_marshal 0x80000000) 0
     (demo_key_wire @ [0, 0] @ [0, 0] @ [0x80, 0x21, 0x40, 0, 0, 7, 0, 0] @ [0, 0] @ [0, 0]) []"

lemma length_demo_key_wire: "length demo_key_wire < 1000"
  by code_simp

type_synonym key_state = "bool \<times> u32 list \<times> nat"

fun key_present :: "key_state \<Rightarrow> u32 \<Rightarrow> bool" where
  "key_present (loaded, kept, room) h \<longleftrightarrow> loaded \<and> h = 0x80000000 \<or> is_persistent h \<and> h \<in> set kept"

fun demo_keys :: "key_state transport" where
  "demo_keys cmd (loaded, kept, room) =
     (let code = drop 6 (take 10 cmd); refused = (Inr (plain_response 0x18B []), (loaded, kept, room)) in
      if code = u32_marshal (command_code_u32 ReadPublic) then
        (if key_present (loaded, kept, room) (of_be (drop 10 cmd))
         then (Inr (plain_response 0 (demo_key_wire @ [0, 0, 0, 0])), (loaded, kept, room)) else refused)
      else if code = u32_marshal (command_code_u32 CreatePrimary) then
        (if loaded then refused else (Inr demo_created, (True, kept, room)))
      else if code = u32_marshal (command_code_u32 EvictControl) then
        (let t = (of_be (take 4 (drop 14 cmd)) :: u32); h = of_be (drop 31 cmd) in
         if loaded \<and> t = 0x80000000 \<and> is_persistent h \<and> h \<notin> set kept \<and> 0 < room
         then (Inr (session_response 0 [] 0 [] []), (loaded, h # kept, room - 1)) else refused)
      else if loaded \<and> of_be (drop 10 cmd) = (0x80000000 :: u32) then (Inr (plain_response 0 []), (False, kept, room))
      else refused)"

declare demo_keys.simps [simp del] key_present.simps [simp del]

lemma demo_created_ok:
  assumes "\<And>hs ps. tr (pw_command CreatePrimary hs ps) s = (Inr demo_created, s')"
  shows "\<exists>cp. tpm_create_primary tr Hierarchy_Endorsement rsa_restricted_signing_public [] s = (Inr cp, s') \<and>
      cp_handle cp = 0x80000000"
    "\<exists>cp. tpm_create_primary_ecc tr Hierarchy_Owner ecc_unrestricted_signing_public s = (Inr cp, s') \<and>
      cp_handle cp = 0x80000000"
proof -
  have "case create_primary_response_from_bytes demo_created of Inr r \<Rightarrow> resp_handle r = 0x80000000 | Inl _ \<Rightarrow> False"
    by code_simp
  then obtain r where r: "create_primary_response_from_bytes demo_created = Inr r" "resp_handle r = 0x80000000"
    by (auto split: sum.splits)
  have ok: "parse_tpm_rc_with_cmd demo_created CreatePrimary = Inr ()" "\<not> length demo_created < 14"
    using length_demo_key_wire by (simp_all add: demo_created_def session_response_ok)
  show "\<exists>cp. tpm_create_primary tr Hierarchy_Endorsement rsa_restricted_signing_public [] s = (Inr cp, s') \<and>
      cp_handle cp = 0x80000000"
    "\<exists>cp. tpm_create_primary_ecc tr Hierarchy_Owner ecc_unrestricted_signing_public s = (Inr cp, s') \<and>
      cp_handle cp = 0x80000000"
    by (simp_all add: tpm_create_primary_def tpm_create_primary_ecc_def Let_def
        create_primary_new_def create_primary_marshal_def command_sessions_def
        run_command_reply [where tr = tr, OF assms ok(1)] require_14_def ok r)
qed

definition key_pub :: bytes where
  "key_pub = (case read_public_response_from_bytes (plain_response 0 (demo_key_wire @ [0, 0, 0, 0])) of
     Inr parsed \<Rightarrow> tpm2b_public_marshal (rp_out_public (resp_parameters parsed)) | Inl _ \<Rightarrow> [])"

lemma demo_keys_read:
  "tpm_read_public demo_keys h s =
     (if key_present s h then Inr key_pub else fst (tpm_read_public demo_keys h s), s)"
  "\<not> key_present s h \<Longrightarrow> \<exists>e. fst (tpm_read_public demo_keys h s) = Inl (Fail e)"
proof -
  obtain loaded kept room where s: "s = (loaded, kept, room)" by (cases s)
  have cmd: "demo_keys (plain_command ReadPublic [h] []) s =
      (Inr (if key_present s h then plain_response 0 (demo_key_wire @ [0, 0, 0, 0]) else plain_response 0x18B []), s)"
  proof -
    have "drop 10 (plain_command ReadPublic [h] []) = u32_marshal h"
      by (simp add: plain_command_def command_frame_def handle_area_def)
    then show ?thesis by (simp add: s demo_keys.simps index_of_command Let_def)
  qed
  have "case read_public_response_from_bytes (plain_response 0 (demo_key_wire @ [0, 0, 0, 0])) of
      Inr _ \<Rightarrow> True | Inl _ \<Rightarrow> False"
    by code_simp
  then obtain r where r: "read_public_response_from_bytes (plain_response 0 (demo_key_wire @ [0, 0, 0, 0])) = Inr r"
    by (auto split: sum.splits)
  have ok: "parse_tpm_rc_with_cmd (plain_response 0 (demo_key_wire @ [0, 0, 0, 0])) ReadPublic = Inr ()"
    by (rule plain_response_ok) (use length_demo_key_wire in simp)
  have "case parse_tpm_rc_with_cmd (plain_response 0x18B []) ReadPublic of Inl (Fail _) \<Rightarrow> True | _ \<Rightarrow> False"
    by code_simp
  then obtain e where e: "parse_tpm_rc_with_cmd (plain_response 0x18B []) ReadPublic = Inl (Fail e)"
    by (auto split: sum.splits fault.splits)
  note unfold = tpm_read_public_def read_public_new_def command_no_sessions_def no_parameters_marshal_def Let_def
  have yes: "tpm_read_public demo_keys h s = (Inr key_pub, s)" if "key_present s h"
    using cmd that ok by (simp add: unfold run_command_def exchange_def st_then_def require_14_def r key_pub_def)
  have no: "tpm_read_public demo_keys h s = (Inl (Fail e), s)" if "\<not> key_present s h"
    using cmd that e by (simp add: unfold run_command_def exchange_def st_then_def)
  from yes no show "tpm_read_public demo_keys h s =
      (if key_present s h then Inr key_pub else fst (tpm_read_public demo_keys h s), s)"
    by (cases "key_present s h") simp_all
  from no show "\<not> key_present s h \<Longrightarrow> \<exists>e. fst (tpm_read_public demo_keys h s) = Inl (Fail e)" by simp
qed

lemma demo_keys_evict:
  assumes "is_persistent h" "h \<notin> set kept" "0 < room"
  shows "tpm_evict_control demo_keys h 0x80000000 (True, kept, room) = (Inr (), (True, h # kept, room - 1))"
proof -
  have "drop 31 (pw_command EvictControl [hierarchy_handle Hierarchy_Owner, 0x80000000] (u32_marshal h)) = u32_marshal h"
    using pw_command_parts(2) [of "[hierarchy_handle Hierarchy_Owner, 0x80000000]"] by simp
  then have "demo_keys (pw_command EvictControl [hierarchy_handle Hierarchy_Owner, 0x80000000] (u32_marshal h)) (True, kept, room) =
      (Inr (session_response 0 [] 0 [] []), (True, h # kept, room - 1))"
    using assms by (simp add: demo_keys.simps pw_command_parts(1) index_of_command Let_def u32_marshal_inject)
  then show ?thesis
    by (simp add: tpm_evict_control_def evict_control_new_def command_sessions_def evict_control_marshal_def
        Let_def run_command_reply [OF _ session_response_ok] evict_control_response_from_bytes_def
        empty_response_session)
qed

lemma demo_keys_flush: "tpm_flush_context demo_keys 0x80000000 (True, kept, room) = (Inr (), (False, kept, room))"
proof -
  have "drop 10 (plain_command FlushContext [0x80000000] []) = u32_marshal 0x80000000"
    by (simp add: plain_command_def command_frame_def handle_area_def)
  then have "demo_keys (plain_command FlushContext [0x80000000] []) (True, kept, room) =
      (Inr (plain_response 0 []), (False, kept, room))"
    by (simp add: demo_keys.simps index_of_command Let_def u32_marshal_inject)
  then show ?thesis
    by (simp add: tpm_flush_context_def flush_context_new_def command_no_sessions_def
        no_parameters_marshal_def Let_def run_command_reply [OF _ plain_response_ok])
qed

lemma demo_keys_create: "demo_keys (pw_command CreatePrimary hs ps) (False, kept, room) = (Inr demo_created, (True, kept, room))"
  by (simp add: demo_keys.simps demo_created_def pw_command_parts Let_def u32_marshal_inject)

fun demo_key_view :: "key_state \<Rightarrow> key_view" where
  "demo_key_view (loaded, kept, room) =
     \<lparr>kv_object = (\<lambda>h. if key_present (loaded, kept, room) h then Some key_pub else None),
      kv_transient = (if loaded then 0 else 1), kv_persistent = room\<rparr>"

lemma transient_present: "is_transient t \<Longrightarrow> key_present (loaded, kept, room) t \<longleftrightarrow> loaded \<and> t = 0x80000000"
  using not_both by (auto simp: key_present.simps)

lemma persistent_present: "is_persistent h \<Longrightarrow> key_present (loaded, kept, room) h \<longleftrightarrow> h \<in> set kept"
  by (auto simp: key_present.simps is_persistent_def)

lemma demo_keys_store: "key_store demo_keys demo_key_view"
proof -
  have read: "case kv_object (demo_key_view s) h of
      Some pub \<Rightarrow> tpm_read_public demo_keys h s = (Inr pub, s)
    | None \<Rightarrow> (\<exists>e. tpm_read_public demo_keys h s = (Inl (Fail e), s))" for s h
  proof (cases "key_present s h")
    case True
    with demo_keys_read(1) [where h = h and s = s] show ?thesis by (cases s) simp
  next
    case False
    from demo_keys_read(2) [OF this] obtain e where "fst (tpm_read_public demo_keys h s) = Inl (Fail e)" by blast
    with False demo_keys_read(1) [where h = h and s = s] show ?thesis by (cases s) simp
  qed
  have t: "is_transient 0x80000000" by (simp add: is_transient_def)
  have created: "key_created (demo_key_view (False, kept, room)) 0x80000000 (demo_key_view (True, kept, room))" for kept room
    using t not_both [OF t] by (auto simp: key_created_def key_present.simps fun_eq_iff intro!: exI [of _ key_pub])
  have create: "(\<exists>cp s'. tpm_create_primary demo_keys Hierarchy_Endorsement rsa_restricted_signing_public [] s = (Inr cp, s') \<and>
        key_created (demo_key_view s) (cp_handle cp) (demo_key_view s')) \<and>
      (\<exists>cp s'. tpm_create_primary_ecc demo_keys Hierarchy_Owner ecc_unrestricted_signing_public s = (Inr cp, s') \<and>
        key_created (demo_key_view s) (cp_handle cp) (demo_key_view s'))"
    if "0 < kv_transient (demo_key_view s)" for s
  proof -
    obtain loaded kept room where s': "s = (loaded, kept, room)" by (cases s)
    with that have s: "s = (False, kept, room)" by (cases loaded) simp_all
    show ?thesis unfolding s
      using demo_created_ok [where tr = demo_keys, OF demo_keys_create, of kept room] created by metis
  qed
  have evict: "\<exists>s'. tpm_evict_control demo_keys h t s = (Inr (), s') \<and>
      demo_key_view s' = (demo_key_view s)\<lparr>kv_object := (kv_object (demo_key_view s))(h \<mapsto> pub),
        kv_persistent := kv_persistent (demo_key_view s) - 1\<rparr>"
    if a: "is_persistent h \<and> kv_object (demo_key_view s) h = None \<and> 0 < kv_persistent (demo_key_view s) \<and>
      is_transient t \<and> kv_object (demo_key_view s) t = Some pub" for s h t pub
  proof -
    obtain loaded kept room where s: "s = (loaded, kept, room)" by (cases s)
    have "key_present s t" "pub = key_pub" using a by (auto simp: s split: if_splits)
    then have l: "loaded" "t = 0x80000000" using a transient_present [of t] by (auto simp: s)
    have h: "h \<notin> set kept" "0 < room" "is_persistent h" using a persistent_present by (auto simp: s split: if_splits)
    from demo_keys_evict [OF h(3,1,2)] h l \<open>pub = key_pub\<close> show ?thesis
      by (intro exI [of _ "(True, h # kept, room - 1)"]) (auto simp: s key_present.simps fun_eq_iff)
  qed
  have flush: "\<exists>s'. tpm_flush_context demo_keys t s = (Inr (), s') \<and>
      demo_key_view s' = (demo_key_view s)\<lparr>kv_object := (kv_object (demo_key_view s))(t := None),
        kv_transient := kv_transient (demo_key_view s) + 1\<rparr>"
    if a: "is_transient t \<and> kv_object (demo_key_view s) t \<noteq> None" for s t
  proof -
    obtain loaded kept room where s: "s = (loaded, kept, room)" by (cases s)
    have l: "loaded" "t = 0x80000000" using a transient_present [of t] by (auto simp: s split: if_splits)
    have "\<not> is_persistent 0x80000000" by (rule not_both [OF t])
    with demo_keys_flush [of kept room] l show ?thesis
      by (intro exI [of _ "(False, kept, room)"]) (auto simp: s key_present.simps fun_eq_iff)
  qed
  show ?thesis unfolding key_store_def using read create evict flush by blast
qed

theorem keys_get_provisioned_witness:
  "\<exists>s' pub. ensure_persistent_ak demo_keys (False, [], 2) = (Inr (), s') \<and>
    provisioned demo_key_view AK_PERSISTENT_HANDLE pub (False, [], 2) s' \<and> get_ak_pub demo_keys s' = (Inr pub, s') \<and>
    ensure_persistent_ak demo_keys s' = (Inr (), s')"
proof -
  have "0 < kv_transient (demo_key_view (False, [], 2)) \<and> 0 < kv_persistent (demo_key_view (False, [], 2))" by simp
  from keys_get_provisioned [OF demo_keys_store disjI2 [OF this]] show ?thesis by blast
qed

section \<open>The certificate without its padding\<close>

text \<open>The length octets of DER: the short form below 128, else one to four big-endian octets.\<close>

definition der_octets :: "bytes \<Rightarrow> nat \<Rightarrow> bool" where
  "der_octets ls n \<longleftrightarrow>
     (n < 128 \<and> ls = [of_nat n]) \<or>
     (\<exists>os. 1 \<le> length os \<and> length os \<le> 4 \<and> ls = of_nat (128 + length os) # os \<and>
        horner_sum unat 256 (rev os) = n)"

lemma foldl_big_endian: "foldl (\<lambda>l b. l * 256 + unat b) 0 os = horner_sum unat 256 (rev os)"
  by (induction os rule: rev_induct) simp_all

lemma der_extent_octets:
  assumes "der_octets ls n"
  shows "der_extent (0x30 # ls @ rest) = Some (n, 1 + length ls)"
proof -
  consider (short) "n < 128" "ls = [of_nat n]"
    | (long) os where "1 \<le> length os" "length os \<le> 4" "ls = of_nat (128 + length os) # os"
        "horner_sum unat 256 (rev os) = n"
    using assms unfolding der_octets_def by blast
  then show ?thesis
  proof cases
    case short
    have "(of_nat n :: u8) AND 2 ^ 7 = 0"
      unfolding and_exp_eq_0_iff_not_bit using short(1) by (simp add: bit_of_nat_iff) (simp add: bit_iff_odd)
    then show ?thesis using short by (simp add: der_extent_def Let_def unat_of_nat)
  next
    case long
    have "length os = 1 \<or> length os = 2 \<or> length os = 3 \<or> length os = 4" using long(1,2) by linarith
    then have b: "(of_nat (128 + length os) :: u8) AND 0x80 \<noteq> 0"
      "unat ((of_nat (128 + length os) :: u8) AND 0x7F) = length os"
      by (elim disjE; simp)+
    then show ?thesis
      using long by (auto simp: der_extent_def Let_def foldl_big_endian)
  qed
qed

text \<open>
  On a TPM whose certificate index holds a DER sequence followed by
  padding, \<open>get_ak_cert_trimmed\<close> returns exactly the sequence: tag, length octets in the
  short form or with one to four octets, and the content, for any content and padding
  with at least four bytes in all.
\<close>

theorem ak_certificate_trimmed:
  assumes "nv_readable tr NV_INDEX_AK_CERT r auth content"
    and "content s = (0x30 # ls @ body) @ padding" "der_octets ls (length body)"
    and "4 \<le> length (content s)"
  shows "get_ak_cert_trimmed tr s = (Inr (0x30 # ls @ body), s)"
proof -
  have size: "length (content s) = unat (np_data_size (nr_public r))"
    by (rule nv_readable_length [OF assms(1)])
  then have "np_data_size (nr_public r) \<noteq> 0" using assms(4) by auto
  then have "get_ak_cert tr s = (Inr (content s), s)"
    by (simp add: get_ak_cert_def st_then_def st_catch_def nv_readable_read_public [OF assms(1)]
        nv_readable_read [OF assms(1)])
  moreover have "trim_der_certificate (content s) = 0x30 # ls @ body"
    using der_extent_octets [OF assms(3), of "body @ padding"] assms(2,4)
    by (simp add: trim_der_certificate_def Let_def)
  ultimately show ?thesis by (simp add: get_ak_cert_trimmed_def st_then_def)
qed

lemma demo_cert_service: "nv_readable demo_vtpm NV_INDEX_AK_CERT (demo_area NV_INDEX_AK_CERT) [] (demo_get NV_INDEX_AK_CERT)"
  unfolding demo_vtpm_def
  by (rule nv_device_readable)
    (auto simp: demo_area_def demo_get_def nv_read_public_valid_def fits_u16_def
       NV_INDEX_AK_CERT_def NV_INDEX_USER_DATA_def)

theorem ak_certificate_trimmed_witness:
  "der_octets [0x81, 1] 1 \<and>
   get_ak_cert_trimmed demo_vtpm ([], [0x30, 0x81, 1, 9, 0]) = (Inr [0x30, 0x81, 1, 9], ([], [0x30, 0x81, 1, 9, 0]))"
proof -
  have d: "der_octets [0x81, 1] (length [9 :: u8])"
    by (auto simp: der_octets_def intro!: exI [of _ "[1]"])
  have c: "demo_get NV_INDEX_AK_CERT ([], [0x30, 0x81, 1, 9, 0]) = (0x30 # [0x81, 1] @ [9]) @ [0]"
    by (simp add: demo_get_def resized_def NV_INDEX_AK_CERT_def NV_INDEX_USER_DATA_def)
  show ?thesis
    using ak_certificate_trimmed [OF demo_cert_service c d] d c by simp
qed

section \<open>The TEE report inside\<close>

text \<open>
  With a vTPM whose report is laid out as the CVM report structure, a caller
  gets the bytes of the hardware report of the announced type, of its size, for the user
  data just staged; for an SNP report those bytes parse to exactly the report's fields.
\<close>

theorem tee_report_extracted:
  assumes "cvm_vtpm tr user_data report" "\<And>d. ud = Some d \<Longrightarrow> length d \<le> 64"
    and "\<And>u. cvm_report_valid (mk u)"
    and "\<And>u. length (claims u) = unat (rc_variable_data_size (cr_runtime_claims_header (mk u)))"
    and "\<And>s. report s = cvm_report_wire (mk (user_data s)) @ claims (user_data s) @ padding (user_data s)"
  shows "\<exists>s' rep. user_data s' = staged ud (user_data s) \<and> rep = mk (user_data s') \<and>
    get_tee_report_and_type from_slice tr ud s =
      Some (Inr (take (tee_report_size (rc_report_type (cr_runtime_claims_header rep))) (cr_tee_report rep),
        rc_report_type (cr_runtime_claims_header rep)), s') \<and>
    (\<forall>snp. rc_report_type (cr_runtime_claims_header rep) = SnpVmReport \<longrightarrow>
       snp_valid snp \<longrightarrow> cr_tee_report rep = concat (snp_fields snp) \<longrightarrow>
       parse_snp_report (take SNP_VM_REPORT_SIZE (cr_tee_report rep)) = Inr snp)"
proof -
  obtain s' where r: "get_cvm_report_raw tr ud s = (Inr (report s'), s')"
    and u: "user_data s' = staged ud (user_data s)"
    using report_with_user_data [OF assms(1,2)] by blast
  let ?rep = "mk (user_data s')"
  have "get_cvm_report from_slice tr ud s =
      Some (Inr (?rep, if claims (user_data s') = [] then None else from_slice (claims (user_data s'))), s')"
    using r assms(5) [of s'] parse_cvm_report_wire [OF assms(3) assms(4)]
    by (simp add: get_cvm_report_def)
  then have "get_tee_report_and_type from_slice tr ud s =
      Some (Inr (take (tee_report_size (rc_report_type (cr_runtime_claims_header ?rep))) (cr_tee_report ?rep),
        rc_report_type (cr_runtime_claims_header ?rep)), s')"
    by (simp add: get_tee_report_and_type_def Let_def flip: take_all_iff) (simp add: min_def)
  moreover have "parse_snp_report (take SNP_VM_REPORT_SIZE (cr_tee_report ?rep)) = Inr snp"
    if "snp_valid snp" "cr_tee_report ?rep = concat (snp_fields snp)" for snp
    using that snp.prefix_layout [of 1184 "cr_tee_report ?rep" snp] assms(3) [of "user_data s'"]
    by (simp add: parse_snp_report_def SNP_REPORT_SIZE_def SNP_VM_REPORT_SIZE_def snp_sizes_def
        cvm_report_valid_def ATTESTATION_REPORT_SIZE_MAX_def)
  ultimately show ?thesis using u by blast
qed

definition demo_report_area :: "u32 \<Rightarrow> nv_read_public_response_parameters" where
  "demo_report_area i = (if i = NV_INDEX_CVM_REPORT
     then \<lparr>nr_public = \<lparr>np_nv_index = i, np_name_alg = ALG_SHA256, np_attributes = 0x20060006,
       np_auth_policy = [], np_data_size = 1240\<rparr>, nr_name = [0, 11]\<rparr> else demo_area i)"

definition demo_report_get :: "u32 \<Rightarrow> bytes \<times> bytes \<Rightarrow> bytes" where
  "demo_report_get i s = (if i = NV_INDEX_CVM_REPORT
     then cvm_report_wire demo_cvm_report @ [0x7B, 0x7D] @ [0, 0] else demo_get i s)"

lemma demo_cvm_report_valid: "cvm_report_valid demo_cvm_report"
  by (simp add: cvm_report_valid_def demo_cvm_report_def cvm_report_header_new_def
      ATTESTATION_REPORT_SIZE_MAX_def SNP_VM_REPORT_SIZE_def)

lemma demo_report_vtpm:
  "cvm_vtpm (nv_device demo_report_area demo_report_get demo_put) (demo_report_get NV_INDEX_USER_DATA)
     (demo_report_get NV_INDEX_CVM_REPORT)"
proof -
  have i: "NV_INDEX_USER_DATA \<noteq> NV_INDEX_CVM_REPORT"
    by (simp add: NV_INDEX_USER_DATA_def NV_INDEX_CVM_REPORT_def)
  have "nv_service (nv_device demo_report_area demo_report_get demo_put) NV_INDEX_USER_DATA
      (demo_report_area NV_INDEX_USER_DATA) [] (demo_report_get NV_INDEX_USER_DATA)"
    using i by (intro nv_device_service)
      (auto simp: demo_report_area_def demo_report_get_def demo_area_def demo_get_def demo_put_def
        nv_read_public_valid_def fits_u16_def)
  moreover have "nv_readable (nv_device demo_report_area demo_report_get demo_put) NV_INDEX_CVM_REPORT
      (demo_report_area NV_INDEX_CVM_REPORT) [] (demo_report_get NV_INDEX_CVM_REPORT)"
    using length_cvm_report_wire [OF demo_cvm_report_valid]
    by (intro nv_device_readable)
      (auto simp: demo_report_area_def demo_report_get_def nv_read_public_valid_def fits_u16_def
        CVM_REPORT_SIZE_def ATTESTATION_REPORT_SIZE_MAX_def SNP_VM_REPORT_SIZE_def)
  moreover have "np_data_size (nr_public (demo_report_area NV_INDEX_USER_DATA)) = 64"
    using i by (simp add: demo_report_area_def demo_area_def)
  ultimately show ?thesis unfolding cvm_vtpm_def by metis
qed

theorem tee_report_extracted_witness:
  "\<exists>s'. get_tee_report_and_type (\<lambda>_. None) (nv_device demo_report_area demo_report_get demo_put) (Some [1]) ([], []) =
    Some (Inr (replicate 1184 7, SnpVmReport), s')"
  using tee_report_extracted [where mk = "\<lambda>_. demo_cvm_report" and claims = "\<lambda>_. [0x7B, 0x7D]" and
      padding = "\<lambda>_. [0, 0]" and ud = "Some [1]" and s = "([], [])" and from_slice = "\<lambda>_. None",
      OF demo_report_vtpm _ demo_cvm_report_valid]
  by (auto simp: demo_report_get_def demo_cvm_report_def runtime_claims_header_new_def SNP_VM_REPORT_SIZE_def)

section \<open>Failures of provisioning and of an absent certificate\<close>

text \<open>
  C30. When the TPM refuses to make the new key persistent, both
  provisioning functions return its error right after \<open>EvictControl\<close>: the transient key
  they created is neither flushed nor returned.
\<close>

theorem provisioning_leaks_transient:
  assumes "tpm_read_public tr AK_PERSISTENT_HANDLE s = (Inl (Fail e1), s1)"
    and "tpm_create_primary tr Hierarchy_Endorsement rsa_restricted_signing_public [] s1 = (Inr cp, s2)"
    and "tpm_evict_control tr AK_PERSISTENT_HANDLE (cp_handle cp) s2 = (Inl (Fail e), s3)"
    and "tpm_read_public tr ECC_SIGNING_KEY_PERSISTENT_HANDLE t = (Inl (Fail e2), t1)"
    and "tpm_create_primary_ecc tr Hierarchy_Owner ecc_unrestricted_signing_public t1 = (Inr ecc, t2)"
    and "tpm_evict_control tr ECC_SIGNING_KEY_PERSISTENT_HANDLE (cp_handle ecc) t2 = (Inl (Fail f), t3)"
  shows "ensure_persistent_ak tr s = (Inl (Fail e), s3) \<and>
    create_and_persist_ecc_signing_key tr t = (Inl (Fail f), t3)"
  by (simp add: ensure_persistent_ak_def get_ak_pub_def create_and_persist_ecc_signing_key_def
      st_then_def st_catch_def assms)

text \<open>A device whose persistent storage is full; its state counts the commands.\<close>

definition demo_full :: "nat transport" where
  "demo_full cmd n =
     (if drop 6 (take 10 cmd) = u32_marshal (command_code_u32 CreatePrimary) then (Inr demo_created, Suc n)
      else (Inr (plain_response 0x14B []), Suc n))"

lemma run_command_error:
  "tr cmd s = (Inr resp, s') \<Longrightarrow> parse_tpm_rc_with_cmd resp cc = Inl e \<Longrightarrow>
     run_command tr cc (Inr cmd) f s = (Inl e, s')"
  by (simp add: run_command_def exchange_def st_then_def)

lemma demo_full_ops:
  "\<exists>e. tpm_read_public demo_full h n = (Inl (Fail e), Suc n)"
  "\<exists>e. tpm_evict_control demo_full h t n = (Inl (Fail e), Suc n)"
proof -
  have "case parse_tpm_rc_with_cmd (plain_response 0x14B []) ReadPublic of Inl (Fail _) \<Rightarrow> True | _ \<Rightarrow> False"
    "case parse_tpm_rc_with_cmd (plain_response 0x14B []) EvictControl of Inl (Fail _) \<Rightarrow> True | _ \<Rightarrow> False"
    by code_simp+
  then obtain e f where e: "parse_tpm_rc_with_cmd (plain_response 0x14B []) ReadPublic = Inl (Fail e)"
    and f: "parse_tpm_rc_with_cmd (plain_response 0x14B []) EvictControl = Inl (Fail f)"
    by (auto split: sum.splits fault.splits)
  have r: "demo_full (plain_command ReadPublic hs ps) n = (Inr (plain_response 0x14B []), Suc n)" for hs ps
    by (simp add: demo_full_def index_of_command u32_marshal_inject)
  have v: "demo_full (pw_command EvictControl hs ps) n = (Inr (plain_response 0x14B []), Suc n)" for hs ps
    by (simp add: demo_full_def pw_command_parts u32_marshal_inject)
  show "\<exists>e. tpm_read_public demo_full h n = (Inl (Fail e), Suc n)"
    by (simp add: tpm_read_public_def read_public_new_def command_no_sessions_def
        no_parameters_marshal_def Let_def run_command_error [where tr = demo_full, OF r e])
  show "\<exists>e. tpm_evict_control demo_full h t n = (Inl (Fail e), Suc n)"
    by (simp add: tpm_evict_control_def evict_control_new_def command_sessions_def
        evict_control_marshal_def Let_def run_command_error [where tr = demo_full, OF v f])
qed

theorem provisioning_leaks_transient_witness:
  "\<exists>e f. ensure_persistent_ak demo_full 0 = (Inl (Fail e), 3) \<and>
     create_and_persist_ecc_signing_key demo_full 0 = (Inl (Fail f), 3)"
proof -
  have "demo_full (pw_command CreatePrimary hs ps) n = (Inr demo_created, Suc n)" for hs ps n
    by (simp add: demo_full_def pw_command_parts)
  note created = demo_created_ok [where tr = demo_full, OF this]
  obtain e1 e2 cp ecc where *:
    "tpm_read_public demo_full AK_PERSISTENT_HANDLE 0 = (Inl (Fail e1), Suc 0)"
    "tpm_create_primary demo_full Hierarchy_Endorsement rsa_restricted_signing_public [] (Suc 0) = (Inr cp, Suc (Suc 0))"
    "tpm_read_public demo_full ECC_SIGNING_KEY_PERSISTENT_HANDLE 0 = (Inl (Fail e2), Suc 0)"
    "tpm_create_primary_ecc demo_full Hierarchy_Owner ecc_unrestricted_signing_public (Suc 0) = (Inr ecc, Suc (Suc 0))"
    using demo_full_ops(1) created by blast
  obtain e f where
    "tpm_evict_control demo_full AK_PERSISTENT_HANDLE (cp_handle cp) (Suc (Suc 0)) = (Inl (Fail e), Suc (Suc (Suc 0)))"
    "tpm_evict_control demo_full ECC_SIGNING_KEY_PERSISTENT_HANDLE (cp_handle ecc) (Suc (Suc 0)) = (Inl (Fail f), Suc (Suc (Suc 0)))"
    using demo_full_ops(2) by blast
  from provisioning_leaks_transient [OF *(1,2) this(1) *(3,4) this(2)]
  have "ensure_persistent_ak demo_full 0 = (Inl (Fail e), Suc (Suc (Suc 0))) \<and>
     create_and_persist_ecc_signing_key demo_full 0 = (Inl (Fail f), Suc (Suc (Suc 0)))" .
  then show ?thesis by (auto simp: eval_nat_numeral)
qed

text \<open>
  A TPM reports an undefined index by a response code, which becomes an
  I/O error of kind \<open>Other\<close>: \<open>get_ak_cert\<close> passes it on instead of returning the empty
  certificate, although \<open>find_nv_index\<close> takes the same answer for an absent index.
\<close>

theorem absent_ak_cert_is_error:
  assumes "tpm_nv_read_public tr NV_INDEX_AK_CERT s = (Inl (Fail (Io_Tpm te)), s')"
  shows "get_ak_cert tr s = (Inl (Fail (Io_Tpm te)), s') \<and>
    get_ak_cert_trimmed tr s = (Inl (Fail (Io_Tpm te)), s') \<and>
    (nv_absent_error (Io_Tpm te) \<longrightarrow> tpm_find_nv_index tr NV_INDEX_AK_CERT s = (Inr None, s'))"
  by (simp add: get_ak_cert_trimmed_def get_ak_cert_def tpm_find_nv_index_def st_then_def st_catch_def assms)

definition demo_absent :: "unit transport" where
  "demo_absent cmd s = (Inr (plain_response 0x18B []), s)"

theorem absent_ak_cert_is_error_witness:
  "\<exists>e. get_ak_cert demo_absent () = (Inl (Fail e), ()) \<and>
     tpm_find_nv_index demo_absent NV_INDEX_AK_CERT () = (Inr None, ())"
proof -
  have "case tpm_nv_read_public demo_absent NV_INDEX_AK_CERT () of
      (Inl (Fail (Io_Tpm te)), _) \<Rightarrow> nv_absent_error (Io_Tpm te) | _ \<Rightarrow> False"
    by code_simp
  then obtain te where "tpm_nv_read_public demo_absent NV_INDEX_AK_CERT () = (Inl (Fail (Io_Tpm te)), ())"
    "nv_absent_error (Io_Tpm te)"
    by (auto split: prod.splits sum.splits fault.splits io_error.splits)
  from absent_ak_cert_is_error [OF this(1)] this(2) show ?thesis by blast
qed

end
