(* ===== verification/Tpm_Tool_Facts.thy ===== *)
theory Tpm_Tool_Facts
  imports Tpm_Tool Event_Log_Facts Tpm_Attestation_Facts
begin

text \<open>
  What the tool does: a value written can be read back and printed, handles printed can be
  read back as arguments, the flags printed are the bits set, and no subcommand panics.
\<close>

section \<open>Handles\<close>

lemma hex_value_digit: "d < 16 \<Longrightarrow> hex_value (hex_digit d) = Some d"
proof -
  assume "d < 16"
  moreover have "\<forall>d \<in> set [0..<16]. hex_value (hex_digit d) = Some d" by code_simp
  ultimately show ?thesis by simp
qed

lemma hex_digits_fixed:
  assumes "acc * 16 ^ k + n < limit" "n < 16 ^ k"
  shows "hex_digits limit acc (hex_fixed k n @ rest) = hex_digits limit (acc * 16 ^ k + n) rest"
  using assms
proof (induction k arbitrary: n rest)
  case (Suc k)
  have n: "n = 16 * (n div 16) + n mod 16" by simp
  have lt: "acc * 16 ^ k + n div 16 \<le> (acc * 16 ^ Suc k + n) div 16"
    by (simp add: div_add1_eq algebra_simps)
  have "acc * 16 ^ k + n div 16 < limit"
    using Suc.prems(1) by (auto intro: le_less_trans [OF lt] le_less_trans [OF div_le_dividend])
  moreover have "n div 16 < 16 ^ k" using Suc.prems(2) by (simp add: less_mult_imp_div_less mult.commute)
  moreover have "(acc * 16 ^ k + n div 16) * 16 + n mod 16 = acc * 16 ^ Suc k + n"
    using n by (simp add: algebra_simps)
  ultimately show ?case
    using Suc.IH [of "n div 16" "hex_digit (n mod 16) # rest"] Suc.prems(1)
    by (simp add: hex_value_digit algebra_simps)
qed simp

lemma hex_fixed_numeral:
  "hex_fixed (numeral k) n = hex_fixed (pred_numeral k) (n div 16) @ [hex_digit (n mod 16)]"
  unfolding numeral_eq_Suc [of k] by (rule hex_fixed.simps)

lemma hex_fixed_shape: "length (hex_fixed k n) = k" "set (hex_fixed k n) \<subseteq> hex_digit ` {..<16}"
  by (induction k arbitrary: n) auto

lemma plus_no_digit: "CHR ''+'' \<notin> hex_digit ` {..<16}"
proof -
  have "\<forall>d \<in> set [0..<16]. hex_digit d \<noteq> CHR ''+''" by code_simp
  then show ?thesis by auto
qed

text \<open>
  Every handle is accepted in the form in which the tool prints it, with its prefix.
\<close>

theorem handles_read_back: "parse_hex_u32 (''0x'' @ fmt_08x h) = Inr h"
proof -
  have b: "unat h < 16 ^ 8" using unat_u32_bound [of h] by simp
  have "hex_digits (2 ^ 32) 0 (fmt_08x h) = Inr (unat h)"
    using hex_digits_fixed [of 0 8 "unat h" "2 ^ 32" "[]"] b by (simp add: fmt_08x_def)
  moreover obtain c cs where f: "fmt_08x h = c # cs" "cs \<noteq> []"
    using hex_fixed_shape(1) [of 8 "unat h"] by (cases "fmt_08x h"; cases "tl (fmt_08x h)") (auto simp: fmt_08x_def)
  moreover have "c \<noteq> CHR ''+''"
  proof -
    have "c \<in> set (hex_fixed 8 (unat h))" using f(1) by (simp add: fmt_08x_def)
    then show ?thesis using hex_fixed_shape(2) plus_no_digit by blast
  qed
  ultimately show ?thesis
    by (simp add: parse_hex_u32_def from_str_radix_16_def)
qed

section \<open>Flags\<close>

lemma nv_flags_bits:
  "(f, name) \<in> set flag_names \<Longrightarrow> name \<in> set (nv_flags a) \<longleftrightarrow> bit a (field_offset f tpma_nv_layout)"
proof -
  assume m: "(f, name) \<in> set flag_names"
  have "distinct (map snd flag_names)" by code_simp
  then have "g = f" if "(g, name) \<in> set flag_names" for g
    using that m \<open>distinct (map snd flag_names)\<close> unfolding distinct_map
    by (metis inj_onD prod.inject snd_conv)
  moreover have "name \<in> set (nv_flags a) \<longleftrightarrow>
      (\<exists>g. (g, name) \<in> set flag_names \<and> bit a (field_offset g tpma_nv_layout))"
    unfolding nv_flags_def by (auto intro!: image_eqI)
  ultimately show ?thesis using m by blast
qed

section \<open>Operations\<close>

lemma print_line_run [simp]: "print_line t (s, out) = (Inr (), (s, out @ t @ [CHR 10]))"
  by (simp add: print_line_def print_text_def)

lemma tool_write_read_input:
  assumes "nv_service (tv_tpm env) i r auth content" "\<And>s. tv_open env s = (Inr (), s)"
    and "nv_write_input env data_hex file text (s, out) = (Inr d, (s, out))"
    and "length d \<le> unat (np_data_size (nr_public r))"
  shows "\<exists>s'. tool_main env (Cmd_NvWrite i data_hex file text) (s, out) =
      (Inr (), (s', out @ ''Wrote '' @ fmt_dec (length d) @ '' bytes to NV index 0x'' @ fmt_08x i @ [CHR 10])) \<and>
    content s' = d @ drop (length d) (content s) \<and>
    tool_main env (Cmd_NvRead i None) (s', out') =
      (Inr (), (s', out' @ tv_hex_encode env (d @ drop (length d) (content s)) @ [CHR 10]))"
proof -
  note readable = nv_service_readable [OF assms(1)]
  obtain s' where w: "write_ranges (tv_tpm env) i d (nv_ranges (length d) 0) s = (Inr (), s')"
    and c: "content s' = d @ drop (length d) (content s)"
    using nv_service_write_ranges [OF assms(1,4), of 0 s] by auto
  have "tpm_write_nv_index (tv_tpm env) i d s = (Inr (), s')"
    using assms(4) w by (simp add: write_nv_index_chunks st_then_def nv_readable_read_public [OF readable])
  then show ?thesis
    using assms(2,3)
    by (intro exI [of _ s'])
      (simp add: c tool_main_def on_tpm_def st_then_def cmd_nv_write_def cmd_nv_read_def
        nv_readable_read [OF readable])
qed

text \<open>
  C26. On a TPM that stores the index, \<open>nv-write\<close> with hexadecimal data or a file of at most
  the size of the index, or with any input of exactly that size, succeeds and reports the number of bytes written, and
  \<open>nv-read\<close> then prints these bytes, followed by what the index held behind them. (A shorter \<open>--string\<close> is
  left out: its help promises padding, which the code does not do.)
\<close>

theorem tool_write_read:
  assumes "nv_service (tv_tpm env) i r auth content" "\<And>s. tv_open env s = (Inr (), s)"
    and "nv_write_input env data_hex file text (s, out) = (Inr d, (s, out))"
    and "length d \<le> unat (np_data_size (nr_public r))"
    and "text = None \<or> length d = unat (np_data_size (nr_public r))"
  shows "\<exists>s'. tool_main env (Cmd_NvWrite i data_hex file text) (s, out) =
      (Inr (), (s', out @ ''Wrote '' @ fmt_dec (length d) @ '' bytes to NV index 0x'' @ fmt_08x i @ [CHR 10])) \<and>
    tool_main env (Cmd_NvRead i None) (s', out') =
      (Inr (), (s', out' @ tv_hex_encode env (d @ drop (length d) (content s)) @ [CHR 10]))"
  using tool_write_read_input [OF assms(1-4)] by blast

text \<open>
  The help of \<open>--string\<close> says that the text is zero-padded to the size of the index. A shorter text leaves behind it what
  was there.
\<close>

lemma string_not_padded:
  assumes "nv_service (tv_tpm env) i r auth content" "\<And>s. tv_open env s = (Inr (), s)"
    and "length t \<le> unat (np_data_size (nr_public r))"
  shows "\<exists>s' out'. tool_main env (Cmd_NvWrite i None None (Some t)) (s, out) = (Inr (), (s', out')) \<and>
    content s' = ascii_bytes t @ drop (length t) (content s)"
proof -
  have "nv_write_input env None None (Some t) (s, out) = (Inr (ascii_bytes t), (s, out))"
    by (simp add: nv_write_input_def)
  moreover have "length (ascii_bytes t) = length t" by (simp add: ascii_bytes_def)
  ultimately show ?thesis using tool_write_read_input [OF assms(1,2), of None None "Some t" s out "ascii_bytes t"] assms(3)
    by fastforce
qed

text \<open>A machine with one NV index, and a codec that copies.\<close>

definition demo_tool :: "bytes tool_env" where
  "demo_tool =
     \<lparr>tv_open = (\<lambda>s. (Inr (), s)), tv_tpm = demo_nv,
      tv_hex_encode = map (\<lambda>b. char_of (unat b)), tv_hex_decode = (\<lambda>s. Inr (ascii_bytes s)),
      tv_read_file = (\<lambda>p s. (Inr [], s)), tv_write_file = (\<lambda>p d s. (Inr (), s)),
      tv_logs = \<lparr>fs_metadata = (\<lambda>_. Inr Is_Other), fs_read_dir = (\<lambda>_. Inr []), fs_read = (\<lambda>_. Inr [])\<rparr>,
      tv_hash = \<lparr>hf_sha1 = id, hf_sha256 = id, hf_sha384 = id\<rparr>, tv_json = (\<lambda>_. Inl [])\<rparr>"

theorem tool_write_read_witness:
  "\<exists>s'. tool_main demo_tool (Cmd_NvWrite 0x01400001 (Some ''hi'') None None) ([1, 2, 0x21], []) =
      (Inr (), (s', ''Wrote 2 bytes to NV index 0x01400001'' @ [CHR 10])) \<and>
    tool_main demo_tool (Cmd_NvRead 0x01400001 None) (s', []) = (Inr (), (s', ''hi!'' @ [CHR 10]))"
proof -
  have n: "nv_service (tv_tpm demo_tool) 0x01400001 demo_public [] demo_content"
    using demo_nv_service by (simp add: demo_tool_def)
  have o: "tv_open demo_tool s = (Inr (), s)" for s by (simp add: demo_tool_def)
  have d: "nv_write_input demo_tool (Some ''hi'') None None (s, out) = (Inr [0x68, 0x69], (s, out))" for s out
    by (simp add: nv_write_input_def decode_hex_def demo_tool_def ascii_bytes_def)
  have l: "length [0x68, 0x69 :: u8] \<le> unat (np_data_size (nr_public demo_public))" by (simp add: demo_public_def)
  have h: "tv_hex_encode demo_tool ([0x68, 0x69] @ drop (length [0x68, 0x69 :: u8]) (demo_content [1, 2, 0x21])) = ''hi!''"
    by (simp add: demo_tool_def demo_content_def char_of_def bit_0)
  have two: "length [0x68, 0x69 :: u8] = 2" by simp
  have f: "fmt_dec 2 = ''2''" "fmt_08x 0x01400001 = ''01400001''"
    by (simp_all add: fmt_dec.simps [of 2] fmt_08x_def hex_fixed_numeral hex_digit_def)
  show ?thesis
    using tool_write_read [OF n o d l disjI1 [OF refl], of "[1, 2, 0x21]" "[]" "[]", unfolded h, unfolded two f] by simp
qed

section \<open>No panic\<close>

lemma print_safe [safe]: "st_safe (print_line t)" "st_safe (print_text t)"
  by (auto simp: st_safe_def print_line_def print_text_def)

lemma print_each_safe [safe]: "(\<And>x. st_safe (f x)) \<Longrightarrow> st_safe (print_each f xs)"
  by (induction xs) (simp_all add: safe)

lemma on_tpm_safe [safe]: "st_safe m \<Longrightarrow> st_safe (on_tpm what m)"
  by (auto simp: st_safe_def on_tpm_def split: prod.split) (metis fst_conv)

lemma on_file_safe [safe]: "st_safe (on_file what m)"
  by (auto simp: st_safe_def on_file_def split: prod.split sum.split)

lemma decode_hex_safe [safe]: "st_safe (decode_hex env what s)"
  by (auto simp: st_safe_def decode_hex_def split: sum.split)

lemma load_log_no_panic: "load_event_log fs path \<noteq> Inl Panic"
proof -
  have r: "read_paths fs ps \<noteq> Inl Panic" for ps
    by (induction ps) (auto simp: and_then_eq_Inl split: sum.split)
  have "load_from_paths fs ps \<noteq> Inl Panic" for ps
    using r by (auto simp: load_from_paths_def and_then_eq_Inl split: if_splits)
  moreover have "load_default_logs fs \<noteq> Inl Panic"
    by (simp add: load_default_logs_def split: prod.split option.split)
  ultimately have "load_event_logs fs path \<noteq> Inl Panic"
    by (simp add: load_event_logs_def load_explicit_logs_def Let_def split: option.split sum.split file_kind.split)
  then show ?thesis by (auto simp: load_event_log_def and_then_eq_Inl split: list.splits)
qed

lemma parse_log_no_panic: "parse_event_log fj hx d \<noteq> Inl Panic"
  unfolding parse_event_log_def by (intro or_else_no_panic) simp_all

lemma event_log_safe: "st_safe (cmd_event_log env file alg)"
  unfolding cmd_event_log_def print_spec_id_def
  by (simp add: safe load_log_no_panic parse_log_no_panic Let_def split: list.split)

text \<open>
  Over a TPM that does not panic, every subcommand prints its result or returns an error, for
  every argument: the arm of \<open>main\<close> marked unreachable is.
\<close>

theorem tool_never_panics:
  assumes "panic_free_transport (tv_tpm env)" "\<And>s. fst (tv_open env s) \<noteq> Inl Panic"
  shows "fst (tool_main env command st) \<noteq> Inl Panic"
proof -
  note ops = panic_free_transport.device_ops_safe [OF assms(1)]
  have more: "st_safe (tpm_nv_undefine_space (tv_tpm env) i)" "st_safe (tpm_nv_extend (tv_tpm env) i data)" for i data
    by (simp_all add: st_safe_def panic_free_transport.nv_ops_no_panic [OF assms(1)])
  have open_safe: "st_safe (tv_open env)" using assms(2) by (simp add: st_safe_def)
  have "st_safe (tool_main env command)"
    unfolding tool_main_def
    by (cases command)
      (simp_all add: safe ops more open_safe event_log_safe cmd_pcr_read_def cmd_nv_define_def cmd_nv_undefine_def
        cmd_nv_read_public_def cmd_nv_read_def cmd_nv_write_def nv_write_input_def cmd_nv_extend_def
        cmd_read_public_def cmd_flush_context_def cmd_create_primary_def cmd_evict_control_def cmd_quote_def Let_def
        split: option.split prod.split)
  then show ?thesis unfolding st_safe_def by blast
qed

theorem tool_never_panics_witness:
  "panic_free_transport demo_nv \<and> fst (tool_main demo_tool (Cmd_EventLog None Pcr_Sha256) ([0, 0, 0], [])) \<noteq> Inl Panic"
proof -
  have t: "panic_free_transport demo_nv"
    by unfold_locales (simp add: demo_nv_def Let_def)
  have "panic_free_transport (tv_tpm demo_tool)" "fst (tv_open demo_tool s) \<noteq> Inl Panic" for s
    using t by (simp_all add: demo_tool_def)
  from tool_never_panics [OF this] t show ?thesis by blast
qed

end
