(* ===== verification/Pretty_Report_Facts.thy ===== *)
theory Pretty_Report_Facts
  imports Pretty_Report
begin

text \<open>
  What the printed reports tell: numbers, fixed-width hexadecimal values and hex blocks are self-delimiting
  (what follows them does not change how they are read), so a printed report determines every
  field it shows. The named flags and the unknown bits of the TD attributes make up the value.
\<close>

section \<open>Self-delimiting formats\<close>

lemma hex_digit_inj: "a < 16 \<Longrightarrow> b < 16 \<Longrightarrow> hex_digit a = hex_digit b \<Longrightarrow> a = b"
proof -
  have d: "distinct ''0123456789abcdef''" by simp
  assume "a < 16" "b < 16" "hex_digit a = hex_digit b"
  then show ?thesis using nth_eq_iff_index_eq [OF d, of a b] by (simp add: hex_digit_def)
qed

lemma hex_fixed_inj: "a < 16 ^ k \<Longrightarrow> b < 16 ^ k \<Longrightarrow> hex_fixed k a = hex_fixed k b \<longleftrightarrow> a = b"
proof (induction k arbitrary: a b)
  case (Suc k)
  have "a div 16 < 16 ^ k" "b div 16 < 16 ^ k" using Suc.prems by (simp_all add: less_mult_imp_div_less mult.commute)
  with Suc.IH [of "a div 16" "b div 16"] hex_digit_inj [of "a mod 16" "b mod 16"] show ?case
    by (auto, metis div_mult_mod_eq mod_less_divisor zero_less_numeral)
qed simp

lemma hex_fixed_length [simp]: "length (hex_fixed k n) = k"
  by (induction k arbitrary: n) simp_all

lemma hex_word_delimited:
  assumes "LENGTH('a) = 4 * k"
  shows "hex_fixed k (unat (a :: 'a::len word)) @ x = hex_fixed k (unat b) @ y \<longleftrightarrow> a = b \<and> x = y"
proof -
  have bound: "unat w < 16 ^ k" for w :: "'a word"
    using unsigned_less [of w, where ?'a = nat] assms power_mult [of "2::nat" 4 k] by simp
  show ?thesis
    using hex_fixed_inj [OF bound bound, of a b] by (auto simp: word_unat_eq_iff)
qed

lemma hex_delimited:
  "fmt_016x a @ x = fmt_016x b @ y \<longleftrightarrow> a = b \<and> x = y"
  "fmt_08x c @ x = fmt_08x d @ y \<longleftrightarrow> c = d \<and> x = y"
  "fmt_02x e @ x = fmt_02x f @ y \<longleftrightarrow> e = f \<and> x = y"
  unfolding fmt_016x_def fmt_08x_def fmt_02x_def by (rule hex_word_delimited; simp)+

definition dec_digits :: "char set" where
  "dec_digits = hex_digit ` {..<10}"

lemma fmt_dec_digits: "set (fmt_dec n) \<subseteq> dec_digits"
  by (induction n rule: fmt_dec.induct) (auto simp: fmt_dec.simps dec_digits_def)

lemma dec_digits_chars: "dec_digits = set ''0123456789''"
  by (simp add: dec_digits_def lessThan_nat_numeral lessThan_Suc hex_digit_def insert_commute)

lemma fmt_dec_inj: "fmt_dec a = fmt_dec b \<Longrightarrow> a = b"
proof (induction a arbitrary: b rule: fmt_dec.induct)
  case (1 a)
  have nonempty: "fmt_dec n \<noteq> []" "[] \<noteq> fmt_dec n" for n by (simp_all add: fmt_dec.simps [of n])
  show ?case
  proof (cases "a < 10 \<or> b < 10")
    case True
    with "1.prems" nonempty hex_digit_inj [of a b] show ?thesis
      by (auto simp: fmt_dec.simps [of a] fmt_dec.simps [of b] split: if_splits)
  next
    case False
    with "1.prems" have "fmt_dec (a div 10) = fmt_dec (b div 10)" "hex_digit (a mod 10) = hex_digit (b mod 10)"
      by (simp_all add: fmt_dec.simps [of a] fmt_dec.simps [of b])
    moreover have "a mod 10 < 16" "b mod 10 < 16" by (simp_all add: less_trans [OF mod_less_divisor])
    ultimately have "a div 10 = b div 10" "a mod 10 = b mod 10" using "1.IH" False hex_digit_inj by blast+
    then show ?thesis by (metis div_mult_mod_eq)
  qed
qed

lemma delimited_by:
  "c \<notin> set xs \<Longrightarrow> c \<notin> set ys \<Longrightarrow> xs @ c # x = ys @ c # y \<longleftrightarrow> xs = ys \<and> x = y"
proof (induction xs arbitrary: ys)
  case Nil
  then show ?case by (cases ys) auto
next
  case (Cons u xs)
  then show ?case by (cases ys) auto
qed

lemma dec_delimited:
  "c \<notin> set ''0123456789'' \<Longrightarrow> fmt_dec a @ c # x = fmt_dec b @ c # y \<longleftrightarrow> a = b \<and> x = y"
  using fmt_dec_digits [of a] fmt_dec_digits [of b] fmt_dec_inj [of a b]
  by (subst delimited_by) (auto simp: dec_digits_chars)

section \<open>Blocks and lines\<close>

lemma hex_text_inj: "length a = length b \<Longrightarrow> concat (map fmt_02x a) @ x = concat (map fmt_02x b) @ y \<longleftrightarrow> a = b \<and> x = y"
  by (induction a b rule: list_induct2) (auto simp: hex_delimited)

lemma chunk_lines_inj:
  "length a = length b \<Longrightarrow>
   concat (map (\<lambda>c. writeln (''    '' @ concat (map fmt_02x c))) (chunks n a)) @ x =
   concat (map (\<lambda>c. writeln (''    '' @ concat (map fmt_02x c))) (chunks n b)) @ y \<Longrightarrow> 0 < n \<Longrightarrow> a = b \<and> x = y"
proof (induction n a arbitrary: b rule: chunks.induct)
  case (1 n a)
  show ?case
  proof (cases "a = []")
    case True
    with 1 show ?thesis by simp
  next
    case False
    with 1(2) have b: "b \<noteq> []" by auto
    have l: "length (take n a) = length (take n b)" using 1(2) by simp
    note 1(3) [unfolded chunks.simps [of n a] chunks.simps [of n b]]
    then have "take n a = take n b \<and>
      concat (map (\<lambda>c. writeln (''    '' @ concat (map fmt_02x c))) (chunks n (drop n a))) @ x =
      concat (map (\<lambda>c. writeln (''    '' @ concat (map fmt_02x c))) (chunks n (drop n b))) @ y"
      using False b \<open>0 < n\<close> by (simp add: writeln_def hex_text_inj [OF l])
    with 1(1) [of "drop n b"] False \<open>0 < n\<close> 1(2) have "take n a = take n b" "drop n a = drop n b" "x = y"
      by auto
    then show ?thesis by (metis append_take_drop_id)
  qed
qed

lemma hex_block_delimited: "fmt_hex_block l a @ x = fmt_hex_block l b @ y \<longleftrightarrow> a = b \<and> x = y"
proof
  assume eq: "fmt_hex_block l a @ x = fmt_hex_block l b @ y"
  have s: "CHR '' '' \<notin> set ''0123456789''" by simp
  from eq have len: "length a = length b"
    and body: "concat (map (\<lambda>c. writeln (''    '' @ concat (map fmt_02x c))) (chunks 32 a)) @ x =
      concat (map (\<lambda>c. writeln (''    '' @ concat (map fmt_02x c))) (chunks 32 b)) @ y"
    by (simp_all add: fmt_hex_block_def writeln_def dec_delimited [OF s])
  from chunk_lines_inj [OF len body] show "a = b \<and> x = y" by simp
qed simp

lemmas block_end = hex_block_delimited [where x = "[]" and y = "[]", simplified]

text \<open>
  C25. A printed SNP or VBS report determines every field it shows: two reports print alike
  exactly when these fields agree, so no value can be made to look like another by what stands
  before or behind it.
\<close>

theorem report_text_determines:
  "(pretty_snp r = pretty_snp r' \<longleftrightarrow>
     sr_version r = sr_version r' \<and> sr_guest_svn r = sr_guest_svn r' \<and> sr_policy r = sr_policy r' \<and>
     sr_vmpl r = sr_vmpl r' \<and> sr_signature_algo r = sr_signature_algo r' \<and> sr_current_tcb r = sr_current_tcb r' \<and>
     sr_platform_info r = sr_platform_info r' \<and> sr_flags r = sr_flags r' \<and> sr_family r = sr_family r' \<and>
     sr_image_id r = sr_image_id r' \<and> sr_report_data r = sr_report_data r' \<and>
     sr_measurement r = sr_measurement r' \<and> sr_host_data r = sr_host_data r' \<and>
     sr_id_key_digest r = sr_id_key_digest r' \<and> sr_author_key_digest r = sr_author_key_digest r' \<and>
     sr_report_id r = sr_report_id r' \<and> sr_report_id_ma r = sr_report_id_ma r' \<and>
     sr_reported_tcb r = sr_reported_tcb r' \<and> sr_chip_id r = sr_chip_id r' \<and>
     sr_committed_tcb r = sr_committed_tcb r' \<and> sr_current_major r = sr_current_major r' \<and>
     sr_current_minor r = sr_current_minor r' \<and> sr_current_build r = sr_current_build r' \<and>
     sr_committed_major r = sr_committed_major r' \<and> sr_committed_minor r = sr_committed_minor r' \<and>
     sr_committed_build r = sr_committed_build r' \<and> sr_launch_tcb r = sr_launch_tcb r' \<and>
     sr_signature r = sr_signature r') \<and>
   (pretty_vbs v = pretty_vbs v' \<longleftrightarrow>
     vr_version v = vr_version v' \<and> vr_report_data v = vr_report_data v' \<and>
     vi_owner_id (vr_identity v) = vi_owner_id (vr_identity v') \<and>
     vi_measurement (vr_identity v) = vi_measurement (vr_identity v') \<and>
     vi_signer (vr_identity v) = vi_signer (vr_identity v') \<and>
     vi_host_data (vr_identity v) = vi_host_data (vr_identity v') \<and>
     vi_guest_svn (vr_identity v) = vi_guest_svn (vr_identity v') \<and> vr_signature v = vr_signature v')" (is "?snp \<and> ?vbs")
proof -
  have u128: "le_bytes 16 a = le_bytes 16 b \<longleftrightarrow> a = b" for a b :: "128 word"
  proof
    assume "le_bytes 16 a = le_bytes 16 b"
    then have "(of_le (le_bytes 16 a) :: 128 word) = of_le (le_bytes 16 b)" by (rule arg_cong)
    then show "a = b" by simp
  qed simp
  have ?snp
    by (simp add: pretty_snp_def writeln_def hex_delimited dec_delimited hex_block_delimited block_end u128 word_unat_eq_iff [symmetric] conj_assoc)
  moreover have ?vbs
    by (simp add: pretty_vbs_def writeln_def hex_delimited dec_delimited hex_block_delimited block_end word_unat_eq_iff [symmetric] conj_assoc)
  ultimately show ?thesis ..
qed

section \<open>TD attributes\<close>

lemma bit_flags:
  "bit (foldl (\<lambda>m (i, name). m OR push_bit i 1) m fs :: u64) j \<longleftrightarrow>
     bit m j \<or> (j < 64 \<and> (\<exists>f \<in> set fs. fst f = j))"
proof (induction fs arbitrary: m)
  case (Cons f fs)
  obtain i name where f: "f = (i, name)" by (cases f)
  have "bit (push_bit i 1 :: u64) j \<longleftrightarrow> j < 64 \<and> i = j"
    by (auto simp: bit_exp_iff)
  then show ?case by (auto simp: f Cons.IH bit_or_iff simp del: push_bit_of_1)
qed simp

lemma flags_and_unknown:
  "foldl (\<lambda>m (i, name). m OR push_bit i 1) 0 (filter (\<lambda>(i, name). bit raw i) td_attribute_flags) OR unknown_bits raw = raw"
  (is ?all)
  "known_mask AND unknown_bits raw = 0" (is ?apart)
proof -
  show ?all
    by (rule bit_word_eqI) (auto simp: known_mask_def unknown_bits_def bit_flags bit_or_iff bit_and_iff bit_not_iff split_beta
        simp del: push_bit_of_1)
  show ?apart
    by (rule bit_word_eqI) (auto simp: unknown_bits_def bit_and_iff bit_not_iff)
qed

end
