(* ===== verification/Attest_Text_Facts.thy ===== *)
theory Attest_Text_Facts
  imports Attest_Text Sample_Platform Tpm_Tool_Facts Pretty_Report_Facts
begin

text \<open>
  What the helpers of the tool guarantee: user data never exceeds the 64 bytes of the report and is read as
  written in hexadecimal, but an argument with a character of several bytes can stop the
  program; a certificate printed in PEM is the certificate that a reader finds in it; the search for
  the claims of a token ends.
\<close>

section \<open>ASCII text\<close>

declare str_bytes_ascii_str [simp]

lemma str_bytes_simps [simp]:
  "str_bytes [] = []" "str_bytes (c # s) = c @ str_bytes s" "str_bytes (s @ t) = str_bytes s @ str_bytes t"
  by (simp_all add: str_bytes_def)

lemma ascii_str_append [simp]: "ascii_str (s @ t) = ascii_str s @ ascii_str t"
  by (simp add: ascii_str_def)

lemma length_ascii [simp]: "length (ascii_str s) = length s" "length (ascii_bytes s) = length s"
  by (simp_all add: ascii_str_def ascii_bytes_def)

lemma str_len_ascii [simp]: "str_len (ascii_str s) = length s"
  by (simp add: str_len_def)

lemma char_boundary_iff: "char_boundary s i \<longleftrightarrow> (\<exists>k \<le> length s. length (str_bytes (take k s)) = i)"
  by (auto simp: char_boundary_def less_Suc_eq_le simp del: upt_Suc)

lemma boundary_append: "char_boundary s i \<Longrightarrow> char_boundary (s @ t) i"
  unfolding char_boundary_iff by (metis append_Nil2 diff_is_0_eq le_add1 le_trans length_append take_0 take_append)

lemma ascii_boundary: "i \<le> length s \<Longrightarrow> char_boundary (ascii_str s) i"
proof -
  have "ascii_str s = map (\<lambda>b. [b]) (ascii_bytes s)" by (simp add: ascii_str_def ascii_bytes_def)
  then have "length (str_bytes (take k (ascii_str s))) = min k (length s)" for k
    by (simp add: take_map str_bytes_def concat_map_singleton)
  moreover assume "i \<le> length s"
  ultimately show ?thesis by (auto simp: char_boundary_def intro!: image_eqI [of _ _ i])
qed

lemma ascii_slice:
  "a \<le> b \<Longrightarrow> b \<le> length s \<Longrightarrow> str_slice (ascii_str s) a b = Inr (ascii_bytes (take (b - a) (drop a s)))"
  by (simp add: str_slice_def ascii_boundary ascii_bytes_def take_map drop_map)

text \<open>Visible characters are no white space.\<close>

lemma visible_no_space: "0x21 \<le> b \<Longrightarrow> b \<le> 0x7E \<Longrightarrow> \<not> is_whitespace [b]"
  by (auto simp: is_whitespace_def)

lemma trim_visible:
  assumes "\<forall>c \<in> set s. \<not> is_whitespace c"
  shows "str_trim s = s"
proof -
  have "dropWhile is_whitespace xs = xs" if "\<forall>c \<in> set xs. \<not> is_whitespace c" for xs
    using that by (cases xs) auto
  from this [of s] this [of "rev s"] show ?thesis using assms by (simp add: str_trim_def trim_end_matches_def)
qed

section \<open>User data\<close>

lemma hex_bytes_length: "hex_bytes_at s is = Inr d \<Longrightarrow> length d = length is"
proof (induction "is" arbitrary: d)
  case (Cons i "is")
  then obtain digits where d: "(case from_str_radix_16 (2 ^ 8) (bytes_text digits) of
        Inl e \<Rightarrow> Inl (Fail (Cli_Int e))
      | Inr n \<Rightarrow> and_then (hex_bytes_at s is) (\<lambda>rest. Inr (of_nat n # rest))) = Inr d"
    by (auto simp: and_then_eq_Inr)
  from d obtain n rest where "hex_bytes_at s is = Inr rest" "d = of_nat n # rest"
    by (cases "from_str_radix_16 (2 ^ 8) (bytes_text digits)") (auto simp: and_then_eq_Inr)
  then show ?case using Cons.IH by simp
qed simp

lemma hex_to_bytes_length: "hex_to_bytes s = Inr d \<Longrightarrow> length d = str_len s div 2 \<and> length d \<le> 64"
  by (auto simp: hex_to_bytes_def cli_fail_def dest!: hex_bytes_length split: if_splits)

lemma user_data_length: "parse_user_data_variable s = Inr d \<Longrightarrow> length d \<le> 64"
  by (auto simp: parse_user_data_variable_def Let_def truncated_utf8_def dest: hex_to_bytes_length
      split: if_splits option.splits)

lemma hex_byte_read: "from_str_radix_16 (2 ^ 8) (fmt_02x b) = Inr (unat b)"
proof -
  have n: "unat b < 16 ^ 2" using unat_u8_bound [of b] by simp
  have d: "hex_digits (2 ^ 8) 0 (fmt_02x b) = Inr (unat b)"
    using hex_digits_fixed [of 0 2 "unat b" "2 ^ 8" "[]"] n by (simp add: fmt_02x_def)
  have two: "length (fmt_02x b) = 2" by (simp add: fmt_02x_def)
  have "CHR ''+'' \<notin> set (fmt_02x b)"
    using hex_fixed_shape(2) [of 2 "unat b"] plus_no_digit by (auto simp: fmt_02x_def)
  then have "hd (fmt_02x b) \<noteq> CHR ''+''" using two by (cases "fmt_02x b") auto
  with d two show ?thesis by (auto simp: from_str_radix_16_def)
qed

lemma hex_text_slice: "i < length d \<Longrightarrow> take 2 (drop (i * 2) (concat (map fmt_02x d))) = fmt_02x (d ! i)"
proof (induction d arbitrary: i)
  case (Cons b d)
  have two: "length (fmt_02x b) = 2" by (simp add: fmt_02x_def)
  show ?case using Cons two by (cases i) simp_all
qed simp

lemma hex_text_length [simp]: "length (concat (map fmt_02x d)) = 2 * length d"
  by (induction d) (simp_all add: fmt_02x_def)

lemma hex_bytes_read:
  "\<forall>i \<in> set is. i < length d \<Longrightarrow>
     hex_bytes_at (ascii_str (concat (map fmt_02x d))) is = Inr (map (\<lambda>i. d ! i) is)"
proof (induction "is")
  case (Cons i "is")
  then have "i < length d" by simp
  then have "str_slice (ascii_str (concat (map fmt_02x d))) (i * 2) (i * 2 + 2) = (Inr (ascii_bytes (fmt_02x (d ! i))) :: (cli_error, bytes) res)"
    using hex_text_slice [of i d] by (simp add: ascii_slice)
  then show ?case using Cons hex_byte_read [of "d ! i"] by (simp add: bytes_text_ascii)
qed simp

lemma hex_visible: "c \<in> set (ascii_str (concat (map fmt_02x d))) \<Longrightarrow> \<not> is_whitespace c"
proof -
  have "\<forall>k \<in> set [0..<16]. 0x21 \<le> (of_char (hex_digit k) :: u8) \<and> (of_char (hex_digit k) :: u8) \<le> 0x7E" by code_simp
  then have v: "0x21 \<le> (of_char h :: u8) \<and> (of_char h :: u8) \<le> 0x7E" if "h \<in> hex_digit ` {..<16}" for h
    using that by auto
  assume "c \<in> set (ascii_str (concat (map fmt_02x d)))"
  then obtain b h where "h \<in> set (fmt_02x b)" "c = [of_char h]" by (auto simp: ascii_str_def)
  then show ?thesis
    using hex_fixed_shape(2) [of 2 "unat b"] v [of h] visible_no_space [of "of_char h"] by (auto simp: fmt_02x_def)
qed

text \<open>
  User data of at most 64 bytes, written in hexadecimal behind \<open>hex:\<close>, is taken as
  these bytes.
\<close>

theorem hex_user_data_read:
  assumes "length d \<le> 64"
  shows "parse_user_data_variable (ascii_str (''hex:'' @ concat (map fmt_02x d))) = Inr d"
proof -
  let ?h = "ascii_str (concat (map fmt_02x d))"
  have "\<not> is_whitespace c" if "c \<in> set (ascii_str ''hex:'')" for c
    using that visible_no_space by (auto simp: ascii_str_def)
  then have t: "str_trim (ascii_str ''hex:'' @ ?h) = ascii_str ''hex:'' @ ?h"
    using hex_visible by (intro trim_visible) auto
  have "hex_bytes_at ?h [0..<length d] = Inr d"
    using hex_bytes_read [of "[0..<length d]" d] by (simp add: map_nth)
  then have h: "hex_to_bytes ?h = Inr d" using assms by (simp add: hex_to_bytes_def)
  have p: "strip_prefix (ascii_str ''hex:'') (ascii_str ''hex:'' @ ?h) = Some ?h"
    by (simp add: strip_prefix_def)
  have ne: "ascii_str ''hex:'' \<noteq> []" by (simp add: ascii_str_def)
  show ?thesis
    unfolding parse_user_data_variable_def Let_def ascii_str_append t p using ne h by simp
qed

theorem hex_user_data_read_witness:
  "parse_user_data_variable (ascii_str ''hex:00ff10'') = Inr [0, 0xFF, 0x10]"
proof -
  have "concat (map fmt_02x [0, 0xFF, 0x10]) = ''00ff10''" by code_simp
  with hex_user_data_read [of "[0, 0xFF, 0x10]"] show ?thesis by simp
qed

section \<open>The forms of user data\<close>

text \<open>Hexadecimal digits, of either case, that write these bytes.\<close>

fun hex_writes :: "string \<Rightarrow> bytes \<Rightarrow> bool" where
  "hex_writes [] [] = True"
| "hex_writes (a # b # ds) (x # xs) =
     (hex_value a = Some (unat x div 16) \<and> hex_value b = Some (unat x mod 16) \<and> hex_writes ds xs)"
| "hex_writes _ _ = False"

lemma hex_writes_length: "hex_writes ds d \<Longrightarrow> length ds = 2 * length d"
  by (induction ds d rule: hex_writes.induct) auto

lemma hex_writes_slice:
  "hex_writes ds d \<Longrightarrow> i < length d \<Longrightarrow>
     \<exists>a b. take 2 (drop (i * 2) ds) = [a, b] \<and> hex_value a = Some (unat (d ! i) div 16) \<and> hex_value b = Some (unat (d ! i) mod 16)"
proof (induction ds d arbitrary: i rule: hex_writes.induct)
  case (2 a b ds x xs)
  then show ?case by (cases i) simp_all
qed simp_all

lemma hex_value_sign [simp]: "hex_value CHR ''+'' = None"
  by code_simp

lemma hex_pair_value:
  assumes "hex_value a = Some (unat x div 16)" "hex_value b = Some (unat (x :: u8) mod 16)"
  shows "from_str_radix_16 (2 ^ 8) [a, b] = Inr (unat x)"
proof -
  have "a \<noteq> CHR ''+''" using assms(1) by auto
  moreover have "unat x < 256" using unat_u8_bound [of x] by simp
  ultimately show ?thesis using assms by (simp add: from_str_radix_16_def)
qed

lemma hex_writes_read:
  assumes "hex_writes ds d"
  shows "hex_to_bytes (ascii_str ds) = (if length d \<le> 64 then Inr d else cli_fail ''hex decodes to more than 64 bytes'')"
proof -
  have "hex_bytes_at (ascii_str ds) is = Inr (map (\<lambda>i. d ! i) is)" if "\<forall>i \<in> set is. i < length d" for "is"
    using that
  proof (induction "is")
    case (Cons i "is")
    then have i: "i < length d" by simp
    from hex_writes_slice [OF assms this] obtain a b where p: "take 2 (drop (i * 2) ds) = [a, b]"
      "hex_value a = Some (unat (d ! i) div 16)" "hex_value b = Some (unat (d ! i) mod 16)" by blast
    have "i * 2 + 2 \<le> length ds" using i hex_writes_length [OF assms] by simp
    then have "str_slice (ascii_str ds) (i * 2) (i * 2 + 2) = (Inr (ascii_bytes [a, b]) :: (cli_error, bytes) res)"
      using p(1) by (simp add: ascii_slice)
    with Cons hex_pair_value [OF p(2,3)] show ?case by (simp add: bytes_text_ascii)
  qed simp
  from this [of "[0..<length d]"] show ?thesis
    using hex_writes_length [OF assms] by (simp add: hex_to_bytes_def map_nth)
qed

lemma hexdigit_value:
  "is_ascii_hexdigit c \<longleftrightarrow> (\<exists>h v. c = [of_char h] \<and> hex_value h = Some v \<and> v < 16)"
proof -
  have b: "is_ascii_hexdigit [b] = (case hex_value (char_of (unat b)) of None \<Rightarrow> False | Some v \<Rightarrow> v < 16)" for b
  proof -
    have "(of_char (char_of (unat b) :: char) :: nat) = unat b" using unat_u8_bound [of b] by simp
    then show ?thesis by (auto simp: is_ascii_hexdigit_def hex_value_def Let_def word_le_nat_alt)
  qed
  show ?thesis
  proof
    assume h: "is_ascii_hexdigit c"
    then obtain b where c: "c = [b]" by (auto simp: is_ascii_hexdigit_def split: list.splits)
    have "of_char (char_of (unat b)) = b"
      using arg_cong [OF ascii_bytes_text [of "[b]"], where f = hd] by (simp add: ascii_bytes_def bytes_text_def)
    with h b [of b] c show "\<exists>h v. c = [of_char h] \<and> hex_value h = Some v \<and> v < 16"
      by (intro exI [of _ "char_of (unat b)"]) (auto split: option.splits)
  next
    assume "\<exists>h v. c = [of_char h] \<and> hex_value h = Some v \<and> v < 16"
    then obtain h v where "c = [of_char h]" "hex_value h = Some v" "v < 16" by blast
    moreover have "char_of (unat (of_char h :: u8)) = h" by (simp add: unat_of_char)
    ultimately show "is_ascii_hexdigit c" using b [of "of_char h"] by simp
  qed
qed

lemma hexdigits_text:
  "list_all is_ascii_hexdigit s \<Longrightarrow> even (length s) \<Longrightarrow> \<exists>ds d. s = ascii_str ds \<and> hex_writes ds d"
proof (induction s rule: induct_list012)
  case 1
  then show ?case by (intro exI [of _ "[]"]) (simp add: ascii_str_def)
next
  case (2 x)
  then show ?case by simp
next
  case (3 x y s)
  then obtain a v b w where x: "x = [of_char a]" "hex_value a = Some v" "v < 16"
    and y: "y = [of_char b]" "hex_value b = Some w" "w < 16"
    by (auto simp: hexdigit_value)
  from 3 obtain ds d where s: "s = ascii_str ds" "hex_writes ds d" by auto
  have u: "unat (word_of_nat (v * 16 + w) :: u8) = v * 16 + w" using x y by (simp add: unat_of_nat del: of_nat_add of_nat_mult)
  then have "hex_writes (a # b # ds) (word_of_nat (v * 16 + w) # d)"
    using x y s by (simp add: u del: of_nat_add of_nat_mult)
  moreover have "x # y # s' = ascii_str (a # b # ds)" if "s' = ascii_str ds" for s' using x y that by (simp add: ascii_str_def)
  ultimately show ?case using s(1) by blast
qed

lemma hex_writes_digits: "hex_writes ds d \<Longrightarrow> list_all is_ascii_hexdigit (ascii_str ds)"
proof (induction ds d rule: hex_writes.induct)
  case (2 a b ds x xs)
  have "unat x div 16 < 16" "unat x mod 16 < 16" using unat_u8_bound [of x] by simp_all
  with 2 have "is_ascii_hexdigit [of_char a]" "is_ascii_hexdigit [of_char b]"
    unfolding hexdigit_value by auto
  with 2 show ?case by (simp add: ascii_str_def)
qed (simp_all add: ascii_str_def)

lemma hexdigits_len: "list_all is_ascii_hexdigit s \<Longrightarrow> str_len s = length s"
  by (induction s) (auto simp: str_len_def hexdigit_value)

lemma probable_hex_writes:
  "is_probable_hex t \<longleftrightarrow> t \<noteq> [] \<and> (\<exists>ds d. t = ascii_str ds \<and> hex_writes ds d \<and> length d \<le> 64)"
proof
  assume h: "is_probable_hex t"
  then have t: "list_all is_ascii_hexdigit t" "even (length t)" "length t div 2 \<le> 64" "t \<noteq> []"
    using hexdigits_len [of t] by (auto simp: is_probable_hex_def)
  from hexdigits_text [OF t(1,2)] obtain ds d where "t = ascii_str ds" "hex_writes ds d" by blast
  with t hex_writes_length [OF this(2)] show "t \<noteq> [] \<and> (\<exists>ds d. t = ascii_str ds \<and> hex_writes ds d \<and> length d \<le> 64)"
    by auto
next
  assume "t \<noteq> [] \<and> (\<exists>ds d. t = ascii_str ds \<and> hex_writes ds d \<and> length d \<le> 64)"
  then show "is_probable_hex t"
    using hex_writes_digits hex_writes_length by (fastforce simp: is_probable_hex_def)
qed

definition has_prefix_str :: "string \<Rightarrow> rs_str \<Rightarrow> bool" where
  "has_prefix_str k t \<longleftrightarrow> (\<exists>p. t = ascii_str k @ p)"

lemma strip_prefix_None: "strip_prefix (ascii_str k) t = None \<longleftrightarrow> \<not> has_prefix_str k t"
  by (auto simp: strip_prefix_def has_prefix_str_def) (metis append_take_drop_id)

lemma strip_prefix_append [simp]: "strip_prefix k (k @ p) = Some p"
  by (simp add: strip_prefix_def)

lemma hex_writes_no_prefix:
  assumes "hex_writes ds d" "hex_value (hd k) = None" "k \<noteq> []"
  shows "\<not> has_prefix_str k (ascii_str ds)"
proof
  assume "has_prefix_str k (ascii_str ds)"
  then obtain p where p: "ascii_str ds = ascii_str k @ p" by (auto simp: has_prefix_str_def)
  obtain h k' where k: "k = h # k'" using assms(3) by (cases k) auto
  from p k have "[of_char h :: u8] \<in> set (ascii_str ds)" by (simp add: ascii_str_def)
  with hex_writes_digits [OF assms(1)] have "is_ascii_hexdigit [of_char h]" by (simp add: list_all_iff)
  then obtain g v where "(of_char h :: u8) = of_char g" "hex_value g = Some v" by (auto simp: hexdigit_value)
  moreover from this(1) have "h = g" by (metis of_char_eq_iff unat_of_char)
  ultimately show False using assms(2) k by simp
qed

text \<open>
  C23. What each form of user data comes to, after white space around it is removed. Behind \<open>hex:\<close>,
  digits that write at most 64 bytes give these bytes and longer data is refused, an odd length as well; whatever is
  accepted there has half the length of the argument, at most 64 bytes. Behind \<open>utf8:\<close>, the text is cut to its first 64
  bytes. Without a prefix, digits that write at most 64 bytes give these bytes, and everything else, longer hexadecimal
  data included, is taken as text and cut to its first 64 bytes.
\<close>

theorem user_data_forms:
  "(\<forall>ds d. str_trim s = ascii_str (''hex:'' @ ds) \<and> hex_writes ds d \<longrightarrow>
      parse_user_data_variable s = (if length d \<le> 64 then Inr d else cli_fail ''hex decodes to more than 64 bytes'')) \<and>
   (\<forall>p. str_trim s = ascii_str ''hex:'' @ p \<and> odd (str_len p) \<longrightarrow>
      parse_user_data_variable s = cli_fail ''hex data must have even length'') \<and>
   (\<forall>p d. str_trim s = ascii_str ''hex:'' @ p \<and> parse_user_data_variable s = Inr d \<longrightarrow>
      str_len p = 2 * length d \<and> length d \<le> 64) \<and>
   (\<forall>p. str_trim s = ascii_str ''utf8:'' @ p \<longrightarrow> parse_user_data_variable s = Inr (take 64 (str_bytes p))) \<and>
   (\<forall>ds d. str_trim s = ascii_str ds \<and> hex_writes ds d \<and> length d \<le> 64 \<longrightarrow> parse_user_data_variable s = Inr d) \<and>
   (\<not> has_prefix_str ''hex:'' (str_trim s) \<and> \<not> has_prefix_str ''utf8:'' (str_trim s) \<and>
      (\<forall>ds d. str_trim s = ascii_str ds \<and> hex_writes ds d \<longrightarrow> 64 < length d) \<longrightarrow>
      parse_user_data_variable s = Inr (take 64 (str_bytes (str_trim s))))"
proof -
  have ne: "ascii_str ''hex:'' \<noteq> []" "ascii_str ''utf8:'' \<noteq> []" by (simp_all add: ascii_str_def)
  have hex: "parse_user_data_variable s = hex_to_bytes p" if "str_trim s = ascii_str ''hex:'' @ p" for p
    unfolding parse_user_data_variable_def Let_def that by (simp add: ne)
  have two: "strip_prefix (ascii_str ''hex:'') (ascii_str ''utf8:'' @ p) = None" for p
    by (simp add: strip_prefix_def ascii_str_def)
  have cut: "truncated_utf8 p = take 64 (str_bytes p)" for p by (simp add: truncated_utf8_def Let_def)
  have bare: "parse_user_data_variable s = (if is_probable_hex t then hex_to_bytes t else Inr (take 64 (str_bytes t)))"
    if "str_trim s = t" "\<not> has_prefix_str ''hex:'' t" "\<not> has_prefix_str ''utf8:'' t" for t
    using that by (auto simp: parse_user_data_variable_def cut strip_prefix_None [symmetric] is_probable_hex_def)
  have digits: "\<not> has_prefix_str ''hex:'' (ascii_str ds)" "\<not> has_prefix_str ''utf8:'' (ascii_str ds)"
    if "hex_writes ds d" for ds d
    by (rule hex_writes_no_prefix [OF that]; code_simp)+
  show ?thesis
  proof (intro conjI allI impI)
    fix ds d assume "str_trim s = ascii_str (''hex:'' @ ds) \<and> hex_writes ds d"
    then show "parse_user_data_variable s = (if length d \<le> 64 then Inr d else cli_fail ''hex decodes to more than 64 bytes'')"
      unfolding ascii_str_append using hex [of "ascii_str ds"] hex_writes_read [of ds d] by (elim conjE) (simp only:)
  next
    fix p assume "str_trim s = ascii_str ''hex:'' @ p \<and> odd (str_len p)"
    then show "parse_user_data_variable s = cli_fail ''hex data must have even length''"
      using hex [of p] by (simp add: hex_to_bytes_def odd_iff_mod_2_eq_one)
  next
    fix p d assume a: "str_trim s = ascii_str ''hex:'' @ p \<and> parse_user_data_variable s = Inr d"
    then have h: "hex_to_bytes p = Inr d" using hex [of p] by simp
    then have "even (str_len p)" by (auto simp: hex_to_bytes_def cli_fail_def split: if_splits)
    with hex_to_bytes_length [OF h] show "str_len p = 2 * length d" and "length d \<le> 64" by auto
  next
    fix p assume "str_trim s = ascii_str ''utf8:'' @ p"
    then have t: "str_trim s = ascii_str ''utf8:'' @ p" .
    show "parse_user_data_variable s = Inr (take 64 (str_bytes p))"
      unfolding parse_user_data_variable_def Let_def t two by (simp add: ne cut)
  next
    fix ds d assume a: "str_trim s = ascii_str ds \<and> hex_writes ds d \<and> length d \<le> 64"
    show "parse_user_data_variable s = Inr d"
    proof (cases "ds = []")
      case True
      with a show ?thesis by (cases d) (simp_all add: parse_user_data_variable_def ascii_str_def)
    next
      case False
      then have "is_probable_hex (ascii_str ds)" using a unfolding probable_hex_writes by (auto simp: ascii_str_def)
      then show ?thesis using a bare [of "ascii_str ds"] digits [of ds d] hex_writes_read [of ds d] by simp
    qed
  next
    assume "\<not> has_prefix_str ''hex:'' (str_trim s) \<and> \<not> has_prefix_str ''utf8:'' (str_trim s) \<and>
      (\<forall>ds d. str_trim s = ascii_str ds \<and> hex_writes ds d \<longrightarrow> 64 < length d)"
    moreover from this have "\<not> is_probable_hex (str_trim s)" unfolding probable_hex_writes by (auto simp: not_le [symmetric])
    ultimately show "parse_user_data_variable s = Inr (take 64 (str_bytes (str_trim s)))" using bare [OF refl] by simp
  qed
qed

text \<open>In particular 65 bytes in hexadecimal are refused behind \<open>hex:\<close> and become 64 characters without it.\<close>

theorem user_data_forms_witness:
  "parse_user_data_variable (ascii_str ''hex:0aFf'') = Inr [0x0A, 0xFF] \<and>
   parse_user_data_variable (ascii_str ('' '' @ ''utf8:ab'')) = Inr [0x61, 0x62] \<and>
   parse_user_data_variable (ascii_str (''hex:'' @ replicate 130 CHR ''0'')) = cli_fail ''hex decodes to more than 64 bytes'' \<and>
   parse_user_data_variable (ascii_str (replicate 130 CHR ''0'')) = Inr (replicate 64 0x30)"
proof (intro conjI)
  have zeros: "hex_writes (replicate (2 * n) CHR ''0'') (replicate n 0)" for n
  proof (induction n)
    case (Suc n)
    have "hex_value CHR ''0'' = Some 0" by code_simp
    with Suc show ?case by simp
  qed simp
  from this [of 65] have z: "hex_writes (replicate 130 CHR ''0'') (replicate 65 0)" by simp
  have visible: "\<not> is_whitespace c" if "c \<in> set (ascii_str (''hex:'' @ replicate 130 CHR ''0''))" for c
    using that by (auto simp: ascii_str_def visible_no_space)
  have hex: "str_trim (ascii_str (''hex:'' @ replicate 130 CHR ''0'')) = ascii_str (''hex:'' @ replicate 130 CHR ''0'')"
    by (rule trim_visible) (intro ballI visible)
  have bare: "str_trim (ascii_str (replicate 130 CHR ''0'')) = ascii_str (replicate 130 CHR ''0'')"
    by (rule trim_visible) (intro ballI visible, simp only: ascii_str_append set_append Un_iff simp_thms)
  have unique: "length d = 65" if "ascii_str (replicate 130 CHR ''0'') = ascii_str ds" "hex_writes ds d" for ds d
    using arg_cong [OF that(1), where f = length] hex_writes_length [OF that(2)] by simp
  show "parse_user_data_variable (ascii_str ''hex:0aFf'') = Inr [0x0A, 0xFF]"
  proof -
    have "str_trim (ascii_str ''hex:0aFf'') = ascii_str (''hex:'' @ ''0aFf'')" "hex_writes ''0aFf'' [0x0A, 0xFF]" by code_simp+
    from user_data_forms [THEN conjunct1, rule_format, OF conjI [OF this]] show ?thesis by simp
  qed
  show "parse_user_data_variable (ascii_str ('' '' @ ''utf8:ab'')) = Inr [0x61, 0x62]"
  proof -
    have "str_trim (ascii_str ('' '' @ ''utf8:ab'')) = ascii_str ''utf8:'' @ ascii_str ''ab''"
      "take 64 (str_bytes (ascii_str ''ab'')) = [0x61, 0x62]" by code_simp+
    with user_data_forms [THEN conjunct2, THEN conjunct2, THEN conjunct2, THEN conjunct1, rule_format, OF this(1)]
    show ?thesis by simp
  qed
  show "parse_user_data_variable (ascii_str (''hex:'' @ replicate 130 CHR ''0'')) = cli_fail ''hex decodes to more than 64 bytes''"
    using user_data_forms [THEN conjunct1, rule_format, OF conjI [OF hex z]] by simp
  have "\<not> has_prefix_str k (ascii_str (replicate 130 CHR ''0''))" if "hex_value (hd k) = None" "k \<noteq> []" for k
    using hex_writes_no_prefix [OF z that] .
  from this [of "''hex:''"] this [of "''utf8:''"]
  have none: "\<not> has_prefix_str ''hex:'' (ascii_str (replicate 130 CHR ''0''))"
    "\<not> has_prefix_str ''utf8:'' (ascii_str (replicate 130 CHR ''0''))"
    by (simp_all add: hex_value_def)
  have "take 64 (str_bytes (ascii_str (replicate 130 CHR ''0''))) = replicate 64 (0x30 :: u8)"
    by (simp add: ascii_bytes_def)
  then show "parse_user_data_variable (ascii_str (replicate 130 CHR ''0'')) = Inr (replicate 64 0x30)"
    using user_data_forms [of "ascii_str (replicate 130 CHR ''0'')", THEN conjunct2, THEN conjunct2, THEN conjunct2,
        THEN conjunct2, THEN conjunct2, unfolded bare] none unique by auto
qed

section \<open>A character of several bytes\<close>

lemma split_char_no_boundary:
  assumes "1 < length c"
  shows "\<not> char_boundary (ascii_str digits @ c # rest) (length digits + 1)"
proof
  have l: "length (str_bytes (take k (ascii_str digits @ c # rest))) \<ge> length digits + 2" if "length digits < k" for k
  proof -
    have "str_bytes (take k (ascii_str digits @ c # rest)) = ascii_bytes digits @ c @ str_bytes (take (k - length digits - 1) rest)"
      using that by (cases "k - length digits") simp_all
    then show ?thesis using assms by simp
  qed
  have s: "length (str_bytes (take k (ascii_str digits @ c # rest))) \<le> length digits" if "k \<le> length digits" for k
  proof -
    have "take k (ascii_str digits @ c # rest) = ascii_str (take k digits)"
      using that by (simp add: ascii_str_def take_map)
    then show ?thesis by simp
  qed
  assume "char_boundary (ascii_str digits @ c # rest) (length digits + 1)"
  then obtain k where "length (str_bytes (take k (ascii_str digits @ c # rest))) = length digits + 1"
    unfolding char_boundary_iff by blast
  with l [of k] s [of k] show False by (cases "length digits < k") auto
qed

lemma hex_bytes_panic:
  assumes "\<forall>i \<in> set is. \<exists>ds n. str_slice s (i * 2) (i * 2 + 2) = (Inr ds :: (cli_error, bytes) res) \<and>
      from_str_radix_16 (2 ^ 8) (bytes_text ds) = Inr n"
    and "str_slice s (j * 2) (j * 2 + 2) = (Inl Panic :: (cli_error, bytes) res)"
  shows "hex_bytes_at s (is @ j # js) = Inl Panic"
  using assms
proof (induction "is")
  case (Cons i "is")
  then obtain ds n where "str_slice s (i * 2) (i * 2 + 2) = (Inr ds :: (cli_error, bytes) res)"
    "from_str_radix_16 (2 ^ 8) (bytes_text ds) = Inr n" by auto
  with Cons show ?case by simp
qed simp

lemma hex_pair_read:
  assumes "a \<in> hex_digit ` {..<16}" "b \<in> hex_digit ` {..<16}"
  shows "\<exists>n. from_str_radix_16 (2 ^ 8) [a, b] = Inr n"
proof -
  obtain i j where "i < 16" "j < 16" "a = hex_digit i" "b = hex_digit j" using assms by auto
  moreover have "a \<noteq> CHR ''+''" using assms plus_no_digit by metis
  ultimately show ?thesis by (simp add: from_str_radix_16_def hex_value_digit)
qed

text \<open>
  Hexadecimal user data of an admissible length in which a character of several bytes
  follows an odd number of digits is not refused: the tool slices the character apart and
  panics.
\<close>

theorem hex_argument_panics:
  assumes "odd (length digits)" "set digits \<subseteq> hex_digit ` {..<16}" "1 < length c"
    and "even (str_len (ascii_str digits @ c # rest))" "str_len (ascii_str digits @ c # rest) \<le> 128"
  shows "hex_to_bytes (ascii_str digits @ c # rest) = Inl Panic"
proof -
  define s where "s = ascii_str digits @ c # rest"
  obtain m where m: "length digits = 2 * m + 1" using assms(1) by (auto elim: oddE)
  have len: "str_len s = length digits + length c + length (str_bytes rest)"
    by (simp add: s_def str_len_def)
  have before: "\<exists>ds n. str_slice s (i * 2) (i * 2 + 2) = (Inr ds :: (cli_error, bytes) res) \<and>
      from_str_radix_16 (2 ^ 8) (bytes_text ds) = Inr n" if "i < m" for i
  proof -
    let ?p = "take 2 (drop (i * 2) digits)"
    have "i * 2 + 2 \<le> length digits" using that m by simp
    then have "str_slice s (i * 2) (i * 2 + 2) = (Inr (ascii_bytes ?p) :: (cli_error, bytes) res)"
      by (simp add: str_slice_def s_def boundary_append ascii_boundary ascii_bytes_def take_map drop_map)
    moreover have "?p = [digits ! (i * 2), digits ! (i * 2 + 1)]"
      using that m by (intro nth_equalityI) (auto simp: less_2_cases_iff nth_Cons')
    moreover have "digits ! (i * 2) \<in> hex_digit ` {..<16}" "digits ! (i * 2 + 1) \<in> hex_digit ` {..<16}"
      using assms(2) that m by auto
    ultimately show ?thesis using hex_pair_read by (simp add: bytes_text_ascii)
  qed
  have at: "str_slice s (m * 2) (m * 2 + 2) = (Inl Panic :: (cli_error, bytes) res)"
    using split_char_no_boundary [OF assms(3), of digits rest] m by (simp add: str_slice_def s_def mult.commute)
  have "m < str_len s div 2" using len m assms(3) by simp
  then have idx: "[0..<str_len s div 2] = [0..<m] @ m # [Suc m..<str_len s div 2]"
    by (metis le_add1 less_imp_add_positive upt_add_eq_append upt_conv_Cons add_0)
  have "\<not> 64 < str_len s div 2" using assms(5) by (simp add: div_le_dividend flip: s_def)
  then show ?thesis
    using assms(4) hex_bytes_panic [of "[0..<m]" s m] before at
    by (simp add: hex_to_bytes_def idx flip: s_def)
qed

theorem hex_argument_panics_witness:
  "hex_to_bytes (ascii_str ''a'' @ [[0xC3, 0xA9], [0x62]]) = Inl Panic"
proof -
  have "''a'' = [hex_digit 10]" by (simp add: hex_digit_def)
  then have "set ''a'' \<subseteq> hex_digit ` {..<16}" by auto
  with hex_argument_panics [of "''a''" "[0xC3, 0xA9]" "[[0x62]]"] show ?thesis
    by (simp add: str_len_def)
qed

section \<open>PEM\<close>

lemma from_utf8_ascii_exact: "list_all (\<lambda>b. b < 0x80) bs \<Longrightarrow> from_utf8 at bs = Inr (map (\<lambda>b. [b]) bs)"
proof (induction bs arbitrary: at)
  case Nil
  then show ?case by (simp add: from_utf8.simps)
next
  case (Cons b bs)
  then show ?case by (simp add: from_utf8_ascii)
qed

lemma char_text_bytes: "char_text (map (\<lambda>b. [b]) bs) = bytes_text bs"
  by (simp add: char_text_def str_bytes_def bytes_text_def concat_map_singleton)

text \<open>A pattern is found at the first place of its first character.\<close>

lemma str_find_here: "str_find (p # pat) (p # pat @ post) = Some 0"
  by simp

lemma str_find_after: "p \<notin> set pre \<Longrightarrow> str_find (p # pat) (pre @ p # pat @ post) = Some (length pre)"
  by (induction pre) auto

text \<open>The letters of base64.\<close>

definition base64_char :: "char \<Rightarrow> bool" where
  "base64_char c \<longleftrightarrow> c \<in> set ''ABCDEFGHIJKLMNOPQRSTUVWXYZabcdefghijklmnopqrstuvwxyz0123456789+/=''"

lemma base64_char_byte:
  assumes "base64_char c"
  shows "0x21 \<le> (of_char c :: u8)" "(of_char c :: u8) \<le> 0x7E" "(of_char c :: u8) \<noteq> 0x2D"
proof -
  have "\<forall>c \<in> set ''ABCDEFGHIJKLMNOPQRSTUVWXYZabcdefghijklmnopqrstuvwxyz0123456789+/=''.
      0x21 \<le> (of_char c :: u8) \<and> (of_char c :: u8) \<le> 0x7E \<and> (of_char c :: u8) \<noteq> 0x2D" by code_simp
  then show "0x21 \<le> (of_char c :: u8)" "(of_char c :: u8) \<le> 0x7E" "(of_char c :: u8) \<noteq> 0x2D"
    using assms by (auto simp: base64_char_def)
qed

definition pem_body :: "bytes list \<Rightarrow> bytes" where
  "pem_body cs = concat (map (\<lambda>c. c @ [0x0A]) cs)"

lemma newline_char: "char_of (10 :: nat) = CHR 10" "is_whitespace [0x0A]"
  by (code_simp, simp add: is_whitespace_def)

lemma pem_lines_ascii:
  "\<forall>c \<in> set cs. list_all (\<lambda>b. b < 0x80) c \<Longrightarrow> pem_lines cs = Inr (bytes_text (pem_body cs))"
  by (induction cs) (simp_all add: pem_body_def from_utf8_ascii_exact char_text_bytes writeln_def bytes_text_def newline_char)

lemma pem_body_filter:
  "\<forall>b \<in> set (concat cs). \<not> is_whitespace [b] \<Longrightarrow> filter (\<lambda>b. \<not> is_whitespace [b]) (pem_body cs) = concat cs"
  by (induction cs) (simp_all add: pem_body_def newline_char filter_id_conv)

lemma set_pem_body: "set (pem_body cs) \<subseteq> insert 0x0A (set (concat cs))"
  by (auto simp: pem_body_def)

text \<open>
  The PEM form of a certificate is read back as that certificate by the parser of quotes, for
  any base64 engine whose text uses its alphabet and is decoded to what was encoded.
\<close>

theorem pem_read_back:
  assumes "list_all base64_char (b64 der)" "decode (ascii_bytes (b64 der)) = Some der"
  shows "\<exists>pem. der_to_pem b64 ''CERTIFICATE'' der = (Inr pem :: ('e, string) res) \<and>
    first_certificate_der checks decode (ascii_bytes pem) = Inr der"
proof -
  define cs where "cs = chunks 64 (ascii_bytes (b64 der))"
  have cs: "concat cs = ascii_bytes (b64 der)" by (simp add: cs_def concat_chunks)
  have chars: "0x21 \<le> b \<and> b \<le> 0x7E \<and> b \<noteq> 0x2D" if "b \<in> set (concat cs)" for b
    using that assms(1) base64_char_byte by (auto simp: cs ascii_bytes_def list_all_iff)
  have small: "b < 0x80" if "b \<in> set (concat cs)" for b
    using chars [OF that] by (auto intro: order.strict_trans1 [of b "0x7E"])
  have lines: "pem_lines cs = (Inr (bytes_text (pem_body cs)) :: ('e, string) res)"
    using small by (intro pem_lines_ascii) (auto simp: list_all_iff)
  define pem where "pem = ''-----BEGIN CERTIFICATE-----'' @ [CHR 10] @ bytes_text (pem_body cs) @
    ''-----END CERTIFICATE-----'' @ [CHR 10]"
  have made: "der_to_pem b64 ''CERTIFICATE'' der = (Inr pem :: ('e, string) res)"
    using lines by (simp add: der_to_pem_def pem_def writeln_def flip: cs_def)
  let ?body = "map (\<lambda>b. [b]) (pem_body cs)"
  have body_small: "list_all (\<lambda>b. b < 0x80) (pem_body cs)"
    unfolding list_all_iff
  proof
    fix b assume "b \<in> set (pem_body cs)"
    then consider "b = 0x0A" | "b \<in> set (concat cs)" using set_pem_body [of cs] by blast
    then show "b < 0x80" using small by cases auto
  qed
  have "0x2D \<notin> set (pem_body cs)"
  proof
    assume "0x2D \<in> set (pem_body cs)"
    then have "(0x2D :: u8) \<in> set (concat cs)" using set_pem_body [of cs] by auto
    then show False using chars by blast
  qed
  then have no_dash: "[0x2D] \<notin> set ([0x0A] # ?body)" by auto
  have ascii_lits: "list_all (\<lambda>b. b < 0x80) (ascii_bytes ''-----BEGIN CERTIFICATE-----'')"
    "list_all (\<lambda>b. b < 0x80) (ascii_bytes ''-----END CERTIFICATE-----'')" by code_simp+
  have utf8: "from_utf8 0 (ascii_bytes pem) = Inr (PEM_BEGIN @ ([0x0A] # ?body) @ PEM_END @ [[0x0A]])"
  proof -
    have "ascii_bytes pem = ascii_bytes ''-----BEGIN CERTIFICATE-----'' @ (0x0A # pem_body cs) @
        ascii_bytes ''-----END CERTIFICATE-----'' @ [0x0A]"
      by (simp add: pem_def ascii_bytes_def) (simp add: ascii_bytes_text [unfolded ascii_bytes_def])
    moreover have "list_all (\<lambda>b. b < 0x80) (ascii_bytes ''-----BEGIN CERTIFICATE-----'' @ (0x0A # pem_body cs) @
        ascii_bytes ''-----END CERTIFICATE-----'' @ [0x0A :: u8])"
      using ascii_lits body_small by simp
    moreover have "map (\<lambda>b. [b]) (ascii_bytes s) = ascii_str s" for s by (simp add: ascii_bytes_def ascii_str_def)
    ultimately show ?thesis by (simp add: from_utf8_ascii_exact PEM_BEGIN_def PEM_END_def)
  qed
  obtain p1 where b: "PEM_BEGIN = [0x2D] # p1" by (simp add: PEM_BEGIN_def ascii_str_def)
  obtain p2 where e: "PEM_END = [0x2D] # p2" by (simp add: PEM_END_def ascii_str_def)
  have found: "str_find PEM_BEGIN (PEM_BEGIN @ ([0x0A] # ?body) @ PEM_END @ [[0x0A]]) = Some 0"
    unfolding b using str_find_here by simp
  have ends: "str_find PEM_END (([0x0A] # ?body) @ PEM_END @ [[0x0A]]) = Some (length ([0x0A] # ?body))"
    unfolding e using str_find_after [OF no_dash, of p2 "[[0x0A]]"] by simp
  have "str_bytes (filter (\<lambda>c. \<not> is_whitespace c) ([0x0A] # ?body)) = ascii_bytes (b64 der)"
  proof -
    have "filter (\<lambda>c. \<not> is_whitespace c) ?body = map (\<lambda>b. [b]) (filter (\<lambda>b. \<not> is_whitespace [b]) (pem_body cs))"
      by (simp add: filter_map o_def)
    also have "filter (\<lambda>b. \<not> is_whitespace [b]) (pem_body cs) = concat cs"
      using chars visible_no_space by (intro pem_body_filter) blast
    finally show ?thesis
      by (simp add: cs str_bytes_def concat_map_singleton newline_char)
  qed
  then have "first_certificate_der checks decode (ascii_bytes pem) = Inr der"
    using found ends assms(2) by (simp add: first_certificate_der_def utf8 Let_def)
  with made show ?thesis by blast
qed

theorem pem_read_back_witness:
  "\<exists>pem. der_to_pem (\<lambda>_. ''AQI='') ''CERTIFICATE'' [1, 2] = (Inr pem :: (unit, string) res) \<and>
     first_certificate_der True (\<lambda>t. if t = ascii_bytes ''AQI='' then Some [1, 2] else None) (ascii_bytes pem) = Inr [1, 2]"
  by (rule pem_read_back) (simp_all add: base64_char_def)

section \<open>The claims of a token\<close>

lemma envelope_json_text:
  "envelope_json pf token = Some v \<Longrightarrow>
     \<exists>raw t. pf_b64_url_decode pf token = Inr raw \<and> length t = length raw \<and> pf_json_parse pf t = Inr v"
proof -
  assume "envelope_json pf token = Some v"
  then obtain raw cs where "pf_b64_url_decode pf token = Inr raw" "from_utf8 0 raw = Inr cs"
    "pf_json_parse pf (char_text cs) = Inr v"
    by (auto simp: envelope_json_def base64_url_decode_vec_def cli_fail_def split: sum.splits)
  moreover have "length (char_text cs) = length raw"
    using from_utf8_bytes [OF \<open>from_utf8 0 raw = Inr cs\<close>] by (simp add: char_text_def)
  ultimately show ?thesis by blast
qed

text \<open>
  C24. The search for the claims of a token, which follows envelopes inside envelopes, ends on
  every token, because neither decoding base64 nor taking a string out of a JSON text makes
  it longer.
\<close>

theorem token_search_ends:
  assumes "\<And>s d. pf_b64_url_decode pf s = Inr d \<Longrightarrow> length d \<le> length s"
    and "\<And>t v k x. pf_json_parse pf t = Inr v \<Longrightarrow> get_str v k = Some x \<Longrightarrow> length x < length t"
  shows "\<exists>claims. jwt_payload_value pf token = Some claims"
proof (induction "length token" arbitrary: token rule: less_induct)
  case less
  show ?case
  proof (cases "Option.bind (envelope_json pf token) (\<lambda>v. get_str v ''Jwt'')")
    case None
    then show ?thesis by (subst jwt_payload_value.simps) (auto split: option.split)
  next
    case (Some jwt)
    then obtain v where v: "envelope_json pf token = Some v" "get_str v ''Jwt'' = Some jwt" by (auto simp: bind_eq_Some_conv)
    obtain raw t where "pf_b64_url_decode pf token = Inr raw" "length t = length raw" "pf_json_parse pf t = Inr v"
      using envelope_json_text [OF v(1)] by blast
    then have "length jwt < length token" using assms v(2) by fastforce
    from less [OF this] Some show ?thesis
      by (subst jwt_payload_value.simps) (auto split: option.split)
  qed
qed

text \<open>A platform whose one JSON text is an envelope.\<close>

definition nested_platform :: "unit platform" where
  "nested_platform = (sample_platform (\<lambda>_ s. (Inr [], s)))
     \<lparr>pf_b64_url_decode := (\<lambda>s. Inr (ascii_bytes s)),
      pf_json_parse := (\<lambda>t. if t = ''{Jwt}'' then Inr (J_Object [(''Jwt'', J_String ''x'')]) else Inl ''syntax'')\<rparr>"

theorem token_search_ends_witness: "\<exists>claims. jwt_payload_value nested_platform ''{Jwt}'' = Some claims"
proof (rule token_search_ends)
  show "length d \<le> length s" if "pf_b64_url_decode nested_platform s = Inr d" for s d
    using that by (auto simp: nested_platform_def ascii_bytes_def)
  show "length x < length t" if "pf_json_parse nested_platform t = Inr v" "get_str v k = Some x" for t v k x
    using that by (auto simp: nested_platform_def get_str_def split: if_splits)
qed

end
