(* ===== verification/Attest_Demo.thy ===== *)
theory Attest_Demo
  imports Attest_Client Tpm_Attestation_Facts Sample_Platform
begin

text \<open>
  A simulated confidential VM: a TPM that stores the NV indices and answers every other
  command with a fixed response, and a platform around it. The properties of the client
  are witnessed on it.
\<close>

definition demo_cvm_get :: "u32 \<Rightarrow> bytes \<times> bytes \<Rightarrow> bytes" where
  "demo_cvm_get i s =
     (if i = NV_INDEX_CVM_REPORT then cvm_report_wire demo_cvm_report @ [0x7B, 0x7D] @ [0, 0]
      else if i = NV_INDEX_USER_DATA then resized 64 (fst s)
      else [0x30, 3, 1, 2, 3])"

definition demo_signed :: bytes where
  "demo_signed = session_response 0 [] 12 (sized_marshal [1, 2] @ [0, 0x14, 0, 0x0B] @ sized_marshal [9, 9]) []"

definition demo_key_response :: bytes where
  "demo_key_response = plain_response 0 (demo_key_wire @ [0, 0, 0, 0])"

definition demo_session_response :: bytes where
  "demo_session_response = plain_response 0 (u32_marshal 0x03000000 @ [0, 0])"

definition demo_digest_response :: bytes where
  "demo_digest_response = plain_response 0 (sized_marshal [5, 5, 5, 5])"

definition demo_inner_key :: bytes where
  "demo_inner_key = replicate 16 5"

definition demo_decrypted :: bytes where
  "demo_decrypted = session_response 0 [] 18 (sized_marshal demo_inner_key) []"

fun canned :: "tpm_command_code \<Rightarrow> bytes" where
  "canned ReadPublic = demo_key_response"
| "canned CreatePrimary = demo_created"
| "canned StartAuthSession = demo_session_response"
| "canned PolicyGetDigest = demo_digest_response"
| "canned FlushContext = plain_response 0 []"
| "canned RsaDecrypt = demo_decrypted"
| "canned _ = demo_signed"

definition canned_codes :: "tpm_command_code list" where
  "canned_codes = [ReadPublic, CreatePrimary, StartAuthSession, PolicyGetDigest, FlushContext, Quote, Certify, RsaDecrypt]"

definition demo_cvm :: "(bytes \<times> bytes) transport" where
  "demo_cvm cmd s =
     (case find (\<lambda>c. u32_marshal (command_code_u32 c) = drop 6 (take 10 cmd)) canned_codes of
        Some c \<Rightarrow> (Inr (canned c), s)
      | None \<Rightarrow> nv_device demo_report_area demo_cvm_get demo_put cmd s)"

lemma demo_cvm_canned:
  "c \<in> set canned_codes \<Longrightarrow> demo_cvm (pw_command c hs ps) s = (Inr (canned c), s)"
  "c \<in> set canned_codes \<Longrightarrow> demo_cvm (plain_command c hs ps) s = (Inr (canned c), s)"
  "c \<in> set canned_codes \<Longrightarrow> demo_cvm (command_frame t c b) s = (Inr (canned c), s)"
  by (auto simp: demo_cvm_def canned_codes_def index_of_command pw_command_parts u32_marshal_inject command_code_of_frame)

lemma demo_cvm_nv:
  "demo_cvm (nv_read_public_request i) = nv_device demo_report_area demo_cvm_get demo_put (nv_read_public_request i)"
  "demo_cvm (nv_read_request i n off) = nv_device demo_report_area demo_cvm_get demo_put (nv_read_request i n off)"
  "demo_cvm (nv_write_request i part off) = nv_device demo_report_area demo_cvm_get demo_put (nv_write_request i part off)"
  by (auto simp: demo_cvm_def canned_codes_def nv_read_public_request_def nv_read_request_def nv_write_request_def
      index_of_command pw_command_parts u32_marshal_inject)

lemma demo_report_area_valid: "nv_read_public_valid (demo_report_area i)"
  by (simp add: demo_report_area_def demo_area_def nv_read_public_valid_def fits_u16_def)

lemma demo_cvm_get_length: "length (demo_cvm_get i s) = unat (np_data_size (nr_public (demo_report_area i)))"
  using length_cvm_report_wire [OF demo_cvm_report_valid]
  by (auto simp: demo_report_area_def demo_area_def demo_cvm_get_def CVM_REPORT_SIZE_def
      ATTESTATION_REPORT_SIZE_MAX_def SNP_VM_REPORT_SIZE_def)

lemma demo_cvm_readable: "nv_readable demo_cvm i (demo_report_area i) [] (demo_cvm_get i)"
  using nv_device_readable [where area = demo_report_area and get = demo_cvm_get and put = demo_put and i = i,
      OF demo_report_area_valid demo_cvm_get_length]
  unfolding nv_readable_def demo_cvm_nv by blast

lemma demo_cvm_user_data: "nv_service demo_cvm NV_INDEX_USER_DATA (demo_report_area NV_INDEX_USER_DATA) []
  (demo_cvm_get NV_INDEX_USER_DATA)"
proof -
  have i: "NV_INDEX_USER_DATA \<noteq> NV_INDEX_CVM_REPORT"
    by (simp add: NV_INDEX_USER_DATA_def NV_INDEX_CVM_REPORT_def)
  have "demo_cvm_get NV_INDEX_USER_DATA (demo_put NV_INDEX_USER_DATA v s) = v"
    if "length v = unat (np_data_size (nr_public (demo_report_area NV_INDEX_USER_DATA)))" for v s
    using that i by (simp add: demo_cvm_get_def demo_put_def demo_report_area_def demo_area_def)
  from nv_device_service [where area = demo_report_area and get = demo_cvm_get and put = demo_put and
      i = NV_INDEX_USER_DATA, OF demo_report_area_valid demo_cvm_get_length this]
  show ?thesis
    using demo_cvm_readable unfolding nv_service_def demo_cvm_nv by blast
qed

lemma demo_cvm_vtpm: "cvm_vtpm demo_cvm (demo_cvm_get NV_INDEX_USER_DATA) (demo_cvm_get NV_INDEX_CVM_REPORT)"
proof -
  have "np_data_size (nr_public (demo_report_area NV_INDEX_USER_DATA)) = 64"
    by (simp add: demo_report_area_def demo_area_def NV_INDEX_USER_DATA_def NV_INDEX_CVM_REPORT_def)
  then show ?thesis
    unfolding cvm_vtpm_def using demo_cvm_user_data demo_cvm_readable by blast
qed

section \<open>Its operations\<close>

lemma canned_ok:
  assumes "c \<in> set canned_codes"
  shows "parse_tpm_rc_with_cmd (canned c) cc = Inr ()"
  using assms length_demo_key_wire
  by (auto simp: canned_codes_def demo_key_response_def demo_created_def demo_session_response_def
      demo_digest_response_def demo_signed_def demo_decrypted_def demo_inner_key_def plain_response_ok session_response_ok sized_marshal_def)

lemma demo_cvm_replies:
  assumes "c \<in> set canned_codes"
  shows "run_command demo_cvm c (Inr (pw_command c hs ps)) f s = (f (canned c), s)"
    "run_command demo_cvm c (Inr (plain_command c hs ps)) f s = (f (canned c), s)"
    "run_command demo_cvm c (Inr (command_frame t c b)) f s = (f (canned c), s)"
  by (rule run_command_reply, rule demo_cvm_canned [OF assms], rule canned_ok [OF assms])+

lemma canned_parsed:
  "\<exists>r. read_public_response_from_bytes demo_key_response = Inr r"
  "\<exists>r. create_primary_response_from_bytes demo_created = Inr r"
  "\<exists>r. start_auth_session_response_from_bytes demo_session_response = Inr r"
  "\<exists>r. policy_get_digest_response_from_bytes demo_digest_response = Inr r"
  "\<exists>r h x. quote_response_from_bytes demo_signed = Inr r \<and> snd (resp_parameters r) = Sig_Rsassa h x"
    "\<exists>r h x. certify_response_from_bytes demo_signed = Inr r \<and> snd (resp_parameters r) = Sig_Rsassa h x"
proof -
  have "case read_public_response_from_bytes demo_key_response of Inr _ \<Rightarrow> True | Inl _ \<Rightarrow> False"
    "case create_primary_response_from_bytes demo_created of Inr _ \<Rightarrow> True | Inl _ \<Rightarrow> False"
    "case start_auth_session_response_from_bytes demo_session_response of Inr _ \<Rightarrow> True | Inl _ \<Rightarrow> False"
    "case policy_get_digest_response_from_bytes demo_digest_response of Inr _ \<Rightarrow> True | Inl _ \<Rightarrow> False"
    "case quote_response_from_bytes demo_signed of Inr r \<Rightarrow>
       (case snd (resp_parameters r) of Sig_Rsassa _ _ \<Rightarrow> True | _ \<Rightarrow> False) | Inl _ \<Rightarrow> False"
    "case certify_response_from_bytes demo_signed of Inr r \<Rightarrow>
       (case snd (resp_parameters r) of Sig_Rsassa _ _ \<Rightarrow> True | _ \<Rightarrow> False) | Inl _ \<Rightarrow> False"
    by code_simp+
  then show "\<exists>r. read_public_response_from_bytes demo_key_response = Inr r"
    "\<exists>r. create_primary_response_from_bytes demo_created = Inr r"
    "\<exists>r. start_auth_session_response_from_bytes demo_session_response = Inr r"
    "\<exists>r. policy_get_digest_response_from_bytes demo_digest_response = Inr r"
    "\<exists>r h x. quote_response_from_bytes demo_signed = Inr r \<and> snd (resp_parameters r) = Sig_Rsassa h x"
    "\<exists>r h x. certify_response_from_bytes demo_signed = Inr r \<and> snd (resp_parameters r) = Sig_Rsassa h x"
    by (auto split: sum.splits tpmt_signature.splits)
qed

lemma canned_in:
  "ReadPublic \<in> set canned_codes" "CreatePrimary \<in> set canned_codes" "StartAuthSession \<in> set canned_codes"
  "PolicyGetDigest \<in> set canned_codes" "FlushContext \<in> set canned_codes" "Quote \<in> set canned_codes"
  "Certify \<in> set canned_codes" "RsaDecrypt \<in> set canned_codes"
  by (simp_all add: canned_codes_def)

lemma canned_lengths [simp]:
  "\<not> length demo_key_response < 14" "\<not> length demo_created < 14" "\<not> length demo_session_response < 14"
  "\<not> length demo_digest_response < 14" "\<not> length demo_signed < 14" "\<not> length demo_decrypted < 14"
  by (simp_all add: demo_decrypted_def demo_inner_key_def demo_key_response_def demo_created_def demo_session_response_def demo_digest_response_def
      demo_signed_def sized_marshal_def)

lemmas demo_replies = demo_cvm_replies [OF canned_in(1)] demo_cvm_replies [OF canned_in(2)]
  demo_cvm_replies [OF canned_in(3)] demo_cvm_replies [OF canned_in(4)] demo_cvm_replies [OF canned_in(5)]
  demo_cvm_replies [OF canned_in(6)] demo_cvm_replies [OF canned_in(7)]
  demo_cvm_replies [OF canned_in(8)]

lemma demo_cvm_keys:
  "\<exists>pub. tpm_read_public demo_cvm h s = (Inr pub, s)"
  "\<exists>cp. tpm_create_primary demo_cvm hier template [] s = (Inr cp, s)"
  "tpm_flush_context demo_cvm h s = (Inr (), s)"
  "\<exists>q. tpm_quote_with_key demo_cvm h [] s = (Inr q, s)"
  "\<exists>c. tpm_certify_with_key demo_cvm h h' s = (Inr c, s)"
  using canned_parsed
  by (auto simp: tpm_read_public_def tpm_create_primary_def tpm_flush_context_def tpm_quote_with_key_def
      tpm_certify_with_key_def request_defs no_parameters_marshal_def create_primary_marshal_def
      quote_marshal_def certify_marshal_def build_command_pw_sessions_frame Let_def demo_replies require_14_def)

lemma demo_cvm_decrypt:
  assumes "length ct \<le> 256"
  shows "tpm_rsa_decrypt rnd sha demo_cvm h [] ct scheme s = (Inr demo_inner_key, s)"
proof -
  have "case rsa_decrypt_response_from_bytes demo_decrypted of
      Inr r \<Rightarrow> resp_parameters r = demo_inner_key | Inl _ \<Rightarrow> False"
    by code_simp
  then obtain r where "rsa_decrypt_response_from_bytes demo_decrypted = Inr r" "resp_parameters r = demo_inner_key"
    by (auto split: sum.splits)
  moreover have "trim_ciphertext ct = ct" using assms by (simp add: trim_ciphertext_def)
  ultimately show ?thesis
    using assms canned_ok [OF canned_in(8)]
    by (simp add: tpm_rsa_decrypt_def request_defs build_command_pw_sessions_frame st_then_def
        demo_cvm_canned [OF canned_in(8)] Let_def)
qed

lemma demo_cvm_policy:
  "\<exists>d. tpm_compute_pcr_policy_digest demo_random id demo_cvm [] s = (Inr d, s)"
proof -
  obtain r d where r: "start_auth_session_response_from_bytes demo_session_response = Inr r"
    and d: "policy_get_digest_response_from_bytes demo_digest_response = Inr d"
    using canned_parsed by blast
  have "tpm_start_auth_session demo_random demo_cvm t a s = (Inr (resp_handle r), s)" for t a
    using r by (simp add: tpm_start_auth_session_def demo_random_def st_then_def request_defs Let_def
        demo_replies require_14_def)
  moreover have "policy_digest_in_session id demo_cvm [] h s = (Inr (resp_parameters d), s)" for h
    using d by (simp add: policy_digest_in_session_def tpm_policy_pcr_def st_then_def request_defs
        no_parameters_marshal_def Let_def demo_replies require_14_def)
  ultimately show ?thesis
    by (simp add: tpm_compute_pcr_policy_digest_def with_flushed_session_def st_then_def st_catch_def
        st_ignore_def demo_cvm_keys)
qed

lemma demo_cvm_ephemeral: "\<exists>ek. get_ephemeral_key demo_random id demo_cvm [] s = (Inr ek, s)"
proof -
  obtain d where d: "tpm_compute_pcr_policy_digest demo_random id demo_cvm [] s = (Inr d, s)"
    using demo_cvm_policy by blast
  obtain cp where cp: "tpm_create_primary demo_cvm Hierarchy_Owner
      (rsa_unrestricted_sign_decrypt_public_with_policy d) [] s = (Inr cp, s)"
    using demo_cvm_keys(2) by blast
  obtain c where "tpm_certify_with_key demo_cvm (cp_handle cp) AK_PERSISTENT_HANDLE s = (Inr c, s)"
    using demo_cvm_keys(5) by blast
  with d cp show ?thesis by (cases c) (simp add: get_ephemeral_key_def st_then_def)
qed

definition demo_platform :: "(bytes \<times> bytes) platform" where
  "demo_platform = sample_platform demo_cvm"

lemmas demo_platform_fields = demo_platform_def [unfolded sample_platform_def]

lemma demo_platform_evidence: "\<exists>d. get_tpm_evidence demo_platform (Some []) s = (Inr d, s) \<and> de_pcrs d = []"
proof -
  obtain pub where pub: "tpm_read_public demo_cvm AK_PERSISTENT_HANDLE s = (Inr pub, s)"
    using demo_cvm_keys(1) by blast
  obtain q where q: "tpm_quote_with_key demo_cvm AK_PERSISTENT_HANDLE [] s = (Inr q, s)"
    using demo_cvm_keys(4) by blast
  obtain ek where ek: "get_ephemeral_key demo_random id demo_cvm [] s = (Inr ek, s)"
    using demo_cvm_ephemeral by blast
  have ak: "ensure_persistent_ak demo_cvm s = (Inr (), s)"
    using pub by (simp add: ensure_persistent_ak_def get_ak_pub_def st_then_def st_catch_def)
  have cert: "\<exists>c. get_ak_cert demo_cvm s = (Inr c, s)"
    by (simp add: get_ak_cert_def st_then_def st_catch_def nv_readable_read_public [OF demo_cvm_readable]
        nv_readable_read [OF demo_cvm_readable])
  have pcrs: "get_pcr_values demo_cvm [] s = (Inr [], s)"
    by (simp add: get_pcr_values_def tpm_read_pcrs_sha256_def tpm_read_pcrs_for_alg_def)
  from cert obtain c where "get_ak_cert demo_cvm s = (Inr c, s)" by blast
  with pub q ek ak pcrs show ?thesis
    by (cases q) (simp add: get_tpm_evidence_def demo_platform_fields get_ak_pub_def get_pcr_quote_def
        st_then_def st_ignore_def demo_cvm_keys Let_def)
qed

end
