(* ===== verification/Attest_Client_Facts.thy ===== *)
theory Attest_Client_Facts
  imports Attest_Demo
begin

text \<open>
  What the client promises: the retry loop, user data that is bound or refused, the
  fallback to TrustedLaunch, the token envelope, the ephemeral key that is always
  flushed, and that no operation panics.
\<close>

section \<open>Retrying\<close>

text \<open>
  C12. A provider is asked at most three times, one and then two seconds
  apart: the first answer (or panic) ends it, and of three errors the last is returned.
\<close>

theorem provider_retried:
  "submit_to_provider ask sleep req s =
     (case ask req s of
        (Inl (Fail _), s1) \<Rightarrow>
          (case ask req (sleep 1 s1) of
             (Inl (Fail _), s2) \<Rightarrow> ask req (sleep 2 s2)
           | done2 \<Rightarrow> done2)
      | done1 \<Rightarrow> done1)"
  by (simp add: submit_to_provider_def submit_loop.simps [of _ _ _ 0] submit_loop.simps [of _ _ _ "Suc 0"]
      submit_loop.simps [of _ _ _ "Suc (Suc 0)"] max_retries_def split: prod.split sum.split fault.split)

section \<open>No panic\<close>

definition op_safe :: "('s, 'a) sdk_op \<Rightarrow> bool" where
  "op_safe m \<longleftrightarrow> (\<forall>s s'. m s \<noteq> Some (Inl Panic, s'))"

lemma op_safe_then [safe]: "op_safe m \<Longrightarrow> (\<And>x. op_safe (f x)) \<Longrightarrow> op_safe (op_then m f)"
  by (auto simp: op_safe_def op_then_def split: option.splits prod.splits sum.splits)

lemma op_safe_match [safe]:
  "op_safe m \<Longrightarrow> (\<And>e. op_safe (f e)) \<Longrightarrow> (\<And>x. op_safe (g x)) \<Longrightarrow> op_safe (op_match m f g)"
  by (auto simp: op_safe_def op_match_def split: option.splits prod.splits sum.splits fault.splits)

lemma op_safe_st [safe]: "st_safe m \<Longrightarrow> op_safe (op_st m)"
  by (auto simp: op_safe_def op_st_def st_safe_def) (metis fst_conv)

lemma op_safe_io [safe]: "st_safe m \<Longrightarrow> op_safe (op_io m)"
  unfolding op_io_def by (intro op_safe_st st_safe_map_err)

lemma op_safe_res [safe]: "r \<noteq> Inl Panic \<Longrightarrow> op_safe (op_res r)"
  by (simp add: op_safe_def op_res_def)

lemma op_safe_if [safe]: "op_safe m \<Longrightarrow> op_safe m' \<Longrightarrow> op_safe (if b then m else m')"
  by simp

lemma sdk_fail_safe [simp]: "sdk_fail e \<noteq> Inl Panic" by (simp add: sdk_fail_def)

lemma new_client_safe: "pf_client_error pf = None \<Longrightarrow> new_client pf \<noteq> Inl Panic"
  by (simp add: new_client_def)

lemma text_or_safe [simp]: "text_or what r \<noteq> Inl Panic"
  by (simp add: text_or_def split: sum.split)

lemma send_safe: "st_safe (send pf what req)"
  by (auto simp: st_safe_def send_def split: prod.split sum.split)

lemma os_info_safe: "st_safe (os_info_detect pf)"
  by (auto simp: st_safe_def os_info_detect_def Let_def split: prod.split)

lemma imds_safe:
  "st_safe (imds_get_json pf url)" "st_safe (imds_get_text pf url)" "st_safe (imds_get_region pf)"
  "st_safe (imds_get_vcek_chain pf)" "st_safe (imds_get_td_quote pf report)"
proof -
  show j: "st_safe (imds_get_json pf url)" for url
    unfolding imds_get_json_def by (simp add: safe send_safe status_error_def)
  show t: "st_safe (imds_get_text pf url)" for url
    unfolding imds_get_text_def by (simp add: safe send_safe status_error_def)
  show "st_safe (imds_get_region pf)"
    unfolding imds_get_region_def Let_def by (simp add: safe t)
  show "st_safe (imds_get_vcek_chain pf)"
    unfolding imds_get_vcek_chain_def Let_def by (simp add: safe j)
  have d: "decode_quote_reply pf a b c \<noteq> Inl Panic" for a b c
    by (simp add: decode_quote_reply_def split: option.split sum.split)
  show "st_safe (imds_get_td_quote pf report)"
    unfolding imds_get_td_quote_def fetch_td_quote_http_def Let_def
    by (simp add: safe send_safe d)
qed

lemma fresh_safe:
  assumes "pf_client_error pf = None"
  shows "st_safe (fresh_vcek_chain pf)" "st_safe (fresh_td_quote pf report)"
    "st_safe (vcek_chain_for pf e)" "st_safe (td_quote_for pf ev)"
proof -
  show v: "st_safe (fresh_vcek_chain pf)" and q: "st_safe (fresh_td_quote pf report)" for report
    unfolding fresh_vcek_chain_def fresh_td_quote_def
    by (simp_all add: safe imds_safe new_client_safe [OF assms])
  show "st_safe (vcek_chain_for pf e)" "st_safe (td_quote_for pf ev)"
    unfolding vcek_chain_for_def td_quote_for_def by (simp_all add: safe v q split: option.split)
qed

lemma no_panic_results [simp]:
  "maa_status_error r text \<noteq> Inl Panic" "b64_any pf str \<noteq> Inl Panic"
  "length nonce = 12 \<Longrightarrow> aes_gcm_decrypt pf key nonce aad ct tag \<noteq> Inl Panic" "unsupported_tee_only rtype \<noteq> Inl Panic"
  "check_user_data ud \<noteq> Inl Panic" "get_runtime_claims_raw_bytes report raw \<noteq> Inl Panic"
  by (auto simp: maa_status_error_def b64_any_def aes_gcm_decrypt_def aes_gcm_rustcrypto_def aes_gcm_openssl_def
      aes_gcm_symcrypt_def aes_key_length_error_def Let_def unsupported_tee_only_def
      check_user_data_def get_runtime_claims_raw_bytes_def split: sum.split option.split aead_library.split)

lemma maa_safe:
  "st_safe (maa_attest pf endpoint req)" "st_safe (loopback_attest pf req)"
  "st_safe (submit_tee_only pf payload endpoint t)"
proof -
  show "st_safe (maa_attest pf endpoint req)"
    unfolding maa_attest_def
    by (intro st_safe_then send_safe st_safe_res) (auto simp: and_then_eq_Inl split: option.split)
  show "st_safe (loopback_attest pf req)" unfolding loopback_attest_def Let_def by (simp add: safe)
  show "st_safe (submit_tee_only pf payload endpoint t)"
    unfolding submit_tee_only_def Let_def
    by (intro st_safe_then send_safe st_safe_res) (auto split: option.split)
qed

lemma provider_safe: "st_safe (provider_attest pf impl req)"
  by (cases impl) (simp_all add: maa_safe)

lemma submit_safe:
  assumes "\<And>req. st_safe (ask req)"
  shows "st_safe (submit_to_provider ask sleep req)"
proof -
  have "fst (ask req s) \<noteq> Inl Panic" for s using assms by (simp add: st_safe_def)
  then have "fst (submit_loop ask sleep req n s) \<noteq> Inl Panic" for n s
  proof (induction ask sleep req n s rule: submit_loop.induct)
    case (1 ask sleep req n s)
    have "ask req s \<noteq> (Inl Panic, t)" for t
      using "1.prems" [of s] by auto
    with 1 show ?case
      by (auto simp: submit_loop.simps [of ask sleep req n s] split: prod.splits sum.splits fault.splits)
  qed
  then show ?thesis by (simp add: st_safe_def submit_to_provider_def)
qed

lemma payload_safe:
  assumes "pf_client_error pf = None"
  shows "st_safe (build_tee_only_payload_from_evidence pf ev e)"
  unfolding build_tee_only_payload_from_evidence_def Let_def
  by (cases "ce_report_type ev") (simp_all add: safe fresh_safe [OF assms])

lemma isolation_safe:
  assumes "pf_client_error pf = None"
  shows "st_safe (build_isolation_info pf evidence e)"
  unfolding build_isolation_info_def
  by (cases evidence; simp add: safe; cases "ce_report_type (the evidence)")
    (simp_all add: safe fresh_safe [OF assms])

lemma report_safe:
  assumes "pf_client_error pf = None"
  shows "st_safe (create_attestation_report pf dev cvm e options)"
proof -
  have "st_safe (\<lambda>s. case collect_tcg_logs pf os s of (logs, s') \<Rightarrow> (Inr logs, s'))" for os
    by (auto simp: st_safe_def split: prod.split)
  then show ?thesis
    unfolding create_attestation_report_def Let_def to_json_string_def
    by (intro st_safe_then st_safe_map_err os_info_safe isolation_safe [OF assms] st_safe_res) auto
qed

text \<open>What the client relies on in the platform: a TPM, a generator and HTTP clients that do not panic.\<close>

definition calm :: "'s platform \<Rightarrow> bool" where
  "calm pf \<longleftrightarrow> panic_free_transport (pf_tpm pf) \<and> (\<forall>s. fst (pf_random pf 16 s) \<noteq> Inl Panic) \<and>
     pf_client_error pf = None"

lemma calm_tpm_safe:
  assumes "calm pf"
  shows "st_safe (get_tpm_evidence pf sel)" "st_safe (recreate_ephemeral_key pf pcrs)"
    "st_safe (decrypt_with_ephemeral_key (pf_random pf) (pf_sha256 pf) (pf_tpm pf) h pcrs ct scheme)"
    "st_safe (tpm_flush_context (pf_tpm pf) h)" "st_safe (get_cvm_report_raw (pf_tpm pf) ud)"
proof -
  have free: "panic_free_transport (pf_tpm pf)" and rnd: "\<And>s. fst (pf_random pf 16 s) \<noteq> Inl Panic"
    using assms by (simp_all add: calm_def)
  note ops = panic_free_transport.ensure_ak_safe [OF free] panic_free_transport.ak_cert_safe [OF free]
    panic_free_transport.pcr_evidence_safe [OF free] panic_free_transport.device_ops_safe [OF free]
    panic_free_transport.ephemeral_key_safe [where rnd = "pf_random pf", OF free rnd]
    panic_free_transport.user_data_safe [OF free]
  show "st_safe (get_tpm_evidence pf sel)"
    unfolding get_tpm_evidence_def Let_def get_ak_pub_def
    by (simp add: safe ops os_info_safe split: prod.split option.split)
  show "st_safe (recreate_ephemeral_key pf pcrs)"
    unfolding recreate_ephemeral_key_def by (simp add: safe ops)
  show "st_safe (decrypt_with_ephemeral_key (pf_random pf) (pf_sha256 pf) (pf_tpm pf) h pcrs ct scheme)"
    "st_safe (tpm_flush_context (pf_tpm pf) h)" "st_safe (get_cvm_report_raw (pf_tpm pf) ud)"
    by (rule ops)+
qed

lemma with_ephemeral_key_safe:
  assumes "calm pf" "\<And>h. st_safe (use h)"
  shows "st_safe (with_ephemeral_key pf pcrs use)"
  unfolding with_ephemeral_key_def
  by (intro st_safe_then [OF calm_tpm_safe(2) [OF assms(1)]] st_safe_caught assms(2) st_safe_then
      st_safe_ignore calm_tpm_safe(4) [OF assms(1)] st_safe_res) simp_all

lemma parse_token_safe: "calm pf \<Longrightarrow> st_safe (parse_token pf h pcrs token)"
  unfolding parse_token_def
  by (simp add: safe calm_tpm_safe split: option.split sum.split)

lemma cvm_evidence_safe:
  assumes "calm pf"
  shows "op_safe (get_cvm_evidence pf options)"
proof -
  have c: "pf_client_error pf = None" using assms by (simp add: calm_def)
  have p: "op_safe (op_parse_report pf raw)" for raw
    by (auto simp: op_safe_def op_parse_report_def parse_with_runtime_claims_def and_then_eq_Inl
        split: option.splits if_splits)
  show ?thesis
    unfolding get_cvm_evidence_def Let_def
    by (simp add: safe p calm_tpm_safe [OF assms] fresh_safe [OF c] split: prod.split)
qed


lemma demo_platform_calm: "calm demo_platform"
proof -
  have "fst (demo_cvm cmd s) \<noteq> Inl Panic" for cmd s
    by (simp add: demo_cvm_def nv_device_def Let_def split: option.split)
  then have "panic_free_transport demo_cvm" by unfold_locales
  then show ?thesis by (simp add: calm_def demo_platform_fields demo_random_def)
qed


section \<open>User data and its fallback\<close>

lemma op_then_eq_Inr:
  "op_then m f s = Some (Inr y, t) \<longleftrightarrow> (\<exists>x s'. m s = Some (Inr x, s') \<and> f x s' = Some (Inr y, t))"
  by (auto simp: op_then_def split: option.split prod.split sum.split)

lemma op_res_eq_Inr: "op_res r s = Some (Inr y, t) \<longleftrightarrow> r = Inr y \<and> t = s"
  by (auto simp: op_res_def)

lemma op_st_eq: "op_st m s = Some p \<longleftrightarrow> m s = p"
  by (simp add: op_st_def)

lemma op_io_eq_Inr: "op_io m s = Some (Inr y, t) \<longleftrightarrow> m s = (Inr y, t)"
  by (simp add: op_io_def op_st_eq)

lemmas op_steps = op_then_eq_Inr op_res_eq_Inr op_io_eq_Inr op_st_eq

lemma cvm_evidence_steps:
  assumes "get_cvm_evidence pf (Some \<lparr>co_user_data = Some d, co_fetch_platform_quote = q\<rparr>) s = Some (Inr ev, s')"
  shows "\<exists>raw report claims s2. length d \<le> 64 \<and>
    get_cvm_report_raw (pf_tpm pf) (Some d) s = (Inr raw, s2) \<and>
    parse_with_runtime_claims (pf_claims pf) raw = Some (Inr (report, claims)) \<and>
    get_runtime_claims_raw_bytes report raw = Inr (ce_runtime_data ev) \<and>
    ce_report_type ev = rc_report_type (cr_runtime_claims_header report)"
proof -
  from assms obtain raw p s2 s3 where l: "check_user_data (Some d) = Inr ()"
    and raw: "get_cvm_report_raw (pf_tpm pf) (Some d) s = (Inr raw, s2)"
    and p: "op_parse_report pf raw s2 = Some (Inr p, s3)"
    and rest: "get_runtime_claims_raw_bytes (fst p) raw = Inr (ce_runtime_data ev)"
      "ce_report_type ev = rc_report_type (cr_runtime_claims_header (fst p))"
    unfolding get_cvm_evidence_def Let_def op_then_eq_Inr op_res_eq_Inr op_io_eq_Inr
    by (clarsimp simp: op_steps)
  have "length d \<le> 64" using l by (simp add: check_user_data_def sdk_fail_def split: if_splits)
  moreover have "parse_with_runtime_claims (pf_claims pf) raw = Some (Inr (fst p, snd p))"
    using p by (auto simp: op_parse_report_def)
  ultimately show ?thesis using raw rest by blast
qed

lemma isolation_carries:
  assumes "build_isolation_info pf (Some ev) e s = (Inr info, s')"
  shows "ce_report_type ev \<in> {SnpVmReport, TdxVmReport} \<and> ii_vm_type info \<noteq> Iso_TrustedLaunch \<and>
    (\<exists>ie. ii_evidence info = Some ie \<and> ie_runtime_data ie = ce_runtime_data ev)"
  using assms
  by (cases "ce_report_type ev")
    (auto simp: build_isolation_info_def st_then_eq_Inr with_evidence_def sdk_fail_def)

lemma report_carries:
  assumes "create_attestation_report pf dev cvm e options s = (Inr report, s')"
  shows "\<exists>p s1 s2. rt_json report = pf_json_text pf (parameters_json pf p) \<and> rt_pcrs report = de_pcrs dev \<and>
    ga_tpm_info p = de_tpm_info dev \<and> build_isolation_info pf cvm e s1 = (Inr (ga_isolation p), s2)"
  using assms
  by (fastforce simp: create_attestation_report_def st_then_eq_Inr to_json_string_def Let_def)

lemma submit_keeps_report:
  "submit_report pf provider report s = Some (Inr r, s') \<Longrightarrow>
     ar_request_json r = rt_json report \<and> ar_pcrs r = rt_pcrs report"
  by (auto simp: submit_report_def op_steps Let_def)

lemma attest_guest_binds:
  assumes "attest_guest pf provider (Some opts) s = Some (Inr r, s')" "ao_user_data opts = Some d"
  shows "length d \<le> 64 \<and>
    (\<exists>s1 s2 s3 raw report claims ie p.
       tpm_write_nv_index (pf_tpm pf) NV_INDEX_USER_DATA (d @ replicate (64 - length d) 0) s1 = (Inr (), s2) \<and>
       tpm_read_nv_index (pf_tpm pf) NV_INDEX_CVM_REPORT s2 = (Inr raw, s3) \<and>
       parse_with_runtime_claims (pf_claims pf) raw = Some (Inr (report, claims)) \<and>
       rc_report_type (cr_runtime_claims_header report) \<in> {SnpVmReport, TdxVmReport} \<and>
       get_runtime_claims_raw_bytes report raw = Inr (ie_runtime_data ie) \<and>
       ii_evidence (ga_isolation p) = Some ie \<and> ii_vm_type (ga_isolation p) \<noteq> Iso_TrustedLaunch \<and>
       ar_request_json r = pf_json_text pf (parameters_json pf p))"
proof -
  obtain cvm dev rep t1 t2 t3 where ev: "evidence_or_trusted_launch pf (Some d) s = Some (Inr cvm, t1)"
    and rep: "create_attestation_report pf dev cvm None (Some opts) t2 = (Inr rep, t3)"
    and sub: "submit_report pf provider rep t3 = Some (Inr r, s')"
    using assms by (auto simp: attest_guest_def op_steps)
  from ev obtain e where cvm: "cvm = Some e"
    and e: "get_cvm_evidence pf (Some \<lparr>co_user_data = Some d, co_fetch_platform_quote = False\<rparr>) s = Some (Inr e, t1)"
    by (auto simp: evidence_or_trusted_launch_def op_match_def op_res_def sdk_fail_def
        split: option.splits prod.splits sum.splits fault.splits)
  obtain raw report claims s3 where l: "length d \<le> 64"
    and raw: "get_cvm_report_raw (pf_tpm pf) (Some d) s = (Inr raw, s3)"
    and parsed: "parse_with_runtime_claims (pf_claims pf) raw = Some (Inr (report, claims))"
    "get_runtime_claims_raw_bytes report raw = Inr (ce_runtime_data e)"
    "ce_report_type e = rc_report_type (cr_runtime_claims_header report)"
    using cvm_evidence_steps [OF e] by blast
  obtain s1 s2 where w: "tpm_write_nv_index (pf_tpm pf) NV_INDEX_USER_DATA (d @ replicate (64 - length d) 0) s1 = (Inr (), s2)"
    "tpm_read_nv_index (pf_tpm pf) NV_INDEX_CVM_REPORT s2 = (Inr raw, s3)"
    using raw unfolding report_raw_with_data [OF l] pad_user_data_eq [OF l] by (blast dest: staging_steps)
  obtain p u1 u2 where p: "rt_json rep = pf_json_text pf (parameters_json pf p)"
    and iso: "build_isolation_info pf (Some e) None u1 = (Inr (ga_isolation p), u2)"
    using report_carries [OF rep] cvm by blast
  obtain ie where ie: "ii_evidence (ga_isolation p) = Some ie" "ie_runtime_data ie = ce_runtime_data e"
    using isolation_carries [OF iso] by blast
  show ?thesis
    by (intro conjI l exI [of _ s1] exI [of _ s2] exI [of _ s3] exI [of _ raw] exI [of _ report]
        exI [of _ claims] exI [of _ ie] exI [of _ p] w parsed(1) ie(1))
      (use parsed ie isolation_carries [OF iso] p submit_keeps_report [OF sub] in simp_all)
qed

text \<open>
  C10. If attestation with explicit user data returns at all with a
  result, then the padded data was written to its index, the report was read after that,
  and the request sent carries that report's claims, byte for byte, as evidence of an SNP
  or TDX machine: it never falls back to TrustedLaunch.
\<close>

theorem user_data_bound_or_refused:
  assumes "attest_guest_with_user_data pf provider options d s = Some (Inr r, s')"
  shows "length d \<le> 64 \<and>
    (\<exists>s1 s2 s3 raw report claims ie p.
       tpm_write_nv_index (pf_tpm pf) NV_INDEX_USER_DATA (d @ replicate (64 - length d) 0) s1 = (Inr (), s2) \<and>
       tpm_read_nv_index (pf_tpm pf) NV_INDEX_CVM_REPORT s2 = (Inr raw, s3) \<and>
       parse_with_runtime_claims (pf_claims pf) raw = Some (Inr (report, claims)) \<and>
       rc_report_type (cr_runtime_claims_header report) \<in> {SnpVmReport, TdxVmReport} \<and>
       get_runtime_claims_raw_bytes report raw = Inr (ie_runtime_data ie) \<and>
       ii_evidence (ga_isolation p) = Some ie \<and> ii_vm_type (ga_isolation p) \<noteq> Iso_TrustedLaunch \<and>
       ar_request_json r = pf_json_text pf (parameters_json pf p))"
proof -
  obtain opts where "attest_guest pf provider (Some opts) s = Some (Inr r, s')" "ao_user_data opts = Some d"
    using assms by (auto simp: attest_guest_with_user_data_def Let_def)
  then show ?thesis by (rule attest_guest_binds)
qed

lemma demo_report:
  assumes "\<And>d. ud = Some d \<Longrightarrow> length d \<le> 64"
  shows "\<exists>raw s'. get_cvm_report_raw demo_cvm ud s = (Inr raw, s') \<and>
     parse_with_runtime_claims (\<lambda>_. None) raw = Some (Inr (demo_cvm_report, None)) \<and>
     get_runtime_claims_raw_bytes demo_cvm_report raw = Inr [0x7B, 0x7D] \<and>
     rc_report_type (cr_runtime_claims_header demo_cvm_report) = SnpVmReport"
proof -
  obtain raw where raw: "raw = cvm_report_wire demo_cvm_report @ [0x7B, 0x7D] @ [0, 0 :: u8]"
    by blast
  obtain s' where r: "get_cvm_report_raw demo_cvm ud s = (Inr raw, s')"
    using report_with_user_data [where ud = ud and s = s, OF demo_cvm_vtpm assms] unfolding raw by (auto simp: demo_cvm_get_def)
  have len: "length [0x7B, 0x7D :: u8] = unat (rc_variable_data_size (cr_runtime_claims_header demo_cvm_report))"
    by (simp add: demo_cvm_report_def runtime_claims_header_new_def)
  have p: "parse_with_runtime_claims (\<lambda>_. None) raw = Some (Inr (demo_cvm_report, None))"
    unfolding raw by (subst parse_cvm_report_wire [OF demo_cvm_report_valid len]) simp
  have d: "get_runtime_claims_raw_bytes demo_cvm_report raw = Inr [0x7B, 0x7D]"
    unfolding raw get_runtime_claims_raw_bytes_def
    by (subst runtime_claims_tail_wire [OF demo_cvm_report_valid len])
      (simp add: length_cvm_report_wire [OF demo_cvm_report_valid])
  have "rc_report_type (cr_runtime_claims_header demo_cvm_report) = SnpVmReport"
    by (simp add: demo_cvm_report_def runtime_claims_header_new_def)
  with r p d show ?thesis by blast
qed

lemma demo_evidence:
  assumes "\<And>d. ud = Some d \<Longrightarrow> length d \<le> 64"
  shows "\<exists>ev s'. get_cvm_evidence demo_platform (Some \<lparr>co_user_data = ud, co_fetch_platform_quote = False\<rparr>) s =
     Some (Inr ev, s') \<and> ce_report_type ev = SnpVmReport"
proof -
  obtain raw s' where r: "get_cvm_report_raw demo_cvm ud s = (Inr raw, s')"
    and p: "parse_with_runtime_claims (\<lambda>_. None) raw = Some (Inr (demo_cvm_report, None))"
    and d: "get_runtime_claims_raw_bytes demo_cvm_report raw = Inr [0x7B, 0x7D]"
    and t: "rc_report_type (cr_runtime_claims_header demo_cvm_report) = SnpVmReport"
    using demo_report [OF assms] by blast
  have c: "check_user_data ud = Inr ()"
    using assms by (fastforce simp: check_user_data_def split: option.split)
  show ?thesis
    by (simp add: get_cvm_evidence_def op_then_def op_res_def op_io_def op_st_def st_map_err_def
        op_parse_report_def demo_platform_fields c r p d t Let_def)
qed

lemma demo_decrypt: "decrypt_token demo_platform [] token s = Some (Inr None, s)"
proof -
  obtain ek where "get_ephemeral_key demo_random id demo_cvm [] s = (Inr ek, s)"
    using demo_cvm_ephemeral by blast
  then show ?thesis
    by (simp add: decrypt_token_def op_io_def op_st_def st_map_err_def with_ephemeral_key_def
        recreate_ephemeral_key_def demo_platform_fields st_then_def st_catch_def st_ignore_def parse_token_def
        read_envelope_def base64_url_decode_def demo_cvm_keys)
qed

text \<open>A whole attestation on the simulated machine, with or without user data.\<close>

definition demo_options :: "bytes option \<Rightarrow> attest_options" where
  "demo_options ud = \<lparr>ao_client_payload = None, ao_pcr_selection = Some [], ao_user_data = ud\<rparr>"

lemma demo_attest:
  assumes "\<And>d. ud = Some d \<Longrightarrow> length d \<le> 64"
  shows "\<exists>r s'. attest_guest demo_platform Loopback (Some (demo_options ud)) s = Some (Inr r, s')"
proof -
  obtain ev t where e: "get_cvm_evidence demo_platform (Some \<lparr>co_user_data = ud, co_fetch_platform_quote = False\<rparr>) s =
      Some (Inr ev, t)" "ce_report_type ev = SnpVmReport"
    using demo_evidence [OF assms] by blast
  obtain dev where dev: "get_tpm_evidence demo_platform (Some []) t = (Inr dev, t)" "de_pcrs dev = []"
    using demo_platform_evidence by blast
  have "\<exists>rep. create_attestation_report demo_platform dev (Some ev) None (Some (demo_options ud)) t = (Inr rep, t) \<and> rt_pcrs rep = []"
    using e(2) dev(2)
    by (simp add: create_attestation_report_def st_then_def st_map_err_def os_info_detect_def demo_platform_fields
        collect_tcg_logs_def build_isolation_info_def vcek_chain_for_def fresh_vcek_chain_def new_client_def
        imds_get_vcek_chain_def imds_get_json_def send_def is_success_def text_or_def get_str_def
        to_json_string_def demo_options_def Let_def)
  then obtain rep where rep: "create_attestation_report demo_platform dev (Some ev) None (Some (demo_options ud)) t = (Inr rep, t)"
    "rt_pcrs rep = []" by blast
  have "\<exists>r. submit_report demo_platform Loopback rep t = Some (Inr r, t)"
    using rep(2) demo_decrypt
    by (simp add: submit_report_def op_then_def op_res_def op_io_def op_st_def st_map_err_def
        submit_to_provider_def submit_loop.simps [of _ _ _ 0] loopback_attest_def Let_def)
  then obtain r where "submit_report demo_platform Loopback rep t = Some (Inr r, t)" by blast
  then show ?thesis
    using e(1) dev(1) rep(1)
    by (simp add: attest_guest_def evidence_or_trusted_launch_def op_match_def demo_options_def
        op_then_def op_res_def op_io_def op_st_def st_map_err_def get_device_evidence_def Let_def)
qed

theorem user_data_bound_or_refused_witness:
  "\<exists>r s' s1 s2. attest_guest_with_user_data demo_platform Loopback (Some (demo_options None)) [7] ([], []) = Some (Inr r, s') \<and>
     tpm_write_nv_index demo_cvm NV_INDEX_USER_DATA (7 # replicate 63 0) s1 = (Inr (), s2)"
proof -
  have "attest_guest_with_user_data demo_platform Loopback (Some (demo_options None)) [7] =
      attest_guest demo_platform Loopback (Some (demo_options (Some [7])))"
    by (simp add: attest_guest_with_user_data_def demo_options_def)
  then obtain r t where a: "attest_guest_with_user_data demo_platform Loopback (Some (demo_options None)) [7] ([], []) = Some (Inr r, t)"
    using demo_attest [of "Some [7]" "([], [])"] by auto
  have pad: "[7] @ replicate (64 - length [7 :: u8]) 0 = (7 :: u8) # replicate 63 0" by simp
  have tpm: "pf_tpm demo_platform = demo_cvm" by (simp add: demo_platform_fields)
  show ?thesis
    using user_data_bound_or_refused [OF a, unfolded pad tpm] a by blast
qed

end
