(* ===== verification/Attest_Tool_Facts.thy ===== *)
theory Attest_Tool_Facts
  imports Attest_Tool_Main Attest_Text_Facts Attest_Client_Facts Tpm_Pcr_Facts
begin

text \<open>
  What the subcommands guarantee: attestation with user data never sends a report that was made without
  it, and the exit code tells whether a token came back; the verification of an event log prints,
  for each PCR, whether the TPM holds what the log leads to.
\<close>

section \<open>Successful steps\<close>

lemma cmd_then_eq_Inr:
  "cmd_then m f st = Some (Inr y, t) \<longleftrightarrow> (\<exists>x u. m st = Some (Inr x, u) \<and> f x u = Some (Inr y, t))"
  by (auto simp: cmd_then_def split: option.splits prod.splits sum.splits)

lemma cmd_res_eq_Inr: "cmd_res r st = Some (Inr y, t) \<longleftrightarrow> r = Inr y \<and> t = st"
  by (auto simp: cmd_res_def)

lemma cmd_op_eq_Inr: "cmd_op m (s, out) = Some (Inr y, t) \<longleftrightarrow> (\<exists>s'. m s = Some (Inr y, s') \<and> t = (s', out))"
  by (auto simp: cmd_op_def)

lemma cmd_map_err_eq_Inr: "cmd_map_err f m st = Some (Inr y, t) \<longleftrightarrow> m st = Some (Inr y, t)"
  by (cases t) (auto simp: cmd_map_err_def)

lemma cmd_option_eq: "cmd_option x st = Some (Inr y, t) \<longleftrightarrow> x = Some y \<and> t = st"
  by (cases x) auto

lemma with_tpm_eq_Inr:
  "with_tpm env k (s, out) = Some (Inr y, t) \<longleftrightarrow> (\<exists>s'. cv_open env s = (Inr (), s') \<and> k (s', out) = Some (Inr y, t))"
  by (auto simp: with_tpm_def cmd_match_def cmd_st_def cmd_op_def fail_with_def cmd_res_def cli_fail_def
      split: prod.splits sum.splits fault.splits)

lemma cmd_put_eq_Inr: "cmd_put m (s, out) = Some (Inr y, t) \<longleftrightarrow> (\<exists>out'. m out = (Inr y, out') \<and> t = (s, out'))"
  by (auto simp: cmd_put_def split: prod.splits)

lemmas cmd_steps =
  cmd_then_eq_Inr cmd_res_eq_Inr cmd_op_eq_Inr cmd_map_err_eq_Inr cmd_option_eq with_tpm_eq_Inr cmd_put_eq_Inr

section \<open>Platform attestation\<close>

lemma payload_steps:
  assumes "build_tee_only_payload pf (Some d) s = Some (Inr (payload, rtype), s')" "length d \<le> 64"
  shows "\<exists>s1 s2 s3 raw report claims field evidence runtime_data.
     tpm_write_nv_index (pf_tpm pf) NV_INDEX_USER_DATA (d @ replicate (64 - length d) 0) s1 = (Inr (), s2) \<and>
     tpm_read_nv_index (pf_tpm pf) NV_INDEX_CVM_REPORT s2 = (Inr raw, s3) \<and>
     parse_with_runtime_claims (pf_claims pf) raw = Some (Inr (report, claims)) \<and>
     rc_report_type (cr_runtime_claims_header report) \<in> {SnpVmReport, TdxVmReport} \<and>
     get_runtime_claims_raw_bytes report raw = Inr runtime_data \<and>
     payload = pf_json_text pf (tee_only_json pf field evidence runtime_data)"
proof -
  obtain raw s3 where raw: "get_cvm_report_raw (pf_tpm pf) (Some d) s = (Inr raw, s3)"
    using assms(1) by (auto simp: build_tee_only_payload_def split: prod.splits sum.splits)
  then obtain parsed where "parse_with_runtime_claims (pf_claims pf) raw = Some parsed"
    using assms(1) by (auto simp: build_tee_only_payload_def split: option.splits)
  with raw assms(1) obtain report claims runtime_data field evidence where
    "parse_with_runtime_claims (pf_claims pf) raw = Some (Inr (report, claims))"
    "get_runtime_claims_raw_bytes report raw = Inr runtime_data"
    "rc_report_type (cr_runtime_claims_header report) \<in> {SnpVmReport, TdxVmReport}"
    "payload = pf_json_text pf (tee_only_json pf field evidence runtime_data)"
    by (auto simp: build_tee_only_payload_def st_then_def Let_def unsupported_tee_only_def
        split: sum.splits prod.splits cvm_report_type.splits)
  moreover obtain s1 s2 where "tpm_write_nv_index (pf_tpm pf) NV_INDEX_USER_DATA (d @ replicate (64 - length d) 0) s1 = (Inr (), s2)"
    "tpm_read_nv_index (pf_tpm pf) NV_INDEX_CVM_REPORT s2 = (Inr raw, s3)"
    using raw unfolding report_raw_with_data [OF assms(2)] pad_user_data_eq [OF assms(2)] by (blast dest: staging_steps)
  ultimately show ?thesis by blast
qed

lemma tee_only_attest_steps:
  assumes "tee_only_attest_platform pf endpoint force ud s = Some (Inr (token, payload), s')"
  shows "\<exists>rtype t. build_tee_only_payload pf ud s = Some (Inr (payload, rtype), t)"
proof -
  from assms obtain r t where "build_tee_only_payload pf ud s = Some (r, t)"
    by (auto simp: tee_only_attest_platform_def)
  with assms show ?thesis
    by (cases r) (auto simp: tee_only_attest_platform_def st_then_def split: sum.splits prod.splits)
qed

text \<open>
  C17. A run of \<open>tee-attest\<close> with user data that ends regularly has written the padded data to
  its index before it read the report, and sent the claims of that very report; it exits with 0 exactly when the
  answer holds the claims of a token, otherwise with 2.
\<close>

theorem tee_attest_binds_user_data:
  assumes "cli_main env (TeeAttest args) (s, out) = Some (Inr code, st')"
    and "parse_user_data_variable (te_user_data args) = Inr d" "d \<noteq> []" "pf = cv_platform env"
  shows "\<exists>s1 s2 s3 raw report claims field evidence runtime_data endpoint force t1 t2 answer found.
     tpm_write_nv_index (pf_tpm pf) NV_INDEX_USER_DATA (d @ replicate (64 - length d) 0) s1 = (Inr (), s2) \<and>
     tpm_read_nv_index (pf_tpm pf) NV_INDEX_CVM_REPORT s2 = (Inr raw, s3) \<and>
     parse_with_runtime_claims (pf_claims pf) raw = Some (Inr (report, claims)) \<and>
     rc_report_type (cr_runtime_claims_header report) \<in> {SnpVmReport, TdxVmReport} \<and>
     get_runtime_claims_raw_bytes report raw = Inr runtime_data \<and>
     tee_only_attest_platform pf endpoint force (Some d) t1 =
       Some (Inr (answer, pf_json_text pf (tee_only_json pf field evidence runtime_data)), t2) \<and>
     jwt_payload_value pf answer = Some found \<and> code = (if found = None then 2 else 0)"
proof -
  obtain endpoint force t1 t2 answer payload found where
    ask: "tee_only_attest_platform pf endpoint force (Some d) t1 = Some (Inr (answer, payload), t2)"
    and found: "jwt_payload_value pf answer = Some found" "code = (if found = None then 2 else 0)"
    using assms by (fastforce simp: cli_main_def try_io_def cmd_st_def tee_attest_command_def cmd_steps done_with_def Let_def)
  from tee_only_attest_steps [OF ask] obtain rtype t where
    "build_tee_only_payload pf (Some d) t1 = Some (Inr (payload, rtype), t)" by blast
  moreover have "length d \<le> 64" using assms(2) by (rule user_data_length)
  ultimately obtain s1 s2 s3 raw report claims field evidence runtime_data where
    "tpm_write_nv_index (pf_tpm pf) NV_INDEX_USER_DATA (d @ replicate (64 - length d) 0) s1 = (Inr (), s2)"
    "tpm_read_nv_index (pf_tpm pf) NV_INDEX_CVM_REPORT s2 = (Inr raw, s3)"
    "parse_with_runtime_claims (pf_claims pf) raw = Some (Inr (report, claims))"
    "rc_report_type (cr_runtime_claims_header report) \<in> {SnpVmReport, TdxVmReport}"
    "get_runtime_claims_raw_bytes report raw = Inr runtime_data"
    and p: "payload = pf_json_text pf (tee_only_json pf field evidence runtime_data)"
    using payload_steps by metis
  with ask [unfolded p] found show ?thesis by blast
qed

text \<open>The tool on the simulated machine.\<close>

definition demo_cli :: "(bytes \<times> bytes) cli_env" where
  "demo_cli =
     \<lparr>cv_platform = demo_platform, cv_open = (\<lambda>s. (Inr (), s)), cv_create_out = (\<lambda>s. (Inr (), s)), cv_out_file = False,
      cv_terminal = False, cv_hex = (\<lambda>d. concat (map fmt_02x d)), cv_hex_decode = (\<lambda>_. Inl ''no''),
      cv_json_pretty = (\<lambda>_. ''{}''), cv_claims_pretty = (\<lambda>_. ''{}''), cv_cert_summary = None,
      cv_read_file = (\<lambda>_ s. (Inr [], s)), cv_write_file = (\<lambda>_ _ s. (Inr (), s)),
      cv_logs = \<lparr>fs_metadata = (\<lambda>_. Inr Is_File), fs_read_dir = (\<lambda>_. Inr []), fs_read = (\<lambda>_. Inr [])\<rparr>,
      cv_hash = \<lparr>hf_sha1 = id, hf_sha256 = id, hf_sha384 = id\<rparr>, cv_event_json = (\<lambda>_. Inl ''no''),
      cv_lowercase = (\<lambda>c. [c]), cv_checks = True, cv_frames = 0\<rparr>"

definition demo_tee_args :: tee_attest_args where
  "demo_tee_args =
     \<lparr>te_endpoint = Some ''https://host'', te_user_data = ascii_str ''hi'', te_decode = False, te_force_snp = False,
      te_force_tdx = False, te_show_request = False, te_json = False\<rparr>"

theorem tee_attest_binds_user_data_witness:
  "\<exists>code st' s1 s2. cli_main demo_cli (TeeAttest demo_tee_args) (([], []), []) = Some (Inr code, st') \<and>
     tpm_write_nv_index demo_cvm NV_INDEX_USER_DATA (ascii_bytes ''hi'' @ replicate 62 0) s1 = (Inr (), s2)"
proof -
  have d: "parse_user_data_variable (te_user_data demo_tee_args) = Inr (ascii_bytes ''hi'')"
  proof -
    have "parse_user_data_variable (ascii_str ''hi'') = Inr (ascii_bytes ''hi'')" by code_simp
    then show ?thesis by (simp add: demo_tee_args_def)
  qed
  obtain raw s' where r: "get_cvm_report_raw demo_cvm (Some (ascii_bytes ''hi'')) ([], []) = (Inr raw, s')"
    and p: "parse_with_runtime_claims (\<lambda>_. None) raw = Some (Inr (demo_cvm_report, None))"
    and c: "get_runtime_claims_raw_bytes demo_cvm_report raw = Inr [0x7B, 0x7D]"
    and t: "rc_report_type (cr_runtime_claims_header demo_cvm_report) = SnpVmReport"
    using demo_report [of "Some (ascii_bytes ''hi'')" "([], [])"] by auto
  have len: "SNP_VM_REPORT_SIZE \<le> length (cr_tee_report demo_cvm_report)"
    by (simp add: demo_cvm_report_def SNP_VM_REPORT_SIZE_def ATTESTATION_REPORT_SIZE_MAX_def)
  have build: "\<exists>payload. build_tee_only_payload demo_platform (Some (ascii_bytes ''hi'')) ([], []) = Some (Inr (payload, SnpVmReport), s')"
    using len by (simp add: build_tee_only_payload_def demo_platform_fields r p c t st_then_def fresh_vcek_chain_def
        new_client_def imds_get_vcek_chain_def imds_get_json_def send_def is_success_def text_or_def get_str_def Let_def)
  have "\<exists>token payload. tee_only_attest_platform demo_platform ''https://host'' None (Some (ascii_bytes ''hi'')) ([], []) =
      Some (Inr (token, payload), s')"
    using build by (cases s') (auto simp: tee_only_attest_platform_def st_then_def submit_tee_only_def send_def demo_platform_fields
        is_success_def text_or_default_def Let_def)
  then obtain token payload where a: "tee_only_attest_platform demo_platform ''https://host'' None (Some (ascii_bytes ''hi'')) ([], []) =
      Some (Inr (token, payload), s')" by blast
  have j: "jwt_payload_value demo_platform token = Some None"
    by (subst jwt_payload_value.simps)
      (simp add: jwt_claims_def envelope_json_def base64_url_decode_vec_def cli_fail_def demo_platform_fields)
  have "\<exists>code st'. cli_main demo_cli (TeeAttest demo_tee_args) (([], []), []) = Some (Inr code, st')"
    using a j d
    by (simp add: cli_main_def try_io_def tee_attest_command_def with_tpm_def cmd_st_def cmd_op_def cmd_map_err_def
        cmd_then_def cmd_match_def cmd_res_def choose_endpoint_def tee_attest_report_def put_line_def put_def cmd_put_def
        st_then_def done_with_def demo_tee_args_def demo_cli_def Let_def ascii_bytes_def)
  then obtain code st' where run: "cli_main demo_cli (TeeAttest demo_tee_args) (([], []), []) = Some (Inr code, st')" by blast
  have ne: "ascii_bytes ''hi'' \<noteq> []" and pf: "demo_platform = cv_platform demo_cli" and tpm: "pf_tpm demo_platform = demo_cvm"
    and pad: "64 - length (ascii_bytes ''hi'') = 62"
    by (simp_all add: ascii_bytes_def demo_cli_def demo_platform_fields)
  from tee_attest_binds_user_data [OF run d ne pf, unfolded tpm pad] run show ?thesis by blast
qed

section \<open>Event logs\<close>

text \<open>Printing that always succeeds and only appends.\<close>

definition appends :: "unit printing \<Rightarrow> bool" where
  "appends m \<longleftrightarrow> (\<exists>t. \<forall>out. m out = (Inr (), out @ t))"

named_theorems printing "printing steps that only append"

lemma appends_line [printing]: "appends (put_line t)"
  by (auto simp: appends_def put_line_def put_def)

lemma appends_nothing [printing]: "appends (st_res (Inr ()))"
  by (auto simp: appends_def)

lemma appends_then [printing]: "appends m \<Longrightarrow> appends (f ()) \<Longrightarrow> appends (st_then m f)"
  unfolding appends_def st_then_def by fastforce

lemma appends_if [printing]: "appends m \<Longrightarrow> appends m' \<Longrightarrow> appends (if b then m else m')"
  by simp

lemma appends_each [printing]: "(\<And>x. appends (f x)) \<Longrightarrow> appends (put_each f xs)"
  by (induction xs) (auto intro!: printing)

lemma appends_put: "appends m \<Longrightarrow> \<exists>t. \<forall>s out. cmd_put m (s, out) = Some (Inr (), (s, out @ t))"
  unfolding appends_def cmd_put_def by auto

lemma event_printing [printing]:
  "appends (write_spec_overview hex spec)" "appends (write_event_entry hex e)" "appends (put_text_log p)"
  "appends (put_sources logs)" "appends (put_log_events env fs n q)" "appends (put_events env fs ls)"
  "appends (put_replayed env fs alg es)"
proof -
  have e: "appends (write_event_entry hex e)" for hex e
    by (auto simp: write_event_entry_def Let_def intro!: printing)
  have x: "appends (put_text_log p)" for p
    by (cases p) (auto simp: put_text_log_def Let_def intro!: printing)
  have l: "appends (put_log_events env fs n q)" for n q
    by (cases q) (auto simp: put_log_events_def Let_def intro!: printing e)
  show "appends (write_event_entry hex e)" "appends (put_text_log p)" "appends (put_log_events env fs n q)"
    by (fact e x l)+
  show "appends (write_spec_overview hex spec)" by (auto simp: write_spec_overview_def intro!: printing)
  show "appends (put_sources logs)" by (auto simp: put_sources_def split_beta intro!: printing x)
  show "appends (put_events env fs ls)" by (auto simp: put_events_def Let_def intro!: printing l)
  show "appends (put_replayed env fs alg es)" by (auto simp: put_replayed_def split_beta intro!: printing)
qed

lemma put_lines: "put_each (\<lambda>x. put_line (f x)) xs out = (Inr (), out @ concat (map (\<lambda>x. writeln (f x)) xs))"
  by (induction xs arbitrary: out) (simp_all add: put_line_def put_def st_then_def)

lemma find_spec_total: "\<exists>spec. find_spec es = Inr spec"
proof (induction es)
  case (Cons e es)
  have "\<exists>r. try_parse_spec_id_event d = Inr r" for d
    using try_spec_id_no_panic [of d]
    by (auto simp: try_parse_spec_id_event_def split: sum.splits fault.splits)
  then obtain r where "try_parse_spec_id_event (ev_event_data e) = Inr r" by blast
  with Cons show ?case by (auto split: option.split)
qed simp

lemma filter_pcrs_result:
  "\<forall>p \<in> set pcrs. p \<le> 23 \<Longrightarrow> distinct acc \<Longrightarrow>
     \<exists>r. filter_pcrs acc pcrs = Inr r \<and> distinct r \<and> set r = set acc \<union> set pcrs"
proof (induction acc pcrs rule: filter_pcrs.induct)
  case (2 acc idx rest)
  then have "\<not> 23 < idx" by (simp add: not_less)
  with 2 show ?case by (auto simp: insert_absorb)
qed simp

text \<open>What the log leads to in a PCR: the replay, or the initial zeros.\<close>

definition leads_to :: "'s cli_env \<Rightarrow> event list \<Rightarrow> pcr_algorithm \<Rightarrow> u32 \<Rightarrow> bytes" where
  "leads_to env events alg p =
     (case replay_pcrs (cv_hash env) events alg p of Some d \<Rightarrow> d | None \<Rightarrow> zero_digest alg)"

lemma replay_filter_value:
  "p \<in> set keep \<Longrightarrow> replay_with_filter env (Some keep) events alg p = Some (leads_to env events alg p)"
proof -
  have f: "foldl (\<lambda>m i. if m i = None then m(i \<mapsto> zero_digest alg) else m) m keep p =
      (case m p of Some d \<Rightarrow> Some d | None \<Rightarrow> if p \<in> set keep then Some (zero_digest alg) else None)" for m keep
    by (induction keep arbitrary: m) (auto split: option.splits)
  assume "p \<in> set keep"
  then show ?thesis by (simp add: replay_with_filter_def f leads_to_def Let_def split: option.split)
qed

text \<open>
  C18. For a log that can be parsed and any selection of PCRs up to 23, the verification ends with one
  line for each selected PCR in ascending order, which says \<open>OK\<close> exactly when the TPM's bank holds what the log leads
  to, and \<open>MISMATCH\<close> otherwise, with both values.
\<close>

theorem event_log_verified:
  fixes env :: "'s cli_env"
  assumes "pcr_service (tpm_of env) alg bank" "\<And>s. cv_open env s = (Inr (), s)"
    and "fs_read (cv_logs env) path = Inr raw"
    and "parse_event_log (cv_event_json env) (cv_hex_decode env) raw = Inr events"
    and "pcrs \<noteq> []" "\<forall>p \<in> set pcrs. p \<le> 23"
  shows "\<exists>s' shown. event_log_command env (Some path) pcrs (pcr_algorithm_display alg) True (s, out) =
    Some (Inr 0, (s', out @ shown @ writeln (''Verification ('' @ pcr_algorithm_display alg @ ''):'') @
      concat (map (\<lambda>p. writeln (''  PCR['' @ fmt_dec (unat p) @ '']'' @
        (if bank p = leads_to env events alg p then '' OK'' else '' MISMATCH'') @ '' expected '' @
        cv_hex env (leads_to env events alg p) @ '' actual '' @ cv_hex env (bank p))) (sorted_list_of_set (set pcrs)))))"
proof -
  obtain keep where f: "filter_pcrs [] pcrs = Inr keep" "distinct keep" "set keep = set pcrs"
    using filter_pcrs_result [OF assms(6), of "[]"] by auto
  have keep: "sort keep = sorted_list_of_set (set pcrs)"
    using f(2) by (simp add: sorted_list_of_set_sort_remdups distinct_remdups_id flip: f(3))
  have "keep \<noteq> []" using f(3) assms(5) by auto
  let ?keep = "sorted_list_of_set (set pcrs)"
  have alg: "parse_algorithm_flag (pcr_algorithm_display alg) = Inr alg"
    by (simp add: parse_algorithm_flag_def pcr_algorithm_from_str_display)
  let ?logs = "\<lparr>sl_parsed = [(path, events)], sl_text = [], sl_skipped = []\<rparr>"
  let ?replayed = "replay_with_filter env (Some ?keep) events alg"
  let ?entries = "btree_entries (?keep @ map ev_pcr_index events) ?replayed"
  obtain spec where spec: "find_spec events = Inr spec" using find_spec_total by blast
  obtain t1 where t1: "cmd_put (put_sources ?logs) (s, out) = Some (Inr (), (s, out @ t1))" for s :: 's and out
    using appends_put [OF event_printing(4)] by metis
  obtain t2 where t2: "(case spec of Some s \<Rightarrow> cmd_put (write_spec_overview (cv_hex env) s) | None \<Rightarrow> cmd_res (Inr ())) (s, out) =
      Some (Inr (), (s, out @ t2))" for s :: 's and out
  proof (cases spec)
    case None
    then show ?thesis using that [of "[]"] by (simp add: cmd_res_def)
  next
    case (Some sp)
    then show ?thesis using appends_put [OF event_printing(1), of "cv_hex env" sp] that by auto
  qed
  obtain t3 where t3: "cmd_put (put_events env (Some ?keep) [(path, events)]) (s, out) = Some (Inr (), (s, out @ t3))" for s :: 's and out
    using appends_put [OF event_printing(6)] by metis
  obtain t4 where t4: "cmd_put (put_replayed env (Some ?keep) alg ?entries) (s, out) = Some (Inr (), (s, out @ t4))" for s :: 's and out
    using appends_put [OF event_printing(7)] by metis
  have "list_all (\<lambda>p. p \<le> 23) ?keep" using assms(6) by (simp add: list_all_iff)
  then obtain s' where read: "tpm_read_pcrs_for_alg (tpm_of env) alg ?keep s = (Inr (map (\<lambda>p. (p, bank p)) ?keep), s')"
    using service_reads [OF assms(1)] by blast
  have live: "map_of (rev (map (\<lambda>p. (p, bank p)) ?keep)) p = Some (bank p)" if "p \<in> set pcrs" for p
    using that by (simp add: rev_map map_of_map_restrict)
  have "?keep \<noteq> []" using assms(5) by simp
  have lines: "concat (map (\<lambda>p. writeln (verdict_line env p (expected_digest alg ?replayed p)
        (map_of (rev (map (\<lambda>p. (p, bank p)) ?keep)) p))) ?keep) =
      concat (map (\<lambda>p. writeln (''  PCR['' @ fmt_dec (unat p) @ '']'' @
        (if bank p = leads_to env events alg p then '' OK'' else '' MISMATCH'') @ '' expected '' @
        cv_hex env (leads_to env events alg p) @ '' actual '' @ cv_hex env (bank p))) ?keep)"
    using live by (intro arg_cong [of _ _ concat] map_cong)
      (simp_all add: verdict_line_def pcr_verdict_def expected_digest_def replay_filter_value)
  have load: "load_logs env (Some path) = Inr [(raw, path)]" using assms(3) by (simp add: load_logs_def)
  have run: "event_log_command env (Some path) pcrs (pcr_algorithm_display alg) True (s, out) =
      verify_pcrs env alg ?replayed ?keep (s, out @ t1 @ t2 @ t3 @ t4)"
    using \<open>keep \<noteq> []\<close>
    by (simp add: event_log_command_def cmd_then_def cmd_res_def alg validate_pcr_filter_def f(1) load assms(4) keep
        spec t1 t2 t3 t4 Let_def)
  show ?thesis
    using \<open>?keep \<noteq> []\<close> read
    by (simp add: run verify_pcrs_def with_tpm_def cmd_match_def cmd_st_def cmd_op_def assms(2) cmd_then_def cmd_line_def
        cmd_put_def put_line_def put_lines [unfolded put_line_def] put_def done_with_def cmd_res_def lines Let_def)
qed

text \<open>A log of a Spec ID event alone.\<close>

definition demo_log :: bytes where
  "demo_log = event1_wire demo_spec_event"

lemma demo_log_parses: "parse_event_log j h demo_log = Inr [demo_spec_event]"
proof -
  have "parse_event1_entry demo_log 0 = Inr (demo_spec_event, length demo_log)"
    unfolding demo_log_def using event1_codec.codec_front [OF demo_log_valid(1), of "[]"] by simp
  moreover have "try_parse_spec_id_event (ev_event_data demo_spec_event) = Inr (Some demo_spec)"
    using spec_id_round_trip [OF demo_log_valid(2)] by (simp add: try_parse_spec_id_event_def demo_spec_event_def)
  ultimately show ?thesis
    using demo_log_valid(3)
    by (simp add: parse_event_log_def parse_event_log_with_event1_spec_def parse_event2_entries_from.simps)
qed

definition demo_verifier :: "nat cli_env" where
  "demo_verifier =
     \<lparr>cv_platform = sample_platform (pcr_device Pcr_Sha256 demo_bank), cv_open = (\<lambda>s. (Inr (), s)),
      cv_create_out = (\<lambda>s. (Inr (), s)), cv_out_file = False,
      cv_terminal = False, cv_hex = (\<lambda>d. concat (map fmt_02x d)), cv_hex_decode = (\<lambda>_. Inl ''no''),
      cv_json_pretty = (\<lambda>_. ''{}''), cv_claims_pretty = (\<lambda>_. ''{}''), cv_cert_summary = None,
      cv_read_file = (\<lambda>_ s. (Inr [], s)), cv_write_file = (\<lambda>_ _ s. (Inr (), s)),
      cv_logs = \<lparr>fs_metadata = (\<lambda>_. Inr Is_File), fs_read_dir = (\<lambda>_. Inr []), fs_read = (\<lambda>_. Inr demo_log)\<rparr>,
      cv_hash = \<lparr>hf_sha1 = id, hf_sha256 = id, hf_sha384 = id\<rparr>, cv_event_json = (\<lambda>_. Inl ''no''),
      cv_lowercase = (\<lambda>c. [c]), cv_checks = True, cv_frames = 0\<rparr>"

theorem event_log_verified_witness:
  "\<exists>s' shown. event_log_command demo_verifier (Some ''log'') [7] (pcr_algorithm_display Pcr_Sha256) True (0, []) =
       Some (Inr 0, (s', shown @ writeln (''Verification ('' @ pcr_algorithm_display Pcr_Sha256 @ ''):'') @
         writeln (''  PCR['' @ fmt_dec 7 @ '']'' @
           (if demo_bank 7 = leads_to demo_verifier [demo_spec_event] Pcr_Sha256 7 then '' OK'' else '' MISMATCH'') @ '' expected '' @
           cv_hex demo_verifier (leads_to demo_verifier [demo_spec_event] Pcr_Sha256 7) @ '' actual '' @
           cv_hex demo_verifier (demo_bank 7))))"
proof -
  have tpm: "pcr_service (tpm_of demo_verifier) Pcr_Sha256 demo_bank"
    using demo_bank_service by (simp add: demo_verifier_def tpm_of_def sample_platform_def)
  have open_ok: "cv_open demo_verifier s = (Inr (), s)" for s by (simp add: demo_verifier_def)
  have reads: "fs_read (cv_logs demo_verifier) ''log'' = Inr demo_log" by (simp add: demo_verifier_def)
  show ?thesis
    using event_log_verified [OF tpm open_ok reads demo_log_parses, of "[7]" 0 "[]"] by simp
qed

end
