(* ===== verification/Web_Facts.thy ===== *)
theory Web_Facts
  imports Web_Server Attest_Tool_Facts
begin

text \<open>
  What the web front end guarantees, and what it does not: which PCRs its comparison covers, that a report shown for user
  data was made with it, that the published index and the routes agree, and which certificate a restarted server uses.
\<close>

section \<open>The index and the routes\<close>

text \<open>
  The index the server publishes at \<open>/api\<close> lists exactly its routes below \<open>/api/\<close>, each with the
  method it is registered for and once and in their order, apart from the index itself and the page of its documentation.
\<close>

lemma index_matches_routes:
  "distinct web_routes \<and>
   map (\<lambda>e. (ix_path e, ix_method e)) index_endpoints =
     filter (\<lambda>r. take 5 (fst r) = ''/api/'' \<and> fst r \<noteq> ''/api/docs'') web_routes"
  by code_simp

text \<open>The names of event types on this interface are not those of the library.\<close>

lemma event_names_differ:
  "event_type_name 0x8000000A = ''EV_EFI_PLATFORM_FIRMWARE_BLOB2'' \<and>
   event_type_description 0x8000000A = Some ''EV_EFI_VARIABLE_AUTHORITY'' \<and>
   event_type_name 0x80000010 = ''EV_EFI_VARIABLE_AUTHORITY'' \<and> event_type_description 0x80000010 = None"
  by (simp add: event_type_name_def event_type_description_def)

section \<open>Certificates\<close>

lemma shown_sans: "san_display bind_host sans = certificate_sans bind_host sans"
proof -
  have "(\<lambda>shown san. if list_ex (\<lambda>s. s = san) shown then shown else shown @ [san]) = add_san"
    by (auto simp: fun_eq_iff add_san_def list_ex_iff)
  then show ?thesis by (simp add: san_display_def certificate_sans_def Let_def)
qed

text \<open>Files that keep what is written to them, and nothing else.\<close>

definition keeps_files :: "('s, 'cfg) tls_env \<Rightarrow> bool" where
  "keeps_files env \<longleftrightarrow>
     (\<forall>p s. snd (tl_read env p s) = s) \<and>
     (\<forall>p t s s'. tl_write env p t s = (Inr (), s') \<longrightarrow>
        tl_exists env p s' \<and> fst (tl_read env p s') = Inr t \<and>
        (\<forall>q. q \<noteq> p \<longrightarrow> tl_exists env q s' = tl_exists env q s \<and> fst (tl_read env q s') = fst (tl_read env q s)))"

lemma file_step_eq_Inr: "file_step what m s = (Inr x, s') \<longleftrightarrow> m s = (Inr x, s')"
  by (auto simp: file_step_def split: prod.splits sum.splits)

lemma generate_eq_Inr:
  "generate_self_signed_config env host sans s = (Inr (c, k, cfg), s') \<longleftrightarrow>
     tl_self_signed env (certificate_sans host sans) s = (Inr (c, k), s') \<and> build_tls_config_from_pem env c k = Inr cfg"
  by (auto simp: generate_self_signed_config_def and_then_eq_Inr split: prod.splits sum.splits)

text \<open>
  C21. A server that has generated and saved a self-signed certificate finds it again: started anew with the
  same directory, over files that keep what is written to them, it uses the same configuration and writes nothing, whatever
  address it is bound to and whatever additional names are asked for then.
\<close>

theorem self_signed_kept:
  assumes "keeps_files env" "tl_join env dir ''cert.pem'' \<noteq> tl_join env dir ''key.pem''"
    and "load_or_generate_self_signed env dir host sans s = (Inr (cfg, False), s')"
  shows "load_or_generate_self_signed env dir host' sans' s' = (Inr (cfg, True), s')"
proof -
  let ?c = "tl_join env dir ''cert.pem''" and ?k = "tl_join env dir ''key.pem''"
  have "\<not> (tl_exists env ?c s \<and> tl_exists env ?k s)"
    using assms(3) by (auto simp: load_or_generate_self_signed_def Let_def st_then_eq_Inr)
  with assms(3) have "st_then (file_step (''creating directory '' @ dir) (tl_create_dir env dir)) (\<lambda>_.
      st_then (generate_self_signed_config env host sans) (\<lambda>(cert_pem, key_pem, cfg).
      st_then (file_step (''writing '' @ ?c) (tl_write env ?c cert_pem)) (\<lambda>_.
      st_then (file_step (''writing '' @ ?k) (tl_write env ?k key_pem)) (\<lambda>_.
      st_res (Inr (cfg, False)))))) s = (Inr (cfg, False), s')"
    unfolding load_or_generate_self_signed_def Let_def by (simp only: if_False)
  then obtain s1 s2 s3 cert_pem key_pem where w:
    "generate_self_signed_config env host sans s1 = (Inr (cert_pem, key_pem, cfg), s2)"
    "tl_write env ?c cert_pem s2 = (Inr (), s3)" "tl_write env ?k key_pem s3 = (Inr (), s')"
    by (auto simp: st_then_eq_Inr file_step_eq_Inr)
  from w(1) have config: "build_tls_config_from_pem env cert_pem key_pem = Inr cfg" by (simp add: generate_eq_Inr)
  have kept: "tl_exists env p s'' \<and> fst (tl_read env p s'') = Inr t"
    "\<And>q. q \<noteq> p \<Longrightarrow> tl_exists env q s'' = tl_exists env q s \<and> fst (tl_read env q s'') = fst (tl_read env q s)"
    if "tl_write env p t s = (Inr (), s'')" for p t s s''
    using that assms(1) unfolding keeps_files_def by blast+
  have "tl_exists env ?c s'" "fst (tl_read env ?c s') = Inr cert_pem" "tl_exists env ?k s'" "fst (tl_read env ?k s') = Inr key_pem"
    using kept(1) [OF w(2)] kept(1) [OF w(3)] kept(2) [OF w(3) assms(2)] by simp_all
  moreover have "snd (tl_read env p s') = s'" for p using assms(1) by (simp add: keeps_files_def)
  ultimately have "tl_read env ?c s' = (Inr cert_pem, s')" "tl_read env ?k s' = (Inr key_pem, s')"
    by (simp_all add: prod_eq_iff)
  with \<open>tl_exists env ?c s'\<close> \<open>tl_exists env ?k s'\<close> config show ?thesis
    by (simp add: load_or_generate_self_signed_def file_step_def st_then_def Let_def)
qed

type_synonym text_files = "string \<rightharpoonup> string"

definition demo_tls :: "(text_files, bytes list) tls_env" where
  "demo_tls =
     \<lparr>tl_self_signed = (\<lambda>sans fs. (Inr (concat sans, ''key''), fs)), tl_parse_certs = (\<lambda>t. Inr [ascii_bytes t]),
      tl_parse_key = (\<lambda>t. Inr (ascii_bytes t)), tl_builder = None, tl_config = (\<lambda>certs _. Inr certs),
      tl_exists = (\<lambda>p fs. fs p \<noteq> None),
      tl_read = (\<lambda>p fs. (case fs p of Some t \<Rightarrow> Inr t | None \<Rightarrow> Inl (Io_Msg NotFound p), fs)),
      tl_create_dir = (\<lambda>_ fs. (Inr (), fs)), tl_write = (\<lambda>p t fs. (Inr (), fs(p \<mapsto> t))), tl_join = (\<lambda>d f. d @ f),
      tl_cert_file = (\<lambda>_ _. Inl ''no''), tl_key_file = (\<lambda>_ _. Inl ''no'')\<rparr>"

theorem self_signed_kept_witness:
  "\<exists>cfg fs. load_or_generate_self_signed demo_tls ''d/'' ''::'' [''a''] Map.empty = (Inr (cfg, False), fs) \<and>
     load_or_generate_self_signed demo_tls ''d/'' ''0.0.0.0'' [''b''] fs = (Inr (cfg, True), fs)"
proof -
  have files: "keeps_files demo_tls" and names: "tl_join demo_tls ''d/'' ''cert.pem'' \<noteq> tl_join demo_tls ''d/'' ''key.pem''"
    by (simp_all add: keeps_files_def demo_tls_def)
  have "\<exists>cfg fs. load_or_generate_self_signed demo_tls ''d/'' ''::'' [''a''] Map.empty = (Inr (cfg, False), fs)"
    by (simp add: load_or_generate_self_signed_def generate_self_signed_config_def demo_tls_def file_step_def st_then_def
        build_tls_config_from_pem_def server_config_def Let_def)
  then obtain cfg fs where g: "load_or_generate_self_signed demo_tls ''d/'' ''::'' [''a''] Map.empty = (Inr (cfg, False), fs)"
    by blast
  from g self_signed_kept [OF files names g, of "''0.0.0.0''" "[''b'']"] show ?thesis by blast
qed

section \<open>The comparison of PCRs\<close>

lemma btree_entries_dom:
  assumes "dom m \<subseteq> set keys"
  shows "btree_entries keys m = map (\<lambda>i. (i, the (m i))) (sorted_list_of_set (dom m))"
proof -
  let ?ks = "filter (\<lambda>i. m i \<noteq> None) (sort (remdups keys))"
  have "set ?ks = dom m" using assms by auto
  moreover have "sorted ?ks" "distinct ?ks" by (simp_all add: sorted_wrt_filter)
  ultimately have "?ks = sorted_list_of_set (dom m)"
    using finite_subset [OF assms] by (intro sorted_distinct_set_unique) simp_all
  moreover have "btree_entries keys m = map (\<lambda>i. (i, the (m i))) ?ks"
    by (auto simp: btree_entries_def List.map_filter_def o_def intro!: map_cong)
  ultimately show ?thesis by simp
qed

lemma replayed_indices: "dom (replay_pcrs h events alg) \<subseteq> set (map ev_pcr_index events)"
proof -
  have "pcr_measurements alg p events = []" if "p \<notin> ev_pcr_index ` set events" for p
  proof -
    have "filter (\<lambda>e. ev_pcr_index e = p \<and>
        (case digest_for_algorithm e alg of Some m \<Rightarrow> length m = pcr_digest_len alg | None \<Rightarrow> False)) events = []"
      using that by (auto simp: filter_empty_conv)
    then show ?thesis by (simp add: pcr_measurements_def List.map_filter_def)
  qed
  then show ?thesis by (fastforce simp: replay_pcrs_value pcr_value_def)
qed

lemma web_match_Inr: "m s = Some (Inr x, s') \<Longrightarrow> web_match m on_err on_ok s = on_ok x s'"
  by (simp add: web_match_def)

lemma or_err_Inr: "m s = (Inr x, s') \<Longrightarrow> or_err what m k s = k x s'"
  by (simp add: or_err_def web_st_def web_match_Inr)

text \<open>
  C20. Over a TPM that answers every \<open>PCR_Read\<close>, the comparison of PCRs reports that all match exactly
  when each PCR that the log extends in the SHA-256 bank holds what the log leads to. Only those PCRs are counted: of a
  log without SHA-256 digests all zero PCRs match, whatever the TPM holds.
\<close>

theorem all_match_exactly:
  fixes env :: "'s web_env"
  assumes "pcr_service (web_tpm env) Pcr_Sha256 bank" "inj (wb_hex env)"
    and "web_load_event_log env s = (Inr (Some raw), s1)"
    and "parse_event_log (wb_event_json env) (wb_hex_decode env) raw = Inr events"
    and "wb_open env s1 = (Inr (), s2)" "\<forall>e \<in> set events. ev_pcr_index e \<le> 23"
    and "replayed = replay_pcrs (wb_hash env) events Pcr_Sha256"
  shows "\<exists>data s'. web_handle env Get_Verify_Pcrs s = Some (api_ok data, s') \<and>
    json_get data ''all_match'' = Some (J_Bool (\<forall>p d. replayed p = Some d \<longrightarrow> bank p = d)) \<and>
    json_get data ''pcr_count'' = Some (json_nat (card (dom replayed)))"
proof -
  let ?ks = "sorted_list_of_set (dom replayed)"
  have dom: "dom replayed \<subseteq> set (map ev_pcr_index events)" using replayed_indices assms(7) by simp
  then have fin: "finite (dom replayed)" by (rule finite_subset) simp
  have entries: "web_replay env events = map (\<lambda>i. (i, the (replayed i))) ?ks"
    unfolding web_replay_def assms(7) [symmetric] by (rule btree_entries_dom [OF dom])
  have small: "list_all (\<lambda>p. p \<le> 23) ?ks" using assms(6) dom fin by (fastforce simp: list_all_iff)
  obtain s3 where reads: "tpm_read_pcrs_for_alg (web_tpm env) Pcr_Sha256 ?ks s2 = (Inr (map (\<lambda>p. (p, bank p)) ?ks), s3)"
    using service_reads [OF assms(1) small] by blast
  have count: "length (remdups (?ks @ ?ks)) = card (dom replayed)"
    unfolding length_remdups_card_conv by (simp add: fin)
  have keys: "sort (remdups (?ks @ ?ks)) = ?ks" using fin by (simp flip: sorted_list_of_set_sort_remdups)
  let ?cmp = "pcr_comparison env (map (\<lambda>i. (i, the (replayed i))) ?ks) (map (\<lambda>p. (p, bank p)) ?ks)"
  have cmp: "fst (?cmp p) \<longleftrightarrow> bank p = the (replayed p)" if "p \<in> set ?ks" for p
    using that assms(2) by (auto simp: pcr_comparison_def map_of_map_restrict Let_def dest: injD)
  have all: "list_all fst (map ?cmp ?ks) \<longleftrightarrow> (\<forall>p d. replayed p = Some d \<longrightarrow> bank p = d)"
    using cmp fin by (auto simp: list_all_iff dom_def)
  have "api_verify_pcrs env s = Some (Inr (api_ok (J_Object
      [(''algorithm'', J_String ''SHA-256''), (''all_match'', J_Bool (list_all fst (map ?cmp ?ks))),
       (''pcr_count'', json_nat (length ?ks)), (''comparisons'', J_Array (map snd (map ?cmp ?ks)))])), s3)"
    using reads keys by (simp add: api_verify_pcrs_def with_web_log_def or_err_Inr [of "web_load_event_log env", OF assms(3)] web_res_def assms(4)
        web_match_Inr with_open_tpm_def or_err_Inr [of "wb_open env", OF assms(5)] entries o_def or_err_Inr reply_def count Let_def)
  then show ?thesis unfolding all by (simp add: web_handle_def spawned_def fin api_ok_def)
qed

definition demo_web :: "nat web_env" where
  "demo_web =
     \<lparr>wb_platform = sample_platform (pcr_device Pcr_Sha256 demo_bank)\<lparr>pf_os := ''linux''\<rparr>, wb_open = (\<lambda>s. (Inr (), s)),
      wb_hex = bytes_text, wb_hex_decode = (\<lambda>_. Inl ''no''), wb_claims_json = (\<lambda>_. J_Null), wb_arch = ''x86_64'',
      wb_exists = (\<lambda>_ _. True), wb_read = (\<lambda>_ s. (Inr demo_log, s)),
      wb_hash = \<lparr>hf_sha1 = id, hf_sha256 = id, hf_sha384 = id\<rparr>, wb_event_json = (\<lambda>_. Inl ''no''), wb_checks = True,
      wb_frames = 0, wb_panic_text = ''panic''\<rparr>"

text \<open>The log has only a SHA-1 digest: nothing is compared, and all of it matches.\<close>

theorem all_match_exactly_witness:
  "\<exists>data s'. web_handle demo_web Get_Verify_Pcrs 0 = Some (api_ok data, s') \<and>
     json_get data ''all_match'' = Some (J_Bool True) \<and> json_get data ''pcr_count'' = Some (json_nat 0)"
proof -
  have tpm: "pcr_service (web_tpm demo_web) Pcr_Sha256 demo_bank"
    using demo_bank_service by (simp add: demo_web_def sample_platform_def)
  have hex: "inj (wb_hex demo_web)" by (rule inj_on_inverseI [where g = ascii_bytes]) (simp add: demo_web_def ascii_bytes_text)
  have log: "web_load_event_log demo_web 0 = (Inr (Some demo_log), 0)"
    by (simp add: web_load_event_log_def demo_web_def sample_platform_def)
  have opens: "wb_open demo_web 0 = (Inr (), 0)" by (simp add: demo_web_def)
  have small: "\<forall>e \<in> set [demo_spec_event]. ev_pcr_index e \<le> 23" by (simp add: demo_spec_event_def)
  have none: "Map.empty = replay_pcrs (wb_hash demo_web) [demo_spec_event] Pcr_Sha256"
    by (simp add: replay_pcrs_def replay_event_def digest_for_algorithm_def demo_spec_event_def)
  from all_match_exactly [OF tpm hex log demo_log_parses opens small none] show ?thesis by simp
qed

section \<open>User data\<close>

lemma or_err_success:
  "ap_success r \<Longrightarrow> or_err what m k s = Some (Inr r, s') \<longleftrightarrow> (\<exists>x t. m s = (Inr x, t) \<and> k x t = Some (Inr r, s'))"
  by (auto simp: or_err_def web_match_def web_st_def reply_def api_err_def split: prod.splits sum.splits fault.splits)

lemma web_match_success:
  "ap_success r \<Longrightarrow> web_match m (\<lambda>e. reply (api_err (msg e))) on_ok s = Some (Inr r, s') \<longleftrightarrow>
     (\<exists>x t. m s = Some (Inr x, t) \<and> on_ok x t = Some (Inr r, s'))"
  by (auto simp: web_match_def reply_def api_err_def split: option.splits prod.splits sum.splits fault.splits)

definition show_cvm_report :: "'s web_env \<Rightarrow> bytes \<Rightarrow> 's handler" where
  "show_cvm_report env raw_bytes =
     web_parse_report env raw_bytes (\<lambda>(report, claims).
     web_match (web_res (tee_report_fields env report)) (\<lambda>_. reply (api_err [])) (\<lambda>tee.
     reply (api_ok (cvm_report_json env raw_bytes report claims tee))))"

lemma show_cvm_report_success:
  assumes "ap_success r" "show_cvm_report env raw t = Some (Inr r, s')"
  shows "\<exists>tee report claims. t = s' \<and> tee_report_fields env report = Inr tee \<and>
    r = api_ok (cvm_report_json env raw report claims tee)"
proof -
  from iffD1 [OF web_match_success [OF assms(1)] assms(2) [unfolded show_cvm_report_def web_parse_report_def]]
  obtain report claims t' where t: "t' = t"
    and k: "web_match (web_res (tee_report_fields env report)) (\<lambda>_. reply (api_err [])) (\<lambda>tee.
      reply (api_ok (cvm_report_json env raw report claims tee))) t' = Some (Inr r, s')" by auto
  from iffD1 [OF web_match_success [OF assms(1), where msg = "\<lambda>_. []"] k] t
  show ?thesis by (auto simp: web_res_def reply_def)
qed

lemma tee_fields_raw:
  assumes "tee_report_fields env report = Inr tee"
  shows "map_of tee ''raw_report_hex'' = None"
proof -
  have other: "(''raw_report_hex'' = ''tee_report_pretty'') = False" "(''raw_report_hex'' = ''tee_report_hex'') = False" by simp_all
  let ?n = "tee_report_size (rc_report_type (cr_runtime_claims_header report))"
  show ?thesis
  proof (cases "0 < ?n \<and> ?n \<le> length (cr_tee_report report)")
    case True
    from assms [unfolded tee_report_fields_def Let_def and_then_eq_Inr if_P [OF True]]
    obtain pretty where "Inr tee = (Inr ((case pretty of Some t \<Rightarrow> [(''tee_report_pretty'', J_String t)] | None \<Rightarrow> []) @
        [(''tee_report_hex'', J_String (wb_hex env (take ?n (cr_tee_report report))))]) :: (unit, (string \<times> json_value) list) res)"
      by (elim exE conjE) (rule that, erule sym)
    then have "tee = (case pretty of Some t \<Rightarrow> [(''tee_report_pretty'', J_String t)] | None \<Rightarrow> []) @
        [(''tee_report_hex'', J_String (wb_hex env (take ?n (cr_tee_report report))))]" by (rule sum.inject(2) [THEN iffD1])
    then show ?thesis using other by (cases pretty) (simp_all add: map_add_def)
  next
    case False
    then show ?thesis using assms unfolding tee_report_fields_def Let_def if_not_P [OF False] by simp
  qed
qed

lemma report_data_bounded: "get_cvm_report_raw tr (Some d) s = (Inr raw, s') \<Longrightarrow> length d \<le> 64"
  by (auto simp: get_cvm_report_raw_def st_then_eq_Inr split: if_splits)

lemma user_data_given: "input \<noteq> [] \<Longrightarrow> parse_user_data_opt env (Some input) = Inr ud \<Longrightarrow> \<exists>d. ud = Some d"
  by (auto simp: parse_user_data_opt_def web_decode_hex_def split: option.splits if_splits sum.splits)

text \<open>
  C19. A successful answer to a request for the CVM report with user data shows a report that
  was read right after the data the endpoint makes of the parameter, padded, had been written to its index. That data is
  at most 64 bytes (a text is cut, longer hexadecimal data is refused), and no report made without it is shown.
\<close>

theorem web_report_binds_user_data:
  assumes "web_handle env (Get_Cvm_Report (Some input)) s = Some (r, s')" "ap_success r" "input \<noteq> []"
  shows "\<exists>d s1 s2 raw data. parse_user_data_opt env (Some input) = Inr (Some d) \<and> length d \<le> 64 \<and>
     tpm_write_nv_index (web_tpm env) NV_INDEX_USER_DATA (d @ replicate (64 - length d) 0) s1 = (Inr (), s2) \<and>
     tpm_read_nv_index (web_tpm env) NV_INDEX_CVM_REPORT s2 = (Inr raw, s') \<and>
     ap_data r = Some data \<and> json_get data ''raw_report_hex'' = Some (J_String (wb_hex env raw))"
proof -
  have "api_cvm_report env (Some input) s = Some (Inr r, s')"
    using assms(1,2) by (auto simp: web_handle_def spawned_def api_err_def split: option.splits prod.splits sum.splits)
  note opened = iffD1 [OF or_err_success [OF assms(2)] this [unfolded api_cvm_report_def with_open_tpm_def]]
  then obtain s0 where "web_match (web_res (parse_user_data_opt env (Some input))) (\<lambda>e. reply (api_err e)) (\<lambda>ud_vec.
      or_err ''Failed to get CVM report: '' (get_cvm_report_raw (web_tpm env) ud_vec) (show_cvm_report env)) s0 = Some (Inr r, s')"
    unfolding show_cvm_report_def by iprover
  from iffD1 [OF web_match_success [OF assms(2), where msg = "\<lambda>e. e"] this]
  obtain ud where o: "parse_user_data_opt env (Some input) = Inr ud"
    and k: "or_err ''Failed to get CVM report: '' (get_cvm_report_raw (web_tpm env) ud) (show_cvm_report env) s0 = Some (Inr r, s')"
    unfolding web_res_def by blast
  from user_data_given [OF assms(3) o] obtain d where d: "ud = Some d" by blast
  from iffD1 [OF or_err_success [OF assms(2)] k [unfolded d]] obtain raw t
    where got: "get_cvm_report_raw (web_tpm env) (Some d) s0 = (Inr raw, t)" and sent: "show_cvm_report env raw t = Some (Inr r, s')"
    by blast
  from show_cvm_report_success [OF assms(2) sent] obtain tee report claims where t: "t = s'"
    and tee: "tee_report_fields env report = Inr tee" and r: "r = api_ok (cvm_report_json env raw report claims tee)"
    by blast
  have raw: "get_cvm_report_raw (web_tpm env) (Some d) s0 = (Inr raw, s')" using got t by simp
  have len: "length d \<le> 64" by (rule report_data_bounded [OF raw])
  obtain s1 s2 where "tpm_write_nv_index (web_tpm env) NV_INDEX_USER_DATA (d @ replicate (64 - length d) 0) s1 = (Inr (), s2)"
    "tpm_read_nv_index (web_tpm env) NV_INDEX_CVM_REPORT s2 = (Inr raw, s')"
    using raw unfolding report_raw_with_data [OF len] pad_user_data_eq [OF len] by (blast dest: staging_steps)
  moreover have "map_of tee ''raw_report_hex'' = None"
    by (rule tee_fields_raw [OF tee])
  ultimately show ?thesis using o d len by (fastforce simp: r api_ok_def cvm_report_json_def map_add_def)
qed

text \<open>The simulated machine of the client, and the user data \<open>hi\<close>.\<close>

definition demo_report_web :: "(bytes \<times> bytes) web_env" where
  "demo_report_web =
     \<lparr>wb_platform = demo_platform, wb_open = (\<lambda>s. (Inr (), s)), wb_hex = bytes_text, wb_hex_decode = (\<lambda>_. Inl ''no''),
      wb_claims_json = (\<lambda>_. J_Null), wb_arch = ''x86_64'', wb_exists = (\<lambda>_ _. False),
      wb_read = (\<lambda>_ s. (Inr [], s)), wb_hash = \<lparr>hf_sha1 = id, hf_sha256 = id, hf_sha384 = id\<rparr>,
      wb_event_json = (\<lambda>_. Inl ''no''), wb_checks = True, wb_frames = 0, wb_panic_text = ''panic''\<rparr>"

lemma tee_fields_not_panic:
  assumes "rc_report_type (cr_runtime_claims_header report) = SnpVmReport"
  shows "\<exists>tee. tee_report_fields env report = Inr tee"
proof -
  have "parse_snp_report bs \<noteq> Inl Panic" for bs
    unfolding parse_snp_report_def by (simp split: if_split)
  then have "(\<exists>e. parse_snp_report bs = Inl (Fail e)) \<or> (\<exists>x. parse_snp_report bs = Inr x)" for bs
    by (cases "parse_snp_report bs") (metis fault.exhaust, blast)
  then have "\<exists>p. optional_pretty SnpVmReport bs = Inr p" for bs
    unfolding optional_pretty_def pretty_tee_report_def cvm_report_type.case option.case and_then_def
    by (metis (lifting) fault.case sum.case)
  then obtain p where "optional_pretty SnpVmReport bs = Inr (p bs)" for bs by metis
  then show ?thesis unfolding tee_report_fields_def assms Let_def and_then_def by simp
qed

theorem web_report_binds_user_data_witness:
  "\<exists>r s' d data raw. web_handle demo_report_web (Get_Cvm_Report (Some (ascii_str ''hi''))) ([], []) = Some (r, s') \<and>
     parse_user_data_opt demo_report_web (Some (ascii_str ''hi'')) = Inr (Some d) \<and>
     ap_data r = Some data \<and> json_get data ''raw_report_hex'' = Some (J_String (bytes_text raw))"
proof -
  have d: "parse_user_data_opt demo_report_web (Some (ascii_str ''hi'')) = Inr (Some (ascii_bytes ''hi''))"
  proof -
    have "parse_user_data_opt e (Some (ascii_str ''hi'')) = Inr (Some (ascii_bytes ''hi''))" for e :: "(bytes \<times> bytes) web_env"
      unfolding parse_user_data_opt_def by code_simp
    then show ?thesis by blast
  qed
  have fields: "web_tpm demo_report_web = demo_cvm" "wb_open demo_report_web s = (Inr (), s)"
    "pf_claims (wb_platform demo_report_web) = (\<lambda>_. None)" "wb_hex demo_report_web = bytes_text" for s
    by (simp_all add: demo_report_web_def demo_platform_fields)
  obtain raw s' where r: "get_cvm_report_raw demo_cvm (Some (ascii_bytes ''hi'')) ([], []) = (Inr raw, s')"
    and p: "parse_with_runtime_claims (\<lambda>_. None) raw = Some (Inr (demo_cvm_report, None))"
    and t: "rc_report_type (cr_runtime_claims_header demo_cvm_report) = SnpVmReport"
    using demo_report [of "Some (ascii_bytes ''hi'')" "([], [])"] by auto
  obtain tee where tee: "tee_report_fields demo_report_web demo_cvm_report = Inr tee"
    using tee_fields_not_panic [OF t] by blast
  have "\<exists>x. web_handle demo_report_web (Get_Cvm_Report (Some (ascii_str ''hi''))) ([], []) = Some (api_ok x, s')"
    by (simp add: web_handle_def spawned_def api_cvm_report_def with_open_tpm_def or_err_def web_match_def web_st_def web_res_def
        web_parse_report_def reply_def fields d r p tee) blast
  then obtain x where run: "web_handle demo_report_web (Get_Cvm_Report (Some (ascii_str ''hi''))) ([], []) = Some (api_ok x, s')" ..
  from web_report_binds_user_data [OF run] run d fields(4) show ?thesis by (auto simp: api_ok_def ascii_str_def)
qed

end
