(* ===== verification/Verify_Crypto.thy ===== *)
theory Verify_Crypto
  imports Tpm_Errors
begin

text \<open>
  The interface of the verifiers to cryptography (\<open>verify/crypto/mod.rs\<close>) and the pinned
  trust anchors (\<open>verify/roots.rs\<close>). The backends bind OpenSSL, SymCrypt or Windows CNG:
  a backend is a record of functions over an opaque certificate handle.
\<close>

datatype digest_alg = Sha256_Alg | Sha384_Alg

record 'cert crypto_backend =
  cb_sha256 :: "bytes \<Rightarrow> bytes io_res"
  cb_parse_pem_chain :: "bytes \<Rightarrow> 'cert list io_res"
  cb_cert_from_pem :: "bytes \<Rightarrow> 'cert io_res"
  cb_cert_to_der :: "'cert \<Rightarrow> bytes io_res"
  cb_cert_is_self_signed :: "'cert \<Rightarrow> bool"
  cb_ecdsa_verify_raw :: "'cert \<Rightarrow> digest_alg \<Rightarrow> bytes \<Rightarrow> bytes \<Rightarrow> bytes \<Rightarrow> bool io_res"
  cb_ecdsa_p256_verify_point :: "bytes \<Rightarrow> bytes \<Rightarrow> bytes \<Rightarrow> bytes \<Rightarrow> bool io_res"
  cb_verify_cert_chain :: "'cert \<Rightarrow> 'cert list \<Rightarrow> 'cert list \<Rightarrow> unit io_res"

text \<open>The PEM files compiled into the program.\<close>

record pinned_pems =
  pp_ark :: "bytes list"
  pp_intel_sgx_root :: bytes

definition pinned_root :: "'cert crypto_backend \<Rightarrow> string \<Rightarrow> bytes \<Rightarrow> 'cert io_res" where
  "pinned_root cb what pem =
     map_err (\<lambda>e. Io_Msg OtherKind (''parse pinned '' @ what @ '' root: '' @ io_error_display e))
       (cb_cert_from_pem cb pem)"

text \<open>\<open>collect\<close> into a \<open>Result<Vec<_>>\<close>: the first error ends it.\<close>

fun collect_results :: "('a \<Rightarrow> ('e, 'b) res) \<Rightarrow> 'a list \<Rightarrow> ('e, 'b list) res" where
  "collect_results f [] = Inr []"
| "collect_results f (x # xs) =
     and_then (f x) (\<lambda>y. and_then (collect_results f xs) (\<lambda>ys. Inr (y # ys)))"

definition amd_ark_roots :: "'cert crypto_backend \<Rightarrow> pinned_pems \<Rightarrow> 'cert list io_res" where
  "amd_ark_roots cb pems = collect_results (pinned_root cb ''ARK'') (pp_ark pems)"

definition intel_sgx_root :: "'cert crypto_backend \<Rightarrow> pinned_pems \<Rightarrow> 'cert io_res" where
  "intel_sgx_root cb pems = pinned_root cb ''Intel SGX'' (pp_intel_sgx_root pems)"

text \<open>The leaf of a chain with the intermediates the verifiers keep: no self-signed certificate.\<close>

definition untrusted_intermediates :: "'cert crypto_backend \<Rightarrow> 'cert list \<Rightarrow> 'cert list" where
  "untrusted_intermediates cb rest = filter (\<lambda>c. \<not> cb_cert_is_self_signed cb c) rest"

text \<open>A backend that confirms everything, for examples.\<close>

definition accepting_backend :: "unit crypto_backend" where
  "accepting_backend =
     \<lparr>cb_sha256 = \<lambda>_. Inr (replicate 32 1), cb_parse_pem_chain = \<lambda>_. Inr [()], cb_cert_from_pem = \<lambda>_. Inr (),
      cb_cert_to_der = \<lambda>_. Inr [], cb_cert_is_self_signed = \<lambda>_. False,
      cb_ecdsa_verify_raw = \<lambda>_ _ _ _ _. Inr True, cb_ecdsa_p256_verify_point = \<lambda>_ _ _ _. Inr True,
      cb_verify_cert_chain = \<lambda>_ _ _. Inr ()\<rparr>"

end
