(* ===== verification/Verify_Windows.thy ===== *)
theory Verify_Windows
  imports Verify_Crypto Td_Quote_Fmspc
begin

text \<open>
  The Windows backend of the verifiers (\<open>SDK/verify/crypto/windows.rs\<close>): PEM blocks, ECDSA signatures of a fixed
  width and a certificate chain that is built by hand. CNG, crypt32 and base64 are parameters; a certificate is its
  DER encoding, a context is what crypt32 makes of it.
\<close>

section \<open>The interface to the operating system\<close>

text \<open>\<open>CERT_BASIC_CONSTRAINTS2_INFO\<close>\<close>

record basic_constraints2 =
  b2_ca :: bool
  b2_path_len :: "u32 option"

type_synonym win_cert = bytes

record ('ctx, 'key) cng =
  cg_create_context :: "bytes \<Rightarrow> io_error + 'ctx"
  cg_names_match :: "'ctx \<Rightarrow> 'ctx \<Rightarrow> bool"
  cg_signature_ok :: "'ctx \<Rightarrow> 'ctx \<Rightarrow> bool"
  cg_time_valid :: "'ctx \<Rightarrow> bool"
  cg_constraints :: "'ctx \<Rightarrow> bytes option"
  cg_decode_constraints :: "bytes \<Rightarrow> basic_constraints2 option"
  cg_is_v1 :: "'ctx \<Rightarrow> bool"
  cg_public_key_len :: "'ctx \<Rightarrow> nat"
  cg_import_spki :: "'ctx \<Rightarrow> io_error + 'key"
  cg_open_provider :: "string \<Rightarrow> u32"
  cg_import_key :: "bytes \<Rightarrow> u32 \<times> 'key"
  cg_create_hash :: "digest_alg \<Rightarrow> u32"
  cg_hash_data :: "digest_alg \<Rightarrow> bytes \<Rightarrow> u32"
  cg_finish_hash :: "digest_alg \<Rightarrow> bytes \<Rightarrow> u32 \<times> bytes"
  cg_verify_signature :: "'key \<Rightarrow> bytes \<Rightarrow> bytes \<Rightarrow> u32"
  cg_b64_decode :: "bytes \<Rightarrow> string + bytes"

text \<open>\<open>verify/crypto/mod.rs: other\<close>\<close>

definition crypto_other :: "string \<Rightarrow> string \<Rightarrow> io_error" where
  "crypto_other ctx e = Io_Msg OtherKind (ctx @ '': '' @ e)"

definition nt :: "string \<Rightarrow> u32 \<Rightarrow> unit io_res" where
  "nt what status =
     (if status = 0 then Inr () else io_fail OtherKind (what @ '' failed: 0x'' @ fmt_08x status))"

definition len_u32 :: "nat \<Rightarrow> string \<Rightarrow> u32 io_res" where
  "len_u32 len what =
     (if len < 2 ^ 32 then Inr (of_nat len)
      else io_fail InvalidData (what @ '' is too large ('' @ fmt_dec len @ '' bytes)''))"

definition win_context :: "('ctx, 'key) cng \<Rightarrow> win_cert \<Rightarrow> 'ctx io_res" where
  "win_context cg der =
     and_then (len_u32 (length der) ''certificate'') (\<lambda>_.
     case cg_create_context cg der of
       Inl e \<Rightarrow> Inl (Fail (crypto_other ''parse DER certificate'' (io_error_display e)))
     | Inr ctx \<Rightarrow> Inr ctx)"

definition win_cert_from_der :: "('ctx, 'key) cng \<Rightarrow> bytes \<Rightarrow> win_cert io_res" where
  "win_cert_from_der cg der = and_then (win_context cg der) (\<lambda>_. Inr der)"

section \<open>PEM\<close>

lemma str_find_nonempty: "str_find pat s = Some n \<Longrightarrow> pat \<noteq> [] \<Longrightarrow> s \<noteq> []"
  by auto

lemma PEM_BEGIN_nonempty: "PEM_BEGIN \<noteq> []"
  by (simp add: PEM_BEGIN_def ascii_str_def)

function pem_blocks_from :: "(bytes \<Rightarrow> string + bytes) \<Rightarrow> rs_str \<Rightarrow> bytes list io_res" where
  "pem_blocks_from b64 rest =
     (case str_find PEM_BEGIN rest of
        None \<Rightarrow> Inr []
      | Some start \<Rightarrow>
          let body = drop (start + length PEM_BEGIN) rest in
          (case str_find PEM_END body of
             None \<Rightarrow> io_fail InvalidData ''PEM certificate is missing its END marker''
           | Some body_len \<Rightarrow>
               (case b64 (str_bytes (filter (\<lambda>c. \<not> is_whitespace c) (take body_len body))) of
                  Inl e \<Rightarrow> Inl (Fail (crypto_other ''decode PEM certificate'' e))
                | Inr der \<Rightarrow>
                    and_then (pem_blocks_from b64 (drop (body_len + length PEM_END) body)) (\<lambda>out.
                    Inr (der # out)))))"
  by pat_completeness auto
termination
proof (relation "measure (\<lambda>(b64, rest). length rest)")
  fix rest :: rs_str and start n der and x :: rs_str and b64 :: "bytes \<Rightarrow> string + bytes"
  assume "str_find PEM_BEGIN rest = Some start" "x = drop (start + length PEM_BEGIN) rest"
  then show "((b64, drop (n + length PEM_END) x), (b64, rest)) \<in> measure (\<lambda>(b64, rest). length rest)"
    using str_find_nonempty [of PEM_BEGIN rest] PEM_BEGIN_nonempty by (cases rest; cases PEM_BEGIN) auto
qed simp

declare pem_blocks_from.simps [simp del]

definition pem_blocks :: "(bytes \<Rightarrow> string + bytes) \<Rightarrow> bytes \<Rightarrow> bytes list io_res" where
  "pem_blocks b64 pem =
     (case from_utf8 0 pem of
        Inl e \<Rightarrow> Inl (Fail (crypto_other ''PEM is not valid UTF-8'' (utf8_error_display e)))
      | Inr text \<Rightarrow> pem_blocks_from b64 text)"

definition win_parse_pem_chain :: "('ctx, 'key) cng \<Rightarrow> bytes \<Rightarrow> win_cert list io_res" where
  "win_parse_pem_chain cg pem =
     and_then (pem_blocks (cg_b64_decode cg) pem) (\<lambda>blocks.
     if blocks = [] then io_fail InvalidData ''no PEM certificates found''
     else collect_results (win_cert_from_der cg) blocks)"

definition win_cert_from_pem :: "('ctx, 'key) cng \<Rightarrow> bytes \<Rightarrow> win_cert io_res" where
  "win_cert_from_pem cg pem =
     and_then (pem_blocks (cg_b64_decode cg) pem) (\<lambda>blocks.
     case blocks of
       [] \<Rightarrow> io_fail InvalidData ''no PEM certificate found''
     | der # _ \<Rightarrow> win_cert_from_der cg der)"

section \<open>Signatures\<close>

definition ec_curve_len :: "nat \<Rightarrow> nat io_res" where
  "ec_curve_len public_key_len =
     (if public_key_len = 65 then Inr 32
      else if public_key_len = 97 then Inr 48
      else io_fail InvalidData (''unsupported EC public key length: '' @ fmt_dec public_key_len @ '' bytes''))"

definition fixed_width_be :: "bytes \<Rightarrow> nat \<Rightarrow> string \<Rightarrow> bytes io_res" where
  "fixed_width_be value len what =
     (let trimmed = dropWhile (\<lambda>b. b = 0) value in
      if len < length trimmed then
        io_fail InvalidData (''ECDSA '' @ what @ '' is '' @ fmt_dec (length trimmed) @ '' bytes, larger than the '' @
          fmt_dec len @ ''-byte curve order'')
      else Inr (replicate (len - length trimmed) 0 @ trimmed))"

fun hash_name :: "digest_alg \<Rightarrow> string" where
  "hash_name Sha256_Alg = ''SHA256''"
| "hash_name Sha384_Alg = ''SHA384''"

definition win_digest :: "('ctx, 'key) cng \<Rightarrow> digest_alg \<Rightarrow> bytes \<Rightarrow> bytes io_res" where
  "win_digest cg alg data =
     and_then (nt ''BCryptOpenAlgorithmProvider'' (cg_open_provider cg (hash_name alg))) (\<lambda>_.
     and_then (nt ''BCryptCreateHash'' (cg_create_hash cg alg)) (\<lambda>_.
     and_then (len_u32 (length data) ''hash input'') (\<lambda>_.
     and_then (nt ''BCryptHashData'' (cg_hash_data cg alg data)) (\<lambda>_.
     let (status, out) = cg_finish_hash cg alg data in
     and_then (nt ''BCryptFinishHash'' status) (\<lambda>_. Inr out)))))"

definition STATUS_INVALID_SIGNATURE :: u32 where
  "STATUS_INVALID_SIGNATURE = 0xC000A000"

definition win_verify_with_key ::
    "('ctx, 'key) cng \<Rightarrow> 'key \<Rightarrow> nat \<Rightarrow> digest_alg \<Rightarrow> bytes \<Rightarrow> bytes \<Rightarrow> bytes \<Rightarrow> bool io_res" where
  "win_verify_with_key cg key curve_len alg msg r_be s_be =
     and_then (fixed_width_be r_be curve_len ''r'') (\<lambda>r.
     and_then (fixed_width_be s_be curve_len ''s'') (\<lambda>s.
     let sig = r @ s in
     and_then (win_digest cg alg msg) (\<lambda>dgst.
     and_then (len_u32 (length dgst) ''digest'') (\<lambda>_.
     and_then (len_u32 (length sig) ''signature'') (\<lambda>_.
     let status = cg_verify_signature cg key dgst sig in
     if status = 0 then Inr True
     else if status = STATUS_INVALID_SIGNATURE then Inr False
     else io_fail OtherKind (''BCryptVerifySignature failed: 0x'' @ fmt_08x status))))))"

definition win_ecdsa_verify_raw ::
    "('ctx, 'key) cng \<Rightarrow> win_cert \<Rightarrow> digest_alg \<Rightarrow> bytes \<Rightarrow> bytes \<Rightarrow> bytes \<Rightarrow> bool io_res" where
  "win_ecdsa_verify_raw cg cert alg msg r_be s_be =
     and_then (win_context cg cert) (\<lambda>ctx.
     and_then (ec_curve_len (cg_public_key_len cg ctx)) (\<lambda>curve_len.
     case cg_import_spki cg ctx of
       Inl e \<Rightarrow> Inl (Fail (crypto_other ''import certificate public key'' (io_error_display e)))
     | Inr key \<Rightarrow> win_verify_with_key cg key curve_len alg msg r_be s_be))"

definition ECDSA_PUBLIC_P256_MAGIC :: u32 where
  "ECDSA_PUBLIC_P256_MAGIC = 0x31534345"

definition win_ecdsa_p256_verify_point ::
    "('ctx, 'key) cng \<Rightarrow> bytes \<Rightarrow> bytes \<Rightarrow> bytes \<Rightarrow> bytes \<Rightarrow> bool io_res" where
  "win_ecdsa_p256_verify_point cg x_y msg r_be s_be =
     (if length x_y \<noteq> 64 then
        io_fail InvalidData (''P-256 public point must be 64 bytes, got '' @ fmt_dec (length x_y))
      else
        and_then (nt ''BCryptOpenAlgorithmProvider'' (cg_open_provider cg ''ECDSA_P256'')) (\<lambda>_.
        let blob = le_bytes 4 ECDSA_PUBLIC_P256_MAGIC @ le_bytes 4 (32 :: u32) @ x_y in
        and_then (len_u32 (length blob) ''EC public key blob'') (\<lambda>_.
        let (status, key) = cg_import_key cg blob in
        and_then (nt ''BCryptImportKeyPair'' status) (\<lambda>_.
        win_verify_with_key cg key 32 Sha256_Alg msg r_be s_be))))"

section \<open>Chains\<close>

definition win_is_ca :: "('ctx, 'key) cng \<Rightarrow> 'ctx \<Rightarrow> bool" where
  "win_is_ca cg ctx =
     (case cg_constraints cg ctx of
        None \<Rightarrow> cg_is_v1 cg ctx
      | Some ext \<Rightarrow> (case cg_decode_constraints cg ext of None \<Rightarrow> False | Some bc \<Rightarrow> b2_ca bc))"

definition win_issued_by :: "('ctx, 'key) cng \<Rightarrow> 'ctx \<Rightarrow> win_cert \<Rightarrow> bool" where
  "win_issued_by cg subject issuer =
     (case win_context cg issuer of
        Inl _ \<Rightarrow> False
      | Inr ic \<Rightarrow> win_is_ca cg ic \<and> cg_names_match cg subject ic \<and> cg_signature_ok cg subject ic)"

definition win_cert_is_self_signed :: "('ctx, 'key) cng \<Rightarrow> win_cert \<Rightarrow> bool" where
  "win_cert_is_self_signed cg cert =
     (case win_context cg cert of
        Inl _ \<Rightarrow> False
      | Inr ctx \<Rightarrow> cg_names_match cg ctx ctx \<and> cg_signature_ok cg ctx ctx)"

definition MAX_CHAIN_DEPTH :: nat where
  "MAX_CHAIN_DEPTH = 8"

abbreviation chain_fail :: "string \<Rightarrow> 'a io_res" where
  "chain_fail why \<equiv> io_fail OtherKind (''certificate chain validation failed: '' @ why)"

text \<open>The loop, from a certificate and with the rounds that are left.\<close>

fun win_chain_walk ::
    "('ctx, 'key) cng \<Rightarrow> win_cert list \<Rightarrow> win_cert list \<Rightarrow> nat \<Rightarrow> win_cert \<Rightarrow> unit io_res" where
  "win_chain_walk cg intermediates roots 0 current = chain_fail ''maximum chain depth exceeded''"
| "win_chain_walk cg intermediates roots (Suc n) current =
     and_then (win_context cg current) (\<lambda>ctx.
     if \<not> cg_time_valid cg ctx then chain_fail ''certificate is expired or not yet valid''
     else
       case find (win_issued_by cg ctx) roots of
         Some root \<Rightarrow>
           and_then (win_context cg root) (\<lambda>root_ctx.
           if cg_time_valid cg root_ctx then Inr ()
           else chain_fail ''pinned trust anchor is expired or not yet valid'')
       | None \<Rightarrow>
           (case find (\<lambda>c. c \<noteq> current \<and> win_issued_by cg ctx c) intermediates of
              Some c \<Rightarrow> win_chain_walk cg intermediates roots n c
            | None \<Rightarrow> chain_fail ''chain does not terminate at a pinned trust anchor''))"

definition win_verify_cert_chain ::
    "('ctx, 'key) cng \<Rightarrow> win_cert \<Rightarrow> win_cert list \<Rightarrow> win_cert list \<Rightarrow> unit io_res" where
  "win_verify_cert_chain cg leaf intermediates roots =
     (if roots = [] then chain_fail ''no trusted roots supplied''
      else win_chain_walk cg intermediates roots MAX_CHAIN_DEPTH leaf)"

definition windows_backend :: "('ctx, 'key) cng \<Rightarrow> win_cert crypto_backend" where
  "windows_backend cg =
     \<lparr>cb_sha256 = win_digest cg Sha256_Alg, cb_parse_pem_chain = win_parse_pem_chain cg,
      cb_cert_from_pem = win_cert_from_pem cg, cb_cert_to_der = Inr, cb_cert_is_self_signed = win_cert_is_self_signed cg,
      cb_ecdsa_verify_raw = win_ecdsa_verify_raw cg, cb_ecdsa_p256_verify_point = win_ecdsa_p256_verify_point cg,
      cb_verify_cert_chain = win_verify_cert_chain cg\<rparr>"

end
