(* ===== verification/Verify_Symcrypt.thy ===== *)
theory Verify_Symcrypt
  imports Verify_Windows
begin

text \<open>
  The SymCrypt backend of the verifiers (\<open>SDK/verify/crypto/symcrypt.rs\<close>): the preparation of ECDSA signatures, the
  self-signature test, and what is asked of a certificate path beyond the checks of WebPKI. SymCrypt, webpki, x509-parser
  and the DER reader are parameters; a certificate is its DER encoding.
\<close>

section \<open>What the libraries return\<close>

datatype webpki_error =
    BadDer | ExtensionValueInvalid | UnknownIssuer | InvalidCertValidity | UnsupportedCriticalExtension
  | EndEntityUsedAsCa | PathLenConstraintViolated | Webpki_Other string

datatype extension_kind = Ext_BasicConstraints | Ext_KeyUsage | Ext_NameConstraints | Ext_Other

text \<open>
  A certificate as x509-parser presents it, as far as the backend looks at it. The key usage is whether it has
  \<open>keyCertSign\<close>; basic constraints are \<open>ca\<close> and the path length.
\<close>

record sym_x509 =
  sx_subject :: bytes
  sx_issuer :: bytes
  sx_signature_algorithm :: bytes
  sx_tbs_algorithm :: bytes
  sx_tbs :: bytes
  sx_signature :: bytes
  sx_spki_oid :: string
  sx_spki_curve :: "string option"
  sx_public_key :: bytes
  sx_valid_at :: "int \<Rightarrow> bool"
  sx_key_usage :: "unit + bool option"
  sx_basic_constraints :: "unit + (bool \<times> u32 option) option"
  sx_extensions_map :: "unit + unit"
  sx_extensions :: "(bool \<times> extension_kind) list"
  sx_is_v1 :: bool

record trust_anchor =
  ta_subject :: bytes
  ta_spki :: bytes
  ta_name_constraints :: "bytes option"

record verified_path =
  vp_intermediates :: "bytes list"
  vp_anchor :: trust_anchor

datatype curve_type = NistP256 | NistP384

datatype ecdsa_outcome = Ec_Ok | Ec_Signature_Failure | Ec_Error string

type_synonym webpki_res = "(webpki_error, unit) res"

record ('ee, 'alg, 'key) symcrypt =
  sy_sha256 :: "bytes \<Rightarrow> bytes"
  sy_sha384 :: "bytes \<Rightarrow> bytes"
  sy_parse :: "bytes \<Rightarrow> string + bytes \<times> sym_x509"
  sy_pem_certs :: "bytes \<Rightarrow> (string + bytes) list"
  sy_signature_id :: "bytes \<Rightarrow> io_error + bytes"
  sy_end_entity :: "bytes \<Rightarrow> webpki_error + 'ee"
  sy_all_algorithms :: "(bytes \<times> 'alg) list"
  sy_rsa_pss_sha384 :: bytes
  sy_verify_signature :: "'ee \<Rightarrow> bytes \<times> 'alg \<Rightarrow> bytes \<Rightarrow> bytes \<Rightarrow> bool"
  sy_set_public_key :: "curve_type \<Rightarrow> bytes \<Rightarrow> string + 'key"
  sy_ecdsa_verify :: "'key \<Rightarrow> bytes \<Rightarrow> bytes \<Rightarrow> ecdsa_outcome"
  sy_anchor :: "bytes \<Rightarrow> webpki_error + trust_anchor"
  sy_verify_for_usage ::
    "'ee \<Rightarrow> (bytes \<times> 'alg) list \<Rightarrow> trust_anchor list \<Rightarrow> bytes list \<Rightarrow> nat \<Rightarrow>
     ((webpki_error + bytes) list \<Rightarrow> webpki_res) \<Rightarrow> (verified_path \<Rightarrow> webpki_res) \<Rightarrow> webpki_res"
  sy_asn1_time :: "int \<Rightarrow> int option"
  sy_now :: nat
  sy_webpki_text :: "webpki_error \<Rightarrow> string"

section \<open>Certificates\<close>

definition sym_parsed :: "('ee, 'alg, 'key) symcrypt \<Rightarrow> bytes \<Rightarrow> sym_x509 io_res" where
  "sym_parsed sy cert =
     (case sy_parse sy cert of
        Inl e \<Rightarrow> Inl (Fail (crypto_other ''parse DER certificate'' e))
      | Inr (rest, x) \<Rightarrow> if rest \<noteq> [] then io_fail InvalidData ''trailing certificate data'' else Inr x)"

definition sym_pem_cert :: "('ee, 'alg, 'key) symcrypt \<Rightarrow> string + bytes \<Rightarrow> bytes io_res" where
  "sym_pem_cert sy der =
     (case der of
        Inl e \<Rightarrow> Inl (Fail (crypto_other ''parse PEM certificate'' e))
      | Inr cert \<Rightarrow> and_then (sym_parsed sy cert) (\<lambda>_. Inr cert))"

definition sym_parse_pem_chain :: "('ee, 'alg, 'key) symcrypt \<Rightarrow> bytes \<Rightarrow> bytes list io_res" where
  "sym_parse_pem_chain sy pem = collect_results (sym_pem_cert sy) (sy_pem_certs sy pem)"

definition sym_cert_from_pem :: "('ee, 'alg, 'key) symcrypt \<Rightarrow> bytes \<Rightarrow> bytes io_res" where
  "sym_cert_from_pem sy pem =
     and_then (sym_parse_pem_chain sy pem) (\<lambda>certs.
     case certs of [] \<Rightarrow> io_fail InvalidData ''empty certificate PEM'' | cert # _ \<Rightarrow> Inr cert)"

text \<open>RSA-PSS with SHA-384 as AMD encodes it, with the default trailer field written out.\<close>

definition AMD_PSS_SHA384 :: bytes where
  "AMD_PSS_SHA384 =
     [0x06, 0x09, 0x2A, 0x86, 0x48, 0x86, 0xF7, 0x0D, 0x01, 0x01, 0x0A, 0x30, 0x39, 0xA0, 0x0F, 0x30, 0x0D, 0x06, 0x09,
      0x60, 0x86, 0x48, 0x01, 0x65, 0x03, 0x04, 0x02, 0x02, 0x05, 0x00, 0xA1, 0x1C, 0x30, 0x1A, 0x06, 0x09, 0x2A, 0x86,
      0x48, 0x86, 0xF7, 0x0D, 0x01, 0x01, 0x08, 0x30, 0x0D, 0x06, 0x09, 0x60, 0x86, 0x48, 0x01, 0x65, 0x03, 0x04, 0x02,
      0x02, 0x05, 0x00, 0xA2, 0x03, 0x02, 0x01, 0x30, 0xA3, 0x03, 0x02, 0x01, 0x01]"

text \<open>The algorithms of the provider, and the one for AMD's encoding. The \<open>expect\<close> panics where there is none.\<close>

definition sym_algorithms :: "('ee, 'alg, 'key) symcrypt \<Rightarrow> ('e, (bytes \<times> 'alg) list) res" where
  "sym_algorithms sy =
     (case find (\<lambda>(alg_id, _). alg_id = sy_rsa_pss_sha384 sy) (sy_all_algorithms sy) of
        None \<Rightarrow> Inl Panic
      | Some (_, alg) \<Rightarrow> Inr (sy_all_algorithms sy @ [(AMD_PSS_SHA384, alg)]))"

definition sym_self_signature :: "('ee, 'alg, 'key) symcrypt \<Rightarrow> bytes \<Rightarrow> unit io_res" where
  "sym_self_signature sy cert =
     and_then (sym_parsed sy cert) (\<lambda>parsed.
     if sx_subject parsed \<noteq> sx_issuer parsed \<or> sx_signature_algorithm parsed \<noteq> sx_tbs_algorithm parsed then
       io_fail InvalidData ''not self-signed''
     else
       case sy_signature_id sy cert of
         Inl e \<Rightarrow> Inl (Fail e)
       | Inr algorithm \<Rightarrow>
           (case sy_end_entity sy cert of
              Inl e \<Rightarrow> Inl (Fail (crypto_other ''certificate public key'' (sy_webpki_text sy e)))
            | Inr end_entity \<Rightarrow>
                and_then (sym_algorithms sy) (\<lambda>algs.
                if list_ex (\<lambda>alg. fst alg = algorithm \<and>
                     sy_verify_signature sy end_entity alg (sx_tbs parsed) (sx_signature parsed)) algs
                then Inr () else io_fail OtherKind ''self-signature verification failed'')))"

text \<open>\<open>is_ok()\<close>. The interface of the backends has no place for a panic here: it counts as not self-signed.\<close>

definition sym_cert_is_self_signed :: "('ee, 'alg, 'key) symcrypt \<Rightarrow> bytes \<Rightarrow> bool" where
  "sym_cert_is_self_signed sy cert = (sym_self_signature sy cert = Inr ())"

section \<open>Signatures\<close>

text \<open>One round of the loop over \<open>r\<close> and \<open>s\<close>: the integer without its leading zeros at the end of its half.\<close>

definition put_component :: "nat \<Rightarrow> bytes \<Rightarrow> bytes \<Rightarrow> bytes io_res" where
  "put_component width integer component =
     (let first = length (takeWhile (\<lambda>b. b = 0) integer);
          integer = drop first integer
      in if width < length integer then io_fail InvalidData ''ECDSA component exceeds curve width''
         else Inr (take (width - length integer) component @ integer))"

definition sym_signature :: "nat \<Rightarrow> bytes \<Rightarrow> bytes \<Rightarrow> bytes io_res" where
  "sym_signature width r_be s_be =
     (let signature = replicate (2 * width) 0 in
      and_then (put_component width r_be (take width signature)) (\<lambda>r.
      and_then (put_component width s_be (drop width signature)) (\<lambda>s.
      Inr (r @ s))))"

fun sym_hash :: "('ee, 'alg, 'key) symcrypt \<Rightarrow> digest_alg \<Rightarrow> bytes \<Rightarrow> bytes" where
  "sym_hash sy Sha256_Alg msg = sy_sha256 sy msg"
| "sym_hash sy Sha384_Alg msg = sy_sha384 sy msg"

definition sym_verify_ec ::
    "('ee, 'alg, 'key) symcrypt \<Rightarrow> curve_type \<Rightarrow> nat \<Rightarrow> bytes \<Rightarrow> digest_alg \<Rightarrow> bytes \<Rightarrow> bytes \<Rightarrow> bytes \<Rightarrow> bool io_res" where
  "sym_verify_ec sy curve width point alg msg r_be s_be =
     and_then (sym_signature width r_be s_be) (\<lambda>signature.
     case sy_set_public_key sy curve point of
       Inl e \<Rightarrow> Inl (Fail (crypto_other ''SymCrypt EC public key'' e))
     | Inr key \<Rightarrow>
         (case sy_ecdsa_verify sy key signature (sym_hash sy alg msg) of
            Ec_Ok \<Rightarrow> Inr True
          | Ec_Signature_Failure \<Rightarrow> Inr False
          | Ec_Error e \<Rightarrow> Inl (Fail (crypto_other ''SymCrypt ECDSA verification'' e))))"

definition named_curve :: "string \<Rightarrow> (curve_type \<times> nat) option" where
  "named_curve oid =
     (if oid = ''1.2.840.10045.3.1.7'' then Some (NistP256, 32)
      else if oid = ''1.3.132.0.34'' then Some (NistP384, 48)
      else None)"

definition sym_ecdsa_verify_raw ::
    "('ee, 'alg, 'key) symcrypt \<Rightarrow> bytes \<Rightarrow> digest_alg \<Rightarrow> bytes \<Rightarrow> bytes \<Rightarrow> bytes \<Rightarrow> bool io_res" where
  "sym_ecdsa_verify_raw sy cert alg msg r_be s_be =
     and_then (sym_parsed sy cert) (\<lambda>parsed.
     if sx_spki_oid parsed \<noteq> ''1.2.840.10045.2.1'' then io_fail InvalidData ''expected EC public key''
     else
       case sx_spki_curve parsed of
         None \<Rightarrow> io_fail InvalidData ''missing EC named curve''
       | Some oid \<Rightarrow>
           (case named_curve oid of
              None \<Rightarrow> io_fail InvalidData ''unsupported EC curve''
            | Some (curve, width) \<Rightarrow>
                let point = sx_public_key parsed in
                if (point = [] \<or> hd point \<noteq> 4) \<or> length point \<noteq> 1 + 2 * width then
                  io_fail InvalidData ''invalid uncompressed EC point''
                else sym_verify_ec sy curve width (drop 1 point) alg msg r_be s_be))"

definition sym_ecdsa_p256_verify_point ::
    "('ee, 'alg, 'key) symcrypt \<Rightarrow> bytes \<Rightarrow> bytes \<Rightarrow> bytes \<Rightarrow> bytes \<Rightarrow> bool io_res" where
  "sym_ecdsa_p256_verify_point sy x_y msg r_be s_be =
     (if length x_y \<noteq> 64 then io_fail InvalidData ''P-256 point must be 64 bytes''
      else sym_verify_ec sy NistP256 32 x_y Sha256_Alg msg r_be s_be)"

section \<open>Chains\<close>

text \<open>The extended key usages may be any, as long as they can be read.\<close>

fun attestation_usage :: "(webpki_error + bytes) list \<Rightarrow> webpki_res" where
  "attestation_usage [] = Inr ()"
| "attestation_usage (Inl e # _) = Inl (Fail e)"
| "attestation_usage (Inr _ # purposes) = attestation_usage purposes"

definition issuer_key_usage :: "sym_x509 \<Rightarrow> webpki_res" where
  "issuer_key_usage cert =
     (case sx_key_usage cert of
        Inl _ \<Rightarrow> Inl (Fail ExtensionValueInvalid)
      | Inr (Some False) \<Rightarrow> Inl (Fail ExtensionValueInvalid)
      | Inr _ \<Rightarrow> Inr ())"

definition root_constraints :: "sym_x509 \<Rightarrow> nat \<Rightarrow> webpki_res" where
  "root_constraints cert subordinate_cas =
     (case sx_basic_constraints cert of
        Inl _ \<Rightarrow> Inl (Fail ExtensionValueInvalid)
      | Inr (Some (ca, path_len)) \<Rightarrow>
          if \<not> ca then Inl (Fail EndEntityUsedAsCa)
          else if (case path_len of Some m \<Rightarrow> unat m < subordinate_cas | None \<Rightarrow> False) then Inl (Fail PathLenConstraintViolated)
          else Inr ()
      | Inr None \<Rightarrow> if sx_is_v1 cert then Inr () else Inl (Fail EndEntityUsedAsCa))"

definition root_policy :: "('ee, 'alg, 'key) symcrypt \<Rightarrow> bytes \<Rightarrow> nat \<Rightarrow> nat \<Rightarrow> webpki_res" where
  "root_policy sy root time subordinate_cas =
     and_then (map_err (\<lambda>_. BadDer) (sym_parsed sy root)) (\<lambda>cert.
     if 2 ^ 63 \<le> time then Inl (Fail InvalidCertValidity)
     else
       case sy_asn1_time sy (int time) of
         None \<Rightarrow> Inl (Fail InvalidCertValidity)
       | Some when \<Rightarrow>
           if \<not> sx_valid_at cert when then Inl (Fail InvalidCertValidity)
           else if sx_extensions_map cert = Inl () then Inl (Fail ExtensionValueInvalid)
           else if list_ex (\<lambda>(critical, kind). critical \<and> kind = Ext_Other) (sx_extensions cert) then
             Inl (Fail UnsupportedCriticalExtension)
           else and_then (issuer_key_usage cert) (\<lambda>_. root_constraints cert subordinate_cas))"

text \<open>The loop over the intermediates of a path counts those that are not self-issued.\<close>

fun count_subordinates :: "('ee, 'alg, 'key) symcrypt \<Rightarrow> nat \<Rightarrow> bytes list \<Rightarrow> (webpki_error, nat) res" where
  "count_subordinates sy n [] = Inr n"
| "count_subordinates sy n (der # issuers) =
     (case sy_parse sy der of
        Inl _ \<Rightarrow> Inl (Fail BadDer)
      | Inr (_, cert) \<Rightarrow>
          and_then (issuer_key_usage cert) (\<lambda>_.
          count_subordinates sy (if sx_subject cert \<noteq> sx_issuer cert then n + 1 else n) issuers))"

text \<open>The loop over the pinned roots and their anchors, with the last error.\<close>

fun try_roots ::
    "('ee, 'alg, 'key) symcrypt \<Rightarrow> nat \<Rightarrow> trust_anchor \<Rightarrow> nat \<Rightarrow> webpki_error \<Rightarrow> (bytes \<times> trust_anchor) list \<Rightarrow> webpki_res" where
  "try_roots sy time used subordinate_cas err [] = Inl (Fail err)"
| "try_roots sy time used subordinate_cas err ((root, anchor) # rest) =
     (if ta_subject anchor \<noteq> ta_subject used \<or> ta_spki anchor \<noteq> ta_spki used \<or>
         ta_name_constraints anchor \<noteq> ta_name_constraints used
      then try_roots sy time used subordinate_cas err rest
      else
        case root_policy sy root time subordinate_cas of
          Inr _ \<Rightarrow> Inr ()
        | Inl (Fail e) \<Rightarrow> try_roots sy time used subordinate_cas e rest
        | Inl Panic \<Rightarrow> Inl Panic)"

definition path_policy ::
    "('ee, 'alg, 'key) symcrypt \<Rightarrow> bytes list \<Rightarrow> trust_anchor list \<Rightarrow> nat \<Rightarrow> verified_path \<Rightarrow> webpki_res" where
  "path_policy sy roots anchors time path =
     and_then (count_subordinates sy 0 (vp_intermediates path)) (\<lambda>subordinate_cas.
     try_roots sy time (vp_anchor path) subordinate_cas UnknownIssuer (zip roots anchors))"

definition trusted_anchor :: "('ee, 'alg, 'key) symcrypt \<Rightarrow> bytes \<Rightarrow> trust_anchor io_res" where
  "trusted_anchor sy cert =
     (case sy_anchor sy cert of
        Inl e \<Rightarrow> Inl (Fail (crypto_other ''pinned root'' (sy_webpki_text sy e)))
      | Inr a \<Rightarrow> Inr a)"

definition sym_verify_cert_chain_at ::
    "('ee, 'alg, 'key) symcrypt \<Rightarrow> bytes \<Rightarrow> bytes list \<Rightarrow> bytes list \<Rightarrow> nat \<Rightarrow> unit io_res" where
  "sym_verify_cert_chain_at sy leaf intermediates roots time =
     and_then (collect_results (trusted_anchor sy) roots) (\<lambda>anchors.
     case sy_end_entity sy leaf of
       Inl e \<Rightarrow> Inl (Fail (crypto_other ''leaf certificate'' (sy_webpki_text sy e)))
     | Inr ee \<Rightarrow>
         and_then (sym_algorithms sy) (\<lambda>algs.
         map_err (\<lambda>e. crypto_other ''SymCrypt certificate chain validation'' (sy_webpki_text sy e))
           (sy_verify_for_usage sy ee algs anchors intermediates time attestation_usage
             (path_policy sy roots anchors time))))"

definition sym_verify_cert_chain ::
    "('ee, 'alg, 'key) symcrypt \<Rightarrow> bytes \<Rightarrow> bytes list \<Rightarrow> bytes list \<Rightarrow> unit io_res" where
  "sym_verify_cert_chain sy leaf intermediates roots =
     sym_verify_cert_chain_at sy leaf intermediates roots (sy_now sy)"

definition symcrypt_backend :: "('ee, 'alg, 'key) symcrypt \<Rightarrow> bytes crypto_backend" where
  "symcrypt_backend sy =
     \<lparr>cb_sha256 = (\<lambda>data. Inr (sy_sha256 sy data)), cb_parse_pem_chain = sym_parse_pem_chain sy,
      cb_cert_from_pem = sym_cert_from_pem sy, cb_cert_to_der = Inr, cb_cert_is_self_signed = sym_cert_is_self_signed sy,
      cb_ecdsa_verify_raw = sym_ecdsa_verify_raw sy, cb_ecdsa_p256_verify_point = sym_ecdsa_p256_verify_point sy,
      cb_verify_cert_chain = sym_verify_cert_chain sy\<rparr>"

end
