(* ===== verification/Verify_Openssl.thy ===== *)
theory Verify_Openssl
  imports Verify_Symcrypt
begin

text \<open>
  The Linux backend of the verifiers (\<open>SDK/verify/crypto/openssl.rs\<close>): the sequence of OpenSSL calls of each operation and what
  becomes of their errors. The calls are parameters; an error is its text.
\<close>

record ('x509, 'pkey, 'ec, 'sig, 'point, 'store) openssl =
  os_hash :: "digest_alg \<Rightarrow> bytes \<Rightarrow> string + bytes"
  os_stack_from_pem :: "bytes \<Rightarrow> string + 'x509 list"
  os_from_pem :: "bytes \<Rightarrow> string + 'x509"
  os_to_der :: "'x509 \<Rightarrow> string + bytes"
  os_issued :: "'x509 \<Rightarrow> 'x509 \<Rightarrow> bool"
  os_public_key :: "'x509 \<Rightarrow> string + 'pkey"
  os_ec_key :: "'pkey \<Rightarrow> string + 'ec"
  os_bignum :: "bytes \<Rightarrow> string + nat"
  os_ecdsa_sig :: "nat \<Rightarrow> nat \<Rightarrow> string + 'sig"
  os_verify :: "'sig \<Rightarrow> bytes \<Rightarrow> 'ec \<Rightarrow> string + bool"
  os_p256_group :: "string + unit"
  os_bignum_context :: "string + unit"
  os_point :: "bytes \<Rightarrow> string + 'point"
  os_key_of_point :: "'point \<Rightarrow> string + 'ec"
  os_store :: "string + 'store"
  os_add_cert :: "'store \<Rightarrow> 'x509 \<Rightarrow> string + 'store"
  os_stack :: "string + 'x509 list"
  os_push :: "'x509 list \<Rightarrow> 'x509 \<Rightarrow> string + 'x509 list"
  os_context :: "string + unit"
  os_verify_cert :: "'store \<Rightarrow> 'x509 \<Rightarrow> 'x509 list \<Rightarrow> string + bool \<times> string"

type_synonym ('x509, 'pkey, 'ec, 'sig, 'point, 'store) ossl =
  "('x509, 'pkey, 'ec, 'sig, 'point, 'store) openssl"

text \<open>\<open>map_err(|e| other(what, e))?\<close>\<close>

definition ossl_call :: "string \<Rightarrow> string + 'a \<Rightarrow> 'a io_res" where
  "ossl_call what r = (case r of Inl e \<Rightarrow> Inl (Fail (crypto_other what e)) | Inr x \<Rightarrow> Inr x)"

definition ossl_sha256 :: "('x509, 'pkey, 'ec, 'sig, 'point, 'store) ossl \<Rightarrow> bytes \<Rightarrow> bytes io_res" where
  "ossl_sha256 os data = ossl_call ''sha256'' (os_hash os Sha256_Alg data)"

definition ossl_parse_pem_chain :: "('x509, 'pkey, 'ec, 'sig, 'point, 'store) ossl \<Rightarrow> bytes \<Rightarrow> 'x509 list io_res" where
  "ossl_parse_pem_chain os pem = ossl_call ''parse PEM cert chain'' (os_stack_from_pem os pem)"

definition ossl_cert_from_pem :: "('x509, 'pkey, 'ec, 'sig, 'point, 'store) ossl \<Rightarrow> bytes \<Rightarrow> 'x509 io_res" where
  "ossl_cert_from_pem os pem = ossl_call ''parse PEM certificate'' (os_from_pem os pem)"

definition ossl_cert_to_der :: "('x509, 'pkey, 'ec, 'sig, 'point, 'store) ossl \<Rightarrow> 'x509 \<Rightarrow> bytes io_res" where
  "ossl_cert_to_der os cert = ossl_call ''encode DER certificate'' (os_to_der os cert)"

definition ossl_cert_is_self_signed :: "('x509, 'pkey, 'ec, 'sig, 'point, 'store) ossl \<Rightarrow> 'x509 \<Rightarrow> bool" where
  "ossl_cert_is_self_signed os cert = os_issued os cert cert"

definition ossl_ecdsa_verify_raw ::
    "('x509, 'pkey, 'ec, 'sig, 'point, 'store) ossl \<Rightarrow> 'x509 \<Rightarrow> digest_alg \<Rightarrow> bytes \<Rightarrow> bytes \<Rightarrow> bytes \<Rightarrow> bool io_res" where
  "ossl_ecdsa_verify_raw os cert alg msg r_be s_be =
     and_then (ossl_call ''certificate public key'' (os_public_key os cert)) (\<lambda>pkey.
     and_then (ossl_call ''EC public key'' (os_ec_key os pkey)) (\<lambda>ec.
     and_then (ossl_call ''ECDSA r'' (os_bignum os r_be)) (\<lambda>r.
     and_then (ossl_call ''ECDSA s'' (os_bignum os s_be)) (\<lambda>s.
     and_then (ossl_call ''ECDSA sig'' (os_ecdsa_sig os r s)) (\<lambda>sig.
     and_then (ossl_call ''digest'' (os_hash os alg msg)) (\<lambda>dgst.
     ossl_call ''ECDSA verify'' (os_verify os sig dgst ec)))))))"

definition ossl_ecdsa_p256_verify_point ::
    "('x509, 'pkey, 'ec, 'sig, 'point, 'store) ossl \<Rightarrow> bytes \<Rightarrow> bytes \<Rightarrow> bytes \<Rightarrow> bytes \<Rightarrow> bool io_res" where
  "ossl_ecdsa_p256_verify_point os x_y msg r_be s_be =
     (if length x_y \<noteq> 64 then
        io_fail InvalidData (''P-256 public point must be 64 bytes, got '' @ fmt_dec (length x_y))
      else
        and_then (ossl_call ''P-256 group'' (os_p256_group os)) (\<lambda>_.
        and_then (ossl_call ''bn context'' (os_bignum_context os)) (\<lambda>_.
        and_then (ossl_call ''EC point'' (os_point os (4 # x_y))) (\<lambda>point.
        and_then (ossl_call ''EC public key'' (os_key_of_point os point)) (\<lambda>ec.
        and_then (ossl_call ''ECDSA r'' (os_bignum os r_be)) (\<lambda>r.
        and_then (ossl_call ''ECDSA s'' (os_bignum os s_be)) (\<lambda>s.
        and_then (ossl_call ''ECDSA sig'' (os_ecdsa_sig os r s)) (\<lambda>sig.
        and_then (ossl_call ''sha256'' (os_hash os Sha256_Alg msg)) (\<lambda>dgst.
        ossl_call ''ECDSA verify'' (os_verify os sig dgst ec))))))))))"

text \<open>\<open>for x in xs { acc = f(acc, x).map_err(..)?; }\<close>\<close>

fun ossl_fold :: "string \<Rightarrow> ('a \<Rightarrow> 'b \<Rightarrow> string + 'a) \<Rightarrow> 'a \<Rightarrow> 'b list \<Rightarrow> 'a io_res" where
  "ossl_fold what f acc [] = Inr acc"
| "ossl_fold what f acc (x # xs) = and_then (ossl_call what (f acc x)) (\<lambda>acc. ossl_fold what f acc xs)"

definition ossl_verify_cert_chain ::
    "('x509, 'pkey, 'ec, 'sig, 'point, 'store) ossl \<Rightarrow> 'x509 \<Rightarrow> 'x509 list \<Rightarrow> 'x509 list \<Rightarrow> unit io_res" where
  "ossl_verify_cert_chain os leaf intermediates roots =
     and_then (ossl_call ''X509 store'' (os_store os)) (\<lambda>builder.
     and_then (ossl_fold ''add trusted root'' (os_add_cert os) builder roots) (\<lambda>store.
     and_then (ossl_call ''cert stack'' (os_stack os)) (\<lambda>chain.
     and_then (ossl_fold ''push intermediate'' (os_push os) chain intermediates) (\<lambda>chain.
     and_then (ossl_call ''store context'' (os_context os)) (\<lambda>_.
     and_then (ossl_call ''chain verify'' (os_verify_cert os store leaf chain)) (\<lambda>(verified, err).
     if verified then Inr () else io_fail OtherKind (''certificate chain validation failed: '' @ err)))))))"

definition openssl_backend :: "('x509, 'pkey, 'ec, 'sig, 'point, 'store) ossl \<Rightarrow> 'x509 crypto_backend" where
  "openssl_backend os =
     \<lparr>cb_sha256 = ossl_sha256 os, cb_parse_pem_chain = ossl_parse_pem_chain os, cb_cert_from_pem = ossl_cert_from_pem os,
      cb_cert_to_der = ossl_cert_to_der os, cb_cert_is_self_signed = ossl_cert_is_self_signed os,
      cb_ecdsa_verify_raw = ossl_ecdsa_verify_raw os, cb_ecdsa_p256_verify_point = ossl_ecdsa_p256_verify_point os,
      cb_verify_cert_chain = ossl_verify_cert_chain os\<rparr>"

text \<open>No operation panics.\<close>

lemma ossl_call_no_panic [no_panic]: "ossl_call what r \<noteq> Inl Panic"
  by (simp add: ossl_call_def split: sum.split)

lemma ossl_fold_no_panic [no_panic]: "ossl_fold what f acc xs \<noteq> Inl Panic"
proof (induction xs arbitrary: acc)
  case (Cons x xs)
  show ?case unfolding ossl_fold.simps by (intro no_panic Cons.IH)
qed simp

lemma openssl_raw_no_panic: "cb_ecdsa_verify_raw (openssl_backend os) cert alg msg r s \<noteq> Inl Panic"
  unfolding openssl_backend_def crypto_backend.simps ossl_ecdsa_verify_raw_def by (intro no_panic)

lemma openssl_point_no_panic: "cb_ecdsa_p256_verify_point (openssl_backend os) x_y msg r s \<noteq> Inl Panic"
  unfolding openssl_backend_def crypto_backend.simps ossl_ecdsa_p256_verify_point_def
  by (cases "length x_y \<noteq> 64") (simp, simp only: if_False, intro no_panic)

lemma openssl_chain_no_panic: "cb_verify_cert_chain (openssl_backend os) cert intermediates roots \<noteq> Inl Panic"
  unfolding openssl_backend_def crypto_backend.simps ossl_verify_cert_chain_def
  by (intro no_panic) (simp split: prod.split)

end
