(* ===== verification/Verify_Backend_Facts.thy ===== *)
theory Verify_Backend_Facts
  imports Verify_Symcrypt
begin

text \<open>
  What the backends of the verifiers guarantee: the bytes of a signature that reach the library, and which certificates
  stand between a leaf and a pinned root when a chain is accepted.
\<close>

section \<open>Integers of a fixed width\<close>

fun be_value :: "bytes \<Rightarrow> nat" where
  "be_value [] = 0"
| "be_value (b # bs) = unat b * 256 ^ length bs + be_value bs"

lemma be_value_zeros [simp]: "be_value (replicate n 0 @ bs) = be_value bs"
  by (induction n) simp_all

lemma be_value_less: "be_value bs < 256 ^ length bs"
proof (induction bs)
  case Nil
  then show ?case by simp
next
  case (Cons b bs)
  let ?m = "256 ^ length bs :: nat"
  have "unat b < 2 ^ 8" using unsigned_less [of b] by simp
  then have "unat b + 1 \<le> 256" by simp
  from mult_le_mono1 [OF this, of ?m] have "unat b * ?m + ?m \<le> 256 * ?m" by (simp only: add_mult_distrib mult_1)
  with Cons have "unat b * ?m + be_value bs < 256 * ?m" by linarith
  then show ?case by (simp only: be_value.simps length_Cons power_Suc)
qed

lemma be_value_inject:
  "length as = length bs \<Longrightarrow> be_value as = be_value bs \<Longrightarrow> as = bs"
proof (induction as bs rule: list_induct2)
  case Nil
  then show ?case by simp
next
  case (Cons a as b bs)
  let ?m = "256 ^ length bs :: nat"
  have eq: "unat a * ?m + be_value as = unat b * ?m + be_value bs" using Cons.prems Cons.hyps by simp
  have less: "be_value as < ?m" "be_value bs < ?m" using be_value_less [of as] be_value_less [of bs] Cons.hyps by simp_all
  have "unat a = unat b" using arg_cong [OF eq, where f = "\<lambda>n. n div ?m"] less by simp
  moreover from this eq have "be_value as = be_value bs" by simp
  ultimately show ?case using Cons.IH by (simp add: word_unat_eq_iff)
qed

lemma be_value_trimmed: "be_value (dropWhile (\<lambda>b. b = 0) bs) = be_value bs"
  by (induction bs) simp_all

lemma be_value_lower: "bs \<noteq> [] \<Longrightarrow> hd bs \<noteq> 0 \<Longrightarrow> 256 ^ (length bs - 1) \<le> be_value bs"
proof (cases bs)
  case (Cons b bs')
  let ?m = "256 ^ length bs' :: nat"
  assume "hd bs \<noteq> 0"
  with Cons have "1 \<le> unat b" by (simp add: unat_gt_0 Suc_le_eq)
  from mult_le_mono1 [OF this, of ?m] have "?m \<le> unat b * ?m + be_value bs'" by linarith
  then show ?thesis unfolding Cons by (simp only: be_value.simps length_Cons diff_Suc_1)
qed simp

text \<open>Without its leading zeros an integer is at most as long as any of its encodings.\<close>

lemma trimmed_shortest:
  assumes "be_value out = be_value v"
  shows "length (dropWhile (\<lambda>b. b = 0) v) \<le> length out"
proof (rule ccontr)
  let ?t = "dropWhile (\<lambda>b. b = 0) v"
  assume "\<not> length ?t \<le> length out"
  then have "0 < length ?t" and l: "length out \<le> length ?t - 1" by linarith+
  from this(1) have ne: "?t \<noteq> []" unfolding length_greater_0_conv .
  then have "hd ?t \<noteq> 0" using hd_dropWhile [OF ne] by blast
  with ne have "256 ^ (length ?t - 1) \<le> be_value ?t" by (rule be_value_lower)
  moreover have "(256 :: nat) ^ length out \<le> 256 ^ (length ?t - 1)" using l by (rule power_increasing) simp
  ultimately show False using be_value_less [of out] assms unfolding be_value_trimmed by linarith
qed

lemma fixed_width_exact:
  "fixed_width_be v w what = Inr out \<longleftrightarrow> length out = w \<and> be_value out = be_value v"
proof
  assume "fixed_width_be v w what = Inr out"
  then show "length out = w \<and> be_value out = be_value v"
    by (auto simp: fixed_width_be_def Let_def be_value_trimmed split: if_splits)
next
  assume a: "length out = w \<and> be_value out = be_value v"
  let ?t = "dropWhile (\<lambda>b. b = 0) v"
  have l: "length ?t \<le> w" using a trimmed_shortest [of out v] by simp
  have "out = replicate (w - length ?t) 0 @ ?t"
    using a l by (intro be_value_inject) (simp_all add: be_value_trimmed)
  with l show "fixed_width_be v w what = Inr out" by (simp add: fixed_width_be_def Let_def)
qed

lemma put_component_fixed:
  assumes "length component = w" "set component \<subseteq> {0}"
  shows "put_component w v component = Inr out \<longleftrightarrow> fixed_width_be v w what = Inr out"
proof -
  have "component = replicate w 0" using assms by (auto intro!: replicate_eqI)
  moreover have "drop (length (takeWhile (\<lambda>b. b = 0) v)) v = dropWhile (\<lambda>b. b = 0) v"
    by (simp add: dropWhile_eq_drop)
  moreover from this have "length (dropWhile (\<lambda>b. b = 0) v) = length v - length (takeWhile (\<lambda>b. b = 0) v)"
    by (metis length_drop)
  ultimately show ?thesis by (auto simp: put_component_def fixed_width_be_def Let_def)
qed

lemma put_component_exact:
  "set zeros \<subseteq> {0} \<Longrightarrow> length zeros = w \<Longrightarrow>
     put_component w x zeros = Inr out \<longleftrightarrow> length out = w \<and> be_value out = be_value x"
  using put_component_fixed [of zeros w x out "[]"] fixed_width_exact [of x w "[]" out] by simp

lemma sym_signature_exact:
  "sym_signature w r s = Inr sig \<longleftrightarrow>
     length sig = 2 * w \<and> be_value (take w sig) = be_value r \<and> be_value (drop w sig) = be_value s"
proof -
  have halves: "put_component w x (take w (replicate (2 * w) 0)) = Inr out \<longleftrightarrow> length out = w \<and> be_value out = be_value x"
    "put_component w x (drop w (replicate (2 * w) 0)) = Inr out \<longleftrightarrow> length out = w \<and> be_value out = be_value x" for x out
    by (rule put_component_exact; auto dest: in_set_takeD in_set_dropD)+
  show ?thesis
  proof
    assume "sym_signature w r s = Inr sig"
    then show "length sig = 2 * w \<and> be_value (take w sig) = be_value r \<and> be_value (drop w sig) = be_value s"
      unfolding sym_signature_def Let_def and_then_eq_Inr halves by auto
  next
    assume a: "length sig = 2 * w \<and> be_value (take w sig) = be_value r \<and> be_value (drop w sig) = be_value s"
    then have "length (take w sig) = w" "length (drop w sig) = w" "sig = take w sig @ drop w sig" by simp_all
    with a show "sym_signature w r s = Inr sig"
      unfolding sym_signature_def Let_def and_then_eq_Inr halves by (metis (no_types))
  qed
qed

text \<open>
  C9. The Windows backend accepts a component of a signature exactly when its value has an encoding
  of the width of the curve, and passes that encoding on; the SymCrypt backend accepts a pair of components exactly
  when both values have one, and passes on the two encodings side by side. No component changes its value.
\<close>

theorem ecdsa_integers_exact:
  "(fixed_width_be v w what = Inr out \<longleftrightarrow> length out = w \<and> be_value out = be_value v) \<and>
   (sym_signature w r s = Inr sig \<longleftrightarrow>
      length sig = 2 * w \<and> be_value (take w sig) = be_value r \<and> be_value (drop w sig) = be_value s)"
  using fixed_width_exact sym_signature_exact by blast

section \<open>Chains built by hand\<close>

definition valid_now :: "('ctx, 'key) cng \<Rightarrow> win_cert \<Rightarrow> bool" where
  "valid_now cg c = (case win_context cg c of Inr ctx \<Rightarrow> cg_time_valid cg ctx | Inl _ \<Rightarrow> False)"

definition issued :: "('ctx, 'key) cng \<Rightarrow> win_cert \<Rightarrow> win_cert \<Rightarrow> bool" where
  "issued cg subject issuer =
     (case win_context cg subject of Inr ctx \<Rightarrow> win_issued_by cg ctx issuer | Inl _ \<Rightarrow> False)"

text \<open>A path of certificates: from the first, over some of the intermediates, to a root.\<close>

definition trusted_path ::
    "('ctx, 'key) cng \<Rightarrow> win_cert list \<Rightarrow> win_cert list \<Rightarrow> win_cert list \<Rightarrow> win_cert \<Rightarrow> bool" where
  "trusted_path cg intermediates roots cs root \<longleftrightarrow>
     root \<in> set roots \<and> set (tl cs) \<subseteq> set intermediates \<and> list_all (valid_now cg) (cs @ [root]) \<and>
     successively (issued cg) (cs @ [root])"

lemma chain_walk_path:
  "win_chain_walk cg intermediates roots n leaf = Inr () \<Longrightarrow>
     \<exists>cs root. cs \<noteq> [] \<and> hd cs = leaf \<and> length cs \<le> n \<and> trusted_path cg intermediates roots cs root"
proof (induction n arbitrary: leaf)
  case 0
  then show ?case by simp
next
  case (Suc n)
  then obtain ctx where ctx: "win_context cg leaf = Inr ctx" and time: "cg_time_valid cg ctx"
    by (auto simp: and_then_eq_Inr split: if_splits)
  have now: "valid_now cg leaf" using ctx time by (simp add: valid_now_def)
  show ?case
  proof (cases "find (win_issued_by cg ctx) roots")
    case (Some root)
    then have root: "root \<in> set roots" "win_issued_by cg ctx root" by (auto simp: find_Some_iff)
    with Suc.prems ctx time Some have "valid_now cg root"
      by (auto simp: and_then_eq_Inr valid_now_def split: if_splits)
    with root now ctx have "trusted_path cg intermediates roots [leaf] root"
      by (simp add: trusted_path_def issued_def)
    then show ?thesis by (intro exI [of _ "[leaf]"]) auto
  next
    case None
    with Suc.prems ctx time obtain c where c: "find (\<lambda>c. c \<noteq> leaf \<and> win_issued_by cg ctx c) intermediates = Some c"
      and walk: "win_chain_walk cg intermediates roots n c = Inr ()"
      by (auto split: option.splits)
    from c have mem: "c \<in> set intermediates" "win_issued_by cg ctx c" by (auto simp: find_Some_iff)
    from Suc.IH [OF walk] obtain cs root where cs: "cs \<noteq> []" "hd cs = c" "length cs \<le> n"
      and path: "trusted_path cg intermediates roots cs root" by blast
    from path cs mem now ctx have "trusted_path cg intermediates roots (leaf # cs) root"
      by (cases cs) (auto simp: trusted_path_def issued_def)
    with cs show ?thesis by (intro exI [of _ "leaf # cs"]) auto
  qed
qed

text \<open>What an accepted chain amounts to: a path of at most eight certificates.\<close>

definition win_anchored :: "('ctx, 'key) cng \<Rightarrow> win_cert \<Rightarrow> win_cert list \<Rightarrow> win_cert list \<Rightarrow> bool" where
  "win_anchored cg leaf intermediates roots \<longleftrightarrow>
     (\<exists>cs root. cs \<noteq> [] \<and> hd cs = leaf \<and> length cs \<le> 8 \<and> trusted_path cg intermediates roots cs root)"

lemma windows_chain_anchored:
  "cb_verify_cert_chain (windows_backend cg) leaf intermediates roots = Inr () \<Longrightarrow> win_anchored cg leaf intermediates roots"
  using chain_walk_path [of cg intermediates roots 8 leaf]
  by (auto simp: windows_backend_def win_verify_cert_chain_def MAX_CHAIN_DEPTH_def win_anchored_def split: if_splits)

text \<open>
  Certificates for examples: the first byte is the subject, the second the issuer, the third the key that signed it, the
  fourth its own key, the fifth its path length.
\<close>

definition toy_cng :: "(bytes, unit) cng" where
  "toy_cng =
     \<lparr>cg_create_context = (\<lambda>der. if length der = 5 then Inr der else Inl (Io_Msg OtherKind ''no certificate'')),
      cg_names_match = (\<lambda>c i. c ! 1 = i ! 0), cg_signature_ok = (\<lambda>c i. c ! 2 = i ! 3), cg_time_valid = (\<lambda>_. True),
      cg_constraints = (\<lambda>c. Some (drop 4 c)),
      cg_decode_constraints = (\<lambda>e. Some \<lparr>b2_ca = True, b2_path_len = Some (ucast (e ! 0))\<rparr>), cg_is_v1 = (\<lambda>_. False),
      cg_public_key_len = (\<lambda>_. 65), cg_import_spki = (\<lambda>_. Inr ()), cg_open_provider = (\<lambda>_. 0),
      cg_import_key = (\<lambda>_. (0, ())), cg_create_hash = (\<lambda>_. 0), cg_hash_data = (\<lambda>_ _. 0),
      cg_finish_hash = (\<lambda>_ _. (0, [])), cg_verify_signature = (\<lambda>_ _ _. 0), cg_b64_decode = (\<lambda>_. Inr [1, 3, 3, 1, 0])\<rparr>"

lemma toy_context: "length c = 5 \<Longrightarrow> win_context toy_cng c = Inr c"
  by (simp add: win_context_def len_u32_def toy_cng_def)

lemma toy_issued: "length i = 5 \<Longrightarrow> win_issued_by toy_cng c i \<longleftrightarrow> c ! 1 = i ! 0 \<and> c ! 2 = i ! 3"
  by (simp add: win_issued_by_def toy_context) (simp add: win_is_ca_def toy_cng_def)

lemma toy_walk:
  "length c = 5 \<Longrightarrow> 0 < n \<Longrightarrow> win_chain_walk toy_cng intermediates roots n c =
     (case find (win_issued_by toy_cng c) roots of
        Some root \<Rightarrow> and_then (win_context toy_cng root) (\<lambda>_. Inr ())
      | None \<Rightarrow>
          (case find (\<lambda>i. i \<noteq> c \<and> win_issued_by toy_cng c i) intermediates of
             Some i \<Rightarrow> win_chain_walk toy_cng intermediates roots (n - 1) i
           | None \<Rightarrow> chain_fail ''chain does not terminate at a pinned trust anchor''))"
  by (cases n) (simp_all add: toy_context, simp add: toy_cng_def split: option.split)

lemmas toy_chain = win_verify_cert_chain_def MAX_CHAIN_DEPTH_def toy_walk toy_issued toy_context

text \<open>
  The path length of a CA is decoded but has no influence: a chain is accepted over two CAs of which the upper one allows
  none below it.
\<close>

lemma path_length_ignored:
  "win_verify_cert_chain
     (cg\<lparr>cg_decode_constraints := \<lambda>e. map_option (\<lambda>bc. bc\<lparr>b2_path_len := f e\<rparr>) (cg_decode_constraints cg e)\<rparr>)
     leaf intermediates roots = win_verify_cert_chain cg leaf intermediates roots"
proof -
  let ?cg = "cg\<lparr>cg_decode_constraints := \<lambda>e. map_option (\<lambda>bc. bc\<lparr>b2_path_len := f e\<rparr>) (cg_decode_constraints cg e)\<rparr>"
  have ctx: "win_context ?cg = win_context cg" by (simp add: fun_eq_iff win_context_def)
  have ca: "win_is_ca ?cg = win_is_ca cg" by (auto simp: fun_eq_iff win_is_ca_def split: option.split)
  have "win_issued_by ?cg x i = win_issued_by cg x i" for x i unfolding win_issued_by_def ctx ca by (simp split: sum.split)
  then have issued: "win_issued_by ?cg = win_issued_by cg" by (intro ext)
  have time: "cg_time_valid ?cg = cg_time_valid cg" by simp
  have "win_chain_walk ?cg intermediates roots n c = win_chain_walk cg intermediates roots n c" for n c
  proof (induction n arbitrary: c)
    case (Suc n)
    show ?case unfolding win_chain_walk.simps ctx issued time Suc.IH ..
  qed simp
  then show ?thesis by (simp add: win_verify_cert_chain_def)
qed

lemma path_length_violation_accepted:
  "win_verify_cert_chain toy_cng [1, 2, 2, 1, 0] [[2, 4, 4, 2, 0], [4, 3, 3, 4, 0]] [[3, 3, 3, 3, 0]] = Inr ()"
  by (simp add: toy_chain)

text \<open>Only the first issuer that fits is followed: a path over the second is not found.\<close>

lemma second_issuer_not_tried:
  "win_verify_cert_chain toy_cng [1, 2, 2, 1, 0] [[2, 9, 9, 2, 0], [2, 3, 3, 2, 0]] [[3, 3, 3, 3, 0]] \<noteq> Inr () \<and>
   trusted_path toy_cng [[2, 9, 9, 2, 0], [2, 3, 3, 2, 0]] [[3, 3, 3, 3, 0]] [[1, 2, 2, 1, 0], [2, 3, 3, 2, 0]] [3, 3, 3, 3, 0]"
  by (simp add: toy_chain trusted_path_def valid_now_def issued_def) (simp add: toy_cng_def)

section \<open>Chains checked by WebPKI\<close>

text \<open>What a pinned root must be, with that many subordinate CAs below it.\<close>

definition may_anchor :: "('ee, 'alg, 'key) symcrypt \<Rightarrow> nat \<Rightarrow> nat \<Rightarrow> sym_x509 \<Rightarrow> bool" where
  "may_anchor sy time subordinate_cas x \<longleftrightarrow>
     time < 2 ^ 63 \<and>
     (case sy_asn1_time sy (int time) of None \<Rightarrow> False | Some when \<Rightarrow> sx_valid_at x when) \<and>
     sx_extensions_map x = Inr () \<and>
     list_all (\<lambda>(critical, kind). critical \<longrightarrow> kind \<noteq> Ext_Other) (sx_extensions x) \<and>
     sx_key_usage x \<in> {Inr None, Inr (Some True)} \<and>
     (case sx_basic_constraints x of
        Inr (Some (ca, None)) \<Rightarrow> ca
      | Inr (Some (ca, Some m)) \<Rightarrow> ca \<and> subordinate_cas \<le> unat m
      | Inr None \<Rightarrow> sx_is_v1 x
      | Inl _ \<Rightarrow> False)"

lemma issuer_key_usage_ok: "issuer_key_usage x = Inr () \<longleftrightarrow> sx_key_usage x \<in> {Inr None, Inr (Some True)}"
  by (auto simp: issuer_key_usage_def split: sum.splits option.splits bool.splits)

lemma root_constraints_ok:
  "root_constraints x n = Inr () \<longleftrightarrow>
     (case sx_basic_constraints x of
        Inr (Some (ca, None)) \<Rightarrow> ca
      | Inr (Some (ca, Some m)) \<Rightarrow> ca \<and> n \<le> unat m
      | Inr None \<Rightarrow> sx_is_v1 x
      | Inl _ \<Rightarrow> False)"
  by (auto simp: root_constraints_def split: sum.splits option.splits)

lemma unknown_extensions:
  "\<not> list_ex (\<lambda>(critical, kind). critical \<and> kind = Ext_Other) es \<longleftrightarrow>
     list_all (\<lambda>(critical, kind). critical \<longrightarrow> kind \<noteq> Ext_Other) es"
  by (induction es) auto

lemma root_policy_exact:
  "root_policy sy root time n = Inr () \<longleftrightarrow> (\<exists>x. sym_parsed sy root = Inr x \<and> may_anchor sy time n x)"
  unfolding root_policy_def and_then_eq_Inr map_err_eq_Inr may_anchor_def issuer_key_usage_ok [symmetric]
    root_constraints_ok [symmetric] unknown_extensions [symmetric]
proof (intro arg_cong [where f = Ex] ext conj_cong refl)
  fix x :: sym_x509
  have map: "sx_extensions_map x = Inr () \<longleftrightarrow> sx_extensions_map x \<noteq> Inl ()"
    by (cases "sx_extensions_map x") simp_all
  show "((if 2 ^ 63 \<le> time then Inl (Fail InvalidCertValidity)
      else case sy_asn1_time sy (int time) of
          None \<Rightarrow> Inl (Fail InvalidCertValidity)
        | Some when \<Rightarrow>
            if \<not> sx_valid_at x when then Inl (Fail InvalidCertValidity)
            else if sx_extensions_map x = Inl () then Inl (Fail ExtensionValueInvalid)
            else if list_ex (\<lambda>(critical, kind). critical \<and> kind = Ext_Other) (sx_extensions x) then
              Inl (Fail UnsupportedCriticalExtension)
            else and_then (issuer_key_usage x) (\<lambda>_. root_constraints x n)) = Inr ()) =
      (time < 2 ^ 63 \<and>
       (case sy_asn1_time sy (int time) of None \<Rightarrow> False | Some when \<Rightarrow> sx_valid_at x when) \<and>
       sx_extensions_map x = Inr () \<and>
       \<not> list_ex (\<lambda>(critical, kind). critical \<and> kind = Ext_Other) (sx_extensions x) \<and>
       issuer_key_usage x = Inr () \<and> root_constraints x n = Inr ())"
    unfolding map by (cases "sy_asn1_time sy (int time)") (simp_all add: and_then_eq_Inr not_le)
qed

lemma collect_results_zip:
  "collect_results f xs = Inr ys \<Longrightarrow> (x, y) \<in> set (zip xs ys) \<Longrightarrow> f x = Inr y"
  by (induction xs arbitrary: ys) (auto simp: and_then_eq_Inr)

lemma try_roots_ok:
  "try_roots sy time used n err ras = Inr () \<Longrightarrow>
     \<exists>root. (root, used) \<in> set ras \<and> root_policy sy root time n = Inr ()"
proof (induction sy time used n err ras rule: try_roots.induct)
  case (2 sy time used n err root anchor rest)
  have same: "anchor = used" if "ta_subject anchor = ta_subject used" "ta_spki anchor = ta_spki used"
    "ta_name_constraints anchor = ta_name_constraints used"
    using that by simp
  from 2 same show ?case by (fastforce split: if_splits sum.splits fault.splits)
qed simp

definition subordinate :: "('ee, 'alg, 'key) symcrypt \<Rightarrow> bytes \<Rightarrow> bool" where
  "subordinate sy d \<longleftrightarrow> (case sy_parse sy d of Inr (_, x) \<Rightarrow> sx_subject x \<noteq> sx_issuer x | Inl _ \<Rightarrow> False)"

lemma subordinate_parsed [simp]:
  "sy_parse sy d = Inr (rest, x) \<Longrightarrow> subordinate sy d \<longleftrightarrow> sx_subject x \<noteq> sx_issuer x"
  by (simp add: subordinate_def)

lemma count_subordinates_ok:
  "count_subordinates sy n ders = Inr m \<Longrightarrow>
     m = n + length (filter (subordinate sy) ders) \<and>
     (\<forall>d \<in> set ders. \<exists>rest x. sy_parse sy d = Inr (rest, x) \<and> issuer_key_usage x = Inr ())"
proof (induction ders arbitrary: n)
  case (Cons d ders)
  then obtain rest x where "sy_parse sy d = Inr (rest, x)" "issuer_key_usage x = Inr ()"
    "count_subordinates sy (if sx_subject x \<noteq> sx_issuer x then n + 1 else n) ders = Inr m"
    by (auto simp: and_then_eq_Inr split: sum.splits)
  with Cons.IH [OF this(3)] show ?case by simp
qed simp

text \<open>
  What WebPKI promises. Which paths it takes for valid is its own affair: the parameter \<open>linked\<close> stands for that, a
  relation between the end entity, the signature algorithms, the time and a path (that each certificate names and is
  signed by the next, that the issuers are CAs whose path lengths allow what is below them, that all are within their
  validity periods). The promise is that validation succeeds only for a path that is linked to the end entity, starts at
  one of the anchors, goes over some of the intermediates, and that the policy has accepted.
\<close>

type_synonym ('ee, 'alg) path_relation = "'ee \<Rightarrow> (bytes \<times> 'alg) list \<Rightarrow> nat \<Rightarrow> verified_path \<Rightarrow> bool"

definition webpki_validates :: "('ee, 'alg, 'key) symcrypt \<Rightarrow> ('ee, 'alg) path_relation \<Rightarrow> bool" where
  "webpki_validates sy linked \<longleftrightarrow>
     (\<forall>ee algs anchors intermediates time usage policy.
        sy_verify_for_usage sy ee algs anchors intermediates time usage policy = Inr () \<longrightarrow>
        (\<exists>path. linked ee algs time path \<and> vp_anchor path \<in> set anchors \<and>
           set (vp_intermediates path) \<subseteq> set intermediates \<and> policy path = Inr ()))"

text \<open>
  What an accepted chain amounts to then: a path valid for the leaf at the present time, to an anchor that is one of the
  pinned roots, a root that is itself fit for it, over intermediates each of which may sign certificates.
\<close>

definition sym_anchored ::
    "('ee, 'alg, 'key) symcrypt \<Rightarrow> ('ee, 'alg) path_relation \<Rightarrow> bytes \<Rightarrow> bytes list \<Rightarrow> bytes list \<Rightarrow> bool" where
  "sym_anchored sy linked leaf intermediates roots \<longleftrightarrow>
     (\<exists>ee algs (path :: verified_path) root x.
        sy_end_entity sy leaf = Inr ee \<and> (sym_algorithms sy :: _ io_res) = Inr algs \<and>
        linked ee algs (sy_now sy) path \<and> set (vp_intermediates path) \<subseteq> set intermediates \<and>
        root \<in> set roots \<and> sy_anchor sy root = Inr (vp_anchor path) \<and> sym_parsed sy root = Inr x \<and>
        may_anchor sy (sy_now sy) (length (filter (subordinate sy) (vp_intermediates path))) x \<and>
        (\<forall>d \<in> set (vp_intermediates path). \<exists>rest x. sy_parse sy d = Inr (rest, x) \<and>
           sx_key_usage x \<in> {Inr None, Inr (Some True)}))"

lemma symcrypt_chain_anchored:
  assumes "webpki_validates sy linked"
    and "cb_verify_cert_chain (symcrypt_backend sy) leaf intermediates roots = Inr ()"
  shows "sym_anchored sy linked leaf intermediates roots"
proof -
  from assms(2) obtain anchors ee algs where anchors: "collect_results (trusted_anchor sy) roots = Inr anchors"
    and ee: "sy_end_entity sy leaf = Inr ee" and algs: "(sym_algorithms sy :: _ io_res) = Inr algs"
    and ok: "sy_verify_for_usage sy ee algs anchors intermediates (sy_now sy) attestation_usage
      (path_policy sy roots anchors (sy_now sy)) = Inr ()"
    by (cases "sy_end_entity sy leaf")
      (auto simp: symcrypt_backend_def sym_verify_cert_chain_def sym_verify_cert_chain_at_def and_then_eq_Inr)
  from assms(1) [unfolded webpki_validates_def] ok obtain path
    where linked: "linked ee algs (sy_now sy) path"
    and policy: "path_policy sy roots anchors (sy_now sy) path = Inr ()"
    and ints: "set (vp_intermediates path) \<subseteq> set intermediates" by blast
  from policy obtain n where n: "count_subordinates sy 0 (vp_intermediates path) = Inr n"
    and try_all: "try_roots sy (sy_now sy) (vp_anchor path) n UnknownIssuer (zip roots anchors) = Inr ()"
    by (auto simp: path_policy_def and_then_eq_Inr)
  from try_roots_ok [OF try_all] obtain root where root: "(root, vp_anchor path) \<in> set (zip roots anchors)"
    and fit: "root_policy sy root (sy_now sy) n = Inr ()" by blast
  from fit obtain x where "sym_parsed sy root = Inr x" "may_anchor sy (sy_now sy) n x" by (auto simp: root_policy_exact)
  moreover have "trusted_anchor sy root = Inr (vp_anchor path)" by (rule collect_results_zip [OF anchors root])
  then have "sy_anchor sy root = Inr (vp_anchor path)" by (auto simp: trusted_anchor_def split: sum.splits)
  moreover from count_subordinates_ok [OF n] have "n = length (filter (subordinate sy) (vp_intermediates path))"
    and "\<forall>d \<in> set (vp_intermediates path). \<exists>rest x. sy_parse sy d = Inr (rest, x) \<and> sx_key_usage x \<in> {Inr None, Inr (Some True)}"
    unfolding issuer_key_usage_ok by simp_all
  ultimately show ?thesis using ee algs linked ints set_zip_leftD [OF root] unfolding sym_anchored_def
    by - (intro exI [of _ ee] exI [of _ algs] exI [of _ path] exI [of _ root] exI [of _ x], simp)
qed

text \<open>
  A library that takes all intermediates in their order, under the first anchor, for a path in which each certificate
  names the next as its issuer, and asks the policy about it.
\<close>

definition toy_x509 :: "bytes \<Rightarrow> sym_x509" where
  "toy_x509 der =
     \<lparr>sx_subject = take 1 der, sx_issuer = drop 1 der, sx_signature_algorithm = [], sx_tbs_algorithm = [], sx_tbs = [],
      sx_signature = [], sx_spki_oid = ''1.2.840.10045.2.1'', sx_spki_curve = Some ''1.2.840.10045.3.1.7'',
      sx_public_key = 4 # replicate 64 0, sx_valid_at = (\<lambda>_. True),
      sx_key_usage = Inr (Some True), sx_basic_constraints = Inr (Some (True, Some 1)), sx_extensions_map = Inr (),
      sx_extensions = [(True, Ext_BasicConstraints), (True, Ext_KeyUsage)], sx_is_v1 = False\<rparr>"

definition toy_linked :: "(bytes, unit) path_relation" where
  "toy_linked ee algs time path \<longleftrightarrow>
     successively (\<lambda>subject issuer. drop 1 subject = take 1 issuer) (ee # vp_intermediates path @ [ta_subject (vp_anchor path)])"

definition toy_symcrypt :: "(bytes, unit, unit) symcrypt" where
  "toy_symcrypt =
     \<lparr>sy_sha256 = (\<lambda>_. replicate 32 1), sy_sha384 = id, sy_parse = (\<lambda>der. Inr ([], toy_x509 der)), sy_pem_certs = (\<lambda>_. [Inr [1, 2], Inr [2, 3]]),
      sy_signature_id = (\<lambda>_. Inr []), sy_end_entity = Inr, sy_all_algorithms = [([], ())], sy_rsa_pss_sha384 = [],
      sy_verify_signature = (\<lambda>_ _ _ _. True), sy_set_public_key = (\<lambda>_ _. Inr ()), sy_ecdsa_verify = (\<lambda>_ _ _. Ec_Ok),
      sy_anchor = (\<lambda>der. Inr \<lparr>ta_subject = take 1 der, ta_spki = der, ta_name_constraints = None\<rparr>),
      sy_verify_for_usage = (\<lambda>ee algs anchors intermediates time _ policy.
        case anchors of
          [] \<Rightarrow> Inl (Fail UnknownIssuer)
        | a # _ \<Rightarrow>
            let path = \<lparr>vp_intermediates = intermediates, vp_anchor = a\<rparr> in
            if toy_linked ee algs time path then policy path else Inl (Fail UnknownIssuer)),
      sy_asn1_time = Some, sy_now = 1000, sy_webpki_text = (\<lambda>_. ''error'')\<rparr>"

lemma toy_validates: "webpki_validates toy_symcrypt toy_linked"
  by (fastforce simp: webpki_validates_def toy_symcrypt_def Let_def split: list.splits if_splits)

lemmas toy_symcrypt_simps = symcrypt_backend_def sym_verify_cert_chain_def sym_verify_cert_chain_at_def toy_symcrypt_def
  toy_x509_def toy_linked_def trusted_anchor_def sym_algorithms_def path_policy_def root_policy_def sym_parsed_def issuer_key_usage_def
  root_constraints_def

end
