(* ===== verification/Verify_Tdx.thy ===== *)
theory Verify_Tdx
  imports Verify_Crypto Td_Quote_Facts
begin

text \<open>
  Local verification of TDX quotes (\<open>verify/tdx.rs\<close>): the signature over header and body
  under the attestation key, the key's binding to the QE report, the certificate chain of
  the PCK to the trusted roots, the QE report's signature under the PCK.
\<close>

definition QE_REPORT_DATA_OFFSET :: nat where "QE_REPORT_DATA_OFFSET = 320"

definition strip_qgs_envelope :: "bytes \<Rightarrow> bytes" where
  "strip_qgs_envelope bs =
     (if length bs < 24 then bs
      else if le32_at bs 4 \<noteq> 1 \<or> unat (le32_at bs 8) \<noteq> length bs then bs
      else
        let start = 24 + unat (le32_at bs 16) in
        case checked_add_usize start (unat (le32_at bs 20)) of
          None \<Rightarrow> bs
        | Some stop \<Rightarrow>
            if length bs < stop \<or> stop - start < 4 then bs
            else
              let inner = take (stop - start) (drop start bs)
              in if le16_at inner 0 \<in> {4, 5} then inner else bs)"

record tdx_measurements =
  tm_mr_td :: bytes
  tm_mr_seam :: bytes
  tm_rtmr :: "bytes list"
  tm_report_data :: bytes
  tm_tee_tcb_svn :: bytes
  tm_td_attributes :: bytes
  tm_xfam :: bytes

record tdx_verify_result =
  tv_quote_signature_valid :: bool
  tv_attestation_key_bound :: bool
  tv_qe_report_signature_valid :: bool
  tv_pck_chain_valid :: bool
  tv_measurements :: tdx_measurements

definition body_measurements :: "td_quote_body_tdx10 \<Rightarrow> tdx_measurements" where
  "body_measurements b =
     \<lparr>tm_mr_td = b10_mr_td b, tm_mr_seam = b10_mr_seam b,
      tm_rtmr = [b10_rtmr0 b, b10_rtmr1 b, b10_rtmr2 b, b10_rtmr3 b],
      tm_report_data = b10_report_data b, tm_tee_tcb_svn = b10_tee_tcb_svn b,
      tm_td_attributes = b10_td_attributes b, tm_xfam = b10_xfam b\<rparr>"

fun base_body :: "td_quote_body \<Rightarrow> td_quote_body_tdx10 io_res" where
  "base_body (Body_Tdx10 b) = Inr b"
| "base_body (Body_Tdx15 b) = Inr (b15_base b)"
| "base_body (Body_Tdx15Ex b) = Inr (b15_base (bex_base b))"
| "base_body (Body_Unknown t _) = io_fail OtherKind (''unsupported TD quote body type 0x'' @ fmt_04x t)"

text \<open>The number of leading bytes the attestation key must have signed.\<close>

definition quote_header_len :: "parsed_td_quote \<Rightarrow> nat" where
  "quote_header_len q =
     (if 5 \<le> qh_version (pq_header q) then TD_QUOTE_HEADER_V5_SIZE else TD_QUOTE_HEADER_V4_SIZE)"

text \<open>Step 1: the signature over header and body.\<close>

definition check_quote_signature ::
    "'cert crypto_backend \<Rightarrow> bytes \<Rightarrow> parsed_td_quote \<Rightarrow> td_quote_signature \<Rightarrow> unit io_res" where
  "check_quote_signature cb inner q sig =
     (let signed_len = quote_header_len q + unat (bd_size (pq_body_header q)) in
      if length inner < signed_len then io_fail InvalidData ''TD quote shorter than its signed region''
      else
        and_then (rs_slice inner 0 signed_len) (\<lambda>message.
        and_then (cb_ecdsa_p256_verify_point cb (qs_attestation_public_key sig) message
                    (take 32 (qs_signature sig)) (drop 32 (qs_signature sig))) (\<lambda>ok.
        if \<not> ok then io_fail OtherKind ''TD quote body signature is invalid'' else Inr ())))"

text \<open>Step 2: the certification data, its binding and its chain.\<close>

definition check_key_binding ::
    "'cert crypto_backend \<Rightarrow> td_quote_signature \<Rightarrow> td_quote_ecdsa_certification \<Rightarrow> unit io_res" where
  "check_key_binding cb sig ecdsa =
     and_then (cb_sha256 cb (qs_attestation_public_key sig @ ec_auth_data ecdsa)) (\<lambda>expected.
     and_then (rs_slice (ec_qe_report ecdsa) QE_REPORT_DATA_OFFSET (QE_REPORT_DATA_OFFSET + 32)) (\<lambda>report_data.
     if report_data \<noteq> expected
     then io_fail OtherKind ''attestation key is not bound to the QE report (report_data mismatch)''
     else Inr ()))"

definition check_pck_chain ::
    "'cert crypto_backend \<Rightarrow> 'cert list \<Rightarrow> td_quote_ecdsa_certification \<Rightarrow> unit io_res" where
  "check_pck_chain cb roots ecdsa =
     (case ec_nested_certification ecdsa of
        Some (Nested_PckCertChain pck_chain) \<Rightarrow>
          and_then (cb_parse_pem_chain cb (pck_cert_chain pck_chain)) (\<lambda>chain.
          case chain of
            [] \<Rightarrow> io_fail OtherKind ''empty PCK certificate chain''
          | pck_leaf # rest \<Rightarrow>
              and_then (cb_verify_cert_chain cb pck_leaf (untrusted_intermediates cb rest) roots) (\<lambda>_.
              and_then (cb_ecdsa_verify_raw cb pck_leaf Sha256_Alg (ec_qe_report ecdsa)
                          (take 32 (ec_qe_report_signature ecdsa)) (drop 32 (ec_qe_report_signature ecdsa))) (\<lambda>ok.
              if \<not> ok then io_fail OtherKind ''QE report signature is invalid'' else Inr ())))
      | _ \<Rightarrow> io_fail OtherKind ''TD quote missing PCK certificate chain'')"

definition verify_td_quote_with_roots ::
    "'cert crypto_backend \<Rightarrow> bytes \<Rightarrow> 'cert list \<Rightarrow> tdx_verify_result io_res" where
  "verify_td_quote_with_roots cb quote_bytes roots =
     (let inner = strip_qgs_envelope quote_bytes in
      and_then
        (map_err (\<lambda>e. Io_Msg OtherKind (''parse TD quote: '' @ td_quote_parse_error_display e))
          (parse_td_quote inner)) (\<lambda>parsed.
      case pq_signature parsed of
        None \<Rightarrow> io_fail OtherKind ''TD quote has no signature block''
      | Some sig \<Rightarrow>
          and_then (check_quote_signature cb inner parsed sig) (\<lambda>_.
          case qs_certification sig of
            Some (Cert_EcdsaSigAux ecdsa) \<Rightarrow>
              and_then (check_key_binding cb sig ecdsa) (\<lambda>_.
              and_then (check_pck_chain cb roots ecdsa) (\<lambda>_.
              and_then (base_body (pq_body parsed)) (\<lambda>base.
              Inr \<lparr>tv_quote_signature_valid = True, tv_attestation_key_bound = True,
                   tv_qe_report_signature_valid = True, tv_pck_chain_valid = True,
                   tv_measurements = body_measurements base\<rparr>)))
          | _ \<Rightarrow> io_fail OtherKind ''TD quote missing ECDSA certification data'')))"

definition verify_td_quote ::
    "'cert crypto_backend \<Rightarrow> pinned_pems \<Rightarrow> bytes \<Rightarrow> tdx_verify_result io_res" where
  "verify_td_quote cb pems quote_bytes =
     and_then (intel_sgx_root cb pems) (\<lambda>root. verify_td_quote_with_roots cb quote_bytes [root])"

section \<open>Soundness\<close>

lemma check_quote_signature_Inr:
  "check_quote_signature cb inner q sig = Inr () \<longleftrightarrow>
     (let n = quote_header_len q + unat (bd_size (pq_body_header q)) in n \<le> length inner \<and>
        cb_ecdsa_p256_verify_point cb (qs_attestation_public_key sig) (take n inner)
          (take 32 (qs_signature sig)) (drop 32 (qs_signature sig)) = Inr True)"
  by (auto simp: check_quote_signature_def Let_def and_then_eq_Inr)

lemma check_key_binding_Inr:
  "check_key_binding cb sig ecdsa = Inr () \<longleftrightarrow>
     352 \<le> length (ec_qe_report ecdsa) \<and>
     cb_sha256 cb (qs_attestation_public_key sig @ ec_auth_data ecdsa) = Inr (take 32 (drop 320 (ec_qe_report ecdsa)))"
  by (auto simp: check_key_binding_def and_then_eq_Inr rs_slice_eq_Inr QE_REPORT_DATA_OFFSET_def)

definition pck_chain_accepted ::
    "'cert crypto_backend \<Rightarrow> 'cert list \<Rightarrow> bytes \<Rightarrow> td_quote_ecdsa_certification \<Rightarrow> bool" where
  "pck_chain_accepted cb roots pem ecdsa \<longleftrightarrow>
     (\<exists>leaf rest. cb_parse_pem_chain cb pem = Inr (leaf # rest) \<and>
        cb_verify_cert_chain cb leaf (filter (\<lambda>c. \<not> cb_cert_is_self_signed cb c) rest) roots = Inr () \<and>
        cb_ecdsa_verify_raw cb leaf Sha256_Alg (ec_qe_report ecdsa) (take 32 (ec_qe_report_signature ecdsa))
          (drop 32 (ec_qe_report_signature ecdsa)) = Inr True)"

lemma check_pck_chain_Inr:
  "check_pck_chain cb roots ecdsa = Inr () \<longleftrightarrow>
     (\<exists>ch. ec_nested_certification ecdsa = Some (Nested_PckCertChain ch) \<and>
        pck_chain_accepted cb roots (pck_cert_chain ch) ecdsa)"
  by (auto simp: check_pck_chain_def pck_chain_accepted_def untrusted_intermediates_def and_then_eq_Inr neq_Nil_conv
      split: option.splits td_quote_nested_certification.splits list.splits if_splits)


text \<open>What a verified result rests on, for a parsed quote and the message its attestation key signed.\<close>

definition quote_authentic ::
    "'cert crypto_backend \<Rightarrow> 'cert list \<Rightarrow> parsed_td_quote \<Rightarrow> bytes \<Rightarrow> tdx_verify_result \<Rightarrow> bool" where
  "quote_authentic cb roots q message res \<longleftrightarrow>
     (\<exists>sig ecdsa chain base.
        pq_signature q = Some sig \<and> qs_certification sig = Some (Cert_EcdsaSigAux ecdsa) \<and>
        ec_nested_certification ecdsa = Some (Nested_PckCertChain chain) \<and>
        cb_ecdsa_p256_verify_point cb (qs_attestation_public_key sig) message
          (take 32 (qs_signature sig)) (drop 32 (qs_signature sig)) = Inr True \<and>
        352 \<le> length (ec_qe_report ecdsa) \<and>
        cb_sha256 cb (qs_attestation_public_key sig @ ec_auth_data ecdsa) =
          Inr (take 32 (drop 320 (ec_qe_report ecdsa))) \<and>
        pck_chain_accepted cb roots (pck_cert_chain chain) ecdsa \<and>
        base_body (pq_body q) = Inr base \<and>
        res = \<lparr>tv_quote_signature_valid = True, tv_attestation_key_bound = True,
               tv_qe_report_signature_valid = True, tv_pck_chain_valid = True,
               tv_measurements = body_measurements base\<rparr>)"

lemma verify_with_roots_Inr:
  "verify_td_quote_with_roots cb bs roots = Inr res \<longleftrightarrow>
     (\<exists>q. parse_td_quote (strip_qgs_envelope bs) = Inr q \<and>
        (let n = quote_header_len q + unat (bd_size (pq_body_header q)) in n \<le> length (strip_qgs_envelope bs) \<and>
         quote_authentic cb roots q (take n (strip_qgs_envelope bs)) res))"
  (is "?l \<longleftrightarrow> ?r")
proof
  assume l: ?l
  then obtain q where q: "parse_td_quote (strip_qgs_envelope bs) = Inr q"
    by (auto simp: verify_td_quote_with_roots_def Let_def and_then_eq_Inr)
  from l q obtain sig where sig: "pq_signature q = Some sig" "check_quote_signature cb (strip_qgs_envelope bs) q sig = Inr ()"
    by (cases "pq_signature q") (auto simp: verify_td_quote_with_roots_def Let_def and_then_eq_Inr)
  from l q sig obtain ecdsa where "qs_certification sig = Some (Cert_EcdsaSigAux ecdsa)"
    by (auto simp: verify_td_quote_with_roots_def Let_def split: option.splits td_quote_certification.splits)
  with l q sig have "\<exists>base. check_key_binding cb sig ecdsa = Inr () \<and> check_pck_chain cb roots ecdsa = Inr () \<and>
    base_body (pq_body q) = Inr base \<and>
    res = \<lparr>tv_quote_signature_valid = True, tv_attestation_key_bound = True,
      tv_qe_report_signature_valid = True, tv_pck_chain_valid = True, tv_measurements = body_measurements base\<rparr>"
    by (auto simp: verify_td_quote_with_roots_def Let_def and_then_eq_Inr)
  with \<open>qs_certification sig = Some (Cert_EcdsaSigAux ecdsa)\<close> q sig show ?r
    by (auto simp: quote_authentic_def check_quote_signature_Inr check_key_binding_Inr check_pck_chain_Inr Let_def)
next
  assume ?r
  then show ?l
    by (auto simp: quote_authentic_def verify_td_quote_with_roots_def and_then_eq_Inr Let_def
        check_quote_signature_Inr check_key_binding_Inr check_pck_chain_Inr)
qed

lemma body_offset_header_len:
  assumes "parse_td_quote bs = Inr q"
  shows "body_offset (quote_inner bs) = quote_header_len q + (if body_offset (quote_inner bs) = 62 then 8 else 0)"
proof -
  let ?d = "quote_inner bs"
  obtain h c h1 bd1 c1 h2 k where p: "read_header ?d 0 = Inr (h, c)"
    "read_body_descriptor h ?d c = Inr ((h1, bd1), c1)"
    "settle_body_size (length ?d - c1) h1 bd1 = (h2, pq_body_header q, k)" "pq_header q = h2"
    using parse_td_quote_Inr [OF assms(1)] by metis
  note h = read_header_Inr [OF p(1)]
  then have "c \<le> length ?d" by simp
  note b = read_body_descriptor_Inr [OF p(2) this]
  note s = settle_body_size_Inr [OF p(3)]
  have "qh_version (pq_header q) = le16_at ?d 0" using h b s p(4) by simp
  then show ?thesis
    by (auto simp: body_offset_def quote_header_len_def quote_sizes version_bounds)
qed

text \<open>
  \<open>strip_qgs_envelope\<close> takes one envelope off, and \<open>parse_td_quote\<close> takes off another
  one if there is one (\<open>quote_inner\<close>). The signed length is computed from the parsed quote
  but cut from the bytes before the second step.
\<close>

definition signed_length :: "bytes \<Rightarrow> bytes \<Rightarrow> nat" where
  "signed_length hdr body = length hdr + length body - (if length hdr = 62 then 8 else 0)"

lemma signed_length_parsed:
  assumes "parse_td_quote d = Inr q" "length hdr = body_offset (quote_inner d)"
    and "length body = unat (bd_size (pq_body_header q))"
  shows "signed_length hdr body = quote_header_len q + unat (bd_size (pq_body_header q))"
  using body_offset_header_len [OF assms(1)] assms(2,3) by (simp add: signed_length_def split: if_splits)

text \<open>
  C5. What \<open>verify_td_quote\<close> accepts, for every input. Let e be the input
  without its QGS envelope, and d what the parser reads, which is e without a further
  envelope if e is itself one. A result is returned if and only if d splits into header,
  body and signature part as parsed, e is at least as long as header and body, and the
  backend confirms every link: the attestation key signed the leading bytes of e (not of d)
  of that length, the QE report binds the attestation key, the accepted PCK chain signs the
  QE report. The measurements returned are those of the parsed body. For an ordinary quote d
  is e, so the signed bytes are the whole header and body; only behind a separate body
  descriptor (a header of 62 bytes) are the last eight bytes of the body not among them.
  For a doubly wrapped quote the signature is checked over envelope bytes instead.
\<close>

theorem tdx_verify_sound:
  "verify_td_quote_with_roots cb bs roots = Inr res \<longleftrightarrow>
     (\<exists>q hdr body rest.
        parse_td_quote (strip_qgs_envelope bs) = Inr q \<and>
        quote_inner (strip_qgs_envelope bs) = hdr @ body @ rest \<and>
        length hdr = body_offset (quote_inner (strip_qgs_envelope bs)) \<and>
        length body = unat (bd_size (pq_body_header q)) \<and>
        decode_body (bd_body_type (pq_body_header q)) body = Inr (pq_body q) \<and>
        signed_length hdr body \<le> length (strip_qgs_envelope bs) \<and>
        quote_authentic cb roots q
          (if quote_inner (strip_qgs_envelope bs) = strip_qgs_envelope bs
           then (if length hdr = 62 then take (length hdr + length body - 8) (hdr @ body) else hdr @ body)
           else take (signed_length hdr body) (strip_qgs_envelope bs)) res)"
  (is "?l \<longleftrightarrow> ?r")
proof -
  let ?e = "strip_qgs_envelope bs"
  have message: "(if quote_inner ?e = ?e
      then (if length hdr = 62 then take (length hdr + length body - 8) (hdr @ body) else hdr @ body)
      else take (signed_length hdr body) ?e) = take (signed_length hdr body) ?e"
    if "quote_inner ?e = hdr @ body @ rest" for hdr body rest :: bytes
  proof (cases "quote_inner ?e = ?e")
    case True
    with that have "?e = hdr @ body @ rest" by simp
    then have "take (signed_length hdr body) ?e = take (signed_length hdr body) (hdr @ body)"
      by (simp only:) (simp add: signed_length_def)
    with True show ?thesis by (simp add: signed_length_def)
  qed simp
  show ?thesis
  proof
    assume ?l
    then obtain q where q: "parse_td_quote ?e = Inr q"
      "quote_header_len q + unat (bd_size (pq_body_header q)) \<le> length ?e"
      "quote_authentic cb roots q (take (quote_header_len q + unat (bd_size (pq_body_header q))) ?e) res"
      unfolding verify_with_roots_Inr Let_def by blast
    from td_quote_parts [OF q(1)] obtain hdr body rest where p: "quote_inner ?e = hdr @ body @ rest"
      "length hdr = body_offset (quote_inner ?e)" "length body = unat (bd_size (pq_body_header q))"
      "decode_body (bd_body_type (pq_body_header q)) body = Inr (pq_body q)" by blast
    note n = signed_length_parsed [OF q(1) p(2,3)]
    have "quote_authentic cb roots q (if quote_inner ?e = ?e
        then (if length hdr = 62 then take (length hdr + length body - 8) (hdr @ body) else hdr @ body)
        else take (signed_length hdr body) ?e) res"
      unfolding message [OF p(1)] unfolding n by (rule q(3))
    moreover have "signed_length hdr body \<le> length ?e" unfolding n by (rule q(2))
    ultimately show ?r using q(1) p by blast
  next
    assume ?r
    then obtain q hdr body rest where p: "parse_td_quote ?e = Inr q" "quote_inner ?e = hdr @ body @ rest"
      "length hdr = body_offset (quote_inner ?e)" "length body = unat (bd_size (pq_body_header q))"
      "signed_length hdr body \<le> length ?e"
      and auth: "quote_authentic cb roots q (if quote_inner ?e = ?e
        then (if length hdr = 62 then take (length hdr + length body - 8) (hdr @ body) else hdr @ body)
        else take (signed_length hdr body) ?e) res"
      by blast
    note n = signed_length_parsed [OF p(1,3,4)]
    from p(1,5) auth show ?l
      unfolding verify_with_roots_Inr Let_def message [OF p(2)] unfolding n by blast
  qed
qed

section \<open>Exactness on well-formed quotes\<close>

lemma td_quote_wire_front:
  assumes "td_quote_valid q"
  shows "le32_at (td_quote_wire q) 4 \<noteq> 1" "strip_qgs_envelope (td_quote_wire q) = td_quote_wire q"
proof -
  have h: "map length (header_fields (pq_header q)) = [2, 2, 4, 2, 2, 16, 20]" "qh_tee_type (pq_header q) \<noteq> 1"
    using assms by (simp_all add: td_quote_valid_def)
  have "occurs_at (td_quote_wire q) 0 (concat (header_fields (pq_header q)))"
    unfolding td_quote_wire_def by (rule occurs_at_front)
  from header_wire_v4(3) [OF h(1) this] h(2) show "le32_at (td_quote_wire q) 4 \<noteq> 1" by simp
  then show "strip_qgs_envelope (td_quote_wire q) = td_quote_wire q" by (simp add: strip_qgs_envelope_def)
qed

definition signed_part :: "parsed_td_quote \<Rightarrow> bytes" where
  "signed_part q =
     concat (header_fields (pq_header q)) @
     (if 5 \<le> qh_version (pq_header q)
      then le_bytes 2 (qh_body_type (pq_header q)) @ le_bytes 4 (qh_body_size (pq_header q)) else []) @
     body_wire (pq_body q)"

lemma signed_part_take:
  assumes "td_quote_valid q"
  shows "length (signed_part q) = quote_header_len q + unat (bd_size (pq_body_header q))"
    and "td_quote_wire q = signed_part q @ le_bytes 4 (pq_signature_data_len q) @ pq_signature_data q @ pq_remainder q"
proof -
  have v: "map length (header_fields (pq_header q)) = [2, 2, 4, 2, 2, 16, 20]" "body_valid (pq_body q)"
    "bd_size (pq_body_header q) = of_nat (length (body_wire (pq_body q)))"
    using assms by (simp_all add: td_quote_valid_def)
  then have "unat (bd_size (pq_body_header q)) = length (body_wire (pq_body q))"
    using decode_body_wire [OF v(2)] by simp
  then show "length (signed_part q) = quote_header_len q + unat (bd_size (pq_body_header q))"
    using length_concat_fields [OF v(1)] by (simp add: signed_part_def quote_header_len_def quote_sizes)
  show "td_quote_wire q = signed_part q @ le_bytes 4 (pq_signature_data_len q) @ pq_signature_data q @ pq_remainder q"
    by (simp add: td_quote_wire_def signed_part_def)
qed

text \<open>
  On well-formed quotes the verifier accepts exactly the authentic
  ones: it returns a result if and only if the backend confirms every link (quote
  signature over all of header and body, key binding, PCK chain, QE report signature), and
  the result then has the measurements the quote was written from.
\<close>

theorem tdx_verify_exact:
  assumes "td_quote_valid q"
  shows "verify_td_quote_with_roots cb (td_quote_wire q) roots = Inr res \<longleftrightarrow>
    quote_authentic cb roots q (signed_part q) res"
proof -
  have t: "take (quote_header_len q + unat (bd_size (pq_body_header q))) (td_quote_wire q) = signed_part q"
    "quote_header_len q + unat (bd_size (pq_body_header q)) \<le> length (td_quote_wire q)"
    using signed_part_take [OF assms] by simp_all
  show ?thesis
    unfolding verify_with_roots_Inr td_quote_wire_front(2) [OF assms] parse_td_quote_wire [OF assms] Let_def
    using t by simp
qed

definition sample_result :: tdx_verify_result where
  "sample_result =
     \<lparr>tv_quote_signature_valid = True, tv_attestation_key_bound = True, tv_qe_report_signature_valid = True,
      tv_pck_chain_valid = True, tv_measurements = body_measurements zero_body10\<rparr>"

lemma sample_authentic: "quote_authentic accepting_backend roots sample_td_quote message sample_result"
  by (simp add: quote_authentic_def sample_td_quote_def sample_td_signature_def sample_ecdsa_def
      pck_chain_accepted_def accepting_backend_def sample_result_def)

lemma sample_verified:
  "verify_td_quote_with_roots accepting_backend (td_quote_wire sample_td_quote) [()] = Inr sample_result"
  unfolding verify_with_roots_Inr td_quote_wire_front(2) [OF sample_td_quote_valid]
    parse_td_quote_wire [OF sample_td_quote_valid] Let_def
  using sample_authentic signed_part_take [OF sample_td_quote_valid] by simp

theorem tdx_verify_exact_witness:
  "verify_td_quote_with_roots accepting_backend (td_quote_wire sample_td_quote) [()] = Inr sample_result"
  using tdx_verify_exact [OF sample_td_quote_valid, of accepting_backend "[()]" sample_result] sample_authentic by blast

end
