(* ===== verification/Verify_Snp.thy ===== *)
theory Verify_Snp
  imports Verify_Crypto Tee_Reports "HOL-Library.List_Lexorder" "HOL-Library.Char_ord"
begin

text \<open>
  Local verification of SEV-SNP reports (\<open>verify/snp.rs\<close>, \<open>verify/snp/vcek.rs\<close>): the format
  of the report, the VCEK chain to the pinned AMD roots, the signature, and the binding of
  the VCEK certificate's extensions to the report. The X.509 parser is third-party code: a
  parameter that delivers the parts of a certificate the source looks at.
\<close>

section \<open>Report format\<close>

definition SNP_SIGNED_LEN :: nat where "SNP_SIGNED_LEN = 0x2A0"
definition SNP_SIG_COMPONENT_LEN :: nat where "SNP_SIG_COMPONENT_LEN = 72"

definition invalid_data :: "string \<Rightarrow> 'a io_res" where
  "invalid_data msg = io_fail InvalidData msg"

definition chip_id_unusable :: "snp_report \<Rightarrow> bool" where
  "chip_id_unusable r \<longleftrightarrow> sr_flags r AND 2 \<noteq> 0 \<or> list_all (\<lambda>b. b = 0) (sr_chip_id r)"

definition validate_report_format :: "snp_report \<Rightarrow> unit io_res" where
  "validate_report_format r =
     (if \<not> (2 \<le> sr_version r \<and> sr_version r \<le> 5)
      then invalid_data ''unsupported SNP report version (expected 2 through 5)''
      else if sr_signature_algo r \<noteq> 1
      then invalid_data ''SNP signature algorithm must be ECDSA-P384-SHA384''
      else if 3 < sr_vmpl r then invalid_data ''SNP VMPL must be in 0..=3''
      else if sr_flags r AND NOT 0x1F \<noteq> 0 then invalid_data ''nonzero reserved SNP signer-info bits''
      else if drop_bit 2 (sr_flags r) AND 7 \<noteq> 0
      then invalid_data ''only VCEK-signed SNP reports are supported''
      else if chip_id_unusable r
      then invalid_data ''masked or zero SNP chip ID cannot establish VCEK binding''
      else if sr_policy r AND push_bit 17 1 = 0 \<or> drop_bit 26 (sr_policy r) \<noteq> 0
      then invalid_data ''invalid reserved SNP guest-policy bits''
      else if (case snp_cpuid r of Some (_, _, stepping) \<Rightarrow> 15 < stepping | None \<Rightarrow> False)
      then invalid_data ''SNP CPUID stepping exceeds four bits''
      else if sr_reserved0 r \<noteq> 0 \<or> sr_reserved2 r \<noteq> 0 \<or> sr_reserved3 r \<noteq> 0 \<or>
        list_ex (\<lambda>b. b \<noteq> 0) (drop (if 3 \<le> sr_version r then 3 else 0) (sr_reserved1 r)) \<or>
        list_ex (\<lambda>b. b \<noteq> 0) (drop (if sr_version r = 5 then 16 else 0) (sr_reserved4 r))
      then invalid_data ''nonzero reserved SNP report bytes''
      else if list_ex (\<lambda>b. b \<noteq> 0) (take 24 (drop 48 (sr_signature r))) \<or>
        list_ex (\<lambda>b. b \<noteq> 0) (drop 120 (sr_signature r))
      then invalid_data ''nonzero SNP ECDSA signature padding''
      else Inr ())"

definition le_to_be :: "bytes \<Rightarrow> bytes" where
  "le_to_be le = rev le"

section \<open>The VCEK certificate\<close>

definition STRUCT_VERSION :: string where "STRUCT_VERSION = ''1.3.6.1.4.1.3704.1.1''"
definition PRODUCT_NAME :: string where "PRODUCT_NAME = ''1.3.6.1.4.1.3704.1.2''"
definition BOOT :: string where "BOOT = ''1.3.6.1.4.1.3704.1.3.1''"
definition TEE :: string where "TEE = ''1.3.6.1.4.1.3704.1.3.2''"
definition SNP :: string where "SNP = ''1.3.6.1.4.1.3704.1.3.3''"
definition MICROCODE :: string where "MICROCODE = ''1.3.6.1.4.1.3704.1.3.8''"
definition FMC :: string where "FMC = ''1.3.6.1.4.1.3704.1.3.9''"
definition HWID :: string where "HWID = ''1.3.6.1.4.1.3704.1.4''"
definition CSP_ID :: string where "CSP_ID = ''1.3.6.1.4.1.3704.1.5''"
definition RESERVED_SPL :: "string list" where
  "RESERVED_SPL =
     [''1.3.6.1.4.1.3704.1.3.4'', ''1.3.6.1.4.1.3704.1.3.5'', ''1.3.6.1.4.1.3704.1.3.6'',
      ''1.3.6.1.4.1.3704.1.3.7'']"

lemmas vcek_oids =
  STRUCT_VERSION_def PRODUCT_NAME_def BOOT_def TEE_def SNP_def MICROCODE_def FMC_def HWID_def CSP_ID_def
  RESERVED_SPL_def

definition amd_oid_prefix :: string where "amd_oid_prefix = ''1.3.6.1.4.1.3704.''"

datatype generation = Milan | Genoa | Turin

fun generation_cpuid :: "generation \<Rightarrow> bytes" where
  "generation_cpuid Milan = [0x19, 0x01]"
| "generation_cpuid Genoa = [0x19, 0x11]"
| "generation_cpuid Turin = [0x1A, 0x02]"

fun issuer_cn :: "generation \<Rightarrow> string" where
  "issuer_cn Milan = ''SEV-Milan''"
| "issuer_cn Genoa = ''SEV-Genoa''"
| "issuer_cn Turin = ''SEV-Turin''"

text \<open>
  What the parser delivers: the common names (those that are no strings as \<open>None\<close>), the
  algorithm with its parameters (whether they are tagged as an OID, and the OID), and
  the extensions with their parsed form.
\<close>

datatype parsed_extension =
    Ext_ParseError
  | Ext_BasicConstraints bool
  | Ext_KeyUsage bool bool
  | Ext_Unparsed

record x509_extension =
  xe_oid :: string
  xe_value :: bytes
  xe_parsed :: parsed_extension

record x509_certificate =
  xc_subject_cns :: "string option list"
  xc_issuer_cns :: "string option list"
  xc_algorithm :: string
  xc_parameters :: "(bool \<times> string option) option"
  xc_extensions :: "x509_extension list"

type_synonym x509_parser = "bytes \<Rightarrow> (bytes \<times> x509_certificate) option"

definition common_name_is :: "string option list \<Rightarrow> string \<Rightarrow> bool" where
  "common_name_is names expected \<longleftrightarrow>
     (case names of n # rest \<Rightarrow> n = Some expected \<and> rest = [] | [] \<Rightarrow> False)"

text \<open>Canonical DER integers of one octet.\<close>

definition der_u8 :: "bytes \<Rightarrow> u8 io_res" where
  "der_u8 v =
     (case v of
        [t, l, b] \<Rightarrow>
          if t = 0x02 \<and> l = 0x01 \<and> b < 0x80 then Inr b
          else invalid_data ''VCEK extension must be a canonical DER INTEGER in 0..=255''
      | [t, l, z, b] \<Rightarrow>
          if t = 0x02 \<and> l = 0x02 \<and> z = 0x00 \<and> 0x80 \<le> b then Inr b
          else invalid_data ''VCEK extension must be a canonical DER INTEGER in 0..=255''
      | _ \<Rightarrow> invalid_data ''VCEK extension must be a canonical DER INTEGER in 0..=255'')"

definition product :: "bytes \<Rightarrow> generation io_res" where
  "product v =
     (case v of
        t # len # name \<Rightarrow>
          if t \<noteq> 0x16 then invalid_data ''VCEK ProductName must be a DER IA5String''
          else if 128 \<le> len \<or> unat len \<noteq> length name
          then invalid_data ''noncanonical or truncated VCEK ProductName''
          else if name \<in> {ascii_bytes ''Milan-B0'', ascii_bytes ''Milan-B1''} then Inr Milan
          else if name \<in> {ascii_bytes ''Genoa'', ascii_bytes ''Genoa-B0'', ascii_bytes ''Genoa-B1'',
            ascii_bytes ''Genoa-B2''} then Inr Genoa
          else if name \<in> {ascii_bytes ''Turin'', ascii_bytes ''Turin-B0'', ascii_bytes ''Turin-B1''} then Inr Turin
          else invalid_data ''unsupported VCEK ProductName''
      | _ \<Rightarrow> invalid_data ''VCEK ProductName must be a DER IA5String'')"

definition hwid_matches :: "bytes \<Rightarrow> bytes \<Rightarrow> nat \<Rightarrow> bool" where
  "hwid_matches v chip len =
     (let tail_zero = list_all (\<lambda>b. b = 0) (drop len chip) in
      if length v = len then v = take len chip \<and> tail_zero
      else if length v = len + 2 \<and> v ! 0 = 4 \<and> unat (v ! 1) = len then drop 2 v = take len chip \<and> tail_zero
      else False)"

text \<open>The \<open>BTreeMap\<close> of the extension values: an association list in the order of its keys.\<close>

type_synonym ext_values = "(string \<times> bytes) list"

definition extension_check :: "x509_extension \<Rightarrow> unit io_res" where
  "extension_check ext =
     (case xe_parsed ext of
        Ext_ParseError \<Rightarrow> invalid_data ''malformed VCEK extension''
      | Ext_BasicConstraints ca \<Rightarrow>
          if ca then invalid_data ''VCEK must be a leaf, not a CA'' else Inr ()
      | Ext_KeyUsage digital_signature key_cert_sign \<Rightarrow>
          if \<not> digital_signature \<or> key_cert_sign
          then invalid_data ''VCEK KeyUsage must allow digital signatures and forbid certificate signing''
          else Inr ()
      | Ext_Unparsed \<Rightarrow> Inr ())"

fun extension_values_from :: "ext_values \<Rightarrow> x509_extension list \<Rightarrow> ext_values io_res" where
  "extension_values_from values [] = Inr values"
| "extension_values_from values (ext # exts) =
     and_then (extension_check ext) (\<lambda>_.
     if map_of values (xe_oid ext) \<noteq> None then invalid_data ''duplicate VCEK extension''
     else extension_values_from (insort_key fst (xe_oid ext, xe_value ext) values) exts)"

definition extension_values :: "x509_extension list \<Rightarrow> ext_values io_res" where
  "extension_values exts = extension_values_from [] exts"

definition required :: "ext_values \<Rightarrow> string \<Rightarrow> bytes io_res" where
  "required values oid =
     (case map_of values oid of Some v \<Rightarrow> Inr v | None \<Rightarrow> invalid_data (''missing VCEK extension '' @ oid))"

definition required_u8 :: "ext_values \<Rightarrow> string \<Rightarrow> u8 io_res" where
  "required_u8 values oid = and_then (required values oid) der_u8"

definition supported_oids :: "string list" where
  "supported_oids = [STRUCT_VERSION, PRODUCT_NAME, BOOT, TEE, SNP, MICROCODE, FMC, HWID]"

fun check_amd_oids :: "ext_values \<Rightarrow> unit io_res" where
  "check_amd_oids [] = Inr ()"
| "check_amd_oids ((oid, v) # values) =
     (if oid \<in> set RESERVED_SPL then
        and_then (der_u8 v) (\<lambda>n.
        if n \<noteq> 0 then invalid_data ''nonzero reserved TCB extension'' else check_amd_oids values)
      else if take (length amd_oid_prefix) oid = amd_oid_prefix \<and> oid \<notin> set supported_oids
      then invalid_data ''unsupported AMD VCEK extension''
      else check_amd_oids values)"

fun check_tcb_oids :: "ext_values \<Rightarrow> (string \<times> u8) list \<Rightarrow> unit io_res" where
  "check_tcb_oids values [] = Inr ()"
| "check_tcb_oids values ((oid, expected) # rest) =
     and_then (required_u8 values oid) (\<lambda>n.
     if n \<noteq> expected then invalid_data (''VCEK TCB mismatch for extension '' @ oid)
     else check_tcb_oids values rest)"

text \<open>The components of the reported TCB, by generation: boot loader, TEE, SNP, reserved bytes, length of the hardware ID.\<close>

definition tcb_components ::
    "ext_values \<Rightarrow> generation \<Rightarrow> bytes \<Rightarrow> (u8 \<times> u8 \<times> u8 \<times> bytes \<times> nat) io_res" where
  "tcb_components values g tcb =
     (case g of
        Turin \<Rightarrow>
          and_then (required_u8 values FMC) (\<lambda>n.
          if n \<noteq> tcb ! 0 then invalid_data ''VCEK FMC TCB mismatch''
          else Inr (tcb ! 1, tcb ! 2, tcb ! 3, take 3 (drop 4 tcb), 8))
      | _ \<Rightarrow>
          if map_of values FMC \<noteq> None then invalid_data ''FMC extension is only supported for Turin''
          else Inr (tcb ! 0, tcb ! 1, tcb ! 6, take 4 (drop 2 tcb), 64))"

definition check_tcb_and_hwid :: "ext_values \<Rightarrow> generation \<Rightarrow> snp_report \<Rightarrow> unit io_res" where
  "check_tcb_and_hwid values g report =
     (let tcb = le_bytes 8 (sr_reported_tcb report) in
      and_then (tcb_components values g tcb) (\<lambda>(boot, tee, snp, reserved, hwid_len).
      if list_ex (\<lambda>b. b \<noteq> 0) reserved then invalid_data ''nonzero reserved reported TCB bytes''
      else
        and_then (check_tcb_oids values [(BOOT, boot), (TEE, tee), (SNP, snp), (MICROCODE, tcb ! 7)]) (\<lambda>_.
        and_then (required values HWID) (\<lambda>hwid.
        if \<not> hwid_matches hwid (sr_chip_id report) hwid_len
        then invalid_data ''VCEK HWID mismatch or nonzero Turin chip ID padding''
        else Inr ()))))"

definition validate_extensions :: "x509_extension list \<Rightarrow> snp_report \<Rightarrow> generation io_res" where
  "validate_extensions extensions report =
     (if \<not> (2 \<le> sr_version report \<and> sr_version report \<le> 5)
      then invalid_data ''unsupported SNP report version''
      else if drop_bit 2 (sr_flags report) AND 7 \<noteq> 0
      then invalid_data ''report must select the VCEK signing key''
      else if chip_id_unusable report
      then invalid_data ''masked or zero chip ID cannot establish chip binding''
      else
        and_then (extension_values extensions) (\<lambda>values.
        if map_of values CSP_ID \<noteq> None
        then invalid_data ''VLEK CSP_ID extension is forbidden in a VCEK''
        else
          and_then (check_amd_oids values) (\<lambda>_.
          and_then (required_u8 values STRUCT_VERSION) (\<lambda>struct_version.
          and_then (and_then (required values PRODUCT_NAME) product) (\<lambda>generation.
          if struct_version \<noteq> (if generation = Turin then 1 else 0)
          then invalid_data ''VCEK structVersion does not match product generation''
          else if 3 \<le> sr_version report \<and> take 2 (sr_reserved1 report) \<noteq> generation_cpuid generation
          then invalid_data ''unsupported or mismatched report CPUID family/model''
          else
            and_then (check_tcb_and_hwid values generation report) (\<lambda>_. Inr generation))))))"

definition vcek_validate :: "x509_parser \<Rightarrow> bytes \<Rightarrow> snp_report \<Rightarrow> unit io_res" where
  "vcek_validate from_der der report =
     (case from_der der of
        None \<Rightarrow> invalid_data ''invalid VCEK certificate DER''
      | Some (remaining, cert) \<Rightarrow>
          if remaining \<noteq> [] then invalid_data ''trailing bytes after VCEK certificate DER''
          else if \<not> common_name_is (xc_subject_cns cert) ''SEV-VCEK''
          then invalid_data ''VCEK subject must have exactly one CN: SEV-VCEK''
          else if xc_algorithm cert \<noteq> ''1.2.840.10045.2.1'' \<or>
            xc_parameters cert \<noteq> Some (True, Some ''1.3.132.0.34'')
          then invalid_data ''VCEK public key must use EC with named curve secp384r1''
          else
            and_then (validate_extensions (xc_extensions cert) report) (\<lambda>generation.
            if \<not> common_name_is (xc_issuer_cns cert) (issuer_cn generation)
            then invalid_data ''VCEK issuer CN does not match ProductName''
            else Inr ()))"

section \<open>The verifier\<close>

record snp_measurements =
  sm_measurement :: bytes
  sm_report_data :: bytes
  sm_reported_tcb :: u64
  sm_chip_id :: bytes

record snp_verify_result =
  sv_chain_valid :: bool
  sv_signature_valid :: bool
  sv_vcek_binding_valid :: bool
  sv_measurements :: snp_measurements

definition report_measurements :: "snp_report \<Rightarrow> snp_measurements" where
  "report_measurements r =
     \<lparr>sm_measurement = sr_measurement r, sm_report_data = sr_report_data r,
      sm_reported_tcb = sr_reported_tcb r, sm_chip_id = sr_chip_id r\<rparr>"

definition check_report_signature :: "'cert crypto_backend \<Rightarrow> 'cert \<Rightarrow> bytes \<Rightarrow> unit io_res" where
  "check_report_signature cb vcek report_bytes =
     and_then (rs_slice report_bytes 0 SNP_SIGNED_LEN) (\<lambda>message.
     and_then (rs_slice report_bytes SNP_SIGNED_LEN (SNP_SIGNED_LEN + 512)) (\<lambda>sig.
     and_then (rs_slice sig 0 SNP_SIG_COMPONENT_LEN) (\<lambda>r.
     and_then (rs_slice sig SNP_SIG_COMPONENT_LEN (2 * SNP_SIG_COMPONENT_LEN)) (\<lambda>s.
     and_then (cb_ecdsa_verify_raw cb vcek Sha384_Alg message (le_to_be r) (le_to_be s)) (\<lambda>ok.
     if \<not> ok then io_fail OtherKind ''SNP report signature verification failed'' else Inr ())))))"

definition verify_snp_report_with_roots ::
    "'cert crypto_backend \<Rightarrow> x509_parser \<Rightarrow> bytes \<Rightarrow> bytes \<Rightarrow> 'cert list \<Rightarrow> snp_verify_result io_res" where
  "verify_snp_report_with_roots cb from_der report_bytes vcek_chain_pem roots =
     (if length report_bytes \<noteq> SNP_REPORT_SIZE
      then invalid_data (''SNP report size must be exactly '' @ fmt_dec SNP_REPORT_SIZE @ '', got '' @
             fmt_dec (length report_bytes))
      else
        and_then (map_err (\<lambda>_. Io_Msg InvalidData ''invalid SNP report layout'') (parse_snp_report report_bytes)) (\<lambda>report.
        and_then (validate_report_format report) (\<lambda>_.
        and_then (cb_parse_pem_chain cb vcek_chain_pem) (\<lambda>chain.
        case chain of
          [] \<Rightarrow> invalid_data ''empty VCEK certificate chain''
        | vcek # rest \<Rightarrow>
            and_then (cb_verify_cert_chain cb vcek (untrusted_intermediates cb rest) roots) (\<lambda>_.
            and_then (check_report_signature cb vcek report_bytes) (\<lambda>_.
            and_then (cb_cert_to_der cb vcek) (\<lambda>der.
            and_then (vcek_validate from_der der report) (\<lambda>_.
            Inr \<lparr>sv_chain_valid = True, sv_signature_valid = True, sv_vcek_binding_valid = True,
                 sv_measurements = report_measurements report\<rparr>))))))))"

definition verify_snp_report ::
    "'cert crypto_backend \<Rightarrow> x509_parser \<Rightarrow> pinned_pems \<Rightarrow> bytes \<Rightarrow> bytes \<Rightarrow> snp_verify_result io_res" where
  "verify_snp_report cb from_der pems report_bytes vcek_chain_pem =
     and_then (amd_ark_roots cb pems) (\<lambda>roots.
     verify_snp_report_with_roots cb from_der report_bytes vcek_chain_pem roots)"

end
