(* ===== verification/Verify_Snp_Facts.thy ===== *)
theory Verify_Snp_Facts
  imports Verify_Snp Tee_Report_Facts
begin

text \<open>
  What the SNP verifier accepts, exactly: the report format, the binding of a VCEK
  certificate to a report, and the whole verification.
\<close>

section \<open>Canonical vs\<close>

definition der_int :: "u8 \<Rightarrow> bytes" where
  "der_int n = (if n < 0x80 then [0x02, 0x01, n] else [0x02, 0x02, 0x00, n])"

lemma der_int_inject [simp]: "der_int a = der_int b \<longleftrightarrow> a = b"
  by (auto simp: der_int_def)

lemma der_u8_Inr: "der_u8 v = Inr n \<longleftrightarrow> v = der_int n"
  by (auto simp: der_u8_def der_int_def invalid_data_def not_less split: list.splits if_splits)

fun product_names :: "generation \<Rightarrow> string list" where
  "product_names Milan = [''Milan-B0'', ''Milan-B1'']"
| "product_names Genoa = [''Genoa'', ''Genoa-B0'', ''Genoa-B1'', ''Genoa-B2'']"
| "product_names Turin = [''Turin'', ''Turin-B0'', ''Turin-B1'']"

definition ia5_string :: "string \<Rightarrow> bytes" where
  "ia5_string s = 0x16 # of_nat (length s) # ascii_bytes s"

lemma unat_eq_of_nat_u8: "n < 256 \<Longrightarrow> unat (l :: u8) = n \<longleftrightarrow> l = of_nat n"
  by (auto simp: unat_of_nat take_bit_nat_eq_self)

definition name_bytes :: "generation \<Rightarrow> bytes set" where
  "name_bytes g = ascii_bytes ` set (product_names g)"

lemma name_bytes_disjoint: "name \<in> name_bytes g \<Longrightarrow> name \<in> name_bytes h \<Longrightarrow> g = h"
proof -
  have "name_bytes Milan \<inter> name_bytes Genoa = {}" "name_bytes Milan \<inter> name_bytes Turin = {}"
    "name_bytes Genoa \<inter> name_bytes Turin = {}"
    by (simp_all add: ascii_bytes_def name_bytes_def)
  then show "name \<in> name_bytes g \<Longrightarrow> name \<in> name_bytes h \<Longrightarrow> g = h"
    by (cases g; cases h) (blast | simp)+
qed

lemma product_by_name:
  "product (t # l # name) =
     (if t \<noteq> 0x16 then invalid_data ''VCEK ProductName must be a DER IA5String''
      else if 128 \<le> l \<or> unat l \<noteq> length name then invalid_data ''noncanonical or truncated VCEK ProductName''
      else if name \<in> name_bytes Milan then Inr Milan else if name \<in> name_bytes Genoa then Inr Genoa
      else if name \<in> name_bytes Turin then Inr Turin else invalid_data ''unsupported VCEK ProductName'')"
  unfolding product_def by (simp only: name_bytes_def list.case product_names.simps list.set image_insert image_empty)

lemma product_Inr: "product v = Inr g \<longleftrightarrow> (\<exists>name \<in> set (product_names g). v = ia5_string name)"
proof -
  have *: "product (t # l # name) = Inr g \<longleftrightarrow> t = 0x16 \<and> l < 128 \<and> unat l = length name \<and>
      name \<in> name_bytes g" for t l name
    using name_bytes_disjoint [of name g]
    by (cases g) (auto simp: product_by_name invalid_data_def not_le)
  have **: "unat l = length (ascii_bytes s) \<and> l < 128 \<longleftrightarrow> l = of_nat (length s)"
    if "s \<in> set (product_names g)" for l :: u8 and s
  proof -
    have "length s < 128" using that by (cases g) auto
    then show ?thesis
      by (auto simp: ascii_bytes_def unat_eq_of_nat_u8 word_less_nat_alt unat_of_nat take_bit_nat_eq_self)
  qed
  show ?thesis
  proof (cases v rule: list.exhaust [case_product list.exhaust [of "tl v"]])
    case Nil_Nil
    then show ?thesis by (simp add: product_def invalid_data_def ia5_string_def)
  next
    case Nil_Cons
    then show ?thesis by (simp add: product_def invalid_data_def ia5_string_def)
  next
    case (Cons_Nil t r)
    then show ?thesis by (simp add: product_def invalid_data_def ia5_string_def)
  next
    case (Cons_Cons t r l name)
    then have v: "v = t # l # name" by simp
    show ?thesis unfolding v * ia5_string_def name_bytes_def using ** by auto
  qed
qed

definition hwid_values :: "nat \<Rightarrow> bytes \<Rightarrow> bytes set" where
  "hwid_values len chip = {v. v = take len chip \<and> length v = len \<or>
     v = 4 # of_nat len # take len chip \<and> length v = len + 2}"

lemma hwid_matches_iff:
  assumes "len < 256"
  shows "hwid_matches v chip len \<longleftrightarrow> v \<in> hwid_values len chip \<and> (\<forall>b \<in> set (drop len chip). b = 0)"
proof (cases "length v = len + 2")
  case True
  then obtain a b w where "v = a # b # w" by (auto simp: length_Suc_conv)
  with True assms show ?thesis
    by (auto simp: hwid_matches_def hwid_values_def Let_def list_all_iff unat_eq_of_nat_u8)
next
  case False
  then show ?thesis
    by (auto simp: hwid_matches_def hwid_values_def Let_def list_all_iff)
qed

section \<open>The extensions of a certificate\<close>

definition extension_ok :: "x509_extension \<Rightarrow> bool" where
  "extension_ok e \<longleftrightarrow> xe_parsed e \<noteq> Ext_ParseError \<and> xe_parsed e \<noteq> Ext_BasicConstraints True \<and>
     (\<forall>ds cs. xe_parsed e = Ext_KeyUsage ds cs \<longrightarrow> ds \<and> \<not> cs)"

lemma extension_check_Inr: "extension_check e = Inr () \<longleftrightarrow> extension_ok e"
  by (auto simp: extension_check_def extension_ok_def invalid_data_def split: parsed_extension.split)

definition ext_pairs :: "x509_extension list \<Rightarrow> (string \<times> bytes) list" where
  "ext_pairs exts = map (\<lambda>e. (xe_oid e, xe_value e)) exts"

lemma map_of_insort_key:
  "map_of vs k = None \<Longrightarrow> map_of (insort_key fst (k, v) vs) = (map_of vs)(k \<mapsto> v)"
  by (induction vs) (auto split: if_splits)

lemma extension_values_from_Inr:
  assumes "extension_values_from vs exts = Inr vs'"
  shows "(\<forall>e \<in> set exts. extension_ok e) \<and> distinct (map xe_oid exts) \<and>
    (\<forall>e \<in> set exts. map_of vs (xe_oid e) = None) \<and>
    set vs' = set vs \<union> set (ext_pairs exts) \<and>
    map_of vs' = map_of vs ++ map_of (ext_pairs exts)"
  using assms
proof (induction exts arbitrary: vs)
  case Nil
  then show ?case by (simp add: ext_pairs_def)
next
  case (Cons e exts)
  then have e: "extension_ok e" "map_of vs (xe_oid e) = None"
    "extension_values_from (insort_key fst (xe_oid e, xe_value e) vs) exts = Inr vs'"
    by (auto simp: and_then_eq_Inr extension_check_Inr invalid_data_def split: if_splits)
  note IH = Cons.IH [OF e(3)]
  note m = map_of_insort_key [OF e(2), of "xe_value e"]
  have "xe_oid e \<notin> xe_oid ` set exts" using IH m by auto
  moreover from this have "map_of (ext_pairs exts) (xe_oid e) = None"
    by (auto simp: ext_pairs_def map_of_eq_None_iff)
  moreover have "\<forall>f \<in> set exts. map_of vs (xe_oid f) = None" using IH m by (auto split: if_splits)
  ultimately show ?case
    using IH e m by (auto simp: ext_pairs_def set_insort_key fun_eq_iff map_add_def split: option.splits)
qed


lemma extension_values_from_complete:
  assumes "\<forall>e \<in> set exts. extension_ok e" "distinct (map xe_oid exts)"
    and "\<forall>e \<in> set exts. map_of vs (xe_oid e) = None"
  shows "\<exists>vs'. extension_values_from vs exts = Inr vs'"
  using assms
proof (induction exts arbitrary: vs)
  case (Cons e exts)
  have "extension_check e = Inr ()" using Cons.prems(1) by (simp add: extension_check_Inr)
  moreover have "\<exists>vs'. extension_values_from (insort_key fst (xe_oid e, xe_value e) vs) exts = Inr vs'"
  proof (rule Cons.IH)
    show "\<forall>f \<in> set exts. map_of (insort_key fst (xe_oid e, xe_value e) vs) (xe_oid f) = None"
      using Cons.prems(2,3) map_of_insort_key [of vs "xe_oid e" "xe_value e"] by (metis distinct.simps(2) fun_upd_apply
        image_eqI image_set list.set_intros list.simps(9))
  qed (use Cons.prems in auto)
  ultimately show ?case using Cons.prems(3) by simp
qed simp

lemma check_amd_oids_Inr:
  "check_amd_oids vs = Inr () \<longleftrightarrow>
     (\<forall>(oid, v) \<in> set vs. (oid \<in> set RESERVED_SPL \<longrightarrow> v = der_int 0) \<and>
        (take (length amd_oid_prefix) oid = amd_oid_prefix \<longrightarrow> oid \<in> set RESERVED_SPL \<union> set supported_oids))"
  by (induction vs rule: check_amd_oids.induct) (auto simp: and_then_eq_Inr der_u8_Inr invalid_data_def)

lemma required_u8_Inr: "required_u8 vs oid = Inr n \<longleftrightarrow> map_of vs oid = Some (der_int n)"
  by (auto simp: required_u8_def required_def and_then_eq_Inr der_u8_Inr invalid_data_def split: option.split)

lemma check_tcb_oids_Inr:
  "check_tcb_oids vs ps = Inr () \<longleftrightarrow> (\<forall>(oid, n) \<in> set ps. map_of vs oid = Some (der_int n))"
  by (induction vs ps rule: check_tcb_oids.induct) (auto simp: and_then_eq_Inr required_u8_Inr invalid_data_def)

text \<open>
  The parts of the reported TCB by generation: which extension carries which byte, and the
  bytes that must be zero.
\<close>

fun tcb_spl :: "generation \<Rightarrow> (string \<times> nat) list" where
  "tcb_spl Turin = [(FMC, 0), (BOOT, 1), (TEE, 2), (SNP, 3), (MICROCODE, 7)]"
| "tcb_spl _ = [(BOOT, 0), (TEE, 1), (SNP, 6), (MICROCODE, 7)]"

fun tcb_reserved :: "generation \<Rightarrow> nat list" where
  "tcb_reserved Turin = [4, 5, 6]"
| "tcb_reserved _ = [2, 3, 4, 5]"

fun hwid_len :: "generation \<Rightarrow> nat" where
  "hwid_len Turin = 8"
| "hwid_len _ = 64"

definition tcb_byte :: "snp_report \<Rightarrow> nat \<Rightarrow> u8" where
  "tcb_byte r k = le_bytes 8 (sr_reported_tcb r) ! k"

definition tcb_bound :: "(string \<Rightarrow> bytes option) \<Rightarrow> generation \<Rightarrow> snp_report \<Rightarrow> bool" where
  "tcb_bound ext g r \<longleftrightarrow>
     (\<forall>(oid, k) \<in> set (tcb_spl g). ext oid = Some (der_int (tcb_byte r k))) \<and>
     (\<forall>k \<in> set (tcb_reserved g). tcb_byte r k = 0) \<and>
     (g \<noteq> Turin \<longrightarrow> ext FMC = None) \<and>
     (\<exists>hwid. ext HWID = Some hwid \<and> hwid \<in> hwid_values (hwid_len g) (sr_chip_id r)) \<and>
     (\<forall>b \<in> set (drop (hwid_len g) (sr_chip_id r)). b = 0)"

lemma list_ex_nonzero: "list_ex (\<lambda>b. b \<noteq> 0) bs \<longleftrightarrow> \<not> (\<forall>b \<in> set bs. b = (0 :: u8))"
  by (auto simp: list_ex_iff)

lemma take_drop_nths:
  assumes "length tcb = 8"
  shows "take 3 (drop 4 tcb) = [tcb ! 4, tcb ! 5, tcb ! 6]" "take 4 (drop 2 tcb) = [tcb ! 2, tcb ! 3, tcb ! 4, tcb ! 5]"
proof -
  obtain a b c d e f g h where "tcb = [a, b, c, d, e, f, g, h]"
    using assms by (auto simp: length_Suc_conv eval_nat_numeral)
  then show "take 3 (drop 4 tcb) = [tcb ! 4, tcb ! 5, tcb ! 6]"
    "take 4 (drop 2 tcb) = [tcb ! 2, tcb ! 3, tcb ! 4, tcb ! 5]" by simp_all
qed

lemma guard_Inr:
  "and_then (if A then invalid_data msg else Inr t) F = Inr y \<longleftrightarrow> \<not> A \<and> F t = Inr y"
  "and_then (and_then m (\<lambda>n. if n \<noteq> k then invalid_data msg else Inr t)) F = Inr y \<longleftrightarrow> m = Inr k \<and> F t = Inr y"
  "and_then (and_then m (\<lambda>n. if n = k then Inr t else invalid_data msg)) F = Inr y \<longleftrightarrow> m = Inr k \<and> F t = Inr y"
  "and_then (if A then Inr t else invalid_data msg) F = Inr y \<longleftrightarrow> A \<and> F t = Inr y"
  "(if A then m' else invalid_data msg) = Inr z \<longleftrightarrow> A \<and> m' = Inr z"
  "(if A then invalid_data msg else m') = Inr z \<longleftrightarrow> \<not> A \<and> m' = Inr z"
  "and_then u (\<lambda>_. m') = Inr z \<longleftrightarrow> u = Inr () \<and> m' = Inr z"
  by (auto simp: invalid_data_def and_then_eq_Inr)

lemma check_tcb_and_hwid_Inr: "check_tcb_and_hwid vs g r = Inr () \<longleftrightarrow> tcb_bound (map_of vs) g r"
proof -
  have l: "length (le_bytes 8 (sr_reported_tcb r)) = 8" by simp
  have h: "and_then (required vs HWID) (\<lambda>hwid.
        if \<not> hwid_matches hwid (sr_chip_id r) n then invalid_data msg else Inr ()) = Inr () \<longleftrightarrow>
      (\<exists>hwid. map_of vs HWID = Some hwid \<and> hwid \<in> hwid_values n (sr_chip_id r)) \<and>
      (\<forall>b \<in> set (drop n (sr_chip_id r)). b = 0)" if "n < 256" for n msg
    using hwid_matches_iff [OF that]
    by (auto simp: and_then_eq_Inr required_def invalid_data_def split: option.split)
  show ?thesis
    unfolding check_tcb_and_hwid_def Let_def tcb_bound_def tcb_components_def
    by (cases g)
      (simp_all add: guard_Inr check_tcb_oids_Inr required_u8_Inr list_ex_nonzero take_drop_nths [OF l]
        tcb_byte_def h del: check_tcb_oids.simps, (blast | force)+)
qed

section \<open>The binding of a certificate to a report\<close>

text \<open>
  The declarative form: what a VCEK's extensions must say for the certificate to belong to
  the processor and TCB a report names.
\<close>

definition report_signable :: "snp_report \<Rightarrow> bool" where
  "report_signable r \<longleftrightarrow> 2 \<le> sr_version r \<and> sr_version r \<le> 5 \<and>
     drop_bit 2 (sr_flags r) AND 7 = 0 \<and> \<not> chip_id_unusable r"

definition vcek_bound :: "x509_extension list \<Rightarrow> snp_report \<Rightarrow> generation \<Rightarrow> bool" where
  "vcek_bound exts r g \<longleftrightarrow>
     (let ext = map_of (ext_pairs exts) in
      report_signable r \<and>
      (\<forall>e \<in> set exts. extension_ok e) \<and> distinct (map xe_oid exts) \<and> ext CSP_ID = None \<and>
      (\<forall>(oid, v) \<in> set (ext_pairs exts). (oid \<in> set RESERVED_SPL \<longrightarrow> v = der_int 0) \<and>
         (take (length amd_oid_prefix) oid = amd_oid_prefix \<longrightarrow> oid \<in> set RESERVED_SPL \<union> set supported_oids)) \<and>
      ext STRUCT_VERSION = Some (der_int (if g = Turin then 1 else 0)) \<and>
      (\<exists>name \<in> set (product_names g). ext PRODUCT_NAME = Some (ia5_string name)) \<and>
      (3 \<le> sr_version r \<longrightarrow> take 2 (sr_reserved1 r) = generation_cpuid g) \<and>
      tcb_bound ext g r)"

lemma required_product_Inr:
  "and_then (required vs PRODUCT_NAME) product = Inr g \<longleftrightarrow>
     (\<exists>name \<in> set (product_names g). map_of vs PRODUCT_NAME = Some (ia5_string name))"
  by (auto simp: required_def and_then_eq_Inr product_Inr invalid_data_def split: option.split)

definition bound_values :: "ext_values \<Rightarrow> snp_report \<Rightarrow> generation io_res" where
  "bound_values vs r =
     (if map_of vs CSP_ID \<noteq> None then invalid_data ''VLEK CSP_ID extension is forbidden in a VCEK''
      else
        and_then (check_amd_oids vs) (\<lambda>_.
        and_then (required_u8 vs STRUCT_VERSION) (\<lambda>struct_version.
        and_then (and_then (required vs PRODUCT_NAME) product) (\<lambda>generation.
        if struct_version \<noteq> (if generation = Turin then 1 else 0)
        then invalid_data ''VCEK structVersion does not match product generation''
        else if 3 \<le> sr_version r \<and> take 2 (sr_reserved1 r) \<noteq> generation_cpuid generation
        then invalid_data ''unsupported or mismatched report CPUID family/model''
        else and_then (check_tcb_and_hwid vs generation r) (\<lambda>_. Inr generation)))))"

lemma bound_values_Inr:
  "bound_values vs r = Inr g \<longleftrightarrow>
     map_of vs CSP_ID = None \<and>
     (\<forall>(oid, v) \<in> set vs. (oid \<in> set RESERVED_SPL \<longrightarrow> v = der_int 0) \<and>
         (take (length amd_oid_prefix) oid = amd_oid_prefix \<longrightarrow> oid \<in> set RESERVED_SPL \<union> set supported_oids)) \<and>
     map_of vs STRUCT_VERSION = Some (der_int (if g = Turin then 1 else 0)) \<and>
     (\<exists>name \<in> set (product_names g). map_of vs PRODUCT_NAME = Some (ia5_string name)) \<and>
     (3 \<le> sr_version r \<longrightarrow> take 2 (sr_reserved1 r) = generation_cpuid g) \<and>
     tcb_bound (map_of vs) g r"
proof -
  define p where "p = and_then (required vs PRODUCT_NAME) product"
  show ?thesis
    unfolding bound_values_def check_amd_oids_Inr [symmetric] required_u8_Inr [symmetric]
      required_product_Inr [symmetric] check_tcb_and_hwid_Inr [symmetric] p_def [symmetric]
    by (cases p) (auto simp: and_then_eq_Inr invalid_data_def split: if_splits)
qed

lemma validate_extensions_Inr: "validate_extensions exts r = Inr g \<longleftrightarrow> vcek_bound exts r g"
proof -
  have "validate_extensions exts r = Inr g \<longleftrightarrow>
      report_signable r \<and> (\<exists>vs. extension_values exts = Inr vs \<and> bound_values vs r = Inr g)"
    unfolding validate_extensions_def bound_values_def [symmetric]
    by (auto simp: report_signable_def and_then_eq_Inr invalid_data_def)
  also have "\<dots> \<longleftrightarrow> vcek_bound exts r g"
  proof
    assume "report_signable r \<and> (\<exists>vs. extension_values exts = Inr vs \<and> bound_values vs r = Inr g)"
    then obtain vs where v: "report_signable r" "extension_values_from [] exts = Inr vs" "bound_values vs r = Inr g"
      by (auto simp: extension_values_def)
    with extension_values_from_Inr [OF v(2)] show "vcek_bound exts r g"
      by (simp add: vcek_bound_def bound_values_Inr)
  next
    assume b: "vcek_bound exts r g"
    then obtain vs where v: "extension_values_from [] exts = Inr vs"
      using extension_values_from_complete [of exts "[]"] by (auto simp: vcek_bound_def Let_def)
    then have m: "set vs = set (ext_pairs exts)" "map_of vs = map_of (ext_pairs exts)"
      using extension_values_from_Inr [OF v] by simp_all
    from b have "bound_values vs r = Inr g" "report_signable r"
      unfolding vcek_bound_def Let_def bound_values_Inr m by blast+
    with v show "report_signable r \<and> (\<exists>vs. extension_values exts = Inr vs \<and> bound_values vs r = Inr g)"
      by (auto simp: extension_values_def)
  qed
  finally show ?thesis .
qed


definition vcek_belongs :: "x509_parser \<Rightarrow> bytes \<Rightarrow> snp_report \<Rightarrow> bool" where
  "vcek_belongs from_der der r \<longleftrightarrow>
     (\<exists>cert g. from_der der = Some ([], cert) \<and> xc_subject_cns cert = [Some ''SEV-VCEK''] \<and>
        xc_algorithm cert = ''1.2.840.10045.2.1'' \<and> xc_parameters cert = Some (True, Some ''1.3.132.0.34'') \<and>
        xc_issuer_cns cert = [Some (issuer_cn g)] \<and> vcek_bound (xc_extensions cert) r g)"

lemma common_name_is_iff: "common_name_is names s \<longleftrightarrow> names = [Some s]"
  by (cases names) (auto simp: common_name_is_def)

lemma vcek_validate_Inr: "vcek_validate from_der der r = Inr () \<longleftrightarrow> vcek_belongs from_der der r"
proof (cases "from_der der")
  case None
  then show ?thesis by (simp add: vcek_validate_def vcek_belongs_def invalid_data_def)
next
  case (Some rc)
  obtain rest cert where rc: "rc = (rest, cert)" by (cases rc)
  show ?thesis
    unfolding vcek_validate_def vcek_belongs_def Some rc validate_extensions_Inr [symmetric]
    by (auto simp: common_name_is_iff and_then_eq_Inr guard_Inr)
qed

text \<open>
  C6. \<open>vcek::validate\<close> accepts a certificate exactly when it is one
  for the reporting processor: one DER certificate named \<open>SEV-VCEK\<close> with a P-384 key, no
  duplicate, malformed or unknown AMD extension, the product name and structure version of
  one generation that also names the issuer and, for reports with a CPUID, the processor,
  every byte of the reported TCB equal to the extension that carries it and every reserved
  byte zero, and the hardware ID equal to the report's chip ID.
\<close>

theorem vcek_binding_exact:
  "vcek_validate from_der der r = Inr () \<longleftrightarrow>
     (\<exists>cert g. from_der der = Some ([], cert) \<and> xc_subject_cns cert = [Some ''SEV-VCEK''] \<and>
        xc_algorithm cert = ''1.2.840.10045.2.1'' \<and> xc_parameters cert = Some (True, Some ''1.3.132.0.34'') \<and>
        xc_issuer_cns cert = [Some (issuer_cn g)] \<and> vcek_bound (xc_extensions cert) r g)"
  by (simp only: vcek_validate_Inr vcek_belongs_def)

section \<open>The report\<close>

text \<open>The accepted formats, field by field: only the lowest signer-info bit may be set.\<close>

definition all_zero :: "bytes \<Rightarrow> bool" where
  "all_zero bs \<longleftrightarrow> (\<forall>b \<in> set bs. b = 0)"

definition format_accepted :: "snp_report \<Rightarrow> bool" where
  "format_accepted r \<longleftrightarrow>
     sr_version r \<in> {2, 3, 4, 5} \<and> sr_signature_algo r = 1 \<and> sr_vmpl r \<in> {0, 1, 2, 3} \<and>
     sr_flags r \<in> {0, 1} \<and> \<not> all_zero (sr_chip_id r) \<and>
     bit (sr_policy r) 17 \<and> (\<forall>k \<ge> 26. \<not> bit (sr_policy r) k) \<and>
     (sr_version r \<noteq> 2 \<longrightarrow> sr_reserved1 r ! 2 \<le> 15) \<and>
     sr_reserved0 r = 0 \<and> sr_reserved2 r = 0 \<and> sr_reserved3 r = 0 \<and>
     all_zero (drop (if sr_version r = 2 then 0 else 3) (sr_reserved1 r)) \<and>
     all_zero (drop (if sr_version r = 5 then 16 else 0) (sr_reserved4 r)) \<and>
     all_zero (take 24 (drop 48 (sr_signature r))) \<and> all_zero (drop 120 (sr_signature r))"

lemma word_between:
  "2 \<le> v \<and> v \<le> 5 \<longleftrightarrow> v \<in> {2, 3, 4, 5 :: u32}" "v \<le> 3 \<longleftrightarrow> v \<in> {0, 1, 2, 3 :: u32}"
proof -
  have n: "unat v = 0 \<longleftrightarrow> v = 0" "unat v = 1 \<longleftrightarrow> v = 1" "unat v = 2 \<longleftrightarrow> v = 2" "unat v = 3 \<longleftrightarrow> v = 3"
    "unat v = 4 \<longleftrightarrow> v = 4" "unat v = 5 \<longleftrightarrow> v = 5"
    using unat_u32_bound [of v] by (auto simp: word_unat_eq_iff)
  have "(2 \<le> v \<and> v \<le> 5) = (unat v \<in> {2, 3, 4, 5})" "(v \<le> 3) = (unat v \<in> {0, 1, 2, 3})"
    by (auto simp: word_le_nat_alt)
  then show "2 \<le> v \<and> v \<le> 5 \<longleftrightarrow> v \<in> {2, 3, 4, 5 :: u32}" "v \<le> 3 \<longleftrightarrow> v \<in> {0, 1, 2, 3 :: u32}"
    using n by auto
qed

lemma flags_accepted:
  "f AND NOT 0x1F = 0 \<and> drop_bit 2 f AND 7 = 0 \<and> f AND 2 = 0 \<longleftrightarrow> f \<in> {0, 1 :: u32}"
proof
  assume a: "f AND NOT 0x1F = 0 \<and> drop_bit 2 f AND 7 = 0 \<and> f AND 2 = 0"
  have m: "(0x1F :: u32) = mask 5" "(7 :: u32) = mask 3" "(2 :: u32) = push_bit 1 1"
    by (simp_all add: mask_eq_exp_minus_1)
  have *: "n = 0" if "bit f n" for n
  proof (rule ccontr)
    assume "n \<noteq> 0"
    have "n < 32" using that by (rule bit_imp_le_length [THEN order.strict_trans2]) simp
    consider "5 \<le> n" | "2 \<le> n" "n < 5" | "n = 1" using \<open>n \<noteq> 0\<close> by linarith
    then show False
    proof cases
      case 1
      then have "bit (f AND NOT (mask 5)) n" using that \<open>n < 32\<close> by (simp add: bit_simps)
      then show False using a unfolding m by simp
    next
      case 2
      then obtain j where j: "n = j + 2" "j < 3" by (metis add.commute add_less_cancel_left le_Suc_ex numeral_plus_numeral
            semiring_norm(2) semiring_norm(4) semiring_norm(9))
      then have "bit (drop_bit 2 f AND mask 3) j" using that by (simp add: bit_simps)
      then show False using a unfolding m by simp
    next
      case 3
      then have "bit (f AND push_bit 1 1) 1" using that by (simp add: bit_simps)
      then show False using a unfolding m by simp
    qed
  qed
  show "f \<in> {0, 1}"
  proof (cases "bit f 0")
    case True
    then have "f = 1" by (intro bit_word_eqI) (use * in \<open>auto simp: bit_1_iff\<close>)
    then show ?thesis by simp
  next
    case False
    then have "f = 0" by (intro bit_word_eqI) (use * in auto)
    then show ?thesis by simp
  qed
qed auto

lemma policy_accepted:
  "\<not> (p AND push_bit 17 1 = 0 \<or> drop_bit 26 p \<noteq> 0) \<longleftrightarrow> bit p 17 \<and> (\<forall>k \<ge> 26. \<not> bit (p :: u64) k)"
proof -
  have "p AND push_bit 17 1 = 0 \<longleftrightarrow> \<not> bit p 17"
    using and_exp_eq_0_iff_not_bit [of p 17] by (simp only: push_bit_of_1)
  moreover have "drop_bit 26 p = 0 \<longleftrightarrow> (\<forall>k \<ge> 26. \<not> bit p k)"
  proof
    assume z: "drop_bit 26 p = 0"
    show "\<forall>k \<ge> 26. \<not> bit p k"
    proof (intro allI impI)
      fix k :: nat assume "26 \<le> k"
      then obtain j where "k = 26 + j" by (auto simp: le_iff_add)
      moreover have "\<not> bit (drop_bit 26 p) j" by (simp only: z bit_0_eq bot_fun_def bot_bool_def not_False_eq_True)
      ultimately show "\<not> bit p k" by (simp add: bit_drop_bit_eq)
    qed
  next
    assume "\<forall>k \<ge> 26. \<not> bit p k"
    then show "drop_bit 26 p = 0" by (intro bit_word_eqI) (simp add: bit_drop_bit_eq)
  qed
  ultimately show ?thesis by blast
qed

lemma validate_report_format_Inr: "validate_report_format r = Inr () \<longleftrightarrow> format_accepted r"
proof -
  have v: "3 \<le> sr_version r \<and> sr_version r \<le> 5 \<longleftrightarrow> sr_version r \<noteq> 2" "3 \<le> sr_version r \<longleftrightarrow> sr_version r \<noteq> 2"
    if "sr_version r \<in> {2, 3, 4, 5}" using that by auto
  have g: "(if A then invalid_data msg else m) = (Inr () :: unit io_res) \<longleftrightarrow> \<not> A \<and> m = Inr ()" for A msg m
    by (simp add: invalid_data_def)
  have f: "format_accepted r \<longleftrightarrow>
      (2 \<le> sr_version r \<and> sr_version r \<le> 5) \<and> sr_signature_algo r = 1 \<and> sr_vmpl r \<le> 3 \<and>
      (sr_flags r AND NOT 0x1F = 0 \<and> drop_bit 2 (sr_flags r) AND 7 = 0 \<and> sr_flags r AND 2 = 0) \<and>
      \<not> all_zero (sr_chip_id r) \<and> \<not> (sr_policy r AND push_bit 17 1 = 0 \<or> drop_bit 26 (sr_policy r) \<noteq> 0) \<and>
      (sr_version r \<noteq> 2 \<longrightarrow> sr_reserved1 r ! 2 \<le> 15) \<and>
      sr_reserved0 r = 0 \<and> sr_reserved2 r = 0 \<and> sr_reserved3 r = 0 \<and>
      all_zero (drop (if sr_version r = 2 then 0 else 3) (sr_reserved1 r)) \<and>
      all_zero (drop (if sr_version r = 5 then 16 else 0) (sr_reserved4 r)) \<and>
      all_zero (take 24 (drop 48 (sr_signature r))) \<and> all_zero (drop 120 (sr_signature r))"
    unfolding format_accepted_def flags_accepted policy_accepted word_between by (simp only: conj_assoc)
  show ?thesis
  proof (cases "2 \<le> sr_version r \<and> sr_version r \<le> 5")
    case False
    then show ?thesis unfolding f validate_report_format_def g by blast
  next
    case True
    then have i: "sr_version r \<in> {2, 3, 4, 5}" unfolding word_between .
    have "(case snp_cpuid r of Some (_, _, stepping) \<Rightarrow> 15 < stepping | None \<Rightarrow> False) \<longleftrightarrow>
        \<not> (sr_version r \<noteq> 2 \<longrightarrow> sr_reserved1 r ! 2 \<le> 15)"
      using v [OF i] by (auto simp: snp_cpuid_def not_le)
    moreover have "chip_id_unusable r \<longleftrightarrow> sr_flags r AND 2 \<noteq> 0 \<or> all_zero (sr_chip_id r)"
      "(if 3 \<le> sr_version r then 3 else 0 :: nat) = (if sr_version r = 2 then 0 else 3)"
      using v [OF i] by (auto simp: chip_id_unusable_def all_zero_def list_all_iff)
    moreover have "list_ex (\<lambda>b. b \<noteq> 0) bs \<longleftrightarrow> \<not> all_zero bs" for bs
      by (simp add: list_ex_nonzero all_zero_def)
    moreover have "3 < sr_vmpl r \<longleftrightarrow> \<not> sr_vmpl r \<le> 3" by (simp add: not_le)
    ultimately show ?thesis
      unfolding f validate_report_format_def g by (simp only: True) blast
  qed
qed


section \<open>The verification\<close>

lemma check_report_signature_Inr:
  assumes "length bs = 1184"
  shows "check_report_signature cb vcek bs = Inr () \<longleftrightarrow>
     cb_ecdsa_verify_raw cb vcek Sha384_Alg (take 672 bs) (rev (take 72 (drop 672 bs))) (rev (take 72 (drop 744 bs))) = Inr True"
proof -
  have "take 72 (take 512 (drop 672 bs)) = take 72 (drop 672 bs)"
    "take 72 (drop 72 (take 512 (drop 672 bs))) = take 72 (drop 744 bs)"
    by (simp_all add: drop_take)
  then show ?thesis
    using assms by (auto simp: check_report_signature_def SNP_SIGNED_LEN_def SNP_SIG_COMPONENT_LEN_def
        le_to_be_def and_then_eq_Inr)
qed

definition snp_leaf_authentic ::
    "'cert crypto_backend \<Rightarrow> x509_parser \<Rightarrow> bytes \<Rightarrow> 'cert \<Rightarrow> 'cert list \<Rightarrow> 'cert list \<Rightarrow> bool" where
  "snp_leaf_authentic cb from_der bs leaf rest roots \<longleftrightarrow>
     cb_verify_cert_chain cb leaf (filter (\<lambda>c. \<not> cb_cert_is_self_signed cb c) rest) roots = Inr () \<and>
     cb_ecdsa_verify_raw cb leaf Sha384_Alg (take 672 bs)
       (rev (take 72 (drop 672 bs))) (rev (take 72 (drop 744 bs))) = Inr True \<and>
     (\<exists>der. cb_cert_to_der cb leaf = Inr der \<and> vcek_belongs from_der der (snp_of_wire bs))"

definition verified_snp_result :: "bytes \<Rightarrow> snp_verify_result" where
  "verified_snp_result bs =
     \<lparr>sv_chain_valid = True, sv_signature_valid = True, sv_vcek_binding_valid = True,
      sv_measurements =
        \<lparr>sm_measurement = take 48 (drop 144 bs), sm_report_data = take 64 (drop 80 bs),
         sm_reported_tcb = of_le (take 8 (drop 384 bs)), sm_chip_id = take 64 (drop 416 bs)\<rparr>\<rparr>"

lemma report_measurements_wire:
  "report_measurements (snp_of_wire bs) = sv_measurements (verified_snp_result bs)"
  by (simp add: report_measurements_def snp_of_wire_def snp_sizes_def verified_snp_result_def Let_def)

lemma snp_verify_exact_iff:
  "verify_snp_report_with_roots cb from_der bs pem roots = Inr res \<longleftrightarrow>
     length bs = 1184 \<and> format_accepted (snp_of_wire bs) \<and>
     (\<exists>leaf rest. cb_parse_pem_chain cb pem = Inr (leaf # rest) \<and>
        snp_leaf_authentic cb from_der bs leaf rest roots) \<and>
     res = verified_snp_result bs"
proof (cases "length bs = 1184")
  case False
  then show ?thesis by (simp add: verify_snp_report_with_roots_def SNP_REPORT_SIZE_def invalid_data_def)
next
  case True
  have p: "parse_snp_report bs = Inr (snp_of_wire bs)"
    using True by (simp add: parse_snp_report_def SNP_REPORT_SIZE_def)
  have r: "\<lparr>sv_chain_valid = True, sv_signature_valid = True, sv_vcek_binding_valid = True,
      sv_measurements = report_measurements (snp_of_wire bs)\<rparr> = verified_snp_result bs"
    unfolding report_measurements_wire by (simp add: verified_snp_result_def)
  show ?thesis
  proof (cases "cb_parse_pem_chain cb pem")
    case (Inl e)
    then show ?thesis
      by (simp add: verify_snp_report_with_roots_def True p r SNP_REPORT_SIZE_def and_then_eq_Inr)
  next
    case (Inr chain)
    show ?thesis
    proof (cases chain)
      case Nil
      with Inr show ?thesis
        by (simp add: verify_snp_report_with_roots_def True p r SNP_REPORT_SIZE_def and_then_eq_Inr invalid_data_def)
    next
      case (Cons leaf rest)
      with Inr show ?thesis
        unfolding snp_leaf_authentic_def check_report_signature_Inr [OF True, symmetric]
        by (auto simp: verify_snp_report_with_roots_def True p r SNP_REPORT_SIZE_def and_then_eq_Inr
            validate_report_format_Inr vcek_validate_Inr untrusted_intermediates_def)
    qed
  qed
qed


text \<open>
  C4. \<open>verify_snp_report\<close> accepts exactly the authentic reports: 1184
  bytes in an accepted format, a leaf certificate whose chain without self-signed
  certificates the backend validates to the given roots, its ECDSA signature (the two
  72-byte little-endian components) over the first 672 bytes, and its binding to the
  report. Every measurement returned is a slice of those signed bytes.
\<close>

theorem snp_verify_exact:
  "verify_snp_report_with_roots cb from_der bs pem roots = Inr res \<longleftrightarrow>
     length bs = 1184 \<and> format_accepted (snp_of_wire bs) \<and>
     (\<exists>leaf rest. cb_parse_pem_chain cb pem = Inr (leaf # rest) \<and>
        snp_leaf_authentic cb from_der bs leaf rest roots) \<and>
     res = verified_snp_result bs"
  by (rule snp_verify_exact_iff)

section \<open>An accepted report\<close>

text \<open>A version 2 report of a Milan processor with its certificate, accepted by an accepting backend.\<close>

definition sample_snp :: snp_report where
  "sample_snp =
     \<lparr>sr_version = 2, sr_guest_svn = 1, sr_policy = 0x30000, sr_family = 0, sr_image_id = 0, sr_vmpl = 0,
      sr_signature_algo = 1, sr_current_tcb = 0, sr_platform_info = 3, sr_flags = 0, sr_reserved0 = 0,
      sr_report_data = replicate 64 7, sr_measurement = replicate 48 5, sr_host_data = replicate 32 0,
      sr_id_key_digest = replicate 48 0, sr_author_key_digest = replicate 48 0, sr_report_id = replicate 32 0,
      sr_report_id_ma = replicate 32 0, sr_reported_tcb = of_le [4, 0, 0, 0, 0, 0, 0x18, 0xDB], sr_reserved1 = replicate 24 0,
      sr_chip_id = replicate 64 9, sr_committed_tcb = 0, sr_current_build = 0, sr_current_minor = 0,
      sr_current_major = 0, sr_reserved2 = 0, sr_committed_build = 0, sr_committed_minor = 0,
      sr_committed_major = 0, sr_reserved3 = 0, sr_launch_tcb = 0, sr_reserved4 = replicate 168 0,
      sr_signature = replicate 512 0\<rparr>"

definition sample_ext :: "string \<Rightarrow> bytes \<Rightarrow> x509_extension" where
  "sample_ext oid v = \<lparr>xe_oid = oid, xe_value = v, xe_parsed = Ext_Unparsed\<rparr>"

definition sample_vcek :: x509_certificate where
  "sample_vcek =
     \<lparr>xc_subject_cns = [Some ''SEV-VCEK''], xc_issuer_cns = [Some ''SEV-Milan''],
      xc_algorithm = ''1.2.840.10045.2.1'', xc_parameters = Some (True, Some ''1.3.132.0.34''),
      xc_extensions =
        [sample_ext STRUCT_VERSION [2, 1, 0], sample_ext PRODUCT_NAME (ia5_string ''Milan-B0''),
         sample_ext BOOT [2, 1, 4], sample_ext TEE [2, 1, 0], sample_ext SNP [2, 1, 0x18],
         sample_ext MICROCODE [2, 2, 0, 0xDB], sample_ext HWID (replicate 64 9)]\<rparr>"

lemma sample_tcb: "le_bytes 8 (sr_reported_tcb sample_snp) = [4, 0, 0, 0, 0, 0, 0x18, 0xDB]"
  unfolding sample_snp_def snp_report.simps by (rule le_bytes_of_le_sized) simp_all

lemma sample_tcb_bound: "tcb_bound (map_of (ext_pairs (xc_extensions sample_vcek))) Milan sample_snp"
  unfolding tcb_bound_def tcb_byte_def sample_tcb
  by (simp add: sample_snp_def sample_vcek_def sample_ext_def ext_pairs_def hwid_values_def der_int_def vcek_oids)

lemma sample_vcek_bound: "vcek_bound (xc_extensions sample_vcek) sample_snp Milan"
  unfolding vcek_bound_def Let_def
  using sample_tcb_bound
  by (simp add: report_signable_def sample_snp_def sample_vcek_def sample_ext_def ext_pairs_def
      extension_ok_def chip_id_unusable_def list_all_iff der_int_def vcek_oids supported_oids_def)

lemma sample_format: "format_accepted sample_snp"
  using policy_accepted [of "0x30000"]
  by (simp add: format_accepted_def sample_snp_def all_zero_def)



lemma sample_snp_accepted:
  "verify_snp_report_with_roots accepting_backend (\<lambda>_. Some ([], sample_vcek)) (concat (snp_fields sample_snp)) [] [()] =
     Inr (verified_snp_result (concat (snp_fields sample_snp)))"
proof -
  have v: "snp_valid sample_snp" by (simp add: snp_valid_def snp_fields_def snp_sizes_def sample_snp_def)
  have "vcek_belongs (\<lambda>_. Some ([], sample_vcek)) [] sample_snp"
    unfolding vcek_belongs_def using sample_vcek_bound
    by (intro exI [of _ sample_vcek] exI [of _ Milan]) (simp add: sample_vcek_def)
  then show ?thesis
    using snp.rebuild [OF v] snp.length_wire [OF v] sample_format
    by (simp add: snp_verify_exact_iff snp_leaf_authentic_def accepting_backend_def snp_sizes_def)
qed

end
