(* ===== verification/Verify_Chains.thy ===== *)
theory Verify_Chains
  imports Verify_Backend_Facts Verify_Tdx Verify_Snp_Facts
begin

text \<open>
  The verifiers on top of the backends. A backend that validates chains promises what a chain it accepts amounts to; under
  that contract the verifiers accept evidence only with a chain of that kind, and both contracts of the backends are
  instances.
\<close>

locale chain_validator =
  fixes cb :: "'cert crypto_backend"
    and anchored :: "'cert \<Rightarrow> 'cert list \<Rightarrow> 'cert list \<Rightarrow> bool"
  assumes chain_anchored:
    "cb_verify_cert_chain cb leaf intermediates roots = Inr () \<Longrightarrow> anchored leaf intermediates roots"
begin

lemma quote_chain:
  assumes "verify_td_quote_with_roots cb bs roots = Inr res"
  shows "\<exists>q pem leaf rest. parse_td_quote (strip_qgs_envelope bs) = Inr q \<and> quote_pck_cert_chain q = Some pem \<and>
    cb_parse_pem_chain cb pem = Inr (leaf # rest) \<and> anchored leaf (untrusted_intermediates cb rest) roots"
proof -
  from assms obtain q message where q: "parse_td_quote (strip_qgs_envelope bs) = Inr q" "quote_authentic cb roots q message res"
    unfolding verify_with_roots_Inr Let_def by blast
  then obtain sig ecdsa chain where "pq_signature q = Some sig" "qs_certification sig = Some (Cert_EcdsaSigAux ecdsa)"
    "ec_nested_certification ecdsa = Some (Nested_PckCertChain chain)" "pck_chain_accepted cb roots (pck_cert_chain chain) ecdsa"
    unfolding quote_authentic_def by blast
  with q show ?thesis
    using chain_anchored by (fastforce simp: pck_chain_accepted_def untrusted_intermediates_def quote_pck_cert_chain_def)
qed

lemma report_chain:
  assumes "verify_snp_report_with_roots cb from_der bs pem roots = Inr res"
  shows "\<exists>leaf rest. cb_parse_pem_chain cb pem = Inr (leaf # rest) \<and> anchored leaf (untrusted_intermediates cb rest) roots"
  using assms chain_anchored unfolding snp_verify_exact_iff snp_leaf_authentic_def untrusted_intermediates_def by blast

end

interpretation windows: chain_validator "windows_backend cg" "win_anchored cg" for cg
  by unfold_locales (rule windows_chain_anchored)

interpretation symcrypt: chain_validator "symcrypt_backend sy"
  "\<lambda>leaf intermediates roots. webpki_validates sy linked \<longrightarrow> sym_anchored sy linked leaf intermediates roots" for sy linked
  by unfold_locales (blast intro: symcrypt_chain_anchored)

section \<open>SNP reports on Windows\<close>

text \<open>
  C7. An SNP report is verified with the Windows backend only if the certificates supplied with it start
  with one from which a path of at most eight leads to a pinned AMD root: each is within its validity period, each is
  signed by the next, which is a CA with the right name, and those in between come from the supplied ones.
\<close>

theorem windows_report_anchored:
  assumes "verify_snp_report_with_roots (windows_backend cg) from_der bs pem roots = Inr res"
  shows "\<exists>leaf rest cs root. win_parse_pem_chain cg pem = Inr (leaf # rest) \<and> cs \<noteq> [] \<and> hd cs = leaf \<and> length cs \<le> 8 \<and>
    trusted_path cg rest roots cs root"
proof -
  from windows.report_chain [OF assms] obtain leaf rest where p: "win_parse_pem_chain cg pem = Inr (leaf # rest)"
    and a: "win_anchored cg leaf (untrusted_intermediates (windows_backend cg) rest) roots"
    by (auto simp: windows_backend_def)
  have "set (untrusted_intermediates (windows_backend cg) rest) \<subseteq> set rest" by (auto simp: untrusted_intermediates_def)
  with p a show ?thesis unfolding win_anchored_def trusted_path_def by blast
qed

definition toy_pem :: bytes where
  "toy_pem = ascii_bytes ''-----BEGIN CERTIFICATE-----A-----END CERTIFICATE-----''"

lemma toy_pem_parsed: "win_parse_pem_chain toy_cng toy_pem = Inr [[1, 3, 3, 1, 0]]"
proof -
  have "pem_blocks (\<lambda>_. Inr [1, 3, 3, 1, 0]) toy_pem = Inr [[1, 3, 3, 1, 0]]" by code_simp
  moreover have "cg_b64_decode toy_cng = (\<lambda>_. Inr [1, 3, 3, 1, 0])" by (simp add: toy_cng_def)
  ultimately show ?thesis by (simp add: win_parse_pem_chain_def win_cert_from_der_def toy_context)
qed

theorem windows_report_anchored_witness:
  "\<exists>res cs root. verify_snp_report_with_roots (windows_backend toy_cng) (\<lambda>_. Some ([], sample_vcek))
       (concat (snp_fields sample_snp)) toy_pem [[3, 3, 3, 3, 0]] = Inr res \<and>
     trusted_path toy_cng [] [[3, 3, 3, 3, 0]] cs root \<and> hd cs = [1, 3, 3, 1, 0]"
proof -
  let ?bs = "concat (snp_fields sample_snp)" and ?res = "verified_snp_result (concat (snp_fields sample_snp))"
  have v: "snp_valid sample_snp" by (simp add: snp_valid_def snp_fields_def snp_sizes_def sample_snp_def)
  have belongs: "vcek_belongs (\<lambda>_. Some ([], sample_vcek)) [1, 3, 3, 1, 0] sample_snp"
    unfolding vcek_belongs_def using sample_vcek_bound
    by (intro exI [of _ sample_vcek] exI [of _ Milan]) (simp add: sample_vcek_def)
  have chain: "cb_verify_cert_chain (windows_backend toy_cng) [1, 3, 3, 1, 0] [] [[3, 3, 3, 3, 0]] = Inr ()"
    by (simp add: windows_backend_def toy_chain)
  have tail: "drop 672 ?bs = replicate 512 0" by (simp add: snp_fields_def sample_snp_def)
  have tail2: "drop 744 ?bs = replicate 440 0" using arg_cong [OF tail, where f = "drop 72"] by simp
  have zeros: "fixed_width_be (replicate n 0) 32 what = Inr (replicate 32 0)" for n what
    using be_value_zeros [of n "[]"] be_value_zeros [of 32 "[]"] by (simp add: fixed_width_exact)
  have "length (take 672 ?bs) < 2 ^ 32" by (rule le_less_trans [of _ 672]) simp_all
  then have "win_verify_with_key toy_cng () 32 Sha384_Alg (take 672 ?bs) (replicate 72 0) (replicate 72 0) = Inr True"
    by (simp add: win_verify_with_key_def zeros win_digest_def nt_def len_u32_def) (simp add: toy_cng_def)
  then have sig: "cb_ecdsa_verify_raw (windows_backend toy_cng) [1, 3, 3, 1, 0] Sha384_Alg (take 672 ?bs)
      (rev (take 72 (drop 672 ?bs))) (rev (take 72 (drop 744 ?bs))) = Inr True"
    by (simp add: windows_backend_def win_ecdsa_verify_raw_def toy_context tail tail2)
      (simp add: toy_cng_def ec_curve_len_def)
  have "verify_snp_report_with_roots (windows_backend toy_cng) (\<lambda>_. Some ([], sample_vcek)) ?bs toy_pem [[3, 3, 3, 3, 0]] = Inr ?res"
    using snp.rebuild [OF v] snp.length_wire [OF v] sample_format belongs chain sig toy_pem_parsed
    by (simp add: snp_verify_exact_iff snp_leaf_authentic_def snp_sizes_def) (simp add: windows_backend_def)
  from windows_report_anchored [OF this] this show ?thesis unfolding toy_pem_parsed by auto
qed

section \<open>TDX quotes with SymCrypt\<close>

text \<open>
  C8. A TDX quote is verified with the SymCrypt backend only if WebPKI found a path for the first of its
  PCK certificates, valid by WebPKI's own relation at the present time, to an anchor that is one of the pinned Intel roots,
  over intermediates that come with the quote and are not self-signed. Of that path the backend has checked what WebPKI
  does not: every intermediate on it may sign certificates, and the root is itself fit for it: within its validity period,
  a CA (or of version 1) that may sign certificates, without a critical extension the backend does not know, and with a
  path length that allows the CAs on the path that are not self-issued. WebPKI's relation is a parameter, and its contract
  the only hypothesis beside acceptance.
\<close>

theorem symcrypt_quote_anchored:
  assumes "webpki_validates sy linked" "verify_td_quote_with_roots (symcrypt_backend sy) bs roots = Inr res"
  shows "\<exists>q pem leaf rest. parse_td_quote (strip_qgs_envelope bs) = Inr q \<and> quote_pck_cert_chain q = Some pem \<and>
    sym_parse_pem_chain sy pem = Inr (leaf # rest) \<and>
    sym_anchored sy linked leaf (filter (\<lambda>c. \<not> sym_cert_is_self_signed sy c) rest) roots"
proof -
  from symcrypt.quote_chain [OF assms(2), of linked] assms(1) show ?thesis
    by (fastforce simp: symcrypt_backend_def untrusted_intermediates_def)
qed

theorem symcrypt_quote_anchored_witness:
  "verify_td_quote_with_roots (symcrypt_backend toy_symcrypt) (td_quote_wire sample_td_quote) [[3, 3]] = Inr sample_result \<and>
   (\<exists>q pem leaf rest. parse_td_quote (strip_qgs_envelope (td_quote_wire sample_td_quote)) = Inr q \<and>
      quote_pck_cert_chain q = Some pem \<and> sym_parse_pem_chain toy_symcrypt pem = Inr (leaf # rest) \<and>
      sym_anchored toy_symcrypt toy_linked leaf (filter (\<lambda>c. \<not> sym_cert_is_self_signed toy_symcrypt c) rest) [[3, 3]])"
proof -
  have accepted: "quote_authentic (symcrypt_backend toy_symcrypt) [[3, 3]] sample_td_quote message sample_result" for message
  proof -
    have sig: "sym_signature 32 r s = Inr (r @ s)" if "length r = 32" "length s = 32" for r s
      using that by (simp add: sym_signature_exact)
    show ?thesis
      by (simp add: quote_authentic_def sample_td_quote_def sample_td_signature_def sample_ecdsa_def pck_chain_accepted_def
          sample_result_def toy_symcrypt_simps sym_parse_pem_chain_def sym_pem_cert_def sym_ecdsa_verify_raw_def named_curve_def
          sym_ecdsa_p256_verify_point_def sym_verify_ec_def sig sym_cert_is_self_signed_def sym_self_signature_def)
  qed
  have "verify_td_quote_with_roots (symcrypt_backend toy_symcrypt) (td_quote_wire sample_td_quote) [[3, 3]] = Inr sample_result"
    unfolding verify_with_roots_Inr td_quote_wire_front(2) [OF sample_td_quote_valid]
      parse_td_quote_wire [OF sample_td_quote_valid] Let_def
    using accepted signed_part_take [OF sample_td_quote_valid] by simp
  with symcrypt_quote_anchored [OF toy_validates this] show ?thesis by blast
qed

end
