(* ===== verification/Platform_Access.thy ===== *)
theory Platform_Access
  imports Tpm_Device Event_Log
begin

text \<open>
  How the program finds its inputs on a machine: the TPM device (\<open>open\<close> of \<open>device.rs\<close>), the measured-boot log in the
  Windows registry (\<open>event_log.rs\<close> and \<open>guest_attest/mod.rs\<close>) and the log files of Windows (\<open>event_log.rs\<close>). The calls
  of the operating system are parameters; closing a handle has no effect on what is modelled.
\<close>

section \<open>Opening the TPM\<close>

definition TPM_DEVICES :: "string list" where
  "TPM_DEVICES = [''/dev/tpmrm0'', ''/dev/tpm0'']"

fun open_candidates :: "(string \<Rightarrow> io_error + 'f) \<Rightarrow> string list \<Rightarrow> io_error option \<Rightarrow> 'f io_res" where
  "open_candidates open_file [] last_err =
     Inl (Fail (case last_err of Some e \<Rightarrow> e | None \<Rightarrow> Io_Msg NotFound ''No TPM device''))"
| "open_candidates open_file (path # paths) last_err =
     (case open_file path of
        Inr f \<Rightarrow> Inr f
      | Inl e \<Rightarrow> open_candidates open_file paths (Some e))"

definition unix_open :: "(string \<Rightarrow> io_error + 'f) \<Rightarrow> 'f io_res" where
  "unix_open open_file = open_candidates open_file TPM_DEVICES None"

text \<open>\<open>Tbsi_Context_Create\<close> with the parameters of the source: a status and a handle.\<close>

definition windows_open :: "u32 \<times> u32 \<Rightarrow> u32 io_res" where
  "windows_open created =
     (let (rc, handle) = created in
      if rc = 0 then Inr handle
      else if rc = 0x8028400F then
        io_fail NotFound (''TPM not found (TBS_E_TPM_NOT_FOUND) rc=0x'' @ fmt_08x rc @
          ''. System reports TPM present so this may indicate a TBS access restriction (service state, policy) or a virtualization layer issue.'')
      else io_fail OtherKind (''Tbsi_Context_Create failed rc=0x'' @ fmt_08x rc))"

section \<open>The registry\<close>

record 'k registry =
  rg_open_key :: "string \<Rightarrow> u32 \<times> 'k"
  rg_value_len :: "'k \<Rightarrow> string \<Rightarrow> u32 \<times> u32"
  rg_value :: "'k \<Rightarrow> string \<Rightarrow> nat \<Rightarrow> u32 \<times> bytes \<times> u32"
  rg_os_error :: "u32 \<Rightarrow> io_error"

fun win_path :: "string list \<Rightarrow> string" where
  "win_path [] = []"
| "win_path [p] = p"
| "win_path (p # ps) = p @ CHR 92 # win_path ps"

definition INTEGRITY_KEY_PATH :: string where
  "INTEGRITY_KEY_PATH = win_path [''SYSTEM'', ''CurrentControlSet'', ''Control'', ''IntegrityServices'']"

definition WBCL_VALUE :: string where
  "WBCL_VALUE = ''WBCL''"

text \<open>A failed call: nothing is there or it may not be read, or the error itself.\<close>

definition registry_failure :: "'k registry \<Rightarrow> u32 \<Rightarrow> 'a option io_res" where
  "registry_failure reg status =
     (let err = rg_os_error reg status in
      if io_error_kind err \<in> {NotFound, PermissionDenied} then Inr None else Inl (Fail err))"

definition read_windows_wbcl_registry :: "'k registry \<Rightarrow> (bytes \<times> string) option io_res" where
  "read_windows_wbcl_registry reg =
     (let (status, hkey) = rg_open_key reg INTEGRITY_KEY_PATH in
      if status \<noteq> 0 then registry_failure reg status
      else
        let (status, data_len) = rg_value_len reg hkey WBCL_VALUE in
        if status \<noteq> 0 then registry_failure reg status
        else if data_len = 0 then Inr None
        else
          let (status, buffer, data_len) = rg_value reg hkey WBCL_VALUE (unat data_len) in
          if status \<noteq> 0 then registry_failure reg status
          else Inr (Some (take (unat data_len) buffer, win_path [''HKLM'', INTEGRITY_KEY_PATH, ''WBCL''])))"

text \<open>The same value as the request of an attestation sends it: whatever goes wrong, an empty log.\<close>

definition read_windows_wbcl :: "'k registry \<Rightarrow> bytes" where
  "read_windows_wbcl reg =
     (let (status, hkey) = rg_open_key reg INTEGRITY_KEY_PATH in
      if status \<noteq> 0 then []
      else
        let (status, data_len) = rg_value_len reg hkey ''WBCL'' in
        if status \<noteq> 0 \<or> data_len = 0 then []
        else
          let (status, buf, data_len) = rg_value reg hkey ''WBCL'' (unat data_len) in
          if status \<noteq> 0 then [] else take (unat data_len) buf)"

section \<open>The log files of Windows\<close>

definition MEASUREDBOOT_BASE_PATHS :: "string list" where
  "MEASUREDBOOT_BASE_PATHS =
     [win_path [''C:'', ''Windows'', ''Logs'', ''MeasuredBoot''],
      win_path [''C:'', ''Windows'', ''Logs'', ''MeasuredBoot'', ''Supplemental''],
      win_path [''C:'', ''Windows'', ''System32'', ''LogFiles'', ''MeasuredBoot'']]"

text \<open>\<open>Path::extension\<close>: what follows the last dot of the file name, unless the name begins with it.\<close>

definition path_extension :: "string \<Rightarrow> string option" where
  "path_extension path =
     (let name = rev (takeWhile (\<lambda>c. c \<noteq> CHR 92 \<and> c \<noteq> CHR ''/'') (rev path));
          ext = rev (takeWhile (\<lambda>c. c \<noteq> CHR ''.'') (rev name))
      in if length ext + 1 < length name then Some ext else None)"

definition is_bin :: "string \<Rightarrow> bool" where
  "is_bin path = (case path_extension path of Some ext \<Rightarrow> map ascii_lower ext = ''bin'' | None \<Rightarrow> False)"

text \<open>The loop over the entries of one directory: the paths found and the last error.\<close>

fun bin_entries ::
    "string \<Rightarrow> (io_error + (string \<times> (io_error + file_kind))) list \<Rightarrow> string list \<Rightarrow> io_error option \<Rightarrow>
     string list \<times> io_error option" where
  "bin_entries dir [] paths last_err = (paths, last_err)"
| "bin_entries dir (Inl err # es) paths last_err = bin_entries dir es paths (Some (path_error dir err))"
| "bin_entries dir (Inr (p, Inl err) # es) paths last_err = bin_entries dir es paths (Some (path_error p err))"
| "bin_entries dir (Inr (p, Inr kind) # es) paths last_err =
     bin_entries dir es (if kind = Is_File \<and> is_bin p then paths @ [p] else paths) last_err"

text \<open>The loop over the paths: empty files are skipped.\<close>

fun read_logs ::
    "file_system \<Rightarrow> string list \<Rightarrow> (bytes \<times> string) list \<Rightarrow> io_error option \<Rightarrow> (bytes \<times> string) list \<times> io_error option" where
  "read_logs fs [] found last_err = (found, last_err)"
| "read_logs fs (p # ps) found last_err =
     (case fs_read fs p of
        Inr bs \<Rightarrow> read_logs fs ps (if bs = [] then found else found @ [(bs, p)]) last_err
      | Inl err \<Rightarrow> read_logs fs ps found (Some (path_error p err)))"

fun collect_windows_measured_boot_logs ::
    "file_system \<Rightarrow> string list \<Rightarrow> (bytes \<times> string) list \<Rightarrow> io_error option \<Rightarrow> (bytes \<times> string) list \<times> io_error option" where
  "collect_windows_measured_boot_logs fs [] found last_err = (found, last_err)"
| "collect_windows_measured_boot_logs fs (dir # dirs) found last_err =
     (case fs_read_dir fs dir of
        Inl err \<Rightarrow>
          collect_windows_measured_boot_logs fs dirs found
            (if io_error_kind err \<noteq> NotFound then Some (path_error dir err) else last_err)
      | Inr entries \<Rightarrow>
          let (paths, last_err) = bin_entries dir entries [] last_err;
              (found, last_err) = read_logs fs (sort paths) found last_err
          in collect_windows_measured_boot_logs fs dirs found last_err)"

definition load_windows_logs :: "'k registry \<Rightarrow> file_system \<Rightarrow> (bytes \<times> string) list io_res" where
  "load_windows_logs reg fs =
     and_then (read_windows_wbcl_registry reg) (\<lambda>value.
     let found = (case value of Some (wbcl, source) \<Rightarrow> if wbcl \<noteq> [] then [(wbcl, source)] else [] | None \<Rightarrow> []);
         (found, last_err) = collect_windows_measured_boot_logs fs MEASUREDBOOT_BASE_PATHS found None
     in if found = [] then
          (case last_err of
             Some e \<Rightarrow> Inl (Fail e)
           | None \<Rightarrow>
               io_fail NotFound ''TPM event log not found in Windows registry or measured boot directories'')
        else Inr found)"

section \<open>What is found\<close>

text \<open>The resource manager's device is preferred; the error is that of the last attempt.\<close>

lemma unix_open_order:
  "unix_open open_file =
     (case (open_file ''/dev/tpmrm0'', open_file ''/dev/tpm0'') of
        (Inr f, _) \<Rightarrow> Inr f
      | (Inl _, Inr f) \<Rightarrow> Inr f
      | (Inl _, Inl e) \<Rightarrow> Inl (Fail e))"
  by (simp add: unix_open_def TPM_DEVICES_def split: sum.split)

text \<open>Both readers of the registry see the same log.\<close>

lemma wbcl_readers_agree:
  "read_windows_wbcl reg =
     (case read_windows_wbcl_registry reg of Inr (Some (wbcl, _)) \<Rightarrow> wbcl | _ \<Rightarrow> [])"
  by (auto simp: read_windows_wbcl_def read_windows_wbcl_registry_def registry_failure_def WBCL_VALUE_def Let_def
      split: prod.split sum.split)

definition listed :: "file_system \<Rightarrow> string \<Rightarrow> string \<Rightarrow> bool" where
  "listed fs dir p \<longleftrightarrow>
     (case fs_read_dir fs dir of Inr entries \<Rightarrow> Inr (p, Inr Is_File) \<in> set entries \<and> is_bin p | Inl _ \<Rightarrow> False)"

lemma bin_entries_set:
  "set (fst (bin_entries dir es paths last_err)) = set paths \<union> {p. Inr (p, Inr Is_File) \<in> set es \<and> is_bin p}"
  by (induction dir es paths last_err rule: bin_entries.induct) auto

lemma read_logs_set:
  "set (fst (read_logs fs ps found last_err)) = set found \<union> {(bs, p). p \<in> set ps \<and> fs_read fs p = Inr bs \<and> bs \<noteq> []}"
  by (induction fs ps found last_err rule: read_logs.induct) (auto split: sum.splits)

lemma collect_logs_set:
  "set (fst (collect_windows_measured_boot_logs fs dirs found last_err)) =
     set found \<union> {(bs, p). (\<exists>dir \<in> set dirs. listed fs dir p) \<and> fs_read fs p = Inr bs \<and> bs \<noteq> []}"
proof (induction fs dirs found last_err rule: collect_windows_measured_boot_logs.induct)
  case (2 fs dir dirs found last_err)
  show ?case
  proof (cases "fs_read_dir fs dir")
    case (Inl err)
    with 2(1) [OF Inl] show ?thesis by (simp add: listed_def)
  next
    case (Inr entries)
    obtain paths e1 where b: "bin_entries dir entries [] last_err = (paths, e1)" by fastforce
    obtain found' e2 where r: "read_logs fs (sort paths) found e1 = (found', e2)" by fastforce
    have "set paths = {p. listed fs dir p}"
      using bin_entries_set [of dir entries "[]" last_err] by (simp add: b listed_def Inr)
    moreover have "set found' = set found \<union> {(bs, p). p \<in> set paths \<and> fs_read fs p = Inr bs \<and> bs \<noteq> []}"
      using read_logs_set [of fs "sort paths" found e1] by (simp add: r)
    ultimately show ?thesis using 2(2) [OF Inr b [symmetric] refl r [symmetric] refl] by (auto simp: Inr b r)
  qed
qed simp

text \<open>
  C32. The logs found on Windows are exactly the non-empty value of the registry and the non-empty contents of
  the regular files with the extension \<open>bin\<close> that are listed in one of the three directories and can be read: an error with
  one directory or file does not hide the others.
\<close>

theorem windows_logs_exact:
  assumes "load_windows_logs reg fs = Inr found"
  shows "found \<noteq> [] \<and>
    set found =
      {(bs, p). read_windows_wbcl_registry reg = Inr (Some (bs, p)) \<and> bs \<noteq> []} \<union>
      {(bs, p). (\<exists>dir \<in> set MEASUREDBOOT_BASE_PATHS. listed fs dir p) \<and> fs_read fs p = Inr bs \<and> bs \<noteq> []}"
proof -
  from assms obtain v where v: "read_windows_wbcl_registry reg = Inr v"
    by (auto simp: load_windows_logs_def and_then_eq_Inr)
  define first where "first = (case v of Some (wbcl, source) \<Rightarrow> if wbcl \<noteq> [] then [(wbcl, source)] else [] | None \<Rightarrow> [])"
  obtain all err where c: "collect_windows_measured_boot_logs fs MEASUREDBOOT_BASE_PATHS first None = (all, err)"
    by fastforce
  have found: "found \<noteq> []" "found = all"
    using assms by (auto simp: load_windows_logs_def v c first_def [symmetric] split: if_splits option.splits)
  have "set first = {(bs, p). read_windows_wbcl_registry reg = Inr (Some (bs, p)) \<and> bs \<noteq> []}"
    by (auto simp: v first_def split: option.split prod.split)
  with found collect_logs_set [of fs MEASUREDBOOT_BASE_PATHS first None] show ?thesis by (simp add: c)
qed

definition demo_registry :: "unit registry" where
  "demo_registry =
     \<lparr>rg_open_key = (\<lambda>_. (0, ())), rg_value_len = (\<lambda>_ _. (0, 3)), rg_value = (\<lambda>_ _ n. (0, [7, 8, 0], 2)),
      rg_os_error = (\<lambda>_. Io_Msg NotFound ''no'')\<rparr>"

definition demo_boot_files :: file_system where
  "demo_boot_files =
     \<lparr>fs_metadata = (\<lambda>_. Inr Is_Dir),
      fs_read_dir = (\<lambda>dir. if dir = hd MEASUREDBOOT_BASE_PATHS
        then Inr [Inl (Io_Msg OtherKind ''entry''), Inr (''a.BIN'', Inr Is_File), Inr (''b.log'', Inr Is_File)]
        else Inl (Io_Msg PermissionDenied ''denied'')),
      fs_read = (\<lambda>_. Inr [1])\<rparr>"

theorem windows_logs_exact_witness:
  "\<exists>found. load_windows_logs demo_registry demo_boot_files = Inr found \<and> ([7, 8], win_path [''HKLM'', INTEGRITY_KEY_PATH, ''WBCL'']) \<in> set found"
proof -
  have r: "read_windows_wbcl_registry demo_registry = Inr (Some ([7, 8], win_path [''HKLM'', INTEGRITY_KEY_PATH, ''WBCL'']))"
    by (simp add: read_windows_wbcl_registry_def demo_registry_def)
  then have "([7, 8], win_path [''HKLM'', INTEGRITY_KEY_PATH, ''WBCL'']) \<in>
      set (fst (collect_windows_measured_boot_logs demo_boot_files MEASUREDBOOT_BASE_PATHS
        [([7, 8], win_path [''HKLM'', INTEGRITY_KEY_PATH, ''WBCL''])] None))"
    by (simp add: collect_logs_set)
  with r obtain found where run: "load_windows_logs demo_registry demo_boot_files = Inr found"
    by (fastforce simp: load_windows_logs_def split: prod.splits)
  from windows_logs_exact [OF run] run r show ?thesis by auto
qed

end
