(* ===== verification/Verify_Tool.thy ===== *)
theory Verify_Tool
  imports Attest_Text Verify_Tdx Verify_Snp_Facts
begin

text \<open>
  The command-line tool \<open>tools/azure-guest-local-verify\<close>: it reads a quote or a report, verifies it
  against the pinned roots and prints the verdict as text or JSON. The files, the
  crypto backend, the certificate parser and the text of a JSON value are parameters.
\<close>

section \<open>The program\<close>

record verified_report =
  vr_checks :: "(string \<times> bool) list"
  vr_fields :: "(string \<times> string) list"

datatype verify_command =
    Verify_Tdx_Quote string
  | Verify_Snp_Report string string

record 'cert verify_env =
  ve_read :: "string \<Rightarrow> io_error + bytes"
  ve_backend :: "'cert crypto_backend"
  ve_from_der :: x509_parser
  ve_pems :: pinned_pems
  ve_json_text :: "json_value \<Rightarrow> string"

text \<open>A line on standard output or on standard error.\<close>

datatype console_line = Std_Out string | Std_Err string

definition hex_text :: "bytes \<Rightarrow> string" where
  "hex_text bs = concat (map fmt_02x bs)"

definition tdx_report_of :: "tdx_verify_result \<Rightarrow> verified_report" where
  "tdx_report_of r =
     (let m = tv_measurements r in
      \<lparr>vr_checks =
         [(''body signature'', tv_quote_signature_valid r), (''attestation-key binding'', tv_attestation_key_bound r),
          (''QE report signature'', tv_qe_report_signature_valid r),
          (''PCK chain -> Intel SGX Root CA'', tv_pck_chain_valid r)],
       vr_fields =
         [(''mr_td'', hex_text (tm_mr_td m)), (''mr_seam'', hex_text (tm_mr_seam m)),
          (''rtmr0'', hex_text (tm_rtmr m ! 0)), (''rtmr1'', hex_text (tm_rtmr m ! 1)),
          (''rtmr2'', hex_text (tm_rtmr m ! 2)), (''rtmr3'', hex_text (tm_rtmr m ! 3)),
          (''report_data'', hex_text (tm_report_data m)), (''tee_tcb_svn'', hex_text (tm_tee_tcb_svn m)),
          (''td_attributes'', hex_text (tm_td_attributes m)), (''xfam'', hex_text (tm_xfam m))]\<rparr>)"

definition snp_report_of :: "snp_verify_result \<Rightarrow> verified_report" where
  "snp_report_of r =
     (let m = sv_measurements r in
      \<lparr>vr_checks =
         [(''VCEK chain -> AMD ARK root'', sv_chain_valid r), (''report signature'', sv_signature_valid r),
          (''VCEK report binding'', sv_vcek_binding_valid r)],
       vr_fields =
         [(''measurement'', hex_text (sm_measurement m)), (''report_data'', hex_text (sm_report_data m)),
          (''reported_tcb'', fmt_016x (sm_reported_tcb m)), (''chip_id'', hex_text (sm_chip_id m))]\<rparr>)"

fun snp_error :: "io_error \<Rightarrow> string \<times> string" where
  "snp_error e =
     (case io_error_kind e of
        NotFound \<Rightarrow> (''input_not_found'', ''An input file was not found'')
      | PermissionDenied \<Rightarrow> (''permission_denied'', ''Permission denied while reading an input'')
      | InvalidInput \<Rightarrow> (''invalid_input'', ''Invalid verification input or time'')
      | InvalidData \<Rightarrow> (''invalid_evidence'', ''Invalid, expired, or mismatched evidence or collateral'')
      | _ \<Rightarrow> (''verification_failed'', ''Signature, certificate-chain, or verification-time validation failed''))"

definition quoted :: "string \<Rightarrow> string" where
  "quoted s = [CHR 34] @ s @ [CHR 34]"

definition bool_text :: "bool \<Rightarrow> string" where
  "bool_text b = (if b then ''true'' else ''false'')"

text \<open>The JSON of an SNP verification, built with \<open>serde_json\<close>.\<close>

definition snp_json :: "io_error + verified_report \<Rightarrow> json_value" where
  "snp_json result =
     J_Object
       ([(''tee'', J_String ''snp''), (''passed'', J_Bool (case result of Inr _ \<Rightarrow> True | Inl _ \<Rightarrow> False)),
         (''verification_scope'', J_String ''structure_signature_chain_and_vcek_binding''),
         (''policy_checked'', J_Bool False), (''crl_checked'', J_Bool False),
         (''cpuid_stepping_checked'', J_Bool False)] @
        (case result of
           Inr rep \<Rightarrow>
             [(''checks'', J_Object (map (\<lambda>(k, v). (k, J_Bool v)) (vr_checks rep))),
              (''measurements'', J_Object (map (\<lambda>(k, v). (k, J_String v)) (vr_fields rep)))]
         | Inl e \<Rightarrow>
             (let (code, message) = snp_error e in
              [(''error_code'', J_String code), (''error'', J_String message)])))"

text \<open>The JSON of a TDX verification, written with format strings.\<close>

definition escape_text :: "string \<Rightarrow> string" where
  "escape_text msg =
     concat (map (\<lambda>c. if c = CHR 34 then [CHR 92, CHR 34] else [c])
       (concat (map (\<lambda>c. if c = CHR 92 then [CHR 92, CHR 92] else [c]) msg)))"

definition tdx_json_text :: "string \<Rightarrow> io_error + verified_report \<Rightarrow> string" where
  "tdx_json_text tee result =
     (case result of
        Inr rep \<Rightarrow>
          (let checks = join_with '','' (map (\<lambda>(k, v). quoted k @ '':'' @ bool_text v) (vr_checks rep));
               fields = join_with '','' (map (\<lambda>(k, v). quoted k @ '':'' @ quoted v) (vr_fields rep))
           in ''{'' @ quoted ''tee'' @ '':'' @ quoted tee @ '','' @ quoted ''passed'' @ '':true,'' @ quoted ''checks'' @ '':{'' @
              checks @ ''},'' @ quoted ''measurements'' @ '':{'' @ fields @ ''}}'')
      | Inl e \<Rightarrow>
          ''{'' @ quoted ''tee'' @ '':'' @ quoted tee @ '','' @ quoted ''passed'' @ '':false,'' @ quoted ''error'' @ '':'' @
          quoted (escape_text (io_error_display e)) @ ''}'')"

text \<open>\<open>to_uppercase\<close> on ASCII.\<close>

definition tee_upper :: "string \<Rightarrow> string" where
  "tee_upper = map (\<lambda>c. if 97 \<le> (of_char c :: nat) \<and> (of_char c :: nat) \<le> 122 then char_of ((of_char c :: nat) - 32) else c)"

definition emit_text :: "string \<Rightarrow> io_error + verified_report \<Rightarrow> console_line list" where
  "emit_text tee result =
     (if tee = ''snp'' then
        [Std_Out ''  verification_scope: structure_signature_chain_and_vcek_binding'',
         Std_Out ''  policy_checked: false; CRL and CPUID stepping equivalence: not checked'',
         Std_Out ''  REPORTDATA, measurement, TCB minimums and migration authorization require caller policy.'']
      else []) @
     (case result of
        Inr rep \<Rightarrow>
          Std_Out (tee_upper tee @ '' verification: PASSED'') #
          map (\<lambda>(k, _). Std_Out (''  '' @ k @ '': ok'')) (vr_checks rep) @
          Std_Out ''measurements:'' # map (\<lambda>(k, v). Std_Out (''  '' @ k @ '': '' @ v)) (vr_fields rep)
      | Inl e \<Rightarrow>
          [Std_Err (tee_upper tee @ '' verification: FAILED''),
           Std_Err (''  reason: '' @ (if tee = ''snp'' then snd (snp_error e) else io_error_display e))])"

definition emit :: "(json_value \<Rightarrow> string) \<Rightarrow> bool \<Rightarrow> string \<Rightarrow> io_error + verified_report \<Rightarrow> console_line list" where
  "emit json_text json tee result =
     (if json \<and> tee = ''snp'' then [Std_Out (json_text (snp_json result))]
      else if json then [Std_Out (tdx_json_text tee result)]
      else emit_text tee result)"

text \<open>The verification itself: the value of the \<open>match\<close> in \<open>run\<close>, with the early return of a quote that cannot be read.\<close>

definition verify_command_result ::
    "'cert verify_env \<Rightarrow> verify_command \<Rightarrow> (cli_error, string \<times> (io_error, verified_report) res) res" where
  "verify_command_result env cmd =
     (case cmd of
        Verify_Tdx_Quote quote \<Rightarrow>
          (case ve_read env quote of
             Inl e \<Rightarrow> Inl (Fail (Cli_Context (''read '' @ quote) e))
           | Inr bs \<Rightarrow>
               Inr (''tdx'', and_then (verify_td_quote (ve_backend env) (ve_pems env) bs) (\<lambda>r. Inr (tdx_report_of r))))
      | Verify_Snp_Report report vcek \<Rightarrow>
          Inr (''snp'',
            (case ve_read env report of
               Inl e \<Rightarrow> Inl (Fail e)
             | Inr rep \<Rightarrow>
                 (case ve_read env vcek of
                    Inl e \<Rightarrow> Inl (Fail e)
                  | Inr chain \<Rightarrow>
                      and_then (verify_snp_report (ve_backend env) (ve_from_der env) (ve_pems env) rep chain)
                        (\<lambda>r. Inr (snp_report_of r))))))"

definition verify_run :: "'cert verify_env \<Rightarrow> verify_command \<Rightarrow> bool \<Rightarrow> (cli_error, nat) res \<times> console_line list" where
  "verify_run env cmd json =
     (case verify_command_result env cmd of
        Inl e \<Rightarrow> (Inl e, [])
      | Inr (tee, Inl Panic) \<Rightarrow> (Inl Panic, [])
      | Inr (tee, Inl (Fail e)) \<Rightarrow> (Inr 2, emit (ve_json_text env) json tee (Inl e))
      | Inr (tee, Inr rep) \<Rightarrow> (Inr 0, emit (ve_json_text env) json tee (Inr rep)))"

section \<open>What the exit code says\<close>

lemma verify_run_passed:
  "fst (verify_run env cmd json) = Inr 0 \<longleftrightarrow> (\<exists>tee rep. verify_command_result env cmd = Inr (tee, Inr rep))"
  by (auto simp: verify_run_def split: sum.splits fault.splits prod.splits)

lemma verify_run_output:
  "verify_command_result env cmd = Inr (tee, Inr rep) \<Longrightarrow>
     snd (verify_run env cmd json) = emit (ve_json_text env) json tee (Inr rep)"
  by (simp add: verify_run_def)

text \<open>
  C22. The tool exits with 0 on an SNP report exactly when both files can be read, the
  pinned roots can be loaded and the report is authentic: 1184 bytes in an accepted format, signed by the leaf of the
  supplied chain, which the backend validates to a pinned root and which belongs to the report. The measurements
  it prints are slices of that file.
\<close>

theorem snp_tool_passes_exactly:
  fixes env :: "'cert verify_env"
  shows "verify_run env (Verify_Snp_Report report vcek) json = (Inr 0, out) \<longleftrightarrow>
     (\<exists>bs pem roots leaf rest. ve_read env report = Inr bs \<and> ve_read env vcek = Inr pem \<and>
        amd_ark_roots (ve_backend env) (ve_pems env) = Inr roots \<and>
        length bs = 1184 \<and> format_accepted (snp_of_wire bs) \<and>
        cb_parse_pem_chain (ve_backend env) pem = Inr (leaf # rest) \<and>
        snp_leaf_authentic (ve_backend env) (ve_from_der env) bs leaf rest roots \<and>
        out = emit (ve_json_text env) json ''snp'' (Inr (snp_report_of (verified_snp_result bs))))"
proof -
  have "verify_run env (Verify_Snp_Report report vcek) json = (Inr 0, out) \<longleftrightarrow>
     (\<exists>bs pem res. ve_read env report = Inr bs \<and> ve_read env vcek = Inr pem \<and>
        verify_snp_report (ve_backend env) (ve_from_der env) (ve_pems env) bs pem = Inr res \<and>
        out = emit (ve_json_text env) json ''snp'' (Inr (snp_report_of res)))"
    by (auto simp: verify_run_def verify_command_result_def and_then_eq_Inr and_then_eq_Inl
        split: sum.splits fault.splits)
  then show ?thesis
    unfolding verify_snp_report_def and_then_eq_Inr snp_verify_exact_iff by blast
qed

text \<open>
  An SNP report or chain that cannot be read is a verdict: it is printed in the form asked for
  and the exit code is 2. A TDX quote that cannot be read ends the program with an error, and nothing is
  printed on standard output, not even when JSON is asked for.
\<close>

theorem unreadable_evidence:
  "ve_read env path = Inl e \<Longrightarrow>
     verify_run env (Verify_Snp_Report path vcek) True = (Inr 2, [Std_Out (ve_json_text env (snp_json (Inl e)))]) \<and>
     verify_run env (Verify_Tdx_Quote path) True = (Inl (Fail (Cli_Context (''read '' @ path) e)), [])"
  by (simp add: verify_run_def verify_command_result_def emit_def)

definition empty_disk :: "unit verify_env" where
  "empty_disk =
     \<lparr>ve_read = (\<lambda>_. Inl (Io_Msg NotFound ''No such file'')), ve_backend = accepting_backend, ve_from_der = (\<lambda>_. None),
      ve_pems = \<lparr>pp_ark = [], pp_intel_sgx_root = []\<rparr>, ve_json_text = (\<lambda>_. ''{}'')\<rparr>"

theorem unreadable_evidence_witness:
  "verify_run empty_disk (Verify_Snp_Report ''q'' ''v'') True = (Inr 2, [Std_Out ''{}'']) \<and>
   verify_run empty_disk (Verify_Tdx_Quote ''q'') True =
     (Inl (Fail (Cli_Context ''read q'' (Io_Msg NotFound ''No such file''))), [])"
proof -
  have "ve_read empty_disk ''q'' = Inl (Io_Msg NotFound ''No such file'')" by (simp add: empty_disk_def)
  from unreadable_evidence [OF this, of "''v''"] show ?thesis by (simp add: empty_disk_def)
qed

end
