(* ===== verification/Attest_Token_Facts.thy ===== *)
theory Attest_Token_Facts
  imports Attest_Client_Facts
begin

text \<open>
  The way of a token back: the ephemeral key that is made again, used and flushed, the
  envelope the service seals a token in, and which machine a request claims to be.
\<close>

section \<open>The ephemeral key\<close>

lemma with_ephemeral_key_exact:
  assumes "get_ephemeral_key (pf_random pf) (pf_sha256 pf) (pf_tpm pf) pcrs s = (Inr ek, s1)"
    and "fst (use (ek_handle ek) s1) \<noteq> Inl Panic"
    and "st_safe (tpm_flush_context (pf_tpm pf) (ek_handle ek))"
  shows "with_ephemeral_key pf pcrs use s =
    (fst (use (ek_handle ek) s1), snd (tpm_flush_context (pf_tpm pf) (ek_handle ek) (snd (use (ek_handle ek) s1))))"
proof -
  obtain r s2 where u: "use (ek_handle ek) s1 = (r, s2)" by (cases "use (ek_handle ek) s1")
  obtain f s3 where fl: "tpm_flush_context (pf_tpm pf) (ek_handle ek) s2 = (f, s3)"
    by (cases "tpm_flush_context (pf_tpm pf) (ek_handle ek) s2")
  have "st_catch (use (ek_handle ek)) s1 = (Inr r, s2)"
    using assms(2) u by (auto simp: st_catch_def split: sum.splits fault.splits)
  moreover have "st_ignore (tpm_flush_context (pf_tpm pf) (ek_handle ek)) s2 = (Inr (), s3)"
    using assms(3) fl unfolding st_safe_def st_ignore_def
    by (auto split: sum.splits fault.splits) (metis fst_conv)
  ultimately show ?thesis
    using assms(1) u fl by (simp add: with_ephemeral_key_def recreate_ephemeral_key_def st_then_def)
qed

lemma decrypt_token_exact:
  assumes "calm pf" "get_ephemeral_key (pf_random pf) (pf_sha256 pf) (pf_tpm pf) pcrs s = (Inr ek, s1)"
  shows "decrypt_token pf pcrs token s =
    (case parse_token pf (ek_handle ek) pcrs token s1 of
       (r, s2) \<Rightarrow> Some (map_err sdk_from_io r, snd (tpm_flush_context (pf_tpm pf) (ek_handle ek) s2)))"
proof -
  have "fst (parse_token pf (ek_handle ek) pcrs token s1) \<noteq> Inl Panic"
    using parse_token_safe [OF assms(1)] by (simp add: st_safe_def)
  from with_ephemeral_key_exact [where use = "\<lambda>h. parse_token pf h pcrs token", OF assms(2) this
      calm_tpm_safe(4) [OF assms(1)]]
  show ?thesis
    by (simp add: decrypt_token_def op_io_def op_st_def st_map_err_def split: prod.split)
qed

lemma decrypt_raw_exact:
  assumes "calm pf" "get_ephemeral_key (pf_random pf) (pf_sha256 pf) (pf_tpm pf) pcrs s = (Inr ek, s1)"
  shows "decrypt_with_tpm_ephemeral_key pf pcrs ct scheme s =
    (case decrypt_with_ephemeral_key (pf_random pf) (pf_sha256 pf) (pf_tpm pf) (ek_handle ek) pcrs ct scheme s1 of
       (r, s2) \<Rightarrow> Some (map_err sdk_from_io r, snd (tpm_flush_context (pf_tpm pf) (ek_handle ek) s2)))"
proof -
  have "fst (decrypt_with_ephemeral_key (pf_random pf) (pf_sha256 pf) (pf_tpm pf) (ek_handle ek) pcrs ct scheme s1) \<noteq> Inl Panic"
    using calm_tpm_safe(3) [OF assms(1)] by (simp add: st_safe_def)
  from with_ephemeral_key_exact [where use = "\<lambda>h. decrypt_with_ephemeral_key (pf_random pf) (pf_sha256 pf)
      (pf_tpm pf) h pcrs ct scheme", OF assms(2) this calm_tpm_safe(4) [OF assms(1)]]
  show ?thesis
    by (simp add: decrypt_with_tpm_ephemeral_key_def op_io_def op_st_def st_map_err_def split: prod.split)
qed

text \<open>
  C14. Once the ephemeral key was made again, flushing it is the last thing decryption
  does, and the result is that of the work done with it, a success or an error.
\<close>

theorem ephemeral_key_flushed:
  assumes "calm pf"
    and "get_ephemeral_key (pf_random pf) (pf_sha256 pf) (pf_tpm pf) pcrs s = (Inr ek, s1)"
  shows "decrypt_token pf pcrs token s =
      (case parse_token pf (ek_handle ek) pcrs token s1 of
         (r, s2) \<Rightarrow> Some (map_err sdk_from_io r, snd (tpm_flush_context (pf_tpm pf) (ek_handle ek) s2))) \<and>
    decrypt_with_tpm_ephemeral_key pf pcrs ct scheme s =
      (case decrypt_with_ephemeral_key (pf_random pf) (pf_sha256 pf) (pf_tpm pf) (ek_handle ek) pcrs ct scheme s1 of
         (r, s2) \<Rightarrow> Some (map_err sdk_from_io r, snd (tpm_flush_context (pf_tpm pf) (ek_handle ek) s2)))"
  using decrypt_token_exact [OF assms] decrypt_raw_exact [OF assms] by blast

theorem ephemeral_key_flushed_witness:
  "\<exists>ek. get_ephemeral_key demo_random id demo_cvm [] ([], []) = (Inr ek, ([], [])) \<and>
     decrypt_with_tpm_ephemeral_key demo_platform [] [1, 2] Rsaes ([], []) = Some (Inr demo_inner_key, ([], []))"
proof -
  obtain ek where ek: "get_ephemeral_key demo_random id demo_cvm [] ([], []) = (Inr ek, ([], []))"
    using demo_cvm_ephemeral by blast
  then have "get_ephemeral_key (pf_random demo_platform) (pf_sha256 demo_platform) (pf_tpm demo_platform) [] ([], []) =
      (Inr ek, ([], []))"
    by (simp add: demo_platform_fields)
  from ephemeral_key_flushed [OF demo_platform_calm this, of "''x''" "[1, 2]" Rsaes] ek
  show ?thesis
    by (simp add: demo_platform_fields decrypt_with_ephemeral_key_def demo_cvm_decrypt demo_cvm_keys)
qed

section \<open>The envelope\<close>

text \<open>What the service sends: the token encrypted under an inner key, which is encrypted for the ephemeral key.\<close>

record sealed =
  sl_inner_key :: bytes
  sl_iv :: bytes
  sl_tag :: bytes
  sl_jwt :: bytes

definition sealed_json :: "'s platform \<Rightarrow> sealed \<Rightarrow> json_value" where
  "sealed_json pf t =
     J_Object
       [(''EncryptedInnerKey'', J_String (pf_b64_std pf (sl_inner_key t))),
        (''EncryptionParams'', J_Object [(''Iv'', J_String (pf_b64_std pf (sl_iv t)))]),
        (''AuthenticationData'', J_String (pf_b64_std pf (sl_tag t))),
        (''Jwt'', J_String (pf_b64_std pf (sl_jwt t)))]"

definition sealed_token :: "'s platform \<Rightarrow> sealed \<Rightarrow> string" where
  "sealed_token pf t = pf_b64_url pf (ascii_bytes (pf_json_text pf (sealed_json pf t)))"

text \<open>The documented behaviour of \<open>base64\<close> and \<open>serde_json\<close> on these values.\<close>

definition codecs_read :: "'s platform \<Rightarrow> sealed \<Rightarrow> bool" where
  "codecs_read pf t \<longleftrightarrow>
     (\<forall>d \<in> {sl_inner_key t, sl_iv t, sl_tag t, sl_jwt t}. pf_b64_std_decode pf (pf_b64_std pf d) = Inr d) \<and>
     (let text = pf_json_text pf (sealed_json pf t)
      in ascii text \<and> pf_b64_url_decode pf (sealed_token pf t) = Inr (ascii_bytes text) \<and>
         pf_json_parse pf text = Inr (sealed_json pf t))"

lemma string_from_ascii: "ascii s \<Longrightarrow> string_from_utf8 (ascii_bytes s) = Inr s"
proof -
  assume a: "ascii s"
  have "of_char c < (0x80 :: u8)" if "(of_char c :: nat) < 128" for c
  proof -
    have "unat (of_char c :: u8) = of_char c" by (rule unat_of_char)
    with that show ?thesis by (simp add: word_less_nat_alt)
  qed
  with a have "list_all (\<lambda>b. b < 0x80) (ascii_bytes s)"
    by (simp add: ascii_def ascii_bytes_def list_all_iff)
  then obtain cs where "from_utf8 0 (ascii_bytes s) = Inr cs" using from_utf8_ascii_list by blast
  then show ?thesis by (simp add: string_from_utf8_def bytes_text_ascii)
qed

lemma envelope_read:
  assumes "codecs_read pf t"
  shows "read_envelope pf (sealed_token pf t) =
    Some \<lparr>te_encrypted_inner_key = pf_b64_std pf (sl_inner_key t), te_iv = pf_b64_std pf (sl_iv t),
          te_authentication_data = pf_b64_std pf (sl_tag t), te_jwt = pf_b64_std pf (sl_jwt t)\<rparr>"
  using assms
  by (simp add: codecs_read_def Let_def read_envelope_def base64_url_decode_def string_from_ascii)
    (simp add: sealed_json_def get_str_def)

lemma aead_opens_decrypted:
  assumes "aead_opens pf key nonce aad ciphertext tag = Inr plaintext" "length nonce = 12" "length tag = 16"
    and "length key = 16 \<or> length key = 32"
  shows "aes_gcm_decrypt pf key nonce aad ciphertext tag = Inr plaintext"
  using assms
  by (auto simp: aead_opens_def aes_gcm_decrypt_def aes_gcm_rustcrypto_def aes_gcm_openssl_def aes_gcm_symcrypt_def
      split: aead_library.splits sum.splits)

lemma sealed_token_parsed:
  assumes "codecs_read pf t" "length (sl_iv t) = 12" "length (sl_tag t) = 16"
    and "decrypt_with_ephemeral_key (pf_random pf) (pf_sha256 pf) (pf_tpm pf) h pcrs (sl_inner_key t) Rsaes s = (Inr key, s')"
    and "length key = 16 \<or> length key = 32"
    and "aead_opens pf key (sl_iv t) (ascii_bytes ''Transport Key'') (sl_jwt t) (sl_tag t) = Inr (ascii_bytes jwt)" "ascii jwt"
  shows "parse_token pf h pcrs (sealed_token pf t) s = (Inr (Some jwt), s')"
proof -
  have "b64_any pf (pf_b64_std pf d) = Inr d" if "d \<in> {sl_inner_key t, sl_iv t, sl_tag t, sl_jwt t}" for d
    using assms(1) that by (auto simp: codecs_read_def b64_any_def)
  then show ?thesis
    using assms(2-) by (simp add: parse_token_def envelope_read [OF assms(1)] st_then_def aead_opens_decrypted
        string_from_ascii)
qed

text \<open>
  C13. When the service answers an attestation with a token sealed for the ephemeral key of
  the attested PCRs, the result of the attestation is the token inside, and the key is flushed.
\<close>

theorem sealed_token_opened:
  assumes "calm pf" "make_provider pf provider = (Inr impl :: provider_impl sdk_res)"
    and "submit_to_provider (provider_attest pf impl) (pf_sleep pf) (pf_b64_url pf (ascii_bytes (rt_json report))) s0 =
           (Inr (Some (sealed_token pf t)), s)"
    and "codecs_read pf t" "length (sl_iv t) = 12" "length (sl_tag t) = 16"
    and "get_ephemeral_key (pf_random pf) (pf_sha256 pf) (pf_tpm pf) (rt_pcrs report) s = (Inr ek, s1)"
    and "decrypt_with_ephemeral_key (pf_random pf) (pf_sha256 pf) (pf_tpm pf) (ek_handle ek) (rt_pcrs report)
           (sl_inner_key t) Rsaes s1 = (Inr key, s2)"
    and "length key = 16 \<or> length key = 32"
    and "aead_opens pf key (sl_iv t) (ascii_bytes ''Transport Key'') (sl_jwt t) (sl_tag t) = Inr (ascii_bytes jwt)" "ascii jwt"
  shows "submit_report pf provider report s0 =
    Some (Inr \<lparr>ar_token = Some jwt, ar_request_json = rt_json report,
               ar_encoded_request = pf_b64_url pf (ascii_bytes (rt_json report)), ar_pcrs = rt_pcrs report\<rparr>,
          snd (tpm_flush_context (pf_tpm pf) (ek_handle ek) s2))"
  by (simp add: submit_report_def op_then_def op_res_def op_io_def op_st_def st_map_err_def Let_def assms(2,3)
      decrypt_token_exact [OF assms(1,7)] sealed_token_parsed [OF assms(4-6,8-11)])

text \<open>The simulated machine with codecs that can be read back, and a service that seals a token.\<close>

definition demo_seal :: sealed where
  "demo_seal = \<lparr>sl_inner_key = [1, 2], sl_iv = replicate 12 3, sl_tag = replicate 16 4, sl_jwt = [6]\<rparr>"

definition sealing_platform :: "(bytes \<times> bytes) platform" where
  "sealing_platform = demo_platform
     \<lparr>pf_b64_std := bytes_text, pf_b64_std_decode := (\<lambda>t. Inr (ascii_bytes t)),
      pf_b64_url := bytes_text, pf_b64_url_decode := (\<lambda>t. Inr (ascii_bytes t)),
      pf_json_text := (\<lambda>_. ''sealed''),
      pf_json_parse := (\<lambda>_. Inr (sealed_json (demo_platform\<lparr>pf_b64_std := bytes_text\<rparr>) demo_seal)),
      pf_aead := Aes_Gcm_Crate (\<lambda>_ _ _ _. Inr (ascii_bytes ''jwt''))\<rparr>"

theorem sealed_token_opened_witness:
  "submit_report sealing_platform Loopback \<lparr>rt_json = ''request'', rt_pcrs = []\<rparr> ([], []) =
     Some (Inr \<lparr>ar_token = Some ''jwt'', ar_request_json = ''request'', ar_encoded_request = ''request'', ar_pcrs = []\<rparr>, ([], []))"
proof -
  obtain ek where ek: "get_ephemeral_key demo_random id demo_cvm [] ([], []) = (Inr ek, ([], []))"
    using demo_cvm_ephemeral by blast
  have calm: "calm sealing_platform"
    using demo_platform_calm by (simp add: calm_def sealing_platform_def)
  have codecs: "codecs_read sealing_platform demo_seal"
    by (simp add: codecs_read_def sealing_platform_def sealed_token_def ascii_bytes_text bytes_text_ascii ascii_def
        sealed_json_def)
  have submit: "submit_to_provider (provider_attest sealing_platform LoopbackProvider) (pf_sleep sealing_platform) req s =
      (Inr (Some (sealed_token sealing_platform demo_seal)), s)" for req s
    by (simp add: submit_to_provider_def submit_loop.simps [of _ _ _ 0] loopback_attest_def sealing_platform_def
        sealed_token_def bytes_text_ascii)
  have key: "length demo_inner_key = 16 \<or> length demo_inner_key = 32" by (simp add: demo_inner_key_def)
  have "submit_report sealing_platform Loopback \<lparr>rt_json = ''request'', rt_pcrs = []\<rparr> ([], []) =
      Some (Inr \<lparr>ar_token = Some ''jwt'', ar_request_json = rt_json \<lparr>rt_json = ''request'', rt_pcrs = []\<rparr>,
        ar_encoded_request = pf_b64_url sealing_platform (ascii_bytes (rt_json \<lparr>rt_json = ''request'', rt_pcrs = []\<rparr>)),
        ar_pcrs = rt_pcrs \<lparr>rt_json = ''request'', rt_pcrs = []\<rparr>\<rparr>,
      snd (tpm_flush_context (pf_tpm sealing_platform) (ek_handle ek) ([], [])))"
    by (rule sealed_token_opened [OF calm _ submit codecs _ _ _ _ key])
      (simp_all add: demo_seal_def sealing_platform_def demo_platform_fields ek aead_opens_def decrypt_with_ephemeral_key_def
        demo_cvm_decrypt ascii_def)
  then show ?thesis
    by (simp add: sealing_platform_def bytes_text_ascii demo_platform_fields demo_cvm_keys)
qed

section \<open>TrustedLaunch\<close>

text \<open>
  C15. Without user data, a request claims TrustedLaunch exactly when the evidence of the
  hardware could not be collected, whatever the error was.
\<close>

theorem fallback_on_any_error:
  assumes "attest_guest pf provider options s = Some (Inr r, s')" "Option.bind options ao_user_data = None"
  shows "\<exists>p. ar_request_json r = pf_json_text pf (parameters_json pf p) \<and>
    (ii_vm_type (ga_isolation p) = Iso_TrustedLaunch \<longleftrightarrow>
       (\<exists>e s1. get_cvm_evidence pf (Some \<lparr>co_user_data = None, co_fetch_platform_quote = False\<rparr>) s = Some (Inl (Fail e), s1)))"
proof -
  obtain cvm dev rep t1 t2 t3 where ev: "evidence_or_trusted_launch pf None s = Some (Inr cvm, t1)"
    and rep: "create_attestation_report pf dev cvm None options t2 = (Inr rep, t3)"
    and sub: "submit_report pf provider rep t3 = Some (Inr r, s')"
    using assms by (auto simp: attest_guest_def op_steps)
  obtain p u1 u2 where p: "rt_json rep = pf_json_text pf (parameters_json pf p)"
    and iso: "build_isolation_info pf cvm None u1 = (Inr (ga_isolation p), u2)"
    using report_carries [OF rep] by blast
  have "ii_vm_type (ga_isolation p) = Iso_TrustedLaunch \<longleftrightarrow> cvm = None"
  proof (cases cvm)
    case None
    have "ga_isolation p = \<lparr>ii_vm_type = Iso_TrustedLaunch, ii_evidence = None\<rparr>"
      using iso None by (simp add: build_isolation_info_def)
    with None show ?thesis by simp
  next
    case (Some ev)
    with iso have "build_isolation_info pf (Some ev) None u1 = (Inr (ga_isolation p), u2)" by simp
    from isolation_carries [OF this] Some show ?thesis by simp
  qed
  moreover have "cvm = None \<longleftrightarrow>
      (\<exists>e s1. get_cvm_evidence pf (Some \<lparr>co_user_data = None, co_fetch_platform_quote = False\<rparr>) s = Some (Inl (Fail e), s1))"
    using ev by (auto simp: evidence_or_trusted_launch_def op_match_def op_res_def
        split: option.splits prod.splits sum.splits fault.splits)
  ultimately show ?thesis using p submit_keeps_report [OF sub] by auto
qed

theorem fallback_on_any_error_witness:
  "\<exists>p r s'. attest_guest demo_platform Loopback (Some (demo_options None)) ([], []) = Some (Inr r, s') \<and>
     ar_request_json r = pf_json_text demo_platform (parameters_json demo_platform p) \<and>
     ii_vm_type (ga_isolation p) \<noteq> Iso_TrustedLaunch"
proof -
  obtain r s' where a: "attest_guest demo_platform Loopback (Some (demo_options None)) ([], []) = Some (Inr r, s')"
    using demo_attest [of None "([], [])"] by auto
  have n: "Option.bind (Some (demo_options None)) ao_user_data = None" by (simp add: demo_options_def)
  obtain ev t where "get_cvm_evidence demo_platform (Some \<lparr>co_user_data = None, co_fetch_platform_quote = False\<rparr>) ([], []) =
      Some (Inr ev, t)"
    using demo_evidence [of None "([], [])"] by auto
  with fallback_on_any_error [OF a n] show ?thesis using a by auto
qed

end
