(* ===== verification/Request_Schema.thy ===== *)
theory Request_Schema
  imports Attest_Client Sample_Platform "HOL-Library.Monad_Syntax"
begin

text \<open>
  The attestation request as the service sees it: a reader of the JSON protocol that looks every member up by its name
  and undoes the encoding the protocol gives it (standard base64, base64url, decimal numbers), and the proof that it
  recovers from a request exactly what the client had collected.
\<close>

section \<open>Decimal numbers\<close>

lemma parse_digits_append:
  "parse_digits acc (xs @ ys) = Option.bind (parse_digits acc xs) (\<lambda>a. parse_digits a ys)"
  by (induction xs arbitrary: acc) (auto simp: Let_def)

lemma hex_digit_decimal: "d < 10 \<Longrightarrow> (of_char (hex_digit d) :: nat) = 48 + d"
  by (simp add: numeral_eq_Suc less_Suc_eq) (elim disjE; simp add: hex_digit_def)

lemma parse_digits_fmt_dec: "n < 2 ^ 32 \<Longrightarrow> parse_digits 0 (fmt_dec n) = Some n"
proof (induction n rule: fmt_dec.induct)
  case (1 n)
  have less: "n mod 10 < 10" by simp
  show ?case
  proof (cases "n < 10")
    case True
    then show ?thesis by (simp add: fmt_dec.simps [of n] hex_digit_decimal Let_def)
  next
    case False
    with 1 have "parse_digits 0 (fmt_dec (n div 10)) = Some (n div 10)" by simp
    with False 1 show ?thesis
      by (simp add: fmt_dec.simps [of n] parse_digits_append hex_digit_decimal [OF less] Let_def)
  qed
qed

lemma fmt_dec_no_sign: "c \<in> set (fmt_dec n) \<Longrightarrow> c \<noteq> CHR ''+''"
proof (induction n rule: fmt_dec.induct)
  case (1 n)
  have "hex_digit d \<noteq> CHR ''+''" if "d < 10" for d
  proof
    assume "hex_digit d = CHR ''+''"
    with hex_digit_decimal [OF that] show False by simp
  qed
  from this [of n] this [of "n mod 10"] 1 show ?case by (auto simp: fmt_dec.simps [of n] split: if_splits)
qed

lemma fmt_dec_nonempty [simp]: "fmt_dec n \<noteq> []"
  by (simp add: fmt_dec.simps [of n])

lemma parse_u32_fmt_dec: "parse_u32 (fmt_dec (unat n)) = Some n"
proof -
  have "unat n < 2 ^ 32" using unsigned_less [of n] by simp
  moreover have "fmt_dec (unat n) ! 0 \<noteq> CHR ''+''" by (rule fmt_dec_no_sign [of _ "unat n"]) simp
  ultimately show ?thesis by (simp add: parse_u32_def parse_digits_fmt_dec)
qed

section \<open>The reader\<close>

fun right :: "'e + 'a \<Rightarrow> 'a option" where
  "right (Inl _) = None"
| "right (Inr x) = Some x"

definition read_b64 :: "'s platform \<Rightarrow> json_value \<Rightarrow> bytes option" where
  "read_b64 pf v = do { s \<leftarrow> json_str v; right (pf_b64_std_decode pf s) }"

definition read_b64url :: "'s platform \<Rightarrow> json_value \<Rightarrow> bytes option" where
  "read_b64url pf v = do { s \<leftarrow> json_str v; right (pf_b64_url_decode pf s) }"

fun read_u32 :: "json_value \<Rightarrow> u32 option" where
  "read_u32 (J_Number s) = parse_u32 s"
| "read_u32 _ = None"

fun read_array :: "(json_value \<Rightarrow> 'a option) \<Rightarrow> json_value \<Rightarrow> 'a list option" where
  "read_array f (J_Array vs) = those (map f vs)"
| "read_array f _ = None"

fun read_members :: "(json_value \<Rightarrow> 'a option) \<Rightarrow> json_value \<Rightarrow> (string \<times> 'a) list option" where
  "read_members f (J_Object m) = those (map (\<lambda>(k, v). map_option (Pair k) (f v)) m)"
| "read_members f _ = None"

definition member_with :: "(json_value \<Rightarrow> 'a option) \<Rightarrow> json_value \<Rightarrow> string \<Rightarrow> 'a option" where
  "member_with f v k = do { x \<leftarrow> json_get v k; f x }"

definition read_pcr :: "'s platform \<Rightarrow> json_value \<Rightarrow> pcr_entry option" where
  "read_pcr pf v = do {
     i \<leftarrow> member_with read_u32 v ''Index'';
     d \<leftarrow> member_with (read_b64 pf) v ''Digest'';
     Some \<lparr>pe_index = i, pe_digest = d\<rparr> }"

definition read_tpm_info :: "'s platform \<Rightarrow> json_value \<Rightarrow> tpm_info option" where
  "read_tpm_info pf v = do {
     cert \<leftarrow> member_with (read_b64 pf) v ''AikCert'';
     pub \<leftarrow> member_with (read_b64 pf) v ''AikPub'';
     quote \<leftarrow> member_with (read_b64 pf) v ''PcrQuote'';
     sig \<leftarrow> member_with (read_b64 pf) v ''PcrSignature'';
     sel \<leftarrow> member_with (read_array read_u32) v ''PcrSet'';
     pcrs \<leftarrow> member_with (read_array (read_pcr pf)) v ''PCRs'';
     enc \<leftarrow> member_with (read_b64 pf) v ''EncKeyPub'';
     certify \<leftarrow> member_with (read_b64 pf) v ''EncKeyCertifyInfo'';
     certify_sig \<leftarrow> member_with (read_b64 pf) v ''EncKeyCertifyInfoSignature'';
     Some \<lparr>ti_ak_cert = cert, ti_ak_pub = pub, ti_pcr_quote = quote, ti_pcr_sig = sig, ti_pcr_set = sel,
           ti_pcrs = pcrs, ti_enc_key_pub = enc, ti_enc_key_certify_info = certify,
           ti_enc_key_certify_info_sig = certify_sig\<rparr> }"

text \<open>The type says how the evidence is encoded: an SNP proof is a JSON text of its own within base64url.\<close>

definition read_evidence :: "'s platform \<Rightarrow> string \<Rightarrow> json_value \<Rightarrow> isolation_evidence option" where
  "read_evidence pf ty v =
     (if ty = ''SevSnp'' then do {
        inner \<leftarrow> member_with (read_b64url pf) v ''Proof'';
        proof_json \<leftarrow> right (pf_json_parse pf (bytes_text inner));
        report \<leftarrow> member_with (read_b64url pf) proof_json ''SnpReport'';
        chain \<leftarrow> member_with (read_b64url pf) proof_json ''VcekCertChain'';
        runtime \<leftarrow> member_with (read_b64url pf) v ''RunTimeData'';
        Some \<lparr>ie_tee_proof = Proof_Snp report chain, ie_runtime_data = runtime\<rparr> }
      else do {
        quote \<leftarrow> member_with (read_b64 pf) v ''Proof'';
        runtime \<leftarrow> member_with (read_b64 pf) v ''RunTimeData'';
        Some \<lparr>ie_tee_proof = Proof_Tdx quote, ie_runtime_data = runtime\<rparr> })"

definition read_isolation :: "'s platform \<Rightarrow> json_value \<Rightarrow> isolation_info option" where
  "read_isolation pf v = do {
     ty \<leftarrow> member_with json_str v ''Type'';
     if ty = ''TrustedLaunch'' then
       (if json_get v ''Evidence'' = None then Some \<lparr>ii_vm_type = Iso_TrustedLaunch, ii_evidence = None\<rparr> else None)
     else if ty = ''SevSnp'' \<or> ty = ''Tdx'' then do {
       evidence \<leftarrow> member_with (read_evidence pf ty) v ''Evidence'';
       Some \<lparr>ii_vm_type = (if ty = ''SevSnp'' then Iso_SevSnp else Iso_Tdx), ii_evidence = Some evidence\<rparr> }
     else None }"

text \<open>The parameters without the client's own text, and the members of the client payload.\<close>

definition read_request ::
    "'s platform \<Rightarrow> json_value \<Rightarrow> (guest_attestation_parameters \<times> (string \<times> bytes) list) option" where
  "read_request pf v = do {
     version \<leftarrow> member_with json_str v ''AttestationProtocolVersion'';
     ty \<leftarrow> member_with (read_b64 pf) v ''OSType'';
     distro \<leftarrow> member_with (read_b64 pf) v ''OSDistro'';
     major \<leftarrow> member_with read_u32 v ''OSVersionMajor'';
     minor \<leftarrow> member_with read_u32 v ''OSVersionMinor'';
     build \<leftarrow> member_with (read_b64 pf) v ''OSBuild'';
     logs \<leftarrow> member_with (read_b64 pf) v ''TcgLogs'';
     payload \<leftarrow> member_with (read_members (read_b64 pf)) v ''ClientPayload'';
     tpm \<leftarrow> member_with (read_tpm_info pf) v ''TpmInfo'';
     isolation \<leftarrow> member_with (read_isolation pf) v ''IsolationInfo'';
     Some
       (\<lparr>ga_protocol_version = version, ga_os_type = bytes_text ty, ga_os_distro = bytes_text distro,
         ga_os_version_major = major, ga_os_version_minor = minor, ga_os_build = bytes_text build,
         ga_tcg_logs = logs, ga_client_payload = [], ga_tpm_info = tpm, ga_isolation = isolation\<rparr>, payload) }"

section \<open>Reading a request back\<close>

text \<open>
  What is used of the libraries: each decoder of base64 undoes its encoder, and the text of the JSON object of an SNP
  proof parses back to it.
\<close>

definition codecs_invert :: "'s platform \<Rightarrow> bool" where
  "codecs_invert pf \<longleftrightarrow>
     (\<forall>d. pf_b64_std_decode pf (pf_b64_std pf d) = Inr d) \<and>
     (\<forall>d. pf_b64_url_decode pf (pf_b64_url pf d) = Inr d) \<and>
     (\<forall>r c. pf_json_parse pf (pf_json_text pf (snp_proof_json pf r c)) = Inr (snp_proof_json pf r c))"

text \<open>The members of the client's JSON object, each value as its text: a string without its quotes.\<close>

definition payload_texts :: "'s platform \<Rightarrow> string \<Rightarrow> (string \<times> bytes) list" where
  "payload_texts pf raw =
     (if str_trim (text_chars raw) = [] then []
      else
        case pf_json_parse pf raw of
          Inr (J_Object obj) \<Rightarrow>
            map (\<lambda>(k, v). (k, ascii_bytes (case v of J_String s \<Rightarrow> s | _ \<Rightarrow> pf_json_text pf v))) obj
        | _ \<Rightarrow> [])"

definition consistent :: "isolation_info \<Rightarrow> bool" where
  "consistent info \<longleftrightarrow>
     (case ii_evidence info of
        None \<Rightarrow> ii_vm_type info = Iso_TrustedLaunch
      | Some ev \<Rightarrow>
          (case ie_tee_proof ev of
             Proof_Snp _ _ \<Rightarrow> ii_vm_type info = Iso_SevSnp
           | Proof_Tdx _ \<Rightarrow> ii_vm_type info = Iso_Tdx))"

lemma those_map_Some: "(\<And>x. x \<in> set xs \<Longrightarrow> f x = Some (g x)) \<Longrightarrow> those (map f xs) = Some (map g xs)"
  by (induction xs) simp_all

lemma read_encoded [simp]:
  assumes "codecs_invert pf"
  shows "read_b64 pf (as_b64 pf d) = Some d" "read_b64 pf (str_as_b64 pf t) = Some (ascii_bytes t)"
    "read_b64 pf (J_String (pf_b64_std pf d)) = Some d" "read_b64url pf (J_String (pf_b64_url pf d)) = Some d"
  using assms by (simp_all add: codecs_invert_def read_b64_def read_b64url_def as_b64_def str_as_b64_def)

lemma read_json_u32 [simp]: "read_u32 (json_u32 n) = Some n"
  by (simp add: json_u32_def parse_u32_fmt_dec)

lemma read_payload:
  assumes "codecs_invert pf"
  shows "read_members (read_b64 pf) (client_payload_b64 pf raw) = Some (payload_texts pf raw)"
proof -
  let ?text = "\<lambda>v. case v of J_String s \<Rightarrow> s | _ \<Rightarrow> pf_json_text pf v"
  have "read_members (read_b64 pf) (J_Object (map (\<lambda>(k, v). (k, J_String (pf_b64_std pf (ascii_bytes (?text v))))) obj)) =
      Some (map (\<lambda>(k, v). (k, ascii_bytes (?text v))) obj)" for obj
    using assms by (simp add: o_def case_prod_beta) (rule those_map_Some, simp add: case_prod_beta)
  then show ?thesis
    by (auto simp: client_payload_b64_def payload_texts_def Let_def split: sum.split json_value.split)
qed

lemma read_pcrs:
  assumes "codecs_invert pf"
  shows "read_array (read_pcr pf) (J_Array (map (pcr_entry_json pf) es)) = Some es"
    "read_array read_u32 (J_Array (map json_u32 ns)) = Some ns"
proof -
  have "read_pcr pf (pcr_entry_json pf e) = Some e" for e
    using assms by (simp add: read_pcr_def pcr_entry_json_def member_with_def)
  then show "read_array (read_pcr pf) (J_Array (map (pcr_entry_json pf) es)) = Some es"
    using those_map_Some [of es "read_pcr pf \<circ> pcr_entry_json pf" id] by simp
  show "read_array read_u32 (J_Array (map json_u32 ns)) = Some ns"
    using those_map_Some [of ns "read_u32 \<circ> json_u32" id] by simp
qed

lemma read_tpm:
  "codecs_invert pf \<Longrightarrow> read_tpm_info pf (tpm_info_json pf t) = Some t"
  by (simp add: read_tpm_info_def tpm_info_json_def member_with_def read_pcrs del: read_array.simps)

lemma read_isolation_back:
  assumes "codecs_invert pf" "consistent info"
  shows "read_isolation pf (isolation_info_json pf info) = Some info"
proof (cases "ii_evidence info")
  case None
  with assms(2) show ?thesis
    by (simp add: consistent_def read_isolation_def isolation_info_json_def member_with_def)
next
  case (Some ev)
  have snp: "pf_json_parse pf (pf_json_text pf (snp_proof_json pf r c)) = Inr (snp_proof_json pf r c)" for r c
    using assms(1) by (simp add: codecs_invert_def)
  note member = member_with_def bytes_text_ascii snp_proof_json_def
  show ?thesis
  proof (cases "ie_tee_proof ev")
    case (Proof_Snp r c)
    with assms Some have "ii_vm_type info = Iso_SevSnp" by (simp add: consistent_def)
    moreover have "read_evidence pf ''SevSnp'' (isolation_evidence_json pf ev) = Some ev"
      using assms(1) Proof_Snp
      by (simp add: read_evidence_def isolation_evidence_json_def member_with_def bytes_text_ascii snp Let_def)
        (simp add: snp_proof_json_def)
    ultimately show ?thesis using Some by (simp add: read_isolation_def isolation_info_json_def member_with_def)
  next
    case (Proof_Tdx quote)
    with assms Some have "ii_vm_type info = Iso_Tdx" by (simp add: consistent_def)
    moreover have "read_evidence pf ''Tdx'' (isolation_evidence_json pf ev) = Some ev"
      using assms(1) Proof_Tdx by (simp add: read_evidence_def isolation_evidence_json_def member_with_def)
    ultimately show ?thesis using Some by (simp add: read_isolation_def isolation_info_json_def member_with_def)
  qed
qed

lemma read_parameters:
  assumes "codecs_invert pf" "consistent (ga_isolation p)"
  shows "read_request pf (parameters_json pf p) = Some (p\<lparr>ga_client_payload := []\<rparr>, payload_texts pf (ga_client_payload p))"
  using assms
  by (simp add: read_request_def parameters_json_def member_with_def read_payload read_tpm read_isolation_back bytes_text_ascii
      del: read_array.simps read_members.simps)

text \<open>What the isolation part of a request is made of.\<close>

definition isolation_from ::
    "'s platform \<Rightarrow> cvm_evidence option \<Rightarrow> endorsement option \<Rightarrow> 's \<Rightarrow> isolation_info \<Rightarrow> 's \<Rightarrow> bool" where
  "isolation_from pf cvm e s info s' \<longleftrightarrow>
     (case cvm of
        None \<Rightarrow> info = \<lparr>ii_vm_type = Iso_TrustedLaunch, ii_evidence = None\<rparr> \<and> s' = s
      | Some ev \<Rightarrow>
          (ce_report_type ev = SnpVmReport \<and>
            (\<exists>chain. vcek_chain_for pf e s = (Inr chain, s') \<and>
               info = with_evidence Iso_SevSnp (Proof_Snp (ce_tee_report ev) chain) (ce_runtime_data ev))) \<or>
          (ce_report_type ev = TdxVmReport \<and>
            (\<exists>quote. td_quote_for pf ev s = (Inr quote, s') \<and>
               info = with_evidence Iso_Tdx (Proof_Tdx quote) (ce_runtime_data ev))))"

lemma isolation_built:
  assumes "build_isolation_info pf cvm e s = (Inr info, s')"
  shows "isolation_from pf cvm e s info s'" "consistent info"
proof -
  show "isolation_from pf cvm e s info s'"
    using assms
    by (auto simp: build_isolation_info_def isolation_from_def sdk_fail_def st_then_def st_map_err_def st_res_def
        split: option.splits cvm_report_type.splits prod.splits sum.splits)
  then show "consistent info"
    by (auto simp: isolation_from_def consistent_def with_evidence_def split: option.splits)
qed


text \<open>A platform whose codecs can be undone: base64 is the bytes themselves, and the text of an SNP proof is the length of
  its first member in unary before both members.\<close>

definition proof_text :: "json_value \<Rightarrow> string" where
  "proof_text v =
     (case (get_str v ''SnpReport'', get_str v ''VcekCertChain'') of
        (Some r, Some c) \<Rightarrow> replicate (length r) CHR ''1'' @ ''0'' @ r @ c
      | _ \<Rightarrow> [])"

definition proof_parse :: "string \<Rightarrow> json_value" where
  "proof_parse t =
     (let n = length (takeWhile (\<lambda>c. c = CHR ''1'') t); members = drop (n + 1) t
      in J_Object [(''SnpReport'', J_String (take n members)), (''VcekCertChain'', J_String (drop n members))])"

definition plain_platform :: "unit platform" where
  "plain_platform = (sample_platform (\<lambda>cmd s. (Inr [], s)))
     \<lparr>pf_b64_std := bytes_text, pf_b64_std_decode := (\<lambda>t. Inr (ascii_bytes t)),
      pf_b64_url := bytes_text, pf_b64_url_decode := (\<lambda>t. Inr (ascii_bytes t)),
      pf_json_text := proof_text,
      pf_json_parse := (\<lambda>t. Inr (if t = ''{}'' then J_Object [(''a'', J_String ''b'')] else proof_parse t))\<rparr>"

lemma plain_codecs: "codecs_invert plain_platform"
proof -
  have no_braces: "proof_text v \<noteq> ''{}''" for v
  proof -
    have "hd (proof_text v) \<in> {CHR ''1'', CHR ''0''}" if "proof_text v \<noteq> []"
      using that by (auto simp: proof_text_def hd_append split: option.splits)
    then show ?thesis by fastforce
  qed
  moreover have ones: "takeWhile (\<lambda>c. c = CHR ''1'') (replicate n CHR ''1'' @ CHR ''0'' # x) = replicate n CHR ''1''" for n x
    by (induction n) simp_all
  ultimately have "proof_parse (proof_text (snp_proof_json plain_platform r c)) = snp_proof_json plain_platform r c" for r c
    by (simp add: proof_parse_def proof_text_def snp_proof_json_def get_str_def ones Let_def)
  with no_braces show ?thesis
    by (simp add: codecs_invert_def plain_platform_def ascii_bytes_text)
qed

definition plain_evidence :: cvm_evidence where
  "plain_evidence = \<lparr>ce_report_type = SnpVmReport, ce_tee_report = [1, 2], ce_runtime_claims = None,
     ce_runtime_data = [3], ce_platform_quote = []\<rparr>"

definition plain_device :: device_evidence where
  "plain_device =
     \<lparr>de_tpm_info = \<lparr>ti_ak_cert = [5], ti_ak_pub = [6], ti_pcr_quote = [7], ti_pcr_sig = [8], ti_pcr_set = [0],
        ti_pcrs = [\<lparr>pe_index = 0, pe_digest = [9]\<rparr>], ti_enc_key_pub = [10], ti_enc_key_certify_info = [11],
        ti_enc_key_certify_info_sig = [12]\<rparr>, de_pcrs = [0]\<rparr>"


end
