(* ===== verification/Spec2Isabelle.thy ===== *)
theory Spec2Isabelle
  imports Web_Facts Verify_Openssl Verify_Chains Platform_Access Pretty_Report_Facts Attest_Tool_Facts Verify_Tool Attest_Token_Facts Tpm_Tool_Facts Fmspc_Resolver Request_Schema Event_Log_Facts Cose Td_Quote_Fmspc
begin

text \<open>
  A verification library for the Azure guest attestation SDK: the crate \<open>azure-tpm\<close>
  (\<open>crates/azure-tpm/src\<close>), which speaks to the TPM of a confidential VM and reads its
  measured-boot log, and the crate \<open>azure-guest-attestation-sdk\<close> above it (\<open>SDK/\<close> below
  stands for \<open>crates/azure-guest-attestation-sdk/src\<close>), which reads the hardware report from the
  TPM, decodes and verifies TEE reports and quotes, and obtains attestation tokens.

  Parts, bottom up, and the theories that hold them.
  \<^item> \<open>Rust_Prelude\<close>: machine integers as words, \<open>Result\<close> as \<open>fault + 'a\<close> where a
    \<open>fault\<close> is an error value or a panic, checked indexing and slicing, byte orders,
    number formatting, and the state passing \<open>st\<close> of the operations. \<open>Rust_Text\<close>: UTF-8
    validation, \<open>lines\<close>, \<open>trim\<close>. \<open>Repr_C\<close>: reading a \<open>repr(C)\<close> structure field by field.
  \<^item> \<open>Tpm_Errors\<close> (\<open>error.rs\<close>): \<open>TpmError\<close>, its conversions to and from \<open>io::Error\<close>, and the
    command codes it names.
  \<^item> \<open>Tpm_Constants\<close>, \<open>Tpm_Wire\<close>, \<open>Tpm_Structs\<close>, \<open>Tpm_Public\<close>, \<open>Tpm_Signatures\<close> (\<open>types.rs\<close>):
    constants and bit fields, the traits \<open>TpmMarshal\<close> and \<open>TpmUnmarshal\<close>, the TPM
    structures and the key templates. A decoder takes the buffer and the cursor, as in
    the source, and returns the value with the moved cursor.
  \<^item> \<open>Tpm_Requests\<close>, \<open>Tpm_Responses\<close> (\<open>types.rs\<close>): one record or definition per command
    structure, and the \<open>from_bytes\<close> parsers of the responses.
  \<^item> \<open>Tpm_Helpers\<close> (\<open>helpers.rs\<close>): command buffers with their size field and
    authorization area, the return code check, the text of a return code.
  \<^item> \<open>Tpm_Device\<close> (\<open>device.rs\<close>): \<open>Tpm::transmit\<close> and the Linux and Windows drivers, over an
    operating system given as a record of functions on its own state.
  \<^item> \<open>Tpm_Commands\<close> (\<open>commands.rs\<close>): every operation of \<open>TpmCommandExt\<close>, as a function of
    the transport \<open>tr\<close> (an argument, so that the same model runs over a driver, a recorder
    or a simulated TPM), the random number generator and SHA-256. What they guarantee is in
    \<open>Tpm_Command_Facts\<close>, \<open>Tpm_Nv_Facts\<close>, \<open>Tpm_Pcr_Facts\<close>, \<open>Tpm_Session_Facts\<close>.
  \<^item> \<open>Event_Log\<close>, \<open>Event_Log_Facts\<close> (\<open>event_log.rs\<close>): the 1.2, 2.0 and systemd-JSON parsers,
    the search for log files on Linux, and the replay.
  \<^item> \<open>Cvm_Report\<close> (\<open>SDK/report.rs\<close>): the report the platform leaves in NV storage, with its runtime
    claims. A structure read over bytes that are no value of it makes the code undefined: the
    readers return \<open>None\<close> then. \<open>Cose\<close> (\<open>SDK/cose.rs\<close>): the payload of a COSE envelope.
  \<^item> \<open>Tee_Reports\<close>, \<open>Tee_Report_Facts\<close> (\<open>SDK/tee_report\<close>, \<open>SDK/parse.rs\<close>, \<open>SDK/error.rs\<close>): SNP, TDX
    and VBS reports. \<open>Td_Quote\<close>, \<open>Td_Quote_Facts\<close>, \<open>Td_Quote_Fmspc\<close>
    (\<open>SDK/tee_report/td_quote.rs\<close>): TD quotes of versions 4 and 5, and the FMSPC of their certificate.
  \<^item> \<open>Verify_Crypto\<close>, \<open>Verify_Tdx\<close>, \<open>Verify_Snp\<close>, \<open>Verify_Snp_Facts\<close> (\<open>SDK/verify\<close>): the verification of
    quotes and reports over a record of cryptographic functions. \<open>Verify_Openssl\<close>, \<open>Verify_Symcrypt\<close>, \<open>Verify_Windows\<close>
    (\<open>SDK/verify/crypto\<close>): the three backends as values of that record, over the libraries they call;
    \<open>Verify_Backend_Facts\<close> holds what they guarantee, and \<open>Verify_Chains\<close> (locale \<open>chain_validator\<close>, interpreted for the
    Windows and the SymCrypt backend) what that means for verified reports and quotes.
  \<^item> \<open>Platform_Access\<close> (\<open>device.rs\<close>, \<open>event_log.rs\<close>, \<open>SDK/guest_attest/mod.rs\<close>): opening the TPM, the log in the
    Windows registry and the search for log files on Windows.
  \<^item> \<open>Tpm_Attestation\<close>, \<open>Tpm_Attestation_Facts\<close> (\<open>SDK/tpm/attestation.rs\<close>): attestation and ephemeral
    keys, quotes, the staging of user data and the report that is read back after it.
  \<^item> \<open>Maa_Endpoint\<close> (\<open>SDK/endpoint.rs\<close>), \<open>Guest_Attest\<close>, \<open>Guest_Services\<close> (\<open>SDK/guest_attest\<close>,
    the OpenSSL, RustCrypto and SymCrypt backends of \<open>SDK/crypto.rs\<close>): addresses of the attestation
    service, the request and its JSON form, the metadata service, the providers with their retry loop, the
    token envelope. The RustCrypto backend panics for a nonce that is not twelve bytes long, and so does its model.
  \<^item> \<open>Attest_Client\<close>, \<open>Attest_Client_Facts\<close> (\<open>SDK/client.rs\<close>, \<open>SDK/endorsement.rs\<close>): \<open>AttestationClient\<close>
    and \<open>ThimClient\<close>, that is, the composition of everything above. \<open>Attest_Demo\<close> is a simulated
    confidential VM on which its properties are witnessed, \<open>Sample_Platform\<close> the platform it uses.
    \<open>Attest_Token_Facts\<close> follows a sealed token back to its text, \<open>Request_Schema\<close> reads the JSON of a
    request back.
  \<^item> \<open>Fmspc_Resolver\<close> (\<open>SDK/tee_report/fmspc_resolver.rs\<close>, \<open>SDK/parse.rs\<close>): the TCB collateral of an FMSPC and
    the claims of a token. \<open>Pretty_Report\<close> (\<open>SDK/tee_report\<close>): the printed form of quotes, and in
    \<open>Pretty_Report_Facts\<close> what the printed form of a report determines.
  \<^item> \<open>Tpm_Tool\<close>, \<open>Tpm_Tool_Facts\<close> (\<open>tools/azure-tpm-tool\<close>) and \<open>Verify_Tool\<close> (\<open>tools/azure-guest-local-verify\<close>):
    these command-line tools with their messages and exit codes.
  \<^item> \<open>Attest_Text\<close>, \<open>Attest_Tool\<close>, \<open>Attest_Tool_Main\<close> (\<open>tools/azure-guest-attest\<close>): the arguments and texts, the
    parts of the subcommands, and the subcommands with their dispatch. Output is a list of lines that grows.
    \<open>Attest_Text_Facts\<close> and \<open>Attest_Tool_Facts\<close> hold what they guarantee.
  \<^item> \<open>Web_Api\<close>, \<open>Web_Attest\<close>, \<open>Web_Server\<close> (\<open>tools/azure-guest-attest-web\<close>): the endpoints, their dispatch, and
    the routes, index and TLS configuration of the server. \<open>Web_Facts\<close> holds what they guarantee.

  State and parameters. The TPM operations run on a state \<open>'s\<close> that only the transport
  changes. The client adds the record \<open>'s platform\<close> (HTTP, JSON, base64, the files and the clock of
  the operating system, deserialization of the runtime claims), whose functions act on the same
  state; a \<open>sdk_op\<close> returns \<open>None\<close> where the code is undefined. Trace output and timers are left out.

  Interfaces. \<open>wire_codec\<close> (in \<open>Tpm_Wire\<close>) is the contract of an encoder with its decoder:
  at every place of every buffer the encoding is read back and the cursor moves behind it;
  it is interpreted for every structure, and the lists, blocks and responses built from
  them are proved once from the contract. \<open>total_reader\<close> is the contract of a decoder
  that neither panics nor moves the cursor out of the buffer. \<open>c_struct\<close> is that of a \<open>repr(C)\<close>
  structure of a fixed size. \<open>panic_free_transport\<close> and
  \<open>framed_transport\<close> are what the operations rely on in \<open>Tpm::transmit\<close>; both are
  interpreted for the drivers. The services of the \<open>..._Facts\<close> theories state what a TPM
  answers to one command (read, write, PCR read) and are interpreted on a device
  that computes those answers from a stored state; \<open>cvm_vtpm\<close> is their combination for a
  confidential VM, whose report index depends on its user data index.

  What the lemmas show. Encodings: round trips of the structures, for all values whose
  variable parts fit their length fields, and the one pair that is not inverse (an ECC
  public area, \<open>ecc_public_loses_y\<close>). Responses, event logs, reports, quotes: no input makes a
  parser panic (with one exception, \<open>fmspc_length_overflow_panics\<close>), and which sizes are refused.
  Commands: the bytes sent, in order, and that no operation panics whatever the device answers.
  NV indices: the chunks requested cover the index exactly, and a read returns what was written.
  PCRs: the loop of \<open>read_pcrs_for_alg\<close> returns each requested PCR with its value. Sessions: the
  session of a policy is flushed on success and on failure. Event log: what a writer of the TCG format
  emits is read back; the replay is the fold of extend, with the two exceptions the code
  has (a digest whose first two bytes are its length, which is taken for a length prefix, and EV_NO_ACTION
  events that have no data or carry the mark of the Spec-ID event). Certificates and envelopes: the FMSPC is found
  in every DER certificate that carries it, with lengths of every minimal form; the payload of an envelope is found
  for items of definite length of every width, and one of indefinite length is refused. Verification: a quote or report
  is accepted exactly when every check of the code holds of its bytes, also for a quote in two response
  envelopes, where the bytes that are checked and those that are parsed are not the same; a chain that the
  Windows or the SymCrypt backend accepts leads from the leaf to a pinned root over certificates that may issue (for
  SymCrypt, by a path that WebPKI links to the leaf); the integers of a signature keep their value. Attestation:
  the user data is staged, padded, before the report is read; on a TPM that handles its key slots as the
  TPM 2.0 specification says, keys get provisioned, and on some error paths one leaks.
  Client: the request that is sent gives the collected data back; explicit user data is bound to the request or the attestation fails; the retry loop makes at
  most three attempts; nothing panics except through an HTTP client that cannot be made or in the libraries the client calls. Tools and web front end:
  user data given by the user is in the report that is shown or sent, or there is an error; a verdict on an event log
  is the comparison of the replayed with the read PCRs; text for the user data is cut at 64 bytes, longer data behind \<open>hex:\<close> is refused; the verification tool exits with 0 exactly for verified
  evidence; PEM text and reports are determined by their printed form; the index of the server is that of its routes.

  Bounds and fuel. The source's loops are recursions. \<open>parse_event1_entries_from\<close> and
  \<open>parse_event2_entries_from\<close> decrease the distance to the end of the buffer,
  \<open>nv_read_loop\<close> and \<open>nv_write_loop\<close> the bytes left, \<open>pcr_read_loop\<close> the list of PCRs still
  to be read, \<open>submit_loop\<close> the attempts left: all are total functions, with no fuel. The CBOR
  parser recurses on its input without a limit, so its model takes the stack frames that are left and
  returns \<open>None\<close> when they run out; \<open>cose_stack_need\<close> says how many are enough. Sizes keep their width:
  \<open>u16\<close> and \<open>u32\<close> fields are words, and a length that does not fit is truncated where the source
  uses \<open>as\<close> and is a panic or an error where the source checks it. The allocation a
  \<open>Vec::with_capacity\<close> may fail to make is not modelled, nor is \<open>usize\<close> overflow on
  sums of buffer lengths, which a 64-bit machine cannot reach.

  Not modelled: closing handles and the declarations of foreign functions, the option \<open>--windows-dir\<close>, the libraries
  behind the crypto backends and behind HTTP, JSON text and base64 (their functions are arguments), argument parsing
  (clap), tracing output, the accept loop, TLS and static pages of the web front end, and the test kit.
\<close>

section \<open>Encodings\<close>

text \<open>
  An RSA public area with its 16-bit size prefix is read back
  from any position of any buffer, and the cursor ends behind it, when its variable
  parts fit their 16-bit lengths.
\<close>

theorem public_area_round_trip:
  "tpm2b_public_valid p \<Longrightarrow>
     tpm2b_public_unmarshal (pre @ tpm2b_public_marshal p @ post) (length pre) =
       Inr (p, length pre + length (tpm2b_public_marshal p))"
  by (rule tpm2b_public_codec.codec) simp_all

theorem public_area_round_trip_witness:
  "tpm2b_public_valid rsa_restricted_signing_public \<and>
   tpm2b_public_unmarshal ([1, 2] @ tpm2b_public_marshal rsa_restricted_signing_public @ [3]) (length [1, 2 :: u8]) =
     Inr (rsa_restricted_signing_public, length [1, 2 :: u8] + length (tpm2b_public_marshal rsa_restricted_signing_public))"
proof -
  have "tpm2b_public_valid rsa_restricted_signing_public"
    by (simp add: tpm2b_public_valid_def tpmt_public_valid_def rsa_restricted_signing_public_def
        sym_def_valid_def sym_null_def fits_u16_def tpmt_public_marshal_def sym_def_marshal_def tpm2b_defs)
  with public_area_round_trip [OF this, of "[1, 2]" "[3]"] show ?thesis by simp
qed

text \<open>
  RSASSA, ECDSA and null signatures are read back from any
  position of any buffer.
\<close>

theorem signature_round_trip:
  "signature_valid s \<Longrightarrow>
     signature_unmarshal (pre @ signature_marshal s @ post) (length pre) =
       Inr (s, length pre + length (signature_marshal s))"
  by (rule signature_codec.codec) simp_all

theorem signature_round_trip_witness:
  "signature_valid (Sig_Rsassa ALG_SHA256 [1, 2, 3]) \<and>
   signature_unmarshal ([] @ signature_marshal (Sig_Rsassa ALG_SHA256 [1, 2, 3]) @ [9]) (length []) =
     Inr (Sig_Rsassa ALG_SHA256 [1, 2, 3], length [] + length (signature_marshal (Sig_Rsassa ALG_SHA256 [1, 2, 3])))"
proof -
  have "signature_valid (Sig_Rsassa ALG_SHA256 [1, 2, 3])" by (simp add: fits_u16_def)
  with signature_round_trip [OF this, of "[]" "[9]"] show ?thesis by simp
qed

text \<open>
  The selection list of a command, for every PCR list and
  bank, is encoded without a panic and decoded to itself.
\<close>

theorem selection_list_round_trip:
  "\<exists>w. pcr_selection_list_marshal (from_pcrs_with_alg pcrs alg) = Inr w \<and>
     pcr_selection_list_unmarshal (pre @ w @ post) (length pre) =
       Inr (from_pcrs_with_alg pcrs alg, length pre + length w)"
  using pcr_selection_list_codec.codec [of "pre @ pcr_selection_list_wire (from_pcrs_with_alg pcrs alg) @ post"
      "length pre" "from_pcrs_with_alg pcrs alg"]
  by simp

text \<open>
  An NV public area sent with \<open>NV_DefineSpace\<close>, put in front of
  a name as in the answer of \<open>NV_ReadPublic\<close>, is read back with the bits \<open>nv_written\<close> and
  \<open>nv_platformcreate\<close> cleared and everything else unchanged.
\<close>

theorem nv_public_round_trip:
  assumes "length (np_auth_policy p) < 65522" "fits_u16 name"
  shows "\<exists>c. nv_read_public_parameters_unmarshal (nv_public_marshal p @ tpm2b_bytes_marshal name) 0 =
    Inr (\<lparr>nr_public = p\<lparr>np_attributes := np_attributes p AND NOT 0x60000000\<rparr>, nr_name = name\<rparr>, c)"
proof -
  let ?d = "nv_public_marshal p @ tpm2b_bytes_marshal name"
  have m: "nv_mask_attributes a = a AND NOT 0x60000000" for a
    by (simp add: nv_mask_attributes_def and.assoc)
  have "nv_public_block_unmarshal ?d 0 = Inr (nv_public_masked p, length (nv_public_marshal p))"
    using nv_block_of_marshal [OF assms(1), of ?d 0] by simp
  moreover have "nv_name_unmarshal ?d (length (nv_public_marshal p)) =
      Inr (name, length (nv_public_marshal p) + length (tpm2b_bytes_marshal name))"
    using tpm2b_codec.codec [of ?d "length (nv_public_marshal p)" name] assms(2)
      occurs_at_here [of "nv_public_marshal p" "tpm2b_bytes_marshal name" "[]"]
    by (simp add: nv_name_unmarshal_def)
  ultimately show ?thesis
    by (simp add: nv_read_public_parameters_unmarshal_def nv_public_masked_def m)
qed

theorem nv_public_round_trip_witness:
  "length (np_auth_policy (new_ordinary_index 0x01400001 64)) < 65522 \<and> fits_u16 [0, 11] \<and>
   (\<exists>c. nv_read_public_parameters_unmarshal
      (nv_public_marshal (new_ordinary_index 0x01400001 64) @ tpm2b_bytes_marshal [0, 11]) 0 =
    Inr (\<lparr>nr_public = (new_ordinary_index 0x01400001 64)
            \<lparr>np_attributes := np_attributes (new_ordinary_index 0x01400001 64) AND NOT 0x60000000\<rparr>,
          nr_name = [0, 11]\<rparr>, c))"
proof -
  have "length (np_auth_policy (new_ordinary_index 0x01400001 64)) < 65522" "fits_u16 [0, 11]"
    by (simp_all add: new_ordinary_index_def fits_u16_def)
  with nv_public_round_trip [OF this] show ?thesis by simp
qed

text \<open>
  The encoding cached by \<open>Tpm2b::bytes\<close> is never stale: the
  first call, every later call, and a call on a clone give the size-prefixed encoding of
  the value.
\<close>

theorem tpm2b_cache_transparent:
  "(let (b1, t1) = tpm2b_cached_bytes m (tpm2b_new x); (b2, t2) = tpm2b_cached_bytes m t1;
        (b3, t3) = tpm2b_cached_bytes m (tpm2b_clone t2)
    in b1 = sized_marshal (m x) \<and> b2 = b1 \<and> b3 = b1 \<and> inner t3 = x)"
  by (simp add: tpm2b_cached_bytes_def tpm2b_new_def tpm2b_clone_def tpm2b_encode_sized Let_def)

definition quote_attest_wire :: "u32 \<Rightarrow> bytes \<Rightarrow> bytes \<Rightarrow> bytes \<Rightarrow> parsed_quote_attest \<Rightarrow> bytes" where
  "quote_attest_wire magic signer clock firmware q =
     u32_marshal magic @ u16_marshal 0x8018 @ sized_marshal signer @ sized_marshal (qa_extra_data q) @
     clock @ firmware @ pcr_selection_list_wire (qa_pcr_selections q) @
     tpm2b_bytes_marshal (qa_pcr_digest q)"

text \<open>
  The parser of quote attestations returns the selections,
  the PCR digest and the qualifying data of a TPM's \<open>TPMS_ATTEST\<close>; it does so for every
  magic number, also one a TPM does not generate.
\<close>

theorem quote_attestation_parsed:
  assumes "fits_u16 signer" "fits_u16 (qa_extra_data q)" "length clock = 17" "length firmware = 8"
    and "pcr_selection_list_valid (qa_pcr_selections q)" "fits_u16 (qa_pcr_digest q)"
  shows "parse_quote_attestation (quote_attest_wire magic signer clock firmware q @ post) = Inr q"
proof -
  let ?d = "quote_attest_wire magic signer clock firmware q @ post"
  let ?e = "8 + length signer" let ?x = "?e + 2 + length (qa_extra_data q)"
  let ?w = "pcr_selection_list_wire (qa_pcr_selections q)"
  have o: "occurs_at ?d 0 (u32_marshal magic)" "occurs_at ?d 4 (u16_marshal 0x8018)"
    "occurs_at ?d 6 (sized_marshal signer)" "occurs_at ?d ?e (sized_marshal (qa_extra_data q))"
    "occurs_at ?d (?x + 25) ?w" "occurs_at ?d (?x + 25 + length ?w) (tpm2b_bytes_marshal (qa_pcr_digest q))"
    using occurs_at_whole [of ?d] assms(3,4) by (simp_all add: quote_attest_wire_def ac_simps)
  have len: "?x + 25 + length ?w \<le> length ?d" using occurs_at_bounds [OF o(6)] by simp
  have q: "u16_unmarshal ?d 6 = Inr (of_nat (length signer), 8)"
    using o(3) u16_codec.codec [of ?d 6 "of_nat (length signer)"] by (simp add: sized_marshal_def)
  have reads: "u32_unmarshal ?d 0 = Inr (magic, 4)" "u16_unmarshal ?d 4 = Inr (0x8018, 6)"
    "sized_slice ''extraData'' ?d ?e = Inr (qa_extra_data q, ?x)"
    "pcr_selection_list_unmarshal ?d (?x + 25) = Inr (qa_pcr_selections q, ?x + 25 + length ?w)"
    using o(1,2) wire_codec.codec [OF sized_slice_codec o(4) assms(2)]
      pcr_selection_list_codec.codec [OF o(5) assms(5)] by simp_all
  have digest: "tpm2b_bytes_unmarshal ?d (?x + 25 + length ?w) =
      Inr (qa_pcr_digest q, ?x + 25 + length ?w + length (tpm2b_bytes_marshal (qa_pcr_digest q)))"
    using tpm2b_codec.codec [OF o(6) assms(6)] .
  have n: "unat (of_nat (length signer) :: u16) = length signer"
    using assms(1) by (simp add: fits_u16_def)
  show ?thesis
    using len reads q n digest
    by (simp add: parse_quote_attestation_def skip_bytes_def)
qed

theorem quote_attestation_parsed_witness:
  "\<exists>q. qa_extra_data q = [5, 6] \<and> parse_quote_attestation
     (quote_attest_wire 0 [1] (replicate 17 0) (replicate 8 0) q @ []) = Inr q"
proof -
  let ?q = "\<lparr>qa_pcr_selections = from_pcrs [0, 7], qa_pcr_digest = replicate 32 1, qa_extra_data = [5, 6]\<rparr>"
  have "parse_quote_attestation (quote_attest_wire 0 [1] (replicate 17 0) (replicate 8 0) ?q @ []) = Inr ?q"
    by (rule quote_attestation_parsed) (simp_all add: fits_u16_def)
  then show ?thesis by (intro exI [of _ ?q]) simp
qed

section \<open>Responses\<close>

text \<open>
  None of the response parsers panics, on any byte string: every
  index, slice and handle read of the source is guarded.
\<close>

theorem response_parsers_total:
  "create_primary_response_from_bytes bs \<noteq> Inl Panic \<and>
   load_response_from_bytes bs \<noteq> Inl Panic \<and> quote_response_from_bytes bs \<noteq> Inl Panic \<and>
   certify_response_from_bytes bs \<noteq> Inl Panic \<and> start_auth_session_response_from_bytes bs \<noteq> Inl Panic \<and>
   policy_get_digest_response_from_bytes bs \<noteq> Inl Panic \<and> evict_control_response_from_bytes bs \<noteq> Inl Panic \<and>
   rsa_decrypt_response_from_bytes bs \<noteq> Inl Panic \<and> unseal_response_from_bytes bs \<noteq> Inl Panic \<and>
   read_public_response_from_bytes bs \<noteq> Inl Panic \<and> nv_read_public_response_from_bytes bs \<noteq> Inl Panic \<and>
   nv_read_response_from_bytes bs \<noteq> Inl Panic \<and> nv_write_response_from_bytes bs \<noteq> Inl Panic \<and>
   nv_define_space_response_from_bytes bs \<noteq> Inl Panic \<and> nv_undefine_space_response_from_bytes bs \<noteq> Inl Panic \<and>
   nv_extend_response_from_bytes bs \<noteq> Inl Panic \<and> nv_certify_response_from_bytes bs \<noteq> Inl Panic \<and>
   pcr_read_response_from_bytes bs \<noteq> Inl Panic \<and> sign_response_from_bytes bs \<noteq> Inl Panic \<and>
   verify_signature_response_from_bytes bs \<noteq> Inl Panic"
  by (simp add: named_responses_no_panic create_primary_response_no_panic nv_certify_response_no_panic
      sign_response_no_panic verify_signature_response_no_panic)

text \<open>
  A successful session response to \<open>TPM2_Quote\<close> is accepted
  exactly when the parameter size it announces is the size of its attestation and
  signature; any other size that fits the response is refused.
\<close>

theorem quote_response_size_checked:
  assumes "fits_u16 attest" "signature_valid sig" "unat psize \<le> length params + length auth"
    and "params = tpm2b_attest_marshal attest @ signature_marshal sig"
    and "14 + length params + length auth < 4294967296"
  shows "quote_response_from_bytes (session_response 0 [] psize params auth) =
    (if unat psize = length params
     then Inr \<lparr>resp_header = session_header 0 [] params auth, resp_parameters = (attest, sig)\<rparr>
     else io_fail InvalidData ''Quote response parameter size mismatch'')"
  using attest_signature_codec.checked_response_session [of "(attest, sig)" auth psize "''Quote''"] assms
  by (simp add: quote_response_from_bytes_def attest_and_signature_marshal_def
      attest_and_signature_valid_def)

theorem quote_response_size_checked_witness:
  "quote_response_from_bytes
     (session_response 0 [] 12 (tpm2b_attest_marshal [1, 2] @ signature_marshal (Sig_Rsassa ALG_SHA256 [3, 4])) [0]) =
   Inr \<lparr>resp_header = session_header 0 [] (tpm2b_attest_marshal [1, 2] @ signature_marshal (Sig_Rsassa ALG_SHA256 [3, 4])) [0],
        resp_parameters = ([1, 2], Sig_Rsassa ALG_SHA256 [3, 4])\<rparr>"
  using quote_response_size_checked [of "[1, 2]" "Sig_Rsassa ALG_SHA256 [3, 4]" 12
      "tpm2b_attest_marshal [1, 2] @ signature_marshal (Sig_Rsassa ALG_SHA256 [3, 4])" "[0]"]
  by (simp add: fits_u16_def)

text \<open>
  The decoder of public areas knows the RSA layout only. The public
  area of an ECDSA key is accepted, and what is encoded again from the result is the
  original without the y coordinate of the point: the key is not in the output of
  \<open>create_primary_ecc\<close> and \<open>read_public\<close>.
\<close>

theorem ecc_public_loses_y:
  assumes "te_scheme p = EccScheme_Ecdsa hash" "fits_u16 (te_auth_policy p)"
    and "sym_def_valid (te_symmetric p)" "fits_u16 (ep_x (te_unique p))"
  shows "\<exists>q c. tpmt_public_unmarshal (tpmt_public_ecc_marshal p) 0 = Inr (q, c) \<and>
    tpmt_public_marshal q @ sized_marshal (ep_y (te_unique p)) = tpmt_public_ecc_marshal p"
  using tpmt_public_codec.codec_front [OF ecc_as_rsa_valid [OF assms(2-4), of hash],
      of "sized_marshal (ep_y (te_unique p))"]
  by (auto simp: ecc_marshal_split [OF assms(1)])

theorem ecc_public_loses_y_witness:
  "\<exists>q c. tpmt_public_unmarshal (tpmt_public_ecc_marshal ecc_unrestricted_signing_public) 0 = Inr (q, c) \<and>
     tpmt_public_marshal q @ sized_marshal (replicate 32 0) = tpmt_public_ecc_marshal ecc_unrestricted_signing_public"
  using ecc_public_loses_y [of ecc_unrestricted_signing_public ALG_SHA256]
  by (simp add: ecc_unrestricted_signing_public_def ecc_unrestricted_signing_public_with_policy_def
      fits_u16_def sym_def_valid_def sym_null_def)

section \<open>Commands\<close>

text \<open>
  A command with sessions is built without a panic while its
  authorization values stay below 4 GiB; its bytes are the header with the command's
  length, the handles, and an authorization area whose size field is its length and whose
  entries a TPM reads back as the sessions given.
\<close>

theorem built_command_layout:
  assumes "auth_bytes (map se_auth ss) < 4294967296" "list_all session_valid ss"
  shows "\<exists>area cmd. build_command_custom_sessions code hs ss params = Inr cmd \<and>
    cmd = u16_marshal TPM_ST_SESSIONS @ u32_marshal (of_nat (length cmd)) @
      u32_marshal (command_code_u32 code) @ concat (map u32_marshal hs) @
      u32_marshal (of_nat (length area)) @ area @ params \<and>
    read_n session_unmarshal (length ss) area 0 = Inr (ss, length area)"
proof -
  let ?area = "concat (map custom_session ss)"
  let ?cmd = "command_frame TPM_ST_SESSIONS code (handle_area hs @ auth_area ss @ params)"
  have "read_n session_unmarshal (length ss) ?area 0 = Inr (ss, length ?area)"
    using session_codec.read_n_codec [of ?area 0 ss "length ss"] assms(2) by (simp add: list_all_iff)
  moreover have "?cmd = u16_marshal TPM_ST_SESSIONS @ u32_marshal (of_nat (length ?cmd)) @
      u32_marshal (command_code_u32 code) @ concat (map u32_marshal hs) @
      u32_marshal (of_nat (length ?area)) @ ?area @ params"
    by (subst command_frame_def)
      (simp only: length_command_frame auth_area_def handle_area_def length_custom_sessions append_assoc)
  moreover have "build_command_custom_sessions code hs ss params = Inr ?cmd"
    by (rule build_command_custom_sessions_frame) (use assms(1) in simp)
  ultimately show ?thesis by blast
qed

theorem built_command_layout_witness:
  "\<exists>area cmd. build_command_custom_sessions RsaDecrypt [0x81000001]
      [\<lparr>se_handle = 0x03000000, se_auth = [1], se_attrs = 0\<rparr>] [7] = Inr cmd \<and>
    cmd = u16_marshal TPM_ST_SESSIONS @ u32_marshal (of_nat (length cmd)) @
      u32_marshal (command_code_u32 RsaDecrypt) @ concat (map u32_marshal [0x81000001]) @
      u32_marshal (of_nat (length area)) @ area @ [7] \<and>
    read_n session_unmarshal (length [\<lparr>se_handle = 0x03000000, se_auth = [1 :: u8], se_attrs = 0\<rparr>]) area 0 =
      Inr ([\<lparr>se_handle = 0x03000000, se_auth = [1], se_attrs = 0\<rparr>], length area)"
  by (rule built_command_layout) (simp_all add: session_valid_def fits_u16_def)

text \<open>
  \<open>Tpm::transmit\<close> hands a command to the driver exactly when it has
  a header, its size field is its length, and it is at most 64 KiB long; otherwise the
  device is not touched and the error has the kind \<open>InvalidInput\<close>. No command makes the
  check itself panic.
\<close>

theorem transmit_outcome:
  "(if 10 \<le> length cmd \<and> unat (of_be (take 4 (drop 2 cmd)) :: u32) = length cmd \<and> length cmd \<le> 64 * 1024
    then tpm_transmit dev cmd s = inner_transmit dev cmd s
    else \<exists>msg. tpm_transmit dev cmd s = (io_fail InvalidInput msg, s))"
  by (auto simp: tpm_transmit_cases well_framed_def MAX_COMMAND_SIZE_def)

text \<open>
  C33. The Linux and Windows drivers return only complete responses: a
  header, with the response's length in it. On such a response the return code check can
  fail only with the TPM's own code, which \<open>tpm_rc_from_io_error\<close> gives back.
\<close>

theorem hardware_responses:
  assumes "\<not> is_reference dev" "tpm_transmit dev cmd s = (Inr r, s')"
  shows "well_framed r \<and>
    (let code = (of_be (take 4 (drop 6 r)) :: u32)
     in case parse_tpm_rc_with_cmd r cc of
          Inr _ \<Rightarrow> code = 0
        | Inl (Fail e) \<Rightarrow> code \<noteq> 0 \<and> tpm_rc_from_io_error e = Some code
        | Inl Panic \<Rightarrow> False)"
  using framed_transport.transport_framed [OF hardware_framed [OF assms(1)] assms(2)]
    framed_transport.response_check [OF hardware_framed [OF assms(1)] assms(2), of cc]
  by (simp add: Let_def)

definition demo_file :: "bytes tpm_file" where
  "demo_file = \<lparr>tf_poisoned = \<lambda>_. False, tf_write_all = \<lambda>_ s. (Inr (), s),
     tf_read = \<lambda>n s. (Inr (take n s), drop n s)\<rparr>"

lemma demo_file_response:
  "tpm_transmit (Inner_Unix demo_file) (flush_request 1) [0x80, 1, 0, 0, 0, 10, 0, 0, 1, 0x8B] =
     (Inr [0x80, 1, 0, 0, 0, 10, 0, 0, 1, 0x8B], [])"
proof -
  have "accepted (flush_request 1)" by (simp add: flush_request_def accepted_plain_command)
  then show ?thesis
    by (simp add: tpm_transmit_accepted unix_transmit_def demo_file_def read_exact.simps be_u32_at_def
        rs_slice_def of_be_def Let_def MAX_TPM_RESPONSE_SIZE_def)
qed

theorem hardware_responses_witness:
  "\<not> is_reference (Inner_Unix demo_file) \<and>
   well_framed [0x80, 1, 0, 0, 0, 10, 0, 0, 1, 0x8B] \<and>
   (let code = (of_be (take 4 (drop 6 [0x80, 1, 0, 0, 0, 10, 0, 0, 1, 0x8B])) :: u32)
     in case parse_tpm_rc_with_cmd [0x80, 1, 0, 0, 0, 10, 0, 0, 1, 0x8B] FlushContext of
          Inr _ \<Rightarrow> code = 0
        | Inl (Fail e) \<Rightarrow> code \<noteq> 0 \<and> tpm_rc_from_io_error e = Some code
        | Inl Panic \<Rightarrow> False)"
  using hardware_responses [OF _ demo_file_response, of FlushContext] by simp

text \<open>
  C27. Over a hardware TPM none of the operations panics, nor any step of
  the attestation flow over it, whatever the device answers and whatever the arguments, provided the random number generator
  does not panic and an authorization value is shorter than 4 GiB.
\<close>

theorem operations_never_panic:
  assumes "\<not> is_reference dev" "tr = tpm_transmit dev"
    and "\<And>s. fst (rnd 16 s) \<noteq> Inl Panic" "length auth < 4294967287"
  shows "fst (tpm_read_public tr h s) \<noteq> Inl Panic \<and> fst (tpm_find_nv_index tr i s) \<noteq> Inl Panic \<and>
    fst (tpm_read_nv_index tr i s) \<noteq> Inl Panic \<and> fst (tpm_write_nv_index tr i data s) \<noteq> Inl Panic \<and>
    fst (tpm_nv_define_space tr public data s) \<noteq> Inl Panic \<and> fst (tpm_nv_undefine_space tr i s) \<noteq> Inl Panic \<and>
    fst (tpm_nv_extend tr i data s) \<noteq> Inl Panic \<and> fst (tpm_nv_certify tr i h data n m s) \<noteq> Inl Panic \<and>
    fst (tpm_create_primary tr hier template pcrs s) \<noteq> Inl Panic \<and>
    fst (tpm_create_primary_ecc tr hier ecc_template s) \<noteq> Inl Panic \<and>
    fst (tpm_load tr h auth priv pub s) \<noteq> Inl Panic \<and> fst (tpm_unseal tr h auth s) \<noteq> Inl Panic \<and>
    fst (tpm_quote_with_key tr h pcrs s) \<noteq> Inl Panic \<and> fst (tpm_certify_with_key tr h h' s) \<noteq> Inl Panic \<and>
    fst (tpm_sign tr h data s) \<noteq> Inl Panic \<and> fst (tpm_verify_signature tr h data sig s) \<noteq> Inl Panic \<and>
    fst (tpm_flush_context tr h s) \<noteq> Inl Panic \<and> fst (tpm_evict_control tr h h' s) \<noteq> Inl Panic \<and>
    fst (tpm_read_pcrs_for_alg tr alg pcrs s) \<noteq> Inl Panic \<and>
    fst (tpm_compute_pcr_policy_digest rnd sha tr pcrs s) \<noteq> Inl Panic \<and>
    fst (tpm_rsa_decrypt rnd sha tr h pcrs data scheme s) \<noteq> Inl Panic \<and>
    fst (create_and_persist_ecc_signing_key tr s) \<noteq> Inl Panic \<and>
    fst (sign_with_ecc_key tr data s) \<noteq> Inl Panic \<and> fst (verify_with_ecc_key tr data sig s) \<noteq> Inl Panic \<and>
    fst (ensure_persistent_ak tr s) \<noteq> Inl Panic \<and> fst (get_ak_cert_trimmed tr s) \<noteq> Inl Panic \<and>
    fst (get_pcr_quote tr pcrs s) \<noteq> Inl Panic \<and> fst (get_ephemeral_key rnd sha tr pcrs s) \<noteq> Inl Panic \<and>
    fst (get_user_data_nv tr s) \<noteq> Inl Panic \<and> fst (get_cvm_report_raw tr user_data s) \<noteq> Inl Panic"
proof -
  have free: "panic_free_transport tr"
    using framed_transport.axioms(1) [OF hardware_framed [OF assms(1)]] assms(2) by simp
  note ops = panic_free_transport.nv_ops_no_panic [OF free] panic_free_transport.key_ops_no_panic [OF free]
    panic_free_transport.signing_ops_no_panic [OF free] panic_free_transport.nv_transfers_no_panic [OF free]
    panic_free_transport.authorized_ops_no_panic [OF free assms(4)]
    panic_free_transport.find_nv_index_no_panic [OF free] panic_free_transport.read_pcrs_no_panic [OF free]
    panic_free_transport.compute_pcr_policy_digest_no_panic [where rnd = rnd, OF free assms(3)]
    panic_free_transport.rsa_decrypt_no_panic [where rnd = rnd, OF free assms(3)]
  note flow = panic_free_transport.ecc_key_safe [OF free] panic_free_transport.ensure_ak_safe [OF free]
    panic_free_transport.ak_cert_safe [OF free] panic_free_transport.pcr_evidence_safe [OF free]
    panic_free_transport.ephemeral_key_safe [where rnd = rnd, OF free assms(3)]
    panic_free_transport.user_data_safe [OF free]
  show ?thesis by (intro conjI ops flow [unfolded st_safe_def, rule_format])
qed

theorem operations_never_panic_witness:
  "fst (tpm_unseal (tpm_transmit (Inner_Unix demo_file)) 0x80000001 [1, 2] [0, 0]) \<noteq> Inl Panic \<and>
   fst (tpm_rsa_decrypt demo_random id (tpm_transmit (Inner_Unix demo_file)) 0x80000001 [0] [1] Rsaes [0, 0]) \<noteq> Inl Panic"
proof -
  have r: "fst (demo_random 16 s) \<noteq> Inl Panic" for s :: bytes by (simp add: demo_random_def)
  have d: "\<not> is_reference (Inner_Unix demo_file)" by simp
  have a: "length [1, 2 :: u8] < 4294967287" by simp
  show ?thesis
    using operations_never_panic [where rnd = demo_random and tr = "tpm_transmit (Inner_Unix demo_file)",
        OF d refl r a, where h = "0x80000001" and s = "[0, 0]" and data = "[1]" and pcrs = "[0]"
          and sha = id and scheme = Rsaes]
    by blast
qed

text \<open>
  Without PCRs, \<open>rsa_decrypt\<close> sends one command: RSA_Decrypt on the
  key with the ciphertext and an empty label, where a 257-byte ciphertext with a leading
  zero byte has lost that byte; a longer ciphertext than 512 bytes sends nothing.
\<close>

theorem rsa_decrypt_request:
  "snd (snd (tpm_rsa_decrypt rnd sha (recording tr) key [] c scheme (s, []))) =
     (let c' = (if length c = 257 \<and> hd c = 0 then tl c else c)
      in if 512 < length c' then []
         else [pw_command RsaDecrypt [key]
                (sized_marshal c' @ rsa_decrypt_scheme_marshal scheme @ sized_marshal [])])"
proof -
  have t: "trim_ciphertext c = (if length c = 257 \<and> hd c = 0 then tl c else c)"
    by (cases c) (auto simp: trim_ciphertext_def)
  show ?thesis
    unfolding tpm_rsa_decrypt_def Let_def t
    by (simp add: st_then_def recording_def request_defs rsa_decrypt_marshal_def sized_marshal_def
        split: prod.split sum.split)
qed

text \<open>
  \<open>quote_with_key\<close> sends one Quote command with empty qualifying data, the
  RSASSA scheme with SHA-256 and the selection of the PCRs in the SHA-256 bank, or nothing
  when an index is above 23.
\<close>

theorem quote_request:
  "snd (snd (tpm_quote_with_key (recording tr) key pcrs (s, []))) =
     (if list_ex (\<lambda>p. 23 < p) pcrs then []
      else [pw_command Quote [key]
              (sized_marshal [] @ u16_marshal 0x0014 @ u16_marshal 0x000B @
               pcr_selection_list_wire (from_pcrs_with_alg pcrs 0x000B))])"
  by (auto simp: tpm_quote_with_key_def run_command_def exchange_def st_then_def recording_def request_defs
      quote_marshal_def tpm2b_defs from_pcrs_def ALG_SHA256_def list_ex_iff Let_def
      split: prod.split sum.split)

section \<open>Return codes and errors\<close>

text \<open>
  The target printed for a return code does not depend on
  bit 6, which the TPM sets for parameter errors: \<open>0x1C4\<close>, a bad value of parameter 1, is
  described as a handle error, and no format-1 code gives the fallback \<open>BASE\<close>.
\<close>

theorem target_ignores_parameter_bit:
  "decode_target (rc XOR 0x40) = decode_target rc \<and> decode_target 0x1C4 = ''HANDLE'' \<and>
   ((rc AND 0x80) = 0 \<or> decode_target rc \<in> {''PARAM'', ''HANDLE'', ''SESSION''})"
proof -
  have "(rc XOR 0x40) AND 0x80 = rc AND 0x80" "(rc XOR 0x40) AND 0x800 = rc AND 0x800"
    "(rc XOR 0x40) AND 0x100 = rc AND 0x100"
    by (simp_all add: bit.conj_xor_distrib2)
  then show ?thesis
    using decode_target_never_base [of rc] by (auto simp: decode_target_def Let_def)
qed

text \<open>
  Converting an I/O error to a \<open>TpmError\<close> and back is the identity,
  and the TPM code of a \<open>TpmError\<close> is still found after its conversion to an I/O error.
\<close>

theorem error_conversions:
  "io_error_from_tpm (tpm_error_from_io e) = e \<and>
   tpm_rc_from_io_error (io_error_from_tpm te) =
     (case te of Tpm_Io err \<Rightarrow> tpm_rc_from_io_error err | _ \<Rightarrow> tpm_rc_code te)"
  by (cases te) auto

section \<open>Templates\<close>

text \<open>
  The object attributes of the key templates, as the TPM reads
  them: the unrestricted RSA key decrypts and nothing else, the restricted
  key signs and is restricted, the ECC key signs; all are fixed to the TPM and exempt from
  dictionary-attack protection. An extend index has the TPM type EXTEND, an ordinary one
  does not.
\<close>

theorem template_attributes_exact:
  "tp_object_attributes (rsa_unrestricted_sign_decrypt_public_with_policy policy) = 0x00020432 \<and>
   tp_object_attributes rsa_restricted_signing_public = 0x00050472 \<and>
   te_object_attributes (ecc_unrestricted_signing_public_with_policy policy) = 0x00040472 \<and>
   is_extend_type (new_extend_index i n) \<and> \<not> is_extend_type (new_ordinary_index i n)"
  by (simp add: template_attributes is_extend_type_def new_extend_index_def new_ordinary_index_def
      with_field_def nv_offsets set_bit_eq_or)

end
